(* ===== verification/VMR_Prelude.thy ===== *)
theory VMR_Prelude
  imports Main "HOL-Library.Word" "HOL-Library.Monad_Syntax"
begin

text \<open>The prelude of the development: the machine-integer types of the firmware
  (\<open>u8\<close>, \<open>u16\<close>, \<open>u32\<close>, \<open>u64\<close> and \<open>size_t\<close>, which is 32 bits wide on the Cortex-R5), the error
  numbers of \<open>errno.h\<close> that the code returns, little-endian byte packing, and the generic
  lemmas on words, lists and byte stores that several components share.\<close>

unbundle bit_operations_syntax

section \<open>Machine integers and return codes\<close>

type_synonym u8 = "8 word"
type_synonym u16 = "16 word"
type_synonym u32 = "32 word"
type_synonym u64 = "64 word"
type_synonym size_t = "32 word"

text \<open>A C function that returns \<open>int\<close> returns zero on success and a negated error number
  otherwise.  The numbers are those of \<open>errno.h\<close>.\<close>

abbreviation ENOENT :: int where "ENOENT \<equiv> 2"
abbreviation EIO :: int where "EIO \<equiv> 5"
abbreviation E2BIG :: int where "E2BIG \<equiv> 7"
abbreviation EAGAIN :: int where "EAGAIN \<equiv> 11"
abbreviation ENOMEM :: int where "ENOMEM \<equiv> 12"
abbreviation EFAULT :: int where "EFAULT \<equiv> 14"
abbreviation EBUSY :: int where "EBUSY \<equiv> 16"
abbreviation ENODEV :: int where "ENODEV \<equiv> 19"
abbreviation EINVAL :: int where "EINVAL \<equiv> 22"
abbreviation ENOSPC :: int where "ENOSPC \<equiv> 28"
abbreviation EPROTO :: int where "EPROTO \<equiv> 71"
abbreviation EOPNOTSUPP :: int where "EOPNOTSUPP \<equiv> 95"

named_theorems mem_simps \<open>reading back the bytes and words of a store\<close>
named_theorems layout_simps \<open>address arithmetic of the shared-memory layout\<close>

section \<open>Words\<close>

lemma unat_diff_self_add [simp]: "unat ((a + of_nat i) - a :: u32) = i mod 2 ^ 32"
  by (simp add: unat_of_nat)

lemma ucast_add_u32: "(ucast (a + b :: u64) :: u32) = ucast a + ucast b"
proof (transfer)
  fix a b :: int
  have t: "take_bit 32 (take_bit 64 x) = take_bit 32 x" for x :: int
    by simp
  show "take_bit LENGTH(32) (take_bit LENGTH(64) (a + b)) =
        take_bit LENGTH(32) (take_bit LENGTH(64) a + take_bit LENGTH(64) b)"
    by (simp only: len_num0 len_num1 len_bit0 len_bit1 mult_2 mult_1_right)
       (simp, metis t take_bit_add)
qed

lemma ucast_u32_u64 [simp]: "(ucast (ucast (w :: u32) :: u64) :: u32) = w"
  by (rule bit_word_eqI) (simp add: bit_simps)

lemma unat_of_nat_u32 [simp]: "n < 2 ^ 32 \<Longrightarrow> unat (of_nat n :: u32) = n"
  by (simp add: unat_of_nat)

lemma of_nat_unat_u32 [simp]: "(of_nat (unat w) :: u32) = w"
  by simp

lemma unat_u32_less: "unat (w :: u32) < 4294967296"
  using unsigned_less [where ?'a = nat, of w] by simp

lemma u32_diff_eq_of_nat: "unat (x - a :: u32) = i \<Longrightarrow> x = a + of_nat i"
  by auto

text \<open>Two unsigned differences of one pair of words add up to the modulus.\<close>

lemma unat_diff_swap: "x \<noteq> a \<Longrightarrow> unat (x - a :: u32) + unat (a - x) = 2 ^ 32"
  using unat_u32_less [of x] unat_u32_less [of a]
  by (auto simp: unat_sub_if_size word_size word_unat_eq_iff)

lemma unat_exp_u32: "k < 32 \<Longrightarrow> unat (2 ^ k :: u32) = 2 ^ k"
  by (metis of_nat_numeral of_nat_power unat_of_nat_u32 power_strict_increasing
      one_less_numeral_iff semiring_norm(76))

lemma exp_less_exp31: "k \<le> 31 \<Longrightarrow> 2 ^ k < (2147483648 :: u32) \<longleftrightarrow> k < 31"
proof -
  assume k: "k \<le> 31"
  have "(2::nat) ^ k < 2 ^ 31 \<longleftrightarrow> k < 31"
    by (simp only: power_strict_increasing_iff one_less_numeral_iff semiring_norm)
  then show ?thesis using k by (simp add: word_less_nat_alt unat_exp_u32)
qed

lemma halve_exp_u32: "k < 31 \<Longrightarrow> drop_bit 1 (2 ^ Suc k :: u32) = 2 ^ k"
  by (rule bit_word_eqI) (auto simp: bit_simps)

section \<open>Lists\<close>

lemma map_nth_upt: "n \<le> length xs \<Longrightarrow> map (\<lambda>i. xs ! i) [0..<n] = take n xs"
  by (induct n) (auto simp: take_Suc_conv_app_nth)

end
