(* ===== verification/Cl_Io.thy ===== *)
theory Cl_Io
  imports VMR_Prelude
begin

text \<open>Model of \<open>include/cl_io.h\<close>: the accesses to the memory the processors share.
  The store maps a 32-bit bus address to a byte; the processor is little-endian.  The cache
  flushes of the \<open>IO_SYNC\<close> macros make a write visible and a read fresh; on a store they
  are the identity.  A buffer of the program (\<open>void *buf\<close>) is a list of bytes.
  The lemmas show that each copy loop is the block load or the block store of its range:
  exactly the bytes of the range change, in order, whether the length is a multiple of four
  or not.\<close>

section \<open>The byte store\<close>

type_synonym mem = "u32 \<Rightarrow> u8"

definition mem_load :: "mem \<Rightarrow> u32 \<Rightarrow> nat \<Rightarrow> u8 list" where
  "mem_load m a n = map (\<lambda>i. m (a + of_nat i)) [0..<n]"

definition mem_store :: "mem \<Rightarrow> u32 \<Rightarrow> u8 list \<Rightarrow> mem" where
  "mem_store m a bs = (\<lambda>x. if unat (x - a) < length bs then bs ! unat (x - a) else m x)"

definition bytes_of_u32 :: "u32 \<Rightarrow> u8 list" where
  "bytes_of_u32 w = [ucast w, ucast (drop_bit 8 w), ucast (drop_bit 16 w), ucast (drop_bit 24 w)]"

definition u32_of_bytes :: "u8 list \<Rightarrow> u32" where
  "u32_of_bytes bs = ucast (bs ! 0) OR push_bit 8 (ucast (bs ! 1))
     OR push_bit 16 (ucast (bs ! 2)) OR push_bit 24 (ucast (bs ! 3))"

section \<open>The access macros\<close>

definition IO_SYNC_READ32 :: "u32 \<Rightarrow> mem \<Rightarrow> u32" where
  "IO_SYNC_READ32 addr m = u32_of_bytes (mem_load m addr 4)"

definition IO_SYNC_READ8 :: "u32 \<Rightarrow> mem \<Rightarrow> u8" where
  "IO_SYNC_READ8 addr m = m addr"

definition IO_SYNC_WRITE32 :: "u32 \<Rightarrow> u32 \<Rightarrow> mem \<Rightarrow> mem" where
  "IO_SYNC_WRITE32 val addr m = mem_store m addr (bytes_of_u32 val)"

definition IO_SYNC_WRITE8 :: "u8 \<Rightarrow> u32 \<Rightarrow> mem \<Rightarrow> mem" where
  "IO_SYNC_WRITE8 val addr m = m(addr := val)"

section \<open>The copy loops\<close>

text \<open>Each loop counts \<open>i\<close> up and steps its address by the access width.  The result is the
  value returned (the length, or \<open>-1\<close>) and the store, or the buffer filled.\<close>

primrec toio32_loop :: "u32 \<Rightarrow> u8 list \<Rightarrow> nat \<Rightarrow> mem \<Rightarrow> mem" where
  "toio32_loop dst src 0 m = m"
| "toio32_loop dst src (Suc n) m =
     IO_SYNC_WRITE32 (u32_of_bytes (take 4 (drop (4 * n) src))) (dst + of_nat (4 * n))
       (toio32_loop dst src n m)"

definition cl_memcpy_toio32 :: "u32 \<Rightarrow> u8 list \<Rightarrow> nat \<Rightarrow> mem \<Rightarrow> int \<times> mem" where
  "cl_memcpy_toio32 dst buf len m =
     (if len mod 4 \<noteq> 0 then (-1, m) else (int len, toio32_loop dst buf (len div 4) m))"

primrec toio8_loop :: "u32 \<Rightarrow> u8 list \<Rightarrow> nat \<Rightarrow> mem \<Rightarrow> mem" where
  "toio8_loop dst src 0 m = m"
| "toio8_loop dst src (Suc n) m = IO_SYNC_WRITE8 (src ! n) (dst + of_nat n) (toio8_loop dst src n m)"

definition cl_memcpy_toio8 :: "u32 \<Rightarrow> u8 list \<Rightarrow> nat \<Rightarrow> mem \<Rightarrow> int \<times> mem" where
  "cl_memcpy_toio8 dst buf len m = (int len, toio8_loop dst buf len m)"

definition cl_memcpy_toio :: "u32 \<Rightarrow> u8 list \<Rightarrow> nat \<Rightarrow> mem \<Rightarrow> int \<times> mem" where
  "cl_memcpy_toio dst buf len m =
     (let last = len mod 4;
          (ret, m1) = cl_memcpy_toio32 dst buf (len - last) m
      in if ret \<noteq> int (len - last) then (ret, m1)
         else if last \<noteq> 0 then
           let (ret2, m2) = cl_memcpy_toio8 (dst + of_nat (len - last)) (drop (len - last) buf) last m1
           in if ret2 \<noteq> int last then (ret2, m2) else (int len, m2)
         else (int len, m1))"

primrec fromio32_loop :: "u32 \<Rightarrow> nat \<Rightarrow> mem \<Rightarrow> u8 list" where
  "fromio32_loop src 0 m = []"
| "fromio32_loop src (Suc n) m =
     fromio32_loop src n m @ bytes_of_u32 (IO_SYNC_READ32 (src + of_nat (4 * n)) m)"

definition cl_memcpy_fromio32 :: "u32 \<Rightarrow> nat \<Rightarrow> mem \<Rightarrow> int \<times> u8 list" where
  "cl_memcpy_fromio32 src len m =
     (if len mod 4 \<noteq> 0 then (-1, []) else (int len, fromio32_loop src (len div 4) m))"

primrec fromio8_loop :: "u32 \<Rightarrow> nat \<Rightarrow> mem \<Rightarrow> u8 list" where
  "fromio8_loop src 0 m = []"
| "fromio8_loop src (Suc n) m = fromio8_loop src n m @ [IO_SYNC_READ8 (src + of_nat n) m]"

definition cl_memcpy_fromio8 :: "u32 \<Rightarrow> nat \<Rightarrow> mem \<Rightarrow> int \<times> u8 list" where
  "cl_memcpy_fromio8 src len m = (int len, fromio8_loop src len m)"

definition cl_memcpy_fromio :: "u32 \<Rightarrow> nat \<Rightarrow> mem \<Rightarrow> int \<times> u8 list" where
  "cl_memcpy_fromio src len m =
     (let last = len mod 4;
          (ret, buf) = cl_memcpy_fromio32 src (len - last) m
      in if ret \<noteq> int (len - last) then (ret, buf)
         else if last \<noteq> 0 then
           let (ret2, buf2) = cl_memcpy_fromio8 (src + of_nat (len - last)) last m
           in if ret2 \<noteq> int last then (ret2, buf @ buf2) else (int len, buf @ buf2)
         else (int len, buf))"

text \<open>\<open>cl_memcpy\<close> copies inside the store, ascending byte by byte.\<close>

fun memcpy_loop :: "u32 \<Rightarrow> u32 \<Rightarrow> nat \<Rightarrow> mem \<Rightarrow> mem" where
  "memcpy_loop dst src 0 m = m"
| "memcpy_loop dst src (Suc n) m =
     memcpy_loop (dst + 1) (src + 1) n (IO_SYNC_WRITE8 (IO_SYNC_READ8 src m) dst m)"

definition cl_memcpy :: "u32 \<Rightarrow> u32 \<Rightarrow> nat \<Rightarrow> mem \<Rightarrow> int \<times> mem" where
  "cl_memcpy dst_addr src_addr n m = (int n, memcpy_loop dst_addr src_addr n m)"

primrec memset8_loop :: "u32 \<Rightarrow> u8 \<Rightarrow> nat \<Rightarrow> mem \<Rightarrow> mem" where
  "memset8_loop dst val 0 m = m"
| "memset8_loop dst val (Suc n) m = IO_SYNC_WRITE8 val (dst + of_nat n) (memset8_loop dst val n m)"

definition cl_memset_io8 :: "u32 \<Rightarrow> u8 \<Rightarrow> nat \<Rightarrow> mem \<Rightarrow> int \<times> mem" where
  "cl_memset_io8 dst val len m = (int len, memset8_loop dst val len m)"

text \<open>The 32-bit variant stores the byte \<open>val\<close> zero-extended, once per word.\<close>

primrec memset32_loop :: "u32 \<Rightarrow> u8 \<Rightarrow> nat \<Rightarrow> mem \<Rightarrow> mem" where
  "memset32_loop dst val 0 m = m"
| "memset32_loop dst val (Suc n) m =
     IO_SYNC_WRITE32 (ucast val) (dst + of_nat (4 * n)) (memset32_loop dst val n m)"

definition cl_memset_io32 :: "u32 \<Rightarrow> u8 \<Rightarrow> nat \<Rightarrow> mem \<Rightarrow> int \<times> mem" where
  "cl_memset_io32 dst val len m =
     (if len mod 4 \<noteq> 0 then (-1, m) else (int len, memset32_loop dst val (len div 4) m))"

definition cl_bswap32 :: "u32 \<Rightarrow> u32" where
  "cl_bswap32 x = drop_bit 24 x OR (drop_bit 8 x AND 0xff00) OR (push_bit 8 x AND 0xff0000)
     OR push_bit 24 x"

section \<open>Blocks of the store\<close>

lemma length_mem_load [simp]: "length (mem_load m a n) = n"
  by (simp add: mem_load_def)

lemma nth_mem_load [simp]: "i < n \<Longrightarrow> mem_load m a n ! i = m (a + of_nat i)"
  by (simp add: mem_load_def)

lemma mem_store_Nil [simp]: "mem_store m a [] = m"
  by (simp add: mem_store_def)

lemma mem_store_hit: "unat (x - a) < length bs \<Longrightarrow> mem_store m a bs x = bs ! unat (x - a)"
  by (simp add: mem_store_def)

lemma mem_store_miss: "length bs \<le> unat (x - a) \<Longrightarrow> mem_store m a bs x = m x"
  by (simp add: mem_store_def)

lemma mem_load_store_same [mem_simps]:
  "length bs < 2 ^ 32 \<Longrightarrow> mem_load (mem_store m a bs) a (length bs) = bs"
  by (rule nth_equalityI) (simp_all add: mem_store_def)

text \<open>The ranges of length \<open>n\<close> at \<open>a\<close> and of length \<open>k\<close> at \<open>b\<close> do not meet.\<close>

definition disjoint_ranges :: "u32 \<Rightarrow> nat \<Rightarrow> u32 \<Rightarrow> nat \<Rightarrow> bool" where
  "disjoint_ranges a n b k \<longleftrightarrow> n = 0 \<or> k = 0 \<or> (n \<le> unat (b - a) \<and> k \<le> unat (a - b))"

lemma unat_add_of_nat:
  "unat (a :: u32) + i < 2 ^ 32 \<Longrightarrow> unat (a + of_nat i) = unat a + i"
  by (simp add: unat_word_ariths unat_of_nat)

lemma unat_diff_add:
  assumes "n < 2 ^ 32"
  shows "unat (x - (a + of_nat n) :: u32) =
         (if n \<le> unat (x - a) then unat (x - a) - n else unat (x - a) + 2 ^ 32 - n)"
proof -
  have e: "x - (a + of_nat n) = (x - a) - of_nat n" by simp
  have "unat (d - of_nat n) = (if n \<le> unat d then unat d - n else unat d + 2 ^ 32 - n)"
    for d :: u32
    using assms by (simp add: unat_sub_if_size word_size unat_of_nat)
  then show ?thesis by (simp only: e)
qed

lemma disjoint_ranges_offset:
  assumes "disjoint_ranges a n b k" "i < k" "n \<noteq> 0"
  shows "n \<le> unat (b + of_nat i - a)"
proof -
  have d: "n \<le> unat (b - a)" "k \<le> unat (a - b)" using assms by (auto simp: disjoint_ranges_def)
  then have "b \<noteq> a" using assms by auto
  then have "unat (b - a) + unat (a - b) = 2 ^ 32" by (rule unat_diff_swap)
  then have "unat ((b - a) + of_nat i) = unat (b - a) + i"
    using d assms by (intro unat_add_of_nat) linarith
  moreover have "b + of_nat i - a = (b - a) + of_nat i" by simp
  ultimately show ?thesis using d by (simp only:)
qed

lemma mem_load_store_disjoint [mem_simps]:
  assumes "disjoint_ranges a (length bs) b k"
  shows "mem_load (mem_store m a bs) b k = mem_load m b k"
proof (cases "bs = []")
  case False
  then show ?thesis
    using disjoint_ranges_offset [OF assms] by (simp add: mem_load_def mem_store_miss)
qed simp

lemma disjoint_ranges_sym: "disjoint_ranges a n b k \<longleftrightarrow> disjoint_ranges b k a n"
  by (auto simp: disjoint_ranges_def)

lemma disjoint_ranges_sub:
  assumes "disjoint_ranges a n b k" "off + len \<le> k"
  shows "disjoint_ranges a n (b + of_nat off) len"
proof (cases "n = 0 \<or> len = 0")
  case False
  then have d: "n \<le> unat (b - a)" "k \<le> unat (a - b)" "off < k"
    using assms by (auto simp: disjoint_ranges_def)
  have "off < 2 ^ 32" using d(2,3) unat_u32_less [of "a - b"] by simp
  then have "unat (a - (b + of_nat off)) = unat (a - b) - off"
    using unat_diff_add [of off a b] d by simp
  moreover have "n \<le> unat (b + of_nat off - a)"
    using disjoint_ranges_offset [OF assms(1) d(3)] False by simp
  moreover have "len \<le> unat (a - b) - off" using assms(2) d(2) by linarith
  ultimately show ?thesis by (simp only: disjoint_ranges_def simp_thms)
qed (auto simp: disjoint_ranges_def)

lemma disjoint_ranges_offsets:
  assumes "u + n \<le> v \<and> v + k \<le> 2 ^ 32 \<or> v + k \<le> u \<and> u + n \<le> 2 ^ 32"
  shows "disjoint_ranges (base + of_nat u) n (base + of_nat v) k"
proof -
  have *: "disjoint_ranges (c + of_nat x) i (c + of_nat y) j"
    if "x + i \<le> y" "y + j \<le> 2 ^ 32" for c :: u32 and x i y j
  proof (cases "i = 0 \<or> j = 0")
    case False
    then have lt: "y < 2 ^ 32" "x < y" using that by auto
    have "(c + of_nat y) - (c + of_nat x) = (of_nat (y - x) :: u32)"
      using lt by (simp add: of_nat_diff)
    moreover have "unat (of_nat (y - x) :: u32) = y - x"
      using lt by (intro unat_of_nat_u32) simp
    ultimately have d: "unat ((c + of_nat y) - (c + of_nat x) :: u32) = y - x"
      by (simp only:)
    have "c + of_nat x \<noteq> (c + of_nat y :: u32)"
      using d lt by auto
    then have "unat ((c + of_nat x) - (c + of_nat y) :: u32) = 2 ^ 32 - (y - x)"
      using unat_diff_swap [OF \<open>c + of_nat x \<noteq> c + of_nat y\<close>] d by (metis diff_add_inverse2)
    moreover have "i \<le> y - x" "j \<le> 2 ^ 32 - (y - x)" using that lt by linarith+
    ultimately show ?thesis using d by (simp only: disjoint_ranges_def simp_thms)
  qed (auto simp: disjoint_ranges_def)
  show ?thesis
    using assms * [of u n v k base] * [of v k u n base] disjoint_ranges_sym by blast
qed

lemma mem_store_append:
  assumes "length xs + length ys \<le> 2 ^ 32" "length xs < 2 ^ 32"
  shows "mem_store (mem_store m a xs) (a + of_nat (length xs)) ys = mem_store m a (xs @ ys)"
proof
  fix x
  have "unat (x - a) < 2 ^ 32" using unat_u32_less [of "x - a"] by simp
  then show "mem_store (mem_store m a xs) (a + of_nat (length xs)) ys x = mem_store m a (xs @ ys) x"
    using assms unat_diff_add [of "length xs" x a]
    by (cases "unat (x - a) < length xs") (auto simp: mem_store_def nth_append)
qed

lemma mem_load_append: "mem_load m a (n + k) = mem_load m a n @ mem_load m (a + of_nat n) k"
  by (rule nth_equalityI)
     (auto simp: mem_load_def nth_append algebra_simps
           simp flip: of_nat_add)

lemma mem_store_single: "mem_store m a [v] = m(a := v)"
  by (rule ext) (simp add: mem_store_def unat_eq_0)

lemma mem_load_single: "mem_load m a (Suc 0) = [m a]"
  by (simp add: mem_load_def)

section \<open>Bytes of a word\<close>

lemma length_bytes_of_u32 [simp]: "length (bytes_of_u32 w) = 4"
  by (simp add: bytes_of_u32_def)

lemma u32_of_bytes_of_u32 [simp]: "u32_of_bytes (bytes_of_u32 w) = w"
proof (rule bit_word_eqI)
  fix n assume "n < LENGTH(32)"
  then show "bit (u32_of_bytes (bytes_of_u32 w)) n \<longleftrightarrow> bit w n"
    by (cases "24 \<le> n"; cases "16 \<le> n"; cases "8 \<le> n")
       (simp_all add: u32_of_bytes_def bytes_of_u32_def bit_simps less_diff_conv2)
qed

lemma bytes_of_u32_of_bytes: "length bs = 4 \<Longrightarrow> bytes_of_u32 (u32_of_bytes bs) = bs"
proof -
  assume l: "length bs = 4"
  then obtain a b c d where bs: "bs = [a, b, c, d]"
    by (auto simp: length_Suc_conv numeral_eq_Suc)
  have out: "\<not> bit x n" if "8 \<le> n" for x :: u8 and n
    using that by (auto dest: bit_imp_le_length)
  have "ucast (drop_bit k (u32_of_bytes bs)) = e"
    if "k = 0 \<and> e = a \<or> k = 8 \<and> e = b \<or> k = 16 \<and> e = c \<or> k = 24 \<and> e = d" for k and e :: u8
  proof (rule bit_word_eqI)
    fix n assume "n < LENGTH(8)"
    then have n: "n < 8" by simp
    show "bit (ucast (drop_bit k (u32_of_bytes bs)) :: u8) n \<longleftrightarrow> bit e n"
      using that n
      by (elim disjE conjE)
         (simp_all add: bs u32_of_bytes_def bit_or_iff bit_push_bit_iff bit_drop_bit_eq
           bit_ucast_iff out)
  qed
  from this [of 0 a] this [of 8 b] this [of 16 c] this [of 24 d] show ?thesis
    by (simp add: bytes_of_u32_def bs)
qed

section \<open>What the loops do\<close>

lemma read_write32_same [mem_simps]: "IO_SYNC_READ32 a (IO_SYNC_WRITE32 v a m) = v"
  using mem_load_store_same [of "bytes_of_u32 v" m a]
  by (simp add: IO_SYNC_READ32_def IO_SYNC_WRITE32_def)

lemma read32_store_disjoint [mem_simps]:
  "disjoint_ranges a (length bs) b 4 \<Longrightarrow> IO_SYNC_READ32 b (mem_store m a bs) = IO_SYNC_READ32 b m"
  by (simp add: IO_SYNC_READ32_def mem_load_store_disjoint)

lemma read_write32_disjoint [mem_simps]:
  "disjoint_ranges a 4 b 4 \<Longrightarrow> IO_SYNC_READ32 b (IO_SYNC_WRITE32 v a m) = IO_SYNC_READ32 b m"
  by (simp add: IO_SYNC_WRITE32_def read32_store_disjoint)

lemma mem_load_write32_disjoint [mem_simps]:
  "disjoint_ranges a 4 b k \<Longrightarrow> mem_load (IO_SYNC_WRITE32 v a m) b k = mem_load m b k"
  by (simp add: IO_SYNC_WRITE32_def mem_load_store_disjoint)

lemma toio32_loop_store:
  "4 * n \<le> length src \<Longrightarrow> 4 * n \<le> 2 ^ 32 \<Longrightarrow>
   toio32_loop dst src n m = mem_store m dst (take (4 * n) src)"
proof (induct n)
  case (Suc n)
  let ?w = "take 4 (drop (4 * n) src)"
  have "toio32_loop dst src (Suc n) m = mem_store (mem_store m dst (take (4 * n) src))
          (dst + of_nat (length (take (4 * n) src))) ?w"
    using Suc by (simp add: IO_SYNC_WRITE32_def bytes_of_u32_of_bytes)
  also have "\<dots> = mem_store m dst (take (4 * n) src @ ?w)"
    using Suc by (intro mem_store_append) simp_all
  also have "take (4 * n) src @ ?w = take (4 * Suc n) src"
    using take_add [of "4 * n" 4 src] by (simp add: add.commute)
  finally show ?case .
qed simp

lemma toio8_loop_store:
  "n \<le> length src \<Longrightarrow> n \<le> 2 ^ 32 \<Longrightarrow> toio8_loop dst src n m = mem_store m dst (take n src)"
proof (induct n)
  case (Suc n)
  have "toio8_loop dst src (Suc n) m = mem_store (mem_store m dst (take n src))
          (dst + of_nat (length (take n src))) [src ! n]"
    using Suc by (simp add: IO_SYNC_WRITE8_def mem_store_single)
  also have "\<dots> = mem_store m dst (take n src @ [src ! n])"
    using Suc by (intro mem_store_append) simp_all
  finally show ?case using Suc by (simp add: take_Suc_conv_app_nth)
qed simp

lemma cl_memcpy_toio_store:
  assumes "len \<le> length buf" "len < 2 ^ 32"
  shows "cl_memcpy_toio dst buf len m = (int len, mem_store m dst (take len buf))"
proof -
  define l where "l = len - len mod 4"
  have l: "len = l + len mod 4" "l mod 4 = 0" "4 * (l div 4) = l" "l \<le> len"
    by (auto simp: l_def minus_mod_eq_mult_div)
  have w: "toio32_loop dst buf (l div 4) m = mem_store m dst (take l buf)"
    using toio32_loop_store [of "l div 4" buf] l assms by simp
  have "mem_store (mem_store m dst (take l buf)) (dst + of_nat l) (take (len mod 4) (drop l buf))
        = mem_store m dst (take l buf @ take (len mod 4) (drop l buf))"
    using mem_store_append [of "take l buf" "take (len mod 4) (drop l buf)"] l assms
    by (simp add: min_absorb2)
  moreover have "take l buf @ take (len mod 4) (drop l buf) = take len buf"
    using l(1) take_add [of l "len mod 4" buf] by simp
  ultimately have t: "toio8_loop (dst + of_nat l) (drop l buf) (len mod 4) (mem_store m dst (take l buf))
      = mem_store m dst (take len buf)"
    using l assms by (subst toio8_loop_store) auto
  have "cl_memcpy_toio32 dst buf l m = (int l, mem_store m dst (take l buf))"
    using l w by (simp add: cl_memcpy_toio32_def)
  moreover have "take l buf = take len buf" if "len mod 4 = 0"
    using l(1) that by simp
  ultimately show ?thesis
    using t unfolding cl_memcpy_toio_def Let_def l_def [symmetric] cl_memcpy_toio8_def by simp
qed

lemma fromio32_loop_load: "fromio32_loop src n m = mem_load m src (4 * n)"
proof (induct n)
  case (Suc n)
  then show ?case
    using mem_load_append [of m src "4 * n" 4]
    by (simp add: IO_SYNC_READ32_def bytes_of_u32_of_bytes add.commute)
qed (simp add: mem_load_def)

lemma fromio8_loop_load: "fromio8_loop src n m = mem_load m src n"
  by (induct n) (simp_all add: mem_load_def IO_SYNC_READ8_def)

lemma cl_memcpy_fromio_load: "cl_memcpy_fromio src len m = (int len, mem_load m src len)"
proof -
  define l where "l = len - len mod 4"
  have l: "len = l + len mod 4" "l mod 4 = 0" "4 * (l div 4) = l"
    by (auto simp: l_def minus_mod_eq_mult_div)
  have "mem_load m src len = mem_load m src l @ mem_load m (src + of_nat l) (len mod 4)"
    using mem_load_append [of m src l "len mod 4"] l(1) by simp
  moreover have "mem_load m src 0 = []" by (simp add: mem_load_def)
  ultimately show ?thesis
    using l
    by (auto simp: cl_memcpy_fromio_def cl_memcpy_fromio32_def cl_memcpy_fromio8_def Let_def
        fromio32_loop_load fromio8_loop_load l_def [symmetric])
qed

lemma memcpy_loop_store:
  "disjoint_ranges src n dst n \<Longrightarrow> n < 2 ^ 32 \<Longrightarrow>
   memcpy_loop dst src n m = mem_store m dst (mem_load m src n)"
proof (induct n arbitrary: dst src m)
  case (Suc n)
  let ?m = "mem_store m dst [m src]"
  have d: "disjoint_ranges (src + 1) n (dst + 1) n" "disjoint_ranges dst 1 (src + 1) n"
  proof -
    have l: "Suc n \<le> unat (src - dst)" "Suc n \<le> unat (dst - src)"
      using Suc.prems by (auto simp: disjoint_ranges_def)
    have u: "unat (dst - (src + 1)) = unat (dst - src) - 1"
      using l unat_diff_add [of 1 dst src] by simp
    have "n = 0 \<or> src + 1 - dst \<noteq> 0"
    proof (rule disjCI)
      assume "\<not> src + 1 - dst \<noteq> 0"
      then have "dst - src = 1" by (simp add: algebra_simps)
      then show "n = 0" using l by simp
    qed
    then have "n = 0 \<or> 1 \<le> unat (src + 1 - dst)"
      by (metis One_nat_def Suc_leI gr0I unat_eq_zero)
    then show "disjoint_ranges (src + 1) n (dst + 1) n" "disjoint_ranges dst 1 (src + 1) n"
      using l u by (auto simp: disjoint_ranges_def)
  qed
  have "memcpy_loop dst src (Suc n) m = memcpy_loop (dst + 1) (src + 1) n ?m"
    by (simp add: IO_SYNC_WRITE8_def IO_SYNC_READ8_def mem_store_single)
  also have "\<dots> = mem_store ?m (dst + 1) (mem_load m (src + 1) n)"
    using Suc d by (simp add: mem_load_store_disjoint)
  also have "\<dots> = mem_store m dst (m src # mem_load m (src + 1) n)"
    using mem_store_append [of "[m src]" "mem_load m (src + 1) n" m dst] Suc.prems by simp
  also have "m src # mem_load m (src + 1) n = mem_load m src (Suc n)"
    using mem_load_append [of m src 1 n] by (simp add: mem_load_single)
  finally show ?case .
qed (simp add: mem_load_def)

lemma memset8_loop_store: "n \<le> 2 ^ 32 \<Longrightarrow> memset8_loop dst val n m = mem_store m dst (replicate n val)"
proof (induct n)
  case (Suc n)
  then have "memset8_loop dst val (Suc n) m =
      mem_store (mem_store m dst (replicate n val)) (dst + of_nat (length (replicate n val))) [val]"
    by (simp add: IO_SYNC_WRITE8_def mem_store_single)
  also have "\<dots> = mem_store m dst (replicate n val @ [val])"
    using Suc by (intro mem_store_append) simp_all
  finally show ?case by (simp add: replicate_append_same)
qed simp

lemma memset32_loop_store:
  "4 * n \<le> 2 ^ 32 \<Longrightarrow>
   memset32_loop dst val n m = mem_store m dst (concat (replicate n (bytes_of_u32 (ucast val))))"
proof (induct n)
  case (Suc n)
  let ?r = "concat (replicate n (bytes_of_u32 (ucast val)))"
  have l: "length ?r = 4 * n" by (induct n) simp_all
  have "memset32_loop dst val (Suc n) m =
      mem_store (mem_store m dst ?r) (dst + of_nat (length ?r)) (bytes_of_u32 (ucast val))"
    using Suc l by (simp add: IO_SYNC_WRITE32_def)
  also have "\<dots> = mem_store m dst (?r @ bytes_of_u32 (ucast val))"
    using Suc l by (intro mem_store_append) simp_all
  also have "?r @ bytes_of_u32 (ucast val) = concat (replicate (Suc n) (bytes_of_u32 (ucast val)))"
    by (simp flip: replicate_append_same)
  finally show ?case .
qed simp

section \<open>Properties\<close>

text \<open>C5: Writing a buffer to shared memory with \<open>cl_memcpy_toio\<close> returns its length for
  every length, aligned or not; reading the range back with \<open>cl_memcpy_fromio\<close> gives the same
  bytes, and no byte outside the range changes.\<close>

theorem cl_memcpy_toio_fromio:
  assumes "len \<le> length buf" "len < 2 ^ 32"
  shows "fst (cl_memcpy_toio dst buf len m) = int len
    \<and> cl_memcpy_fromio dst len (snd (cl_memcpy_toio dst buf len m)) = (int len, take len buf)
    \<and> (\<forall>x. len \<le> unat (x - dst) \<longrightarrow> snd (cl_memcpy_toio dst buf len m) x = m x)"
  using assms mem_load_store_same [of "take len buf" m dst]
  by (simp add: cl_memcpy_toio_store cl_memcpy_fromio_load mem_store_miss min_absorb2)

theorem cl_memcpy_toio_fromio_witness:
  "cl_memcpy_fromio 0x38000FFE 7 (snd (cl_memcpy_toio 0x38000FFE [1,2,3,4,5,6,7] 7 (\<lambda>_. 0)))
     = (7, [1,2,3,4,5,6,7])"
  using cl_memcpy_toio_fromio [of 7 "[1,2,3,4,5,6,7]" "0x38000FFE" "\<lambda>_. 0"] by simp

text \<open>C6: Between ranges that do not meet, \<open>cl_memcpy\<close> copies every byte of the source to the
  destination, keeps the source, and changes no byte outside the destination.\<close>

theorem cl_memcpy_copies:
  assumes "disjoint_ranges src n dst n" "n < 2 ^ 32" "cl_memcpy dst src n m = (ret, m')"
  shows "ret = int n \<and> mem_load m' dst n = mem_load m src n \<and> mem_load m' src n = mem_load m src n
    \<and> (\<forall>x. n \<le> unat (x - dst) \<longrightarrow> m' x = m x)"
proof -
  have m': "m' = mem_store m dst (mem_load m src n)" "ret = int n"
    using assms by (auto simp: cl_memcpy_def memcpy_loop_store)
  then show ?thesis
    using assms(1,2) mem_load_store_same [of "mem_load m src n" m dst]
      mem_load_store_disjoint [of dst "mem_load m src n" src n m]
    by (simp add: mem_store_miss disjoint_ranges_sym [of dst])
qed

theorem cl_memcpy_copies_witness:
  "mem_load (snd (cl_memcpy 16 8 3 (\<lambda>a. ucast a))) 16 3 = [8, 9, 10]"
  using cl_memcpy_copies [of 8 3 16 "\<lambda>a. ucast a" 3 "snd (cl_memcpy 16 8 3 (\<lambda>a. ucast a))"]
  by (simp add: disjoint_ranges_def cl_memcpy_def mem_load_def upt_rec)

lemma cl_bswap32_bytes: "cl_bswap32 x = u32_of_bytes (rev (bytes_of_u32 x))"
proof (rule bit_word_eqI)
  fix n assume "n < LENGTH(32)"
  have k: "(0xff00 :: u32) = push_bit 8 (mask 8)" "(0xff0000 :: u32) = push_bit 16 (mask 8)"
    by (simp_all add: mask_eq_exp_minus_1 push_bit_eq_mult)
  have out: "\<not> bit x k" if "32 \<le> k" for k
    using that by (auto dest: bit_imp_le_length)
  show "bit (cl_bswap32 x) n \<longleftrightarrow> bit (u32_of_bytes (rev (bytes_of_u32 x))) n"
    using \<open>n < LENGTH(32)\<close> unfolding cl_bswap32_def k
    by (cases "24 \<le> n"; cases "16 \<le> n"; cases "8 \<le> n")
       (simp_all add: u32_of_bytes_def bytes_of_u32_def bit_simps less_diff_conv2 out)
qed

lemma cl_bswap32_involution: "cl_bswap32 (cl_bswap32 x) = x"
  by (simp add: cl_bswap32_bytes bytes_of_u32_of_bytes)

end
