(* ===== verification/Cl_Msg.thy ===== *)
theory Cl_Msg
  imports Cl_Io
begin

text \<open>The messages the tasks of the firmware exchange (\<open>include/cl_msg.h\<close>) and the commands of
  the host they are made from (\<open>common/xgq_cmd_common.h\<close>, \<open>common/xgq_cmd_vmr.h\<close>).  Each C
  enum is a datatype with its numbers.  The members of the union in \<open>cl_msg_t\<close> are separate
  records: a request is written and read through one member.  Bit fields are read out of the
  words of the queue entry and are truncated to their width when they are assigned.\<close>

section \<open>Message types (cl_msg.h)\<close>

datatype cl_msg_type =
    CL_MSG_UNKNOWN
  | CL_MSG_PDI
  | CL_MSG_XCLBIN
  | CL_MSG_LOG_PAGE
  | CL_MSG_CLOCK
  | CL_MSG_SENSOR
  | CL_MSG_APUBIN
  | CL_MSG_PROGRAM_SCFW
  | CL_MSG_PROGRAM_VMR
  | CL_MSG_VMR_CONTROL
  | CL_MSG_VMR_IDENTIFY
  | CL_MSG_CLK_THROTTLING
  | CL_MSG_CLK_DISABLE
  | CL_MSG_CLK_ENABLE

primrec cl_msg_type_num :: "cl_msg_type \<Rightarrow> u32" where
  "cl_msg_type_num CL_MSG_UNKNOWN = 0"
| "cl_msg_type_num CL_MSG_PDI = 1"
| "cl_msg_type_num CL_MSG_XCLBIN = 2"
| "cl_msg_type_num CL_MSG_LOG_PAGE = 3"
| "cl_msg_type_num CL_MSG_CLOCK = 4"
| "cl_msg_type_num CL_MSG_SENSOR = 5"
| "cl_msg_type_num CL_MSG_APUBIN = 6"
| "cl_msg_type_num CL_MSG_PROGRAM_SCFW = 7"
| "cl_msg_type_num CL_MSG_PROGRAM_VMR = 8"
| "cl_msg_type_num CL_MSG_VMR_CONTROL = 9"
| "cl_msg_type_num CL_MSG_VMR_IDENTIFY = 0xa"
| "cl_msg_type_num CL_MSG_CLK_THROTTLING = 0xb"
| "cl_msg_type_num CL_MSG_CLK_DISABLE = 0xc"
| "cl_msg_type_num CL_MSG_CLK_ENABLE = 0xd"

datatype cl_sensor_type =
    CL_SENSOR_GET_SIZE
  | CL_SENSOR_BDINFO
  | CL_SENSOR_TEMP
  | CL_SENSOR_VOLTAGE
  | CL_SENSOR_CURRENT
  | CL_SENSOR_POWER
  | CL_SENSOR_QSFP
  | CL_SENSOR_ALL

primrec cl_sensor_num :: "cl_sensor_type \<Rightarrow> u32" where
  "cl_sensor_num CL_SENSOR_GET_SIZE = 0"
| "cl_sensor_num CL_SENSOR_BDINFO = 0xc0"
| "cl_sensor_num CL_SENSOR_TEMP = 0xc1"
| "cl_sensor_num CL_SENSOR_VOLTAGE = 0xc2"
| "cl_sensor_num CL_SENSOR_CURRENT = 0xc3"
| "cl_sensor_num CL_SENSOR_POWER = 0xc4"
| "cl_sensor_num CL_SENSOR_QSFP = 0xc5"
| "cl_sensor_num CL_SENSOR_ALL = 0xff"

datatype cl_log_type =
    CL_LOG_UNKNOWN
  | CL_LOG_AF_CHECK
  | CL_LOG_FW
  | CL_LOG_INFO
  | CL_LOG_AF_CLEAR
  | CL_LOG_ENDPOINT
  | CL_LOG_TASK_STATS
  | CL_LOG_MEM_STATS
  | CL_LOG_SYSTEM_DTB
  | CL_LOG_PLM_LOG
  | CL_LOG_APU_LOG
  | CL_LOG_SHELL_INTERFACE_UUID
  | CL_LOG_DEFAULT_FPT
  | CL_LOG_BACKUP_FPT
  | CL_LOG_MAX_TYPE

primrec cl_log_num :: "cl_log_type \<Rightarrow> u32" where
  "cl_log_num CL_LOG_UNKNOWN = 0"
| "cl_log_num CL_LOG_AF_CHECK = 1"
| "cl_log_num CL_LOG_FW = 2"
| "cl_log_num CL_LOG_INFO = 3"
| "cl_log_num CL_LOG_AF_CLEAR = 4"
| "cl_log_num CL_LOG_ENDPOINT = 5"
| "cl_log_num CL_LOG_TASK_STATS = 6"
| "cl_log_num CL_LOG_MEM_STATS = 7"
| "cl_log_num CL_LOG_SYSTEM_DTB = 8"
| "cl_log_num CL_LOG_PLM_LOG = 9"
| "cl_log_num CL_LOG_APU_LOG = 0x10"
| "cl_log_num CL_LOG_SHELL_INTERFACE_UUID = 0xa"
| "cl_log_num CL_LOG_DEFAULT_FPT = 0xb"
| "cl_log_num CL_LOG_BACKUP_FPT = 0xc"
| "cl_log_num CL_LOG_MAX_TYPE = 0xd"

datatype cl_clock_type =
    CL_CLOCK_UNKNOWN
  | CL_CLOCK_WIZARD
  | CL_CLOCK_COUNTER
  | CL_CLOCK_SCALE
  | CL_CLOCK_SCALE_INTERNAL

primrec cl_clock_num :: "cl_clock_type \<Rightarrow> u32" where
  "cl_clock_num CL_CLOCK_UNKNOWN = 0"
| "cl_clock_num CL_CLOCK_WIZARD = 1"
| "cl_clock_num CL_CLOCK_COUNTER = 2"
| "cl_clock_num CL_CLOCK_SCALE = 3"
| "cl_clock_num CL_CLOCK_SCALE_INTERNAL = 4"

datatype cl_vmr_control_type =
    CL_VMR_QUERY
  | CL_MULTIBOOT_DEFAULT
  | CL_MULTIBOOT_BACKUP
  | CL_PROGRAM_SC
  | CL_VMR_DEBUG
  | CL_VMR_EEMI_SRST

primrec cl_vmr_control_num :: "cl_vmr_control_type \<Rightarrow> u32" where
  "cl_vmr_control_num CL_VMR_QUERY = 0"
| "cl_vmr_control_num CL_MULTIBOOT_DEFAULT = 1"
| "cl_vmr_control_num CL_MULTIBOOT_BACKUP = 2"
| "cl_vmr_control_num CL_PROGRAM_SC = 3"
| "cl_vmr_control_num CL_VMR_DEBUG = 4"
| "cl_vmr_control_num CL_VMR_EEMI_SRST = 5"

datatype cl_vmr_debug_type =
    CL_DBG_CLEAR
  | CL_DBG_DISABLE_RMGMT
  | CL_DBG_DISABLE_VMC

primrec cl_vmr_debug_num :: "cl_vmr_debug_type \<Rightarrow> u32" where
  "cl_vmr_debug_num CL_DBG_CLEAR = 0"
| "cl_vmr_debug_num CL_DBG_DISABLE_RMGMT = 1"
| "cl_vmr_debug_num CL_DBG_DISABLE_VMC = 2"

datatype cl_clk_scaling_type =
    CL_CLK_SCALING_READ
  | CL_CLK_SCALING_SET

primrec cl_clk_scaling_num :: "cl_clk_scaling_type \<Rightarrow> u32" where
  "cl_clk_scaling_num CL_CLK_SCALING_READ = 1"
| "cl_clk_scaling_num CL_CLK_SCALING_SET = 2"

section \<open>Messages\<close>

record xgq_vmr_data_payload =
  data_address :: u32
  data_size :: u32
  data_remain_size :: u32
  data_flash_no_backup :: bool
  data_flash_to_legacy :: bool
  data_priv :: u64

record xgq_vmr_log_payload =
  log_address :: u32
  log_size :: u32
  log_offset :: u32
  log_pid :: u32

record xgq_vmr_sensor_payload =
  sensor_address :: u32
  sensor_size :: u32
  sensor_offset :: u32
  sensor_aid :: u32
  sensor_sid :: u32
  sensor_id :: u32

record xgq_vmr_clock_payload =
  ocl_region :: u32
  ocl_req_type :: u32
  ocl_req_id :: u32
  ocl_req_num :: u32
  ocl_req_freq :: "u32 list"

record xgq_vmr_multiboot_payload =
  mb_req_type :: u32
  mb_has_fpt :: bool
  mb_has_fpt_recovery :: bool
  mb_boot_on_default :: bool
  mb_boot_on_backup :: bool
  mb_boot_on_recovery :: bool
  mb_has_extfpt :: bool
  mb_has_ext_xsabin :: bool
  mb_has_ext_scfw :: bool
  mb_has_ext_sysdtb :: bool
  mb_current_multi_boot_offset :: u16
  mb_boot_on_offset :: u16
  mb_default_partition_offset :: u32
  mb_default_partition_size :: u32
  mb_backup_partition_offset :: u32
  mb_backup_partition_size :: u32
  mb_scfw_offset :: u32
  mb_scfw_size :: u32
  mb_xsabin_offset :: u32
  mb_xsabin_size :: u32
  mb_sysdtb_offset :: u32
  mb_sysdtb_size :: u32
  mb_pdimeta_offset :: u32
  mb_pdimeta_size :: u32
  mb_pdimeta_backup_offset :: u32
  mb_pdimeta_backup_size :: u32
  mb_vmr_debug_type :: u8
  mb_ospi_version_offset :: u32
  mb_ospi_version_size :: u32

record xgq_vmr_clk_scaling_payload =
  cs_aid :: u32
  cs_scaling_en :: u32
  cs_pwr_scaling_ovrd_limit :: u32
  cs_temp_scaling_ovrd_limit :: u32
  cs_reset :: u32
  cs_pwr_ovrd_en :: u32
  cs_temp_ovrd_en :: u32

record xgq_vmr_head =
  version_major :: u16
  version_minor :: u16
  msg_type :: u16
  msg_cid :: u16
  msg_rcode :: u32

record cl_msg =
  hdr :: xgq_vmr_head
  data_payload :: xgq_vmr_data_payload
  log_payload :: xgq_vmr_log_payload
  clock_payload :: xgq_vmr_clock_payload
  sensor_payload :: xgq_vmr_sensor_payload
  clk_scaling_payload :: xgq_vmr_clk_scaling_payload
  multiboot_payload :: xgq_vmr_multiboot_payload

text \<open>The initialiser \<open>{ 0 }\<close>.\<close>

definition multiboot_zero :: xgq_vmr_multiboot_payload where
  "multiboot_zero = \<lparr> mb_req_type = 0, mb_has_fpt = False, mb_has_fpt_recovery = False,
     mb_boot_on_default = False, mb_boot_on_backup = False, mb_boot_on_recovery = False,
     mb_has_extfpt = False, mb_has_ext_xsabin = False, mb_has_ext_scfw = False,
     mb_has_ext_sysdtb = False, mb_current_multi_boot_offset = 0, mb_boot_on_offset = 0,
     mb_default_partition_offset = 0, mb_default_partition_size = 0,
     mb_backup_partition_offset = 0, mb_backup_partition_size = 0, mb_scfw_offset = 0,
     mb_scfw_size = 0, mb_xsabin_offset = 0, mb_xsabin_size = 0, mb_sysdtb_offset = 0,
     mb_sysdtb_size = 0, mb_pdimeta_offset = 0, mb_pdimeta_size = 0,
     mb_pdimeta_backup_offset = 0, mb_pdimeta_backup_size = 0, mb_vmr_debug_type = 0,
     mb_ospi_version_offset = 0, mb_ospi_version_size = 0 \<rparr>"

definition cl_msg_zero :: cl_msg where
  "cl_msg_zero = \<lparr> hdr = \<lparr> version_major = 0, version_minor = 0, msg_type = 0, msg_cid = 0,
       msg_rcode = 0 \<rparr>,
     data_payload = \<lparr> data_address = 0, data_size = 0, data_remain_size = 0,
       data_flash_no_backup = False, data_flash_to_legacy = False, data_priv = 0 \<rparr>,
     log_payload = \<lparr> log_address = 0, log_size = 0, log_offset = 0, log_pid = 0 \<rparr>,
     clock_payload = \<lparr> ocl_region = 0, ocl_req_type = 0, ocl_req_id = 0, ocl_req_num = 0,
       ocl_req_freq = [0, 0, 0, 0] \<rparr>,
     sensor_payload = \<lparr> sensor_address = 0, sensor_size = 0, sensor_offset = 0, sensor_aid = 0,
       sensor_sid = 0, sensor_id = 0 \<rparr>,
     clk_scaling_payload = \<lparr> cs_aid = 0, cs_scaling_en = 0, cs_pwr_scaling_ovrd_limit = 0,
       cs_temp_scaling_ovrd_limit = 0, cs_reset = 0, cs_pwr_ovrd_en = 0, cs_temp_ovrd_en = 0 \<rparr>,
     multiboot_payload = multiboot_zero \<rparr>"

definition cl_msg_set_rcode :: "int \<Rightarrow> cl_msg \<Rightarrow> cl_msg" where
  "cl_msg_set_rcode rcode msg = msg\<lparr>hdr := (hdr msg)\<lparr>msg_rcode := of_int rcode\<rparr>\<rparr>"

definition cl_msg_get_rcode :: "cl_msg \<Rightarrow> u32" where
  "cl_msg_get_rcode msg = msg_rcode (hdr msg)"

definition cl_msg_set_type :: "cl_msg_type \<Rightarrow> cl_msg \<Rightarrow> cl_msg" where
  "cl_msg_set_type t msg = msg\<lparr>hdr := (hdr msg)\<lparr>msg_type := ucast (cl_msg_type_num t)\<rparr>\<rparr>"

section \<open>Commands of the host (xgq_cmd_common.h, xgq_cmd_vmr.h)\<close>

datatype xgq_cmd_opcode =
    XGQ_CMD_OP_LOAD_XCLBIN
  | XGQ_CMD_OP_CONFIGURE
  | XGQ_CMD_OP_GET_LOG_PAGE
  | XGQ_CMD_OP_DOWNLOAD_PDI
  | XGQ_CMD_OP_CLOCK
  | XGQ_CMD_OP_SENSOR
  | XGQ_CMD_OP_LOAD_APUBIN
  | XGQ_CMD_OP_VMR_CONTROL
  | XGQ_CMD_OP_PROGRAM_SCFW
  | XGQ_CMD_OP_CLK_THROTTLING
  | XGQ_CMD_OP_PROGRAM_VMR
  | XGQ_CMD_OP_START_CUIDX
  | XGQ_CMD_OP_START_CUIDX_INDIR
  | XGQ_CMD_OP_START_CUIDX_KV
  | XGQ_CMD_OP_START_CUIDX_KV_INDIR
  | XGQ_CMD_OP_INIT_CUIDX
  | XGQ_CMD_OP_INIT_CUIDX_INDIR
  | XGQ_CMD_OP_INIT_CUIDX_KV
  | XGQ_CMD_OP_INIT_CUIDX_KV_INDIR
  | XGQ_CMD_OP_CFG_START
  | XGQ_CMD_OP_CFG_END
  | XGQ_CMD_OP_CFG_CU
  | XGQ_CMD_OP_QUERY_CU
  | XGQ_CMD_OP_CLOCK_CALIB
  | XGQ_CMD_OP_ACCESS_VALID
  | XGQ_CMD_OP_DATA_INTEGRITY
  | XGQ_CMD_OP_EXIT
  | XGQ_CMD_OP_UNCFG_CU
  | XGQ_CMD_OP_QUERY_MEM
  | XGQ_CMD_OP_BARRIER
  | XGQ_CMD_OP_EXIT_ERT
  | XGQ_CMD_OP_IDENTIFY
  | XGQ_CMD_OP_TIMESET

primrec xgq_cmd_opcode_num :: "xgq_cmd_opcode \<Rightarrow> u32" where
  "xgq_cmd_opcode_num XGQ_CMD_OP_LOAD_XCLBIN = 0"
| "xgq_cmd_opcode_num XGQ_CMD_OP_CONFIGURE = 1"
| "xgq_cmd_opcode_num XGQ_CMD_OP_GET_LOG_PAGE = 8"
| "xgq_cmd_opcode_num XGQ_CMD_OP_DOWNLOAD_PDI = 0xa"
| "xgq_cmd_opcode_num XGQ_CMD_OP_CLOCK = 0xb"
| "xgq_cmd_opcode_num XGQ_CMD_OP_SENSOR = 0xc"
| "xgq_cmd_opcode_num XGQ_CMD_OP_LOAD_APUBIN = 0xd"
| "xgq_cmd_opcode_num XGQ_CMD_OP_VMR_CONTROL = 0xe"
| "xgq_cmd_opcode_num XGQ_CMD_OP_PROGRAM_SCFW = 0xf"
| "xgq_cmd_opcode_num XGQ_CMD_OP_CLK_THROTTLING = 0x10"
| "xgq_cmd_opcode_num XGQ_CMD_OP_PROGRAM_VMR = 0x11"
| "xgq_cmd_opcode_num XGQ_CMD_OP_START_CUIDX = 0x100"
| "xgq_cmd_opcode_num XGQ_CMD_OP_START_CUIDX_INDIR = 0x101"
| "xgq_cmd_opcode_num XGQ_CMD_OP_START_CUIDX_KV = 0x102"
| "xgq_cmd_opcode_num XGQ_CMD_OP_START_CUIDX_KV_INDIR = 0x103"
| "xgq_cmd_opcode_num XGQ_CMD_OP_INIT_CUIDX = 0x104"
| "xgq_cmd_opcode_num XGQ_CMD_OP_INIT_CUIDX_INDIR = 0x105"
| "xgq_cmd_opcode_num XGQ_CMD_OP_INIT_CUIDX_KV = 0x106"
| "xgq_cmd_opcode_num XGQ_CMD_OP_INIT_CUIDX_KV_INDIR = 0x107"
| "xgq_cmd_opcode_num XGQ_CMD_OP_CFG_START = 0x108"
| "xgq_cmd_opcode_num XGQ_CMD_OP_CFG_END = 0x109"
| "xgq_cmd_opcode_num XGQ_CMD_OP_CFG_CU = 0x10a"
| "xgq_cmd_opcode_num XGQ_CMD_OP_QUERY_CU = 0x10b"
| "xgq_cmd_opcode_num XGQ_CMD_OP_CLOCK_CALIB = 0x10c"
| "xgq_cmd_opcode_num XGQ_CMD_OP_ACCESS_VALID = 0x10d"
| "xgq_cmd_opcode_num XGQ_CMD_OP_DATA_INTEGRITY = 0x10e"
| "xgq_cmd_opcode_num XGQ_CMD_OP_EXIT = 0x10f"
| "xgq_cmd_opcode_num XGQ_CMD_OP_UNCFG_CU = 0x110"
| "xgq_cmd_opcode_num XGQ_CMD_OP_QUERY_MEM = 0x111"
| "xgq_cmd_opcode_num XGQ_CMD_OP_BARRIER = 0x200"
| "xgq_cmd_opcode_num XGQ_CMD_OP_EXIT_ERT = 0x201"
| "xgq_cmd_opcode_num XGQ_CMD_OP_IDENTIFY = 0x202"
| "xgq_cmd_opcode_num XGQ_CMD_OP_TIMESET = 0x204"

datatype xgq_cmd_sensor_page_id =
    XGQ_CMD_SENSOR_SID_GET_SIZE
  | XGQ_CMD_SENSOR_SID_BDINFO
  | XGQ_CMD_SENSOR_SID_TEMP
  | XGQ_CMD_SENSOR_SID_VOLTAGE
  | XGQ_CMD_SENSOR_SID_CURRENT
  | XGQ_CMD_SENSOR_SID_POWER
  | XGQ_CMD_SENSOR_SID_QSFP
  | XGQ_CMD_SENSOR_SID_ALL
  | XGQ_CMD_SENSOR_SID_MAX

primrec xgq_sensor_sid_num :: "xgq_cmd_sensor_page_id \<Rightarrow> u32" where
  "xgq_sensor_sid_num XGQ_CMD_SENSOR_SID_GET_SIZE = 0"
| "xgq_sensor_sid_num XGQ_CMD_SENSOR_SID_BDINFO = 1"
| "xgq_sensor_sid_num XGQ_CMD_SENSOR_SID_TEMP = 2"
| "xgq_sensor_sid_num XGQ_CMD_SENSOR_SID_VOLTAGE = 3"
| "xgq_sensor_sid_num XGQ_CMD_SENSOR_SID_CURRENT = 4"
| "xgq_sensor_sid_num XGQ_CMD_SENSOR_SID_POWER = 5"
| "xgq_sensor_sid_num XGQ_CMD_SENSOR_SID_QSFP = 6"
| "xgq_sensor_sid_num XGQ_CMD_SENSOR_SID_ALL = 7"
| "xgq_sensor_sid_num XGQ_CMD_SENSOR_SID_MAX = 8"

datatype xgq_cmd_clock_req_type =
    XGQ_CMD_CLOCK_WIZARD
  | XGQ_CMD_CLOCK_COUNTER
  | XGQ_CMD_CLOCK_SCALE

primrec xgq_clock_req_num :: "xgq_cmd_clock_req_type \<Rightarrow> u32" where
  "xgq_clock_req_num XGQ_CMD_CLOCK_WIZARD = 0"
| "xgq_clock_req_num XGQ_CMD_CLOCK_COUNTER = 1"
| "xgq_clock_req_num XGQ_CMD_CLOCK_SCALE = 2"

datatype xgq_cmd_clock_scaling_req_type =
    XGQ_CMD_CLK_SCALING_GET_STATUS
  | XGQ_CMD_CLK_SCALING_SET_OVERRIDE

primrec xgq_clk_scaling_req_num :: "xgq_cmd_clock_scaling_req_type \<Rightarrow> u32" where
  "xgq_clk_scaling_req_num XGQ_CMD_CLK_SCALING_GET_STATUS = 1"
| "xgq_clk_scaling_req_num XGQ_CMD_CLK_SCALING_SET_OVERRIDE = 2"

datatype xgq_cmd_vmr_control_type =
    XGQ_CMD_VMR_QUERY
  | XGQ_CMD_BOOT_DEFAULT
  | XGQ_CMD_BOOT_BACKUP
  | XGQ_CMD_PROGRAM_SC
  | XGQ_CMD_VMR_DEBUG
  | XGQ_CMD_VMR_EEMI_SRST

primrec xgq_vmr_control_num :: "xgq_cmd_vmr_control_type \<Rightarrow> u32" where
  "xgq_vmr_control_num XGQ_CMD_VMR_QUERY = 0"
| "xgq_vmr_control_num XGQ_CMD_BOOT_DEFAULT = 1"
| "xgq_vmr_control_num XGQ_CMD_BOOT_BACKUP = 2"
| "xgq_vmr_control_num XGQ_CMD_PROGRAM_SC = 3"
| "xgq_vmr_control_num XGQ_CMD_VMR_DEBUG = 4"
| "xgq_vmr_control_num XGQ_CMD_VMR_EEMI_SRST = 5"

datatype xgq_cmd_log_page_type =
    XGQ_CMD_LOG_AF_CHECK
  | XGQ_CMD_LOG_FW
  | XGQ_CMD_LOG_INFO
  | XGQ_CMD_LOG_AF_CLEAR
  | XGQ_CMD_LOG_ENDPOINT
  | XGQ_CMD_LOG_TASK_STATS
  | XGQ_CMD_LOG_MEM_STATS
  | XGQ_CMD_LOG_SYSTEM_DTB
  | XGQ_CMD_LOG_PLM_LOG
  | XGQ_CMD_LOG_APU_LOG
  | XGQ_CMD_LOG_SHELL_INTERFACE_UUID
  | XGQ_CMD_LOG_DEFAULT_FPT
  | XGQ_CMD_LOG_BACKUP_FPT

primrec xgq_log_page_num :: "xgq_cmd_log_page_type \<Rightarrow> u32" where
  "xgq_log_page_num XGQ_CMD_LOG_AF_CHECK = 0"
| "xgq_log_page_num XGQ_CMD_LOG_FW = 1"
| "xgq_log_page_num XGQ_CMD_LOG_INFO = 2"
| "xgq_log_page_num XGQ_CMD_LOG_AF_CLEAR = 3"
| "xgq_log_page_num XGQ_CMD_LOG_ENDPOINT = 4"
| "xgq_log_page_num XGQ_CMD_LOG_TASK_STATS = 5"
| "xgq_log_page_num XGQ_CMD_LOG_MEM_STATS = 6"
| "xgq_log_page_num XGQ_CMD_LOG_SYSTEM_DTB = 7"
| "xgq_log_page_num XGQ_CMD_LOG_PLM_LOG = 8"
| "xgq_log_page_num XGQ_CMD_LOG_APU_LOG = 9"
| "xgq_log_page_num XGQ_CMD_LOG_SHELL_INTERFACE_UUID = 0xa"
| "xgq_log_page_num XGQ_CMD_LOG_DEFAULT_FPT = 0xb"
| "xgq_log_page_num XGQ_CMD_LOG_BACKUP_FPT = 0xc"

datatype xgq_cmd_flash_type =
    XGQ_CMD_FLASH_DEFAULT
  | XGQ_CMD_FLASH_NO_BACKUP
  | XGQ_CMD_FLASH_TO_LEGACY

primrec xgq_flash_type_num :: "xgq_cmd_flash_type \<Rightarrow> u32" where
  "xgq_flash_type_num XGQ_CMD_FLASH_DEFAULT = 0"
| "xgq_flash_type_num XGQ_CMD_FLASH_NO_BACKUP = 1"
| "xgq_flash_type_num XGQ_CMD_FLASH_TO_LEGACY = 2"

datatype xgq_cmd_debug_type =
    XGQ_CMD_DBG_CLEAR
  | XGQ_CMD_DBG_RMGMT
  | XGQ_CMD_DBG_VMC

primrec xgq_debug_type_num :: "xgq_cmd_debug_type \<Rightarrow> u32" where
  "xgq_debug_type_num XGQ_CMD_DBG_CLEAR = 0"
| "xgq_debug_type_num XGQ_CMD_DBG_RMGMT = 1"
| "xgq_debug_type_num XGQ_CMD_DBG_VMC = 2"

datatype xgq_cmd_state =
    XGQ_CMD_STATE_COMPLETED
  | XGQ_CMD_STATE_ABORTED
  | XGQ_CMD_STATE_TIMEOUT
  | XGQ_CMD_STATE_INVALID
  | XGQ_CMD_STATE_CONFLICT_ID

primrec xgq_cmd_state_num :: "xgq_cmd_state \<Rightarrow> u32" where
  "xgq_cmd_state_num XGQ_CMD_STATE_COMPLETED = 0"
| "xgq_cmd_state_num XGQ_CMD_STATE_ABORTED = 1"
| "xgq_cmd_state_num XGQ_CMD_STATE_TIMEOUT = 2"
| "xgq_cmd_state_num XGQ_CMD_STATE_INVALID = 3"
| "xgq_cmd_state_num XGQ_CMD_STATE_CONFLICT_ID = 4"

text \<open>The entry of a submission queue is a header of two words and a payload; a field is a word
  of the entry, or some of its bits.\<close>

definition sq_word :: "u32 \<Rightarrow> nat \<Rightarrow> mem \<Rightarrow> u32" where
  "sq_word sq_addr off m = IO_SYNC_READ32 (sq_addr + of_nat off) m"

definition sq_dword :: "u32 \<Rightarrow> nat \<Rightarrow> mem \<Rightarrow> u64" where
  "sq_dword sq_addr off m =
     ucast (sq_word sq_addr off m) OR push_bit 32 (ucast (sq_word sq_addr (off + 4) m))"

definition bits_of :: "u32 \<Rightarrow> nat \<Rightarrow> nat \<Rightarrow> u32" where
  "bits_of w lo n = take_bit n (drop_bit lo w)"

record xgq_cmd_sq_hdr =
  sq_opcode :: u32
  sq_count :: u32
  sq_state :: u32
  sq_cid :: u16

definition read_sq_hdr :: "u32 \<Rightarrow> mem \<Rightarrow> xgq_cmd_sq_hdr" where
  "read_sq_hdr a m = \<lparr> sq_opcode = bits_of (sq_word a 0 m) 0 16, sq_count = bits_of (sq_word a 0 m) 16 15,
     sq_state = bits_of (sq_word a 0 m) 31 1, sq_cid = ucast (bits_of (sq_word a 4 m) 0 16) \<rparr>"

record xgq_cmd_data_payload =
  xd_address :: u64
  xd_size :: u32
  xd_remain_size :: u32
  xd_addr_type :: u32
  xd_flash_type :: u32
  xd_priv :: u64

definition read_data_payload :: "u32 \<Rightarrow> mem \<Rightarrow> xgq_cmd_data_payload" where
  "read_data_payload a m = \<lparr> xd_address = sq_dword a 8 m, xd_size = sq_word a 16 m,
     xd_remain_size = sq_word a 20 m, xd_addr_type = bits_of (sq_word a 24 m) 0 4,
     xd_flash_type = bits_of (sq_word a 24 m) 4 4, xd_priv = sq_dword a 32 m \<rparr>"

record xgq_cmd_log_payload =
  xl_address :: u64
  xl_size :: u32
  xl_offset :: u32
  xl_pid :: u32
  xl_addr_type :: u32

definition read_log_payload :: "u32 \<Rightarrow> mem \<Rightarrow> xgq_cmd_log_payload" where
  "read_log_payload a m = \<lparr> xl_address = sq_dword a 8 m, xl_size = sq_word a 16 m,
     xl_offset = sq_word a 20 m, xl_pid = bits_of (sq_word a 24 m) 0 16,
     xl_addr_type = bits_of (sq_word a 24 m) 16 3 \<rparr>"

record xgq_cmd_sensor_payload =
  xs_address :: u64
  xs_size :: u32
  xs_offset :: u32
  xs_aid :: u32
  xs_sid :: u32
  xs_addr_type :: u32
  xs_sensor_id :: u32

definition read_sensor_payload :: "u32 \<Rightarrow> mem \<Rightarrow> xgq_cmd_sensor_payload" where
  "read_sensor_payload a m = \<lparr> xs_address = sq_dword a 8 m, xs_size = sq_word a 16 m,
     xs_offset = sq_word a 20 m, xs_aid = bits_of (sq_word a 24 m) 0 8,
     xs_sid = bits_of (sq_word a 24 m) 8 8, xs_addr_type = bits_of (sq_word a 24 m) 16 3,
     xs_sensor_id = bits_of (sq_word a 24 m) 19 8 \<rparr>"

record xgq_cmd_clock_payload =
  xc_region :: u32
  xc_req_type :: u32
  xc_req_id :: u32
  xc_req_num :: u32
  xc_req_freq :: "u32 list"

definition read_clock_payload :: "u32 \<Rightarrow> mem \<Rightarrow> xgq_cmd_clock_payload" where
  "read_clock_payload a m = \<lparr> xc_region = sq_word a 8 m, xc_req_type = bits_of (sq_word a 12 m) 0 8,
     xc_req_id = bits_of (sq_word a 12 m) 8 2, xc_req_num = bits_of (sq_word a 12 m) 10 4,
     xc_req_freq = map (\<lambda>i. sq_word a (16 + 4 * i) m) [0..<4] \<rparr>"

record xgq_cmd_vmr_control_payload =
  xv_req_type :: u32
  xv_debug_level :: u32
  xv_debug_type :: u32
  xv_eemi_boot_from_backup :: bool

definition read_vmr_control_payload :: "u32 \<Rightarrow> mem \<Rightarrow> xgq_cmd_vmr_control_payload" where
  "read_vmr_control_payload a m = \<lparr> xv_req_type = bits_of (sq_word a 8 m) 0 8,
     xv_debug_level = bits_of (sq_word a 8 m) 8 3, xv_debug_type = bits_of (sq_word a 8 m) 11 5,
     xv_eemi_boot_from_backup = (bits_of (sq_word a 8 m) 16 1 = 1) \<rparr>"

record xgq_cmd_clk_scaling_payload =
  xk_aid :: u32
  xk_scaling_en :: u32
  xk_pwr_scaling_ovrd_limit :: u32
  xk_temp_scaling_ovrd_limit :: u32
  xk_reset :: u32
  xk_pwr_scaling_ovrd_en :: u32
  xk_temp_scaling_ovrd_en :: u32

definition read_clk_scaling_payload :: "u32 \<Rightarrow> mem \<Rightarrow> xgq_cmd_clk_scaling_payload" where
  "read_clk_scaling_payload a m = \<lparr> xk_aid = bits_of (sq_word a 8 m) 0 3,
     xk_scaling_en = bits_of (sq_word a 8 m) 3 1,
     xk_pwr_scaling_ovrd_limit = bits_of (sq_word a 8 m) 4 16,
     xk_temp_scaling_ovrd_limit = bits_of (sq_word a 8 m) 20 8,
     xk_reset = bits_of (sq_word a 8 m) 28 1,
     xk_pwr_scaling_ovrd_en = bits_of (sq_word a 8 m) 29 1,
     xk_temp_scaling_ovrd_en = bits_of (sq_word a 8 m) 30 1 \<rparr>"

section \<open>Completions\<close>

text \<open>A completion entry as the handlers fill it: the header, the two words of the payload union
  and the return code.\<close>

record xgq_cmd_cq =
  cq_cid :: u16
  cq_cstate :: u32
  cq_specific :: u32
  cq_state :: u32
  cq_payload0 :: u32
  cq_payload1 :: u32
  cq_rcode :: u32

definition cq_bytes :: "xgq_cmd_cq \<Rightarrow> u8 list" where
  "cq_bytes cq = concat (map bytes_of_u32
     [ucast (cq_cid cq) OR push_bit 16 (take_bit 14 (cq_cstate cq))
        OR push_bit 30 (take_bit 1 (cq_specific cq)) OR push_bit 31 (take_bit 1 (cq_state cq)),
      cq_payload0 cq, cq_payload1 cq, cq_rcode cq])"

lemma length_cq_bytes [simp]: "length (cq_bytes cq) = 16"
  by (simp add: cq_bytes_def)

end
