(* ===== verification/Cl_Main.thy ===== *)
theory Cl_Main
  imports Cl_Msg
begin

text \<open>Model of \<open>common/cl_main.c\<close>: the message queues between the tasks, the creation of queues
  and tasks, the start of the firmware.  FreeRTOS is not part of the repository: its calls are
  the fields of the record \<open>rtos\<close>, over an abstract kernel state \<open>'k\<close>.  A queue handle is
  identified by the queue id it is stored under.  \<open>configASSERT\<close> halts when its condition is
  false: the result is \<open>None\<close>.\<close>

section \<open>The queues and the tasks\<close>

datatype cl_queue_id =
    CL_QUEUE_PROGRAM
  | CL_QUEUE_OPCODE
  | CL_QUEUE_SCFW_REQ
  | CL_QUEUE_SCFW_RESP
  | CL_QUEUE_SENSOR_REQ
  | CL_QUEUE_SENSOR_RESP

datatype app_type = APP_VMR | APP_VMC

datatype cl_task =
    TASK_XGQ_RECEIVE
  | TASK_XGQ_PROGRAM
  | TASK_XGQ_OPCODE
  | TASK_VMC_SENSOR
  | TASK_VMC_SC_COMMS

record 'k rtos =
  xQueueCreate :: "cl_queue_id \<Rightarrow> nat \<Rightarrow> 'k \<Rightarrow> bool \<times> 'k"
  xQueueSend :: "cl_queue_id \<Rightarrow> cl_msg \<Rightarrow> nat \<Rightarrow> 'k \<Rightarrow> bool \<times> 'k"
  xQueueReceive :: "cl_queue_id \<Rightarrow> nat option \<Rightarrow> 'k \<Rightarrow> cl_msg option \<times> 'k"
  xTaskCreate :: "cl_task \<Rightarrow> 'k \<Rightarrow> bool \<times> 'k"
  xSemaphoreTake :: "'k \<Rightarrow> bool \<times> 'k"
  xSemaphoreGive :: "'k \<Rightarrow> 'k"

definition XGQ_XQUEUE_LENGTH :: nat where "XGQ_XQUEUE_LENGTH = 8"
definition XGQ_XQUEUE_WAIT_MS :: nat where "XGQ_XQUEUE_WAIT_MS = 10"

definition queue_handles :: "cl_queue_id list" where
  "queue_handles = [CL_QUEUE_PROGRAM, CL_QUEUE_OPCODE, CL_QUEUE_SCFW_REQ, CL_QUEUE_SCFW_RESP,
     CL_QUEUE_SENSOR_REQ, CL_QUEUE_SENSOR_RESP]"

definition task_handles :: "(app_type \<times> cl_task) list" where
  "task_handles = [(APP_VMR, TASK_XGQ_RECEIVE), (APP_VMR, TASK_XGQ_PROGRAM),
     (APP_VMR, TASK_XGQ_OPCODE), (APP_VMC, TASK_VMC_SENSOR), (APP_VMC, TASK_VMC_SC_COMMS)]"

section \<open>Sending and receiving\<close>

fun send_loop :: "'k rtos \<Rightarrow> cl_queue_id list \<Rightarrow> cl_msg \<Rightarrow> cl_queue_id \<Rightarrow> 'k \<Rightarrow> int \<times> 'k" where
  "send_loop rt [] msg qid k = (- EINVAL, k)"
| "send_loop rt (h # hs) msg qid k =
     (if h = qid
      then let (sent, k') = xQueueSend rt h msg XGQ_XQUEUE_WAIT_MS k
           in if sent then (0, k') else (- EIO, k')
      else send_loop rt hs msg qid k)"

definition cl_send_to_queue :: "'k rtos \<Rightarrow> cl_msg \<Rightarrow> cl_queue_id \<Rightarrow> 'k \<Rightarrow> int \<times> 'k" where
  "cl_send_to_queue rt msg qid k = send_loop rt queue_handles msg qid k"

text \<open>The blocking receive waits without limit; the code does not look at its result.\<close>

fun recv_loop :: "'k rtos \<Rightarrow> cl_queue_id list \<Rightarrow> cl_msg \<Rightarrow> cl_queue_id \<Rightarrow> 'k \<Rightarrow> int \<times> cl_msg \<times> 'k" where
  "recv_loop rt [] msg qid k = (- EINVAL, msg, k)"
| "recv_loop rt (h # hs) msg qid k =
     (if h = qid
      then let (got, k') = xQueueReceive rt h None k
           in (0, case got of Some m \<Rightarrow> m | None \<Rightarrow> msg, k')
      else recv_loop rt hs msg qid k)"

definition cl_recv_from_queue :: "'k rtos \<Rightarrow> cl_msg \<Rightarrow> cl_queue_id \<Rightarrow> 'k \<Rightarrow> int \<times> cl_msg \<times> 'k" where
  "cl_recv_from_queue rt msg qid k = recv_loop rt queue_handles msg qid k"

fun recv_nowait_loop :: "'k rtos \<Rightarrow> cl_queue_id list \<Rightarrow> cl_msg \<Rightarrow> cl_queue_id \<Rightarrow> 'k \<Rightarrow> int \<times> cl_msg \<times> 'k" where
  "recv_nowait_loop rt [] msg qid k = (- EINVAL, msg, k)"
| "recv_nowait_loop rt (h # hs) msg qid k =
     (if h = qid
      then let (got, k') = xQueueReceive rt h (Some 0) k
           in (case got of Some m \<Rightarrow> (0, m, k') | None \<Rightarrow> (- ENOENT, msg, k'))
      else recv_nowait_loop rt hs msg qid k)"

definition cl_recv_from_queue_nowait :: "'k rtos \<Rightarrow> cl_msg \<Rightarrow> cl_queue_id \<Rightarrow> 'k \<Rightarrow> int \<times> cl_msg \<times> 'k" where
  "cl_recv_from_queue_nowait rt msg qid k = recv_nowait_loop rt queue_handles msg qid k"

section \<open>Starting the firmware\<close>

definition cl_queue_create :: "'k rtos \<Rightarrow> cl_queue_id \<Rightarrow> 'k \<Rightarrow> int \<times> 'k" where
  "cl_queue_create rt qid k =
     (let (ok, k') = xQueueCreate rt qid XGQ_XQUEUE_LENGTH k
      in if ok then (0, k') else (- EINVAL, k'))"

text \<open>What the start calls in the other components: their init functions, whether VMC is ready,
  and the probe of the APU channel.\<close>

record 's start_ops =
  rmgmt_init :: "'s \<Rightarrow> 's"
  vmc_init :: "'s \<Rightarrow> 's"
  vmc_is_ready :: "'s \<Rightarrow> bool"
  task_init :: "cl_task \<Rightarrow> 's \<Rightarrow> int \<times> 's"
  apu_channel_probe :: "'s \<Rightarrow> int \<times> 's"
  get_mem :: "'s \<Rightarrow> mem"
  put_mem :: "mem \<Rightarrow> 's \<Rightarrow> 's"

definition cl_task_create :: "'k rtos \<Rightarrow> 's start_ops \<Rightarrow> cl_task \<Rightarrow> 's \<Rightarrow> 'k \<Rightarrow> int \<times> 's \<times> 'k" where
  "cl_task_create rt ops t s k =
     (let (ret, s1) = task_init ops t s
      in if ret \<noteq> 0 then (ret, s1, k)
         else let (ok, k1) = xTaskCreate rt t k
              in if \<not> ok then (- EINVAL, s1, k1) else (0, s1, k1))"

definition VMR_EP_APU_SHARED_MEMORY_START :: u32 where "VMR_EP_APU_SHARED_MEMORY_START = 0x37000000"
definition APU_RING_BUFFER_SIZE :: nat where "APU_RING_BUFFER_SIZE = 0x1000"
definition VMR_APU_CHANNEL_XGQ_OFF :: nat where "VMR_APU_CHANNEL_XGQ_OFF = 4"

definition cl_platform_init :: "mem \<Rightarrow> int \<times> mem" where
  "cl_platform_init m =
     (let (ret, buf) = cl_memcpy_fromio VMR_EP_APU_SHARED_MEMORY_START 4 m
      in if ret = -1 then (- EINVAL, m)
         else if u32_of_bytes buf = 1 then (0, m)
         else (0, snd (cl_memset_io32 VMR_EP_APU_SHARED_MEMORY_START 0
                         (VMR_APU_CHANNEL_XGQ_OFF + APU_RING_BUFFER_SIZE) m)))"

fun create_queues :: "'k rtos \<Rightarrow> cl_queue_id list \<Rightarrow> 'k \<Rightarrow> 'k option" where
  "create_queues rt [] k = Some k"
| "create_queues rt (h # hs) k =
     (case cl_queue_create rt h k of (ret, k') \<Rightarrow> if ret = 0 then create_queues rt hs k' else None)"

fun create_tasks ::
    "'k rtos \<Rightarrow> 's start_ops \<Rightarrow> (app_type \<times> cl_task) list \<Rightarrow> 's \<Rightarrow> 'k \<Rightarrow> ('s \<times> 'k) option" where
  "create_tasks rt ops [] s k = Some (s, k)"
| "create_tasks rt ops ((app, t) # ts) s k =
     (if app = APP_VMC \<and> \<not> vmc_is_ready ops s then create_tasks rt ops ts s k
      else case cl_task_create rt ops t s k of
             (ret, s', k') \<Rightarrow> if ret = 0 then create_tasks rt ops ts s' k' else None)"

text \<open>The main task then polls the APU channel once a second until the answer is not
  \<open>-ENODEV\<close>; \<open>fuel\<close> bounds the polls, \<open>None\<close> is that it still waits.\<close>

fun probe_loop :: "nat \<Rightarrow> 's start_ops \<Rightarrow> 's \<Rightarrow> 's option" where
  "probe_loop 0 ops s = None"
| "probe_loop (Suc fuel) ops s =
     (case apu_channel_probe ops s of
        (ret, s') \<Rightarrow> if ret \<noteq> - ENODEV then Some s' else probe_loop fuel ops s')"

definition cl_main_task_func :: "nat \<Rightarrow> 'k rtos \<Rightarrow> 's start_ops \<Rightarrow> 's \<Rightarrow> 'k \<Rightarrow> ('s \<times> 'k) option" where
  "cl_main_task_func fuel rt ops s k =
     (let s1 = put_mem ops (snd (cl_platform_init (get_mem ops s))) s;
          s2 = vmc_init ops (rmgmt_init ops s1)
      in do {
        k1 \<leftarrow> create_queues rt queue_handles k;
        (s3, k2) \<leftarrow> create_tasks rt ops task_handles s2 k1;
        s4 \<leftarrow> probe_loop fuel ops s3;
        Some (s4, k2)
      })"

section \<open>What the queue operations do\<close>

text \<open>Every queue id has a handle, so the search never falls through.\<close>

lemma cl_send_to_queue_simps:
  "cl_send_to_queue rt msg qid k =
     (if fst (xQueueSend rt qid msg XGQ_XQUEUE_WAIT_MS k) then 0 else - EIO,
      snd (xQueueSend rt qid msg XGQ_XQUEUE_WAIT_MS k))"
  by (cases qid) (simp_all add: cl_send_to_queue_def queue_handles_def split_beta)

lemma cl_recv_from_queue_simps:
  "cl_recv_from_queue rt msg qid k =
     (0, case fst (xQueueReceive rt qid None k) of Some m \<Rightarrow> m | None \<Rightarrow> msg,
      snd (xQueueReceive rt qid None k))"
  by (cases qid) (simp_all add: cl_recv_from_queue_def queue_handles_def split_beta)

lemma cl_recv_from_queue_nowait_simps:
  "cl_recv_from_queue_nowait rt msg qid k =
     (case fst (xQueueReceive rt qid (Some 0) k) of
        Some m \<Rightarrow> (0, m, snd (xQueueReceive rt qid (Some 0) k))
      | None \<Rightarrow> (- ENOENT, msg, snd (xQueueReceive rt qid (Some 0) k)))"
  by (cases qid) (simp_all add: cl_recv_from_queue_nowait_def queue_handles_def split_beta
      split: option.splits)

lemma cl_platform_init_spec:
  "cl_platform_init m =
     (0, if IO_SYNC_READ32 VMR_EP_APU_SHARED_MEMORY_START m = 1 then m
         else mem_store m VMR_EP_APU_SHARED_MEMORY_START (replicate 4100 0))"
proof -
  have "concat (replicate n (bytes_of_u32 0)) = replicate (4 * n) 0" for n
    by (induct n) (simp_all add: bytes_of_u32_def numeral_eq_Suc)
  then show ?thesis
    by (simp add: cl_platform_init_def cl_memcpy_fromio_load IO_SYNC_READ32_def cl_memset_io32_def
        VMR_APU_CHANNEL_XGQ_OFF_def APU_RING_BUFFER_SIZE_def memset32_loop_store)
qed

text \<open>An instance of the kernel calls: bounded first-in first-out queues.\<close>

definition fifo_rtos :: "(cl_queue_id \<Rightarrow> cl_msg list) rtos" where
  "fifo_rtos = \<lparr>
     xQueueCreate = (\<lambda>qid len k. (True, k(qid := []))),
     xQueueSend = (\<lambda>qid msg wait k.
        if length (k qid) < XGQ_XQUEUE_LENGTH then (True, k(qid := k qid @ [msg])) else (False, k)),
     xQueueReceive = (\<lambda>qid wait k.
        case k qid of [] \<Rightarrow> (None, k) | m # ms \<Rightarrow> (Some m, k(qid := ms))),
     xTaskCreate = (\<lambda>t k. (True, k)),
     xSemaphoreTake = (\<lambda>k. (True, k)),
     xSemaphoreGive = (\<lambda>k. k) \<rparr>"

end
