(* ===== verification/Xgq.thy ===== *)
theory Xgq
  imports Cl_Io "HOL-Library.While_Combinator"
begin

text \<open>Model of \<open>common/xgq_impl.h\<close> as the two platform headers of the firmware configure it
  (\<open>cl_xgq_receive_plat.h\<close> defines \<open>XGQ_SERVER\<close>, \<open>cl_xgq_client_plat.h\<close> does not; neither
  defines \<open>XGQ_MEM_REG_ACCESS_DIFFER\<close>, \<open>BRAM_COLLISION_WORKAROUND\<close> or
  \<open>XGQ_OUT_OF_ORDER_WRITE\<close>).  One XGQ is a submission ring and a completion ring in shared
  memory.  The compile-time role is the argument \<open>role\<close>; the back pointer \<open>xr_xgq\<close>, only
  used to reach the flags of the queue, is replaced by the flags.\<close>

datatype role = XGQ_SERVER | XGQ_CLIENT

section \<open>Access to the shared memory\<close>

definition xgq_mem_write32 :: "u64 \<Rightarrow> u64 \<Rightarrow> u32 \<Rightarrow> mem \<Rightarrow> mem" where
  "xgq_mem_write32 io_hdl addr val m = IO_SYNC_WRITE32 val (ucast addr) m"

definition xgq_reg_write32 :: "u64 \<Rightarrow> u64 \<Rightarrow> u32 \<Rightarrow> mem \<Rightarrow> mem" where
  "xgq_reg_write32 io_hdl addr val m = IO_SYNC_WRITE32 val (ucast addr) m"

definition xgq_mem_read32 :: "u64 \<Rightarrow> u64 \<Rightarrow> mem \<Rightarrow> u32" where
  "xgq_mem_read32 io_hdl addr m = IO_SYNC_READ32 (ucast addr) m"

definition xgq_reg_read32 :: "u64 \<Rightarrow> u64 \<Rightarrow> mem \<Rightarrow> u32" where
  "xgq_reg_read32 io_hdl addr m = IO_SYNC_READ32 (ucast addr) m"

definition xgq_read32 :: "u64 \<Rightarrow> u64 \<Rightarrow> bool \<Rightarrow> mem \<Rightarrow> u32" where
  "xgq_read32 io_hdl addr is_mem m = xgq_reg_read32 io_hdl addr m"

definition xgq_write32 :: "u64 \<Rightarrow> u64 \<Rightarrow> u32 \<Rightarrow> bool \<Rightarrow> mem \<Rightarrow> mem" where
  "xgq_write32 io_hdl addr val is_mem m = xgq_reg_write32 io_hdl addr val m"

text \<open>The double read.  The peer may write between two reads, so the word is given as the
  sequence \<open>obs\<close> of the values that successive reads observe; the loop need not end, and
  \<open>None\<close> is that it does not.\<close>

partial_function (option) double_read_loop ::
    "(nat \<Rightarrow> u32) \<Rightarrow> nat \<Rightarrow> u32 \<Rightarrow> u32 \<Rightarrow> u32 option" where
  "double_read_loop obs i val0 val1 =
     (if val0 \<noteq> val1
      then (if even i then double_read_loop obs (i + 1) (obs (i + 1)) val1
            else double_read_loop obs (i + 1) val0 (obs (i + 1)))
      else Some val0)"

declare double_read_loop.simps [code]

definition xgq_double_read32 :: "(nat \<Rightarrow> u32) \<Rightarrow> u32 option" where
  "xgq_double_read32 obs = double_read_loop obs 0 (obs 0 - 1) (obs 0)"

section \<open>Data\<close>

definition XGQ_ALLOC_MAGIC :: u32 where "XGQ_ALLOC_MAGIC = 0x5847513F"
definition XGQ_MAJOR :: u32 where "XGQ_MAJOR = 1"
definition XGQ_MINOR :: u32 where "XGQ_MINOR = 0"
definition XGQ_MIN_NUM_SLOTS :: u32 where "XGQ_MIN_NUM_SLOTS = 2"
definition XGQ_VERSION :: u32 where "XGQ_VERSION = push_bit 16 XGQ_MAJOR + XGQ_MINOR"
definition GET_XGQ_MAJOR :: "u32 \<Rightarrow> u32" where "GET_XGQ_MAJOR version = drop_bit 16 version"

record xgq_header =
  xh_magic :: u32
  xh_version :: u32
  xh_slot_num :: u32
  xh_sq_offset :: u32
  xh_sq_slot_size :: u32
  xh_cq_offset :: u32
  xh_sq_consumed :: u32
  xh_cq_consumed :: u32
  xh_flags :: u32
  xh_sq_produced :: u32
  xh_cq_produced :: u32

text \<open>The header in memory is its fields as consecutive 32-bit words.\<close>

definition header_words :: "xgq_header \<Rightarrow> u32 list" where
  "header_words h = [xh_magic h, xh_version h, xh_slot_num h, xh_sq_offset h, xh_sq_slot_size h,
     xh_cq_offset h, xh_sq_consumed h, xh_cq_consumed h, xh_flags h, xh_sq_produced h,
     xh_cq_produced h]"

definition words_header :: "u32 list \<Rightarrow> xgq_header" where
  "words_header w = \<lparr> xh_magic = w ! 0, xh_version = w ! 1, xh_slot_num = w ! 2,
     xh_sq_offset = w ! 3, xh_sq_slot_size = w ! 4, xh_cq_offset = w ! 5,
     xh_sq_consumed = w ! 6, xh_cq_consumed = w ! 7, xh_flags = w ! 8,
     xh_sq_produced = w ! 9, xh_cq_produced = w ! 10 \<rparr>"

definition sizeof_xgq_header :: nat where "sizeof_xgq_header = 44"
definition sizeof_com_queue_entry :: nat where "sizeof_com_queue_entry = 16"
definition off_sq_consumed :: u64 where "off_sq_consumed = 24"
definition off_cq_consumed :: u64 where "off_cq_consumed = 28"
definition off_sq_produced :: u64 where "off_sq_produced = 36"
definition off_cq_produced :: u64 where "off_cq_produced = 40"

record xgq_ring =
  xr_slot_num :: u32
  xr_slot_sz :: u32
  xr_produced :: u32
  xr_consumed :: u32
  xr_produced_addr :: u64
  xr_consumed_addr :: u64
  xr_slot_addr :: u64

definition XGQ_DOUBLE_READ :: u32 where "XGQ_DOUBLE_READ = push_bit 1 1"
definition XGQ_IN_MEM_PROD :: u32 where "XGQ_IN_MEM_PROD = push_bit 2 1"

record xgq =
  xq_io_hdl :: u64
  xq_header_addr :: u64
  xq_flags :: u32
  xq_sq :: xgq_ring
  xq_cq :: xgq_ring

definition XGQ_NEED_DOUBLE_READ :: "u32 \<Rightarrow> bool" where
  "XGQ_NEED_DOUBLE_READ flags \<longleftrightarrow> flags AND XGQ_DOUBLE_READ \<noteq> 0"

definition XGQ_IS_IN_MEM_PROD :: "u32 \<Rightarrow> bool" where
  "XGQ_IS_IN_MEM_PROD flags \<longleftrightarrow> flags AND XGQ_IN_MEM_PROD \<noteq> 0"

definition XGQ_INTR_ENABLE_OFFSET :: u64 where "XGQ_INTR_ENABLE_OFFSET = 12"

definition xgq_ring_len :: "size_t \<Rightarrow> size_t \<Rightarrow> size_t" where
  "xgq_ring_len nslots slotsz =
     of_nat sizeof_xgq_header + nslots * (slotsz + of_nat sizeof_com_queue_entry)"

section \<open>Operations on one ring\<close>

primrec copy_to_ring_loop :: "u64 \<Rightarrow> u32 list \<Rightarrow> u64 \<Rightarrow> nat \<Rightarrow> mem \<Rightarrow> mem" where
  "copy_to_ring_loop io_hdl src tgt 0 m = m"
| "copy_to_ring_loop io_hdl src tgt (Suc i) m =
     xgq_mem_write32 io_hdl (tgt + of_nat (4 * i)) (src ! i) (copy_to_ring_loop io_hdl src tgt i m)"

definition xgq_copy_to_ring :: "u64 \<Rightarrow> u32 list \<Rightarrow> u64 \<Rightarrow> nat \<Rightarrow> mem \<Rightarrow> mem" where
  "xgq_copy_to_ring io_hdl buf tgt len m = copy_to_ring_loop io_hdl buf tgt (len div 4) m"

primrec copy_from_ring_loop :: "u64 \<Rightarrow> u64 \<Rightarrow> nat \<Rightarrow> mem \<Rightarrow> u32 list" where
  "copy_from_ring_loop io_hdl src 0 m = []"
| "copy_from_ring_loop io_hdl src (Suc i) m =
     copy_from_ring_loop io_hdl src i m @ [xgq_mem_read32 io_hdl (src + of_nat (4 * i)) m]"

definition xgq_copy_from_ring :: "u64 \<Rightarrow> u64 \<Rightarrow> nat \<Rightarrow> mem \<Rightarrow> u32 list" where
  "xgq_copy_from_ring io_hdl src len m = copy_from_ring_loop io_hdl src (len div 4) m"

definition xgq_init_ring :: "u64 \<Rightarrow> u64 \<Rightarrow> u64 \<Rightarrow> u32 \<Rightarrow> u32 \<Rightarrow> xgq_ring" where
  "xgq_init_ring produced consumed slots slot_num slot_size =
     \<lparr> xr_slot_num = slot_num, xr_slot_sz = slot_size, xr_produced = 0, xr_consumed = 0,
       xr_produced_addr = produced, xr_consumed_addr = consumed, xr_slot_addr = slots \<rparr>"

definition xgq_ring_full :: "xgq_ring \<Rightarrow> bool" where
  "xgq_ring_full ring \<longleftrightarrow> xr_produced ring - xr_consumed ring \<ge> xr_slot_num ring"

definition xgq_ring_empty :: "xgq_ring \<Rightarrow> bool" where
  "xgq_ring_empty ring \<longleftrightarrow> xr_produced ring = xr_consumed ring"

definition xgq_ring_read_produced :: "u64 \<Rightarrow> u32 \<Rightarrow> xgq_ring \<Rightarrow> mem \<Rightarrow> xgq_ring" where
  "xgq_ring_read_produced io_hdl flags ring m =
     (let v = xgq_read32 io_hdl (xr_produced_addr ring) (XGQ_IS_IN_MEM_PROD flags) m
      in if XGQ_NEED_DOUBLE_READ flags
         then ring\<lparr>xr_produced := the (xgq_double_read32 (\<lambda>_. v))\<rparr>
         else ring\<lparr>xr_produced := v\<rparr>)"

definition xgq_ring_write_produced :: "u64 \<Rightarrow> u32 \<Rightarrow> xgq_ring \<Rightarrow> mem \<Rightarrow> mem" where
  "xgq_ring_write_produced io_hdl flags ring m =
     xgq_write32 io_hdl (xr_produced_addr ring) (xr_produced ring) (XGQ_IS_IN_MEM_PROD flags) m"

definition xgq_ring_read_consumed :: "u64 \<Rightarrow> u32 \<Rightarrow> xgq_ring \<Rightarrow> mem \<Rightarrow> xgq_ring" where
  "xgq_ring_read_consumed io_hdl flags ring m =
     (if XGQ_NEED_DOUBLE_READ flags
      then ring\<lparr>xr_consumed := the (xgq_double_read32
             (\<lambda>_. xgq_read32 io_hdl (xr_consumed_addr ring) True m))\<rparr>
      else ring\<lparr>xr_consumed := xgq_mem_read32 io_hdl (xr_consumed_addr ring) m\<rparr>)"

definition xgq_ring_write_consumed :: "u64 \<Rightarrow> xgq_ring \<Rightarrow> mem \<Rightarrow> mem" where
  "xgq_ring_write_consumed io_hdl ring m =
     xgq_mem_write32 io_hdl (xr_consumed_addr ring) (xr_consumed ring) m"

definition xgq_ring_slot_ptr_produced :: "xgq_ring \<Rightarrow> u64" where
  "xgq_ring_slot_ptr_produced ring =
     xr_slot_addr ring + ucast (xr_slot_sz ring * (xr_produced ring AND (xr_slot_num ring - 1)))"

definition xgq_ring_slot_ptr_consumed :: "xgq_ring \<Rightarrow> u64" where
  "xgq_ring_slot_ptr_consumed ring =
     xr_slot_addr ring + ucast (xr_slot_sz ring * (xr_consumed ring AND (xr_slot_num ring - 1)))"

section \<open>Operations on a queue\<close>

text \<open>The ring a role produces on and the ring it consumes from (the \<open>#ifdef XGQ_SERVER\<close> at
  the head of \<open>xgq_can_produce\<close>, \<open>xgq_can_consume\<close>, \<open>xgq_produce\<close> and \<open>xgq_consume\<close>).\<close>

definition prod_ring :: "role \<Rightarrow> xgq \<Rightarrow> xgq_ring" where
  "prod_ring role q = (case role of XGQ_SERVER \<Rightarrow> xq_cq q | XGQ_CLIENT \<Rightarrow> xq_sq q)"

definition cons_ring :: "role \<Rightarrow> xgq \<Rightarrow> xgq_ring" where
  "cons_ring role q = (case role of XGQ_SERVER \<Rightarrow> xq_sq q | XGQ_CLIENT \<Rightarrow> xq_cq q)"

definition put_prod_ring :: "role \<Rightarrow> xgq_ring \<Rightarrow> xgq \<Rightarrow> xgq" where
  "put_prod_ring role r q = (case role of XGQ_SERVER \<Rightarrow> q\<lparr>xq_cq := r\<rparr> | XGQ_CLIENT \<Rightarrow> q\<lparr>xq_sq := r\<rparr>)"

definition put_cons_ring :: "role \<Rightarrow> xgq_ring \<Rightarrow> xgq \<Rightarrow> xgq" where
  "put_cons_ring role r q = (case role of XGQ_SERVER \<Rightarrow> q\<lparr>xq_sq := r\<rparr> | XGQ_CLIENT \<Rightarrow> q\<lparr>xq_cq := r\<rparr>)"

definition xgq_can_produce :: "role \<Rightarrow> xgq \<Rightarrow> mem \<Rightarrow> bool \<times> xgq" where
  "xgq_can_produce role q m =
     (let ring = prod_ring role q
      in if \<not> xgq_ring_full ring then (True, q)
         else let ring' = xgq_ring_read_consumed (xq_io_hdl q) (xq_flags q) ring m
              in (\<not> xgq_ring_full ring', put_prod_ring role ring' q))"

definition xgq_can_consume :: "role \<Rightarrow> xgq \<Rightarrow> mem \<Rightarrow> bool \<times> xgq" where
  "xgq_can_consume role q m =
     (let ring = cons_ring role q
      in if \<not> xgq_ring_empty ring then (True, q)
         else let ring' = xgq_ring_read_produced (xq_io_hdl q) (xq_flags q) ring m
              in (\<not> xgq_ring_empty ring', put_cons_ring role ring' q))"

definition xgq_fast_forward :: "u64 \<Rightarrow> u32 \<Rightarrow> xgq_ring \<Rightarrow> mem \<Rightarrow> xgq_ring" where
  "xgq_fast_forward io_hdl flags ring m =
     xgq_ring_read_consumed io_hdl flags (xgq_ring_read_produced io_hdl flags ring m) m"

definition xgq_soft_reset :: "u64 \<Rightarrow> u32 \<Rightarrow> xgq_ring \<Rightarrow> mem \<Rightarrow> xgq_ring \<times> mem" where
  "xgq_soft_reset io_hdl flags ring m =
     (let ring1 = xgq_ring_read_produced io_hdl flags ring m;
          ring2 = ring1\<lparr>xr_consumed := xr_produced ring1\<rparr>
      in (ring2, xgq_ring_write_consumed io_hdl ring2 m))"

definition xgq_init ::
    "u64 \<Rightarrow> u64 \<Rightarrow> u64 \<Rightarrow> size_t \<Rightarrow> u32 \<Rightarrow> u64 \<Rightarrow> u64 \<Rightarrow> mem \<Rightarrow> xgq \<times> mem" where
  "xgq_init flags io_hdl ring_addr n_slots slot_size sq_produced cq_produced m0 =
     (let xflags = ucast flags :: u32;
          (sqprod, cqprod, m1) =
            (if XGQ_IS_IN_MEM_PROD xflags
             then (ring_addr + off_sq_produced, ring_addr + off_cq_produced, m0)
             else (sq_produced, cq_produced,
                   xgq_reg_write32 io_hdl (cq_produced + XGQ_INTR_ENABLE_OFFSET) 1 m0));
          sq = xgq_init_ring sqprod (ring_addr + off_sq_consumed)
                 (ring_addr + of_nat sizeof_xgq_header) n_slots slot_size;
          cq = xgq_init_ring cqprod (ring_addr + off_cq_consumed)
                 (ring_addr + of_nat sizeof_xgq_header + ucast (n_slots * slot_size))
                 n_slots (of_nat sizeof_com_queue_entry);
          hdr = \<lparr> xh_magic = 0, xh_version = XGQ_VERSION, xh_slot_num = n_slots,
                  xh_sq_offset = ucast (xr_slot_addr sq - ring_addr),
                  xh_sq_slot_size = slot_size,
                  xh_cq_offset = ucast (xr_slot_addr cq - ring_addr),
                  xh_sq_consumed = 0, xh_cq_consumed = 0, xh_flags = xflags,
                  xh_sq_produced = 0, xh_cq_produced = 0 \<rparr>;
          m2 = xgq_copy_to_ring io_hdl (header_words hdr) ring_addr sizeof_xgq_header m1;
          (sq', m3) = xgq_soft_reset io_hdl xflags sq m2;
          (cq', m4) = xgq_soft_reset io_hdl xflags cq m3;
          hdr' = hdr\<lparr>xh_magic := XGQ_ALLOC_MAGIC\<rparr>;
          m5 = xgq_copy_to_ring io_hdl (header_words hdr') ring_addr 4 m4
      in (\<lparr> xq_io_hdl = io_hdl, xq_header_addr = ring_addr, xq_flags = xflags,
            xq_sq = sq', xq_cq = cq' \<rparr>, m5))"

definition sum_ring_len :: "u32 \<Rightarrow> u32 list \<Rightarrow> u32" where
  "sum_ring_len numslots slot_size = foldl (\<lambda>t s. t + xgq_ring_len numslots s) 0 slot_size"

text \<open>\<open>slot_size\<close> is the array with its length \<open>n_slots\<close>.\<close>

definition xgq_alloc_num_slots :: "size_t \<Rightarrow> u32 list \<Rightarrow> size_t" where
  "xgq_alloc_num_slots rlen slot_size =
     drop_bit 1 (snd (while
       (\<lambda>(total_len, numslots). total_len \<le> rlen \<and> numslots < push_bit 31 1)
       (\<lambda>(total_len, numslots).
          (sum_ring_len (push_bit 1 numslots) slot_size, push_bit 1 numslots))
       (0, 1)))"

text \<open>\<open>xgq_alloc\<close> returns the code, and on success the queue, the length used and the store.\<close>

definition xgq_alloc ::
    "u64 \<Rightarrow> u64 \<Rightarrow> u64 \<Rightarrow> size_t \<Rightarrow> u32 \<Rightarrow> u64 \<Rightarrow> u64 \<Rightarrow> mem \<Rightarrow> int + (xgq \<times> size_t \<times> mem)" where
  "xgq_alloc flags io_hdl ring_addr ring_len slot_size sq_produced cq_produced m =
     (if slot_size mod 4 \<noteq> 0 then Inl (- EINVAL)
      else let numslots = xgq_alloc_num_slots ring_len [slot_size]
           in if numslots < XGQ_MIN_NUM_SLOTS then Inl (- E2BIG)
              else let (q, m') = xgq_init flags io_hdl ring_addr numslots slot_size
                                   sq_produced cq_produced m
                   in Inr (q, xgq_ring_len numslots slot_size, m'))"

primrec group_init :: "u32 list \<Rightarrow> u64 \<Rightarrow> u64 \<Rightarrow> u64 \<Rightarrow> size_t \<Rightarrow> mem \<Rightarrow> xgq list \<times> u64 \<times> mem" where
  "group_init [] flags io_hdl raddr numslots m = ([], raddr, m)"
| "group_init (s # ss) flags io_hdl raddr numslots m =
     (let (q, m1) = xgq_init flags io_hdl raddr numslots s 0 0 m;
          (qs, raddr', m2) = group_init ss flags io_hdl
             (raddr + ucast (xgq_ring_len numslots s)) numslots m1
      in (q # qs, raddr', m2))"

definition xgq_group_alloc ::
    "u64 \<Rightarrow> u64 \<Rightarrow> u64 \<Rightarrow> size_t \<Rightarrow> u32 list \<Rightarrow> u32 \<Rightarrow> mem \<Rightarrow> int + (xgq list \<times> size_t \<times> mem)" where
  "xgq_group_alloc flags io_hdl ring_addr ring_len a_slot_size max_slots m =
     (if \<exists>s \<in> set a_slot_size. s mod 4 \<noteq> 0 then Inl (- EINVAL)
      else let numslots = xgq_alloc_num_slots ring_len a_slot_size
           in if numslots < XGQ_MIN_NUM_SLOTS then Inl (- E2BIG)
              else let numslots = (if max_slots \<noteq> 0 \<and> numslots > max_slots then max_slots
                                   else numslots);
                       (qs, raddr, m') = group_init a_slot_size (flags OR ucast XGQ_IN_MEM_PROD)
                          io_hdl ring_addr numslots m
                   in Inr (qs, ucast (raddr - ring_addr), m'))"

text \<open>\<open>xgq_attach\<close> reads and writes through the handle the queue \<open>q\<close> already holds; the
  argument \<open>io_hdl\<close> is not used.\<close>

definition xgq_attach ::
    "xgq \<Rightarrow> u64 \<Rightarrow> u64 \<Rightarrow> u64 \<Rightarrow> u64 \<Rightarrow> u64 \<Rightarrow> mem \<Rightarrow> int \<times> xgq \<times> mem" where
  "xgq_attach q flags io_hdl ring_addr sq_produced cq_produced m =
     (let h = xq_io_hdl q;
          magic = xgq_copy_from_ring h ring_addr 4 m ! 0
      in if magic \<noteq> XGQ_ALLOC_MAGIC then (- EAGAIN, q, m)
         else
         let hdr = words_header (xgq_copy_from_ring h ring_addr sizeof_xgq_header m);
             nslots = xh_slot_num hdr
         in if GET_XGQ_MAJOR (xh_version hdr) \<noteq> XGQ_MAJOR then (- EOPNOTSUPP, q, m)
            else if nslots < XGQ_MIN_NUM_SLOTS \<or> nslots AND (nslots - 1) \<noteq> 0 then (- EPROTO, q, m)
            else
            let xflags = ucast flags OR (xh_flags hdr AND XGQ_DOUBLE_READ)
                           OR (xh_flags hdr AND XGQ_IN_MEM_PROD);
                (sqprod, cqprod, m1) =
                  (if XGQ_IS_IN_MEM_PROD xflags
                   then (ring_addr + off_sq_produced, ring_addr + off_cq_produced, m)
                   else (sq_produced, cq_produced,
                         xgq_reg_write32 h (sq_produced + XGQ_INTR_ENABLE_OFFSET) 1 m));
                sq = xgq_init_ring sqprod (ring_addr + off_sq_consumed)
                       (ring_addr + ucast (xh_sq_offset hdr)) nslots (xh_sq_slot_size hdr);
                cq = xgq_init_ring cqprod (ring_addr + off_cq_consumed)
                       (ring_addr + ucast (xh_cq_offset hdr)) nslots (of_nat sizeof_com_queue_entry)
            in (0, q\<lparr>xq_flags := xflags,
                     xq_sq := xgq_fast_forward h xflags sq m1,
                     xq_cq := xgq_fast_forward h xflags cq m1\<rparr>, m1))"

text \<open>\<open>xgq_produce\<close> and \<open>xgq_consume\<close> set \<open>*slot_addr\<close> only on success.\<close>

definition xgq_produce :: "role \<Rightarrow> xgq \<Rightarrow> mem \<Rightarrow> int \<times> u64 option \<times> xgq" where
  "xgq_produce role q m =
     (let (can, q1) = xgq_can_produce role q m
      in if \<not> can then (- ENOSPC, None, q1)
         else let ring = prod_ring role q1
              in (0, Some (xgq_ring_slot_ptr_produced ring),
                  put_prod_ring role (ring\<lparr>xr_produced := xr_produced ring + 1\<rparr>) q1))"

definition xgq_consume :: "role \<Rightarrow> xgq \<Rightarrow> mem \<Rightarrow> int \<times> u64 option \<times> xgq" where
  "xgq_consume role q m =
     (let (can, q1) = xgq_can_consume role q m
      in if \<not> can then (- ENOENT, None, q1)
         else let ring = cons_ring role q1
              in (0, Some (xgq_ring_slot_ptr_consumed ring),
                  put_cons_ring role (ring\<lparr>xr_consumed := xr_consumed ring + 1\<rparr>) q1))"

definition xgq_notify_peer_produced :: "role \<Rightarrow> xgq \<Rightarrow> mem \<Rightarrow> mem" where
  "xgq_notify_peer_produced role q m =
     xgq_ring_write_produced (xq_io_hdl q) (xq_flags q) (prod_ring role q) m"

definition xgq_notify_peer_consumed :: "role \<Rightarrow> xgq \<Rightarrow> mem \<Rightarrow> mem" where
  "xgq_notify_peer_consumed role q m =
     xgq_ring_write_consumed (xq_io_hdl q) (cons_ring role q) m"

end
