(* ===== verification/Xgq_Channel.thy ===== *)
theory Xgq_Channel
  imports Xgq "HOL-Library.Sublist"
begin

text \<open>The queue protocol of \<open>common/xgq_impl.h\<close> between a client and a server that share the
  ring memory.  The pointers in memory and the copies each side caches are 32-bit counters that
  wrap; the invariant reads them as unbounded counters modulo \<open>2^32\<close>.  It gives: a full ring
  never accepts an entry, an entry is never overwritten before it is consumed, and the
  consumer sees the entries of the producer once each, in order and unchanged.\<close>

section \<open>Pointers and slots\<close>

definition ring_size :: "xgq_ring \<Rightarrow> nat" where
  "ring_size r = unat (xr_slot_num r)"

definition slot_len :: "xgq_ring \<Rightarrow> nat" where
  "slot_len r = unat (xr_slot_sz r)"

definition slot_at :: "xgq_ring \<Rightarrow> nat \<Rightarrow> u32" where
  "slot_at r i = ucast (xr_slot_addr r) + of_nat (slot_len r * (i mod ring_size r))"

definition power_of_two :: "u32 \<Rightarrow> bool" where
  "power_of_two w \<longleftrightarrow> w \<noteq> 0 \<and> w AND (w - 1) = 0"

lemma nat_and_pred_zero: "0 < n \<Longrightarrow> n AND (n - 1) = (0::nat) \<Longrightarrow> \<exists>k. n = 2 ^ k"
proof (induct n rule: less_induct)
  case (less n)
  show ?case
  proof (cases "even n")
    case True
    then obtain a where a: "n = 2 * a" by blast
    then have "0 < a" using less.prems by simp
    then have "n - 1 = Suc (2 * (a - 1))" using a by simp
    then have "n AND (n - 1) = 2 * (a AND (a - 1))"
      using a and_nat_rec [of n "n - 1"] by simp
    then obtain k where "a = 2 ^ k" using less a \<open>0 < a\<close> by (metis One_nat_def lessI less_not_refl
      mult_eq_0_iff n_less_m_mult_n numeral_2_eq_2 one_less_numeral_iff semiring_norm(76) zero_neq_numeral)
    then have "n = 2 ^ Suc k" using a by simp
    then show ?thesis ..
  next
    case False
    then obtain a where a: "n = 2 * a + 1" by (blast elim: oddE)
    then have "n AND (n - 1) = 2 * (a AND a)" using and_nat_rec [of n "n - 1"] by simp
    then have "a = 0" using less.prems by simp
    then have "n = 2 ^ 0" using a by simp
    then show ?thesis ..
  qed
qed

lemma power_of_two_exp:
  assumes "power_of_two w"
  obtains k where "k < 32" "unat w = 2 ^ k" "w - 1 = mask k"
proof -
  have w: "0 < unat w" "w \<noteq> 0" using assms by (auto simp: power_of_two_def unat_gt_0)
  have "unat w AND (unat w - 1) = unat (w AND (w - 1))"
    using w by (simp add: unsigned_and_eq unat_minus_one)
  also have "\<dots> = 0" using assms by (simp add: power_of_two_def)
  finally obtain k where k: "unat w = 2 ^ k" using nat_and_pred_zero w by blast
  moreover have "k < 32"
  proof (rule ccontr)
    assume "\<not> k < 32"
    then have "(2::nat) ^ 32 \<le> 2 ^ k" by (intro power_increasing) auto
    then show False using k unat_u32_less [of w] by simp
  qed
  moreover have "w = 2 ^ k" using k by (metis of_nat_numeral of_nat_power of_nat_unat_u32)
  then have "w - 1 = mask k" by (simp add: mask_eq_decr_exp)
  ultimately show thesis using that by blast
qed

lemma power_of_two_of_exp: "k < 32 \<Longrightarrow> power_of_two (2 ^ k)"
proof -
  assume k: "k < 32"
  have "(2 ^ k :: u32) AND (2 ^ k - 1) = 0"
    by (rule bit_word_eqI) (auto simp: bit_simps simp flip: mask_eq_decr_exp)
  moreover have "(2 ^ k :: u32) \<noteq> 0" using k by (simp add: power_eq_0_iff)
  ultimately show ?thesis by (simp add: power_of_two_def)
qed

text \<open>The masked slot index of a wrapping counter is the counter modulo the ring size.\<close>

lemma masked_index:
  assumes "power_of_two n"
  shows "of_nat i AND (n - 1) = (of_nat (i mod unat n) :: u32)"
proof -
  obtain k where k: "unat n = 2 ^ k" "n - 1 = mask k" using assms by (rule power_of_two_exp)
  have "of_nat i AND (n - 1) = take_bit k (of_nat i :: u32)"
    by (simp add: k take_bit_eq_mask)
  also have "\<dots> = of_nat (take_bit k i)" by (simp add: of_nat_take_bit)
  finally show ?thesis by (simp add: k take_bit_eq_mod)
qed

section \<open>Where a ring lies in memory\<close>

definition ring_ranges :: "xgq_ring \<Rightarrow> (u32 \<times> nat) list" where
  "ring_ranges r = [(ucast (xr_produced_addr r), 4), (ucast (xr_consumed_addr r), 4),
     (ucast (xr_slot_addr r), slot_len r * ring_size r)]"

abbreviation apart :: "u32 \<times> nat \<Rightarrow> u32 \<times> nat \<Rightarrow> bool" where
  "apart x y \<equiv> disjoint_ranges (fst x) (snd x) (fst y) (snd y)"

definition ring_geom :: "xgq_ring \<Rightarrow> bool" where
  "ring_geom r \<longleftrightarrow> power_of_two (xr_slot_num r) \<and> 2 \<le> ring_size r \<and> ring_size r \<le> 2 ^ 31
     \<and> slot_len r * ring_size r \<le> 2 ^ 32 \<and> sorted_wrt apart (ring_ranges r)"

definition same_ring :: "xgq_ring \<Rightarrow> xgq_ring \<Rightarrow> bool" where
  "same_ring r r' \<longleftrightarrow> r\<lparr>xr_produced := 0, xr_consumed := 0\<rparr> = r'\<lparr>xr_produced := 0, xr_consumed := 0\<rparr>"

lemma same_ring_fields:
  assumes "same_ring r r'"
  shows "xr_slot_num r' = xr_slot_num r" "xr_slot_sz r' = xr_slot_sz r"
    "xr_produced_addr r' = xr_produced_addr r" "xr_consumed_addr r' = xr_consumed_addr r"
    "xr_slot_addr r' = xr_slot_addr r"
  using assms by (cases r; cases r'; simp add: same_ring_def)+

lemma same_ring_derived:
  assumes "same_ring r r'"
  shows "ring_size r' = ring_size r" "slot_len r' = slot_len r" "slot_at r' i = slot_at r i"
    "ring_ranges r' = ring_ranges r" "ring_geom r' = ring_geom r"
  using same_ring_fields [OF assms]
  by (simp_all add: ring_size_def slot_len_def slot_at_def ring_ranges_def ring_geom_def)

lemma same_ring_updates [simp]:
  "same_ring r (r'\<lparr>xr_produced := v\<rparr>) = same_ring r r'"
  "same_ring r (r'\<lparr>xr_consumed := v\<rparr>) = same_ring r r'"
  "same_ring (r\<lparr>xr_produced := v\<rparr>) r' = same_ring r r'"
  "same_ring (r\<lparr>xr_consumed := v\<rparr>) r' = same_ring r r'"
  by (cases r; cases r'; simp add: same_ring_def)+

lemma same_ring_refl [simp]: "same_ring r r"
  by (simp add: same_ring_def)

lemma ucast_slot_addr:
  assumes "ring_geom r" "xr_produced r = of_nat i"
  shows "(ucast (xgq_ring_slot_ptr_produced r) :: u32) = slot_at r i"
  using assms masked_index [of "xr_slot_num r" i]
  by (simp add: xgq_ring_slot_ptr_produced_def slot_at_def ring_geom_def ucast_add_u32
      slot_len_def ring_size_def)

lemma ucast_slot_addr_consumed:
  assumes "ring_geom r" "xr_consumed r = of_nat i"
  shows "(ucast (xgq_ring_slot_ptr_consumed r) :: u32) = slot_at r i"
  using assms masked_index [of "xr_slot_num r" i]
  by (simp add: xgq_ring_slot_ptr_consumed_def slot_at_def ring_geom_def ucast_add_u32
      slot_len_def ring_size_def)

lemma slot_in_region:
  assumes "ring_geom r"
  shows "slot_len r * (i mod ring_size r) + slot_len r \<le> slot_len r * ring_size r"
proof -
  have "i mod ring_size r + 1 \<le> ring_size r"
    using assms by (simp add: ring_geom_def Suc_leI)
  then show ?thesis
    by (metis mult.commute mult_Suc_right Suc_eq_plus1 mult_le_mono2 add.commute)
qed

lemma slots_apart:
  assumes "ring_geom r" "i mod ring_size r \<noteq> j mod ring_size r"
  shows "disjoint_ranges (slot_at r i) (slot_len r) (slot_at r j) (slot_len r)"
proof -
  let ?x = "i mod ring_size r" and ?y = "j mod ring_size r"
  have le: "slot_len r * x + slot_len r \<le> slot_len r * y" if "x < y" for x y
  proof -
    have "slot_len r * (x + 1) \<le> slot_len r * y" using that by (intro mult_le_mono2) simp
    then show ?thesis by simp
  qed
  have "slot_len r * ring_size r \<le> 2 ^ 32" using assms by (simp add: ring_geom_def)
  then have top: "slot_len r * ?x + slot_len r \<le> 2 ^ 32" "slot_len r * ?y + slot_len r \<le> 2 ^ 32"
    using slot_in_region [OF assms(1)] order_trans by blast+
  show ?thesis unfolding slot_at_def
  proof (rule disjoint_ranges_offsets, cases "?x < ?y")
    case True
    then show "slot_len r * ?x + slot_len r \<le> slot_len r * ?y \<and> slot_len r * ?y + slot_len r \<le> 2 ^ 32 \<or>
      slot_len r * ?y + slot_len r \<le> slot_len r * ?x \<and> slot_len r * ?x + slot_len r \<le> 2 ^ 32"
      using top le by blast
  next
    case False
    then have "?y < ?x" using assms(2) by simp
    then show "slot_len r * ?x + slot_len r \<le> slot_len r * ?y \<and> slot_len r * ?y + slot_len r \<le> 2 ^ 32 \<or>
      slot_len r * ?y + slot_len r \<le> slot_len r * ?x \<and> slot_len r * ?x + slot_len r \<le> 2 ^ 32"
      using top le by blast
  qed
qed

lemma range_apart_slot:
  assumes "ring_geom r" "disjoint_ranges a n (ucast (xr_slot_addr r)) (slot_len r * ring_size r)"
  shows "disjoint_ranges a n (slot_at r i) (slot_len r)"
  unfolding slot_at_def
  by (rule disjoint_ranges_sub [OF assms(2)]) (rule slot_in_region [OF assms(1)])

section \<open>The invariant of one ring\<close>

text \<open>\<open>P\<close> is the copy of the ring the producing side holds, \<open>C\<close> the consuming side's.  The
  entries produced are \<open>sent\<close>, those consumed \<open>recd\<close>; \<open>b\<close> is where the counters started.
  The counters in order: what the producer believes consumed, what is published as consumed,
  what is consumed, what the consumer believes produced, what is published as produced and
  what is produced; the last is at most a ring ahead of the first.\<close>

definition chan_counts ::
    "mem \<Rightarrow> xgq_ring \<Rightarrow> xgq_ring \<Rightarrow> nat \<Rightarrow> nat \<Rightarrow> nat \<Rightarrow> nat \<Rightarrow> nat \<Rightarrow> nat \<Rightarrow> nat \<Rightarrow> bool" where
  "chan_counts m P C b ca ak c cp pu p \<longleftrightarrow>
     ca \<le> ak \<and> ak \<le> c \<and> c \<le> cp \<and> cp \<le> pu \<and> pu \<le> p \<and> p \<le> ca + ring_size P
     \<and> xr_consumed P = of_nat (b + ca) \<and> IO_SYNC_READ32 (ucast (xr_consumed_addr P)) m = of_nat (b + ak)
     \<and> xr_consumed C = of_nat (b + c) \<and> xr_produced C = of_nat (b + cp)
     \<and> IO_SYNC_READ32 (ucast (xr_produced_addr P)) m = of_nat (b + pu)
     \<and> xr_produced P = of_nat (b + p)"

definition chan_inv :: "mem \<Rightarrow> xgq_ring \<Rightarrow> xgq_ring \<Rightarrow> u8 list list \<Rightarrow> u8 list list \<Rightarrow> bool" where
  "chan_inv m P C sent recd \<longleftrightarrow> ring_geom P \<and> same_ring P C \<and> prefix recd sent \<and>
     (\<exists>b ca ak cp pu. chan_counts m P C b ca ak (length recd) cp pu (length sent) \<and>
       (\<forall>i. length recd \<le> i \<and> i < length sent \<longrightarrow>
          mem_load m (slot_at P (b + i)) (slot_len P) = sent ! i))"

lemma chan_inv_prefix: "chan_inv m P C sent recd \<Longrightarrow> prefix recd sent"
  by (simp add: chan_inv_def)

lemma chan_inv_bound: "chan_inv m P C sent recd \<Longrightarrow> length sent \<le> length recd + ring_size P"
  by (auto simp: chan_inv_def chan_counts_def)

text \<open>A store away from the ring keeps the invariant.\<close>

definition apart_from_ring :: "u32 \<Rightarrow> nat \<Rightarrow> xgq_ring \<Rightarrow> bool" where
  "apart_from_ring a n r \<longleftrightarrow> (\<forall>x \<in> set (ring_ranges r). apart (a, n) x)"

lemma chan_inv_frame:
  assumes "chan_inv m P C sent recd" "apart_from_ring a (length bs) P"
  shows "chan_inv (mem_store m a bs) P C sent recd"
proof -
  have g: "ring_geom P" using assms(1) by (simp add: chan_inv_def)
  have "mem_load (mem_store m a bs) (slot_at P i) (slot_len P) = mem_load m (slot_at P i) (slot_len P)" for i
    using assms(2) range_apart_slot [OF g]
    by (intro mem_load_store_disjoint) (simp add: apart_from_ring_def ring_ranges_def)
  then show ?thesis
    using assms
    by (auto simp: chan_inv_def chan_counts_def apart_from_ring_def ring_ranges_def mem_simps)
qed

lemma pointer_apart_slot:
  assumes "ring_geom r"
  shows "disjoint_ranges (ucast (xr_produced_addr r)) 4 (slot_at r i) (slot_len r)"
    and "disjoint_ranges (ucast (xr_consumed_addr r)) 4 (slot_at r i) (slot_len r)"
    and "disjoint_ranges (ucast (xr_produced_addr r)) 4 (ucast (xr_consumed_addr r)) 4"
  using assms range_apart_slot [OF assms]
  by (simp_all add: ring_geom_def ring_ranges_def)

lemma double_read_stable:
  "obs (Suc 0) = obs 0 \<Longrightarrow> xgq_double_read32 obs = Some (obs 0)"
  by (simp add: xgq_double_read32_def double_read_loop.simps)

lemma ring_read_consumed:
  "xgq_ring_read_consumed io_hdl flags r m =
     r\<lparr>xr_consumed := IO_SYNC_READ32 (ucast (xr_consumed_addr r)) m\<rparr>"
  by (simp add: xgq_ring_read_consumed_def double_read_stable xgq_read32_def xgq_reg_read32_def
      xgq_mem_read32_def)

lemma ring_read_produced:
  "xgq_ring_read_produced io_hdl flags r m =
     r\<lparr>xr_produced := IO_SYNC_READ32 (ucast (xr_produced_addr r)) m\<rparr>"
  by (simp add: xgq_ring_read_produced_def double_read_stable xgq_read32_def xgq_reg_read32_def
      Let_def)

lemma ring_full_counts:
  assumes "ring_geom P" "chan_counts m P C b ca ak c cp pu p"
  shows "xgq_ring_full P \<longleftrightarrow> p = ca + ring_size P"
proof -
  have k: "ca \<le> p" "p \<le> ca + ring_size P" "ring_size P \<le> 2 ^ 31"
    using assms by (auto simp: chan_counts_def ring_geom_def)
  have "xr_produced P - xr_consumed P = of_nat (p - ca)"
    using assms(2) k(1) by (simp add: chan_counts_def of_nat_diff)
  moreover have "unat (of_nat (p - ca) :: u32) = p - ca"
    using k by (intro unat_of_nat_u32) simp
  ultimately show ?thesis
    using k by (auto simp: xgq_ring_full_def word_le_nat_alt ring_size_def)
qed

lemma ring_empty_counts:
  assumes "ring_geom P" "chan_counts m P C b ca ak c cp pu p"
  shows "xgq_ring_empty C \<longleftrightarrow> cp = c"
proof -
  have k: "c \<le> cp" "cp - c < 2 ^ 32"
    using assms by (auto simp: chan_counts_def ring_geom_def)
  have "xr_produced C - xr_consumed C = of_nat (cp - c)"
    using assms(2) k(1) by (simp add: chan_counts_def of_nat_diff)
  then have "xgq_ring_empty C \<longleftrightarrow> (of_nat (cp - c) :: u32) = 0"
    by (metis xgq_ring_empty_def eq_iff_diff_eq_0)
  also have "\<dots> \<longleftrightarrow> cp = c"
    using k unat_of_nat_u32 [of "cp - c"] by (auto simp: unat_eq_zero [symmetric] simp del: unat_of_nat_u32)
  finally show ?thesis .
qed

section \<open>What each operation does to the invariant\<close>

lemma chan_invI:
  assumes "ring_geom P" "same_ring P C" "prefix recd sent"
    "chan_counts m P C b ca ak (length recd) cp pu (length sent)"
    "\<And>i. length recd \<le> i \<Longrightarrow> i < length sent \<Longrightarrow>
       mem_load m (slot_at P (b + i)) (slot_len P) = sent ! i"
  shows "chan_inv m P C sent recd"
  using assms unfolding chan_inv_def by blast

lemma chan_invE:
  assumes "chan_inv m P C sent recd"
  obtains b ca ak cp pu where "ring_geom P" "same_ring P C" "prefix recd sent"
    "chan_counts m P C b ca ak (length recd) cp pu (length sent)"
    "\<And>i. length recd \<le> i \<Longrightarrow> i < length sent \<Longrightarrow>
       mem_load m (slot_at P (b + i)) (slot_len P) = sent ! i"
  using assms unfolding chan_inv_def by blast

lemma chan_inv_refresh_consumed:
  assumes "chan_inv m P C sent recd"
  shows "chan_inv m (xgq_ring_read_consumed io_hdl flags P m) C sent recd"
  using assms
proof (rule chan_invE)
  fix b ca ak cp pu
  assume g: "ring_geom P" and sr: "same_ring P C" and pf: "prefix recd sent"
    and c: "chan_counts m P C b ca ak (length recd) cp pu (length sent)"
    and s: "\<And>i. length recd \<le> i \<Longrightarrow> i < length sent \<Longrightarrow>
       mem_load m (slot_at P (b + i)) (slot_len P) = sent ! i"
  let ?P = "xgq_ring_read_consumed io_hdl flags P m"
  have "same_ring P ?P" by (simp add: ring_read_consumed)
  note eq = same_ring_derived [OF this]
  show ?thesis
  proof (rule chan_invI)
    show "same_ring ?P C" using sr by (simp add: ring_read_consumed)
    show "chan_counts m ?P C b ak ak (length recd) cp pu (length sent)"
      using c by (simp add: ring_read_consumed chan_counts_def ring_size_def)
  qed (use g pf s eq in auto)
qed

lemma chan_inv_refresh_produced:
  assumes "chan_inv m P C sent recd"
  shows "chan_inv m P (xgq_ring_read_produced io_hdl flags C m) sent recd"
  using assms
proof (rule chan_invE)
  fix b ca ak cp pu
  assume g: "ring_geom P" and sr: "same_ring P C" and pf: "prefix recd sent"
    and c: "chan_counts m P C b ca ak (length recd) cp pu (length sent)"
    and s: "\<And>i. length recd \<le> i \<Longrightarrow> i < length sent \<Longrightarrow>
       mem_load m (slot_at P (b + i)) (slot_len P) = sent ! i"
  have "xr_produced_addr C = xr_produced_addr P" using sr by (rule same_ring_fields)
  then show ?thesis
    using g sr pf c s
    by (intro chan_invI [where b = b and ca = ca and ak = ak and cp = pu and pu = pu])
       (simp_all add: ring_read_produced chan_counts_def)
qed

text \<open>Producing: the slot lies outside everything the consumer has still to read.\<close>

lemma chan_inv_produce:
  assumes inv: "chan_inv m P C sent recd" and nf: "\<not> xgq_ring_full P"
    and len: "length data = slot_len P"
  shows "chan_inv (mem_store m (ucast (xgq_ring_slot_ptr_produced P)) data)
           (P\<lparr>xr_produced := xr_produced P + 1\<rparr>) C (sent @ [data]) recd"
  using inv
proof (rule chan_invE)
  fix b ca ak cp pu
  assume g: "ring_geom P" and sr: "same_ring P C" and pf: "prefix recd sent"
    and c: "chan_counts m P C b ca ak (length recd) cp pu (length sent)"
    and s: "\<And>i. length recd \<le> i \<Longrightarrow> i < length sent \<Longrightarrow>
       mem_load m (slot_at P (b + i)) (slot_len P) = sent ! i"
  let ?P = "P\<lparr>xr_produced := xr_produced P + 1\<rparr>" and ?p = "length sent"
  let ?m = "mem_store m (slot_at P (b + ?p)) data"
  have "same_ring P ?P" by simp
  note eq = same_ring_derived [OF this]
  have room: "?p < ca + ring_size P"
    using nf ring_full_counts [OF g c] c by (simp add: chan_counts_def)
  have addr: "(ucast (xgq_ring_slot_ptr_produced P) :: u32) = slot_at P (b + ?p)"
    using g c by (intro ucast_slot_addr) (simp_all add: chan_counts_def)
  have d32: "slot_len P < 2 ^ 32" using unat_u32_less by (simp add: slot_len_def)
  have old: "mem_load ?m (slot_at P (b + i)) (slot_len P) = mem_load m (slot_at P (b + i)) (slot_len P)"
    if "length recd \<le> i" "i < ?p" for i
  proof -
    have "0 < ?p - i" "?p - i < ring_size P"
      using that room c by (auto simp: chan_counts_def)
    then have "(b + ?p) mod ring_size P \<noteq> (b + i) mod ring_size P"
      by (metis (no_types, opaque_lifting) add_diff_cancel_left' diff_is_0_eq' mod_eq_dvd_iff_nat
          mod_less_eq_dividend nat_dvd_not_less nat_le_linear add_le_cancel_left less_imp_le_nat that(2)
          diff_add_inverse diff_diff_left)
    then show ?thesis
      using slots_apart [OF g] len by (intro mem_load_store_disjoint) simp
  qed
  show ?thesis unfolding addr
  proof (rule chan_invI)
    show "chan_counts ?m ?P C b ca ak (length recd) cp pu (length (sent @ [data]))"
      using c room pointer_apart_slot [OF g] len
      by (simp add: chan_counts_def ring_size_def mem_simps disjoint_ranges_sym [of "slot_at P _"])
    show "mem_load ?m (slot_at ?P (b + i)) (slot_len ?P) = (sent @ [data]) ! i"
      if "length recd \<le> i" "i < length (sent @ [data])" for i
      using that old s mem_load_store_same [of data m "slot_at P (b + ?p)"] d32 len
      by (cases "i < ?p") (auto simp: nth_append eq less_Suc_eq)
  qed (use g sr pf eq in auto)
qed

lemma chan_inv_publish_produced:
  assumes inv: "chan_inv m P C sent recd"
  shows "chan_inv (xgq_ring_write_produced io_hdl flags P m) P C sent recd"
  using inv
proof (rule chan_invE)
  fix b ca ak cp pu
  assume g: "ring_geom P" and sr: "same_ring P C" and pf: "prefix recd sent"
    and c: "chan_counts m P C b ca ak (length recd) cp pu (length sent)"
    and s: "\<And>i. length recd \<le> i \<Longrightarrow> i < length sent \<Longrightarrow>
       mem_load m (slot_at P (b + i)) (slot_len P) = sent ! i"
  show ?thesis
    using g sr pf c s pointer_apart_slot [OF g]
    by (intro chan_invI [where b = b and ca = ca and ak = ak and cp = cp and pu = "length sent"])
       (simp_all add: xgq_ring_write_produced_def xgq_write32_def xgq_reg_write32_def mem_simps
         chan_counts_def)
qed

lemma chan_inv_publish_consumed:
  assumes inv: "chan_inv m P C sent recd"
  shows "chan_inv (xgq_ring_write_consumed io_hdl C m) P C sent recd"
  using inv
proof (rule chan_invE)
  fix b ca ak cp pu
  assume g: "ring_geom P" and sr: "same_ring P C" and pf: "prefix recd sent"
    and c: "chan_counts m P C b ca ak (length recd) cp pu (length sent)"
    and s: "\<And>i. length recd \<le> i \<Longrightarrow> i < length sent \<Longrightarrow>
       mem_load m (slot_at P (b + i)) (slot_len P) = sent ! i"
  show ?thesis
    using g sr pf c s pointer_apart_slot [OF g] same_ring_fields(4) [OF sr]
      pointer_apart_slot(3) [OF g] disjoint_ranges_sym
    by (intro chan_invI [where b = b and ca = ca and ak = "length recd" and cp = cp and pu = pu])
       (simp_all add: xgq_ring_write_consumed_def xgq_mem_write32_def mem_simps
         chan_counts_def)
qed

text \<open>Consuming: the slot holds the oldest entry not yet consumed.\<close>

lemma chan_inv_consume:
  assumes inv: "chan_inv m P C sent recd" and ne: "\<not> xgq_ring_empty C"
  defines "data \<equiv> mem_load m (ucast (xgq_ring_slot_ptr_consumed C)) (slot_len C)"
  shows "chan_inv m P (C\<lparr>xr_consumed := xr_consumed C + 1\<rparr>) sent (recd @ [data])"
  using inv
proof (rule chan_invE)
  fix b ca ak cp pu
  assume g: "ring_geom P" and sr: "same_ring P C" and pf: "prefix recd sent"
    and c: "chan_counts m P C b ca ak (length recd) cp pu (length sent)"
    and s: "\<And>i. length recd \<le> i \<Longrightarrow> i < length sent \<Longrightarrow>
       mem_load m (slot_at P (b + i)) (slot_len P) = sent ! i"
  have lt: "length recd < cp" "length recd < length sent"
    using ne ring_empty_counts [OF g c] c by (auto simp: chan_counts_def)
  have "(ucast (xgq_ring_slot_ptr_consumed C) :: u32) = slot_at C (b + length recd)"
    using g c same_ring_derived [OF sr] by (intro ucast_slot_addr_consumed) (simp_all add: chan_counts_def)
  then have d: "data = sent ! length recd"
    using s [of "length recd"] lt same_ring_derived [OF sr] by (simp add: data_def)
  have "prefix (recd @ [data]) sent"
    using pf lt d by (metis append_one_prefix)
  then show ?thesis
    using g sr c s lt
    by (intro chan_invI [where b = b and ca = ca and ak = ak and cp = cp and pu = pu])
       (simp_all add: chan_counts_def)
qed

section \<open>The link of a client and a server\<close>

definition peer :: "role \<Rightarrow> role" where
  "peer role = (case role of XGQ_SERVER \<Rightarrow> XGQ_CLIENT | XGQ_CLIENT \<Rightarrow> XGQ_SERVER)"

lemma peer_peer [simp]: "peer (peer r) = r" "peer r \<noteq> r" "r \<noteq> peer r"
  by (cases r; simp add: peer_def)+

record xgq_link =
  lk_queue :: "role \<Rightarrow> xgq"
  lk_mem :: mem

datatype link_op =
    Send (op_role: role) (op_data: "u8 list")
  | Publish (op_role: role)
  | Receive (op_role: role)
  | Release (op_role: role)

text \<open>One operation of one side: produce an entry and fill its slot, publish what was
  produced, consume an entry and read its slot, publish what was consumed.  The data read is
  returned.  An operation the queue refuses only refreshes the cached pointer.\<close>

definition link_step :: "link_op \<Rightarrow> xgq_link \<Rightarrow> int \<times> u8 list \<times> xgq_link" where
  "link_step op s = (case op of
     Send r d \<Rightarrow>
       (let (ret, addr, q) = xgq_produce r (lk_queue s r) (lk_mem s);
            s1 = s\<lparr>lk_queue := (lk_queue s)(r := q)\<rparr>
        in case addr of None \<Rightarrow> (ret, [], s1)
           | Some a \<Rightarrow> (ret, [], s1\<lparr>lk_mem := mem_store (lk_mem s) (ucast a) d\<rparr>))
   | Publish r \<Rightarrow> (0, [], s\<lparr>lk_mem := xgq_notify_peer_produced r (lk_queue s r) (lk_mem s)\<rparr>)
   | Receive r \<Rightarrow>
       (let (ret, addr, q) = xgq_consume r (lk_queue s r) (lk_mem s);
            s1 = s\<lparr>lk_queue := (lk_queue s)(r := q)\<rparr>
        in case addr of None \<Rightarrow> (ret, [], s1)
           | Some a \<Rightarrow> (ret, mem_load (lk_mem s) (ucast a) (slot_len (cons_ring r q)), s1))
   | Release r \<Rightarrow> (0, [], s\<lparr>lk_mem := xgq_notify_peer_consumed r (lk_queue s r) (lk_mem s)\<rparr>))"

text \<open>The ring \<open>r\<close> produces on, as \<open>r\<close> and as its peer see it.\<close>

abbreviation producer_view :: "xgq_link \<Rightarrow> role \<Rightarrow> xgq_ring" where
  "producer_view s r \<equiv> prod_ring r (lk_queue s r)"

abbreviation consumer_view :: "xgq_link \<Rightarrow> role \<Rightarrow> xgq_ring" where
  "consumer_view s r \<equiv> cons_ring (peer r) (lk_queue s (peer r))"

definition rings_apart :: "xgq_ring \<Rightarrow> xgq_ring \<Rightarrow> bool" where
  "rings_apart r r' \<longleftrightarrow> (\<forall>x \<in> set (ring_ranges r). \<forall>y \<in> set (ring_ranges r'). apart x y)"

definition link_chan :: "role \<Rightarrow> xgq_link \<Rightarrow> u8 list list \<Rightarrow> u8 list list \<Rightarrow> bool" where
  "link_chan r s sent recd \<longleftrightarrow>
     chan_inv (lk_mem s) (producer_view s r) (consumer_view s r) sent recd
     \<and> rings_apart (producer_view s r) (producer_view s (peer r))
     \<and> ring_geom (producer_view s (peer r))
     \<and> same_ring (producer_view s (peer r)) (consumer_view s (peer r))"

lemma apart_from_ring_iff:
  "rings_apart r' r \<Longrightarrow> x \<in> set (ring_ranges r') \<Longrightarrow> apart_from_ring (fst x) (snd x) r"
  by (auto simp: rings_apart_def apart_from_ring_def)

lemma rings_apart_sym: "rings_apart r r' \<longleftrightarrow> rings_apart r' r"
  unfolding rings_apart_def using disjoint_ranges_sym by blast

lemma slot_apart_from_ring:
  assumes "rings_apart r r'" "ring_geom r'"
  shows "apart_from_ring (slot_at r' i) (slot_len r') r"
  using assms range_apart_slot [OF assms(2)]
  by (simp add: rings_apart_def apart_from_ring_def ring_ranges_def)
     (metis disjoint_ranges_sym)

lemma xgq_produce_cases:
  obtains (full) P where "xgq_ring_full P" "P = xgq_ring_read_consumed (xq_io_hdl q) (xq_flags q) (prod_ring r q) m"
      "xgq_produce r q m = (- ENOSPC, None, put_prod_ring r P q)"
  | (room) P where "P = prod_ring r q \<or> P = xgq_ring_read_consumed (xq_io_hdl q) (xq_flags q) (prod_ring r q) m"
      "\<not> xgq_ring_full P"
      "xgq_produce r q m = (0, Some (xgq_ring_slot_ptr_produced P),
         put_prod_ring r (P\<lparr>xr_produced := xr_produced P + 1\<rparr>) q)"
proof (cases "xgq_ring_full (prod_ring r q)")
  case False
  then show thesis
    by (intro room [of "prod_ring r q"])
       (auto simp: xgq_produce_def xgq_can_produce_def Let_def)
next
  case True
  let ?P = "xgq_ring_read_consumed (xq_io_hdl q) (xq_flags q) (prod_ring r q) m"
  show thesis
  proof (cases "xgq_ring_full ?P")
    case f: True
    then show thesis using True
      by (intro full [of ?P]) (auto simp: xgq_produce_def xgq_can_produce_def Let_def)
  next
    case f: False
    then show thesis using True
      by (intro room [of ?P])
         (cases r; simp add: xgq_produce_def xgq_can_produce_def Let_def put_prod_ring_def prod_ring_def)+
  qed
qed

lemma xgq_consume_cases:
  obtains (empty) C where "xgq_ring_empty C" "C = xgq_ring_read_produced (xq_io_hdl q) (xq_flags q) (cons_ring r q) m"
      "xgq_consume r q m = (- ENOENT, None, put_cons_ring r C q)"
  | (some) C where "C = cons_ring r q \<or> C = xgq_ring_read_produced (xq_io_hdl q) (xq_flags q) (cons_ring r q) m"
      "\<not> xgq_ring_empty C"
      "xgq_consume r q m = (0, Some (xgq_ring_slot_ptr_consumed C),
         put_cons_ring r (C\<lparr>xr_consumed := xr_consumed C + 1\<rparr>) q)"
proof (cases "xgq_ring_empty (cons_ring r q)")
  case False
  then show thesis
    by (intro some [of "cons_ring r q"])
       (auto simp: xgq_consume_def xgq_can_consume_def Let_def)
next
  case True
  let ?C = "xgq_ring_read_produced (xq_io_hdl q) (xq_flags q) (cons_ring r q) m"
  show thesis
  proof (cases "xgq_ring_empty ?C")
    case f: True
    then show thesis using True
      by (intro empty [of ?C]) (auto simp: xgq_consume_def xgq_can_consume_def Let_def)
  next
    case f: False
    then show thesis using True
      by (intro some [of ?C])
         (cases r; simp add: xgq_consume_def xgq_can_consume_def Let_def put_cons_ring_def cons_ring_def)+
  qed
qed

lemma put_ring_simps [simp]:
  "prod_ring r (put_prod_ring r P q) = P" "cons_ring r (put_prod_ring r P q) = cons_ring r q"
  "cons_ring r (put_cons_ring r C q) = C" "prod_ring r (put_cons_ring r C q) = prod_ring r q"
  by (cases r; simp add: prod_ring_def cons_ring_def put_prod_ring_def put_cons_ring_def)+

text \<open>What an operation adds to the messages sent by \<open>r\<close> and received from \<open>r\<close>.\<close>

definition link_sends :: "role \<Rightarrow> link_op \<Rightarrow> xgq_link \<Rightarrow> u8 list list" where
  "link_sends r op s = (case op of
     Send r' d \<Rightarrow> if r' = r \<and> fst (link_step op s) = 0 then [d] else [] | _ \<Rightarrow> [])"

definition link_receives :: "role \<Rightarrow> link_op \<Rightarrow> xgq_link \<Rightarrow> u8 list list" where
  "link_receives r op s = (case op of
     Receive r' \<Rightarrow> if r' = peer r \<and> fst (link_step op s) = 0 then [fst (snd (link_step op s))] else []
   | _ \<Rightarrow> [])"

definition link_next :: "link_op \<Rightarrow> xgq_link \<Rightarrow> xgq_link" where
  "link_next op s = snd (snd (link_step op s))"

text \<open>An entry fills its slot.\<close>

definition link_op_ok :: "link_op \<Rightarrow> xgq_link \<Rightarrow> bool" where
  "link_op_ok op s = (case op of Send r d \<Rightarrow> length d = slot_len (producer_view s r) | _ \<Rightarrow> True)"

lemmas link_op_defs = link_sends_def link_receives_def link_next_def link_op_ok_def link_step_def

lemma link_chan_send:
  assumes "link_chan r s sent recd" "link_op_ok (Send r d) s"
  shows "link_chan r (link_next (Send r d) s) (sent @ link_sends r (Send r d) s) recd"
proof (cases rule: xgq_produce_cases [of "lk_queue s r" r "lk_mem s"])
  case (full P)
  have "same_ring (producer_view s r) P" using full by (simp add: ring_read_consumed)
  from same_ring_derived [OF this] show ?thesis
    using assms full chan_inv_refresh_consumed
    by (auto simp: link_op_defs link_chan_def rings_apart_def)
next
  case (room P)
  have sr: "same_ring (producer_view s r) P" using room(1) by (auto simp: ring_read_consumed)
  have ci: "chan_inv (lk_mem s) P (consumer_view s r) sent recd"
    using assms room(1) chan_inv_refresh_consumed by (auto simp: link_chan_def)
  have "length d = slot_len P" using assms(2) sr by (simp add: link_op_ok_def same_ring_derived)
  from chan_inv_produce [OF ci room(2) this] show ?thesis
    using assms(1) room(3) same_ring_derived [OF sr]
      same_ring_derived [of P "P\<lparr>xr_produced := xr_produced P + 1\<rparr>"]
    by (auto simp: link_op_defs link_chan_def rings_apart_def)
qed

lemma link_chan_receive:
  assumes "link_chan r s sent recd"
  shows "link_chan r (link_next (Receive (peer r)) s) sent (recd @ link_receives r (Receive (peer r)) s)"
proof (cases rule: xgq_consume_cases [of "lk_queue s (peer r)" "peer r" "lk_mem s"])
  case (empty C)
  then show ?thesis
    using assms chan_inv_refresh_produced
    by (auto simp: link_op_defs link_chan_def)
next
  case (some C)
  have ci: "chan_inv (lk_mem s) (producer_view s r) C sent recd"
    using assms some(1) chan_inv_refresh_produced by (auto simp: link_chan_def)
  from chan_inv_consume [OF ci some(2)] show ?thesis
    using assms some(3) same_ring_derived [of C "C\<lparr>xr_consumed := xr_consumed C + 1\<rparr>"]
    by (auto simp: link_op_defs link_chan_def)
qed

lemma link_chan_publish:
  assumes "link_chan r s sent recd"
  shows "link_chan r (link_next (Publish r) s) sent recd"
  using assms chan_inv_publish_produced
  by (auto simp: link_op_defs link_chan_def xgq_notify_peer_produced_def)

lemma link_chan_release:
  assumes "link_chan r s sent recd"
  shows "link_chan r (link_next (Release (peer r)) s) sent recd"
  using assms chan_inv_publish_consumed
  by (auto simp: link_op_defs link_chan_def xgq_notify_peer_consumed_def)

text \<open>The operations on the other ring leave this one alone.\<close>

lemma link_chan_store:
  assumes "link_chan r s sent recd" "apart_from_ring a (length bs) (producer_view s r)"
  shows "link_chan r (s\<lparr>lk_mem := mem_store (lk_mem s) a bs\<rparr>) sent recd"
  using assms by (auto simp: link_chan_def intro: chan_inv_frame)

lemma link_chan_other_send:
  assumes "link_chan r s sent recd" "link_op_ok (Send (peer r) d) s"
  shows "link_chan r (link_next (Send (peer r) d) s) sent recd"
proof (cases rule: xgq_produce_cases [of "lk_queue s (peer r)" "peer r" "lk_mem s"])
  case (full P)
  have "same_ring (producer_view s (peer r)) P" using full by (simp add: ring_read_consumed)
  from same_ring_derived [OF this] this show ?thesis
    using assms full
    by (auto simp: link_op_defs link_chan_def rings_apart_def ring_read_consumed)
next
  case (room P)
  let ?P = "P\<lparr>xr_produced := xr_produced P + 1\<rparr>"
  have sr: "same_ring (producer_view s (peer r)) P" using room(1) by (auto simp: ring_read_consumed)
  have sr': "same_ring (producer_view s (peer r)) ?P" using sr by simp
  have g: "ring_geom P" using assms(1) sr by (simp add: link_chan_def same_ring_derived)
  have ra: "rings_apart (producer_view s r) P"
    using assms(1) same_ring_derived [OF sr] by (simp add: link_chan_def rings_apart_def)
  have "(ucast (xgq_ring_slot_ptr_produced P) :: u32) = slot_at P (unat (xr_produced P))"
    by (rule ucast_slot_addr [OF g]) simp
  moreover have "length d = slot_len P" using assms(2) sr by (simp add: link_op_ok_def same_ring_derived)
  ultimately have "apart_from_ring (ucast (xgq_ring_slot_ptr_produced P)) (length d) (producer_view s r)"
    using slot_apart_from_ring [OF ra g] by simp
  from link_chan_store [OF assms(1) this] same_ring_derived [OF sr'] sr' room(3)
  show ?thesis using assms(1)
    by (auto simp: link_op_defs link_chan_def rings_apart_def same_ring_def)
qed

lemma link_chan_other_receive:
  assumes "link_chan r s sent recd"
  shows "link_chan r (link_next (Receive r) s) sent recd"
proof (cases rule: xgq_consume_cases [of "lk_queue s r" r "lk_mem s"])
  case (empty C)
  then show ?thesis using assms
    by (auto simp: link_op_defs link_chan_def ring_read_produced)
next
  case (some C)
  then show ?thesis using assms
    by (auto simp: link_op_defs link_chan_def ring_read_produced)
qed

lemma link_chan_other_publish:
  assumes "link_chan r s sent recd"
  shows "link_chan r (link_next (Publish (peer r)) s) sent recd"
proof -
  let ?P = "producer_view s (peer r)"
  have "rings_apart ?P (producer_view s r)" using assms rings_apart_sym by (auto simp: link_chan_def)
  then have "apart_from_ring (ucast (xr_produced_addr ?P)) 4 (producer_view s r)"
    using apart_from_ring_iff [of _ _ "(ucast (xr_produced_addr ?P), 4)"] by (simp add: ring_ranges_def)
  from link_chan_store [OF assms, where bs = "bytes_of_u32 (xr_produced ?P)"] this
  show ?thesis
    by (simp add: link_op_defs xgq_notify_peer_produced_def xgq_ring_write_produced_def
        xgq_write32_def xgq_reg_write32_def IO_SYNC_WRITE32_def)
qed

lemma link_chan_other_release:
  assumes "link_chan r s sent recd"
  shows "link_chan r (link_next (Release r) s) sent recd"
proof -
  let ?P = "producer_view s (peer r)" and ?C = "consumer_view s (peer r)"
  have sr: "same_ring ?P ?C" using assms by (simp add: link_chan_def)
  have "rings_apart ?P (producer_view s r)" using assms rings_apart_sym by (auto simp: link_chan_def)
  then have "apart_from_ring (ucast (xr_consumed_addr ?P)) 4 (producer_view s r)"
    using apart_from_ring_iff [of _ _ "(ucast (xr_consumed_addr ?P), 4)"] by (simp add: ring_ranges_def)
  then have "apart_from_ring (ucast (xr_consumed_addr ?C)) 4 (producer_view s r)"
    using same_ring_fields [OF sr] by simp
  from link_chan_store [OF assms, where bs = "bytes_of_u32 (xr_consumed ?C)"] this
  show ?thesis
    by (simp add: link_op_defs xgq_notify_peer_consumed_def xgq_ring_write_consumed_def
        xgq_mem_write32_def IO_SYNC_WRITE32_def)
qed

lemma link_chan_step:
  assumes "link_chan r s sent recd" "link_op_ok op s"
  shows "link_chan r (link_next op s) (sent @ link_sends r op s) (recd @ link_receives r op s)"
proof -
  have r: "op_role op = r \<or> op_role op = peer r" by (cases "op_role op"; cases r; simp add: peer_def)
  show ?thesis
  proof (cases op)
    case (Send r' d)
    then show ?thesis
      using r assms link_chan_send [of r s sent recd d] link_chan_other_send [of r s sent recd d]
      by (cases "r' = r") (simp_all add: link_sends_def link_receives_def)
  next
    case (Publish r')
    then show ?thesis using r assms link_chan_publish link_chan_other_publish
      by (auto simp: link_sends_def link_receives_def)
  next
    case (Receive r')
    then show ?thesis
      using r assms link_chan_receive [of r s sent recd] link_chan_other_receive [of r s sent recd]
      by (cases "r' = r") (simp_all add: link_sends_def link_receives_def)
  next
    case (Release r')
    then show ?thesis using r assms link_chan_release link_chan_other_release
      by (auto simp: link_sends_def link_receives_def)
  qed
qed

lemma link_chan_prefix: "link_chan r s sent recd \<Longrightarrow> prefix recd sent"
  unfolding link_chan_def using chan_inv_prefix by blast

lemma link_chan_capacity:
  "link_chan r s sent recd \<Longrightarrow> length sent \<le> length recd + ring_size (producer_view s r)"
  unfolding link_chan_def using chan_inv_bound by blast

section \<open>The contract of a message channel\<close>

text \<open>What the users of a queue rely on: an invariant between the messages sent and those
  received that every operation keeps, of which the received ones are a prefix, and that bounds
  the messages in flight.  Everything the two sides do by turns then keeps it.\<close>

locale message_channel =
  fixes inv :: "'s \<Rightarrow> 'd list \<Rightarrow> 'd list \<Rightarrow> bool"
    and step :: "'o \<Rightarrow> 's \<Rightarrow> 's"
    and ok :: "'o \<Rightarrow> 's \<Rightarrow> bool"
    and sends :: "'o \<Rightarrow> 's \<Rightarrow> 'd list"
    and receives :: "'o \<Rightarrow> 's \<Rightarrow> 'd list"
    and capacity :: "'s \<Rightarrow> nat"
  assumes inv_step: "inv s a b \<Longrightarrow> ok x s \<Longrightarrow> inv (step x s) (a @ sends x s) (b @ receives x s)"
    and inv_prefix: "inv s a b \<Longrightarrow> prefix b a"
    and inv_capacity: "inv s a b \<Longrightarrow> length a \<le> length b + capacity s"
begin

fun run :: "'o list \<Rightarrow> 's \<Rightarrow> 's" where
  "run [] s = s"
| "run (x # xs) s = run xs (step x s)"

fun all_ok :: "'o list \<Rightarrow> 's \<Rightarrow> bool" where
  "all_ok [] s = True"
| "all_ok (x # xs) s \<longleftrightarrow> ok x s \<and> all_ok xs (step x s)"

fun trace :: "('o \<Rightarrow> 's \<Rightarrow> 'd list) \<Rightarrow> 'o list \<Rightarrow> 's \<Rightarrow> 'd list" where
  "trace f [] s = []"
| "trace f (x # xs) s = f x s @ trace f xs (step x s)"

lemma run_inv:
  "inv s a b \<Longrightarrow> all_ok xs s \<Longrightarrow> inv (run xs s) (a @ trace sends xs s) (b @ trace receives xs s)"
proof (induct xs arbitrary: s a b)
  case (Cons x xs)
  then have "inv (step x s) (a @ sends x s) (b @ receives x s)" using inv_step by simp
  from Cons.hyps [OF this] Cons.prems show ?case by simp
qed simp

lemma run_fifo:
  assumes "inv s [] []" "all_ok xs s"
  shows "prefix (trace receives xs s) (trace sends xs s)"
    "length (trace sends xs s) \<le> length (trace receives xs s) + capacity (run xs s)"
  using run_inv [OF assms] inv_prefix inv_capacity by fastforce+

end

text \<open>The runs of the link, written out over the model.\<close>

fun link_run :: "link_op list \<Rightarrow> xgq_link \<Rightarrow> xgq_link" where
  "link_run [] s = s"
| "link_run (x # xs) s = link_run xs (link_next x s)"

fun link_all_ok :: "link_op list \<Rightarrow> xgq_link \<Rightarrow> bool" where
  "link_all_ok [] s = True"
| "link_all_ok (x # xs) s \<longleftrightarrow> link_op_ok x s \<and> link_all_ok xs (link_next x s)"

fun link_trace :: "(link_op \<Rightarrow> xgq_link \<Rightarrow> u8 list list) \<Rightarrow> link_op list \<Rightarrow> xgq_link \<Rightarrow> u8 list list" where
  "link_trace f [] s = []"
| "link_trace f (x # xs) s = f x s @ link_trace f xs (link_next x s)"

interpretation sq: message_channel "link_chan XGQ_CLIENT" link_next link_op_ok
    "link_sends XGQ_CLIENT" "link_receives XGQ_CLIENT" "\<lambda>s. ring_size (producer_view s XGQ_CLIENT)"
  by unfold_locales (fact link_chan_step link_chan_prefix link_chan_capacity)+

interpretation cq: message_channel "link_chan XGQ_SERVER" link_next link_op_ok
    "link_sends XGQ_SERVER" "link_receives XGQ_SERVER" "\<lambda>s. ring_size (producer_view s XGQ_SERVER)"
  by unfold_locales (fact link_chan_step link_chan_prefix link_chan_capacity)+

lemma link_run_channel:
  "sq.run xs s = link_run xs s" "sq.all_ok xs s = link_all_ok xs s" "sq.trace f xs s = link_trace f xs s"
  "cq.run xs s = link_run xs s" "cq.all_ok xs s = link_all_ok xs s" "cq.trace f xs s = link_trace f xs s"
  by (induct xs arbitrary: s) simp_all

end
