(* ===== verification/Xgq_Setup.thy ===== *)
theory Xgq_Setup
  imports Xgq_Channel
begin

text \<open>Setting up a queue: how many slots \<open>xgq_alloc\<close> fits in the ring buffer, where it puts
  them, and that \<open>xgq_attach\<close> on the other side arrives at the same rings, so that the two
  sides start with the channel invariant of \<open>Xgq_Channel\<close>.\<close>

section \<open>The number of slots\<close>

definition ring_bytes :: "nat \<Rightarrow> nat \<Rightarrow> nat" where
  "ring_bytes n sz = sizeof_xgq_header + n * (sz + sizeof_com_queue_entry)"

definition slots_inv :: "u32 \<Rightarrow> u32 list \<Rightarrow> u32 \<times> u32 \<Rightarrow> bool" where
  "slots_inv rlen ss st \<longleftrightarrow> (\<exists>k \<le> 31. snd st = 2 ^ k \<and>
     fst st = (if k = 0 then 0 else sum_ring_len (2 ^ k) ss) \<and>
     (\<forall>j. 1 \<le> j \<and> j < k \<longrightarrow> sum_ring_len (2 ^ j) ss \<le> rlen))"

lemma slots_invE:
  assumes "slots_inv rlen ss st"
  obtains k where "k \<le> 31" "snd st = 2 ^ k" "fst st = (if k = 0 then 0 else sum_ring_len (2 ^ k) ss)"
    "\<forall>j. 1 \<le> j \<and> j < k \<longrightarrow> sum_ring_len (2 ^ j) ss \<le> rlen"
  using assms by (auto simp: slots_inv_def)

lemma alloc_num_slots_exp:
  obtains k where "k < 31" "xgq_alloc_num_slots rlen ss = 2 ^ k"
    "\<forall>j. 1 \<le> j \<and> j \<le> k \<longrightarrow> sum_ring_len (2 ^ j) ss \<le> rlen"
    "k < 30 \<longrightarrow> rlen < sum_ring_len (2 ^ Suc k) ss"
proof -
  let ?c = "\<lambda>(total_len, numslots). total_len \<le> rlen \<and> numslots < (2147483648 :: u32)"
  let ?b = "\<lambda>(total_len :: u32, numslots :: u32). (sum_ring_len (push_bit 1 numslots) ss, push_bit 1 numslots)"
  have push: "push_bit 1 (2 ^ k :: u32) = 2 ^ Suc k" for k
    by (simp add: push_bit_eq_mult)
  have step: "slots_inv rlen ss (?b st)" if si: "slots_inv rlen ss st" and c: "?c st" for st
  proof -
    obtain k where k: "k \<le> 31" "snd st = 2 ^ k" "fst st = (if k = 0 then 0 else sum_ring_len (2 ^ k) ss)"
      "\<forall>j. 1 \<le> j \<and> j < k \<longrightarrow> sum_ring_len (2 ^ j) ss \<le> rlen"
      using si by (rule slots_invE)
    then have "k < 31" using c by (auto simp: exp_less_exp31 split: prod.splits)
    moreover have "\<forall>j. 1 \<le> j \<and> j < Suc k \<longrightarrow> sum_ring_len (2 ^ j) ss \<le> rlen"
      using k c by (auto simp: less_Suc_eq split: prod.splits if_splits)
    moreover have "?b st = (sum_ring_len (2 ^ Suc k) ss, 2 ^ Suc k)"
      using k(2) push by (cases st) (auto simp: mult.commute)
    ultimately show ?thesis unfolding slots_inv_def by (intro exI [of _ "Suc k"]) auto
  qed
  have "slots_inv rlen ss (while ?c ?b (0, 1)) \<and> \<not> ?c (while ?c ?b (0, 1)) \<and> snd (while ?c ?b (0, 1)) \<noteq> 1"
  proof (rule while_rule [where P = "\<lambda>st. slots_inv rlen ss st \<and> (snd st = 1 \<longrightarrow> fst st = 0)"
        and r = "measure (\<lambda>st. 2147483648 - unat (snd st))"])
    show "slots_inv rlen ss (0, 1) \<and> (snd (0, 1 :: u32) = 1 \<longrightarrow> fst (0 :: u32, 1 :: u32) = 0)"
      by (auto simp: slots_inv_def intro: exI [of _ 0])
  next
    fix st assume s: "slots_inv rlen ss st \<and> (snd st = 1 \<longrightarrow> fst st = 0)" "?c st"
    then obtain k where k: "k \<le> 31" "snd st = 2 ^ k" by (meson slots_invE)
    then have lt: "k < 31" using s by (auto simp: exp_less_exp31 split: prod.splits)
    have n: "snd (?b st) = 2 ^ Suc k" using k push by (cases st) auto
    have "unat (2 ^ Suc k :: u32) \<noteq> 1" using lt by (subst unat_exp_u32) auto
    then have "snd (?b st) \<noteq> 1" using n by auto
    then show "slots_inv rlen ss (?b st) \<and> (snd (?b st) = 1 \<longrightarrow> fst (?b st) = 0)"
      using step s by blast
    have "(2::nat) ^ k < 2 ^ 31" using lt by (intro power_strict_increasing) auto
    then have "2147483648 - (2::nat) ^ Suc k < 2147483648 - 2 ^ k"
      by (intro diff_less_mono2) simp_all
    moreover have "unat (snd (?b st)) = 2 ^ Suc k"
      using lt unat_exp_u32 [of "Suc k"] by (simp only: n)
    moreover have "unat (snd st) = 2 ^ k" using k lt by (simp add: unat_exp_u32)
    ultimately show "(?b st, st) \<in> measure (\<lambda>st. 2147483648 - unat (snd st))"
      by (simp only: in_measure)
  next
    fix st assume s: "slots_inv rlen ss st \<and> (snd st = 1 \<longrightarrow> fst st = 0)" "\<not> ?c st"
    then show "slots_inv rlen ss st \<and> \<not> ?c st \<and> snd st \<noteq> 1"
      by (cases st) auto
  qed simp
  moreover define st where "st = while ?c ?b (0, 1)"
  ultimately have st: "slots_inv rlen ss st" "\<not> ?c st" "snd st \<noteq> 1" by auto
  obtain k where k: "k \<le> 31" "snd st = 2 ^ k" "fst st = (if k = 0 then 0 else sum_ring_len (2 ^ k) ss)"
      "\<forall>j. 1 \<le> j \<and> j < k \<longrightarrow> sum_ring_len (2 ^ j) ss \<le> rlen"
    using st(1) by (rule slots_invE)
  obtain i where i: "k = Suc i" using st(3) k(2) by (cases k) auto
  have res: "xgq_alloc_num_slots rlen ss = drop_bit 1 (snd st)"
    by (simp add: xgq_alloc_num_slots_def st_def push_bit_eq_mult)
  show thesis
  proof (rule that [of i])
    show "xgq_alloc_num_slots rlen ss = 2 ^ i" using k i halve_exp_u32 [of i] by (simp add: res)
    show "i < 30 \<longrightarrow> rlen < sum_ring_len (2 ^ Suc i) ss"
      using st(2) k i exp_less_exp31 [of "Suc i"] by (auto simp: not_le split: prod.splits)
  qed (use k i in auto)
qed

lemma unat_ring_len:
  assumes "ring_bytes (unat n) (unat s) < 2 ^ 32"
  shows "unat (xgq_ring_len n s) = ring_bytes (unat n) (unat s)"
proof -
  have "xgq_ring_len n s = of_nat (ring_bytes (unat n) (unat s))"
    by (simp add: xgq_ring_len_def ring_bytes_def)
  then show ?thesis using assms by (simp only: unat_of_nat_u32)
qed

lemma sum_ring_len_single: "sum_ring_len n [s] = xgq_ring_len n s"
  by (simp add: sum_ring_len_def)

text \<open>With a ring buffer and slots well below the 32-bit limit the sizes never wrap: the
  queue fits, and twice as many slots would not (unless the count is already \<open>2^30\<close>).\<close>

lemma alloc_num_slots_fits:
  assumes "unat rlen < 2 ^ 31" "unat s < 2 ^ 30"
  obtains k where "k < 31" "xgq_alloc_num_slots rlen [s] = 2 ^ k"
    "1 \<le> k \<longrightarrow> ring_bytes (2 ^ k) (unat s) \<le> unat rlen"
    "k < 30 \<longrightarrow> unat rlen < ring_bytes (2 ^ Suc k) (unat s)"
proof -
  obtain k where k: "k < 31" "xgq_alloc_num_slots rlen [s] = 2 ^ k"
    "\<forall>j. 1 \<le> j \<and> j \<le> k \<longrightarrow> sum_ring_len (2 ^ j) [s] \<le> rlen"
    "k < 30 \<longrightarrow> rlen < sum_ring_len (2 ^ Suc k) [s]"
    by (rule alloc_num_slots_exp)
  have dbl: "ring_bytes (2 ^ Suc j) (unat s) \<le> 2 * ring_bytes (2 ^ j) (unat s)" for j
    by (simp add: ring_bytes_def)
  have len: "unat (sum_ring_len (2 ^ j) [s]) = ring_bytes (2 ^ j) (unat s)"
    if "ring_bytes (2 ^ j) (unat s) < 2 ^ 32" "j < 32" for j
    using unat_ring_len [of "2 ^ j" s] that by (simp add: sum_ring_len_single unat_exp_u32)
  have small: "ring_bytes 2 (unat s) < 2 ^ 32"
    using assms by (simp add: ring_bytes_def sizeof_xgq_header_def sizeof_com_queue_entry_def)
  have fit: "ring_bytes (2 ^ j) (unat s) \<le> unat rlen" if "1 \<le> j" "j \<le> k" for j
    using that
  proof (induct j rule: nat_induct_at_least)
    case base
    then show ?case using k(1,3) len [of 1] small by (auto simp: word_le_nat_alt)
  next
    case (Suc j)
    then have "ring_bytes (2 ^ Suc j) (unat s) < 2 ^ 32"
      using dbl [of j] assms(1) by simp
    then show ?case using k(1,3) Suc len [of "Suc j"] by (auto simp: word_le_nat_alt)
  qed
  have big: "k < 30 \<longrightarrow> unat rlen < ring_bytes (2 ^ Suc k) (unat s)"
  proof
    assume "k < 30"
    have "ring_bytes (2 ^ Suc k) (unat s) < 2 ^ 32"
    proof (cases "k = 0")
      case True
      then show ?thesis using small by simp
    next
      case False
      then show ?thesis using fit [of k] dbl [of k] assms(1) by simp
    qed
    then show "unat rlen < ring_bytes (2 ^ Suc k) (unat s)"
      using k(4) len [of "Suc k"] \<open>k < 30\<close> by (auto simp: word_less_nat_alt)
  qed
  show thesis using that k fit big by blast
qed

section \<open>Words in the ring memory\<close>

lemma concat_bytes_length: "length (concat (map bytes_of_u32 ws)) = 4 * length ws"
  by (induct ws) simp_all

lemma ucast_ring_offset: "(ucast (a + of_nat k :: u64) :: u32) = ucast a + of_nat k"
  by (simp add: ucast_add_u32) (transfer, simp)

lemma copy_to_ring_loop_store:
  "n \<le> length ws \<Longrightarrow> 4 * n \<le> 2 ^ 32 \<Longrightarrow>
   copy_to_ring_loop h ws tgt n m = mem_store m (ucast tgt) (concat (map bytes_of_u32 (take n ws)))"
proof (induct n)
  case (Suc n)
  let ?c = "concat (map bytes_of_u32 (take n ws))"
  have l: "length ?c = 4 * n" using Suc by (simp add: concat_bytes_length)
  have "copy_to_ring_loop h ws tgt (Suc n) m =
      mem_store (mem_store m (ucast tgt) ?c) (ucast tgt + of_nat (length ?c)) (bytes_of_u32 (ws ! n))"
    using Suc l ucast_ring_offset [of tgt "4 * n"]
    by (simp add: xgq_mem_write32_def IO_SYNC_WRITE32_def)
  also have "\<dots> = mem_store m (ucast tgt) (?c @ bytes_of_u32 (ws ! n))"
    using Suc l by (intro mem_store_append) simp_all
  also have "?c @ bytes_of_u32 (ws ! n) = concat (map bytes_of_u32 (take (Suc n) ws))"
    using Suc by (simp add: take_Suc_conv_app_nth)
  finally show ?case .
qed simp

lemma copy_from_ring_loop_words:
  "copy_from_ring_loop h src n m = map (\<lambda>i. IO_SYNC_READ32 (ucast src + of_nat (4 * i)) m) [0..<n]"
  by (induct n) (simp_all add: xgq_mem_read32_def ucast_ring_offset flip: of_nat_mult)

lemma mem_load_store_part:
  assumes "length xs + length ys + length zs < 2 ^ 32"
  shows "mem_load (mem_store m a (xs @ ys @ zs)) (a + of_nat (length xs)) (length ys) = ys"
proof -
  have "mem_store m a (xs @ ys @ zs) =
      mem_store (mem_store (mem_store m a xs) (a + of_nat (length xs)) ys)
        (a + of_nat (length xs) + of_nat (length ys)) zs"
    using assms mem_store_append [of xs "ys @ zs" m a]
      mem_store_append [of ys zs "mem_store m a xs" "a + of_nat (length xs)"] by simp
  moreover have "disjoint_ranges (a + of_nat (length xs) + of_nat (length ys)) (length zs)
      (a + of_nat (length xs)) (length ys)"
    using disjoint_ranges_offsets [of "length ys" "length zs" 0 "length ys" "a + of_nat (length xs)"] assms
    by simp
  ultimately show ?thesis
    using assms mem_load_store_same [of ys "mem_store m a xs"] by (simp add: mem_load_store_disjoint)
qed

lemma read32_stored_words:
  assumes "i < length ws" "4 * length ws < 2 ^ 32"
  shows "IO_SYNC_READ32 (a + of_nat (4 * i)) (mem_store m a (concat (map bytes_of_u32 ws))) = ws ! i"
proof -
  let ?f = "\<lambda>ws. concat (map bytes_of_u32 ws)"
  have "ws = take i ws @ ws ! i # drop (Suc i) ws" using assms(1) by (simp add: id_take_nth_drop)
  then have c: "?f ws = ?f (take i ws) @ bytes_of_u32 (ws ! i) @ ?f (drop (Suc i) ws)"
    by (metis concat.simps(2) concat_append list.simps(9) map_append)
  show ?thesis
    using mem_load_store_part [of "?f (take i ws)" "bytes_of_u32 (ws ! i)" "?f (drop (Suc i) ws)" m a] assms
    by (simp add: c IO_SYNC_READ32_def concat_bytes_length)
qed

section \<open>The layout of a queue\<close>

text \<open>Outside the in-memory mode the producer pointers are registers of the queue hardware; they
  and the interrupt-enable register lie outside the ring buffer and apart from each other.\<close>

definition registers_apart :: "u32 \<Rightarrow> nat \<Rightarrow> u32 \<Rightarrow> u32 \<Rightarrow> bool" where
  "registers_apart R len sp cp \<longleftrightarrow>
     sorted_wrt apart [(sp, 4), (cp, 4), (R, len)] \<and>
     (\<forall>x \<in> {(sp, 4), (cp, 4), (R, len)}. apart (sp + 12, 4) x)"

lemma queue_layout:
  assumes "ring_bytes n sz \<le> 2 ^ 32"
    and "sp = R + 36 \<and> cp = R + 40 \<or> registers_apart R (ring_bytes n sz) sp cp"
  shows "sorted_wrt apart [(sp, 4), (R + 24, 4), (R + 44, sz * n), (cp, 4), (R + 28, 4),
           (R + of_nat (44 + sz * n), 16 * n)]"
proof -
  have L: "44 + sz * n + 16 * n = ring_bytes n sz"
    by (simp add: ring_bytes_def sizeof_xgq_header_def sizeof_com_queue_entry_def algebra_simps)
  have inner: "disjoint_ranges (R + of_nat u) i (R + of_nat v) j"
    if "u + i \<le> v \<and> v + j \<le> ring_bytes n sz \<or> v + j \<le> u \<and> u + i \<le> ring_bytes n sz" for u i v j
    using that assms(1) by (intro disjoint_ranges_offsets) linarith
  have c: "R + 24 = R + of_nat 24" "R + 28 = R + of_nat 28" "R + 36 = R + of_nat 36"
    "R + 40 = R + of_nat 40" "R + 44 = R + of_nat 44" by simp_all
  show ?thesis
    using assms(2)
  proof
    assume "sp = R + 36 \<and> cp = R + 40"
    then have p: "sp = R + of_nat 36" "cp = R + of_nat 40" by simp_all
    show ?thesis unfolding p c
      using L by (simp only: sorted_wrt.simps list.set ball_simps simp_thms fst_conv snd_conv insert_iff
        empty_iff) (intro conjI TrueI; rule inner; linarith)
  next
    assume r: "registers_apart R (ring_bytes n sz) sp cp"
    have out: "disjoint_ranges sp 4 (R + of_nat u) i" "disjoint_ranges (R + of_nat u) i cp 4"
      "disjoint_ranges cp 4 (R + of_nat u) i"
      if "u + i \<le> ring_bytes n sz" for u i
      using r that disjoint_ranges_sub disjoint_ranges_sym by (auto simp: registers_apart_def)
    have "disjoint_ranges sp 4 cp 4" using r by (simp add: registers_apart_def)
    then show ?thesis unfolding c
      using L by (simp only: sorted_wrt.simps list.set ball_simps simp_thms fst_conv snd_conv insert_iff
        empty_iff) (intro conjI TrueI;
          (assumption | rule inner, linarith | rule out(1), linarith | rule out(2), linarith
           | rule out(3), linarith))
  qed
qed

text \<open>The two rings of a queue that \<open>xgq_init\<close> lays out at \<open>R\<close>.\<close>

definition laid_out :: "u64 \<Rightarrow> u32 \<Rightarrow> u32 \<Rightarrow> u64 \<Rightarrow> u64 \<Rightarrow> xgq_ring \<Rightarrow> xgq_ring \<Rightarrow> bool" where
  "laid_out ra n sz sp cp sq cq \<longleftrightarrow>
     same_ring sq (xgq_init_ring sp (ra + 24) (ra + 44) n sz) \<and>
     same_ring cq (xgq_init_ring cp (ra + 28) (ra + 44 + ucast (n * sz)) n 16)"

lemma laid_out_geom:
  assumes "laid_out ra n sz sp cp sq cq" "power_of_two n" "2 \<le> unat n" "unat n \<le> 2 ^ 31"
    and "ring_bytes (unat n) (unat sz) < 2 ^ 32"
    and "ucast sp = (ucast ra + 36 :: u32) \<and> ucast cp = (ucast ra + 40 :: u32) \<or>
         registers_apart (ucast ra) (ring_bytes (unat n) (unat sz)) (ucast sp) (ucast cp)"
  shows "ring_geom sq" "ring_geom cq" "rings_apart sq cq"
proof -
  let ?sq = "xgq_init_ring sp (ra + 24) (ra + 44) n sz"
  let ?cq = "xgq_init_ring cp (ra + 28) (ra + 44 + ucast (n * sz)) n 16"
  have s: "same_ring ?sq sq" "same_ring ?cq cq" using assms(1) by (auto simp: laid_out_def same_ring_def)
  have "unat n * unat sz < 2 ^ 32" "unat n * 16 < 2 ^ 32"
    using assms(5) by (simp_all add: ring_bytes_def sizeof_com_queue_entry_def algebra_simps)
  have o: "(ucast (ra + 44 + ucast (n * sz)) :: u32) = ucast ra + of_nat (44 + unat sz * unat n)"
    by (simp add: ucast_add_u32 mult.commute)
  have r: "ring_ranges ?sq @ ring_ranges ?cq =
    [(ucast sp, 4), (ucast ra + 24, 4), (ucast ra + 44, unat sz * unat n), (ucast cp, 4),
     (ucast ra + 28, 4), (ucast ra + of_nat (44 + unat sz * unat n), 16 * unat n)]"
    unfolding ring_ranges_def xgq_init_ring_def slot_len_def ring_size_def
    by (simp add: o del: of_nat_mult of_nat_add) (simp add: ucast_add_u32)
  have "sorted_wrt apart (ring_ranges ?sq @ ring_ranges ?cq)"
    unfolding r using assms(5,6) by (intro queue_layout) auto
  then have "ring_geom ?sq" "ring_geom ?cq" "rings_apart ?sq ?cq"
    using assms(2-4) \<open>unat n * unat sz < 2 ^ 32\<close> \<open>unat n * 16 < 2 ^ 32\<close>
    by (auto simp: ring_geom_def rings_apart_def sorted_wrt_append xgq_init_ring_def ring_size_def
        slot_len_def mult.commute)
  then show "ring_geom sq" "ring_geom cq" "rings_apart sq cq"
    using same_ring_derived [OF s(1)] same_ring_derived [OF s(2)] by (auto simp: rings_apart_def)
qed

section \<open>What initialisation leaves in memory\<close>

lemma word_at_offset:
  assumes "u + 4 \<le> v \<or> v + 4 \<le> u" "u < 2 ^ 31" "v < 2 ^ 31"
  shows "disjoint_ranges (R + of_nat u) 4 (R + of_nat v) 4"
  using assms by (intro disjoint_ranges_offsets) auto

text \<open>The producer pointers of a queue: in the header, or the registers passed in.\<close>

definition sq_pointer :: "u32 \<Rightarrow> u64 \<Rightarrow> u64 \<Rightarrow> u64" where
  "sq_pointer flags ra sqp = (if XGQ_IS_IN_MEM_PROD flags then ra + 36 else sqp)"

definition cq_pointer :: "u32 \<Rightarrow> u64 \<Rightarrow> u64 \<Rightarrow> u64" where
  "cq_pointer flags ra cqp = (if XGQ_IS_IN_MEM_PROD flags then ra + 40 else cqp)"

definition pointers_ok :: "u32 \<Rightarrow> u64 \<Rightarrow> nat \<Rightarrow> u64 \<Rightarrow> u64 \<Rightarrow> bool" where
  "pointers_ok flags ra len sqp cqp \<longleftrightarrow>
     XGQ_IS_IN_MEM_PROD flags \<or> registers_apart (ucast ra) len (ucast sqp) (ucast cqp)"

lemma pointers_ok_layout:
  "pointers_ok flags ra len sqp cqp \<Longrightarrow>
    ucast (sq_pointer flags ra sqp) = (ucast ra + 36 :: u32) \<and>
    ucast (cq_pointer flags ra cqp) = (ucast ra + 40 :: u32) \<or>
    registers_apart (ucast ra) len (ucast (sq_pointer flags ra sqp)) (ucast (cq_pointer flags ra cqp))"
  by (auto simp: pointers_ok_def sq_pointer_def cq_pointer_def ucast_add_u32)

lemma pointer_apart_header:
  assumes "pointers_ok flags ra len sqp cqp" "44 \<le> len"
    and "p = sq_pointer flags ra sqp \<or> p = cq_pointer flags ra cqp" "u \<le> 32"
  shows "disjoint_ranges (ucast ra + of_nat u) 4 (ucast p) 4"
proof (cases "XGQ_IS_IN_MEM_PROD flags")
  case True
  then have "ucast p = (ucast ra + of_nat 36 :: u32) \<or> ucast p = (ucast ra + of_nat 40 :: u32)"
    using assms(3) by (auto simp: sq_pointer_def cq_pointer_def ucast_add_u32)
  then show ?thesis
    using word_at_offset [of u 36 "ucast ra"] word_at_offset [of u 40 "ucast ra"] assms(4) by auto
next
  case False
  then have "disjoint_ranges (ucast p) 4 (ucast ra) len"
    using assms(1,3) by (auto simp: pointers_ok_def registers_apart_def sq_pointer_def cq_pointer_def)
  then show ?thesis
    using disjoint_ranges_sub [of "ucast p" 4 "ucast ra" len u 4] assms(2,4) disjoint_ranges_sym by auto
qed

definition header_at :: "mem \<Rightarrow> u32 \<Rightarrow> u32 \<Rightarrow> u32 \<Rightarrow> u32 \<Rightarrow> bool" where
  "header_at m R flags n sz \<longleftrightarrow>
     IO_SYNC_READ32 R m = XGQ_ALLOC_MAGIC \<and> IO_SYNC_READ32 (R + 4) m = XGQ_VERSION
     \<and> IO_SYNC_READ32 (R + 8) m = n \<and> IO_SYNC_READ32 (R + 12) m = 44
     \<and> IO_SYNC_READ32 (R + 16) m = sz \<and> IO_SYNC_READ32 (R + 20) m = 44 + n * sz
     \<and> IO_SYNC_READ32 (R + 32) m = flags"

text \<open>A ring at rest: all pointers, cached and in memory, agree.\<close>

definition ring_at_rest :: "mem \<Rightarrow> xgq_ring \<Rightarrow> bool" where
  "ring_at_rest m r \<longleftrightarrow> xr_consumed r = xr_produced r
     \<and> IO_SYNC_READ32 (ucast (xr_produced_addr r)) m = xr_produced r
     \<and> IO_SYNC_READ32 (ucast (xr_consumed_addr r)) m = xr_produced r"

lemma init_header_words:
  fixes ws :: "u32 list"
  defines "st \<equiv> \<lambda>m R ws v1 v2. IO_SYNC_WRITE32 XGQ_ALLOC_MAGIC R (IO_SYNC_WRITE32 v2 (R + 28)
      (IO_SYNC_WRITE32 v1 (R + 24) (mem_store m R (concat (map bytes_of_u32 ws)))))"
  assumes "length ws = 11"
  shows "IO_SYNC_READ32 R (st m R ws v1 v2) = XGQ_ALLOC_MAGIC"
    "IO_SYNC_READ32 (R + 24) (st m R ws v1 v2) = v1"
    "IO_SYNC_READ32 (R + 28) (st m R ws v1 v2) = v2"
    "i \<in> {1,2,3,4,5,8} \<Longrightarrow> IO_SYNC_READ32 (R + of_nat (4 * i)) (st m R ws v1 v2) = ws ! i"
proof -
  have d: "disjoint_ranges R 4 (R + 24) 4" "disjoint_ranges R 4 (R + 28) 4"
      "disjoint_ranges (R + 28) 4 (R + 24) 4"
    using word_at_offset [of 0 24 R] word_at_offset [of 0 28 R] word_at_offset [of 28 24 R] by simp_all
  then show "IO_SYNC_READ32 R (st m R ws v1 v2) = XGQ_ALLOC_MAGIC"
    "IO_SYNC_READ32 (R + 24) (st m R ws v1 v2) = v1"
    "IO_SYNC_READ32 (R + 28) (st m R ws v1 v2) = v2"
    by (simp_all add: st_def mem_simps)
  assume i: "i \<in> {1,2,3,4,5,8}"
  then have "disjoint_ranges (R + of_nat 0) 4 (R + of_nat (4 * i)) 4"
    "disjoint_ranges (R + of_nat 24) 4 (R + of_nat (4 * i)) 4"
    "disjoint_ranges (R + of_nat 28) 4 (R + of_nat (4 * i)) 4"
    by (intro word_at_offset; auto)+
  moreover have "IO_SYNC_READ32 (R + of_nat (4 * i)) (mem_store m R (concat (map bytes_of_u32 ws))) = ws ! i"
    using i assms by (intro read32_stored_words) auto
  ultimately show "IO_SYNC_READ32 (R + of_nat (4 * i)) (st m R ws v1 v2) = ws ! i"
    unfolding st_def by (simp add: mem_simps del: of_nat_mult)
qed

lemma copy_header:
  "xgq_copy_to_ring h (header_words hdr) ra 44 m =
     mem_store m (ucast ra) (concat (map bytes_of_u32 (header_words hdr)))"
  "xgq_copy_to_ring h (header_words hdr) ra 4 m = IO_SYNC_WRITE32 (xh_magic hdr) (ucast ra) m"
  by (simp_all add: xgq_copy_to_ring_def copy_to_ring_loop_store header_words_def
      xgq_mem_write32_def)

lemma soft_reset:
  "xgq_soft_reset h flags r m =
    (let v = IO_SYNC_READ32 (ucast (xr_produced_addr r)) m
     in (r\<lparr>xr_produced := v, xr_consumed := v\<rparr>, IO_SYNC_WRITE32 v (ucast (xr_consumed_addr r)) m))"
  by (simp add: xgq_soft_reset_def ring_read_produced xgq_ring_write_consumed_def xgq_mem_write32_def
      Let_def)

lemma xgq_init_result:
  assumes "xgq_init flags h ra n sz sqp cqp m = (q, m')"
    and ok: "pointers_ok (ucast flags) ra len sqp cqp" and len: "44 \<le> len"
  shows "laid_out ra n sz (sq_pointer (ucast flags) ra sqp) (cq_pointer (ucast flags) ra cqp)
           (xq_sq q) (xq_cq q)"
    "ring_at_rest m' (xq_sq q)" "ring_at_rest m' (xq_cq q)"
    "header_at m' (ucast ra) (ucast flags) n sz" "xq_flags q = ucast flags" "xq_io_hdl q = h"
proof -
  let ?R = "ucast ra :: u32" and ?f = "ucast flags :: u32"
  let ?sp = "sq_pointer ?f ra sqp" and ?cp = "cq_pointer ?f ra cqp"
  define m1 where "m1 = (if XGQ_IS_IN_MEM_PROD ?f then m
    else xgq_reg_write32 h (cqp + XGQ_INTR_ENABLE_OFFSET) 1 m)"
  define hdr where "hdr = \<lparr> xh_magic = 0, xh_version = XGQ_VERSION, xh_slot_num = n,
     xh_sq_offset = 44, xh_sq_slot_size = sz, xh_cq_offset = 44 + n * sz, xh_sq_consumed = 0,
     xh_cq_consumed = 0, xh_flags = ?f, xh_sq_produced = 0, xh_cq_produced = 0 \<rparr>"
  define m2 where "m2 = mem_store m1 ?R (concat (map bytes_of_u32 (header_words hdr)))"
  define v1 where "v1 = IO_SYNC_READ32 (ucast ?sp) m2"
  define m3 where "m3 = IO_SYNC_WRITE32 v1 (?R + 24) m2"
  define v2 where "v2 = IO_SYNC_READ32 (ucast ?cp) m3"
  define m4 where "m4 = IO_SYNC_WRITE32 v2 (?R + 28) m3"
  define m5 where "m5 = IO_SYNC_WRITE32 XGQ_ALLOC_MAGIC ?R m4"
  have off: "(ucast (ra + ucast w - ra) :: u32) = w" "(ucast (ra + 44 + ucast w - ra) :: u32) = 44 + w"
    for w :: u32
  proof -
    have "ra + 44 + ucast w - ra = 44 + ucast w" by simp
    then show "(ucast (ra + 44 + ucast w - ra) :: u32) = 44 + w" by (simp only: ucast_add_u32) simp
  qed simp
  have "xgq_init flags h ra n sz sqp cqp m =
    (\<lparr> xq_io_hdl = h, xq_header_addr = ra, xq_flags = ?f,
       xq_sq = (xgq_init_ring ?sp (ra + 24) (ra + 44) n sz)\<lparr>xr_produced := v1, xr_consumed := v1\<rparr>,
       xq_cq = (xgq_init_ring ?cp (ra + 28) (ra + 44 + ucast (n * sz)) n 16)
                 \<lparr>xr_produced := v2, xr_consumed := v2\<rparr> \<rparr>, m5)"
    unfolding xgq_init_def Let_def
    by (simp add: off copy_header soft_reset xgq_init_ring_def Let_def m1_def m2_def v1_def m3_def
        v2_def m4_def m5_def hdr_def sq_pointer_def cq_pointer_def off_sq_produced_def
        off_cq_produced_def off_sq_consumed_def off_cq_consumed_def sizeof_xgq_header_def
        sizeof_com_queue_entry_def ucast_add_u32)
  then have q: "xq_flags q = ?f" "xq_io_hdl q = h" "m' = m5"
    "xq_sq q = (xgq_init_ring ?sp (ra + 24) (ra + 44) n sz)\<lparr>xr_produced := v1, xr_consumed := v1\<rparr>"
    "xq_cq q = (xgq_init_ring ?cp (ra + 28) (ra + 44 + ucast (n * sz)) n 16)
                 \<lparr>xr_produced := v2, xr_consumed := v2\<rparr>"
    using assms(1) by auto
  have m5: "m5 = IO_SYNC_WRITE32 XGQ_ALLOC_MAGIC ?R (IO_SYNC_WRITE32 v2 (?R + 28)
      (IO_SYNC_WRITE32 v1 (?R + 24) (mem_store m1 ?R (concat (map bytes_of_u32 (header_words hdr))))))"
    by (simp add: m2_def m3_def m4_def m5_def)
  have "length (header_words hdr) = 11" by (simp add: header_words_def)
  note W = init_header_words [OF this, where R = ?R and ?v1.0 = v1 and ?v2.0 = v2 and m = m1, folded m5]
  have P: "disjoint_ranges (?R + of_nat u) 4 (ucast ?sp) 4" "disjoint_ranges (?R + of_nat u) 4 (ucast ?cp) 4"
    if "u \<le> 32" for u
    using pointer_apart_header [OF ok len] that by blast+
  have sp: "IO_SYNC_READ32 (ucast ?sp) m5 = v1"
    using P(1) [of 0] P(1) [of 24] P(1) [of 28] by (simp add: m5_def m4_def m3_def mem_simps v1_def)
  have cp: "IO_SYNC_READ32 (ucast ?cp) m5 = v2"
    using P(2) [of 0] P(2) [of 28] by (simp add: m5_def m4_def mem_simps v2_def)
  show "laid_out ra n sz ?sp ?cp (xq_sq q) (xq_cq q)" by (simp add: laid_out_def q)
  show "ring_at_rest m' (xq_sq q)" "ring_at_rest m' (xq_cq q)"
    using sp cp W(2,3) by (simp_all add: ring_at_rest_def q xgq_init_ring_def ucast_add_u32)
  show "header_at m' ?R ?f n sz"
    using W(1) W(4) [of 1] W(4) [of 2] W(4) [of 3] W(4) [of 4] W(4) [of 5] W(4) [of 8]
    by (simp add: header_at_def q header_words_def hdr_def)
  show "xq_flags q = ?f" "xq_io_hdl q = h" by (fact q)+
qed

section \<open>Attaching to a queue\<close>

lemma in_mem_bit: "XGQ_IS_IN_MEM_PROD f \<longleftrightarrow> bit f 2"
  by (simp only: XGQ_IS_IN_MEM_PROD_def XGQ_IN_MEM_PROD_def bit_iff_and_push_bit_not_eq_0)

lemma in_mem_attach:
  "XGQ_IS_IN_MEM_PROD (a OR (f AND XGQ_DOUBLE_READ) OR (f AND XGQ_IN_MEM_PROD)) \<longleftrightarrow>
   XGQ_IS_IN_MEM_PROD a \<or> XGQ_IS_IN_MEM_PROD f"
proof -
  have "bit XGQ_DOUBLE_READ 2 = False" "bit XGQ_IN_MEM_PROD 2 = True"
    by (simp_all add: XGQ_DOUBLE_READ_def XGQ_IN_MEM_PROD_def bit_push_bit_iff)
  then show ?thesis by (simp only: in_mem_bit bit_or_iff bit_and_iff) blast
qed

lemma copy_from_header:
  "xgq_copy_from_ring h ra sizeof_xgq_header m = map (\<lambda>i. IO_SYNC_READ32 (ucast ra + of_nat (4 * i)) m) [0..<11]"
  "xgq_copy_from_ring h ra 4 m ! 0 = IO_SYNC_READ32 (ucast ra) m"
  by (simp_all add: xgq_copy_from_ring_def copy_from_ring_loop_words sizeof_xgq_header_def)

lemma header_fields:
  fixes h ra m
  defines "hdr \<equiv> words_header (xgq_copy_from_ring h ra sizeof_xgq_header m)"
  shows "xh_version hdr = IO_SYNC_READ32 (ucast ra + 4) m"
    "xh_slot_num hdr = IO_SYNC_READ32 (ucast ra + 8) m"
    "xh_sq_offset hdr = IO_SYNC_READ32 (ucast ra + 12) m"
    "xh_sq_slot_size hdr = IO_SYNC_READ32 (ucast ra + 16) m"
    "xh_cq_offset hdr = IO_SYNC_READ32 (ucast ra + 20) m"
    "xh_flags hdr = IO_SYNC_READ32 (ucast ra + 32) m"
  by (simp_all add: hdr_def words_header_def copy_from_header)

lemma fast_forward:
  "xgq_fast_forward h flags r m = r\<lparr>xr_produced := IO_SYNC_READ32 (ucast (xr_produced_addr r)) m,
     xr_consumed := IO_SYNC_READ32 (ucast (xr_consumed_addr r)) m\<rparr>"
  by (simp add: xgq_fast_forward_def ring_read_produced ring_read_consumed)

lemma same_ring_at_rest:
  assumes "same_ring r r'" "ring_at_rest m r" "ring_at_rest m r'"
  shows "r = r'"
proof -
  have "xr_produced r = xr_produced r'" "xr_consumed r = xr_consumed r'"
    using assms same_ring_fields [OF assms(1)] by (auto simp: ring_at_rest_def)
  then show ?thesis using assms(1) by (cases r; cases r') (simp add: same_ring_def)
qed

text \<open>The codes \<open>xgq_attach\<close> refuses a header with; then nothing is changed.\<close>

lemma attach_refuses:
  "IO_SYNC_READ32 (ucast ra) m \<noteq> XGQ_ALLOC_MAGIC \<Longrightarrow>
     xgq_attach q flags h ra sqp cqp m = (- EAGAIN, q, m)"
  "IO_SYNC_READ32 (ucast ra) m = XGQ_ALLOC_MAGIC \<Longrightarrow>
   drop_bit 16 (IO_SYNC_READ32 (ucast ra + 4) m) \<noteq> 1 \<Longrightarrow>
     xgq_attach q flags h ra sqp cqp m = (- EOPNOTSUPP, q, m)"
  "IO_SYNC_READ32 (ucast ra) m = XGQ_ALLOC_MAGIC \<Longrightarrow>
   drop_bit 16 (IO_SYNC_READ32 (ucast ra + 4) m) = 1 \<Longrightarrow>
   IO_SYNC_READ32 (ucast ra + 8) m < 2 \<or> \<not> power_of_two (IO_SYNC_READ32 (ucast ra + 8) m) \<Longrightarrow>
     xgq_attach q flags h ra sqp cqp m = (- EPROTO, q, m)"
proof -
  let ?n = "IO_SYNC_READ32 (ucast ra + 8) m"
  show "IO_SYNC_READ32 (ucast ra) m \<noteq> XGQ_ALLOC_MAGIC \<Longrightarrow>
     xgq_attach q flags h ra sqp cqp m = (- EAGAIN, q, m)"
    by (simp add: xgq_attach_def copy_from_header)
  show "IO_SYNC_READ32 (ucast ra) m = XGQ_ALLOC_MAGIC \<Longrightarrow>
   drop_bit 16 (IO_SYNC_READ32 (ucast ra + 4) m) \<noteq> 1 \<Longrightarrow>
     xgq_attach q flags h ra sqp cqp m = (- EOPNOTSUPP, q, m)"
    by (simp add: xgq_attach_def copy_from_header(2) header_fields GET_XGQ_MAJOR_def XGQ_MAJOR_def)
  assume a: "IO_SYNC_READ32 (ucast ra) m = XGQ_ALLOC_MAGIC"
    "drop_bit 16 (IO_SYNC_READ32 (ucast ra + 4) m) = 1" "?n < 2 \<or> \<not> power_of_two ?n"
  have "?n < XGQ_MIN_NUM_SLOTS \<or> ?n AND (?n - 1) \<noteq> 0"
    using a(3) by (auto simp: power_of_two_def XGQ_MIN_NUM_SLOTS_def)
  then show "xgq_attach q flags h ra sqp cqp m = (- EPROTO, q, m)"
    using a(1,2)
    by (simp add: xgq_attach_def copy_from_header(2) header_fields GET_XGQ_MAJOR_def XGQ_MAJOR_def
        Let_def)
qed

lemma ucast_no_overflow:
  "unat (w :: u32) + 44 < 2 ^ 32 \<Longrightarrow> (ucast (44 + w) :: u64) = 44 + ucast w"
proof -
  assume a: "unat w + 44 < 2 ^ 32"
  have "unat (44 + w) = 44 + unat w" using a by (simp add: unat_word_ariths)
  moreover have "unat (ucast v :: u64) = unat v" for v :: u32
    using unat_u32_less [of v] by (simp add: unsigned_ucast_eq take_bit_nat_eq_self)
  ultimately have "unat (ucast (44 + w) :: u64) = unat (44 + ucast w :: u64)"
    using a by (simp add: unat_word_ariths)
  then show ?thesis by (simp only: word_unat_eq_iff)
qed

lemma ring_at_rest_store:
  assumes "ring_at_rest m r" "apart_from_ring a (length bs) r"
  shows "ring_at_rest (mem_store m a bs) r"
  using assms by (simp add: ring_at_rest_def apart_from_ring_def ring_ranges_def mem_simps)

lemma header_at_store:
  assumes "header_at m R flags n sz" "disjoint_ranges a (length bs) R 44"
  shows "header_at (mem_store m a bs) R flags n sz"
proof -
  have "disjoint_ranges a (length bs) (R + of_nat u) 4" if "u + 4 \<le> 44" for u
    by (rule disjoint_ranges_sub [OF assms(2) that])
  from this [of 0] this [of 4] this [of 8] this [of 12] this [of 16] this [of 20] this [of 32]
  show ?thesis using assms(1) by (simp add: header_at_def read32_store_disjoint)
qed

text \<open>Where the rings of a queue lie: in the ring buffer, but for the producer pointers.\<close>

lemma laid_out_apart:
  assumes "laid_out ra n sz sp cp sq cq"
    and "disjoint_ranges a k (ucast ra) (ring_bytes (unat n) (unat sz))"
    and "disjoint_ranges a k (ucast sp) 4" "disjoint_ranges a k (ucast cp) 4"
  shows "apart_from_ring a k sq \<and> apart_from_ring a k cq"
proof -
  have sq: "same_ring sq (xgq_init_ring sp (ra + 24) (ra + 44) n sz)"
    and cq: "same_ring cq (xgq_init_ring cp (ra + 28) (ra + 44 + ucast (n * sz)) n 16)"
    using assms(1) by (auto simp: laid_out_def)
  have L: "44 + unat sz * unat n + 16 * unat n = ring_bytes (unat n) (unat sz)"
    by (simp add: ring_bytes_def sizeof_xgq_header_def sizeof_com_queue_entry_def algebra_simps)
  have sub: "disjoint_ranges a k (ucast ra + of_nat u) i" if "u + i \<le> ring_bytes (unat n) (unat sz)" for u i
    using assms(2) that by (rule disjoint_ranges_sub)
  show ?thesis
    using sub [of 24 4] sub [of 28 4] sub [of 44 "unat sz * unat n"]
      sub [of "44 + unat sz * unat n" "16 * unat n"] L assms(3,4)
    unfolding apart_from_ring_def same_ring_derived(4) [OF sq, symmetric]
      same_ring_derived(4) [OF cq, symmetric]
    by (simp add: ring_ranges_def slot_len_def ring_size_def
        xgq_init_ring_def ucast_add_u32 mult.commute add.assoc)
qed

lemma xgq_attach_result:
  assumes hdr: "header_at m (ucast ra) flags n sz" and n: "power_of_two n" "2 \<le> unat n"
    and len: "ring_bytes (unat n) (unat sz) < 2 ^ 32"
    and geom: "laid_out ra n sz (sq_pointer flags ra sqp) (cq_pointer flags ra cqp) sq cq"
    and rest: "ring_at_rest m sq" "ring_at_rest m cq"
    and ok: "pointers_ok flags ra (ring_bytes (unat n) (unat sz)) sqp cqp"
    and mode: "XGQ_IS_IN_MEM_PROD (ucast aflags) \<longrightarrow> XGQ_IS_IN_MEM_PROD flags"
    and rg: "ring_geom sq" "ring_geom cq"
  obtains q' m' where "xgq_attach q aflags h ra sqp cqp m = (0, q', m')"
    "xq_sq q' = sq" "xq_cq q' = cq" "ring_at_rest m' sq" "ring_at_rest m' cq"
proof -
  let ?R = "ucast ra :: u32"
  let ?f = "ucast aflags OR (flags AND XGQ_DOUBLE_READ) OR (flags AND XGQ_IN_MEM_PROD)"
  let ?sp = "sq_pointer flags ra sqp" and ?cp = "cq_pointer flags ra cqp"
  define m1 where "m1 = (if XGQ_IS_IN_MEM_PROD flags then m
    else IO_SYNC_WRITE32 1 (ucast sqp + 12) m)"
  have sq: "same_ring sq (xgq_init_ring ?sp (ra + 24) (ra + 44) n sz)"
    and cq: "same_ring cq (xgq_init_ring ?cp (ra + 28) (ra + 44 + ucast (n * sz)) n 16)"
    using geom by (auto simp: laid_out_def)
  note fsq = same_ring_fields [OF sq] and fcq = same_ring_fields [OF cq]
  have mode': "XGQ_IS_IN_MEM_PROD ?f = XGQ_IS_IN_MEM_PROD flags"
    using mode by (auto simp: in_mem_attach)
  have "unat n * unat sz + 44 < 2 ^ 32"
    using len by (simp add: ring_bytes_def sizeof_xgq_header_def algebra_simps)
  then have "unat (n * sz) + 44 < 2 ^ 32" by (simp add: unat_word_ariths)
  then have o: "(ucast (44 + n * sz) :: u64) = 44 + ucast (n * sz)" by (rule ucast_no_overflow)
  have rest1: "ring_at_rest m1 sq" "ring_at_rest m1 cq"
  proof -
    have "apart_from_ring (ucast sqp + 12) 4 sq \<and> apart_from_ring (ucast sqp + 12) 4 cq"
      if nm: "\<not> XGQ_IS_IN_MEM_PROD flags"
      using ok nm laid_out_apart [OF geom, of "ucast sqp + 12" 4]
      by (simp add: pointers_ok_def registers_apart_def sq_pointer_def cq_pointer_def)
    then show "ring_at_rest m1 sq" "ring_at_rest m1 cq"
      using rest by (auto simp: m1_def IO_SYNC_WRITE32_def intro: ring_at_rest_store)
  qed
  have ff: "xgq_fast_forward h f (xgq_init_ring ?sp (ra + 24) (ra + 44) n sz) m1 = sq"
    "xgq_fast_forward h f (xgq_init_ring ?cp (ra + 28) (ra + 44 + ucast (n * sz)) n 16) m1 = cq" for h f
    using rest1 sq cq fsq fcq
    by (cases sq; cases cq; simp add: fast_forward ring_at_rest_def same_ring_def xgq_init_ring_def)+
  have "n < XGQ_MIN_NUM_SLOTS = False" "n AND (n - 1) = 0"
    using n by (simp_all add: XGQ_MIN_NUM_SLOTS_def word_less_nat_alt power_of_two_def)
  then have "xgq_attach q aflags h ra sqp cqp m = (0, q\<lparr>xq_flags := ?f, xq_sq := sq, xq_cq := cq\<rparr>, m1)"
    using hdr ff mode' o unfolding header_at_def
    by (cases "XGQ_IS_IN_MEM_PROD flags"; simp add: xgq_attach_def copy_from_header(2) header_fields GET_XGQ_MAJOR_def XGQ_MAJOR_def Let_def
      XGQ_VERSION_def XGQ_MINOR_def m1_def sq_pointer_def cq_pointer_def off_sq_consumed_def
      off_cq_consumed_def off_sq_produced_def off_cq_produced_def sizeof_com_queue_entry_def
      xgq_reg_write32_def XGQ_INTR_ENABLE_OFFSET_def ucast_add_u32 add.assoc)
  then show thesis using that rest1 by simp
qed

section \<open>A queue just set up\<close>

lemma chan_inv_start:
  assumes "ring_geom P" "ring_at_rest m P"
  shows "chan_inv m P P [] []"
proof (rule chan_invI)
  show "chan_counts m P P (unat (xr_produced P)) 0 0 (length []) 0 0 (length [])"
    using assms by (simp add: chan_counts_def ring_at_rest_def)
qed (use assms in auto)

text \<open>One side allocates, in role \<open>a\<close>; the other side attaches.\<close>

definition link_of :: "role \<Rightarrow> xgq \<Rightarrow> xgq \<Rightarrow> mem \<Rightarrow> xgq_link" where
  "link_of a q q' m = \<lparr> lk_queue = (\<lambda>r. if r = a then q else q'), lk_mem = m \<rparr>"

lemma link_chan_start:
  assumes "ring_geom (xq_sq q)" "ring_geom (xq_cq q)" "rings_apart (xq_sq q) (xq_cq q)"
    "ring_at_rest m (xq_sq q)" "ring_at_rest m (xq_cq q)" "xq_sq q' = xq_sq q" "xq_cq q' = xq_cq q"
  shows "link_chan r (link_of a q q' m) [] []"
  using assms rings_apart_sym
  by (cases r; cases a)
     (simp_all add: link_chan_def link_of_def prod_ring_def cons_ring_def peer_def chan_inv_start)

definition xgq_setup ::
    "u64 \<Rightarrow> u64 \<Rightarrow> u64 \<Rightarrow> size_t \<Rightarrow> u32 \<Rightarrow> u64 \<Rightarrow> u64 \<Rightarrow> role \<Rightarrow> xgq \<Rightarrow> mem \<Rightarrow> xgq_link option" where
  "xgq_setup flags aflags ring_addr ring_len slot_size sqp cqp a q0 m =
     (case xgq_alloc flags 0 ring_addr ring_len slot_size sqp cqp m of
        Inl e \<Rightarrow> None
      | Inr (q, len, m1) \<Rightarrow>
          (case xgq_attach q0 aflags 0 ring_addr sqp cqp m1 of
             (ret, q', m2) \<Rightarrow> if ret = 0 then Some (link_of a q q' m2) else None))"

text \<open>What has to hold of the arguments: the sizes stay below the 32-bit limit, at least two
  slots fit, the slots are whole words, and both sides agree on where the producer pointers
  are.\<close>

definition setup_ok :: "u64 \<Rightarrow> u64 \<Rightarrow> u64 \<Rightarrow> size_t \<Rightarrow> u32 \<Rightarrow> u64 \<Rightarrow> u64 \<Rightarrow> bool" where
  "setup_ok flags aflags ring_addr ring_len slot_size sqp cqp \<longleftrightarrow>
     unat ring_len < 2 ^ 31 \<and> unat slot_size < 2 ^ 30 \<and> slot_size mod 4 = 0
     \<and> ring_bytes 2 (unat slot_size) \<le> unat ring_len
     \<and> pointers_ok (ucast flags) ring_addr (unat ring_len) sqp cqp
     \<and> (XGQ_IS_IN_MEM_PROD (ucast aflags) \<longrightarrow> XGQ_IS_IN_MEM_PROD (ucast flags))"

lemma pointers_ok_mono:
  assumes "pointers_ok flags ra len sqp cqp" "len' \<le> len"
  shows "pointers_ok flags ra len' sqp cqp"
  using assms disjoint_ranges_sub [of _ _ "ucast ra" len 0 len']
  by (auto simp: pointers_ok_def registers_apart_def)

lemma setup_alloc:
  assumes "setup_ok flags aflags ra rlen sz sqp cqp"
  obtains q n m' where "xgq_alloc flags h ra rlen sz sqp cqp m = Inr (q, xgq_ring_len n sz, m')"
    "xgq_init flags h ra n sz sqp cqp m = (q, m')"
    "power_of_two n" "2 \<le> unat n" "unat n \<le> 2 ^ 30" "n = xgq_alloc_num_slots rlen [sz]"
    "ring_bytes (unat n) (unat sz) \<le> unat rlen"
proof -
  have a: "unat rlen < 2 ^ 31" "unat sz < 2 ^ 30" "sz mod 4 = 0" "ring_bytes 2 (unat sz) \<le> unat rlen"
    using assms by (auto simp: setup_ok_def)
  obtain k where k: "k < 31" "xgq_alloc_num_slots rlen [sz] = 2 ^ k"
    "1 \<le> k \<longrightarrow> ring_bytes (2 ^ k) (unat sz) \<le> unat rlen"
    "k < 30 \<longrightarrow> unat rlen < ring_bytes (2 ^ Suc k) (unat sz)"
    by (rule alloc_num_slots_fits [OF a(1,2)])
  let ?n = "2 ^ k :: u32"
  have u: "unat ?n = 2 ^ k" using k(1) by (simp add: unat_exp_u32)
  have "k \<noteq> 0" using k(4) a(4) by (cases k) auto
  then have two: "2 \<le> unat ?n" using u self_le_power [of 2 k] by simp
  then have "\<not> ?n < XGQ_MIN_NUM_SLOTS" by (simp add: XGQ_MIN_NUM_SLOTS_def word_less_nat_alt)
  then have al: "xgq_alloc flags h ra rlen sz sqp cqp m =
      Inr (fst (xgq_init flags h ra ?n sz sqp cqp m), xgq_ring_len ?n sz,
           snd (xgq_init flags h ra ?n sz sqp cqp m))"
    using a(3) k(2) by (simp add: xgq_alloc_def Let_def split_beta)
  show thesis
  proof (rule that)
    show "xgq_alloc flags h ra rlen sz sqp cqp m =
      Inr (fst (xgq_init flags h ra ?n sz sqp cqp m), xgq_ring_len ?n sz,
           snd (xgq_init flags h ra ?n sz sqp cqp m))" by fact
    show "unat ?n \<le> 2 ^ 30" unfolding u using k(1) by (intro power_increasing) auto
    show "ring_bytes (unat ?n) (unat sz) \<le> unat rlen" using k(3) \<open>k \<noteq> 0\<close> u by simp
    show "power_of_two ?n" using k(1) by (intro power_of_two_of_exp) simp
  qed (use two k in simp_all)
qed

lemma setup_link:
  assumes "setup_ok flags aflags ra rlen sz sqp cqp"
  obtains l where "xgq_setup flags aflags ra rlen sz sqp cqp a q0 m = Some l"
    "\<forall>r. link_chan r l [] []"
    "\<forall>r. ring_size (producer_view l r) = unat (xgq_alloc_num_slots rlen [sz])"
    "slot_len (producer_view l XGQ_CLIENT) = unat sz" "slot_len (producer_view l XGQ_SERVER) = 16"
proof -
  obtain q n m1 where al: "xgq_alloc flags 0 ra rlen sz sqp cqp m = Inr (q, xgq_ring_len n sz, m1)"
    and init: "xgq_init flags 0 ra n sz sqp cqp m = (q, m1)"
    and n: "power_of_two n" "2 \<le> unat n" "unat n \<le> 2 ^ 30" and nn: "n = xgq_alloc_num_slots rlen [sz]"
    and fit: "ring_bytes (unat n) (unat sz) \<le> unat rlen"
    by (rule setup_alloc [OF assms])
  let ?len = "ring_bytes (unat n) (unat sz)"
  have len: "?len < 2 ^ 32" "44 \<le> ?len" using fit unat_u32_less [of rlen]
    by (simp_all add: ring_bytes_def sizeof_xgq_header_def)
  have ok: "pointers_ok (ucast flags) ra ?len sqp cqp"
    using assms fit pointers_ok_mono by (auto simp: setup_ok_def)
  note I = xgq_init_result [OF init ok len(2)]
  have g: "ring_geom (xq_sq q)" "ring_geom (xq_cq q)" "rings_apart (xq_sq q) (xq_cq q)"
    using laid_out_geom [OF I(1) n(1,2) _ len(1) pointers_ok_layout [OF ok]] n(3) by simp_all
  have mode: "XGQ_IS_IN_MEM_PROD (ucast aflags) \<longrightarrow> XGQ_IS_IN_MEM_PROD (ucast flags)"
    using assms by (simp add: setup_ok_def)
  obtain q' m2 where at: "xgq_attach q0 aflags 0 ra sqp cqp m1 = (0, q', m2)"
    "xq_sq q' = xq_sq q" "xq_cq q' = xq_cq q" "ring_at_rest m2 (xq_sq q)" "ring_at_rest m2 (xq_cq q)"
    by (rule xgq_attach_result [OF I(4) n(1,2) len(1) I(1-3) ok mode g(1,2)])
  show thesis
  proof (rule that)
    show "xgq_setup flags aflags ra rlen sz sqp cqp a q0 m = Some (link_of a q q' m2)"
      using al at by (simp add: xgq_setup_def)
    show "\<forall>r. link_chan r (link_of a q q' m2) [] []"
      using g at by (intro allI link_chan_start) auto
    have sz: "ring_size (xq_sq q) = unat n" "ring_size (xq_cq q) = unat n"
      "slot_len (xq_sq q) = unat sz" "slot_len (xq_cq q) = 16"
      using I(1) by (auto simp: laid_out_def ring_size_def slot_len_def xgq_init_ring_def
          dest: same_ring_fields(1) same_ring_fields(2))
    then show "\<forall>r. ring_size (producer_view (link_of a q q' m2) r) = unat (xgq_alloc_num_slots rlen [sz])"
      using at nn by (auto simp: link_of_def prod_ring_def split: role.splits)
    show "slot_len (producer_view (link_of a q q' m2) XGQ_CLIENT) = unat sz"
      "slot_len (producer_view (link_of a q q' m2) XGQ_SERVER) = 16"
      using sz at by (auto simp: link_of_def prod_ring_def)
  qed
qed

lemma link_next_same_ring: "same_ring (producer_view s r) (producer_view (link_next op s) r)"
proof (cases op)
  case (Send r' d)
  show ?thesis
  proof (cases rule: xgq_produce_cases [of "lk_queue s r'" r' "lk_mem s"])
    case (full P)
    then show ?thesis by (cases "r' = r") (auto simp: Send link_op_defs ring_read_consumed)
  next
    case (room P)
    then show ?thesis by (cases "r' = r") (auto simp: Send link_op_defs ring_read_consumed)
  qed
next
  case (Receive r')
  show ?thesis
  proof (cases rule: xgq_consume_cases [of "lk_queue s r'" r' "lk_mem s"])
    case (empty C)
    then show ?thesis by (cases "r' = r") (auto simp: Receive link_op_defs)
  next
    case (some C)
    then show ?thesis by (cases "r' = r") (auto simp: Receive link_op_defs)
  qed
qed (auto simp: link_op_defs)

lemma link_run_ring_size: "ring_size (producer_view (link_run xs s) r) = ring_size (producer_view s r)"
  by (induct xs arbitrary: s) (auto simp: same_ring_derived [OF link_next_same_ring])

text \<open>Progress, in terms of the messages sent and received.\<close>

lemma send_after_release:
  assumes "link_chan r s sent recd" "length sent < length recd + ring_size (producer_view s r)"
  shows "fst (link_step (Send r d) (link_next (Release (peer r)) s)) = 0"
proof -
  let ?s = "link_next (Release (peer r)) s" and ?P = "producer_view s r" and ?C = "consumer_view s r"
  have ci: "chan_inv (lk_mem s) ?P ?C sent recd" using assms(1) by (simp add: link_chan_def)
  then obtain b ca ak cp pu where g: "ring_geom ?P" and sr: "same_ring ?P ?C"
    and c: "chan_counts (lk_mem s) ?P ?C b ca ak (length recd) cp pu (length sent)"
    by (rule chan_invE)
  have q: "lk_queue ?s = lk_queue s" "lk_mem ?s = xgq_ring_write_consumed
      (xq_io_hdl (lk_queue s (peer r))) ?C (lk_mem s)"
    by (simp_all add: link_op_defs xgq_notify_peer_consumed_def)
  have v: "IO_SYNC_READ32 (ucast (xr_consumed_addr ?P)) (lk_mem ?s) = of_nat (b + length recd)"
    using c same_ring_fields [OF sr]
    by (simp add: q xgq_ring_write_consumed_def xgq_mem_write32_def mem_simps chan_counts_def)
  show ?thesis
  proof (cases rule: xgq_produce_cases [of "lk_queue s r" r "lk_mem ?s"])
    case (full P)
    have P: "P = ?P\<lparr>xr_consumed := of_nat (b + length recd)\<rparr>" using full(2) v by (simp add: ring_read_consumed)
    have "xr_produced P - xr_consumed P = of_nat (length sent - length recd)"
      using c by (simp add: P chan_counts_def of_nat_diff)
    moreover have lt: "length sent - length recd < ring_size ?P" using assms(2) c by (auto simp: chan_counts_def)
    moreover have "ring_size ?P \<le> 2 ^ 31" using g by (simp add: ring_geom_def)
    ultimately have "\<not> xgq_ring_full P"
      by (simp add: xgq_ring_full_def word_le_nat_alt P ring_size_def unat_of_nat)
    then show ?thesis using full(1) by simp
  next
    case (room P)
    then show ?thesis by (simp add: link_step_def q)
  qed
qed

lemma send_when_full:
  assumes "link_chan r s sent recd" "length sent = length recd + ring_size (producer_view s r)"
  shows "link_step (Send r d) s = (- ENOSPC, [], snd (snd (link_step (Send r d) s)))"
proof (cases rule: xgq_produce_cases [of "lk_queue s r" r "lk_mem s"])
  case (full P)
  then show ?thesis by (simp add: link_step_def)
next
  case (room P)
  have "same_ring (producer_view s r) P" using room(1) by (auto simp: ring_read_consumed)
  then have sz: "ring_size P = ring_size (producer_view s r)" by (rule same_ring_derived)
  have "chan_inv (lk_mem s) P (consumer_view s r) sent recd"
    using assms(1) room(1) chan_inv_refresh_consumed by (auto simp: link_chan_def)
  then obtain b ca ak cp pu where g: "ring_geom P"
    and c: "chan_counts (lk_mem s) P (consumer_view s r) b ca ak (length recd) cp pu (length sent)"
    by (rule chan_invE)
  then have "length sent \<noteq> ca + ring_size P" using ring_full_counts room(2) by blast
  then show ?thesis using c assms(2) sz by (simp add: chan_counts_def)
qed

lemma receive_after_publish:
  assumes "link_chan r s sent recd" "length recd < length sent"
  shows "fst (link_step (Receive (peer r)) (link_next (Publish r) s)) = 0"
    "fst (snd (link_step (Receive (peer r)) (link_next (Publish r) s))) = sent ! length recd"
proof -
  let ?s = "link_next (Publish r) s" and ?P = "producer_view s r" and ?C = "consumer_view s r"
  have lc: "link_chan r ?s sent recd" using link_chan_publish [OF assms(1)] .
  have q: "lk_queue ?s = lk_queue s" "lk_mem ?s = xgq_ring_write_produced
      (xq_io_hdl (lk_queue s r)) (xq_flags (lk_queue s r)) ?P (lk_mem s)"
    by (simp_all add: link_op_defs xgq_notify_peer_produced_def)
  have "chan_inv (lk_mem ?s) ?P ?C sent recd" using lc by (simp add: link_chan_def q(1))
  then obtain b ca ak cp pu where g: "ring_geom ?P" and sr: "same_ring ?P ?C"
    and c: "chan_counts (lk_mem ?s) ?P ?C b ca ak (length recd) cp pu (length sent)"
    by (rule chan_invE)
  show z: "fst (link_step (Receive (peer r)) ?s) = 0"
  proof (cases rule: xgq_consume_cases [of "lk_queue s (peer r)" "peer r" "lk_mem ?s"])
    case (empty C)
    have "xr_produced C = xr_produced ?P"
      using empty(2) same_ring_fields [OF sr]
      by (simp add: ring_read_produced q xgq_ring_write_produced_def xgq_write32_def
          xgq_reg_write32_def mem_simps)
    moreover have "xr_consumed C = xr_consumed ?C" using empty(2) by (simp add: ring_read_produced)
    moreover have "xr_produced ?P = of_nat (b + length sent)" "xr_consumed ?C = of_nat (b + length recd)"
      using c unfolding chan_counts_def by blast+
    ultimately have "(of_nat (b + length sent) :: u32) = of_nat (b + length recd)"
      using empty(1) by (simp only: xgq_ring_empty_def)
    then have "(of_nat (length sent - length recd) :: u32) = 0" using assms(2) by (simp add: of_nat_diff)
    moreover have "length sent - length recd < 2 ^ 32" using c g by (auto simp: chan_counts_def ring_geom_def)
    ultimately have "length sent - length recd = 0" by (metis unat_0 unat_of_nat_u32)
    then show ?thesis using assms(2) by simp
  next
    case (some C)
    then show ?thesis by (simp add: link_step_def q)
  qed
  have "prefix (recd @ [fst (snd (link_step (Receive (peer r)) ?s))]) sent"
    using link_chan_prefix [OF link_chan_receive [OF lc]] z by (simp add: link_receives_def)
  then show "fst (snd (link_step (Receive (peer r)) ?s)) = sent ! length recd"
    by (auto simp: prefix_def nth_append)
qed

lemma receive_when_empty:
  assumes "link_chan r s sent recd" "length recd = length sent"
  shows "link_step (Receive (peer r)) s = (- ENOENT, [], snd (snd (link_step (Receive (peer r)) s)))"
proof (cases "fst (link_step (Receive (peer r)) s) = 0")
  case True
  then have "prefix (recd @ [fst (snd (link_step (Receive (peer r)) s))]) sent"
    using link_chan_prefix [OF link_chan_receive [OF assms(1)]] by (simp add: link_receives_def)
  then show ?thesis using assms(2) by (auto dest: prefix_length_le)
next
  case False
  then show ?thesis
    by (cases rule: xgq_consume_cases [of "lk_queue s (peer r)" "peer r" "lk_mem s"])
       (simp_all add: link_step_def)
qed

lemma mem_store_twice: "mem_store (mem_store m a bs) a bs = mem_store m a bs"
  by (auto simp: mem_store_def)

lemma publish_twice: "link_next (Publish r) (link_next (Publish r) s) = link_next (Publish r) s"
  by (simp add: link_op_defs xgq_notify_peer_produced_def xgq_ring_write_produced_def xgq_write32_def
      xgq_reg_write32_def IO_SYNC_WRITE32_def mem_store_twice)

section \<open>Properties\<close>

text \<open>C1: A client and a server that set up a queue with \<open>xgq_alloc\<close> and \<open>xgq_attach\<close>, and then
  produce, publish, consume and release in any order, exchange messages first in, first out:
  on each ring what was received is a prefix of what was sent, entry by entry and unchanged, and
  never more messages are in flight than the ring has slots.  This holds across the wrap-around
  of the 32-bit pointers and of the slot index.\<close>

theorem xgq_link_fifo:
  assumes "setup_ok flags aflags ra rlen sz sqp cqp"
  shows "\<exists>l. xgq_setup flags aflags ra rlen sz sqp cqp a q0 m = Some l \<and>
    (\<forall>ops r. link_all_ok ops l \<longrightarrow>
       prefix (link_trace (link_receives r) ops l) (link_trace (link_sends r) ops l) \<and>
       length (link_trace (link_sends r) ops l)
         \<le> length (link_trace (link_receives r) ops l) + unat (xgq_alloc_num_slots rlen [sz]))"
proof -
  obtain l where l: "xgq_setup flags aflags ra rlen sz sqp cqp a q0 m = Some l"
    "\<forall>r. link_chan r l [] []"
    "\<forall>r. ring_size (producer_view l r) = unat (xgq_alloc_num_slots rlen [sz])"
    by (rule setup_link [OF assms, where a = a and ?q0.0 = q0 and m = m])
  have "prefix (link_trace (link_receives r) ops l) (link_trace (link_sends r) ops l) \<and>
      length (link_trace (link_sends r) ops l)
        \<le> length (link_trace (link_receives r) ops l) + unat (xgq_alloc_num_slots rlen [sz])"
    if "link_all_ok ops l" for ops r
    using sq.run_fifo [OF l(2) [rule_format], of ops] cq.run_fifo [OF l(2) [rule_format], of ops] that
    by (cases r) (simp_all add: link_run_channel link_run_ring_size l(3))
  then show ?thesis using l(1) by blast
qed

lemma in_mem_queue_setup_ok: "setup_ok 4 0 0x38001000 4096 512 0 0"
  by (simp add: setup_ok_def ring_bytes_def sizeof_xgq_header_def sizeof_com_queue_entry_def
      pointers_ok_def XGQ_IS_IN_MEM_PROD_def XGQ_IN_MEM_PROD_def)

theorem xgq_link_fifo_witness:
  "\<exists>l. xgq_setup 4 0 0x38001000 4096 512 0 0 XGQ_SERVER undefined (\<lambda>_. 0) = Some l \<and>
    (\<forall>ops r. link_all_ok ops l \<longrightarrow>
       prefix (link_trace (link_receives r) ops l) (link_trace (link_sends r) ops l) \<and>
       length (link_trace (link_sends r) ops l)
         \<le> length (link_trace (link_receives r) ops l) + unat (xgq_alloc_num_slots 4096 [512]))"
  by (rule xgq_link_fifo) (rule in_mem_queue_setup_ok)


lemma setup_example:
  obtains l where "\<forall>r. link_chan r l [] []" "\<forall>r. ring_size (producer_view l r) \<noteq> 0"
    "slot_len (producer_view l XGQ_SERVER) = 16"
proof (rule setup_link [OF in_mem_queue_setup_ok])
  fix l assume "\<forall>r. link_chan r l [] []"
    "\<forall>r. ring_size (producer_view l r) = unat (xgq_alloc_num_slots 4096 [512])"
    "slot_len (producer_view l XGQ_SERVER) = 16"
  moreover have "ring_geom (producer_view l r) \<Longrightarrow> ring_size (producer_view l r) \<noteq> 0" for r
    by (simp add: ring_geom_def)
  ultimately show thesis using that by (meson chan_inv_def link_chan_def)
qed


text \<open>C3: \<open>xgq_alloc_num_slots\<close> ends and gives the largest power of two of slots that fits the
  ring buffer with the header and both rings, up to \<open>2^30\<close>.\<close>

theorem xgq_alloc_num_slots_largest:
  assumes "unat rlen < 2 ^ 31" "unat s < 2 ^ 30" "ring_bytes 2 (unat s) \<le> unat rlen"
  shows "\<exists>k. 1 \<le> k \<and> k \<le> 30 \<and> xgq_alloc_num_slots rlen [s] = 2 ^ k
    \<and> ring_bytes (2 ^ k) (unat s) \<le> unat rlen
    \<and> (k < 30 \<longrightarrow> unat rlen < ring_bytes (2 ^ Suc k) (unat s))"
proof (rule alloc_num_slots_fits [OF assms(1,2)])
  fix k assume k: "k < 31" "xgq_alloc_num_slots rlen [s] = 2 ^ k"
    "1 \<le> k \<longrightarrow> ring_bytes (2 ^ k) (unat s) \<le> unat rlen"
    "k < 30 \<longrightarrow> unat rlen < ring_bytes (2 ^ Suc k) (unat s)"
  then have "1 \<le> k" using assms(3) by (cases k) auto
  then show ?thesis using k by (intro exI [of _ k]) auto
qed

theorem xgq_alloc_num_slots_largest_witness:
  "\<exists>k. 1 \<le> k \<and> k \<le> 30 \<and> xgq_alloc_num_slots 4096 [512] = 2 ^ k
    \<and> ring_bytes (2 ^ k) 512 \<le> 4096 \<and> (k < 30 \<longrightarrow> 4096 < ring_bytes (2 ^ Suc k) 512)"
  using xgq_alloc_num_slots_largest [of 4096 512]
  by (simp add: ring_bytes_def sizeof_xgq_header_def sizeof_com_queue_entry_def)

text \<open>C4: \<open>xgq_attach\<close> refuses, without changing the queue or the memory, a header whose magic
  has not been written yet (\<open>-EAGAIN\<close>), whose major version differs (\<open>-EOPNOTSUPP\<close>), or whose
  slot count is below two or no power of two (\<open>-EPROTO\<close>).\<close>

theorem xgq_attach_refuses:
  "xgq_attach q flags h ra sqp cqp m = (ret, q', m') \<Longrightarrow>
   ret = (if IO_SYNC_READ32 (ucast ra) m \<noteq> XGQ_ALLOC_MAGIC then - EAGAIN
          else if drop_bit 16 (IO_SYNC_READ32 (ucast ra + 4) m) \<noteq> 1 then - EOPNOTSUPP
          else if IO_SYNC_READ32 (ucast ra + 8) m < 2
               \<or> \<not> power_of_two (IO_SYNC_READ32 (ucast ra + 8) m) then - EPROTO
          else 0)
   \<and> (ret \<noteq> 0 \<longrightarrow> q' = q \<and> m' = m)"
  using attach_refuses [of ra m q flags h sqp cqp]
  by (auto simp: xgq_attach_def copy_from_header(2) header_fields GET_XGQ_MAJOR_def XGQ_MAJOR_def
      Let_def power_of_two_def XGQ_MIN_NUM_SLOTS_def split: if_splits)

theorem xgq_attach_refuses_witness:
  "fst (xgq_attach undefined 0 0 0x38001000 0 0 (\<lambda>_. 0)) = - EAGAIN"
  using xgq_attach_refuses [where q = undefined and flags = 0 and h = 0 and ra = 939528192
      and sqp = 0 and cqp = 0 and m = "\<lambda>_. 0"]
  by (simp add: IO_SYNC_READ32_def mem_load_def u32_of_bytes_def XGQ_ALLOC_MAGIC_def upt_rec
      split: prod.splits) (metis prod.collapse)

end
