(* ===== verification/Cl_Xgq_Receive.thy ===== *)
theory Cl_Xgq_Receive
  imports Cl_Main Xgq_Setup
begin

text \<open>Model of \<open>common/cl_xgq_receive.c\<close>: the task that takes the commands of the host from the
  submission ring, translates each into an internal message and puts it into the queue of the
  task that serves it, or aborts it; the completion of a message on the completion ring; the
  partition table in shared memory.  Reports of the other components that a completion carries
  are read through the record \<open>device_status\<close>.\<close>

section \<open>Translation of request types\<close>

definition xgq_cmd_clock_map :: "(u32 \<times> u32) list" where
  "xgq_cmd_clock_map = map (\<lambda>(x, c). (xgq_clock_req_num x, cl_clock_num c))
    [(XGQ_CMD_CLOCK_WIZARD, CL_CLOCK_WIZARD),
     (XGQ_CMD_CLOCK_COUNTER, CL_CLOCK_COUNTER),
     (XGQ_CMD_CLOCK_SCALE, CL_CLOCK_SCALE)]"

definition xgq_cmd_vmr_control_map :: "(u32 \<times> u32) list" where
  "xgq_cmd_vmr_control_map = map (\<lambda>(x, c). (xgq_vmr_control_num x, cl_vmr_control_num c))
    [(XGQ_CMD_BOOT_DEFAULT, CL_MULTIBOOT_DEFAULT),
     (XGQ_CMD_BOOT_BACKUP, CL_MULTIBOOT_BACKUP),
     (XGQ_CMD_PROGRAM_SC, CL_PROGRAM_SC),
     (XGQ_CMD_VMR_DEBUG, CL_VMR_DEBUG),
     (XGQ_CMD_VMR_QUERY, CL_VMR_QUERY),
     (XGQ_CMD_VMR_EEMI_SRST, CL_VMR_EEMI_SRST)]"

definition xgq_cmd_vmr_debug_map :: "(u32 \<times> u32) list" where
  "xgq_cmd_vmr_debug_map = map (\<lambda>(x, c). (xgq_debug_type_num x, cl_vmr_debug_num c))
    [(XGQ_CMD_DBG_RMGMT, CL_DBG_DISABLE_RMGMT),
     (XGQ_CMD_DBG_VMC, CL_DBG_DISABLE_VMC),
     (XGQ_CMD_DBG_CLEAR, CL_DBG_CLEAR)]"

definition xgq_cmd_log_page_map :: "(u32 \<times> u32) list" where
  "xgq_cmd_log_page_map = map (\<lambda>(x, c). (xgq_log_page_num x, cl_log_num c))
    [(XGQ_CMD_LOG_AF_CHECK, CL_LOG_AF_CHECK),
     (XGQ_CMD_LOG_AF_CLEAR, CL_LOG_AF_CLEAR),
     (XGQ_CMD_LOG_FW, CL_LOG_FW),
     (XGQ_CMD_LOG_INFO, CL_LOG_INFO),
     (XGQ_CMD_LOG_ENDPOINT, CL_LOG_ENDPOINT),
     (XGQ_CMD_LOG_TASK_STATS, CL_LOG_TASK_STATS),
     (XGQ_CMD_LOG_MEM_STATS, CL_LOG_MEM_STATS),
     (XGQ_CMD_LOG_SYSTEM_DTB, CL_LOG_SYSTEM_DTB),
     (XGQ_CMD_LOG_PLM_LOG, CL_LOG_PLM_LOG),
     (XGQ_CMD_LOG_APU_LOG, CL_LOG_APU_LOG),
     (XGQ_CMD_LOG_SHELL_INTERFACE_UUID, CL_LOG_SHELL_INTERFACE_UUID),
     (XGQ_CMD_LOG_DEFAULT_FPT, CL_LOG_DEFAULT_FPT),
     (XGQ_CMD_LOG_BACKUP_FPT, CL_LOG_BACKUP_FPT)]"

definition xgq_cmd_sensor_map :: "(u32 \<times> u32) list" where
  "xgq_cmd_sensor_map = map (\<lambda>(x, c). (xgq_sensor_sid_num x, cl_sensor_num c))
    [(XGQ_CMD_SENSOR_SID_GET_SIZE, CL_SENSOR_GET_SIZE),
     (XGQ_CMD_SENSOR_SID_BDINFO, CL_SENSOR_BDINFO),
     (XGQ_CMD_SENSOR_SID_TEMP, CL_SENSOR_TEMP),
     (XGQ_CMD_SENSOR_SID_VOLTAGE, CL_SENSOR_VOLTAGE),
     (XGQ_CMD_SENSOR_SID_CURRENT, CL_SENSOR_CURRENT),
     (XGQ_CMD_SENSOR_SID_POWER, CL_SENSOR_POWER),
     (XGQ_CMD_SENSOR_SID_QSFP, CL_SENSOR_QSFP),
     (XGQ_CMD_SENSOR_SID_ALL, CL_SENSOR_ALL)]"

definition xgq_cmd_clk_scaling_map :: "(u32 \<times> u32) list" where
  "xgq_cmd_clk_scaling_map = map (\<lambda>(x, c). (xgq_clk_scaling_req_num x, cl_clk_scaling_num c))
    [(XGQ_CMD_CLK_SCALING_GET_STATUS, CL_CLK_SCALING_READ),
     (XGQ_CMD_CLK_SCALING_SET_OVERRIDE, CL_CLK_SCALING_SET)]"

fun convert_cl_type :: "u32 \<Rightarrow> (u32 \<times> u32) list \<Rightarrow> int + u32" where
  "convert_cl_type xgq_type [] = Inl (- EINVAL)"
| "convert_cl_type xgq_type ((x, c) # tbl) =
     (if x = xgq_type then Inr c else convert_cl_type xgq_type tbl)"

section \<open>The submit handlers\<close>

text \<open>A handler fills the message from the entry at \<open>sq\<close>; the message reaches the caller also
  when the handler fails, but the caller then drops it.\<close>

definition xclbin_handle :: "cl_msg \<Rightarrow> u32 \<Rightarrow> mem \<Rightarrow> int \<times> cl_msg" where
  "xclbin_handle msg sq m =
     (let p = read_data_payload sq m
      in (0, msg\<lparr>data_payload := (data_payload msg)
             \<lparr>data_address := ucast (xd_address p), data_size := xd_size p,
              data_remain_size := xd_remain_size p, data_priv := xd_priv p\<rparr>\<rparr>))"

definition pdi_handle :: "cl_msg \<Rightarrow> u32 \<Rightarrow> mem \<Rightarrow> int \<times> cl_msg" where
  "pdi_handle msg sq m =
     (let p = read_data_payload sq m;
          d = (data_payload msg)\<lparr>data_address := ucast (xd_address p), data_size := xd_size p,
                                  data_priv := xd_priv p\<rparr>;
          d' = (if xd_flash_type p = xgq_flash_type_num XGQ_CMD_FLASH_NO_BACKUP
                then d\<lparr>data_flash_no_backup := True\<rparr>
                else if xd_flash_type p = xgq_flash_type_num XGQ_CMD_FLASH_TO_LEGACY
                then d\<lparr>data_flash_to_legacy := True\<rparr>
                else d)
      in (0, msg\<lparr>data_payload := d'\<rparr>))"

text \<open>\<open>vmr_control_handle\<close> also sets the log level, whether or not the request is valid.\<close>

definition vmr_control_handle :: "cl_msg \<Rightarrow> u32 \<Rightarrow> mem \<Rightarrow> int \<times> cl_msg \<times> u32" where
  "vmr_control_handle msg sq m =
     (let p = read_vmr_control_payload sq m; loglevel = xv_debug_level p
      in case convert_cl_type (xv_req_type p) xgq_cmd_vmr_control_map of
           Inl e \<Rightarrow> (e, msg, loglevel)
         | Inr req \<Rightarrow>
             let mb = (multiboot_payload msg)\<lparr>mb_req_type := req\<rparr>
             in case convert_cl_type (xv_debug_type p) xgq_cmd_vmr_debug_map of
                  Inl e \<Rightarrow> (e, msg\<lparr>multiboot_payload := mb\<rparr>, loglevel)
                | Inr dbg \<Rightarrow>
                    (0, msg\<lparr>multiboot_payload := mb\<lparr>mb_vmr_debug_type := ucast dbg,
                          mb_boot_on_backup := xv_eemi_boot_from_backup p\<rparr>\<rparr>, loglevel))"

text \<open>The array of the message has four entries; the copy stops at the requested count.\<close>

fun copy_freqs :: "nat \<Rightarrow> u32 list \<Rightarrow> u32 list \<Rightarrow> u32 list" where
  "copy_freqs 0 src dst = dst"
| "copy_freqs (Suc i) src dst = (copy_freqs i src dst)[i := src ! i]"

definition clock_handle :: "cl_msg \<Rightarrow> u32 \<Rightarrow> mem \<Rightarrow> int \<times> cl_msg" where
  "clock_handle msg sq m =
     (let p = read_clock_payload sq m
      in case convert_cl_type (xc_req_type p) xgq_cmd_clock_map of
           Inl e \<Rightarrow> (e, msg)
         | Inr t \<Rightarrow>
             let c = (clock_payload msg)\<lparr>ocl_req_type := t, ocl_region := xc_region p,
                        ocl_req_id := xc_req_id p, ocl_req_num := xc_req_num p\<rparr>;
                 num_clock = unat (ocl_req_num c)
             in if num_clock > length (ocl_req_freq c) then (- EINVAL, msg\<lparr>clock_payload := c\<rparr>)
                else (0, msg\<lparr>clock_payload := c\<lparr>ocl_req_freq :=
                           copy_freqs num_clock (xc_req_freq p) (ocl_req_freq c)\<rparr>\<rparr>))"

definition log_page_handle :: "cl_msg \<Rightarrow> u32 \<Rightarrow> mem \<Rightarrow> int \<times> cl_msg" where
  "log_page_handle msg sq m =
     (let p = read_log_payload sq m
      in case convert_cl_type (xl_pid p) xgq_cmd_log_page_map of
           Inl e \<Rightarrow> (e, msg)
         | Inr pid \<Rightarrow> (0, msg\<lparr>log_payload := \<lparr> log_address = ucast (xl_address p),
               log_size = xl_size p, log_offset = xl_offset p, log_pid = take_bit 16 pid \<rparr>\<rparr>))"

definition sensor_handle :: "cl_msg \<Rightarrow> u32 \<Rightarrow> mem \<Rightarrow> int \<times> cl_msg" where
  "sensor_handle msg sq m =
     (let p = read_sensor_payload sq m
      in case convert_cl_type (xs_sid p) xgq_cmd_sensor_map of
           Inl e \<Rightarrow> (e, msg)
         | Inr sid \<Rightarrow> (0, msg\<lparr>sensor_payload := (sensor_payload msg)
               \<lparr>sensor_sid := take_bit 8 sid, sensor_address := ucast (xs_address p),
                sensor_size := xs_size p, sensor_aid := xs_aid p,
                sensor_id := xs_sensor_id p\<rparr>\<rparr>))"

definition clk_throttling_handle :: "cl_msg \<Rightarrow> u32 \<Rightarrow> mem \<Rightarrow> int \<times> cl_msg" where
  "clk_throttling_handle msg sq m =
     (let p = read_clk_scaling_payload sq m
      in case convert_cl_type (xk_aid p) xgq_cmd_clk_scaling_map of
           Inl e \<Rightarrow> (e, msg)
         | Inr aid \<Rightarrow> (0, msg\<lparr>clk_scaling_payload := \<lparr> cs_aid = take_bit 3 aid,
               cs_scaling_en = xk_scaling_en p,
               cs_pwr_scaling_ovrd_limit = xk_pwr_scaling_ovrd_limit p,
               cs_temp_scaling_ovrd_limit = xk_temp_scaling_ovrd_limit p,
               cs_reset = xk_reset p,
               cs_pwr_ovrd_en = xk_pwr_scaling_ovrd_en p,
               cs_temp_ovrd_en = xk_temp_scaling_ovrd_en p \<rparr>\<rparr>))"

section \<open>The complete handlers\<close>

record clk_throttling_params =
  is_clk_scaling_supported :: u8
  clk_scaling_mode :: u8
  clk_scaling_enable :: u8
  shutdown_limit_temp :: u8
  throttle_limit_temp :: u8
  shutdown_limit_pwr :: u16
  throttle_limit_pwr :: u16
  temp_throttling_enabled :: u8
  power_throttling_enabled :: u8

record device_status =
  apu_is_ready :: bool
  pl_is_ready :: bool
  has_sc_version :: bool
  loglevel :: u32
  scfw_program_progress :: u32
  flash_progress :: u32
  clk_params :: clk_throttling_params

abbreviation flag :: "bool \<Rightarrow> nat \<Rightarrow> u32" where
  "flag b n \<equiv> push_bit n (of_bool b)"

definition clock_complete :: "cl_msg \<Rightarrow> xgq_cmd_cq \<Rightarrow> xgq_cmd_cq" where
  "clock_complete msg cq = cq\<lparr>cq_payload0 := ocl_req_freq (clock_payload msg) ! 0\<rparr>"

definition FLASH_PROGRESS :: "device_status \<Rightarrow> u32" where
  "FLASH_PROGRESS st = (if scfw_program_progress st \<noteq> 0 then scfw_program_progress st
                         else flash_progress st)"

definition vmr_control_complete :: "device_status \<Rightarrow> cl_msg \<Rightarrow> xgq_cmd_cq \<Rightarrow> xgq_cmd_cq" where
  "vmr_control_complete st msg cq =
     (let mb = multiboot_payload msg
      in cq\<lparr>cq_payload0 :=
            flag (mb_has_fpt mb) 0 OR flag (mb_has_fpt_recovery mb) 1
            OR flag (mb_boot_on_default mb) 2 OR flag (mb_boot_on_backup mb) 3
            OR flag (mb_boot_on_recovery mb) 4 OR flag (mb_has_extfpt mb) 5
            OR flag (mb_has_ext_xsabin mb) 6 OR flag (mb_has_ext_scfw mb) 7
            OR flag (mb_has_ext_sysdtb mb) 8 OR flag (apu_is_ready st) 9
            OR flag (pl_is_ready st) 10 OR flag (has_sc_version st) 11
            OR push_bit 16 (ucast (mb_current_multi_boot_offset mb)),
          cq_payload1 :=
            take_bit 3 (loglevel st) OR push_bit 3 (take_bit 7 (FLASH_PROGRESS st))
            OR push_bit 16 (ucast (mb_boot_on_offset mb))\<rparr>)"

definition log_page_complete :: "cl_msg \<Rightarrow> xgq_cmd_cq \<Rightarrow> xgq_cmd_cq" where
  "log_page_complete msg cq = cq\<lparr>cq_payload0 := log_size (log_payload msg)\<rparr>"

definition clk_throttling_complete :: "device_status \<Rightarrow> cl_msg \<Rightarrow> xgq_cmd_cq \<Rightarrow> xgq_cmd_cq" where
  "clk_throttling_complete st msg cq =
     (let p = clk_params st
      in cq\<lparr>cq_payload0 :=
            take_bit 1 (ucast (is_clk_scaling_supported p))
            OR push_bit 1 (take_bit 2 (ucast (clk_scaling_mode p)))
            OR push_bit 3 (take_bit 1 (ucast (clk_scaling_enable p)))
            OR push_bit 4 (take_bit 1 (ucast (power_throttling_enabled p)))
            OR push_bit 5 (take_bit 1 (ucast (temp_throttling_enabled p)))
            OR push_bit 8 (ucast (shutdown_limit_temp p)) OR push_bit 16 (ucast (throttle_limit_temp p)),
          cq_payload1 :=
            ucast (shutdown_limit_pwr p) OR push_bit 16 (ucast (throttle_limit_pwr p))\<rparr>)"

definition vmr_identify_complete :: "cl_msg \<Rightarrow> xgq_cmd_cq \<Rightarrow> xgq_cmd_cq" where
  "vmr_identify_complete msg cq =
     cq\<lparr>cq_payload0 := ucast (version_major (hdr msg)) OR push_bit 16 (ucast (version_minor (hdr msg)))\<rparr>"

section \<open>The table of commands\<close>

record xgq_cmd_handler =
  h_opcode :: xgq_cmd_opcode
  h_msg_type :: cl_msg_type
  h_qid :: cl_queue_id
  h_msg_handle :: "(cl_msg \<Rightarrow> u32 \<Rightarrow> mem \<Rightarrow> int \<times> cl_msg \<times> u32 option) option"
  h_msg_complete :: "(device_status \<Rightarrow> cl_msg \<Rightarrow> xgq_cmd_cq \<Rightarrow> xgq_cmd_cq) option"

definition keeps_level ::
    "(cl_msg \<Rightarrow> u32 \<Rightarrow> mem \<Rightarrow> int \<times> cl_msg) \<Rightarrow> cl_msg \<Rightarrow> u32 \<Rightarrow> mem \<Rightarrow> int \<times> cl_msg \<times> u32 option" where
  "keeps_level h msg sq m = (case h msg sq m of (ret, msg') \<Rightarrow> (ret, msg', None))"

definition sets_level ::
    "(cl_msg \<Rightarrow> u32 \<Rightarrow> mem \<Rightarrow> int \<times> cl_msg \<times> u32) \<Rightarrow> cl_msg \<Rightarrow> u32 \<Rightarrow> mem \<Rightarrow> int \<times> cl_msg \<times> u32 option" where
  "sets_level h msg sq m = (case h msg sq m of (ret, msg', l) \<Rightarrow> (ret, msg', Some l))"

definition xgq_cmd_handlers :: "xgq_cmd_handler list" where
  "xgq_cmd_handlers =
    [\<lparr> h_opcode = XGQ_CMD_OP_LOAD_XCLBIN, h_msg_type = CL_MSG_XCLBIN, h_qid = CL_QUEUE_PROGRAM,
       h_msg_handle = Some (keeps_level xclbin_handle), h_msg_complete = None \<rparr>,
     \<lparr> h_opcode = XGQ_CMD_OP_DOWNLOAD_PDI, h_msg_type = CL_MSG_PDI, h_qid = CL_QUEUE_PROGRAM,
       h_msg_handle = Some (keeps_level pdi_handle), h_msg_complete = None \<rparr>,
     \<lparr> h_opcode = XGQ_CMD_OP_LOAD_APUBIN, h_msg_type = CL_MSG_APUBIN, h_qid = CL_QUEUE_PROGRAM,
       h_msg_handle = Some (keeps_level pdi_handle), h_msg_complete = None \<rparr>,
     \<lparr> h_opcode = XGQ_CMD_OP_PROGRAM_VMR, h_msg_type = CL_MSG_PROGRAM_VMR, h_qid = CL_QUEUE_PROGRAM,
       h_msg_handle = Some (keeps_level xclbin_handle), h_msg_complete = None \<rparr>,
     \<lparr> h_opcode = XGQ_CMD_OP_GET_LOG_PAGE, h_msg_type = CL_MSG_LOG_PAGE, h_qid = CL_QUEUE_OPCODE,
       h_msg_handle = Some (keeps_level log_page_handle),
       h_msg_complete = Some (\<lambda>st. log_page_complete) \<rparr>,
     \<lparr> h_opcode = XGQ_CMD_OP_CLOCK, h_msg_type = CL_MSG_CLOCK, h_qid = CL_QUEUE_OPCODE,
       h_msg_handle = Some (keeps_level clock_handle),
       h_msg_complete = Some (\<lambda>st. clock_complete) \<rparr>,
     \<lparr> h_opcode = XGQ_CMD_OP_VMR_CONTROL, h_msg_type = CL_MSG_VMR_CONTROL, h_qid = CL_QUEUE_OPCODE,
       h_msg_handle = Some (sets_level vmr_control_handle),
       h_msg_complete = Some vmr_control_complete \<rparr>,
     \<lparr> h_opcode = XGQ_CMD_OP_SENSOR, h_msg_type = CL_MSG_SENSOR, h_qid = CL_QUEUE_OPCODE,
       h_msg_handle = Some (keeps_level sensor_handle), h_msg_complete = None \<rparr>,
     \<lparr> h_opcode = XGQ_CMD_OP_PROGRAM_SCFW, h_msg_type = CL_MSG_PROGRAM_SCFW, h_qid = CL_QUEUE_PROGRAM,
       h_msg_handle = None, h_msg_complete = None \<rparr>,
     \<lparr> h_opcode = XGQ_CMD_OP_CLK_THROTTLING, h_msg_type = CL_MSG_CLK_THROTTLING, h_qid = CL_QUEUE_OPCODE,
       h_msg_handle = Some (keeps_level clk_throttling_handle),
       h_msg_complete = Some clk_throttling_complete \<rparr>,
     \<lparr> h_opcode = XGQ_CMD_OP_IDENTIFY, h_msg_type = CL_MSG_VMR_IDENTIFY, h_qid = CL_QUEUE_OPCODE,
       h_msg_handle = None, h_msg_complete = Some (\<lambda>st. vmr_identify_complete) \<rparr>]"

section \<open>Completing a message\<close>

record 'k rx_state =
  rpu_xgq :: xgq
  rx_mem :: mem
  rx_kernel :: 'k
  rx_loglevel :: u32

fun run_completes :: "xgq_cmd_handler list \<Rightarrow> device_status \<Rightarrow> cl_msg \<Rightarrow> xgq_cmd_cq \<Rightarrow> xgq_cmd_cq" where
  "run_completes [] st msg cq = cq"
| "run_completes (h # hs) st msg cq =
     run_completes hs st msg
       (if ucast (cl_msg_type_num (h_msg_type h)) = msg_type (hdr msg)
        then case h_msg_complete h of Some f \<Rightarrow> f st msg cq | None \<Rightarrow> cq
        else cq)"

definition completion_entry :: "device_status \<Rightarrow> cl_msg \<Rightarrow> xgq_cmd_cq" where
  "completion_entry st msg = run_completes xgq_cmd_handlers st msg
     \<lparr> cq_cid = msg_cid (hdr msg), cq_cstate = 0, cq_specific = 0,
       cq_state = xgq_cmd_state_num XGQ_CMD_STATE_COMPLETED, cq_payload0 = 0, cq_payload1 = 0,
       cq_rcode = msg_rcode (hdr msg) \<rparr>"

text \<open>The result of \<open>xgq_produce\<close> is not checked: on a full ring the address of the slot is
  whatever \<open>cq_slot_addr\<close> held before.\<close>

definition cl_msg_handle_complete ::
    "'k rtos \<Rightarrow> device_status \<Rightarrow> u64 \<Rightarrow> cl_msg \<Rightarrow> 'k rx_state \<Rightarrow> 'k rx_state" where
  "cl_msg_handle_complete rt st cq_slot_addr msg s =
     (let entry = cq_bytes (completion_entry st msg);
          (locked, k1) = xSemaphoreTake rt (rx_kernel s)
      in if locked
         then let (ret, slot, q) = xgq_produce XGQ_SERVER (rpu_xgq s) (rx_mem s);
                  addr = (case slot of Some a \<Rightarrow> a | None \<Rightarrow> cq_slot_addr);
                  m1 = snd (cl_memcpy_toio (ucast addr) entry 16 (rx_mem s));
                  m2 = xgq_notify_peer_produced XGQ_SERVER q m1
              in s\<lparr>rpu_xgq := q, rx_mem := m2, rx_kernel := xSemaphoreGive rt k1\<rparr>
         else s\<lparr>rx_kernel := k1\<rparr>)"

section \<open>Submitting a command\<close>

fun submit_loop ::
    "'k rtos \<Rightarrow> xgq_cmd_handler list \<Rightarrow> cl_msg \<Rightarrow> u32 \<Rightarrow> u32 \<Rightarrow> 'k rx_state \<Rightarrow> int \<times> 'k rx_state" where
  "submit_loop rt [] msg opcode sq s = (- EINVAL, s)"
| "submit_loop rt (h # hs) msg opcode sq s =
     (if xgq_cmd_opcode_num (h_opcode h) = opcode
      then let msg1 = cl_msg_set_type (h_msg_type h) msg;
               (ret, msg2, level) = (case h_msg_handle h of
                  Some f \<Rightarrow> f msg1 sq (rx_mem s) | None \<Rightarrow> (0, msg1, None));
               s1 = (case level of Some l \<Rightarrow> s\<lparr>rx_loglevel := l\<rparr> | None \<Rightarrow> s)
           in if ret \<noteq> 0 then (ret, s1)
              else let (ret2, k) = cl_send_to_queue rt msg2 (h_qid h) (rx_kernel s1)
                   in (ret2, s1\<lparr>rx_kernel := k\<rparr>)
      else submit_loop rt hs msg opcode sq s)"

definition submit_to_queue :: "'k rtos \<Rightarrow> u32 \<Rightarrow> 'k rx_state \<Rightarrow> int \<times> 'k rx_state" where
  "submit_to_queue rt sq_addr s =
     (let cmd = read_sq_hdr sq_addr (rx_mem s);
          msg = cl_msg_zero\<lparr>hdr := (hdr cl_msg_zero)\<lparr>msg_cid := sq_cid cmd\<rparr>\<rparr>
      in submit_loop rt xgq_cmd_handlers msg (sq_opcode cmd) sq_addr s)"

definition abort_msg :: "'k rtos \<Rightarrow> device_status \<Rightarrow> u64 \<Rightarrow> u32 \<Rightarrow> 'k rx_state \<Rightarrow> 'k rx_state" where
  "abort_msg rt st garbage sq_addr s =
     (let cmd = read_sq_hdr sq_addr (rx_mem s);
          msg = cl_msg_zero\<lparr>hdr := (hdr cl_msg_zero)\<lparr>msg_cid := sq_cid cmd, msg_rcode := of_int (- EINVAL)\<rparr>\<rparr>
      in cl_msg_handle_complete rt st garbage msg s)"

definition process_msg :: "'k rtos \<Rightarrow> device_status \<Rightarrow> u64 \<Rightarrow> u32 \<Rightarrow> 'k rx_state \<Rightarrow> 'k rx_state" where
  "process_msg rt st garbage sq_slot_addr s =
     (case submit_to_queue rt sq_slot_addr s of
        (ret, s1) \<Rightarrow> if ret \<noteq> 0 then abort_msg rt st garbage sq_slot_addr s1 else s1)"

text \<open>One turn of the loop of the receive task.\<close>

definition cl_xgq_receive_step :: "'k rtos \<Rightarrow> device_status \<Rightarrow> u64 \<Rightarrow> 'k rx_state \<Rightarrow> 'k rx_state" where
  "cl_xgq_receive_step rt st garbage s =
     (let (ret, slot, q) = xgq_consume XGQ_SERVER (rpu_xgq s) (rx_mem s);
          s1 = s\<lparr>rpu_xgq := q\<rparr>
      in case slot of
           None \<Rightarrow> s1
         | Some sq_slot_addr \<Rightarrow>
             let s2 = process_msg rt st garbage (ucast sq_slot_addr) s1
             in s2\<lparr>rx_mem := xgq_notify_peer_consumed XGQ_SERVER (rpu_xgq s2) (rx_mem s2)\<rparr>)"

section \<open>The partition table of the shared memory\<close>

definition VMR_MAGIC_NO :: u32 where "VMR_MAGIC_NO = 0x564D5230"
definition VMR_LOG_ENTRY_SIZE :: u32 where "VMR_LOG_ENTRY_SIZE = 96"
definition VMR_LOG_MAX_RECS :: u32 where "VMR_LOG_MAX_RECS = 50"
definition LOG_BUF_LEN :: u32 where "LOG_BUF_LEN = VMR_LOG_ENTRY_SIZE * VMR_LOG_MAX_RECS"
definition RPU_XGQ_SLOT_SIZE :: u32 where "RPU_XGQ_SLOT_SIZE = 512"
definition RPU_RING_BUFFER_LEN :: u32 where "RPU_RING_BUFFER_LEN = 0x1000"
definition VMR_EP_RPU_SHARED_MEMORY_START :: u32 where "VMR_EP_RPU_SHARED_MEMORY_START = 0x38000000"
definition VMR_EP_RPU_SHARED_MEMORY_END :: u32 where "VMR_EP_RPU_SHARED_MEMORY_END = 0x3FFFF000"
definition VMR_PARTITION_TABLE_SIZE :: u32 where "VMR_PARTITION_TABLE_SIZE = 0x1000"
definition VMR_EP_RPU_RING_BUFFER_BASE :: u32 where
  "VMR_EP_RPU_RING_BUFFER_BASE = VMR_EP_RPU_SHARED_MEMORY_START + VMR_PARTITION_TABLE_SIZE"

definition RPU_SHARED_MEMORY_ADDR :: "u32 \<Rightarrow> u32" where
  "RPU_SHARED_MEMORY_ADDR offset = VMR_EP_RPU_SHARED_MEMORY_START + offset"

record vmr_shared_mem =
  vmr_magic_no :: u32
  ring_buffer_off :: u32
  ring_buffer_len :: u32
  vmr_status_off :: u32
  vmr_status_len :: u32
  log_msg_index :: u32
  log_msg_buf_off :: u32
  log_msg_buf_len :: u32
  vmr_data_start :: u32
  vmr_data_end :: u32

definition shared_mem_bytes :: "vmr_shared_mem \<Rightarrow> u8 list" where
  "shared_mem_bytes t = concat (map bytes_of_u32
     [vmr_magic_no t, ring_buffer_off t, ring_buffer_len t, vmr_status_off t, vmr_status_len t,
      log_msg_index t, log_msg_buf_off t, log_msg_buf_len t, vmr_data_start t, vmr_data_end t])"

definition bytes_shared_mem :: "u8 list \<Rightarrow> vmr_shared_mem" where
  "bytes_shared_mem bs = (let w = (\<lambda>i. u32_of_bytes (take 4 (drop (4 * i) bs)))
     in \<lparr> vmr_magic_no = w 0, ring_buffer_off = w 1, ring_buffer_len = w 2, vmr_status_off = w 3,
          vmr_status_len = w 4, log_msg_index = w 5, log_msg_buf_off = w 6, log_msg_buf_len = w 7,
          vmr_data_start = w 8, vmr_data_end = w 9 \<rparr>)"

definition read_vmr_shared_mem :: "mem \<Rightarrow> vmr_shared_mem option" where
  "read_vmr_shared_mem m =
     (let (ret, buf) = cl_memcpy_fromio VMR_EP_RPU_SHARED_MEMORY_START 40 m; t = bytes_shared_mem buf
      in if ret = -1 \<or> vmr_magic_no t \<noteq> VMR_MAGIC_NO then None else Some t)"

definition vmr_status_service_stop :: "mem \<Rightarrow> int \<times> mem" where
  "vmr_status_service_stop m =
     (case read_vmr_shared_mem m of
        None \<Rightarrow> (- EINVAL, m)
      | Some t \<Rightarrow> (0, IO_SYNC_WRITE32 0 (RPU_SHARED_MEMORY_ADDR (vmr_status_off t)) m))"

definition vmr_status_service_start :: "mem \<Rightarrow> int \<times> mem" where
  "vmr_status_service_start m =
     (case read_vmr_shared_mem m of
        None \<Rightarrow> (-1, m)
      | Some t \<Rightarrow> (0, IO_SYNC_WRITE32 1 (RPU_SHARED_MEMORY_ADDR (vmr_status_off t)) m))"

definition vmr_partition_table :: "u32 \<Rightarrow> vmr_shared_mem" where
  "vmr_partition_table ring_len =
     (let status_off = VMR_PARTITION_TABLE_SIZE + ring_len;
          log_off = status_off + 4
      in \<lparr> vmr_magic_no = VMR_MAGIC_NO, ring_buffer_off = VMR_PARTITION_TABLE_SIZE,
           ring_buffer_len = ring_len, vmr_status_off = status_off, vmr_status_len = 4,
           log_msg_index = 0, log_msg_buf_off = log_off, log_msg_buf_len = LOG_BUF_LEN,
           vmr_data_start = log_off + LOG_BUF_LEN,
           vmr_data_end = VMR_EP_RPU_SHARED_MEMORY_END - VMR_EP_RPU_SHARED_MEMORY_START \<rparr>)"

definition init_vmr_status :: "u32 \<Rightarrow> mem \<Rightarrow> mem" where
  "init_vmr_status ring_len m =
     (let t = vmr_partition_table ring_len;
          m1 = snd (cl_memcpy_toio VMR_EP_RPU_SHARED_MEMORY_START (shared_mem_bytes t) 40 m)
      in IO_SYNC_WRITE32 0 (RPU_SHARED_MEMORY_ADDR (vmr_status_off t)) m1)"

text \<open>The base addresses of the queue registers come from the hardware description of the
  platform; they are arguments.\<close>

definition vmr_xgq_init :: "u64 \<Rightarrow> u64 \<Rightarrow> 'k rx_state \<Rightarrow> int \<times> 'k rx_state" where
  "vmr_xgq_init sq_base cq_base s =
     (let m1 = snd (cl_memset_io8 VMR_EP_RPU_RING_BUFFER_BASE 0 (unat RPU_RING_BUFFER_LEN) (rx_mem s))
      in case xgq_alloc 0 0 (ucast VMR_EP_RPU_RING_BUFFER_BASE) RPU_RING_BUFFER_LEN RPU_XGQ_SLOT_SIZE
                sq_base cq_base m1 of
           Inl e \<Rightarrow> (e, s\<lparr>rx_mem := m1\<rparr>)
         | Inr (q, ring_len, m2) \<Rightarrow> (0, s\<lparr>rpu_xgq := q, rx_mem := init_vmr_status ring_len m2\<rparr>))"

definition cl_xgq_receive_init :: "u64 \<Rightarrow> u64 \<Rightarrow> 'k rx_state \<Rightarrow> int \<times> 'k rx_state" where
  "cl_xgq_receive_init sq_base cq_base s =
     (let (ret, s1) = vmr_xgq_init sq_base cq_base s
      in if ret \<noteq> 0 then (-1, s1)
         else let (ret2, m) = vmr_status_service_start (rx_mem s1); s2 = s1\<lparr>rx_mem := m\<rparr>
              in if ret2 \<noteq> 0 then (-1, s2) else (0, s2))"

definition cl_xgq_receive_fini :: "'k rx_state \<Rightarrow> int \<times> 'k rx_state" where
  "cl_xgq_receive_fini s =
     (case vmr_status_service_stop (rx_mem s) of (ret, m) \<Rightarrow> (ret, s\<lparr>rx_mem := m\<rparr>))"

section \<open>What submitting does\<close>

lemma convert_cl_type_map_of:
  "convert_cl_type t tbl = (case map_of tbl t of Some c \<Rightarrow> Inr c | None \<Rightarrow> Inl (- EINVAL))"
  by (induct tbl) auto

text \<open>Every handler keeps the header of the message.\<close>

definition keeps_hdr :: "(cl_msg \<Rightarrow> u32 \<Rightarrow> mem \<Rightarrow> int \<times> cl_msg \<times> u32 option) \<Rightarrow> bool" where
  "keeps_hdr f \<longleftrightarrow> (\<forall>msg sq m. hdr (fst (snd (f msg sq m))) = hdr msg)"

lemma handlers_keep_hdr:
  "keeps_hdr (keeps_level xclbin_handle)" "keeps_hdr (keeps_level pdi_handle)"
  "keeps_hdr (keeps_level log_page_handle)" "keeps_hdr (keeps_level clock_handle)"
  "keeps_hdr (keeps_level sensor_handle)" "keeps_hdr (keeps_level clk_throttling_handle)"
  "keeps_hdr (sets_level vmr_control_handle)"
  by (simp_all add: keeps_hdr_def keeps_level_def sets_level_def xclbin_handle_def pdi_handle_def
      log_page_handle_def clock_handle_def sensor_handle_def clk_throttling_handle_def
      vmr_control_handle_def Let_def split: sum.splits)

lemma table_keeps_hdr: "h \<in> set xgq_cmd_handlers \<Longrightarrow> h_msg_handle h = Some f \<Longrightarrow> keeps_hdr f"
  unfolding xgq_cmd_handlers_def using handlers_keep_hdr by auto

lemma submit_loop_cases:
  assumes "submit_loop rt hs msg opcode sq s = (ret, s')"
    "\<And>h f. h \<in> set hs \<Longrightarrow> h_msg_handle h = Some f \<Longrightarrow> keeps_hdr f"
  shows "rpu_xgq s' = rpu_xgq s \<and> rx_mem s' = rx_mem s \<and>
    (ret = 0 \<longrightarrow> (\<exists>h \<in> set hs. \<exists>msg'. xgq_cmd_opcode_num (h_opcode h) = opcode \<and>
       hdr msg' = (hdr msg)\<lparr>msg_type := ucast (cl_msg_type_num (h_msg_type h))\<rparr> \<and>
       xQueueSend rt (h_qid h) msg' XGQ_XQUEUE_WAIT_MS (rx_kernel s) = (True, rx_kernel s')))"
  using assms
proof (induct hs)
  case Nil
  then show ?case by auto
next
  case (Cons h hs)
  show ?case
  proof (cases "xgq_cmd_opcode_num (h_opcode h) = opcode")
    case False
    then have "submit_loop rt hs msg opcode sq s = (ret, s')" using Cons.prems(1) by simp
    from Cons.hyps [OF this] Cons.prems(2) show ?thesis by auto
  next
    case True
    let ?msg1 = "cl_msg_set_type (h_msg_type h) msg"
    obtain r msg2 level where f: "(case h_msg_handle h of
        Some f \<Rightarrow> f ?msg1 sq (rx_mem s) | None \<Rightarrow> (0, ?msg1, None)) = (r, msg2, level)"
      by (metis prod_cases3)
    have hd: "hdr msg2 = hdr ?msg1"
    proof (cases "h_msg_handle h")
      case None
      then show ?thesis using f by simp
    next
      case (Some g)
      then have "keeps_hdr g" using Cons.prems(2) [of h g] by simp
      then have "hdr (fst (snd (g ?msg1 sq (rx_mem s)))) = hdr ?msg1" by (simp add: keeps_hdr_def)
      then show ?thesis using f Some by simp
    qed
    define s1 where "s1 = (case level of Some l \<Rightarrow> s\<lparr>rx_loglevel := l\<rparr> | None \<Rightarrow> s)"
    have s1: "rpu_xgq s1 = rpu_xgq s" "rx_mem s1 = rx_mem s" "rx_kernel s1 = rx_kernel s"
      by (simp_all add: s1_def split: option.splits)
    let ?send = "xQueueSend rt (h_qid h) msg2 XGQ_XQUEUE_WAIT_MS (rx_kernel s)"
    have "(if r \<noteq> 0 then (r, s1) else let (ret2, k) = cl_send_to_queue rt msg2 (h_qid h) (rx_kernel s1)
        in (ret2, s1\<lparr>rx_kernel := k\<rparr>)) = (ret, s')"
      using Cons.prems(1) True f by (cases "r = 0") (simp_all add: s1_def Let_def)
    then have e: "(ret, s') = (if r \<noteq> 0 then (r, s1)
        else (if fst ?send then 0 else - EIO, s1\<lparr>rx_kernel := snd ?send\<rparr>))"
      by (simp add: s1 cl_send_to_queue_simps split: if_splits)
    have "?send = (True, rx_kernel s')" if "ret = 0"
      using e that by (simp add: prod_eq_iff split: if_splits)
    then show ?thesis
      using e s1 True hd by (auto simp: cl_msg_set_type_def split: if_splits)
  qed
qed

lemma submit_loop_unknown:
  "opcode \<notin> (\<lambda>h. xgq_cmd_opcode_num (h_opcode h)) ` set hs \<Longrightarrow>
   submit_loop rt hs msg opcode sq s = (- EINVAL, s)"
  by (induct hs) auto

section \<open>What completing does\<close>

definition cq_hdr :: "xgq_cmd_cq \<Rightarrow> u16 \<times> u32 \<times> u32 \<times> u32 \<times> u32" where
  "cq_hdr cq = (cq_cid cq, cq_cstate cq, cq_specific cq, cq_state cq, cq_rcode cq)"

lemma completes_keep_cq_hdr:
  assumes "h \<in> set xgq_cmd_handlers" "h_msg_complete h = Some f"
  shows "cq_hdr (f st msg cq) = cq_hdr cq"
proof -
  have "f \<in> {\<lambda>st. log_page_complete, \<lambda>st. clock_complete, vmr_control_complete,
      clk_throttling_complete, \<lambda>st. vmr_identify_complete}"
    using assms unfolding xgq_cmd_handlers_def by auto
  then show ?thesis
    by (auto simp: cq_hdr_def log_page_complete_def clock_complete_def vmr_control_complete_def
        clk_throttling_complete_def vmr_identify_complete_def Let_def)
qed

lemma run_completes_cq_hdr:
  "set hs \<subseteq> set xgq_cmd_handlers \<Longrightarrow> cq_hdr (run_completes hs st msg cq) = cq_hdr cq"
proof (induct hs arbitrary: cq)
  case (Cons h hs)
  then show ?case
    using completes_keep_cq_hdr [of h] by (cases "h_msg_complete h") auto
qed simp

lemma completion_header:
  "cq_cid (completion_entry st msg) = msg_cid (hdr msg)"
  "cq_rcode (completion_entry st msg) = msg_rcode (hdr msg)"
  "cq_cstate (completion_entry st msg) = 0" "cq_specific (completion_entry st msg) = 0"
  "cq_state (completion_entry st msg) = 0"
  using run_completes_cq_hdr [of xgq_cmd_handlers st msg "\<lparr> cq_cid = msg_cid (hdr msg), cq_cstate = 0,
      cq_specific = 0, cq_state = xgq_cmd_state_num XGQ_CMD_STATE_COMPLETED, cq_payload0 = 0,
      cq_payload1 = 0, cq_rcode = msg_rcode (hdr msg) \<rparr>"]
  by (simp_all add: completion_entry_def cq_hdr_def)

text \<open>The link that the receive task and the host form: the host holds \<open>hq\<close>.\<close>

definition rx_link :: "xgq \<Rightarrow> 'k rx_state \<Rightarrow> xgq_link" where
  "rx_link hq s = \<lparr> lk_queue = (\<lambda>r. case r of XGQ_SERVER \<Rightarrow> rpu_xgq s | XGQ_CLIENT \<Rightarrow> hq),
     lk_mem = rx_mem s \<rparr>"

lemma rx_link_complete:
  assumes "fst (xSemaphoreTake rt (rx_kernel s))"
    and "fst (link_step (Send XGQ_SERVER (cq_bytes (completion_entry st msg))) (rx_link hq s)) = 0"
  shows "rx_link hq (cl_msg_handle_complete rt st g msg s) =
    link_next (Publish XGQ_SERVER)
      (link_next (Send XGQ_SERVER (cq_bytes (completion_entry st msg))) (rx_link hq s))"
proof (cases rule: xgq_produce_cases [of "rpu_xgq s" XGQ_SERVER "rx_mem s"])
  case (full P)
  then show ?thesis using assms(2) by (simp add: link_step_def rx_link_def)
next
  case (room P)
  then show ?thesis
    using assms(1)
    by (auto simp: cl_msg_handle_complete_def rx_link_def link_next_def link_step_def split_beta
        cl_memcpy_toio_store fun_eq_iff split: role.splits)
qed

section \<open>What the initialisation sets up\<close>

lemma rpu_num_slots: "xgq_alloc_num_slots RPU_RING_BUFFER_LEN [RPU_XGQ_SLOT_SIZE] = 4"
proof (rule alloc_num_slots_fits [of RPU_RING_BUFFER_LEN RPU_XGQ_SLOT_SIZE])
  fix k assume k: "k < 31" "xgq_alloc_num_slots RPU_RING_BUFFER_LEN [RPU_XGQ_SLOT_SIZE] = 2 ^ k"
    "1 \<le> k \<longrightarrow> ring_bytes (2 ^ k) (unat RPU_XGQ_SLOT_SIZE) \<le> unat RPU_RING_BUFFER_LEN"
    "k < 30 \<longrightarrow> unat RPU_RING_BUFFER_LEN < ring_bytes (2 ^ Suc k) (unat RPU_XGQ_SLOT_SIZE)"
  note d = ring_bytes_def sizeof_xgq_header_def sizeof_com_queue_entry_def RPU_XGQ_SLOT_SIZE_def
    RPU_RING_BUFFER_LEN_def
  have "k \<le> 2"
  proof (rule ccontr)
    assume "\<not> k \<le> 2"
    then have "(2::nat) ^ 3 \<le> 2 ^ k" by (intro power_increasing) auto
    then show False using k(3) \<open>\<not> k \<le> 2\<close> by (simp add: d)
  qed
  then have "k \<in> {0, 1, 2}" by auto
  then have "k = 2" using k(4) by (auto simp: d)
  then show ?thesis using k(2) by simp
qed (simp_all add: RPU_RING_BUFFER_LEN_def RPU_XGQ_SLOT_SIZE_def)

lemma shared_mem_bytes_words:
  "bytes_shared_mem (shared_mem_bytes t) = t" "length (shared_mem_bytes t) = 40"
  by (simp_all add: shared_mem_bytes_def bytes_shared_mem_def Let_def)

lemma read_table_after_store:
  assumes "vmr_magic_no t = VMR_MAGIC_NO"
  shows "read_vmr_shared_mem (mem_store m VMR_EP_RPU_SHARED_MEMORY_START (shared_mem_bytes t)) = Some t"
  using mem_load_store_same [of "shared_mem_bytes t" m VMR_EP_RPU_SHARED_MEMORY_START] assms
  by (simp add: read_vmr_shared_mem_def cl_memcpy_fromio_load shared_mem_bytes_words)

lemma read_table_frame:
  "disjoint_ranges a (length bs) VMR_EP_RPU_SHARED_MEMORY_START 40 \<Longrightarrow>
   read_vmr_shared_mem (mem_store m a bs) = read_vmr_shared_mem m"
  by (simp add: read_vmr_shared_mem_def cl_memcpy_fromio_load mem_load_store_disjoint)

lemma rpu_ring_len: "xgq_ring_len 4 RPU_XGQ_SLOT_SIZE = 2156"
  by (simp add: xgq_ring_len_def sizeof_xgq_header_def sizeof_com_queue_entry_def RPU_XGQ_SLOT_SIZE_def)

lemmas shared_mem_defs = VMR_EP_RPU_SHARED_MEMORY_START_def VMR_PARTITION_TABLE_SIZE_def
  VMR_EP_RPU_RING_BUFFER_BASE_def RPU_SHARED_MEMORY_ADDR_def vmr_partition_table_def LOG_BUF_LEN_def
  VMR_LOG_ENTRY_SIZE_def VMR_LOG_MAX_RECS_def VMR_EP_RPU_SHARED_MEMORY_END_def

text \<open>The queue registers lie outside the memory the host and the RPU share.\<close>

definition registers_outside :: "u64 \<Rightarrow> u64 \<Rightarrow> bool" where
  "registers_outside sq_base cq_base \<longleftrightarrow>
     registers_apart VMR_EP_RPU_SHARED_MEMORY_START 0x7FFF000 (ucast sq_base) (ucast cq_base)"

lemma registers_outside_sub:
  assumes "registers_outside sqb cqb" "off + k \<le> 0x7FFF000"
  shows "registers_apart (0x38000000 + of_nat off) k (ucast sqb) (ucast cqb)"
    "disjoint_ranges (0x38000000 + of_nat off) k (ucast sqb) 4"
    "disjoint_ranges (0x38000000 + of_nat off) k (ucast cqb) 4"
proof -
  have "disjoint_ranges x 4 (0x38000000 + of_nat off) k" if "disjoint_ranges x 4 0x38000000 0x7FFF000" for x
    by (rule disjoint_ranges_sub [OF that assms(2)])
  then show "registers_apart (0x38000000 + of_nat off) k (ucast sqb) (ucast cqb)"
    "disjoint_ranges (0x38000000 + of_nat off) k (ucast sqb) 4"
    "disjoint_ranges (0x38000000 + of_nat off) k (ucast cqb) 4"
    using assms(1) disjoint_ranges_sym
    by (auto simp: registers_outside_def registers_apart_def VMR_EP_RPU_SHARED_MEMORY_START_def)
qed

lemma receive_init_link:
  assumes "registers_outside sqb cqb"
  obtains s' where "cl_xgq_receive_init sqb cqb s = (0, s')"
    "read_vmr_shared_mem (rx_mem s') = Some (vmr_partition_table 2156)"
    "IO_SYNC_READ32 (RPU_SHARED_MEMORY_ADDR (vmr_status_off (vmr_partition_table 2156))) (rx_mem s') = 1"
    "\<exists>hq m'. xgq_attach q0 0 0 (ucast VMR_EP_RPU_RING_BUFFER_BASE) sqb cqb (rx_mem s') = (0, hq, m') \<and>
       (\<forall>r. link_chan r (rx_link hq (s'\<lparr>rx_mem := m'\<rparr>)) [] [])"
    "rx_kernel s' = rx_kernel s"
proof -
  let ?ra = "ucast VMR_EP_RPU_RING_BUFFER_BASE :: u64"
  have ra: "(ucast ?ra :: u32) = 0x38000000 + of_nat 4096"
    by (simp add: shared_mem_defs)
  have base: "VMR_EP_RPU_RING_BUFFER_BASE = 939528192" by (simp add: shared_mem_defs)
  define m1 where "m1 = snd (cl_memset_io8 VMR_EP_RPU_RING_BUFFER_BASE 0 (unat RPU_RING_BUFFER_LEN) (rx_mem s))"
  have ok: "setup_ok 0 0 ?ra RPU_RING_BUFFER_LEN RPU_XGQ_SLOT_SIZE sqb cqb"
    using registers_outside_sub(1) [OF assms, of 4096 4096]
    by (simp add: setup_ok_def ring_bytes_def sizeof_xgq_header_def sizeof_com_queue_entry_def
        pointers_ok_def XGQ_IS_IN_MEM_PROD_def base RPU_RING_BUFFER_LEN_def RPU_XGQ_SLOT_SIZE_def)
  obtain q n m2 where al: "xgq_alloc 0 0 ?ra RPU_RING_BUFFER_LEN RPU_XGQ_SLOT_SIZE sqb cqb m1 =
      Inr (q, xgq_ring_len n RPU_XGQ_SLOT_SIZE, m2)"
    and init: "xgq_init 0 0 ?ra n RPU_XGQ_SLOT_SIZE sqb cqb m1 = (q, m2)"
    and n0: "power_of_two n" "n = xgq_alloc_num_slots RPU_RING_BUFFER_LEN [RPU_XGQ_SLOT_SIZE]"
    using setup_alloc [OF ok] by metis
  have n: "n = 4" "power_of_two 4" using n0 rpu_num_slots by auto
  have len: "ring_bytes 4 (unat RPU_XGQ_SLOT_SIZE) = 2156"
    by (simp add: ring_bytes_def sizeof_xgq_header_def sizeof_com_queue_entry_def RPU_XGQ_SLOT_SIZE_def)
  have nm: "\<not> XGQ_IS_IN_MEM_PROD (ucast (0 :: u64))" by (simp add: XGQ_IS_IN_MEM_PROD_def)
  have pok: "pointers_ok (ucast (0 :: u64)) ?ra 2156 sqb cqb"
    using registers_outside_sub(1) [OF assms, of 4096 2156] by (simp add: pointers_ok_def base)
  note I = xgq_init_result [OF init [unfolded n(1)] pok, simplified]
  have pq: "sq_pointer (ucast (0 :: u64)) ?ra sqb = sqb" "cq_pointer (ucast (0 :: u64)) ?ra cqb = cqb"
    using nm by (simp_all add: sq_pointer_def cq_pointer_def)
  define t where "t = vmr_partition_table 2156"
  have t: "vmr_magic_no t = VMR_MAGIC_NO" "vmr_status_off t = 0x186C"
    by (simp_all add: t_def shared_mem_defs)
  let ?S = "0x38000000 + of_nat 6252 :: u32"
  have st: "RPU_SHARED_MEMORY_ADDR (vmr_status_off t) = ?S" by (simp add: t shared_mem_defs)
  define m3 where "m3 = mem_store m2 0x38000000 (shared_mem_bytes t)"
  define m4 where "m4 = IO_SYNC_WRITE32 0 ?S m3"
  define m5 where "m5 = IO_SYNC_WRITE32 1 ?S m4"
  have d1: "disjoint_ranges 0x38000000 40 (ucast ?ra) 2156" "disjoint_ranges ?S 4 (ucast ?ra) 2156"
    "disjoint_ranges ?S 4 0x38000000 40"
    unfolding ra
    using disjoint_ranges_offsets [of 0 40 4096 2156 "0x38000000"]
      disjoint_ranges_offsets [of 6252 4 4096 2156 "0x38000000"]
      disjoint_ranges_offsets [of 6252 4 0 40 "0x38000000"] by simp_all
  have d2: "disjoint_ranges 0x38000000 40 (ucast sqb) 4" "disjoint_ranges 0x38000000 40 (ucast cqb) 4"
    "disjoint_ranges ?S 4 (ucast sqb) 4" "disjoint_ranges ?S 4 (ucast cqb) 4"
    using registers_outside_sub(2,3) [OF assms, of 0 40] registers_outside_sub(2,3) [OF assms, of 6252 4]
    by simp_all
  have lo: "laid_out ?ra 4 RPU_XGQ_SLOT_SIZE sqb cqb (xq_sq q) (xq_cq q)" using I(1) pq by simp
  have ap: "apart_from_ring 0x38000000 40 (xq_sq q)" "apart_from_ring 0x38000000 40 (xq_cq q)"
    "apart_from_ring ?S 4 (xq_sq q)" "apart_from_ring ?S 4 (xq_cq q)"
    using laid_out_apart [OF lo, of "0x38000000" 40] laid_out_apart [OF lo, of ?S 4] d1 d2 len by auto
  have rest: "ring_at_rest m5 (xq_sq q)" "ring_at_rest m5 (xq_cq q)"
    using I(2,3) ap
    by (auto simp: m5_def m4_def m3_def IO_SYNC_WRITE32_def shared_mem_bytes_words intro!: ring_at_rest_store)
  have sub: "disjoint_ranges 0x38000000 40 (ucast ?ra) 44" "disjoint_ranges ?S 4 (ucast ?ra) 44"
    using disjoint_ranges_sub [OF d1(1), of 0 44] disjoint_ranges_sub [OF d1(2), of 0 44] by simp_all
  have hd: "header_at m5 (ucast ?ra) (ucast (0 :: u64)) 4 RPU_XGQ_SLOT_SIZE"
    using I(4) sub
    by (auto simp: m5_def m4_def m3_def IO_SYNC_WRITE32_def shared_mem_bytes_words intro!: header_at_store)
  have tab: "read_vmr_shared_mem m4 = Some t" "read_vmr_shared_mem m5 = Some t"
    using read_table_after_store [OF t(1), of m2] d1(3)
    by (simp_all add: m5_def m4_def m3_def IO_SYNC_WRITE32_def read_table_frame
        VMR_EP_RPU_SHARED_MEMORY_START_def)
  have "init_vmr_status 2156 m2 = m4"
    using st by (simp add: init_vmr_status_def Let_def t_def [symmetric] cl_memcpy_toio_store
        shared_mem_bytes_words m4_def m3_def VMR_EP_RPU_SHARED_MEMORY_START_def)
  then have ini: "vmr_xgq_init sqb cqb s = (0, s\<lparr>rpu_xgq := q, rx_mem := m4\<rparr>)"
    using al n rpu_ring_len by (simp add: vmr_xgq_init_def m1_def [symmetric])
  define s' where "s' = s\<lparr>rpu_xgq := q, rx_mem := m5\<rparr>"
  have g: "ring_geom (xq_sq q)" "ring_geom (xq_cq q)" "rings_apart (xq_sq q) (xq_cq q)"
    using laid_out_geom [OF I(1), of] pointers_ok_layout [OF pok] n len by simp_all
  obtain hq m6 where at: "xgq_attach q0 0 0 ?ra sqb cqb m5 = (0, hq, m6)"
    "xq_sq hq = xq_sq q" "xq_cq hq = xq_cq q" "ring_at_rest m6 (xq_sq q)" "ring_at_rest m6 (xq_cq q)"
    by (rule xgq_attach_result [OF hd n(2), where sq = "xq_sq q" and cq = "xq_cq q" and aflags = 0])
      (use I(1) pok len rest g nm in simp_all)
  have "rx_link hq (s'\<lparr>rx_mem := m6\<rparr>) = link_of XGQ_SERVER q hq m6"
    by (auto simp: rx_link_def link_of_def s'_def fun_eq_iff split: role.splits)
  then have "\<forall>r. link_chan r (rx_link hq (s'\<lparr>rx_mem := m6\<rparr>)) [] []"
    using link_chan_start [OF g at(4,5,2,3)] by simp
  moreover have "cl_xgq_receive_init sqb cqb s = (0, s')"
    using ini tab(1) st by (simp add: cl_xgq_receive_init_def vmr_status_service_start_def s'_def m5_def)
  ultimately show thesis
    using that [of s'] tab(2) at(1) st
    by (simp add: s'_def t_def [symmetric] m5_def mem_simps) 
qed

section \<open>Copying the clock request\<close>

lemma copy_freqs_nth:
  "n \<le> length dst \<Longrightarrow> length (copy_freqs n src dst) = length dst
    \<and> (\<forall>i < length dst. copy_freqs n src dst ! i = (if i < n then src ! i else dst ! i))"
  by (induct n) (auto simp: nth_list_update less_Suc_eq)

section \<open>Properties\<close>


text \<open>C8: A completion reaches the host: while the completion ring has room, completing a message
  appends one entry to what the host receives, with the message's id and return code, keeps the
  order of the earlier ones and does not disturb the submission ring; the host's next receive
  returns the oldest entry it has not seen.\<close>

theorem completion_reaches_host:
  assumes chan: "link_chan XGQ_SERVER (rx_link hq s) sent recd"
      "link_chan XGQ_CLIENT (rx_link hq s) csent crecd"
    and lock: "fst (xSemaphoreTake rt (rx_kernel s))"
    and slot: "slot_len (producer_view (rx_link hq s) XGQ_SERVER) = 16"
    and room: "fst (link_step (Send XGQ_SERVER (cq_bytes (completion_entry st msg))) (rx_link hq s)) = 0"
  shows "let e = cq_bytes (completion_entry st msg);
        l = rx_link hq (cl_msg_handle_complete rt st g msg s)
    in link_chan XGQ_SERVER l (sent @ [e]) recd \<and> link_chan XGQ_CLIENT l csent crecd
       \<and> fst (link_step (Receive XGQ_CLIENT) l) = 0
       \<and> fst (snd (link_step (Receive XGQ_CLIENT) l)) = (sent @ [e]) ! length recd
       \<and> cq_cid (completion_entry st msg) = msg_cid (hdr msg)
       \<and> cq_rcode (completion_entry st msg) = msg_rcode (hdr msg)"
proof -
  define e where "e = cq_bytes (completion_entry st msg)"
  define l where "l = rx_link hq (cl_msg_handle_complete rt st g msg s)"
  let ?l1 = "link_next (Send XGQ_SERVER e) (rx_link hq s)"
  have l: "l = link_next (Publish XGQ_SERVER) ?l1"
    unfolding l_def e_def by (rule rx_link_complete [OF lock room])
  have ok: "link_op_ok (Send XGQ_SERVER e) (rx_link hq s)"
    using slot by (simp add: link_op_ok_def e_def)
  have s1: "link_chan XGQ_SERVER ?l1 (sent @ [e]) recd"
    using link_chan_send [OF chan(1) ok] room by (simp add: link_sends_def e_def)
  have c1: "link_chan XGQ_CLIENT ?l1 csent crecd"
    using link_chan_other_send [of XGQ_CLIENT _ _ _ e] chan(2) ok by (simp add: peer_def)
  have s2: "link_chan XGQ_SERVER l (sent @ [e]) recd" unfolding l by (rule link_chan_publish [OF s1])
  have c2: "link_chan XGQ_CLIENT l csent crecd"
    unfolding l using link_chan_other_publish [OF c1] by (simp add: peer_def)
  have "length recd < length (sent @ [e])" using link_chan_prefix [OF chan(1)]
    by (simp add: prefix_length_le less_Suc_eq_le)
  note R = receive_after_publish [OF s1 this]
  have "fst (link_step (Receive XGQ_CLIENT) l) = 0"
    "fst (snd (link_step (Receive XGQ_CLIENT) l)) = (sent @ [e]) ! length recd"
    using R by (simp_all add: l peer_def)
  then show ?thesis
    using s2 c2 completion_header by (simp add: e_def [symmetric] l_def [symmetric] Let_def)
qed

theorem completion_reaches_host_witness:
  "\<exists>hq (s :: (cl_queue_id \<Rightarrow> cl_msg list) rx_state).
     fst (link_step (Receive XGQ_CLIENT)
       (rx_link hq (cl_msg_handle_complete fifo_rtos undefined 0 cl_msg_zero s))) = 0"
proof (rule setup_example)
  fix l assume l: "\<forall>r. link_chan r l [] []" "\<forall>r. ring_size (producer_view l r) \<noteq> 0"
    "slot_len (producer_view l XGQ_SERVER) = 16"
  define k where "k = link_next (Release XGQ_CLIENT) l"
  have k: "link_chan XGQ_SERVER k [] []" "link_chan XGQ_CLIENT k [] []"
    using l(1) link_chan_release [of XGQ_SERVER l] link_chan_other_release [of XGQ_CLIENT l]
    by (auto simp: k_def peer_def)
  define s :: "(cl_queue_id \<Rightarrow> cl_msg list) rx_state" where
    "s = \<lparr> rpu_xgq = lk_queue k XGQ_SERVER, rx_mem = lk_mem k, rx_kernel = (\<lambda>_. []), rx_loglevel = 0 \<rparr>"
  have rl: "rx_link (lk_queue k XGQ_CLIENT) s = k"
    by (auto simp: rx_link_def s_def fun_eq_iff split: role.splits intro: xgq_link.equality)
  have "fst (link_step (Send XGQ_SERVER d) k) = 0" for d
    using send_after_release [of XGQ_SERVER l "[]" "[]" d] l by (simp add: k_def peer_def)
  moreover have "slot_len (producer_view k XGQ_SERVER) = 16"
    using l(3) same_ring_derived(2) [OF link_next_same_ring, of XGQ_SERVER "Release XGQ_CLIENT" l]
    by (simp add: k_def)
  moreover have "fst (xSemaphoreTake fifo_rtos (rx_kernel s))" by (simp add: fifo_rtos_def)
  ultimately show ?thesis
    using completion_reaches_host [of "lk_queue k XGQ_CLIENT" s "[]" "[]" "[]" "[]" fifo_rtos undefined
        cl_msg_zero 0] k
    by (auto simp: rl Let_def)
qed

text \<open>C9: The initialisation of the receive task succeeds, leaves a partition table the host can
  read back, the status word set, and a ring buffer that a host attaching to it shares with
  the RPU as a working pair of rings; table, ring, status word, log and data follow each other
  without overlap inside the shared memory.\<close>

theorem cl_xgq_receive_init_ready:
  assumes "registers_outside sqb cqb"
  shows "\<exists>s' t hq m'. cl_xgq_receive_init sqb cqb s = (0, s')
    \<and> read_vmr_shared_mem (rx_mem s') = Some t
    \<and> IO_SYNC_READ32 (RPU_SHARED_MEMORY_ADDR (vmr_status_off t)) (rx_mem s') = 1
    \<and> ring_buffer_off t = VMR_PARTITION_TABLE_SIZE
    \<and> vmr_status_off t = ring_buffer_off t + ring_buffer_len t
    \<and> log_msg_buf_off t = vmr_status_off t + vmr_status_len t
    \<and> vmr_data_start t = log_msg_buf_off t + log_msg_buf_len t
    \<and> 40 \<le> ring_buffer_off t \<and> ring_buffer_off t < vmr_status_off t
    \<and> vmr_status_off t < log_msg_buf_off t \<and> log_msg_buf_off t < vmr_data_start t
    \<and> vmr_data_start t < vmr_data_end t
    \<and> xgq_attach q0 0 0 (ucast VMR_EP_RPU_RING_BUFFER_BASE) sqb cqb (rx_mem s') = (0, hq, m')
    \<and> (\<forall>r. link_chan r (rx_link hq (s'\<lparr>rx_mem := m'\<rparr>)) [] [])"
proof (rule receive_init_link [OF assms, of s q0])
  fix s' assume s': "cl_xgq_receive_init sqb cqb s = (0, s')"
    "read_vmr_shared_mem (rx_mem s') = Some (vmr_partition_table 2156)"
    "IO_SYNC_READ32 (RPU_SHARED_MEMORY_ADDR (vmr_status_off (vmr_partition_table 2156))) (rx_mem s') = 1"
    "\<exists>hq m'. xgq_attach q0 0 0 (ucast VMR_EP_RPU_RING_BUFFER_BASE) sqb cqb (rx_mem s') = (0, hq, m') \<and>
       (\<forall>r. link_chan r (rx_link hq (s'\<lparr>rx_mem := m'\<rparr>)) [] [])"
  let ?t = "vmr_partition_table 2156"
  have "ring_buffer_off ?t = VMR_PARTITION_TABLE_SIZE
    \<and> vmr_status_off ?t = ring_buffer_off ?t + ring_buffer_len ?t
    \<and> log_msg_buf_off ?t = vmr_status_off ?t + vmr_status_len ?t
    \<and> vmr_data_start ?t = log_msg_buf_off ?t + log_msg_buf_len ?t
    \<and> 40 \<le> ring_buffer_off ?t \<and> ring_buffer_off ?t < vmr_status_off ?t
    \<and> vmr_status_off ?t < log_msg_buf_off ?t \<and> log_msg_buf_off ?t < vmr_data_start ?t
    \<and> vmr_data_start ?t < vmr_data_end ?t"
    by (simp add: shared_mem_defs)
  then show ?thesis using s' by blast
qed

theorem cl_xgq_receive_init_ready_witness:
  "\<exists>s' t. cl_xgq_receive_init 0x80010000 0x80010100 (undefined :: unit rx_state) = (0, s')
    \<and> read_vmr_shared_mem (rx_mem s') = Some t"
proof -
  have "registers_outside 0x80010000 0x80010100"
    by (simp add: registers_outside_def registers_apart_def disjoint_ranges_def
        VMR_EP_RPU_SHARED_MEMORY_START_def)
  from cl_xgq_receive_init_ready [OF this, of "undefined :: unit rx_state"] show ?thesis by blast
qed

text \<open>A clock request is accepted exactly when its type is known and it asks for at most four
  frequencies; an accepted one carries over the type, the region, the index and the requested
  frequencies, and leaves the rest of the array alone.\<close>

theorem clock_handle_bounded:
  assumes "length (ocl_req_freq (clock_payload msg)) = 4"
    and "clock_handle msg sq m = (ret, msg')" and "p = read_clock_payload sq m"
  shows "(ret = 0 \<longleftrightarrow> (\<exists>t. convert_cl_type (xc_req_type p) xgq_cmd_clock_map = Inr t) \<and> xc_req_num p \<le> 4)
    \<and> (ret \<noteq> 0 \<longrightarrow> ret = - EINVAL)
    \<and> (ret = 0 \<longrightarrow>
         convert_cl_type (xc_req_type p) xgq_cmd_clock_map = Inr (ocl_req_type (clock_payload msg'))
         \<and> ocl_region (clock_payload msg') = xc_region p \<and> ocl_req_id (clock_payload msg') = xc_req_id p
         \<and> ocl_req_num (clock_payload msg') = xc_req_num p
         \<and> length (ocl_req_freq (clock_payload msg')) = 4
         \<and> (\<forall>i < 4. ocl_req_freq (clock_payload msg') ! i =
              (if i < unat (xc_req_num p) then xc_req_freq p ! i else ocl_req_freq (clock_payload msg) ! i)))"
  using assms copy_freqs_nth [of "unat (xc_req_num p)" "ocl_req_freq (clock_payload msg)" "xc_req_freq p"]
  by (auto simp: clock_handle_def Let_def convert_cl_type_map_of word_le_nat_alt
      split: option.splits if_splits)

definition clock_entry :: mem where
  "clock_entry = mem_store (\<lambda>_. 0) 0 (concat (map bytes_of_u32
     [0x8000000B, 7, 0, 0x802, 300, 500, 0, 0]))"

lemma clock_entry_payload: "read_clock_payload 0 clock_entry =
  \<lparr> xc_region = 0, xc_req_type = 2, xc_req_id = 0, xc_req_num = 2, xc_req_freq = [300, 500, 0, 0] \<rparr>"
  by code_simp

theorem clock_handle_bounded_witness:
  "fst (clock_handle cl_msg_zero 0 clock_entry) = 0
   \<and> ocl_req_freq (clock_payload (snd (clock_handle cl_msg_zero 0 clock_entry))) ! 1 = 500"
proof -
  have t: "\<exists>t. convert_cl_type 2 xgq_cmd_clock_map = Inr t" by (simp add: xgq_cmd_clock_map_def)
  show ?thesis
    using clock_handle_bounded [of cl_msg_zero 0 clock_entry "fst (clock_handle cl_msg_zero 0 clock_entry)"
        "snd (clock_handle cl_msg_zero 0 clock_entry)" "read_clock_payload 0 clock_entry"] t
    by (simp add: clock_entry_payload cl_msg_zero_def)
qed

end
