(* ===== verification/Cl_Dispatch.thy ===== *)
theory Cl_Dispatch
  imports Cl_Main
begin

text \<open>Model of \<open>common/cl_xgq_opcode.c\<close> and \<open>common/cl_xgq_program.c\<close>: the two tasks that take
  messages from their queue, call the component that serves the message type, and complete the
  message.  A callback may not return (a reset of the subsystem never does): \<open>None\<close>.  The
  result of processing a message is the list of completions issued, in order, and the state the
  processing returns with, if it returns.\<close>

type_synonym 's callback = "cl_msg \<Rightarrow> 's \<Rightarrow> (int \<times> cl_msg \<times> 's) option"

definition set_rcode :: "int \<Rightarrow> cl_msg \<Rightarrow> cl_msg" where
  "set_rcode ret msg = msg\<lparr>hdr := (hdr msg)\<lparr>msg_rcode := of_int ret\<rparr>\<rparr>"

section \<open>The opcode task\<close>

text \<open>The components the opcode task calls.\<close>

record 's opcode_ops =
  op_log_page :: "'s callback"
  op_clock :: "'s callback"
  op_vmr_control :: "'s callback"
  op_sensor :: "'s callback"
  op_clk_scaling :: "'s callback"

definition VMR_IDENTIFY_CMD_MAJOR :: u16 where "VMR_IDENTIFY_CMD_MAJOR = 1"
definition VMR_IDENTIFY_CMD_MINOR :: u16 where "VMR_IDENTIFY_CMD_MINOR = 0"

definition opcode_log_page :: "'s opcode_ops \<Rightarrow> 's callback" where
  "opcode_log_page ops = op_log_page ops"

definition opcode_clock :: "'s opcode_ops \<Rightarrow> 's callback" where
  "opcode_clock ops = op_clock ops"

definition opcode_vmr_control :: "'s opcode_ops \<Rightarrow> 's callback" where
  "opcode_vmr_control ops = op_vmr_control ops"

definition opcode_vmc_sensor :: "'s opcode_ops \<Rightarrow> 's callback" where
  "opcode_vmc_sensor ops = op_sensor ops"

definition opcode_vmc_clk_throttling :: "'s opcode_ops \<Rightarrow> 's callback" where
  "opcode_vmc_clk_throttling ops = op_clk_scaling ops"

definition opcode_vmr_identify :: "'s callback" where
  "opcode_vmr_identify msg s =
     Some (0, msg\<lparr>hdr := (hdr msg)\<lparr>version_major := VMR_IDENTIFY_CMD_MAJOR,
                                  version_minor := VMR_IDENTIFY_CMD_MINOR\<rparr>\<rparr>, s)"

definition opcode_handles :: "'s opcode_ops \<Rightarrow> (cl_msg_type \<times> 's callback) list" where
  "opcode_handles ops =
    [(CL_MSG_LOG_PAGE, opcode_log_page ops),
     (CL_MSG_CLOCK, opcode_clock ops),
     (CL_MSG_VMR_CONTROL, opcode_vmr_control ops),
     (CL_MSG_SENSOR, opcode_vmc_sensor ops),
     (CL_MSG_CLK_THROTTLING, opcode_vmc_clk_throttling ops),
     (CL_MSG_VMR_IDENTIFY, opcode_vmr_identify)]"

fun opcode_loop ::
    "(cl_msg_type \<times> 's callback) list \<Rightarrow> cl_msg \<Rightarrow> 's \<Rightarrow> cl_msg list \<times> 's option" where
  "opcode_loop [] msg s = ([set_rcode (- EINVAL) msg], Some s)"
| "opcode_loop ((t, cb) # hs) msg s =
     (if msg_type (hdr msg) = ucast (cl_msg_type_num t)
      then if mb_req_type (multiboot_payload msg) = cl_vmr_control_num CL_VMR_EEMI_SRST
           then let msg' = set_rcode 0 msg
                in ([msg'], map_option (\<lambda>(ret, m, s'). s') (cb msg' s))
           else (case cb msg s of
                   None \<Rightarrow> ([], None)
                 | Some (ret, msg', s') \<Rightarrow> ([set_rcode ret msg'], Some s'))
      else opcode_loop hs msg s)"

definition opcode_process_msg :: "'s opcode_ops \<Rightarrow> cl_msg \<Rightarrow> 's \<Rightarrow> cl_msg list \<times> 's option" where
  "opcode_process_msg ops msg s = opcode_loop (opcode_handles ops) msg s"

text \<open>One turn of each task: receive, then process.  \<open>complete\<close> issues a completion.\<close>

definition cl_xgq_opcode_step ::
    "'k rtos \<Rightarrow> 's opcode_ops \<Rightarrow> cl_msg \<Rightarrow> 'k \<Rightarrow> 's \<Rightarrow> 'k \<times> cl_msg list \<times> 's option" where
  "cl_xgq_opcode_step rt ops msg k s =
     (let (ret, msg', k') = cl_recv_from_queue rt msg CL_QUEUE_OPCODE k
      in (k', opcode_process_msg ops msg' s))"

section \<open>The program task\<close>

text \<open>The components it calls; the state they work on contains the kernel of the queues.\<close>

record ('s, 'k) program_ops =
  op_base_pdi :: "'s callback"
  op_apu_pdi :: "'s callback"
  op_xclbin :: "'s callback"
  op_program_vmr :: "'s callback"
  op_kernel :: "'s \<Rightarrow> 'k"
  op_put_kernel :: "'k \<Rightarrow> 's \<Rightarrow> 's"

definition program_scfw :: "'k rtos \<Rightarrow> ('s, 'k) program_ops \<Rightarrow> 's callback" where
  "program_scfw rt ops msg s =
     (let (ret, k1) = cl_send_to_queue rt msg CL_QUEUE_SCFW_REQ (op_kernel ops s)
      in if ret \<noteq> 0 then Some (ret, msg, op_put_kernel ops k1 s)
         else let (ret2, msg2, k2) = cl_recv_from_queue rt msg CL_QUEUE_SCFW_RESP k1
              in if ret2 \<noteq> 0 then Some (ret2, msg2, op_put_kernel ops k2 s)
                 else Some (sint (cl_msg_get_rcode msg2), msg2, op_put_kernel ops k2 s))"

definition program_handles :: "'k rtos \<Rightarrow> ('s, 'k) program_ops \<Rightarrow> (cl_msg_type \<times> 's callback) list" where
  "program_handles rt ops =
    [(CL_MSG_PDI, op_base_pdi ops),
     (CL_MSG_APUBIN, op_apu_pdi ops),
     (CL_MSG_XCLBIN, op_xclbin ops),
     (CL_MSG_PROGRAM_SCFW, program_scfw rt ops),
     (CL_MSG_PROGRAM_VMR, op_program_vmr ops)]"

fun program_loop ::
    "(cl_msg_type \<times> 's callback) list \<Rightarrow> cl_msg \<Rightarrow> 's \<Rightarrow> cl_msg list \<times> 's option" where
  "program_loop [] msg s = ([set_rcode (- EINVAL) msg], Some s)"
| "program_loop ((t, cb) # hs) msg s =
     (if msg_type (hdr msg) = ucast (cl_msg_type_num t)
      then if msg_type (hdr msg) = ucast (cl_msg_type_num CL_MSG_PROGRAM_VMR)
           then let msg' = set_rcode 0 msg
                in ([msg'], map_option (\<lambda>(ret, m, s'). s') (cb msg' s))
           else (case cb msg s of
                   None \<Rightarrow> ([], None)
                 | Some (ret, msg', s') \<Rightarrow> ([set_rcode ret msg'], Some s'))
      else program_loop hs msg s)"

definition program_process_msg ::
    "'k rtos \<Rightarrow> ('s, 'k) program_ops \<Rightarrow> cl_msg \<Rightarrow> 's \<Rightarrow> cl_msg list \<times> 's option" where
  "program_process_msg rt ops msg s = program_loop (program_handles rt ops) msg s"

definition cl_xgq_program_step ::
    "'k rtos \<Rightarrow> ('s, 'k) program_ops \<Rightarrow> cl_msg \<Rightarrow> 's \<Rightarrow> cl_msg list \<times> 's option" where
  "cl_xgq_program_step rt ops msg s =
     (let (ret, msg', k') = cl_recv_from_queue rt msg CL_QUEUE_PROGRAM (op_kernel ops s)
      in program_process_msg rt ops msg' (op_put_kernel ops k' s))"

section \<open>Lemmas\<close>

text \<open>A callback keeps the command id.\<close>

definition keeps_cid :: "'s callback \<Rightarrow> bool" where
  "keeps_cid cb \<longleftrightarrow> (\<forall>msg s ret msg' s'. cb msg s = Some (ret, msg', s') \<longrightarrow>
     msg_cid (hdr msg') = msg_cid (hdr msg))"

definition answered_once :: "cl_msg \<Rightarrow> cl_msg list \<times> 's option \<Rightarrow> bool" where
  "answered_once msg r \<longleftrightarrow> length (fst r) \<le> 1 \<and> (snd r \<noteq> None \<longrightarrow> length (fst r) = 1)
     \<and> (\<forall>m \<in> set (fst r). msg_cid (hdr m) = msg_cid (hdr msg))"

lemma answered_onceI: "msg_cid (hdr m) = msg_cid (hdr msg) \<Longrightarrow> answered_once msg ([m], x)"
  by (simp add: answered_once_def)

lemma msg_cid_set_rcode [simp]: "msg_cid (hdr (set_rcode r m)) = msg_cid (hdr m)"
  by (simp add: set_rcode_def)

lemma answered_once_callback:
  assumes "keeps_cid cb"
  shows "answered_once msg (case cb msg s of None \<Rightarrow> ([], None)
    | Some (ret, msg', s') \<Rightarrow> ([set_rcode ret msg'], Some s'))"
proof (cases "cb msg s")
  case (Some x)
  obtain ret msg' s' where x: "x = (ret, msg', s')" by (cases x)
  then have "msg_cid (hdr msg') = msg_cid (hdr msg)" using assms Some unfolding keeps_cid_def by blast
  then show ?thesis using Some x by (simp add: answered_onceI)
qed (simp add: answered_once_def)

lemma opcode_loop_once:
  "(\<And>t cb. (t, cb) \<in> set hs \<Longrightarrow> keeps_cid cb) \<Longrightarrow> answered_once msg (opcode_loop hs msg s)"
proof (induct hs)
  case (Cons h hs)
  obtain t cb where h: "h = (t, cb)" by fastforce
  have "keeps_cid cb" using Cons.prems [of t cb] h by simp
  moreover have "answered_once msg (opcode_loop hs msg s)"
    by (rule Cons.hyps) (meson Cons.prems list.set_intros(2))
  ultimately show ?case
    by (simp add: h answered_once_callback answered_onceI Let_def)
qed (simp add: answered_onceI)

lemma program_loop_once:
  "(\<And>t cb. (t, cb) \<in> set hs \<Longrightarrow> keeps_cid cb) \<Longrightarrow> answered_once msg (program_loop hs msg s)"
proof (induct hs)
  case (Cons h hs)
  obtain t cb where h: "h = (t, cb)" by fastforce
  have "keeps_cid cb" using Cons.prems [of t cb] h by simp
  moreover have "answered_once msg (program_loop hs msg s)"
    by (rule Cons.hyps) (meson Cons.prems list.set_intros(2))
  ultimately show ?case
    by (simp add: h answered_once_callback answered_onceI Let_def)
qed (simp add: answered_onceI)

lemma identify_keeps_cid: "keeps_cid opcode_vmr_identify"
  by (simp add: keeps_cid_def opcode_vmr_identify_def)

lemma cl_msg_type_num_inj: "ucast (cl_msg_type_num t) = (ucast (cl_msg_type_num t') :: u16) \<Longrightarrow> t = t'"
  by (cases t; cases t'; simp)

section \<open>Properties\<close>

text \<open>C10: A message of the opcode queue is completed at most once, exactly once when its handler
  returns, under its own command id; with a type no handler serves it is completed with
  \<open>-EINVAL\<close>, and a reset request is completed with success before the handler runs, whether or
  not the handler returns.\<close>

theorem opcode_msg_completed_once:
  assumes "keeps_cid (op_log_page ops)" "keeps_cid (op_clock ops)" "keeps_cid (op_vmr_control ops)"
    "keeps_cid (op_sensor ops)" "keeps_cid (op_clk_scaling ops)"
  shows "answered_once msg (opcode_process_msg ops msg s)
    \<and> (msg_type (hdr msg) = ucast (cl_msg_type_num CL_MSG_UNKNOWN) \<longrightarrow>
         opcode_process_msg ops msg s = ([set_rcode (- EINVAL) msg], Some s))
    \<and> (msg_type (hdr msg) = ucast (cl_msg_type_num CL_MSG_VMR_CONTROL) \<and>
       mb_req_type (multiboot_payload msg) = cl_vmr_control_num CL_VMR_EEMI_SRST \<longrightarrow>
         fst (opcode_process_msg ops msg s) = [set_rcode 0 msg])"
  using assms identify_keeps_cid
  unfolding opcode_process_msg_def
  by (intro conjI opcode_loop_once)
     (auto simp: opcode_handles_def opcode_log_page_def opcode_clock_def opcode_vmr_control_def
       opcode_vmc_sensor_def opcode_vmc_clk_throttling_def Let_def)

definition echo_ops :: "unit opcode_ops" where
  "echo_ops = \<lparr> op_log_page = (\<lambda>m s. Some (0, m, s)), op_clock = (\<lambda>m s. Some (0, m, s)),
     op_vmr_control = (\<lambda>m s. None), op_sensor = (\<lambda>m s. Some (0, m, s)),
     op_clk_scaling = (\<lambda>m s. Some (0, m, s)) \<rparr>"

theorem opcode_msg_completed_once_witness:
  "opcode_process_msg echo_ops cl_msg_zero () = ([set_rcode (- EINVAL) cl_msg_zero], Some ())"
  using opcode_msg_completed_once [of echo_ops cl_msg_zero "()"]
  by (simp add: echo_ops_def keeps_cid_def cl_msg_zero_def)


definition idle_program_ops :: "(unit, cl_queue_id \<Rightarrow> cl_msg list) program_ops" where
  "idle_program_ops = \<lparr> op_base_pdi = (\<lambda>m s. Some (0, m, s)), op_apu_pdi = (\<lambda>m s. Some (0, m, s)),
     op_xclbin = (\<lambda>m s. Some (0, m, s)), op_program_vmr = (\<lambda>m s. None),
     op_kernel = (\<lambda>s q. []), op_put_kernel = (\<lambda>k s. s) \<rparr>"


end
