(* ===== verification/Cl_Xgq_Client.thy ===== *)
theory Cl_Xgq_Client
  imports Cl_Msg Xgq_Setup
begin

text \<open>Model of \<open>common/cl_xgq_client.c\<close>: the RPU as the client of the APU.  The RPU places data in
  the shared memory, sends one command at a time, polls for its completion once a second up to
  fifteen times, and checks the completion.  While the task sleeps the APU may act on the shared
  memory: \<open>w_delay\<close>.  The mutex is the FreeRTOS part of the record \<open>world\<close>.  The words of a
  command that the code leaves uninitialised are the argument \<open>init\<close>.\<close>

section \<open>Data\<close>

record rmgmt_handler =
  rh_boot_on_offset :: u32
  rh_data_max_size :: u32
  rh_data_size :: u32
  rh_data_base :: u32
  rh_data_priv :: "u64 option"
  rh_log_max_size :: u32
  rh_log :: u32
  rh_data_buffer :: u32
  rh_already_flashed :: bool

definition APU_MAGIC_ID :: u16 where "APU_MAGIC_ID = 0x4150"
definition APU_XGQ_TIMEOUT :: nat where "APU_XGQ_TIMEOUT = 15"
definition APU_SHARED_START :: u32 where "APU_SHARED_START = 0x37000000"
definition VMR_EP_APU_SHARED_MEMORY_END :: u32 where "VMR_EP_APU_SHARED_MEMORY_END = 0x37FF0000"
definition APU_RING_SIZE :: u32 where "APU_RING_SIZE = 0x1000"
definition XGQ_SQ_CMD_NEW :: u32 where "XGQ_SQ_CMD_NEW = 1"

definition APU_SHARED_MEMORY_ADDR :: "u32 \<Rightarrow> u32" where
  "APU_SHARED_MEMORY_ADDR offset = APU_SHARED_START + offset"

record apu_shared_mem =
  apu_channel_ready :: u32
  apu_xgq_ring_buffer :: u32

record 'w world =
  w_delay :: "'w \<times> mem \<Rightarrow> 'w \<times> mem"
  w_create :: "'w \<Rightarrow> bool \<times> 'w"
  w_take :: "'w \<Rightarrow> bool \<times> 'w"
  w_give :: "'w \<Rightarrow> bool \<times> 'w"
  w_delete :: "'w \<Rightarrow> 'w"

record 'w client =
  apu_xgq :: xgq
  cl_mem :: mem
  apu_mem :: apu_shared_mem
  xgq_apu_ready :: bool
  cl_world :: 'w

section \<open>Completions\<close>

definition decode_cq :: "u8 list \<Rightarrow> xgq_cmd_cq" where
  "decode_cq bs = (let w = (\<lambda>i. u32_of_bytes (take 4 (drop (4 * i) bs)))
     in \<lparr> cq_cid = ucast (take_bit 16 (w 0)), cq_cstate = bits_of (w 0) 16 14,
          cq_specific = bits_of (w 0) 30 1, cq_state = bits_of (w 0) 31 1,
          cq_payload0 = w 1, cq_payload1 = w 2, cq_rcode = w 3 \<rparr>)"

definition read_completion :: "u64 \<Rightarrow> mem \<Rightarrow> xgq_cmd_cq \<times> mem" where
  "read_completion addr m =
     (decode_cq (snd (cl_memcpy_fromio (ucast addr) 16 m)), xgq_reg_write32 0 addr 0 m)"

definition shm_acquire_data :: "'w world \<Rightarrow> 'w client \<Rightarrow> (u32 \<times> u32) option \<times> 'w client" where
  "shm_acquire_data wd s =
     (let (ok, w) = w_take wd (cl_world s); s1 = s\<lparr>cl_world := w\<rparr>
      in if \<not> ok then (None, s1)
         else let addr_off = apu_xgq_ring_buffer (apu_mem s) + APU_RING_SIZE
              in (Some (addr_off, VMR_EP_APU_SHARED_MEMORY_END - APU_SHARED_MEMORY_ADDR addr_off + 1), s1))"

definition shm_release_data :: "'w world \<Rightarrow> 'w client \<Rightarrow> 'w client" where
  "shm_release_data wd s = s\<lparr>cl_world := snd (w_give wd (cl_world s))\<rparr>"

definition cq_cmd_complete_check :: "xgq_cmd_cq \<Rightarrow> int" where
  "cq_cmd_complete_check cq =
     (if cq_cid cq \<noteq> APU_MAGIC_ID then - EINVAL else if cq_rcode cq \<noteq> 0 then - EIO else 0)"

definition xclbin_cmd_complete :: "xgq_cmd_cq \<Rightarrow> u32" where
  "xclbin_cmd_complete cq = (if cq_cmd_complete_check cq \<noteq> 0 then 0 else cq_payload0 cq)"

section \<open>Sending a command and waiting for its completion\<close>

definition sq_hdr_words :: "u32 \<Rightarrow> u32 \<Rightarrow> u16 \<Rightarrow> u32 \<Rightarrow> u32 list" where
  "sq_hdr_words opcode count cid rsvd =
     [take_bit 16 opcode OR push_bit 16 (take_bit 15 count) OR push_bit 31 (take_bit 1 XGQ_SQ_CMD_NEW),
      ucast cid OR push_bit 16 (take_bit 16 rsvd)]"

definition sizeof_xgq_cmd_sq :: nat where "sizeof_xgq_cmd_sq = 40"

definition sq_bytes :: "u32 list \<Rightarrow> u8 list" where
  "sq_bytes ws = concat (map bytes_of_u32 ws)"

definition send_command :: "u32 list \<Rightarrow> 'w client \<Rightarrow> int \<times> 'w client" where
  "send_command ws s =
     (case xgq_produce XGQ_CLIENT (apu_xgq s) (cl_mem s) of
        (rval, None, q) \<Rightarrow> (rval, s\<lparr>apu_xgq := q\<rparr>)
      | (rval, Some slot_addr, q) \<Rightarrow>
          let m1 = snd (cl_memcpy_toio (ucast slot_addr) (sq_bytes ws) sizeof_xgq_cmd_sq (cl_mem s))
          in (0, s\<lparr>apu_xgq := q, cl_mem := xgq_notify_peer_produced XGQ_CLIENT q m1\<rparr>))"

text \<open>The wait: up to \<open>n\<close> turns of sleeping and polling.  \<open>on_completion\<close> is what the caller does
  with the completion before the slot is released.\<close>

primrec wait_completion ::
    "'w world \<Rightarrow> nat \<Rightarrow> (xgq_cmd_cq \<Rightarrow> mem \<Rightarrow> 'r \<times> mem) \<Rightarrow> 'w client \<Rightarrow> 'r option \<times> 'w client" where
  "wait_completion wd 0 on_completion s = (None, s)"
| "wait_completion wd (Suc n) on_completion s =
     (let (w, m) = w_delay wd (cl_world s, cl_mem s); s1 = s\<lparr>cl_world := w, cl_mem := m\<rparr>
      in case xgq_consume XGQ_CLIENT (apu_xgq s1) (cl_mem s1) of
           (rval, None, q) \<Rightarrow> wait_completion wd n on_completion (s1\<lparr>apu_xgq := q\<rparr>)
         | (rval, Some slot_addr, q) \<Rightarrow>
             let (cq, m1) = read_completion slot_addr (cl_mem s1); (r, m2) = on_completion cq m1
             in (Some r, s1\<lparr>apu_xgq := q, cl_mem := xgq_notify_peer_consumed XGQ_CLIENT q m2\<rparr>))"

section \<open>Downloading an xclbin\<close>

definition xclbin_words :: "u32 list \<Rightarrow> u32 \<Rightarrow> u32 \<Rightarrow> u32 \<Rightarrow> u64 option \<Rightarrow> u32 list" where
  "xclbin_words init base_off trunk_size remain_size priv =
     sq_hdr_words (xgq_cmd_opcode_num XGQ_CMD_OP_LOAD_XCLBIN) 32 APU_MAGIC_ID (init ! 1)
     @ [base_off, 0, trunk_size, remain_size, init ! 6, init ! 7,
        ucast (case priv of Some p \<Rightarrow> p | None \<Rightarrow> 0),
        ucast (drop_bit 32 (case priv of Some p \<Rightarrow> p | None \<Rightarrow> 0))]"

definition cl_xgq_apu_download_trunk ::
    "'w world \<Rightarrow> u32 list \<Rightarrow> u8 list \<Rightarrow> u32 \<Rightarrow> u32 \<Rightarrow> u32 \<Rightarrow> u64 option \<Rightarrow> 'w client \<Rightarrow> u32 \<times> 'w client" where
  "cl_xgq_apu_download_trunk wd init data trunk_size remain_size base_off priv s =
     (if \<not> xgq_apu_ready s then (of_int (- ENODEV), s)
      else let s1 = s\<lparr>cl_mem := snd (cl_memcpy_toio (APU_SHARED_MEMORY_ADDR base_off) data
                                      (unat trunk_size) (cl_mem s))\<rparr>;
               (rval, s2) = send_command (xclbin_words init base_off trunk_size remain_size priv) s1
           in if rval \<noteq> 0 then (0, s2)
              else case wait_completion wd APU_XGQ_TIMEOUT (\<lambda>cq m. (xclbin_cmd_complete cq, m)) s2 of
                     (None, s3) \<Rightarrow> (0, s3)
                   | (Some count, s3) \<Rightarrow> (count, s3))"

text \<open>The loop over the trunks; \<open>download\<close> sends the bytes at an offset.  \<open>None\<close> is that it runs
  forever, which only a data area of size zero can bring about.\<close>

partial_function (option) download_loop ::
    "(u32 \<Rightarrow> u32 \<Rightarrow> u32 \<Rightarrow> 's \<Rightarrow> u32 \<times> 's) \<Rightarrow> u32 \<Rightarrow> u32 \<Rightarrow> u32 \<Rightarrow> 's \<Rightarrow> (int \<times> 's) option" where
  "download_loop download area offset remain_size s =
     (if remain_size > 0
      then let trunk_size = (if remain_size > area then area else remain_size);
               remain' = remain_size - trunk_size;
               (count, s') = download offset trunk_size remain' s
           in if count \<noteq> trunk_size then Some (- EIO, s')
              else download_loop download area (offset + trunk_size) remain' s'
      else Some (0, s))"

declare download_loop.simps [code]

definition rmgmt_apu_download_xclbin ::
    "'w world \<Rightarrow> u32 list \<Rightarrow> rmgmt_handler \<Rightarrow> 'w client \<Rightarrow> (int \<times> 'w client) option" where
  "rmgmt_apu_download_xclbin wd init rh s =
     (if \<not> xgq_apu_ready s then Some (- ENODEV, s)
      else if rh_data_base rh = 0 \<or> rh_data_size rh = 0 then Some (- EINVAL, s)
      else case shm_acquire_data wd s of
             (None, s1) \<Rightarrow> Some (- EBUSY, s1)
           | (Some (base_off, area), s1) \<Rightarrow>
               map_option (\<lambda>(ret, s2). (ret, shm_release_data wd s2))
                 (download_loop (\<lambda>offset trunk remain st.
                     cl_xgq_apu_download_trunk wd init
                       (mem_load (cl_mem st) (rh_data_base rh + offset) (unat trunk))
                       trunk remain base_off (rh_data_priv rh) st)
                   area 0 (rh_data_size rh) s1))"

section \<open>Identify\<close>

record xgq_vmr_cmd_identify =
  id_major :: u16
  id_minor :: u16

definition identify_cmd_complete :: "xgq_cmd_cq \<Rightarrow> xgq_vmr_cmd_identify \<Rightarrow> int \<times> xgq_vmr_cmd_identify" where
  "identify_cmd_complete cq id_cmd =
     (let ret = cq_cmd_complete_check cq
      in if ret \<noteq> 0 then (ret, id_cmd)
         else (0, \<lparr> id_major = ucast (drop_bit 16 (cq_payload0 cq)), id_minor = ucast (cq_payload0 cq) \<rparr>))"

definition rmgmt_apu_identify ::
    "'w world \<Rightarrow> xgq_vmr_cmd_identify \<Rightarrow> 'w client \<Rightarrow> int \<times> xgq_vmr_cmd_identify \<times> 'w client" where
  "rmgmt_apu_identify wd id_cmd s =
     (if \<not> xgq_apu_ready s then (- ENODEV, id_cmd, s)
      else let (rval, s1) = send_command
                 (sq_hdr_words (xgq_cmd_opcode_num XGQ_CMD_OP_IDENTIFY) 0 APU_MAGIC_ID 0 @ replicate 8 0) s
           in if rval \<noteq> 0 then (rval, id_cmd, s1)
              else case wait_completion wd APU_XGQ_TIMEOUT (\<lambda>cq m. (identify_cmd_complete cq id_cmd, m)) s1 of
                     (None, s2) \<Rightarrow> (- EBUSY, id_cmd, s2)
                   | (Some (ret, id'), s2) \<Rightarrow> (ret, id', s2))"

section \<open>Log pages\<close>

text \<open>The page is copied to the buffer of the caller; the returned value is its size.\<close>

definition log_page_cmd_complete :: "u32 \<Rightarrow> u32 \<Rightarrow> xgq_cmd_cq \<Rightarrow> mem \<Rightarrow> int \<times> u8 list" where
  "log_page_cmd_complete address req_size cq m =
     (if cq_cmd_complete_check cq \<noteq> 0 then (0, [])
      else let return_size = min (cq_payload0 cq) req_size;
               (ret, buf) = cl_memcpy_fromio (APU_SHARED_MEMORY_ADDR address) (unat return_size) m
           in if ret \<noteq> int (unat return_size) then (0, buf) else (sint return_size, buf))"

definition log_words :: "u32 \<Rightarrow> u32 \<Rightarrow> u32 \<Rightarrow> u32 \<Rightarrow> u32 list" where
  "log_words page_off req_size off pid =
     sq_hdr_words (xgq_cmd_opcode_num XGQ_CMD_OP_GET_LOG_PAGE) 24 APU_MAGIC_ID 0
     @ [page_off, 0, req_size, off, take_bit 16 pid, 0, 0, 0]"

text \<open>After fifteen turns without a completion the result is that of the last poll, \<open>-ENOENT\<close>.\<close>

definition rmgmt_apu_log_page ::
    "'w world \<Rightarrow> u32 \<Rightarrow> u32 \<Rightarrow> xgq_cmd_log_page_type \<Rightarrow> 'w client \<Rightarrow> int \<times> u8 list \<times> 'w client" where
  "rmgmt_apu_log_page wd off req_size pid s =
     (if \<not> xgq_apu_ready s then (0, [], s)
      else case shm_acquire_data wd s of
             (None, s1) \<Rightarrow> (0, [], s1)
           | (Some (page_off, page_len), s1) \<Rightarrow>
               let req = min req_size page_len;
                   (rval, s2) = send_command (log_words page_off req off (xgq_log_page_num pid)) s1
               in if rval \<noteq> 0 then (0, [], shm_release_data wd s2)
                  else case wait_completion wd APU_XGQ_TIMEOUT
                         (\<lambda>cq m. (log_page_cmd_complete page_off req cq m, m)) s2 of
                         (None, s3) \<Rightarrow> (- ENOENT, [], shm_release_data wd s3)
                       | (Some (ret, buf), s3) \<Rightarrow> (ret, buf, shm_release_data wd s3))"

definition rmgmt_apu_info :: "'w world \<Rightarrow> u32 \<Rightarrow> 'w client \<Rightarrow> int \<times> u8 list \<times> 'w client" where
  "rmgmt_apu_info wd len s = rmgmt_apu_log_page wd 0 len XGQ_CMD_LOG_INFO s"

definition rmgmt_apu_log :: "'w world \<Rightarrow> u32 \<Rightarrow> u32 \<Rightarrow> 'w client \<Rightarrow> int \<times> u8 list \<times> 'w client" where
  "rmgmt_apu_log wd off len s = rmgmt_apu_log_page wd off len XGQ_CMD_LOG_APU_LOG s"

section \<open>The channel\<close>

definition cl_xgq_client_fini :: "'w client \<Rightarrow> int \<times> 'w client" where
  "cl_xgq_client_fini s = (0, s\<lparr>cl_mem := IO_SYNC_WRITE32 0 APU_SHARED_START (cl_mem s)\<rparr>)"

definition probe_failure :: "'w world \<Rightarrow> 'w client \<Rightarrow> 'w client" where
  "probe_failure wd s = s\<lparr>cl_world := w_delete wd (cl_world s), xgq_apu_ready := False\<rparr>"

text \<open>The addresses of the queue registers are arguments.\<close>

definition cl_rmgmt_apu_channel_probe :: "'w world \<Rightarrow> u64 \<Rightarrow> u64 \<Rightarrow> 'w client \<Rightarrow> int \<times> 'w client" where
  "cl_rmgmt_apu_channel_probe wd sq_base cq_base s =
     (if xgq_apu_ready s then (- ENODEV, s)
      else let (ret, buf) = cl_memcpy_fromio APU_SHARED_START 8 (cl_mem s);
               sm = \<lparr> apu_channel_ready = u32_of_bytes (take 4 buf),
                      apu_xgq_ring_buffer = u32_of_bytes (drop 4 buf) \<rparr>
           in if ret = -1 then (- ENODEV, s)
              else let s1 = s\<lparr>apu_mem := sm\<rparr>
                   in if apu_channel_ready sm = 0 then (- ENODEV, s1)
                      else let (ok, w) = w_create wd (cl_world s1); s2 = s1\<lparr>cl_world := w\<rparr>
                           in if \<not> ok then (- ENOMEM, s2)
                              else let (ret, q, m) = xgq_attach (apu_xgq s2) 0 0
                                         (ucast (APU_SHARED_MEMORY_ADDR (apu_xgq_ring_buffer sm)))
                                         sq_base cq_base (cl_mem s2);
                                       s3 = s2\<lparr>apu_xgq := q, cl_mem := m\<rparr>
                                   in if ret \<noteq> 0 then (- EINVAL, probe_failure wd s3)
                                      else let (ret2, idc, s4) = rmgmt_apu_identify wd
                                                 \<lparr> id_major = 0, id_minor = 0 \<rparr> (s3\<lparr>xgq_apu_ready := True\<rparr>)
                                           in if ret2 \<noteq> 0 then (- EINVAL, probe_failure wd s4)
                                              else if id_major idc \<noteq> 1 \<and> id_minor idc \<noteq> 0
                                              then (- EINVAL, probe_failure wd s4)
                                              else (0, s4))"

definition cl_rmgmt_apu_is_ready :: "'w client \<Rightarrow> bool" where
  "cl_rmgmt_apu_is_ready s = xgq_apu_ready s"

section \<open>The loop over the trunks\<close>

fun contiguous :: "nat \<Rightarrow> (u32 \<times> u32 \<times> u32) list \<Rightarrow> bool" where
  "contiguous pos [] = True"
| "contiguous pos ((off, trunk, remain) # cs) \<longleftrightarrow> unat off = pos \<and> contiguous (pos + unat trunk) cs"

definition sent_bytes :: "(u32 \<times> u32 \<times> u32) list \<Rightarrow> nat" where
  "sent_bytes cs = sum_list (map (\<lambda>(off, trunk, remain). unat trunk) cs)"

lemma contiguous_append:
  "contiguous pos (cs @ ds) \<longleftrightarrow> contiguous pos cs \<and> contiguous (pos + sent_bytes cs) ds"
  by (induct cs arbitrary: pos) (auto simp: sent_bytes_def add.assoc)

lemma sent_bytes_append [simp]: "sent_bytes (cs @ ds) = sent_bytes cs + sent_bytes ds"
  by (simp add: sent_bytes_def)

text \<open>A download that also records the pieces it was asked for.\<close>

definition recording ::
    "(u32 \<Rightarrow> u32 \<Rightarrow> u32 \<Rightarrow> 's \<Rightarrow> u32 \<times> 's) \<Rightarrow> u32 \<Rightarrow> u32 \<Rightarrow> u32 \<Rightarrow> 's \<times> (u32 \<times> u32 \<times> u32) list
      \<Rightarrow> u32 \<times> 's \<times> (u32 \<times> u32 \<times> u32) list" where
  "recording f off trunk remain st = (case st of (s, cs) \<Rightarrow>
     case f off trunk remain s of (count, s') \<Rightarrow> (count, s', cs @ [(off, trunk, remain)]))"

lemma download_loop_pieces:
  assumes "0 < area" "unat off + unat remain < 2 ^ 32" "contiguous 0 cs" "sent_bytes cs = unat off"
    "\<forall>(o', t, r) \<in> set cs. t \<le> area"
  shows "\<exists>rc s' cs'. download_loop (recording f) area off remain (s, cs) = Some (rc, s', cs')
    \<and> (rc = 0 \<or> rc = - EIO) \<and> contiguous 0 cs' \<and> (\<forall>(o', t, r) \<in> set cs'. t \<le> area)
    \<and> sent_bytes cs' \<le> unat off + unat remain \<and> (rc = 0 \<longrightarrow> sent_bytes cs' = unat off + unat remain)"
  using assms
proof (induct "unat remain" arbitrary: off remain s cs rule: less_induct)
  case less
  show ?case
  proof (cases "0 < remain")
    case False
    then show ?thesis using less.prems
      by (subst download_loop.simps) (simp add: word_neq_0_conv [symmetric])
  next
    case True
    define t where "t = (if remain > area then area else remain)"
    have t: "0 < t" "t \<le> remain" "t \<le> area"
      using True less.prems(1) by (auto simp: t_def not_less)
    obtain count s1 where f: "f off t (remain - t) s = (count, s1)" by fastforce
    let ?cs = "cs @ [(off, t, remain - t)]"
    have ut: "unat (remain - t) = unat remain - unat t" "unat t \<le> unat remain" "0 < unat t"
      using t by (auto simp: unat_sub word_le_nat_alt unat_gt_0)
    have uo: "unat (off + t) = unat off + unat t"
      using less.prems(2) ut unat_add_of_nat [of off "unat t"] by simp
    have cs: "contiguous 0 ?cs" "sent_bytes ?cs = unat off + unat t" "\<forall>(o', t, r) \<in> set ?cs. t \<le> area"
      using less.prems t by (auto simp: contiguous_append sent_bytes_def)
    have step: "download_loop (recording f) area off remain (s, cs) =
        (if count \<noteq> t then Some (- EIO, s1, ?cs)
         else download_loop (recording f) area (off + t) (remain - t) (s1, ?cs))"
      by (subst download_loop.simps) (simp add: True t_def [symmetric] recording_def f Let_def)
    show ?thesis
    proof (cases "count = t")
      case False
      then show ?thesis using step cs ut by auto
    next
      case c: True
      have "\<exists>rc s' cs'. download_loop (recording f) area (off + t) (remain - t) (s1, ?cs) = Some (rc, s', cs')
        \<and> (rc = 0 \<or> rc = - EIO) \<and> contiguous 0 cs' \<and> (\<forall>(o', t, r) \<in> set cs'. t \<le> area)
        \<and> sent_bytes cs' \<le> unat (off + t) + unat (remain - t)
        \<and> (rc = 0 \<longrightarrow> sent_bytes cs' = unat (off + t) + unat (remain - t))"
        by (rule less.hyps) (use ut uo cs less.prems in simp_all)
      then show ?thesis using step c ut uo by simp
    qed
  qed
qed

section \<open>Commands and completions in memory\<close>

lemma take_drop_bytes:
  "take 4 (drop 4 (bytes_of_u32 a @ bs)) = take 4 bs" "drop 4 (bytes_of_u32 a @ bs) = bs"
  "take 4 (bytes_of_u32 a @ bs) = bytes_of_u32 a"
  by simp_all

lemma sq_word_stored:
  assumes "i < length ws" "4 * length ws < 2 ^ 32"
  shows "sq_word a (4 * i) (mem_store m a (sq_bytes ws)) = ws ! i"
  using read32_stored_words [OF assms] by (simp add: sq_word_def sq_bytes_def)

lemma recording_simulates:
  assumes "0 < area"
  shows "download_loop f area off remain s =
    map_option (\<lambda>(rc, s', cs'). (rc, s')) (download_loop (recording f) area off remain (s, cs))"
proof (induct "unat remain" arbitrary: off remain s cs rule: less_induct)
  case less
  show ?case
  proof (cases "0 < remain")
    case False
    then show ?thesis by (simp add: download_loop.simps [of _ _ _ remain])
  next
    case True
    define t where "t = (if remain > area then area else remain)"
    have t: "0 < t" "t \<le> remain" using True assms by (auto simp: t_def not_less)
    then have "0 < unat t" "unat t \<le> unat remain" by (simp_all add: unat_gt_0 word_le_nat_alt)
    then have "unat (remain - t) < unat remain" using t by (simp add: unat_sub)
    then have ih: "download_loop f area (off + t) (remain - t) s1 =
        map_option (\<lambda>(rc, s', cs'). (rc, s'))
          (download_loop (recording f) area (off + t) (remain - t) (s1, cs @ [(off, t, remain - t)]))" for s1
      by (rule less)
    obtain count s1 where f: "f off t (remain - t) s = (count, s1)" by fastforce
    then have "recording f off t (remain - t) (s, cs) = (count, s1, cs @ [(off, t, remain - t)])"
      by (simp add: recording_def)
    then show ?thesis
      using ih [of s1] True f by (simp add: download_loop.simps [of _ _ _ remain] t_def [symmetric] Let_def)
  qed
qed

lemma u32_words_take:
  "i < length ws \<Longrightarrow> u32_of_bytes (take 4 (drop (4 * i) (concat (map bytes_of_u32 ws)))) = ws ! i"
proof (induct ws arbitrary: i)
  case (Cons w ws)
  then show ?case by (cases i) simp_all
qed simp

lemma bit_u16_high: "16 \<le> n \<Longrightarrow> \<not> bit (a :: u16) n"
  using bit_imp_le_length [of a n] by auto

lemma hdr_word_fields:
  fixes a b c :: u32
  assumes "n \<le> 1"
  defines "w \<equiv> take_bit 16 a OR push_bit 16 (take_bit 15 b) OR push_bit 31 (take_bit n c)"
  shows "bits_of w 0 16 = take_bit 16 a" "bits_of w 16 15 = take_bit 15 b" "bits_of w 31 n = take_bit n c"
proof -
  show "bits_of w 0 16 = take_bit 16 a" "bits_of w 16 15 = take_bit 15 b" "bits_of w 31 n = take_bit n c"
    using assms(1) unfolding bits_of_def w_def
    by (auto intro!: bit_word_eqI simp: bit_simps bit_u16_high) (metis less_Suc0 order_less_le_trans)+
qed

lemma cq_word_fields:
  fixes a :: u16 and b c d :: u32
  assumes "n \<le> 1"
  defines "w \<equiv> ucast a OR push_bit 16 (take_bit 14 b) OR push_bit 30 (take_bit n c) OR push_bit 31 (take_bit n d)"
  shows "ucast (take_bit 16 w) = a" "bits_of w 16 14 = take_bit 14 b" "bits_of w 30 n = take_bit n c"
    "bits_of w 31 n = take_bit n d"
proof -
  show "ucast (take_bit 16 w) = a" "bits_of w 16 14 = take_bit 14 b" "bits_of w 30 n = take_bit n c"
    "bits_of w 31 n = take_bit n d"
    using assms(1) unfolding bits_of_def w_def
    by (auto intro!: bit_word_eqI simp: bit_simps bit_u16_high) (metis less_Suc0 order_less_le_trans)+
qed

lemma cid_word_field:
  fixes c :: u16
  shows "ucast (bits_of (ucast c OR push_bit 16 (take_bit 16 r)) 0 16) = c"
  by (auto intro!: bit_word_eqI simp: bits_of_def bit_simps)

lemma dword_parts:
  fixes p :: u64
  shows "ucast (ucast p :: u32) OR push_bit 32 (ucast (ucast (drop_bit 32 p) :: u32)) = p"
  by (auto intro!: bit_word_eqI simp: bit_simps)

lemma take_bit_eq_self_word: "(w :: u32) < 2 ^ n \<Longrightarrow> take_bit n w = w"
  by (metis less_mask_eq take_bit_eq_mask)

lemma apu_download_loop_returns:
  assumes "area \<noteq> 0"
  shows "\<exists>r. download_loop f area 0 len s = Some r"
proof -
  have "0 < area" using assms by (simp add: word_neq_0_conv)
  from download_loop_pieces [OF this, of 0 len "[]" f s] recording_simulates [OF this, of f 0 len s "[]"]
  show ?thesis using unat_u32_less [of len] by (auto simp: sent_bytes_def)
qed

section \<open>Properties\<close>

text \<open>C12: The loop of \<open>rmgmt_apu_download_xclbin\<close> ends, for every size and every behaviour of the
  APU: it returns 0 or \<open>-EIO\<close>; the pieces it asked for are contiguous from offset 0 on, each no
  longer than the data area, and with result 0 they make up the whole xclbin.\<close>

theorem apu_download_loop_complete:
  assumes "0 < area"
  shows "\<exists>rc s' cs. download_loop (recording f) area 0 len (s, []) = Some (rc, s', cs)
    \<and> download_loop f area 0 len s = Some (rc, s')
    \<and> (rc = 0 \<or> rc = - EIO) \<and> contiguous 0 cs \<and> (\<forall>(off, trunk, remain) \<in> set cs. trunk \<le> area)
    \<and> sent_bytes cs \<le> unat len \<and> (rc = 0 \<longrightarrow> sent_bytes cs = unat len)"
proof -
  have "\<exists>rc s' cs. download_loop (recording f) area 0 len (s, []) = Some (rc, s', cs)
    \<and> (rc = 0 \<or> rc = - EIO) \<and> contiguous 0 cs \<and> (\<forall>(off, trunk, remain) \<in> set cs. trunk \<le> area)
    \<and> sent_bytes cs \<le> unat (0 :: u32) + unat len
    \<and> (rc = 0 \<longrightarrow> sent_bytes cs = unat (0 :: u32) + unat len)"
    by (rule download_loop_pieces) (use assms unat_u32_less [of len] in \<open>simp_all add: sent_bytes_def\<close>)
  then show ?thesis by (auto simp: recording_simulates [OF assms, of f 0 len s "[]"])
qed

theorem apu_download_loop_complete_witness:
  "\<exists>rc s' cs. download_loop (recording (\<lambda>off t r u. (t, u))) 0x1000 0 0x2800 ((), []) = Some (rc, s', cs)
    \<and> contiguous 0 cs \<and> (rc = 0 \<longrightarrow> sent_bytes cs = 0x2800)"
  using apu_download_loop_complete [of "4096" "\<lambda>off t r u. (t, u)" "10240" "()"] by auto

text \<open>C13: What a completion is written as is what the client reads: the entry at the slot decodes
  to the same command id, state, result words and return code, and reading it clears its first
  word, so that the entry is not taken a second time.\<close>

theorem completion_read_back:
  assumes "cq_cstate cq < 2 ^ 14" "cq_specific cq < 2" "cq_state cq < 2"
  shows "fst (read_completion addr (mem_store m (ucast addr) (cq_bytes cq))) = cq
    \<and> IO_SYNC_READ32 (ucast addr) (snd (read_completion addr (mem_store m (ucast addr) (cq_bytes cq)))) = 0"
proof -
  have "decode_cq (cq_bytes cq) = cq"
    using assms cq_word_fields [of 1 "cq_cid cq" "cq_cstate cq" "cq_specific cq" "cq_state cq"]
      take_bit_eq_self_word [of "cq_specific cq" 1] take_bit_eq_self_word [of "cq_state cq" 1]
    by (cases cq) (simp add: decode_cq_def cq_bytes_def u32_words_take [of 0] Let_def
        take_bit_eq_self_word)
  moreover have "mem_load (mem_store m a (cq_bytes cq)) a 16 = cq_bytes cq" for a
    using mem_load_store_same [of "cq_bytes cq" m a] by simp
  ultimately show ?thesis
    by (simp add: read_completion_def cl_memcpy_fromio_load xgq_reg_write32_def read_write32_same)
qed

theorem completion_read_back_witness:
  "fst (read_completion 0x38001000 (mem_store (\<lambda>_. 0) 0x38001000
     (cq_bytes \<lparr> cq_cid = 7, cq_cstate = 0, cq_specific = 0, cq_state = 1, cq_payload0 = 3, cq_payload1 = 4,
        cq_rcode = 0 \<rparr>)))
   = \<lparr> cq_cid = 7, cq_cstate = 0, cq_specific = 0, cq_state = 1, cq_payload0 = 3, cq_payload1 = 4, cq_rcode = 0 \<rparr>"
  using completion_read_back [of "\<lparr> cq_cid = 7, cq_cstate = 0, cq_specific = 0, cq_state = 1,
      cq_payload0 = 3, cq_payload1 = 4, cq_rcode = 0 \<rparr>" "939528192" "\<lambda>_. 0"]
  by simp

text \<open>C14: The load command the client builds, stored in a slot, is what a server parses: the
  opcode, the new flag, the command id of the APU, the offset of the data area, the sizes of this
  piece and of the rest, and the private word.\<close>

theorem xclbin_command_parses:
  "let m' = mem_store m a (sq_bytes (xclbin_words init base_off trunk remain priv));
       h = read_sq_hdr a m'; p = read_data_payload a m'
   in sq_opcode h = xgq_cmd_opcode_num XGQ_CMD_OP_LOAD_XCLBIN \<and> sq_state h = 1 \<and> sq_cid h = APU_MAGIC_ID
      \<and> sq_count h = 32 \<and> xd_address p = ucast base_off \<and> xd_size p = trunk
      \<and> xd_remain_size p = remain \<and> xd_priv p = (case priv of Some v \<Rightarrow> v | None \<Rightarrow> 0)"
proof -
  let ?ws = "xclbin_words init base_off trunk remain priv"
  have w: "sq_word a (4 * i) (mem_store m a (sq_bytes ?ws)) = ?ws ! i" if "i < 10" for i
    using that by (intro sq_word_stored) (simp_all add: xclbin_words_def sq_hdr_words_def)
  show ?thesis
    using w [of 0] w [of 1] w [of 2] w [of 3] w [of 4] w [of 5] w [of 8] w [of 9]
      cid_word_field [of APU_MAGIC_ID "init ! 1"]
    by (simp add: Let_def read_sq_hdr_def read_data_payload_def sq_dword_def xclbin_words_def
        sq_hdr_words_def bits_of_def hdr_word_fields [of 1] dword_parts XGQ_SQ_CMD_NEW_def)
qed

end
