(* ===== verification/Ospi_Driver.thy ===== *)
theory Ospi_Driver
  imports Cl_Io
begin

text \<open>Model of the command level of \<open>common/cl_ospi_polled.c\<close> and of
  \<open>common/xospipsv_flash_config.h\<close>: the messages the firmware sends to the flash chip through the
  vendor's controller driver.  That driver (\<open>xospipsv.h\<close>) is not part of the repository: its
  functions are the fields of the record \<open>ospi_driver\<close>, over its own state \<open>'d\<close>.  The message is a
  static variable of the file whose fields persist from one command to the next, as in the code.
  A polling loop that never sees the chip ready has the result \<open>None\<close>.\<close>

section \<open>Messages and the controller driver\<close>

definition WRITE_DISABLE_CMD :: u8 where "WRITE_DISABLE_CMD = 0x04"
definition WRITE_ENABLE_CMD :: u8 where "WRITE_ENABLE_CMD = 0x06"
definition BULK_ERASE_CMD :: u32 where "BULK_ERASE_CMD = 0xC7"
definition DIE_ERASE_CMD :: u32 where "DIE_ERASE_CMD = 0xC4"
definition READ_ID :: u8 where "READ_ID = 0x9F"
definition READ_FLAG_STATUS_CMD :: u8 where "READ_FLAG_STATUS_CMD = 0x70"
definition WRITE_CMD_4B :: u32 where "WRITE_CMD_4B = 0x12"
definition SEC_ERASE_CMD_4B :: u32 where "SEC_ERASE_CMD_4B = 0xDC"
definition READ_CMD_OCTAL_IO_4B :: u32 where "READ_CMD_OCTAL_IO_4B = 0xCC"
definition WRITE_CMD_OCTAL_4B :: u32 where "WRITE_CMD_OCTAL_4B = 0x84"
definition ENTER_4B_ADDR_MODE :: u8 where "ENTER_4B_ADDR_MODE = 0xB7"
definition EXIT_4B_ADDR_MODE :: u8 where "EXIT_4B_ADDR_MODE = 0xE9"
definition WRITE_CONFIG_REG :: u8 where "WRITE_CONFIG_REG = 0x81"
definition READ_CONFIG_REG :: u8 where "READ_CONFIG_REG = 0x85"
definition SIXTEENMB :: u32 where "SIXTEENMB = 0x1000000"
definition MICRON_OCTAL_ID_BYTE0 :: u32 where "MICRON_OCTAL_ID_BYTE0 = 0x2c"

definition XST_SUCCESS :: int where "XST_SUCCESS = 0"
definition XST_FAILURE :: int where "XST_FAILURE = 1"

datatype ospi_proto = PROTO_NONE | WRITE_8_0_0 | READ_8_0_8 | WRITE_8_8_0 | WRITE_8_8_8
  | READ_8_8_8 | READ_1_8_8 | WRITE_1_1_1 | WRITE_1_1_8

datatype xfer_flag = MSG_FLAG_TX | MSG_FLAG_RX

datatype edge_mode = EDGE_MODE_SDR_NON_PHY | EDGE_MODE_DDR_PHY

text \<open>\<open>TxBfr\<close> holds the bytes at the transmit pointer that the message sends.\<close>

record xospi_msg =
  Opcode :: u8
  Addrsize :: nat
  Addrvalid :: bool
  TxBfr :: "u8 list"
  RxBfr :: bool
  ByteCount :: u32
  Flags :: xfer_flag
  Addr :: u32
  IsDDROpCode :: bool
  Proto :: ospi_proto
  Dummy :: u32

text \<open>The driver: a transfer returns its status and the bytes received.  The questions are those
  the code asks of the driver's instance: DDR-PHY mode, \<open>OpMode\<close> against its two constants, the
  option \<open>DAC_EN\<close>, the stacked connection, the extra dummy cycles.\<close>

record 'd ospi_driver =
  drv_poll :: "xospi_msg \<Rightarrow> 'd \<Rightarrow> int \<times> u8 list \<times> 'd"
  drv_select :: "bool \<Rightarrow> 'd \<Rightarrow> int \<times> 'd"
  drv_set_mode :: "edge_mode \<Rightarrow> 'd \<Rightarrow> int \<times> 'd"
  drv_auto_polling :: "edge_mode \<Rightarrow> 'd \<Rightarrow> 'd"
  drv_reset :: "'d \<Rightarrow> int \<times> 'd"
  drv_has_config :: "'d \<Rightarrow> bool"
  drv_cfg_init :: "'d \<Rightarrow> int \<times> 'd"
  drv_set_idac :: "'d \<Rightarrow> 'd"
  drv_set_prescaler :: "'d \<Rightarrow> 'd"
  drv_set_device_id :: "u32 \<Rightarrow> 'd \<Rightarrow> 'd"
  drv_delay :: "'d \<Rightarrow> 'd"
  drv_ddr_phy :: "'d \<Rightarrow> bool"
  drv_idac_mode :: "'d \<Rightarrow> bool"
  drv_dac_mode :: "'d \<Rightarrow> bool"
  drv_dac_option :: "'d \<Rightarrow> bool"
  drv_stacked :: "'d \<Rightarrow> bool"
  drv_extra_dummy :: "'d \<Rightarrow> u32"

section \<open>The table of chips\<close>

record FlashInfo =
  jedec_id :: u32
  SectSize :: u32
  NumSect :: u32
  PageSize :: u32
  NumPage :: u32
  FlashDeviceSize :: u32
  SectMask :: u32
  NumDie :: u8
  ReadCmd :: u32
  WriteCmd :: u32
  EraseCmd :: u32
  StatusCmd :: u8
  DummyCycles :: u8

definition octal_flash :: "u32 \<Rightarrow> u32 \<Rightarrow> u32 \<Rightarrow> u32 \<Rightarrow> u32 \<Rightarrow> u32 \<Rightarrow> FlashInfo" where
  "octal_flash jid sect nsect npage dsize smask =
     \<lparr> jedec_id = jid, SectSize = sect, NumSect = nsect, PageSize = 256, NumPage = npage,
       FlashDeviceSize = dsize, SectMask = smask, NumDie = 1,
       ReadCmd = READ_CMD_OCTAL_IO_4B, WriteCmd = push_bit 8 WRITE_CMD_OCTAL_4B OR WRITE_CMD_4B,
       EraseCmd = push_bit 16 DIE_ERASE_CMD OR push_bit 8 BULK_ERASE_CMD OR SEC_ERASE_CMD_4B,
       StatusCmd = READ_FLAG_STATUS_CMD, DummyCycles = 16 \<rparr>"

definition initial_config_table :: "FlashInfo list" where
  "initial_config_table =
     [octal_flash 0x2c5b1a 0x20000 0x200 0x40000 0x4000000 0xFFFE0000,
      octal_flash 0x2c5b1b 0x20000 0x400 0x80000 0x8000000 0xFFFE0000,
      octal_flash 0x2c5b1c 0x20000 0x800 0x100000 0x10000000 0xFFFE0000,
      octal_flash 0xc86819 0x10000 0x200 0x20000 0x2000000 0xFFFF0000,
      octal_flash 0x9d5b19 0x20000 0x100 0x20000 0x2000000 0xFFFE0000]"

fun find_index :: "u32 \<Rightarrow> FlashInfo list \<Rightarrow> nat \<Rightarrow> nat option" where
  "find_index rid [] n = None"
| "find_index rid (f # fs) n = (if rid = jedec_id f then Some n else find_index rid fs (n + 1))"

definition CalculateFCTIndex :: "u32 \<Rightarrow> FlashInfo list \<Rightarrow> nat option" where
  "CalculateFCTIndex rid table = find_index rid table 0"

text \<open>The static variables of the file.\<close>

record 'd ospi =
  dev :: 'd
  FlashMsg :: xospi_msg
  FlashMake :: u32
  FCTIndex :: nat
  Flash_Config_Table :: "FlashInfo list"
  ospi_percentage :: int
  OspiSectorSize :: u32

definition flash_info :: "'d ospi \<Rightarrow> FlashInfo" where
  "flash_info s = Flash_Config_Table s ! FCTIndex s"

definition XOspiPsv_Get_Proto :: "'d ospi_driver \<Rightarrow> bool \<Rightarrow> 'd ospi \<Rightarrow> ospi_proto" where
  "XOspiPsv_Get_Proto drv is_read s =
     (if is_read then READ_1_8_8
      else if drv_idac_mode drv (dev s) then WRITE_1_1_1 else WRITE_1_1_8)"

section \<open>Transfers\<close>

definition poll :: "'d ospi_driver \<Rightarrow> 'd ospi \<Rightarrow> int \<times> u8 list \<times> 'd ospi" where
  "poll drv s = (case drv_poll drv (FlashMsg s) (dev s) of (st, rx, d) \<Rightarrow> (st, rx, s\<lparr>dev := d\<rparr>))"

text \<open>\<open>pollTransfer\<close> retries a failed transfer up to ten times, with a pause before each.\<close>

primrec retry :: "'d ospi_driver \<Rightarrow> nat \<Rightarrow> int \<times> u8 list \<times> 'd ospi \<Rightarrow> int \<times> u8 list \<times> 'd ospi" where
  "retry drv 0 r = r"
| "retry drv (Suc n) r =
     (case r of (st, rx, s) \<Rightarrow>
        if st \<noteq> XST_SUCCESS then retry drv n (poll drv (s\<lparr>dev := drv_delay drv (dev s)\<rparr>)) else r)"

definition pollTransfer :: "'d ospi_driver \<Rightarrow> 'd ospi \<Rightarrow> int \<times> u8 list \<times> 'd ospi" where
  "pollTransfer drv s = retry drv 10 (poll drv s)"

text \<open>Several functions keep the status in a \<open>u8\<close>.\<close>

definition u8_status :: "int \<Rightarrow> int" where
  "u8_status st = take_bit 8 st"

text \<open>The first byte of a status buffer; a driver that delivers no byte leaves it zero.\<close>

definition first_byte :: "u8 list \<Rightarrow> u8" where
  "first_byte rx = (case rx of [] \<Rightarrow> 0 | b # bs \<Rightarrow> b)"

text \<open>A command without address and data; \<open>no_dummy\<close> is set in addition by some callers.\<close>

definition command_msg :: "'d ospi_driver \<Rightarrow> u8 \<Rightarrow> 'd ospi \<Rightarrow> 'd ospi" where
  "command_msg drv opcode s = s\<lparr>FlashMsg := (FlashMsg s)
     \<lparr>Opcode := opcode, Addrsize := 0, Addrvalid := False, TxBfr := [], RxBfr := False, ByteCount := 0,
      Flags := MSG_FLAG_TX, IsDDROpCode := False,
      Proto := (if drv_ddr_phy drv (dev s) then WRITE_8_0_0 else PROTO_NONE)\<rparr>\<rparr>"

definition no_dummy :: "'d ospi \<Rightarrow> 'd ospi" where
  "no_dummy s = s\<lparr>FlashMsg := (FlashMsg s)\<lparr>Dummy := 0\<rparr>\<rparr>"

definition status_msg :: "'d ospi_driver \<Rightarrow> 'd ospi \<Rightarrow> 'd ospi" where
  "status_msg drv s = s\<lparr>FlashMsg := (FlashMsg s)
     \<lparr>Opcode := StatusCmd (flash_info s), Addrsize := 0, Addrvalid := False, TxBfr := [], RxBfr := True,
      ByteCount := (if drv_ddr_phy drv (dev s) then 2 else 1), Flags := MSG_FLAG_RX,
      Dummy := (if drv_ddr_phy drv (dev s) then drv_extra_dummy drv (dev s) + 8
                else drv_extra_dummy drv (dev s)),
      IsDDROpCode := False,
      Proto := (if drv_ddr_phy drv (dev s) then READ_8_0_8 else PROTO_NONE)\<rparr>\<rparr>"

definition data_msg :: "'d ospi_driver \<Rightarrow> u8 \<Rightarrow> u32 \<Rightarrow> u8 list \<Rightarrow> 'd ospi \<Rightarrow> 'd ospi" where
  "data_msg drv opcode address bs s = s\<lparr>FlashMsg := (FlashMsg s)
     \<lparr>Opcode := opcode, Addrvalid := True, TxBfr := bs, RxBfr := False, ByteCount := of_nat (length bs),
      Flags := MSG_FLAG_TX,
      Proto := (if drv_ddr_phy drv (dev s) then WRITE_8_8_8 else XOspiPsv_Get_Proto drv False s),
      Dummy := 0, Addrsize := 4, IsDDROpCode := False, Addr := address\<rparr>\<rparr>"

definition erase_msg :: "'d ospi_driver \<Rightarrow> u32 \<Rightarrow> 'd ospi \<Rightarrow> 'd ospi" where
  "erase_msg drv address s = s\<lparr>FlashMsg := (FlashMsg s)
     \<lparr>Opcode := ucast (EraseCmd (flash_info s)), Addrsize := 4, Addrvalid := True, TxBfr := [], RxBfr := False,
      ByteCount := 0, Flags := MSG_FLAG_TX, Addr := address, IsDDROpCode := False,
      Proto := (if drv_ddr_phy drv (dev s) then WRITE_8_8_0 else PROTO_NONE), Dummy := 0\<rparr>\<rparr>"

definition read_msg :: "'d ospi_driver \<Rightarrow> u32 \<Rightarrow> u32 \<Rightarrow> 'd ospi \<Rightarrow> 'd ospi" where
  "read_msg drv address count s = s\<lparr>FlashMsg := (FlashMsg s)
     \<lparr>Opcode := ucast (ReadCmd (flash_info s)), Addrsize := 4, Addrvalid := True, TxBfr := [], RxBfr := True,
      ByteCount := count, Flags := MSG_FLAG_RX, Addr := address,
      Proto := (if drv_ddr_phy drv (dev s) then READ_8_8_8 else XOspiPsv_Get_Proto drv True s),
      Dummy := (if drv_ddr_phy drv (dev s) then 16 + drv_extra_dummy drv (dev s)
                else ucast (DummyCycles (flash_info s)) + drv_extra_dummy drv (dev s)),
      IsDDROpCode := False\<rparr>\<rparr>"

text \<open>The wait for bit 7 of the flag status register; \<open>xfer\<close> sends the status command.\<close>

partial_function (option) wait_ready :: "('s \<Rightarrow> int \<times> u8 list \<times> 's) \<Rightarrow> 's \<Rightarrow> (bool \<times> 's) option" where
  "wait_ready xfer s =
     (case xfer s of (st, rx, s1) \<Rightarrow>
        if st \<noteq> XST_SUCCESS then Some (False, s1)
        else if first_byte rx AND 0x80 \<noteq> 0 then Some (True, s1)
        else wait_ready xfer s1)"

declare wait_ready.simps [code]

definition status_xfer8 ::
    "('d ospi \<Rightarrow> int \<times> u8 list \<times> 'd ospi) \<Rightarrow> 'd ospi_driver \<Rightarrow> 'd ospi \<Rightarrow> int \<times> u8 list \<times> 'd ospi" where
  "status_xfer8 xfer drv s = (case xfer (status_msg drv s) of (st, rx, s1) \<Rightarrow> (u8_status st, rx, s1))"

definition GetRealAddr :: "'d ospi_driver \<Rightarrow> u32 \<Rightarrow> 'd ospi \<Rightarrow> u32 \<times> 'd ospi" where
  "GetRealAddr drv address s =
     (let size = FlashDeviceSize (flash_info s);
          upper = (drv_stacked drv (dev s) \<and> address AND size \<noteq> 0)
      in (if upper then address AND NOT size else address, s\<lparr>dev := snd (drv_select drv upper (dev s))\<rparr>))"

section \<open>Writing and reading\<close>

definition FlashLinearWrite :: "'d ospi_driver \<Rightarrow> u32 \<Rightarrow> u8 list \<Rightarrow> 'd ospi \<Rightarrow> int \<times> 'd ospi" where
  "FlashLinearWrite drv address bs s =
     (case pollTransfer drv (no_dummy (command_msg drv WRITE_ENABLE_CMD s)) of (st, rx, s1) \<Rightarrow>
        if u8_status st \<noteq> XST_SUCCESS then (XST_FAILURE, s1)
        else case pollTransfer drv (data_msg drv (ucast (drop_bit 8 (WriteCmd (flash_info s1)))) address bs s1) of
               (st, rx, s2) \<Rightarrow> (if u8_status st \<noteq> XST_SUCCESS then XST_FAILURE else 0, s2))"

text \<open>Eight bytes at a time; \<open>buf\<close> is the memory at the write pointer.\<close>

partial_function (option) FlashIoWrite ::
    "'d ospi_driver \<Rightarrow> u32 \<Rightarrow> u32 \<Rightarrow> (nat \<Rightarrow> u8) \<Rightarrow> 'd ospi \<Rightarrow> (int \<times> 'd ospi) option" where
  "FlashIoWrite drv address count buf s =
     (if count = 0 then Some (0, s)
      else case GetRealAddr drv address s of (real, s1) \<Rightarrow>
           (case poll drv (no_dummy (command_msg drv WRITE_ENABLE_CMD s1)) of (st, rx, s2) \<Rightarrow>
             if u8_status st \<noteq> XST_SUCCESS then Some (XST_FAILURE, s2)
             else let n = (if count \<le> 8 then count else 8); count' = (if count \<le> 8 then 0 else count - 8) in
             (case poll drv (data_msg drv (ucast (WriteCmd (flash_info s2))) real (map buf [0..<unat n]) s2) of
                (st, rx, s3) \<Rightarrow>
                  if u8_status st \<noteq> XST_SUCCESS then Some (XST_FAILURE, s3)
                  else Option.bind (wait_ready (status_xfer8 (poll drv) drv) s3) (\<lambda>(ok, s4).
                         if \<not> ok then Some (XST_FAILURE, s4)
                         else FlashIoWrite drv (address + 8) count' (\<lambda>i. buf (i + 8)) s4))))"

declare FlashIoWrite.simps [code]

text \<open>The loop of \<open>FlashRead\<close>; the bytes received so far are \<open>acc\<close>.\<close>

partial_function (option) read_loop ::
    "'d ospi_driver \<Rightarrow> u32 \<Rightarrow> u32 \<Rightarrow> u32 \<Rightarrow> u32 \<Rightarrow> u8 list \<Rightarrow> 'd ospi \<Rightarrow> (int \<times> u8 list \<times> 'd ospi) option" where
  "read_loop drv byte_cnt address count to_read acc s =
     (if count = 0 then Some (0, acc, s)
      else case GetRealAddr drv address s of (real, s1) \<Rightarrow>
           (case poll drv (read_msg drv real to_read s1) of (st, rx, s2) \<Rightarrow>
             if u8_status st \<noteq> XST_SUCCESS then Some (XST_FAILURE, acc, s2)
             else read_loop drv byte_cnt (address + to_read) (count - to_read) (byte_cnt - to_read) (acc @ rx) s2))"

declare read_loop.simps [code]

definition FlashRead :: "'d ospi_driver \<Rightarrow> u32 \<Rightarrow> u32 \<Rightarrow> 'd ospi \<Rightarrow> (int \<times> u8 list \<times> 'd ospi) option" where
  "FlashRead drv address count s =
     (let size = FlashDeviceSize (flash_info s);
          to_read = (if address < size \<and> address + count \<ge> size \<and> drv_stacked drv (dev s)
                     then size - address else count)
      in read_loop drv count address count to_read [] s)"

section \<open>Erasing\<close>

text \<open>A command that needs the write enable before it and the wait after it.\<close>

definition enabled_command :: "'d ospi_driver \<Rightarrow> ('d ospi \<Rightarrow> 'd ospi) \<Rightarrow> (int \<Rightarrow> int) \<Rightarrow> 'd ospi
    \<Rightarrow> (bool \<times> 'd ospi) option" where
  "enabled_command drv msg narrow s =
     (case pollTransfer drv (no_dummy (command_msg drv WRITE_ENABLE_CMD s)) of (st, rx, s1) \<Rightarrow>
        if narrow st \<noteq> XST_SUCCESS then Some (False, s1)
        else case pollTransfer drv (msg s1) of (st, rx, s2) \<Rightarrow>
               if narrow st \<noteq> XST_SUCCESS then Some (False, s2)
               else wait_ready (\<lambda>s. case pollTransfer drv (status_msg drv s) of
                                      (st, rx, s3) \<Rightarrow> (narrow st, rx, s3)) s2)"

definition BulkErase :: "'d ospi_driver \<Rightarrow> 'd ospi \<Rightarrow> (int \<times> 'd ospi) option" where
  "BulkErase drv s =
     map_option (\<lambda>(ok, s'). (if ok then XST_SUCCESS else XST_FAILURE, s'))
       (enabled_command drv (\<lambda>s1. no_dummy (command_msg drv (ucast (drop_bit 8 (EraseCmd (flash_info s1)))) s1)) id s)"

primrec die_loop :: "'d ospi_driver \<Rightarrow> nat \<Rightarrow> 'd ospi \<Rightarrow> (int \<times> 'd ospi) option" where
  "die_loop drv 0 s = Some (0, s)"
| "die_loop drv (Suc n) s =
     Option.bind (enabled_command drv
         (\<lambda>s1. no_dummy (command_msg drv (ucast (drop_bit 16 (EraseCmd (flash_info s1)))) s1)) id s)
       (\<lambda>(ok, s1). if \<not> ok then Some (XST_FAILURE, s1) else die_loop drv n s1)"

definition DieErase :: "'d ospi_driver \<Rightarrow> 'd ospi \<Rightarrow> (int \<times> 'd ospi) option" where
  "DieErase drv s = die_loop drv (unat (NumDie (flash_info s))) s"

primrec sector_loop :: "'d ospi_driver \<Rightarrow> nat \<Rightarrow> u32 \<Rightarrow> 'd ospi \<Rightarrow> (int \<times> 'd ospi) option" where
  "sector_loop drv 0 address s = Some (0, s)"
| "sector_loop drv (Suc n) address s =
     (case GetRealAddr drv address s of (real, s1) \<Rightarrow>
        Option.bind (enabled_command drv (erase_msg drv real) u8_status s1)
          (\<lambda>(ok, s2). if \<not> ok then Some (XST_FAILURE, s2)
             else sector_loop drv n (address + SectSize (flash_info s2)) s2))"

text \<open>The whole chip: the results of \<open>BulkErase\<close> and \<open>DieErase\<close> are not looked at.\<close>

definition erase_chip :: "'d ospi_driver \<Rightarrow> 'd ospi \<Rightarrow> 'd ospi option" where
  "erase_chip drv s =
     Option.bind (if NumDie (flash_info s) = 1 then map_option snd (BulkErase drv s) else Some s)
       (\<lambda>s1. if NumDie (flash_info s1) > 1 then map_option snd (DieErase drv s1) else Some s1)"

definition sectors_to_erase :: "FlashInfo \<Rightarrow> u32 \<Rightarrow> u32 \<Rightarrow> u32" where
  "sectors_to_erase fi address count =
     (let n = count div SectSize fi + 1
      in if (address + count) AND SectMask fi = (address + n * SectSize fi) AND SectMask fi then n + 1 else n)"

definition FlashErase :: "'d ospi_driver \<Rightarrow> u32 \<Rightarrow> u32 \<Rightarrow> 'd ospi \<Rightarrow> (int \<times> 'd ospi) option" where
  "FlashErase drv address count s =
     (if count = NumSect (flash_info s) * SectSize (flash_info s)
      then if \<not> drv_stacked drv (dev s) then map_option (\<lambda>s1. (0, s1)) (erase_chip drv s)
           else (case drv_select drv False (dev s) of (st, d) \<Rightarrow>
             if u8_status st \<noteq> XST_SUCCESS then Some (XST_FAILURE, s\<lparr>dev := d\<rparr>)
             else Option.bind (erase_chip drv (s\<lparr>dev := d\<rparr>)) (\<lambda>s1.
               case drv_select drv True (dev s1) of (st2, d2) \<Rightarrow>
                 if u8_status st2 \<noteq> XST_SUCCESS then Some (XST_FAILURE, s1\<lparr>dev := d2\<rparr>)
                 else map_option (\<lambda>s2. (0, s2)) (erase_chip drv (s1\<lparr>dev := d2\<rparr>))))
      else sector_loop drv (unat (sectors_to_erase (flash_info s) address count)) address s)"

section \<open>Identification and modes\<close>

definition read_id_msg :: "'d ospi_driver \<Rightarrow> 'd ospi \<Rightarrow> 'd ospi" where
  "read_id_msg drv s = s\<lparr>FlashMsg := (FlashMsg s)
     \<lparr>Opcode := READ_ID, Addrsize := 0, Addrvalid := False, TxBfr := [], RxBfr := True, ByteCount := 8,
      Flags := MSG_FLAG_RX,
      Dummy := (if drv_ddr_phy drv (dev s) then drv_extra_dummy drv (dev s) + 8
                else drv_extra_dummy drv (dev s)),
      IsDDROpCode := False,
      Proto := (if drv_ddr_phy drv (dev s) then READ_8_0_8 else PROTO_NONE)\<rparr>\<rparr>"

text \<open>\<open>ReadBfrPtr\<close> is a static buffer, zero before the first read.\<close>

definition FlashReadID :: "'d ospi_driver \<Rightarrow> 'd ospi \<Rightarrow> int \<times> 'd ospi" where
  "FlashReadID drv s =
     (case pollTransfer drv (read_id_msg drv s) of (st, rx, s1) \<Rightarrow>
        if st \<noteq> XST_SUCCESS then (XST_FAILURE, s1)
        else let b = (\<lambda>i. ucast ((rx @ replicate 8 0) ! i) :: u32);
                 rid = push_bit 16 (b 0) OR push_bit 8 (b 1) OR b 2;
                 s2 = s1\<lparr>dev := drv_set_device_id drv
                        (push_bit 24 (b 3) OR push_bit 16 (b 2) OR push_bit 8 (b 1) OR b 0) (dev s1),
                        FlashMake := b 0\<rparr>
             in case CalculateFCTIndex rid (Flash_Config_Table s2) of
                  None \<Rightarrow> (XST_FAILURE, s2)
                | Some idx \<Rightarrow> (XST_SUCCESS, s2\<lparr>FCTIndex := idx\<rparr>))"

definition FlashEnterExit4BAddMode :: "'d ospi_driver \<Rightarrow> bool \<Rightarrow> 'd ospi \<Rightarrow> (int \<times> 'd ospi) option" where
  "FlashEnterExit4BAddMode drv enable s =
     (case pollTransfer drv (command_msg drv WRITE_ENABLE_CMD s) of (st, rx, s1) \<Rightarrow>
        if st \<noteq> XST_SUCCESS then Some (XST_FAILURE, s1)
        else let s2 = command_msg drv (if enable then ENTER_4B_ADDR_MODE else EXIT_4B_ADDR_MODE) s1;
                 s3 = s2\<lparr>FlashMsg := (FlashMsg s2)\<lparr>Addrsize := 3\<rparr>\<rparr>
             in case pollTransfer drv s3 of (st, rx, s4) \<Rightarrow>
                  if st \<noteq> XST_SUCCESS then Some (XST_FAILURE, s4)
                  else Option.bind (wait_ready (\<lambda>s. pollTransfer drv (status_msg drv s)) s4) (\<lambda>(ok, s5).
                    if \<not> ok then Some (XST_FAILURE, s5)
                    else if FlashMake s5 = MICRON_OCTAL_ID_BYTE0
                    then (case pollTransfer drv (command_msg drv WRITE_DISABLE_CMD s5) of (st, rx, s6) \<Rightarrow>
                            Some (if st \<noteq> XST_SUCCESS then XST_FAILURE else st, s6))
                    else Some (XST_SUCCESS, s5)))"

definition config_write_msg :: "'d ospi_driver \<Rightarrow> u8 \<Rightarrow> 'd ospi \<Rightarrow> 'd ospi" where
  "config_write_msg drv b s = s\<lparr>FlashMsg := (FlashMsg s)
     \<lparr>Opcode := WRITE_CONFIG_REG, Addrvalid := True, Addr := 0, RxBfr := False, Flags := MSG_FLAG_TX,
      IsDDROpCode := False,
      Addrsize := (if drv_ddr_phy drv (dev s) then 4 else 3),
      TxBfr := (if drv_ddr_phy drv (dev s) then [b, b] else [b]),
      ByteCount := (if drv_ddr_phy drv (dev s) then 2 else 1),
      Proto := (if drv_ddr_phy drv (dev s) then WRITE_8_8_8 else PROTO_NONE)\<rparr>\<rparr>"

definition config_read_msg :: "'d ospi_driver \<Rightarrow> 'd ospi \<Rightarrow> 'd ospi" where
  "config_read_msg drv s = s\<lparr>FlashMsg := (FlashMsg s)
     \<lparr>Opcode := READ_CONFIG_REG, Addrvalid := True, Addr := 0, TxBfr := [], RxBfr := True,
      Flags := MSG_FLAG_RX, Dummy := 8 + drv_extra_dummy drv (dev s), IsDDROpCode := False,
      Addrsize := (if drv_ddr_phy drv (dev s) then 4 else 3),
      ByteCount := (if drv_ddr_phy drv (dev s) then 2 else 1),
      Proto := (if drv_ddr_phy drv (dev s) then READ_8_8_8 else PROTO_NONE)\<rparr>\<rparr>"

definition FlashSetSDRDDRMode :: "'d ospi_driver \<Rightarrow> edge_mode \<Rightarrow> 'd ospi \<Rightarrow> int \<times> 'd ospi" where
  "FlashSetSDRDDRMode drv mode s =
     (let b = (if mode = EDGE_MODE_DDR_PHY then 0xE7 else 0xFF)
      in case pollTransfer drv (command_msg drv WRITE_ENABLE_CMD s) of (st, rx, s1) \<Rightarrow>
         if st \<noteq> XST_SUCCESS then (XST_FAILURE, s1)
         else let s2 = (if drv_dac_mode drv (dev s1) then s1\<lparr>dev := drv_auto_polling drv mode (dev s1)\<rparr> else s1)
              in case pollTransfer drv (config_write_msg drv b s2) of (st, rx, s3) \<Rightarrow>
                 if st \<noteq> XST_SUCCESS then (XST_FAILURE, s3)
                 else case drv_set_mode drv mode (dev s3) of (st, d) \<Rightarrow>
                   let s4 = s3\<lparr>dev := d\<rparr>
                   in if st \<noteq> XST_SUCCESS then (XST_FAILURE, s4)
                      else case pollTransfer drv (config_read_msg drv s4) of (st, rx, s5) \<Rightarrow>
                        if st \<noteq> XST_SUCCESS then (XST_FAILURE, s5)
                        else if first_byte rx \<noteq> b then (XST_FAILURE, s5) else (st, s5))"

end
