(* ===== verification/Cl_Mem.thy ===== *)
theory Cl_Mem
  imports VMR_Prelude
begin

text \<open>Model of \<open>common/cl_mem.c\<close>: the checked versions of the memory functions.  A destination is
  the list of its bytes, a source the memory at its pointer, as a function of the offset.  Both
  pointers are buffers of the program, so their comparison with \<open>NULL\<close> holds.  A failed
  \<open>configASSERT\<close> halts the firmware: \<open>None\<close>.\<close>

definition sizes_ok :: "nat \<Rightarrow> nat \<Rightarrow> bool" where
  "sizes_ok dst_size src_size \<longleftrightarrow> dst_size \<noteq> 0 \<and> src_size \<noteq> 0 \<and> src_size \<le> dst_size"

definition Cl_SecureMemcpy :: "u8 list \<Rightarrow> nat \<Rightarrow> (nat \<Rightarrow> u8) \<Rightarrow> nat \<Rightarrow> u8 list option" where
  "Cl_SecureMemcpy dst dst_size src src_size =
     (if sizes_ok dst_size src_size then Some (map src [0..<src_size] @ drop src_size dst) else None)"

definition Cl_SecureMemmove :: "u8 list \<Rightarrow> nat \<Rightarrow> (nat \<Rightarrow> u8) \<Rightarrow> nat \<Rightarrow> u8 list option" where
  "Cl_SecureMemmove dst dst_size src src_size =
     (if sizes_ok dst_size src_size then Some (map src [0..<src_size] @ drop src_size dst) else None)"

definition Cl_SecureMemset :: "u8 list \<Rightarrow> int \<Rightarrow> nat \<Rightarrow> u8 list" where
  "Cl_SecureMemset dst val dst_size = replicate dst_size (of_int val) @ drop dst_size dst"

text \<open>Of the result of a comparison C fixes the sign only.\<close>

fun compare_bytes :: "nat \<Rightarrow> (nat \<Rightarrow> u8) \<Rightarrow> (nat \<Rightarrow> u8) \<Rightarrow> int" where
  "compare_bytes 0 a b = 0"
| "compare_bytes (Suc n) a b =
     (if a 0 < b 0 then -1 else if b 0 < a 0 then 1
      else compare_bytes n (\<lambda>i. a (Suc i)) (\<lambda>i. b (Suc i)))"

definition Cl_SecureMemcmp :: "(nat \<Rightarrow> u8) \<Rightarrow> nat \<Rightarrow> (nat \<Rightarrow> u8) \<Rightarrow> nat \<Rightarrow> int option" where
  "Cl_SecureMemcmp dst dst_size src src_size =
     (if sizes_ok dst_size src_size then Some (compare_bytes src_size dst src) else None)"

text \<open>\<open>strncpy\<close> stops reading at the first zero byte and fills the rest with zeros; \<open>strncmp\<close>
  stops where both strings end.\<close>

fun strncpy_bytes :: "nat \<Rightarrow> (nat \<Rightarrow> u8) \<Rightarrow> u8 list" where
  "strncpy_bytes 0 src = []"
| "strncpy_bytes (Suc n) src =
     (if src 0 = 0 then replicate (Suc n) 0 else src 0 # strncpy_bytes n (\<lambda>i. src (Suc i)))"

definition Cl_SecureStrncpy :: "u8 list \<Rightarrow> nat \<Rightarrow> (nat \<Rightarrow> u8) \<Rightarrow> nat \<Rightarrow> u8 list option" where
  "Cl_SecureStrncpy dst dst_size src src_size =
     (if sizes_ok dst_size src_size then Some (strncpy_bytes src_size src @ drop src_size dst) else None)"

fun strncmp_bytes :: "nat \<Rightarrow> (nat \<Rightarrow> u8) \<Rightarrow> (nat \<Rightarrow> u8) \<Rightarrow> int" where
  "strncmp_bytes 0 a b = 0"
| "strncmp_bytes (Suc n) a b =
     (if a 0 < b 0 then -1 else if b 0 < a 0 then 1 else if a 0 = 0 then 0
      else strncmp_bytes n (\<lambda>i. a (Suc i)) (\<lambda>i. b (Suc i)))"

definition Cl_SecureStrncmp :: "(nat \<Rightarrow> u8) \<Rightarrow> nat \<Rightarrow> (nat \<Rightarrow> u8) \<Rightarrow> nat \<Rightarrow> int option" where
  "Cl_SecureStrncmp dst dst_size src src_size =
     (if sizes_ok dst_size src_size then Some (strncmp_bytes src_size dst src) else None)"

lemma length_strncpy_bytes [simp]: "length (strncpy_bytes n src) = n"
  by (induct n src rule: strncpy_bytes.induct) simp_all

text \<open>A checked copy keeps the size of its destination.\<close>

lemma length_Cl_SecureMemcpy:
  "Cl_SecureMemcpy dst (length dst) src n = Some dst' \<Longrightarrow> length dst' = length dst"
  by (auto simp: Cl_SecureMemcpy_def sizes_ok_def split: if_splits)

end
