(* ===== verification/Ospi_Flash.thy ===== *)
theory Ospi_Flash
  imports Ospi_Driver Cl_Mem
begin

text \<open>Model of the operations of \<open>common/cl_ospi_polled.c\<close> that the rest of the firmware calls
  (\<open>cl_flash.h\<close>), and what they do to the content of a flash chip.  A result \<open>None\<close> is that the call
  does not return (the chip is never ready, an assertion fails) or that C gives it no meaning (a
  division by zero).\<close>

section \<open>The operations\<close>

datatype flash_area = CL_FLASH_BOOT | CL_FLASH_APU | CL_FLASH_SC_IMAGE

definition OSPI_VERSAL_PAGESIZE :: u32 where "OSPI_VERSAL_PAGESIZE = 256"
definition RPU_PDI_ADDRESS :: u32 where "RPU_PDI_ADDRESS = 0"
definition APU_PDI_ADDRESS :: u32 where "APU_PDI_ADDRESS = RPU_PDI_ADDRESS + 0x1000000"

fun getBaseAddress :: "flash_area \<Rightarrow> u32" where
  "getBaseAddress CL_FLASH_BOOT = RPU_PDI_ADDRESS"
| "getBaseAddress CL_FLASH_APU = APU_PDI_ADDRESS"
| "getBaseAddress CL_FLASH_SC_IMAGE = -1"

definition check :: "int \<times> 'd ospi \<Rightarrow> ('d ospi \<Rightarrow> (int \<times> 'd ospi) option) \<Rightarrow> (int \<times> 'd ospi) option" where
  "check r k = (case r of (st, s) \<Rightarrow> if st \<noteq> XST_SUCCESS then Some (XST_FAILURE, s) else k s)"

definition on_dev :: "('d \<Rightarrow> int \<times> 'd) \<Rightarrow> 'd ospi \<Rightarrow> int \<times> 'd ospi" where
  "on_dev f s = (case f (dev s) of (st, d) \<Rightarrow> (st, s\<lparr>dev := d\<rparr>))"

definition four_byte_mode :: "'d ospi_driver \<Rightarrow> 'd ospi \<Rightarrow> (int \<times> 'd ospi) option" where
  "four_byte_mode drv s =
     (if FlashDeviceSize (flash_info s) > SIXTEENMB
      then Option.bind (FlashEnterExit4BAddMode drv True s) (\<lambda>r. check r (\<lambda>s1. Some (XST_SUCCESS, s1)))
      else Some (XST_SUCCESS, s))"

definition double_size :: "FlashInfo \<Rightarrow> FlashInfo" where
  "double_size fi = fi\<lparr>NumPage := NumPage fi * 2, NumSect := NumSect fi * 2\<rparr>"

definition second_chip :: "'d ospi_driver \<Rightarrow> 'd ospi \<Rightarrow> (int \<times> 'd ospi) option" where
  "second_chip drv s =
     (if \<not> drv_stacked drv (dev s) then Some (XST_SUCCESS, s)
      else check (on_dev (drv_set_mode drv EDGE_MODE_SDR_NON_PHY)
                   (s\<lparr>Flash_Config_Table := (Flash_Config_Table s)[FCTIndex s := double_size (flash_info s)]\<rparr>))
        (\<lambda>s1. check (on_dev (drv_select drv True) s1)
          (\<lambda>s2. check (FlashSetSDRDDRMode drv EDGE_MODE_SDR_NON_PHY s2) (four_byte_mode drv))))"

definition ospi_flash_init :: "'d ospi_driver \<Rightarrow> 'd ospi \<Rightarrow> (int \<times> 'd ospi) option" where
  "ospi_flash_init drv s =
     check (on_dev (drv_reset drv) s) (\<lambda>s1.
       if \<not> drv_has_config drv (dev s1) then Some (XST_FAILURE, s1)
       else check (on_dev (drv_cfg_init drv) s1) (\<lambda>s2.
         check (on_dev (drv_select drv False)
                 (s2\<lparr>dev := drv_set_prescaler drv (drv_set_idac drv (dev s2))\<rparr>)) (\<lambda>s3.
           check (FlashReadID drv s3) (\<lambda>s4.
             check (FlashSetSDRDDRMode drv EDGE_MODE_SDR_NON_PHY s4) (\<lambda>s5.
               Option.bind (four_byte_mode drv s5) (\<lambda>r. check r (\<lambda>s6.
                 Option.bind (second_chip drv s6) (\<lambda>r. check r (\<lambda>s7.
                   if PageSize (flash_info s7) \<noteq> OSPI_VERSAL_PAGESIZE then Some (XST_FAILURE, s7)
                   else Some (XST_SUCCESS, s7\<lparr>OspiSectorSize := SectSize (flash_info s7)\<rparr>))))))))))"

text \<open>A buffer of \<open>n\<close> bytes after some bytes have been received into it.\<close>

definition fill :: "u8 list \<Rightarrow> u8 list \<Rightarrow> u8 list" where
  "fill buf bs = take (length buf) bs @ drop (length bs) buf"

definition ospi_flash_read ::
    "'d ospi_driver \<Rightarrow> flash_area \<Rightarrow> u32 \<Rightarrow> u32 \<Rightarrow> 'd ospi \<Rightarrow> (int \<times> u8 list \<times> 'd ospi) option" where
  "ospi_flash_read drv area offset len s =
     map_option (\<lambda>(st, bs, s1). (if st \<noteq> XST_SUCCESS then XST_FAILURE else 0,
                                 fill (replicate (unat len) 0) bs, s1))
       (FlashRead drv (getBaseAddress area + offset) len s)"

text \<open>The page loop writes \<open>PAGE_COUNT\<close> whole pages, whatever \<open>len\<close> is.\<close>

primrec write_pages ::
    "'d ospi_driver \<Rightarrow> u32 \<Rightarrow> u32 \<Rightarrow> (nat \<Rightarrow> u8) \<Rightarrow> nat \<Rightarrow> nat \<Rightarrow> 'd ospi \<Rightarrow> (int \<times> 'd ospi) option" where
  "write_pages drv base pages buf 0 page s = Some (0, s)"
| "write_pages drv base pages buf (Suc n) page s =
     (let write_offset = of_nat page * PageSize (flash_info s);
          s1 = s\<lparr>ospi_percentage := uint (of_nat (page * 100) div pages)\<rparr>
      in Option.bind (FlashIoWrite drv (base + write_offset) (PageSize (flash_info s))
                        (\<lambda>i. buf (i + unat write_offset)) s1)
           (\<lambda>(st, s2). if st \<noteq> XST_SUCCESS then Some (XST_FAILURE, s2)
              else write_pages drv base pages buf n (Suc page) s2))"

text \<open>The read back: page 0 and the pages whose offset is a multiple of \<open>PAGE_COUNT / 10\<close>; a
  difference counts only in a page whose first word reads as all ones.\<close>

definition page_differs :: "u8 list \<Rightarrow> (nat \<Rightarrow> u8) \<Rightarrow> u32 \<Rightarrow> nat \<Rightarrow> bool" where
  "page_differs rbuf buf len count \<longleftrightarrow>
     (\<exists>i \<in> set [0..<256]. u32_of_bytes (take 4 rbuf) = -1 \<and> count + i < unat len
        \<and> rbuf ! i \<noteq> buf (count + i))"

primrec verify_pages ::
    "'d ospi_driver \<Rightarrow> u32 \<Rightarrow> u32 \<Rightarrow> u32 \<Rightarrow> (nat \<Rightarrow> u8) \<Rightarrow> nat \<Rightarrow> nat \<Rightarrow> u8 list \<Rightarrow> 'd ospi
      \<Rightarrow> (int \<times> 'd ospi) option" where
  "verify_pages drv base len pages buf 0 count rbuf s = Some (0, s)"
| "verify_pages drv base len pages buf (Suc n) count rbuf s =
     (if count \<noteq> 0 \<and> pages div 10 = 0 then None
      else if count \<noteq> 0 \<and> of_nat count mod (pages div 10) \<noteq> 0
      then verify_pages drv base len pages buf n (count + 256) rbuf s
      else Option.bind (FlashRead drv (base + of_nat count) OSPI_VERSAL_PAGESIZE s)
             (\<lambda>(st, bs, s1). if st \<noteq> XST_SUCCESS then Some (XST_FAILURE, s1)
                else if page_differs (fill rbuf bs) buf len count then Some (XST_FAILURE, s1)
                else verify_pages drv base len pages buf n (count + 256) (fill rbuf bs) s1))"

definition page_count :: "u32 \<Rightarrow> u32" where
  "page_count len = (if len mod OSPI_VERSAL_PAGESIZE \<noteq> 0 then len div OSPI_VERSAL_PAGESIZE + 1
                     else len div OSPI_VERSAL_PAGESIZE)"

definition ospi_flash_write ::
    "'d ospi_driver \<Rightarrow> flash_area \<Rightarrow> (nat \<Rightarrow> u8) \<Rightarrow> u32 \<Rightarrow> u32 \<Rightarrow> 'd ospi \<Rightarrow> (int \<times> 'd ospi) option" where
  "ospi_flash_write drv area buf offset len s =
     (let base = getBaseAddress area + offset; pages = page_count len;
          s0 = s\<lparr>ospi_percentage := 0\<rparr>
      in Option.bind
           (if drv_dac_option drv (dev s0)
            then Some (FlashLinearWrite drv base
                         (map buf [0..<unat (PageSize (flash_info s0) * pages)]) s0)
            else write_pages drv base pages buf (unat pages) 0 s0)
           (\<lambda>(st, s1). if st \<noteq> XST_SUCCESS then Some (XST_FAILURE, s1)
              else map_option (\<lambda>(st, s2). if st \<noteq> 0 then (st, s2) else (0, s2\<lparr>ospi_percentage := 100\<rparr>))
                     (verify_pages drv base len pages buf (unat pages) 0 (replicate 256 0) s1)))"

definition ospi_flash_erase :: "'d ospi_driver \<Rightarrow> flash_area \<Rightarrow> u32 \<Rightarrow> u32 \<Rightarrow> 'd ospi \<Rightarrow> (int \<times> 'd ospi) option" where
  "ospi_flash_erase drv area offset len s = FlashErase drv (getBaseAddress area + offset) len s"

partial_function (option) copy_loop ::
    "'d ospi_driver \<Rightarrow> flash_area \<Rightarrow> u32 \<Rightarrow> u32 \<Rightarrow> u32 \<Rightarrow> u32 \<Rightarrow> 'd ospi \<Rightarrow> (int \<times> 'd ospi) option" where
  "copy_loop drv area src tgt len idx s =
     (if idx \<le> len
      then if len = 0 then None
           else Option.bind (ospi_flash_read drv area (src + idx) OSPI_VERSAL_PAGESIZE
                               (s\<lparr>ospi_percentage := uint (idx * 100 div len)\<rparr>))
             (\<lambda>(ret, rbuf, s1). if ret \<noteq> 0 then Some (ret, s1)
                else Option.bind (ospi_flash_write drv area (\<lambda>i. rbuf ! i) (tgt + idx) OSPI_VERSAL_PAGESIZE s1)
                  (\<lambda>(ret, s2). if ret \<noteq> 0 then Some (ret, s2)
                     else copy_loop drv area src tgt len (idx + OSPI_VERSAL_PAGESIZE) s2))
      else Some (0, s))"

declare copy_loop.simps [code]

definition ospi_flash_copy :: "'d ospi_driver \<Rightarrow> flash_area \<Rightarrow> u32 \<Rightarrow> u32 \<Rightarrow> u32 \<Rightarrow> 'd ospi \<Rightarrow> (int \<times> 'd ospi) option" where
  "ospi_flash_copy drv area src tgt len s =
     map_option (\<lambda>(ret, s1). (ret, if ret \<noteq> 0 then s1 else s1\<lparr>ospi_percentage := 100\<rparr>))
       (copy_loop drv area src tgt len 0 (s\<lparr>ospi_percentage := 0\<rparr>))"

text \<open>\<open>heap_ok\<close> is whether \<open>pvPortMalloc\<close> has the memory for the sector buffer.\<close>

definition ospi_flash_safe_write ::
    "'d ospi_driver \<Rightarrow> bool \<Rightarrow> flash_area \<Rightarrow> (nat \<Rightarrow> u8) \<Rightarrow> u32 \<Rightarrow> u32 \<Rightarrow> 'd ospi \<Rightarrow> (int \<times> 'd ospi) option" where
  "ospi_flash_safe_write drv heap_ok area buf offset len s =
     (if area \<noteq> CL_FLASH_BOOT then Some (- EINVAL, s)
      else if offset AND OSPI_VERSAL_PAGESIZE \<noteq> 0 then Some (- EINVAL, s)
      else let sect = OspiSectorSize s; rest = len mod sect; last_off = len - rest; last_addr = offset + last_off;
               erase_write = (\<lambda>s1. Option.bind (ospi_flash_erase drv CL_FLASH_BOOT offset len s1)
                 (\<lambda>(ret, s2). if ret \<noteq> 0 then Some (ret, s2)
                    else ospi_flash_write drv CL_FLASH_BOOT buf offset len s2))
           in if sect = 0 then None
              else if rest = 0 then erase_write s
              else if \<not> heap_ok then Some (- ENOMEM, s)
              else Option.bind (ospi_flash_read drv CL_FLASH_BOOT last_addr sect s)
                (\<lambda>(ret, sbuf, s1). if ret \<noteq> 0 then Some (ret, s1)
                   else Option.bind (Cl_SecureMemcpy sbuf (unat sect) (\<lambda>i. buf (i + unat last_off)) (unat rest))
                     (\<lambda>sbuf'. Option.bind (erase_write s1)
                       (\<lambda>(ret, s2). if ret \<noteq> 0 then Some (ret, s2)
                          else ospi_flash_write drv CL_FLASH_BOOT (\<lambda>i. sbuf' ! i) last_addr sect s2))))"

definition ospi_flash_progress :: "'d ospi \<Rightarrow> int" where
  "ospi_flash_progress s = ospi_percentage s"

end
