(* ===== verification/Ospi_Chip.thy ===== *)
theory Ospi_Chip
  imports Ospi_Flash
begin

text \<open>What the flash operations do to the content of a chip.  The vendor's driver and the chip are
  not part of the repository; what the code relies on is the predicate \<open>flash_chip\<close>: the documented
  behaviour of the commands the firmware sends to a serial NOR flash.  A write command clears bits
  and never sets one, a sector erase sets every bit of its sector, both only after a write enable;
  the status register shows when the chip is ready again; a transfer that fails has not reached the
  chip.\<close>

section \<open>The chip\<close>

record 'd chip_view =
  up :: "'d \<Rightarrow> bool"
  cells :: "'d \<Rightarrow> mem"
  wel :: "'d \<Rightarrow> bool"
  busy :: "'d \<Rightarrow> nat"

text \<open>Programming clears bits; erasing sets them.\<close>

definition flash_prog :: "mem \<Rightarrow> u32 \<Rightarrow> u8 list \<Rightarrow> mem" where
  "flash_prog m a bs = (\<lambda>x. if unat (x - a) < length bs then m x AND bs ! unat (x - a) else m x)"

definition flash_blank :: "mem \<Rightarrow> nat \<Rightarrow> nat \<Rightarrow> nat \<Rightarrow> mem" where
  "flash_blank m sect lo hi = (\<lambda>x. if lo \<le> unat x div sect \<and> unat x div sect \<le> hi then 0xFF else m x)"

definition same_content :: "'d chip_view \<Rightarrow> 'd \<Rightarrow> 'd \<Rightarrow> bool" where
  "same_content v d d' \<longleftrightarrow> cells v d' = cells v d \<and> wel v d' = wel v d \<and> busy v d' = busy v d"

definition driver_laws :: "'d ospi_driver \<Rightarrow> 'd chip_view \<Rightarrow> bool" where
  "driver_laws drv v \<longleftrightarrow> (\<forall>d. up v d \<longrightarrow>
     \<not> drv_ddr_phy drv d \<and> \<not> drv_stacked drv d \<and> drv_idac_mode drv d \<and> \<not> drv_dac_option drv d
     \<and> up v (drv_delay drv d) \<and> same_content v d (drv_delay drv d)
     \<and> (\<forall>b. up v (snd (drv_select drv b d)) \<and> same_content v d (snd (drv_select drv b d)))
     \<and> (\<forall>m. case drv_poll drv m d of (st, rx, d') \<Rightarrow> up v d' \<and> 0 \<le> st \<and> st < 256
          \<and> (st \<noteq> XST_SUCCESS \<longrightarrow> same_content v d d')))"

definition chip_laws :: "'d ospi_driver \<Rightarrow> 'd chip_view \<Rightarrow> nat \<Rightarrow> nat \<Rightarrow> bool" where
  "chip_laws drv v sect len \<longleftrightarrow> (\<forall>d m rx d'. up v d \<and> drv_poll drv m d = (XST_SUCCESS, rx, d') \<longrightarrow>
     (Opcode m = 0x06 \<and> busy v d = 0 \<longrightarrow> cells v d' = cells v d \<and> wel v d' \<and> busy v d' = 0)
     \<and> (Opcode m = 0x70 \<and> ByteCount m = 1 \<and> Flags m = MSG_FLAG_RX \<longrightarrow>
          cells v d' = cells v d \<and> busy v d' \<le> busy v d
          \<and> (first_byte rx AND 0x80 \<noteq> 0 \<longleftrightarrow> busy v d = 0)
          \<and> (busy v d \<noteq> 0 \<longrightarrow> busy v d' < busy v d))
     \<and> (Opcode m = 0xCC \<and> Addrvalid m \<and> Flags m = MSG_FLAG_RX \<and> busy v d = 0
          \<and> unat (Addr m) + unat (ByteCount m) \<le> len \<longrightarrow>
          rx = mem_load (cells v d) (Addr m) (unat (ByteCount m)) \<and> cells v d' = cells v d \<and> busy v d' = 0)
     \<and> (Opcode m = 0x12 \<and> Addrvalid m \<and> Flags m = MSG_FLAG_TX \<and> wel v d \<and> busy v d = 0
          \<and> length (TxBfr m) = unat (ByteCount m) \<and> 0 < length (TxBfr m)
          \<and> unat (Addr m) mod 256 + length (TxBfr m) \<le> 256 \<and> unat (Addr m) + length (TxBfr m) \<le> len \<longrightarrow>
          cells v d' = flash_prog (cells v d) (Addr m) (TxBfr m))
     \<and> (Opcode m = 0xDC \<and> Addrvalid m \<and> wel v d \<and> busy v d = 0 \<and> unat (Addr m) < len \<longrightarrow>
          cells v d' = flash_blank (cells v d) sect (unat (Addr m) div sect) (unat (Addr m) div sect)))"

definition flash_chip :: "'d ospi_driver \<Rightarrow> 'd chip_view \<Rightarrow> FlashInfo \<Rightarrow> bool" where
  "flash_chip drv v fi \<longleftrightarrow> fi \<in> set initial_config_table \<and> driver_laws drv v
     \<and> chip_laws drv v (unat (SectSize fi)) (unat (FlashDeviceSize fi))"

text \<open>The chip of a state is idle: initialised and ready for a command.\<close>

definition idle :: "'d chip_view \<Rightarrow> FlashInfo \<Rightarrow> 'd ospi \<Rightarrow> bool" where
  "idle v fi s \<longleftrightarrow> up v (dev s) \<and> busy v (dev s) = 0 \<and> flash_info s = fi \<and> OspiSectorSize s = SectSize fi"

abbreviation content :: "'d chip_view \<Rightarrow> 'd ospi \<Rightarrow> mem" where
  "content v s \<equiv> cells v (dev s)"

text \<open>What the code uses of the table entries.\<close>

lemma table_entry:
  assumes "fi \<in> set initial_config_table"
  shows "PageSize fi = 256" "ucast (ReadCmd fi) = (0xCC :: u8)" "ucast (WriteCmd fi) = (0x12 :: u8)"
    "ucast (EraseCmd fi) = (0xDC :: u8)" "StatusCmd fi = 0x70"
    "\<exists>k \<in> {16, 17}. SectSize fi = 2 ^ k \<and> SectMask fi = NOT (mask k)"
    "unat (FlashDeviceSize fi) \<le> 2 ^ 28" "2 ^ 25 \<le> unat (FlashDeviceSize fi)"
    "unat (FlashDeviceSize fi) = unat (NumSect fi) * unat (SectSize fi)"
  using assms
  by (auto simp: initial_config_table_def octal_flash_def READ_CMD_OCTAL_IO_4B_def WRITE_CMD_OCTAL_4B_def
      WRITE_CMD_4B_def DIE_ERASE_CMD_def BULK_ERASE_CMD_def SEC_ERASE_CMD_4B_def READ_FLAG_STATUS_CMD_def mask_eq_exp_minus_1)

section \<open>Transfers\<close>

definition keeps_statics :: "'d ospi \<Rightarrow> 'd ospi \<Rightarrow> bool" where
  "keeps_statics s s' \<longleftrightarrow> flash_info s' = flash_info s \<and> OspiSectorSize s' = OspiSectorSize s"

lemma keeps_statics_refl [simp]: "keeps_statics s s"
  by (simp add: keeps_statics_def)

lemma keeps_statics_trans: "keeps_statics s t \<Longrightarrow> keeps_statics t u \<Longrightarrow> keeps_statics s u"
  by (simp add: keeps_statics_def)

text \<open>A way to send the message of a state: what comes back, if it succeeds, is what the chip did
  with the message in a state of the same content.\<close>

definition transfer :: "'d ospi_driver \<Rightarrow> 'd chip_view \<Rightarrow> ('d ospi \<Rightarrow> int \<times> u8 list \<times> 'd ospi) \<Rightarrow> bool" where
  "transfer drv v xfer \<longleftrightarrow> (\<forall>s st rx s1. up v (dev s) \<and> xfer s = (st, rx, s1) \<longrightarrow>
     s1 = s\<lparr>dev := dev s1\<rparr> \<and> up v (dev s1) \<and> 0 \<le> st \<and> st < 256
     \<and> (if st = XST_SUCCESS
        then \<exists>d. up v d \<and> same_content v (dev s) d \<and> drv_poll drv (FlashMsg s) d = (XST_SUCCESS, rx, dev s1)
        else same_content v (dev s) (dev s1)))"

lemma transferD:
  assumes "transfer drv v xfer" "up v (dev s)" "xfer s = (st, rx, s1)"
  shows "s1 = s\<lparr>dev := dev s1\<rparr>" "up v (dev s1)" "0 \<le> st" "st < 256"
    "st = XST_SUCCESS \<Longrightarrow> \<exists>d. up v d \<and> same_content v (dev s) d
       \<and> drv_poll drv (FlashMsg s) d = (XST_SUCCESS, rx, dev s1)"
    "st \<noteq> XST_SUCCESS \<Longrightarrow> same_content v (dev s) (dev s1)"
  using assms unfolding transfer_def by (metis (no_types, lifting))+

lemma same_content_refl [simp]: "same_content v d d"
  by (simp add: same_content_def)

lemma same_content_trans: "same_content v d e \<Longrightarrow> same_content v e f \<Longrightarrow> same_content v d f"
  by (simp add: same_content_def)

lemma flash_chip_driver: "flash_chip drv v fi \<Longrightarrow> driver_laws drv v"
  by (simp add: flash_chip_def)

lemma transfer_poll: "driver_laws drv v \<Longrightarrow> transfer drv v (poll drv)"
  unfolding transfer_def poll_def driver_laws_def
  by (fastforce split: prod.splits)

lemma retry_transfer:
  assumes "driver_laws drv v" "up v (dev s)"
    "s1 = s\<lparr>dev := dev s1\<rparr>" "up v (dev s1)" "0 \<le> st" "st < 256"
    "st = XST_SUCCESS \<Longrightarrow> \<exists>d. up v d \<and> same_content v (dev s) d
       \<and> drv_poll drv (FlashMsg s) d = (XST_SUCCESS, rx, dev s1)"
    "st \<noteq> XST_SUCCESS \<Longrightarrow> same_content v (dev s) (dev s1)"
    "retry drv n (st, rx, s1) = (st', rx', s')"
  shows "s' = s\<lparr>dev := dev s'\<rparr> \<and> up v (dev s') \<and> 0 \<le> st' \<and> st' < 256
     \<and> (if st' = XST_SUCCESS
        then \<exists>d. up v d \<and> same_content v (dev s) d \<and> drv_poll drv (FlashMsg s) d = (XST_SUCCESS, rx', dev s')
        else same_content v (dev s) (dev s'))"
  using assms(3-)
proof (induct n arbitrary: st rx s1)
  case 0
  then show ?case by auto
next
  case (Suc n)
  show ?case
  proof (cases "st = XST_SUCCESS")
    case True
    then show ?thesis using Suc.prems by auto
  next
    case False
    let ?s = "s1\<lparr>dev := drv_delay drv (dev s1)\<rparr>"
    obtain st2 rx2 s2 where p: "poll drv ?s = (st2, rx2, s2)" by (cases "poll drv ?s")
    have laws: "up v (dev ?s)" "same_content v (dev s1) (dev ?s)"
      using assms(1) Suc.prems(2) by (auto simp: driver_laws_def)
    have sc: "same_content v (dev s) (dev ?s)"
      using same_content_trans [OF Suc.prems(6) [OF False] laws(2)] .
    have msg: "FlashMsg ?s = FlashMsg s" by (subst Suc.prems(1)) simp
    note t = transferD [OF transfer_poll [OF assms(1)] laws(1) p]
    have s2: "s2 = s\<lparr>dev := dev s2\<rparr>" using t(1) Suc.prems(1) by (metis ospi.surjective ospi.update_convs(1))
    have r: "retry drv n (st2, rx2, s2) = (st', rx', s')" using Suc.prems(7) False p by simp
    show ?thesis
    proof (rule Suc.hyps [OF s2 t(2) t(3) t(4) _ _ r])
      assume "st2 = XST_SUCCESS"
      then show "\<exists>d. up v d \<and> same_content v (dev s) d
          \<and> drv_poll drv (FlashMsg s) d = (XST_SUCCESS, rx2, dev s2)"
        using t(5) same_content_trans [OF sc] msg by metis
    next
      assume "st2 \<noteq> XST_SUCCESS"
      then show "same_content v (dev s) (dev s2)" using t(6) same_content_trans [OF sc] by blast
    qed
  qed
qed

lemma transfer_pollTransfer:
  assumes "driver_laws drv v" shows "transfer drv v (pollTransfer drv)"
  unfolding transfer_def
proof (intro allI impI)
  fix s st' rx' s'
  assume a: "up v (dev s) \<and> pollTransfer drv s = (st', rx', s')"
  obtain st rx s1 where p: "poll drv s = (st, rx, s1)" by (cases "poll drv s")
  have "retry drv 10 (st, rx, s1) = (st', rx', s')" using a p by (simp add: pollTransfer_def)
  from retry_transfer [OF assms _ transferD [OF transfer_poll [OF assms] _ p] this] a
  show "s' = s\<lparr>dev := dev s'\<rparr> \<and> up v (dev s') \<and> 0 \<le> st' \<and> st' < 256
     \<and> (if st' = XST_SUCCESS
        then \<exists>d. up v d \<and> same_content v (dev s) d \<and> drv_poll drv (FlashMsg s) d = (XST_SUCCESS, rx', dev s')
        else same_content v (dev s) (dev s'))"
    by blast
qed

lemma u8_status_id: "0 \<le> st \<Longrightarrow> st < 256 \<Longrightarrow> u8_status st = st"
  by (simp add: u8_status_def take_bit_int_eq_self)

section \<open>Single commands\<close>

lemma keeps_statics_msg [simp]:
  "keeps_statics s (no_dummy t) \<longleftrightarrow> keeps_statics s t"
  "keeps_statics s (command_msg drv c t) \<longleftrightarrow> keeps_statics s t"
  "keeps_statics s (status_msg drv t) \<longleftrightarrow> keeps_statics s t"
  "keeps_statics s (data_msg drv c a bs t) \<longleftrightarrow> keeps_statics s t"
  "keeps_statics s (erase_msg drv a t) \<longleftrightarrow> keeps_statics s t"
  "keeps_statics s (read_msg drv a n t) \<longleftrightarrow> keeps_statics s t"
  "keeps_statics s (t\<lparr>dev := d\<rparr>) \<longleftrightarrow> keeps_statics s t"
  by (simp_all add: keeps_statics_def flash_info_def no_dummy_def command_msg_def status_msg_def
      data_msg_def erase_msg_def read_msg_def)

lemma dev_msg [simp]:
  "dev (no_dummy t) = dev t" "dev (command_msg drv c t) = dev t" "dev (status_msg drv t) = dev t"
  "dev (data_msg drv c a bs t) = dev t" "dev (erase_msg drv a t) = dev t" "dev (read_msg drv a n t) = dev t"
  by (simp_all add: no_dummy_def command_msg_def status_msg_def data_msg_def erase_msg_def read_msg_def)

lemma transfer_statics:
  assumes "transfer drv v xfer" "up v (dev t)" "xfer t = (st, rx, s1)" "keeps_statics s t"
  shows "keeps_statics s s1"
  using transferD(1) [OF assms(1-3)] assms(4) by (metis keeps_statics_msg(7))

text \<open>One law of the chip at a time.\<close>

lemma chip_enable:
  assumes "flash_chip drv v fi" "up v d" "drv_poll drv m d = (XST_SUCCESS, rx, d')"
    "Opcode m = 0x06" "busy v d = 0"
  shows "cells v d' = cells v d" "wel v d'" "busy v d' = 0"
  using assms unfolding flash_chip_def chip_laws_def by blast+

lemma chip_status:
  assumes "flash_chip drv v fi" "up v d" "drv_poll drv m d = (XST_SUCCESS, rx, d')"
    "Opcode m = 0x70" "ByteCount m = 1" "Flags m = MSG_FLAG_RX"
  shows "cells v d' = cells v d" "busy v d' \<le> busy v d" "first_byte rx AND 0x80 \<noteq> 0 \<longleftrightarrow> busy v d = 0"
    "busy v d \<noteq> 0 \<Longrightarrow> busy v d' < busy v d"
  using assms unfolding flash_chip_def chip_laws_def by blast+

lemma chip_read:
  assumes "flash_chip drv v fi" "up v d" "drv_poll drv m d = (XST_SUCCESS, rx, d')"
    "Opcode m = 0xCC" "Addrvalid m" "Flags m = MSG_FLAG_RX" "busy v d = 0"
    "unat (Addr m) + unat (ByteCount m) \<le> unat (FlashDeviceSize fi)"
  shows "rx = mem_load (cells v d) (Addr m) (unat (ByteCount m))" "cells v d' = cells v d" "busy v d' = 0"
  using assms unfolding flash_chip_def chip_laws_def by blast+

lemma chip_program:
  assumes "flash_chip drv v fi" "up v d" "drv_poll drv m d = (XST_SUCCESS, rx, d')"
    "Opcode m = 0x12" "Addrvalid m" "Flags m = MSG_FLAG_TX" "wel v d" "busy v d = 0"
    "length (TxBfr m) = unat (ByteCount m)" "0 < length (TxBfr m)"
    "unat (Addr m) mod 256 + length (TxBfr m) \<le> 256"
    "unat (Addr m) + length (TxBfr m) \<le> unat (FlashDeviceSize fi)"
  shows "cells v d' = flash_prog (cells v d) (Addr m) (TxBfr m)"
  using assms unfolding flash_chip_def chip_laws_def by blast

lemma chip_erase:
  assumes "flash_chip drv v fi" "up v d" "drv_poll drv m d = (XST_SUCCESS, rx, d')"
    "Opcode m = 0xDC" "Addrvalid m" "wel v d" "busy v d = 0" "unat (Addr m) < unat (FlashDeviceSize fi)"
  shows "cells v d' = flash_blank (cells v d) (unat (SectSize fi))
    (unat (Addr m) div unat (SectSize fi)) (unat (Addr m) div unat (SectSize fi))"
  using assms unfolding flash_chip_def chip_laws_def by blast

lemma flash_chip_entry: "flash_chip drv v fi \<Longrightarrow> fi \<in> set initial_config_table"
  by (simp add: flash_chip_def)

lemma modes:
  assumes "flash_chip drv v fi" "up v d"
  shows "\<not> drv_ddr_phy drv d" "\<not> drv_stacked drv d" "drv_idac_mode drv d" "\<not> drv_dac_option drv d"
    "up v (snd (drv_select drv b d))" "same_content v d (snd (drv_select drv b d))"
  using assms unfolding flash_chip_def driver_laws_def by blast+

lemma enable_step:
  assumes c: "flash_chip drv v fi" and t: "transfer drv v xfer" and i: "idle v fi s"
    and x: "xfer (no_dummy (command_msg drv WRITE_ENABLE_CMD s)) = (st, rx, s1)"
  shows "idle v fi s1" "content v s1 = content v s" "0 \<le> st" "st < 256" "st = XST_SUCCESS \<Longrightarrow> wel v (dev s1)"
proof -
  let ?t = "no_dummy (command_msg drv WRITE_ENABLE_CMD s)"
  have u: "up v (dev ?t)" using i by (simp add: idle_def)
  note d = transferD [OF t u x]
  have k: "keeps_statics s s1" by (rule transfer_statics [OF t u x]) simp
  show "0 \<le> st" "st < 256" using d by auto
  have *: "content v s1 = content v s \<and> busy v (dev s1) = 0 \<and> (st = XST_SUCCESS \<longrightarrow> wel v (dev s1))"
  proof (cases "st = XST_SUCCESS")
    case True
    then obtain e where e: "up v e" "same_content v (dev s) e"
        "drv_poll drv (FlashMsg ?t) e = (XST_SUCCESS, rx, dev s1)" using d(5) by auto
    have "Opcode (FlashMsg ?t) = 0x06" by (simp add: no_dummy_def command_msg_def WRITE_ENABLE_CMD_def)
    then show ?thesis
      using chip_enable [OF c e(1,3)] e(2) i by (simp add: same_content_def idle_def)
  next
    case False
    then show ?thesis using d(6) i by (simp add: same_content_def idle_def)
  qed
  then show "content v s1 = content v s" "st = XST_SUCCESS \<Longrightarrow> wel v (dev s1)" by auto
  show "idle v fi s1" using * k d(2) i by (simp add: idle_def keeps_statics_def)
qed

text \<open>The wait ends, with the chip ready or with a failed transfer.\<close>

lemma wait_returns:
  assumes c: "flash_chip drv v fi" and t: "transfer drv v xfer"
  shows "up v (dev s) \<Longrightarrow> flash_info s = fi \<Longrightarrow>
    \<exists>ok s1. wait_ready (status_xfer8 xfer drv) s = Some (ok, s1) \<and> keeps_statics s s1 \<and> up v (dev s1)
      \<and> content v s1 = content v s \<and> (ok \<longrightarrow> busy v (dev s1) = 0)"
proof (induct "busy v (dev s)" arbitrary: s rule: less_induct)
  case less
  let ?t = "status_msg drv s"
  obtain st rx s1 where x: "xfer ?t = (st, rx, s1)" by (cases "xfer ?t")
  have u: "up v (dev ?t)" using less.prems by simp
  note d = transferD [OF t u x]
  have k: "keeps_statics s s1" by (rule transfer_statics [OF t u x]) simp
  have x8: "status_xfer8 xfer drv s = (st, rx, s1)"
    using x d by (simp add: status_xfer8_def u8_status_id)
  show ?case
  proof (cases "st = XST_SUCCESS")
    case False
    then show ?thesis
      using x8 k d(2) d(6) by (subst wait_ready.simps) (auto simp: same_content_def)
  next
    case True
    then obtain e where e: "up v e" "same_content v (dev s) e"
        "drv_poll drv (FlashMsg ?t) e = (XST_SUCCESS, rx, dev s1)" using d(5) by auto
    have "Opcode (FlashMsg ?t) = 0x70" "ByteCount (FlashMsg ?t) = 1" "Flags (FlashMsg ?t) = MSG_FLAG_RX"
      using table_entry(5) [OF flash_chip_entry [OF c]] less.prems modes(1) [OF c]
      by (simp_all add: status_msg_def)
    note l = chip_status [OF c e(1,3) this]
    have cont: "content v s1 = content v s" using l(1) e(2) by (simp add: same_content_def)
    have bs: "busy v e = busy v (dev s)" using e(2) by (simp add: same_content_def)
    show ?thesis
    proof (cases "busy v (dev s) = 0")
      case True
      then show ?thesis
        using x8 k d(2) cont l(2,3) bs \<open>st = XST_SUCCESS\<close> by (subst wait_ready.simps) auto
    next
      case False
      have "busy v (dev s1) < busy v (dev s)" "flash_info s1 = fi"
        using l(4) bs False k less.prems by (auto simp: keeps_statics_def)
      from less.hyps [OF this(1) d(2) this(2)] show ?thesis
        using x8 k cont l(3) bs \<open>st = XST_SUCCESS\<close> False
        by (subst wait_ready.simps) (auto intro: keeps_statics_trans)
    qed
  qed
qed

section \<open>Writing\<close>

lemma flash_prog_append:
  assumes "length xs + length ys \<le> 2 ^ 32" "length xs < 2 ^ 32"
  shows "flash_prog (flash_prog m a xs) (a + of_nat (length xs)) ys = flash_prog m a (xs @ ys)"
proof
  fix x
  have "unat (x - a) < 2 ^ 32" using unat_u32_less [of "x - a"] by simp
  then show "flash_prog (flash_prog m a xs) (a + of_nat (length xs)) ys x = flash_prog m a (xs @ ys) x"
    using assms unat_diff_add [of "length xs" x a]
    by (cases "unat (x - a) < length xs") (auto simp: flash_prog_def nth_append)
qed

lemma flash_prog_Nil [simp]: "flash_prog m a [] = m"
  by (simp add: flash_prog_def)

text \<open>Outside \<open>n\<close> bytes from \<open>a\<close> the two contents agree.\<close>

definition same_outside :: "u32 \<Rightarrow> nat \<Rightarrow> mem \<Rightarrow> mem \<Rightarrow> bool" where
  "same_outside a n m m' \<longleftrightarrow> (\<forall>x. n \<le> unat (x - a) \<longrightarrow> m' x = m x)"

lemma same_outside_refl [simp]: "same_outside a n m m"
  by (simp add: same_outside_def)

lemma same_outside_prog: "length bs \<le> n \<Longrightarrow> same_outside a n m (flash_prog m a bs)"
  by (simp add: same_outside_def flash_prog_def)

lemma same_outside_trans: "same_outside a n m m' \<Longrightarrow> same_outside a n m' m'' \<Longrightarrow> same_outside a n m m''"
  by (simp add: same_outside_def)

lemma same_outside_mono: "same_outside a n m m' \<Longrightarrow> n \<le> k \<Longrightarrow> same_outside a k m m'"
  by (auto simp: same_outside_def)

lemma same_outside_shift:
  assumes "same_outside (a + of_nat k) n m m'" "k + n \<le> 2 ^ 32" "k < 2 ^ 32"
  shows "same_outside a (k + n) m m'"
  unfolding same_outside_def
proof (intro allI impI)
  fix x assume "k + n \<le> unat (x - a)"
  then have "n \<le> unat (x - (a + of_nat k))" using assms(3) unat_diff_add [of k x a] by simp
  then show "m' x = m x" using assms(1) by (simp add: same_outside_def)
qed

lemma mod8_page: "x mod 8 = 0 \<Longrightarrow> x mod 256 + 8 \<le> (256 :: nat)"
proof -
  assume "x mod 8 = 0"
  then have "8 dvd x mod 256" by (intro dvd_mod) (simp_all add: dvd_eq_mod_eq_0)
  then obtain k where "x mod 256 = 8 * k" by (auto elim: dvdE)
  moreover have "x mod 256 < 256" by simp
  ultimately show ?thesis by simp
qed

text \<open>What a write leaves behind, whether or not it succeeds.\<close>

definition wrote :: "'d chip_view \<Rightarrow> FlashInfo \<Rightarrow> u32 \<Rightarrow> u8 list \<Rightarrow> 'd ospi \<Rightarrow> int \<times> 'd ospi \<Rightarrow> bool" where
  "wrote v fi a bs s r \<longleftrightarrow> (case r of (st, s') \<Rightarrow> keeps_statics s s' \<and> up v (dev s')
     \<and> same_outside a (length bs) (content v s) (content v s')
     \<and> (st = XST_SUCCESS \<longrightarrow> idle v fi s' \<and> content v s' = flash_prog (content v s) a bs))"

lemma real_addr:
  assumes "flash_chip drv v fi" "idle v fi s"
  shows "\<exists>s1. GetRealAddr drv a s = (a, s1) \<and> keeps_statics s s1 \<and> idle v fi s1 \<and> content v s1 = content v s"
  using assms modes [OF assms(1), of "dev s"]
  by (auto simp: GetRealAddr_def idle_def same_content_def keeps_statics_def flash_info_def)

lemma idle_statics: "idle v fi s \<Longrightarrow> flash_info s = fi \<and> OspiSectorSize s = SectSize fi \<and> up v (dev s)"
  by (simp add: idle_def)

lemma program_step:
  assumes c: "flash_chip drv v fi" and i: "idle v fi s" and w: "wel v (dev s)"
    and l: "0 < length bs" "unat a mod 256 + length bs \<le> 256" "unat a + length bs \<le> unat (FlashDeviceSize fi)"
    and x: "poll drv (data_msg drv (ucast (WriteCmd (flash_info s))) a bs s) = (st, rx, s1)"
  shows "keeps_statics s s1" "up v (dev s1)" "0 \<le> st" "st < 256"
    "st = XST_SUCCESS \<Longrightarrow> content v s1 = flash_prog (content v s) a bs"
    "st \<noteq> XST_SUCCESS \<Longrightarrow> content v s1 = content v s"
proof -
  let ?t = "data_msg drv (ucast (WriteCmd (flash_info s))) a bs s"
  have u: "up v (dev ?t)" using i by (simp add: idle_def)
  note t = transfer_poll [OF flash_chip_driver [OF c]]
  note d = transferD [OF t u x]
  show "keeps_statics s s1" by (rule transfer_statics [OF t u x]) simp
  show "up v (dev s1)" "0 \<le> st" "st < 256" using d by auto
  show "st \<noteq> XST_SUCCESS \<Longrightarrow> content v s1 = content v s" using d(6) by (simp add: same_content_def)
  assume "st = XST_SUCCESS"
  then obtain e where e: "up v e" "same_content v (dev s) e"
      "drv_poll drv (FlashMsg ?t) e = (XST_SUCCESS, rx, dev s1)" using d(5) by auto
  have m: "Opcode (FlashMsg ?t) = 0x12" "Addrvalid (FlashMsg ?t)" "Flags (FlashMsg ?t) = MSG_FLAG_TX"
    "TxBfr (FlashMsg ?t) = bs" "Addr (FlashMsg ?t) = a" "length (TxBfr (FlashMsg ?t)) = unat (ByteCount (FlashMsg ?t))"
    using table_entry(3) [OF flash_chip_entry [OF c]] i l by (simp_all add: data_msg_def idle_def)
  have "wel v e" "busy v e = 0" using e(2) w i by (simp_all add: same_content_def idle_def)
  then have "cells v (dev s1) = flash_prog (cells v e) (Addr (FlashMsg ?t)) (TxBfr (FlashMsg ?t))"
    by (rule chip_program [OF c e(1,3) m(1-3) _ _ m(6)]) (use l in \<open>simp_all only: m(4,5)\<close>)
  then show "content v s1 = flash_prog (content v s) a bs"
    using e(2) by (simp only: m(4,5) same_content_def)
qed

lemma io_write_returns:
  assumes c: "flash_chip drv v fi"
  shows "idle v fi s \<Longrightarrow> unat a mod 8 = 0 \<Longrightarrow> unat count mod 8 = 0 \<Longrightarrow>
    unat a + unat count \<le> unat (FlashDeviceSize fi) \<Longrightarrow>
    \<exists>r. FlashIoWrite drv a count buf s = Some r \<and> wrote v fi a (map buf [0..<unat count]) s r"
proof (induct "unat count" arbitrary: a count buf s rule: less_induct)
  case less
  show ?case
  proof (cases "count = 0")
    case True
    then show ?thesis
      using less.prems by (subst FlashIoWrite.simps) (simp add: wrote_def idle_def)
  next
    case False
    have cnt: "8 \<le> unat count" "unat count < 2 ^ 29"
      using less.prems(3,4) False table_entry(7) [OF flash_chip_entry [OF c]]
        dvd_imp_le [of 8 "unat count"] by (auto simp: unat_gt_0 dvd_eq_mod_eq_0)
    define n where "n = (if count \<le> 8 then count else 8 :: u32)"
    define count' where "count' = (if count \<le> 8 then 0 else count - 8 :: u32)"
    have n: "n = 8" and c': "unat count' = unat count - 8"
      using cnt by (auto simp: n_def count'_def word_le_nat_alt unat_sub word_unat_eq_iff)
    obtain s1 where s1: "GetRealAddr drv a s = (a, s1)" "keeps_statics s s1" "idle v fi s1"
        "content v s1 = content v s" using real_addr [OF c less.prems(1)] by blast
    let ?t = "no_dummy (command_msg drv WRITE_ENABLE_CMD s1)"
    obtain st2 rx2 s2 where p2: "poll drv ?t = (st2, rx2, s2)" by (cases "poll drv ?t")
    note tp = transfer_poll [OF flash_chip_driver [OF c]]
    note e = enable_step [OF c tp s1(3) p2]
    have k2: "keeps_statics s s2" using s1 e(1) by (simp add: keeps_statics_def idle_def)
    have len8: "length (map buf [0..<8]) = 8" by simp
    have split: "map buf [0..<unat count] = map buf [0..<8] @ map (\<lambda>i. buf (i + 8)) [0..<unat count']"
    proof (rule nth_equalityI)
      fix i assume "i < length (map buf [0..<unat count])"
      then show "map buf [0..<unat count] ! i = (map buf [0..<8] @ map (\<lambda>i. buf (i + 8)) [0..<unat count']) ! i"
        using cnt c' by (cases "i < 8") (simp_all add: nth_append)
    qed (use cnt c' in simp)
    show ?thesis
    proof (cases "st2 = XST_SUCCESS")
      case False
      then have "FlashIoWrite drv a count buf s = Some (XST_FAILURE, s2)"
        using s1(1) p2 \<open>count \<noteq> 0\<close> u8_status_id [OF e(3,4)] by (subst FlashIoWrite.simps) simp
      then show ?thesis
        using k2 e(1,2) s1(4) by (simp add: wrote_def idle_def XST_FAILURE_def XST_SUCCESS_def)
    next
      case ok2: True
      let ?u = "data_msg drv (ucast (WriteCmd (flash_info s2))) a (map buf [0..<unat n]) s2"
      obtain st3 rx3 s3 where p3: "poll drv ?u = (st3, rx3, s3)" by (cases "poll drv ?u")
      have l: "0 < length (map buf [0..<unat n])" "unat a mod 256 + length (map buf [0..<unat n]) \<le> 256"
        "unat a + length (map buf [0..<unat n]) \<le> unat (FlashDeviceSize fi)"
        using less.prems(2,4) cnt n mod8_page [of "unat a"] by simp_all
      note g = program_step [OF c e(1) e(5) [OF ok2] l p3]
      have k3: "keeps_statics s s3" using keeps_statics_trans [OF k2 g(1)] .
      show ?thesis
      proof (cases "st3 = XST_SUCCESS")
        case False
        then have "FlashIoWrite drv a count buf s = Some (XST_FAILURE, s3)"
          using s1(1) p2 p3 \<open>count \<noteq> 0\<close> ok2 u8_status_id [OF e(3,4)] u8_status_id [OF g(3,4)]
          by (subst FlashIoWrite.simps) (simp add: n_def [symmetric] count'_def [symmetric])
        then show ?thesis
          using k3 g(2,6) False e(2) s1(4) by (simp add: wrote_def XST_FAILURE_def XST_SUCCESS_def)
      next
        case ok3: True
        have fi3: "flash_info s3 = fi" using k3 less.prems(1) by (simp add: keeps_statics_def idle_def)
        obtain ok s4 where w: "wait_ready (status_xfer8 (poll drv) drv) s3 = Some (ok, s4)"
            "keeps_statics s3 s4" "up v (dev s4)" "content v s4 = content v s3" "ok \<longrightarrow> busy v (dev s4) = 0"
          using wait_returns [OF c tp g(2) fi3] by blast
        have c4: "content v s4 = flash_prog (content v s) a (map buf [0..<8])"
          using w(4) g(5) [OF ok3] e(2) s1(4) n by simp
        have k4: "keeps_statics s s4" using keeps_statics_trans [OF k3 w(2)] .
        have step: "FlashIoWrite drv a count buf s =
            (if \<not> ok then Some (XST_FAILURE, s4)
             else FlashIoWrite drv (a + 8) count' (\<lambda>i. buf (i + 8)) s4)"
          using s1(1) p2 p3 \<open>count \<noteq> 0\<close> ok2 ok3 u8_status_id [OF e(3,4)] u8_status_id [OF g(3,4)] w(1)
          by (subst FlashIoWrite.simps) (simp add: n_def [symmetric] count'_def [symmetric])
        have so: "same_outside a (unat count) (content v s) (content v s4)"
          using same_outside_prog [of "map buf [0..<8]" "unat count"] c4 cnt by simp
        show ?thesis
        proof (cases ok)
          case False
          then show ?thesis
            using step k4 w(3) so by (simp add: wrote_def XST_FAILURE_def XST_SUCCESS_def)
        next
          case True
          have i4: "idle v fi s4"
            using True w(3,5) k4 less.prems(1) by (simp add: idle_def keeps_statics_def)
          have a8: "unat (a + 8) = unat a + 8"
            using unat_add_of_nat [of a 8] less.prems(4) cnt table_entry(7) [OF flash_chip_entry [OF c]] by simp
          have "\<exists>r. FlashIoWrite drv (a + 8) count' (\<lambda>i. buf (i + 8)) s4 = Some r
              \<and> wrote v fi (a + 8) (map (\<lambda>i. buf (i + 8)) [0..<unat count']) s4 r"
          proof (rule less.hyps [OF _ i4])
            show "unat count' < unat count" using c' cnt by simp
            show "unat (a + 8) mod 8 = 0" using a8 less.prems(2) by simp
            show "unat count' mod 8 = 0" using c' cnt less.prems(3) by presburger
            show "unat (a + 8) + unat count' \<le> unat (FlashDeviceSize fi)" using a8 c' cnt less.prems(4) by simp
          qed
          then obtain st5 s5 where r: "FlashIoWrite drv (a + 8) count' (\<lambda>i. buf (i + 8)) s4 = Some (st5, s5)"
              "wrote v fi (a + 8) (map (\<lambda>i. buf (i + 8)) [0..<unat count']) s4 (st5, s5)" by auto
          have "same_outside (a + of_nat 8) (unat count') (content v s4) (content v s5)"
            using r(2) by (simp add: wrote_def)
          then have "same_outside a (8 + unat count') (content v s4) (content v s5)"
            by (rule same_outside_shift) (use cnt c' in simp_all)
          then have "same_outside a (unat count) (content v s4) (content v s5)" using c' cnt by simp
          then have so5: "same_outside a (unat count) (content v s) (content v s5)"
            using same_outside_trans [OF so] by blast
          have "flash_prog (flash_prog (content v s) a (map buf [0..<8])) (a + of_nat (length (map buf [0..<8])))
              (map (\<lambda>i. buf (i + 8)) [0..<unat count']) = flash_prog (content v s) a (map buf [0..<unat count])"
            unfolding split by (rule flash_prog_append) (use cnt c' in simp_all)
          then have "st5 = XST_SUCCESS \<longrightarrow> idle v fi s5
              \<and> content v s5 = flash_prog (content v s) a (map buf [0..<unat count])"
            using r(2) c4 by (simp add: wrote_def)
          then show ?thesis
            using step True r so5 keeps_statics_trans [OF k4] by (simp add: wrote_def)
        qed
      qed
    qed
  qed
qed

section \<open>Reading\<close>

lemma read_returns:
  assumes c: "flash_chip drv v fi" and i: "idle v fi s" and l: "unat a + unat n \<le> unat (FlashDeviceSize fi)"
  shows "\<exists>st bs s'. FlashRead drv a n s = Some (st, bs, s') \<and> idle v fi s' \<and> content v s' = content v s
    \<and> keeps_statics s s' \<and> (st = XST_SUCCESS \<or> st = XST_FAILURE)
    \<and> (st = XST_SUCCESS \<longrightarrow> bs = mem_load (content v s) a (unat n))"
proof (cases "n = 0")
  case True
  then show ?thesis
    using i by (auto simp: FlashRead_def read_loop.simps [of _ _ _ 0] XST_SUCCESS_def mem_load_def)
next
  case False
  have ns: "\<not> drv_stacked drv (dev s)" using modes(2) [OF c] i by (simp add: idle_def)
  obtain s1 where s1: "GetRealAddr drv a s = (a, s1)" "keeps_statics s s1" "idle v fi s1"
      "content v s1 = content v s" using real_addr [OF c i] by blast
  let ?t = "read_msg drv a n s1"
  obtain st rx s2 where p: "poll drv ?t = (st, rx, s2)" by (cases "poll drv ?t")
  note tp = transfer_poll [OF flash_chip_driver [OF c]]
  have u: "up v (dev ?t)" using s1(3) by (simp add: idle_def)
  note d = transferD [OF tp u p]
  have k: "keeps_statics s s2" using transfer_statics [OF tp u p] s1(2) by simp
  have *: "content v s2 = content v s \<and> busy v (dev s2) = 0
      \<and> (st = XST_SUCCESS \<longrightarrow> rx = mem_load (content v s) a (unat n))"
  proof (cases "st = XST_SUCCESS")
    case True
    then obtain e where e: "up v e" "same_content v (dev s1) e"
        "drv_poll drv (FlashMsg ?t) e = (XST_SUCCESS, rx, dev s2)" using d(5) by auto
    have m: "Opcode (FlashMsg ?t) = 0xCC" "Addrvalid (FlashMsg ?t)" "Flags (FlashMsg ?t) = MSG_FLAG_RX"
      "Addr (FlashMsg ?t) = a" "ByteCount (FlashMsg ?t) = n"
      using table_entry(2) [OF flash_chip_entry [OF c]] s1(3) by (simp_all add: read_msg_def idle_def)
    have b: "busy v e = 0" using e(2) s1(3) by (simp add: same_content_def idle_def)
    have l': "unat (Addr (FlashMsg ?t)) + unat (ByteCount (FlashMsg ?t)) \<le> unat (FlashDeviceSize fi)"
      using l by (simp only: m)
    from chip_read [OF c e(1,3) m(1-3) b l'] show ?thesis
      using e(2) s1(4) by (simp only: m same_content_def simp_thms)
  next
    case False
    then show ?thesis using d(6) s1 by (simp add: same_content_def idle_def)
  qed
  have "FlashRead drv a n s = Some (if st = XST_SUCCESS then (0, rx, s2) else (XST_FAILURE, [], s2))"
    using False ns s1(1) p u8_status_id [OF d(3,4)]
    by (simp add: FlashRead_def read_loop.simps [of _ _ _ n] read_loop.simps [of _ _ _ 0])
  moreover have "idle v fi s2" using * k d(2) i by (simp add: idle_def keeps_statics_def)
  ultimately show ?thesis using * k by (auto simp: XST_SUCCESS_def XST_FAILURE_def)
qed

lemma fill_full: "length bs = length buf \<Longrightarrow> fill buf bs = bs"
  by (simp add: fill_def)

lemma flash_read_returns:
  assumes "flash_chip drv v fi" "idle v fi s"
    "unat (getBaseAddress area + offset) + unat len \<le> unat (FlashDeviceSize fi)"
  shows "\<exists>st bs s'. ospi_flash_read drv area offset len s = Some (st, bs, s') \<and> idle v fi s'
    \<and> content v s' = content v s \<and> keeps_statics s s' \<and> (st = 0 \<or> st = XST_FAILURE)
    \<and> (st = 0 \<longrightarrow> bs = mem_load (content v s) (getBaseAddress area + offset) (unat len))"
proof -
  from read_returns [OF assms] obtain st bs s' where
    r: "FlashRead drv (getBaseAddress area + offset) len s = Some (st, bs, s')" "idle v fi s'"
      "content v s' = content v s" "keeps_statics s s'" "st = XST_SUCCESS \<or> st = XST_FAILURE"
      "st = XST_SUCCESS \<longrightarrow> bs = mem_load (content v s) (getBaseAddress area + offset) (unat len)"
    by blast
  then show ?thesis
    by (cases "st = XST_SUCCESS") (simp_all add: ospi_flash_read_def fill_full XST_FAILURE_def XST_SUCCESS_def)
qed

section \<open>Writing pages\<close>

lemma wrote_then:
  assumes "wrote v fi a xs s (XST_SUCCESS, s1)" "wrote v fi (a + of_nat (length xs)) ys s1 r"
    "length xs + length ys \<le> 2 ^ 32" "length xs < 2 ^ 32"
  shows "wrote v fi a (xs @ ys) s r"
proof -
  obtain st s2 where r: "r = (st, s2)" by (cases r)
  have c1: "content v s1 = flash_prog (content v s) a xs" using assms(1) by (simp add: wrote_def)
  have "same_outside a (length xs + length ys) (content v s1) (content v s2)"
    using assms(2-4) r by (intro same_outside_shift) (auto simp: wrote_def)
  moreover have "same_outside a (length xs + length ys) (content v s) (content v s1)"
    using c1 same_outside_prog by simp
  ultimately have "same_outside a (length (xs @ ys)) (content v s) (content v s2)"
    using same_outside_trans by simp
  then show ?thesis
    using assms(1,2) r c1 flash_prog_append [OF assms(3,4)]
    by (auto simp: wrote_def keeps_statics_def)
qed

lemma wrote_failed:
  assumes "wrote v fi a xs s (st, s1)" "st \<noteq> XST_SUCCESS" "st' \<noteq> XST_SUCCESS"
  shows "wrote v fi a (xs @ ys) s (st', s1)"
  using assms by (auto simp: wrote_def intro: same_outside_mono)

lemma wrote_start: "wrote v fi a xs (s\<lparr>ospi_percentage := p\<rparr>) r \<longleftrightarrow> wrote v fi a xs s r"
  by (auto simp: wrote_def keeps_statics_def flash_info_def split: prod.splits)

lemma idle_percentage [simp]: "idle v fi (s\<lparr>ospi_percentage := p\<rparr>) \<longleftrightarrow> idle v fi s"
  by (simp add: idle_def flash_info_def)

lemma XST_FAILURE_not_SUCCESS [simp]: "XST_FAILURE \<noteq> XST_SUCCESS"
  by (simp add: XST_FAILURE_def XST_SUCCESS_def)

lemma write_pages_returns:
  assumes c: "flash_chip drv v fi" and b: "unat base mod 8 = 0"
  shows "idle v fi s \<Longrightarrow> unat base + 256 * (page + n) \<le> unat (FlashDeviceSize fi) \<Longrightarrow>
    \<exists>r. write_pages drv base pages buf n page s = Some r
      \<and> wrote v fi (base + of_nat (256 * page)) (map (\<lambda>i. buf (i + 256 * page)) [0..<256 * n]) s r"
proof (induct n arbitrary: page s)
  case 0
  then show ?case by (simp add: wrote_def idle_def)
next
  case (Suc n)
  have small: "256 * page < 2 ^ 28" "unat (FlashDeviceSize fi) \<le> 2 ^ 28"
    using Suc.prems(2) table_entry(7) [OF flash_chip_entry [OF c]] by simp_all
  have ps: "PageSize (flash_info s) = 256"
    using Suc.prems(1) table_entry(1) [OF flash_chip_entry [OF c]] by (simp add: idle_def)
  have wo: "of_nat page * (256 :: u32) = of_nat (256 * page)" by simp
  have uo: "unat (of_nat (256 * page) :: u32) = 256 * page" using small by (intro unat_of_nat_u32) simp
  have ub: "unat (base + of_nat (256 * page)) = unat base + 256 * page"
    using small Suc.prems(2) by (intro unat_add_of_nat) simp
  let ?s = "s\<lparr>ospi_percentage := uint (of_nat (page * 100) div pages)\<rparr>"
  let ?xs = "map (\<lambda>i. buf (i + 256 * page)) [0..<256]"
  let ?ys = "map (\<lambda>i. buf (i + 256 * Suc page)) [0..<256 * n]"
  have xy: "map (\<lambda>i. buf (i + 256 * page)) [0..<256 * Suc n] = ?xs @ ?ys"
    by (rule nth_equalityI) (auto simp: nth_append not_less algebra_simps)
  have "\<exists>r. FlashIoWrite drv (base + of_nat (256 * page)) 256 (\<lambda>i. buf (i + 256 * page)) ?s = Some r
      \<and> wrote v fi (base + of_nat (256 * page)) (map (\<lambda>i. buf (i + 256 * page)) [0..<unat (256 :: u32)]) ?s r"
  proof (rule io_write_returns [OF c])
    show "idle v fi ?s" using Suc.prems(1) by simp
    show "unat (base + of_nat (256 * page)) mod 8 = 0" using ub b by presburger
    show "unat (256 :: u32) mod 8 = 0" by simp
    show "unat (base + of_nat (256 * page)) + unat (256 :: u32) \<le> unat (FlashDeviceSize fi)"
      using ub Suc.prems(2) by simp
  qed
  then obtain st s1 where w: "FlashIoWrite drv (base + of_nat (256 * page)) 256 (\<lambda>i. buf (i + 256 * page)) ?s
        = Some (st, s1)" "wrote v fi (base + of_nat (256 * page)) ?xs s (st, s1)"
    by (auto simp: wrote_start)
  have step: "write_pages drv base pages buf (Suc n) page s =
      (if st \<noteq> XST_SUCCESS then Some (XST_FAILURE, s1) else write_pages drv base pages buf n (Suc page) s1)"
    using w(1) uo by (simp add: ps wo Let_def del: of_nat_mult)
  show ?case
  proof (cases "st = XST_SUCCESS")
    case False
    then show ?thesis
      using step wrote_failed [OF w(2) False XST_FAILURE_not_SUCCESS, of ?ys] by (simp only: xy) auto
  next
    case True
    then have "idle v fi s1" using w(2) by (simp add: wrote_def)
    from Suc.hyps [OF this, of "Suc page"] obtain r where
      r: "write_pages drv base pages buf n (Suc page) s1 = Some r"
        "wrote v fi (base + of_nat (256 * Suc page)) ?ys s1 r"
      using Suc.prems(2) by auto
    have eq: "base + of_nat (256 * page) + of_nat (length ?xs) = base + of_nat (256 * Suc page)" by simp
    have "wrote v fi (base + of_nat (256 * page)) (?xs @ ?ys) s r"
    proof (rule wrote_then)
      show "wrote v fi (base + of_nat (256 * page)) ?xs s (XST_SUCCESS, s1)" using w(2) True by simp
      show "wrote v fi (base + of_nat (256 * page) + of_nat (length ?xs)) ?ys s1 r"
        unfolding eq by (rule r(2))
    qed (use small Suc.prems(2) in simp_all)
    then show ?thesis using step True r(1) by (simp only: xy) auto
  qed
qed

lemma verify_pages_returns:
  assumes c: "flash_chip drv v fi"
  shows "idle v fi s \<Longrightarrow> unat base + count + 256 * n \<le> unat (FlashDeviceSize fi) \<Longrightarrow>
    pages div 10 \<noteq> 0 \<or> (count = 0 \<and> n \<le> 1) \<Longrightarrow>
    \<exists>st s'. verify_pages drv base len pages buf n count rbuf s = Some (st, s') \<and> idle v fi s'
      \<and> content v s' = content v s \<and> keeps_statics s s'"
proof (induct n arbitrary: count rbuf s)
  case 0
  then show ?case by simp
next
  case (Suc n)
  have small: "unat (FlashDeviceSize fi) \<le> 2 ^ 28" using table_entry(7) [OF flash_chip_entry [OF c]] by simp
  have rest: "pages div 10 \<noteq> 0 \<or> n = 0" using Suc.prems(3) by auto
  have next_ok: "\<exists>st s'. verify_pages drv base len pages buf n (count + 256) rb t = Some (st, s')
      \<and> idle v fi s' \<and> content v s' = content v t \<and> keeps_statics t s'" if "idle v fi t" for t rb
  proof (cases "n = 0")
    case False
    then show ?thesis using Suc.hyps [OF that, of "count + 256" rb] Suc.prems(2) rest by simp
  qed (use that in simp)
  show ?case
  proof (cases "count \<noteq> 0 \<and> of_nat count mod (pages div 10) \<noteq> 0")
    case True
    then show ?thesis using next_ok [OF Suc.prems(1)] Suc.prems(3) by simp
  next
    case False
    have ua: "unat (base + of_nat count) = unat base + count"
      using small Suc.prems(2) by (intro unat_add_of_nat) simp
    obtain st bs s1 where r: "FlashRead drv (base + of_nat count) OSPI_VERSAL_PAGESIZE s = Some (st, bs, s1)"
        "idle v fi s1" "content v s1 = content v s" "keeps_statics s s1"
      using read_returns [OF c Suc.prems(1), of "base + of_nat count" OSPI_VERSAL_PAGESIZE] ua Suc.prems(2)
      by (auto simp: OSPI_VERSAL_PAGESIZE_def)
    have nz: "\<not> (count \<noteq> 0 \<and> pages div 10 = 0)" using Suc.prems(3) by auto
    have step: "verify_pages drv base len pages buf (Suc n) count rbuf s =
        (if st \<noteq> XST_SUCCESS then Some (XST_FAILURE, s1)
         else if page_differs (fill rbuf bs) buf len count then Some (XST_FAILURE, s1)
         else verify_pages drv base len pages buf n (count + 256) (fill rbuf bs) s1)"
      by (simp only: verify_pages.simps if_not_P [OF nz] if_not_P [OF False] r(1) Option.bind.simps prod.case)
    obtain st2 s2 where r2: "verify_pages drv base len pages buf n (count + 256) (fill rbuf bs) s1 = Some (st2, s2)"
        "idle v fi s2" "content v s2 = content v s1" "keeps_statics s1 s2"
      using next_ok [OF r(2)] by blast
    show ?thesis
      using r r2 keeps_statics_trans [OF r(4) r2(4)] unfolding step by (auto split: if_splits)
  qed
qed

lemma unat_page_count: "unat (page_count len) = (unat len + 255) div 256"
proof -
  have d: "unat (len div 256) = unat len div 256" "unat (len mod 256) = unat len mod 256"
    by (simp_all add: unat_div unat_mod)
  have "unat (len div 256 + 1) = unat len div 256 + 1"
    using d(1) unat_u32_less [of len] unat_add_of_nat [of "len div 256" 1] by simp
  moreover have "len mod 256 = 0 \<longleftrightarrow> unat len mod 256 = 0" using d(2) by (metis unat_eq_0)
  moreover have "(x + 255) div 256 = (if x mod 256 = 0 then x div 256 else x div 256 + 1)" for x :: nat
  proof -
    have "x + 255 = (x mod 256 + 255) + x div 256 * 256" by simp
    then have "(x + 255) div 256 = (x mod 256 + 255) div 256 + x div 256" by (metis div_mult_self3 numeral_neq_zero add.commute)
    moreover have "(r + 255) div 256 = (if r = 0 then 0 else 1)" if "r < 256" for r :: nat
      using that by (auto intro!: div_nat_eqI)
    ultimately show ?thesis by simp
  qed
  ultimately show ?thesis using d(1) by (simp add: page_count_def OSPI_VERSAL_PAGESIZE_def)
qed

lemma flash_write_returns:
  assumes c: "flash_chip drv v fi" and i: "idle v fi s"
    and a: "unat (getBaseAddress area + offset) mod 8 = 0"
    and l: "unat (getBaseAddress area + offset) + 256 * unat (page_count len) \<le> unat (FlashDeviceSize fi)"
    and p: "unat (page_count len) \<le> 1 \<or> 10 \<le> unat (page_count len)"
  shows "\<exists>r. ospi_flash_write drv area buf offset len s = Some r
    \<and> wrote v fi (getBaseAddress area + offset) (map buf [0..<256 * unat (page_count len)]) s r"
proof -
  let ?base = "getBaseAddress area + offset"
  let ?n = "unat (page_count len)"
  let ?s = "s\<lparr>ospi_percentage := 0\<rparr>"
  let ?bs = "map buf [0..<256 * ?n]"
  have nd: "\<not> drv_dac_option drv (dev s)" using modes(4) [OF c] i by (simp add: idle_def)
  have i0: "idle v fi ?s" using i by simp
  from write_pages_returns [OF c a i0, of 0 ?n "page_count len" buf] l
  obtain st s1 where w: "write_pages drv ?base (page_count len) buf ?n 0 ?s = Some (st, s1)"
      "wrote v fi ?base ?bs s (st, s1)"
    by (auto simp: wrote_start)
  show ?thesis
  proof (cases "st = XST_SUCCESS")
    case False
    then have "ospi_flash_write drv area buf offset len s = Some (XST_FAILURE, s1)"
      using w(1) nd by (simp add: ospi_flash_write_def Let_def)
    then show ?thesis
      using wrote_failed [OF w(2) False XST_FAILURE_not_SUCCESS, of "[]"] by simp
  next
    case True
    then have i1: "idle v fi s1" and c1: "content v s1 = flash_prog (content v s) ?base ?bs"
      and k1: "keeps_statics s s1" using w(2) by (simp_all add: wrote_def)
    have pg: "page_count len div 10 \<noteq> 0 \<or> (0 :: nat) = 0 \<and> ?n \<le> 1"
    proof (cases "?n \<le> 1")
      case False
      then have "unat (page_count len div 10) \<noteq> 0" using p by (simp add: unat_div)
      then show ?thesis by (metis unat_0)
    qed simp
    obtain st2 s2 where r: "verify_pages drv ?base len (page_count len) buf ?n 0 (replicate 256 0) s1 = Some (st2, s2)"
        "idle v fi s2" "content v s2 = content v s1" "keeps_statics s1 s2"
      using verify_pages_returns [OF c i1, of ?base 0 ?n "page_count len" len buf "replicate 256 0"] pg l by auto
    have k2: "keeps_statics s s2" using keeps_statics_trans [OF k1 r(4)] .
    have w2: "wrote v fi ?base ?bs s (st2, s2)"
      using r(2,3) k2 c1 same_outside_prog [of ?bs "length ?bs"] by (simp add: wrote_def idle_def)
    have w3: "wrote v fi ?base ?bs s (0, s2\<lparr>ospi_percentage := 100\<rparr>)" if "st2 = 0"
      using w2 that by (auto simp: wrote_def XST_SUCCESS_def keeps_statics_def flash_info_def)
    have "ospi_flash_write drv area buf offset len s =
        Some (if st2 \<noteq> 0 then (st2, s2) else (0, s2\<lparr>ospi_percentage := 100\<rparr>))"
      using w(1) nd True r(1) by (simp add: ospi_flash_write_def Let_def)
    then show ?thesis using w2 w3 by auto
  qed
qed

section \<open>Erasing\<close>

text \<open>The sectors \<open>lo\<close> to \<open>hi\<close> are the only ones that changed; after success they are blank.\<close>

definition same_outside_sectors :: "nat \<Rightarrow> nat \<Rightarrow> nat \<Rightarrow> mem \<Rightarrow> mem \<Rightarrow> bool" where
  "same_outside_sectors sect lo hi m m' \<longleftrightarrow>
     (\<forall>x. \<not> (lo \<le> unat x div sect \<and> unat x div sect \<le> hi) \<longrightarrow> m' x = m x)"

definition erased :: "'d chip_view \<Rightarrow> FlashInfo \<Rightarrow> nat \<Rightarrow> nat \<Rightarrow> 'd ospi \<Rightarrow> int \<times> 'd ospi \<Rightarrow> bool" where
  "erased v fi lo hi s r \<longleftrightarrow> (case r of (st, s') \<Rightarrow> keeps_statics s s' \<and> up v (dev s')
     \<and> same_outside_sectors (unat (SectSize fi)) lo hi (content v s) (content v s')
     \<and> (st = XST_SUCCESS \<longrightarrow> idle v fi s'
          \<and> content v s' = flash_blank (content v s) (unat (SectSize fi)) lo hi))"

lemma same_outside_sectors_blank:
  "lo \<le> lo' \<Longrightarrow> hi' \<le> hi \<Longrightarrow> same_outside_sectors sect lo hi m (flash_blank m sect lo' hi')"
  by (auto simp: same_outside_sectors_def flash_blank_def)

lemma flash_blank_join:
  "lo \<le> mid \<Longrightarrow> mid < hi \<Longrightarrow>
   flash_blank (flash_blank m sect lo mid) sect (Suc mid) hi = flash_blank m sect lo hi"
  by (rule ext) (auto simp: flash_blank_def)

lemma same_outside_sectors_mono:
  "same_outside_sectors sect lo' hi' m m' \<Longrightarrow> lo \<le> lo' \<Longrightarrow> hi' \<le> hi \<Longrightarrow> same_outside_sectors sect lo hi m m'"
  by (auto simp: same_outside_sectors_def)

lemma same_outside_sectors_trans:
  "same_outside_sectors sect lo hi m m' \<Longrightarrow> same_outside_sectors sect lo hi m' m'' \<Longrightarrow>
   same_outside_sectors sect lo hi m m''"
  by (auto simp: same_outside_sectors_def)

lemma enabled_command_form:
  "enabled_command drv msg u8_status s =
     (case pollTransfer drv (no_dummy (command_msg drv WRITE_ENABLE_CMD s)) of (st, rx, s1) \<Rightarrow>
        if u8_status st \<noteq> XST_SUCCESS then Some (False, s1)
        else case pollTransfer drv (msg s1) of (st, rx, s2) \<Rightarrow>
               if u8_status st \<noteq> XST_SUCCESS then Some (False, s2)
               else wait_ready (status_xfer8 (pollTransfer drv) drv) s2)"
proof -
  have "(\<lambda>s. case pollTransfer drv (status_msg drv s) of (st, rx, s3) \<Rightarrow> (u8_status st, rx, s3))
      = status_xfer8 (pollTransfer drv) drv" by (rule ext) (simp add: status_xfer8_def)
  then show ?thesis by (simp only: enabled_command_def)
qed

lemma sector_erase_returns:
  assumes c: "flash_chip drv v fi" and i: "idle v fi s" and l: "unat a < unat (FlashDeviceSize fi)"
  shows "\<exists>ok s'. enabled_command drv (erase_msg drv a) u8_status s = Some (ok, s')
    \<and> erased v fi (unat a div unat (SectSize fi)) (unat a div unat (SectSize fi)) s
        (if ok then XST_SUCCESS else XST_FAILURE, s')"
proof -
  let ?sec = "unat a div unat (SectSize fi)"
  let ?blank = "flash_blank (content v s) (unat (SectSize fi)) ?sec ?sec"
  note tp = transfer_pollTransfer [OF flash_chip_driver [OF c]]
  let ?t = "no_dummy (command_msg drv WRITE_ENABLE_CMD s)"
  obtain st1 rx1 s1 where p1: "pollTransfer drv ?t = (st1, rx1, s1)" by (cases "pollTransfer drv ?t")
  note e = enable_step [OF c tp i p1]
  have k1: "keeps_statics s s1" using i e(1) by (simp add: keeps_statics_def idle_def)
  show ?thesis
  proof (cases "st1 = XST_SUCCESS")
    case False
    then have "enabled_command drv (erase_msg drv a) u8_status s = Some (False, s1)"
      using p1 u8_status_id [OF e(3,4)] by (simp add: enabled_command_form)
    then show ?thesis using k1 e(1,2) by (auto simp: erased_def idle_def same_outside_sectors_def)
  next
    case ok1: True
    let ?u = "erase_msg drv a s1"
    obtain st2 rx2 s2 where p2: "pollTransfer drv ?u = (st2, rx2, s2)" by (cases "pollTransfer drv ?u")
    have u: "up v (dev ?u)" using e(1) by (simp add: idle_def)
    note d = transferD [OF tp u p2]
    have k2: "keeps_statics s s2" using transfer_statics [OF tp u p2] k1 by simp
    show ?thesis
    proof (cases "st2 = XST_SUCCESS")
      case False
      then have "enabled_command drv (erase_msg drv a) u8_status s = Some (False, s2)"
        using p1 p2 ok1 u8_status_id [OF e(3,4)] u8_status_id [OF d(3,4)] by (simp add: enabled_command_form)
      then show ?thesis
        using k2 d(2) d(6) [OF False] e(2)
        by (auto simp: erased_def same_content_def same_outside_sectors_def)
    next
      case ok2: True
      then obtain f where f: "up v f" "same_content v (dev s1) f"
          "drv_poll drv (FlashMsg ?u) f = (XST_SUCCESS, rx2, dev s2)" using d(5) by auto
      have m: "Opcode (FlashMsg ?u) = 0xDC" "Addrvalid (FlashMsg ?u)" "Addr (FlashMsg ?u) = a"
        using table_entry(4) [OF flash_chip_entry [OF c]] e(1) by (simp_all add: erase_msg_def idle_def)
      have "wel v f" "busy v f = 0" using f(2) e(1) e(5) [OF ok1] by (simp_all add: same_content_def idle_def)
      then have "cells v (dev s2) = flash_blank (cells v f) (unat (SectSize fi))
          (unat (Addr (FlashMsg ?u)) div unat (SectSize fi)) (unat (Addr (FlashMsg ?u)) div unat (SectSize fi))"
        by (rule chip_erase [OF c f(1,3) m(1,2)]) (use l in \<open>simp only: m(3)\<close>)
      then have c2: "content v s2 = ?blank" using f(2) e(2) by (simp only: m(3) same_content_def)
      have fi2: "flash_info s2 = fi" using k2 i by (simp add: keeps_statics_def idle_def)
      obtain ok s3 where w: "wait_ready (status_xfer8 (pollTransfer drv) drv) s2 = Some (ok, s3)"
          "keeps_statics s2 s3" "up v (dev s3)" "content v s3 = content v s2" "ok \<longrightarrow> busy v (dev s3) = 0"
        using wait_returns [OF c tp d(2) fi2] by blast
      have k3: "keeps_statics s s3" using keeps_statics_trans [OF k2 w(2)] .
      have "enabled_command drv (erase_msg drv a) u8_status s = Some (ok, s3)"
        using p1 p2 ok1 ok2 u8_status_id [OF e(3,4)] u8_status_id [OF d(3,4)] w(1)
        by (simp add: enabled_command_form)
      moreover have "ok \<longrightarrow> idle v fi s3" using w(3,5) k3 i by (simp add: idle_def keeps_statics_def)
      ultimately show ?thesis
        using k3 w(3,4) c2 by (auto simp: erased_def same_outside_sectors_blank)
    qed
  qed
qed

lemma sector_loop_returns:
  assumes c: "flash_chip drv v fi"
  shows "idle v fi s \<Longrightarrow> unat a + unat (SectSize fi) * n < unat (FlashDeviceSize fi) \<Longrightarrow>
    \<exists>r. sector_loop drv (Suc n) a s = Some r
      \<and> erased v fi (unat a div unat (SectSize fi)) (unat a div unat (SectSize fi) + n) s r"
proof (induct n arbitrary: a s)
  case 0
  let ?q = "unat a div unat (SectSize fi)"
  obtain s1 where s1: "GetRealAddr drv a s = (a, s1)" "keeps_statics s s1" "idle v fi s1"
      "content v s1 = content v s" using real_addr [OF c 0(1)] by blast
  obtain ok s2 where e: "enabled_command drv (erase_msg drv a) u8_status s1 = Some (ok, s2)"
      "erased v fi ?q ?q s1 (if ok then XST_SUCCESS else XST_FAILURE, s2)"
    using sector_erase_returns [OF c s1(3), of a] 0(2) by auto
  have "erased v fi ?q ?q s (if ok then XST_SUCCESS else XST_FAILURE, s2)"
    using e(2) s1(2,4) keeps_statics_trans [OF s1(2)] by (simp add: erased_def)
  then show ?case using s1(1) e(1) by (auto simp: XST_SUCCESS_def)
next
  case (Suc n)
  let ?S = "unat (SectSize fi)"
  let ?q = "unat a div ?S"
  have S: "0 < ?S" "unat (FlashDeviceSize fi) \<le> 2 ^ 28"
    using table_entry(6,7) [OF flash_chip_entry [OF c]] by auto
  obtain s1 where s1: "GetRealAddr drv a s = (a, s1)" "keeps_statics s s1" "idle v fi s1"
      "content v s1 = content v s" using real_addr [OF c Suc.prems(1)] by blast
  obtain ok s2 where e: "enabled_command drv (erase_msg drv a) u8_status s1 = Some (ok, s2)"
      "erased v fi ?q ?q s1 (if ok then XST_SUCCESS else XST_FAILURE, s2)"
    using sector_erase_returns [OF c s1(3), of a] Suc.prems(2) by auto
  have e2: "erased v fi ?q ?q s (if ok then XST_SUCCESS else XST_FAILURE, s2)"
    using e(2) s1(2,4) keeps_statics_trans [OF s1(2)] by (simp add: erased_def)
  have fi2: "flash_info s2 = fi" using e2 Suc.prems(1) by (simp add: erased_def keeps_statics_def idle_def)
  have step: "sector_loop drv (Suc (Suc n)) a s =
      (if \<not> ok then Some (XST_FAILURE, s2) else sector_loop drv (Suc n) (a + SectSize fi) s2)"
    using s1(1) e(1) fi2 by simp
  show ?case
  proof (cases ok)
    case False
    then show ?thesis
      using step e2 same_outside_sectors_mono [of ?S ?q ?q "content v s" "content v s2" ?q "?q + Suc n"]
      by (auto simp: erased_def)
  next
    case True
    then have i2: "idle v fi s2" and c2: "content v s2 = flash_blank (content v s) ?S ?q ?q"
      and k2: "keeps_statics s s2" using e2 by (simp_all add: erased_def)
    have ua: "unat (a + SectSize fi) = unat a + ?S"
      using unat_add_of_nat [of a ?S] Suc.prems(2) S by simp
    have q1: "unat (a + SectSize fi) div ?S = Suc ?q" using ua S by (simp add: div_add_self2)
    from Suc.hyps [OF i2, of "a + SectSize fi"] obtain st s3 where
      r: "sector_loop drv (Suc n) (a + SectSize fi) s2 = Some (st, s3)" "erased v fi (Suc ?q) (Suc ?q + n) s2 (st, s3)"
      using Suc.prems(2) ua q1 by auto
    have "same_outside_sectors ?S ?q (?q + Suc n) (content v s) (content v s2)"
      unfolding c2 by (rule same_outside_sectors_blank) simp_all
    moreover have "same_outside_sectors ?S ?q (?q + Suc n) (content v s2) (content v s3)"
      using r(2) by (auto simp: erased_def intro: same_outside_sectors_mono)
    ultimately have "same_outside_sectors ?S ?q (?q + Suc n) (content v s) (content v s3)"
      by (rule same_outside_sectors_trans)
    moreover have "flash_blank (flash_blank (content v s) ?S ?q ?q) ?S (Suc ?q) (?q + Suc n)
        = flash_blank (content v s) ?S ?q (?q + Suc n)" by (rule flash_blank_join) simp_all
    ultimately have "erased v fi ?q (?q + Suc n) s (st, s3)"
      using r(2) c2 keeps_statics_trans [OF k2] by (simp add: erased_def)
    then show ?thesis using step True r(1) by auto
  qed
qed

lemma mask_eq_iff_div:
  fixes x y :: u32
  assumes "k < 32"
  shows "x AND NOT (mask k) = y AND NOT (mask k) \<longleftrightarrow> unat x div 2 ^ k = unat y div 2 ^ k"
proof -
  have "x AND NOT (mask k) = y AND NOT (mask k) \<longleftrightarrow> drop_bit k x = drop_bit k y"
  proof
    assume e: "x AND NOT (mask k) = y AND NOT (mask k)"
    show "drop_bit k x = drop_bit k y"
    proof (rule bit_word_eqI)
      fix n assume "n < LENGTH(32)"
      have "bit (x AND NOT (mask k)) (k + n) = bit (y AND NOT (mask k)) (k + n)" using e by simp
      then show "bit (drop_bit k x) n = bit (drop_bit k y) n"
        by (auto simp: bit_simps dest: bit_imp_le_length)
    qed
  next
    assume e: "drop_bit k x = drop_bit k y"
    show "x AND NOT (mask k) = y AND NOT (mask k)"
    proof (rule bit_word_eqI)
      fix n assume "n < LENGTH(32)"
      have "bit (drop_bit k x) (n - k) = bit (drop_bit k y) (n - k)" using e by simp
      then show "bit (x AND NOT (mask k)) n = bit (y AND NOT (mask k)) n"
        by (cases "k \<le> n") (auto simp: bit_simps)
    qed
  qed
  moreover have "unat (drop_bit k z) = unat z div 2 ^ k" for z :: u32
    by (simp only: unat_drop_bit_eq) (rule drop_bit_eq_div)
  ultimately show ?thesis by (metis word_unat_eq_iff)
qed

lemma div_add_step:
  fixes a c S :: nat
  assumes "0 < S"
  defines "n \<equiv> c div S + 1"
  shows "(if (a + c) div S = (a + n * S) div S then n + 1 else n) = (a + c) div S - a div S + 1"
proof -
  have a: "a = a div S * S + a mod S" and c: "c = c div S * S + c mod S" by simp_all
  have "a + c = (a mod S + c mod S) + (a div S + c div S) * S"
    using a c by (simp add: algebra_simps)
  then have ac: "(a + c) div S = (a mod S + c mod S) div S + (a div S + c div S)"
    using assms(1) by (metis div_mult_self1 less_not_refl add.commute)
  have an: "(a + n * S) div S = a div S + n" using assms(1) by simp
  have "a mod S < S" "c mod S < S" using assms(1) by simp_all
  then have "a mod S + c mod S < S + S" by (rule add_less_mono)
  then have "(a mod S + c mod S) div S = (if a mod S + c mod S < S then 0 else 1)"
    by (auto intro!: div_nat_eqI)
  then show ?thesis using ac an by (simp add: n_def)
qed

lemma unat_add_nowrap: "unat (a :: u32) + unat b < 4294967296 \<Longrightarrow> unat (a + b) = unat a + unat b"
  using unat_add_of_nat [of a "unat b"] by simp

lemma sectors_to_erase_spec:
  assumes "fi \<in> set initial_config_table" "unat a + unat c < unat (FlashDeviceSize fi)"
  shows "unat (sectors_to_erase fi a c) =
    (unat a + unat c) div unat (SectSize fi) - unat a div unat (SectSize fi) + 1"
proof -
  obtain k where k: "k \<in> {16, 17}" "SectSize fi = 2 ^ k" "SectMask fi = NOT (mask k)"
    using table_entry(6) [OF assms(1)] by blast
  have dev: "unat (FlashDeviceSize fi) \<le> 268435456" using table_entry(7) [OF assms(1)] by simp
  have S: "unat (SectSize fi) = 2 ^ k" using k by auto
  let ?S = "2 ^ k :: nat"
  have Sk: "?S \<le> 131072" "0 < ?S" using k(1) by auto
  have cd: "unat c div ?S * ?S \<le> unat c" by simp
  have n: "unat (c div SectSize fi + 1) = unat c div ?S + 1"
  proof -
    have "unat c < 2 ^ 28" using dev assms(2) by simp
    then have "unat c div ?S < 2 ^ 28" by (rule le_less_trans [OF div_le_dividend])
    then have "unat c div ?S + 1 < 2 ^ 32" by simp
    moreover have "unat (c div SectSize fi) = unat c div ?S" using S by (simp add: unat_div)
    ultimately show ?thesis using unat_add_of_nat [of "c div SectSize fi" 1] by simp
  qed
  have ac: "unat (a + c) = unat a + unat c"
    using unat_add_of_nat [of a "unat c"] assms(2) dev by simp
  have "(unat c div ?S + 1) * ?S \<le> unat c + ?S" using cd by simp
  then have le: "unat a + (unat c div ?S + 1) * ?S < 4294967296" "(unat c div ?S + 1) * ?S < 4294967296"
    using assms(2) dev Sk by linarith+
  have "unat ((c div SectSize fi + 1) * SectSize fi) = (unat c div ?S + 1) * ?S"
    using n S le(2) by (simp add: unat_word_ariths)
  then have an: "unat (a + (c div SectSize fi + 1) * SectSize fi) = unat a + (unat c div ?S + 1) * ?S"
    using unat_add_nowrap [of a "(c div SectSize fi + 1) * SectSize fi"] le(1) by (simp only:)
  have eq: "(a + c) AND SectMask fi = (a + (c div SectSize fi + 1) * SectSize fi) AND SectMask fi
      \<longleftrightarrow> (unat a + unat c) div ?S = (unat a + (unat c div ?S + 1) * ?S) div ?S"
    unfolding k(3) using mask_eq_iff_div [of k "a + c" "a + (c div SectSize fi + 1) * SectSize fi"] k(1) ac an by auto
  have n1: "unat (c div SectSize fi + 1 + 1) = unat c div ?S + 1 + 1"
  proof -
    have "unat c < 268435456" using dev assms(2) by simp
    then have "unat c div ?S < 268435456" by (rule le_less_trans [OF div_le_dividend])
    then show ?thesis using unat_add_nowrap [of "c div SectSize fi + 1" 1] n by simp
  qed
  show ?thesis
    unfolding S div_add_step [OF Sk(2), of "unat a" "unat c", symmetric] sectors_to_erase_def Let_def
    by (simp only: if_distrib [of unat] eq n n1)
qed

text \<open>An erase of part of the chip blanks the sectors from that of its first byte to the one its end
  address lies in.\<close>

lemma flash_erase_returns:
  assumes c: "flash_chip drv v fi" and i: "idle v fi s"
    and l: "unat a + unat n < unat (FlashDeviceSize fi)"
  shows "\<exists>r. FlashErase drv a n s = Some r
    \<and> erased v fi (unat a div unat (SectSize fi)) ((unat a + unat n) div unat (SectSize fi)) s r"
proof -
  let ?S = "unat (SectSize fi)"
  note te = flash_chip_entry [OF c]
  have fs: "flash_info s = fi" using i by (simp add: idle_def)
  have "unat (NumSect fi * SectSize fi) = unat (FlashDeviceSize fi)"
    using table_entry(7,9) [OF te] by (simp add: unat_word_ariths)
  then have "n \<noteq> NumSect fi * SectSize fi" using l by auto
  then have e: "FlashErase drv a n s = sector_loop drv (unat (sectors_to_erase fi a n)) a s"
    by (simp add: FlashErase_def fs)
  let ?m = "(unat a + unat n) div ?S - unat a div ?S"
  have m: "unat (sectors_to_erase fi a n) = Suc ?m" using sectors_to_erase_spec [OF te l] by simp
  have le: "unat a div ?S \<le> (unat a + unat n) div ?S" by (simp add: div_le_mono)
  have "unat a + ?S * ?m < unat (FlashDeviceSize fi)"
  proof -
    have dvd: "?S dvd unat (FlashDeviceSize fi)" using table_entry(9) [OF te] by simp
    then obtain d where d: "unat (FlashDeviceSize fi) = ?S * d" by (auto elim: dvdE)
    have "0 < ?S" using table_entry(6) [OF te] by auto
    then have "(unat a + unat n) div ?S < d" using l d by (simp add: div_less_iff_less_mult mult.commute)
    then have "(unat a div ?S + ?m) + 1 \<le> d" using le by simp
    then have "?S * (unat a div ?S + ?m) + ?S \<le> ?S * d" by (metis add_mult_distrib2 mult_le_mono2 mult.right_neutral)
    moreover have "unat a < ?S * (unat a div ?S) + ?S"
      using \<open>0 < ?S\<close> by (metis add.commute dividend_less_times_div mult_Suc_right)
    ultimately show ?thesis using d by (simp add: distrib_left)
  qed
  from sector_loop_returns [OF c i this] show ?thesis using e m le by (simp only: le_add_diff_inverse)
qed

end
