(* ===== verification/Ospi_Props.thy ===== *)
theory Ospi_Props
  imports Ospi_Chip
begin

text \<open>What the firmware gets from the flash: an erase blanks the sectors of its range, a write programs
  whole pages, a copy reproduces its source, and the safe write replaces a range and keeps the rest
  of the sectors it has to erase.\<close>

section \<open>Ranges\<close>

lemma unat_diff_less_iff:
  "unat (a :: u32) + n \<le> 4294967296 \<Longrightarrow> unat (x - a) < n \<longleftrightarrow> unat a \<le> unat x \<and> unat x < unat a + n"
  using unat_u32_less [of x] by (auto simp: unat_sub_if_size word_size split: if_splits)

lemma unat_diff_ge: "unat a \<le> unat x \<Longrightarrow> unat (x - a :: u32) = unat x - unat a"
  by (simp add: unat_sub_if_size)

lemma ff_and: "(0xFF :: u8) AND y = y"
proof -
  have "(0xFF :: u8) = -1" by simp
  then show ?thesis by (simp only: and.left_neutral)
qed

text \<open>The bytes of a range and of the range behind it, by their distance from the start.\<close>

lemma mem_store_at:
  "unat a + length bs \<le> 4294967296 \<Longrightarrow> mem_store m a bs x =
     (if unat a \<le> unat x \<and> unat x < unat a + length bs then bs ! (unat x - unat a) else m x)"
  by (auto simp: mem_store_def unat_diff_less_iff unat_diff_ge)

lemma flash_prog_at:
  "unat a + length bs \<le> 4294967296 \<Longrightarrow> flash_prog m a bs x =
     (if unat a \<le> unat x \<and> unat x < unat a + length bs then m x AND bs ! (unat x - unat a) else m x)"
  by (auto simp: flash_prog_def unat_diff_less_iff unat_diff_ge)

section \<open>The safe write\<close>

text \<open>Erasing the sectors of a range, writing the range, and writing the last sector again with the
  new bytes over its old content amounts to replacing the range.\<close>

lemma safe_write_content:
  assumes a: "unat a = S * q" and n: "n = S * k + r" and ms: "0 < r" "r < S"
    and fit: "unat a + n + S \<le> 4294967296" and la: "unat la = S * (q + k)"
    and sbuf: "sbuf = map (\<lambda>i. buf (i + S * k)) [0..<r] @ drop r (mem_load m la S)"
  shows "flash_prog (flash_prog (flash_blank m S q (q + k)) a (map buf [0..<n])) la sbuf
    = mem_store m a (map buf [0..<n])"
proof
  fix x :: u32
  have S: "0 < S" using ms by simp
  have lb: "length sbuf = S" using sbuf ms by simp
  have la': "unat la = unat a + S * k" using la a by (simp add: distrib_left)
  have sect: "q \<le> unat x div S \<and> unat x div S \<le> q + k \<longleftrightarrow> unat a \<le> unat x \<and> unat x < unat la + S"
  proof -
    have "q \<le> unat x div S \<longleftrightarrow> S * q \<le> unat x" using S by (simp add: less_eq_div_iff_mult_less_eq mult.commute)
    moreover have "unat x div S < q + k + 1 \<longleftrightarrow> unat x < S * (q + k + 1)"
      using S by (simp add: div_less_iff_less_mult mult.commute)
    ultimately show ?thesis using a la by (simp add: less_Suc_eq_le algebra_simps)
  qed
  have fl: "unat la + length sbuf \<le> 4294967296" using la' lb fit n by simp
  have fa: "unat a + length (map buf [0..<n]) \<le> 4294967296" using fit by simp
  have tail: "sbuf ! i = m x" if "r \<le> i" "i < S" "x = la + of_nat i" for i
    using that sbuf by (simp add: nth_append)
  have head: "sbuf ! i = buf (i + S * k)" if "i < r" for i
    using that sbuf by (simp add: nth_append)
  show "flash_prog (flash_prog (flash_blank m S q (q + k)) a (map buf [0..<n])) la sbuf x
    = mem_store m a (map buf [0..<n]) x"
  proof (cases "unat a \<le> unat x \<and> unat x < unat la + S")
    case False
    have "\<not> (unat a \<le> unat x \<and> unat x < unat a + n)" "\<not> (unat la \<le> unat x \<and> unat x < unat la + S)"
      using False la' n ms by auto
    moreover have "flash_blank m S q (q + k) x = m x" unfolding flash_blank_def using False sect by auto
    ultimately show ?thesis
      by (auto simp: flash_prog_at [OF fl] flash_prog_at [OF fa] mem_store_at [OF fa] lb)
  next
    case True
    then have b: "flash_blank m S q (q + k) x = 0xFF" using sect by (simp add: flash_blank_def)
    consider "unat x < unat la" | "unat la \<le> unat x" "unat x < unat a + n" | "unat a + n \<le> unat x" by linarith
    then show ?thesis
    proof cases
      case 1
      have "unat x < unat a + n" using 1 la' n by simp
      then show ?thesis
        using True b 1
        by (simp add: flash_prog_at [OF fl] flash_prog_at [OF fa] mem_store_at [OF fa] ff_and)
    next
      case 2
      have "sbuf ! (unat x - unat la) = buf (unat x - unat a)"
        using 2 la' n head [of "unat x - unat la"] by simp
      moreover have "map buf [0..<n] ! (unat x - unat a) = buf (unat x - unat a)"
      proof -
        have "unat x - unat a < n" using True 2 by linarith
        then show ?thesis by simp
      qed
      ultimately show ?thesis
        using True 2 b lb
        by (simp add: flash_prog_at [OF fl] flash_prog_at [OF fa] mem_store_at [OF fa] ff_and)
    next
      case 3
      have "unat la \<le> unat x" using 3 la' n by simp
      then have "x = la + of_nat (unat x - unat la)" by (metis u32_diff_eq_of_nat unat_diff_ge)
      moreover have "r \<le> unat x - unat la" using 3 la' n by simp
      moreover have "unat x - unat la < S" using True \<open>unat la \<le> unat x\<close> by linarith
      ultimately have "sbuf ! (unat x - unat la) = m x" by (intro tail)
      then show ?thesis
        using True 3 b lb \<open>unat la \<le> unat x\<close>
        by (simp add: flash_prog_at [OF fl] flash_prog_at [OF fa] mem_store_at [OF fa] ff_and)
    qed
  qed
qed

lemma same_outside_to_sectors:
  assumes "same_outside a n m m'" "unat a + n \<le> 4294967296" "S * lo \<le> unat a" "unat a + n \<le> S * (hi + 1)" "0 < S"
  shows "same_outside_sectors S lo hi m m'"
  unfolding same_outside_sectors_def
proof (intro allI impI)
  fix x :: u32
  assume x: "\<not> (lo \<le> unat x div S \<and> unat x div S \<le> hi)"
  have "\<not> (unat a \<le> unat x \<and> unat x < unat a + n)"
  proof
    assume h: "unat a \<le> unat x \<and> unat x < unat a + n"
    then have "S * lo \<le> unat x" "unat x < S * (hi + 1)" using assms(3,4) by linarith+
    then have "lo \<le> unat x div S" "unat x div S < hi + 1"
      using assms(5) by (simp_all add: less_eq_div_iff_mult_less_eq div_less_iff_less_mult mult.commute)
    then show False using x by simp
  qed
  then have "n \<le> unat (x - a)" using unat_diff_less_iff [OF assms(2), of x] not_less by blast
  then show "m' x = m x" using assms(1) by (simp add: same_outside_def)
qed

lemma aligned_bit8: "unat (offset :: u32) mod 2 ^ 9 = 0 \<Longrightarrow> offset AND 256 = 0"
proof -
  assume "unat offset mod 2 ^ 9 = 0"
  then have "take_bit 9 offset = 0" by (simp add: take_bit_eq_mod word_unat_eq_iff unat_mod)
  then have "\<not> bit (take_bit 9 offset) 8" by simp
  then have "\<not> bit offset 8" by (simp add: bit_simps)
  then show ?thesis using and_exp_eq_0_iff_not_bit [of offset 8] by simp
qed

lemma pages_exact: "n mod 256 = 0 \<Longrightarrow> 256 * ((n + 255) div 256) = (n :: nat)"
proof -
  assume "n mod 256 = 0"
  then obtain j where "n = 256 * j" by (auto simp: mod_eq_0_iff_dvd elim: dvdE)
  then show ?thesis by simp
qed

lemma safe_write_returns:
  assumes c: "flash_chip drv v fi" and i: "idle v fi s"
    and al: "unat offset mod unat (SectSize fi) = 0" "unat len mod 256 = 0"
    and r: "unat len mod unat (SectSize fi) \<noteq> 0"
    and l: "unat offset + unat len < unat (FlashDeviceSize fi)"
    and p: "unat len = 256 \<or> 2560 \<le> unat len"
  shows "\<exists>st s'. ospi_flash_safe_write drv True CL_FLASH_BOOT buf offset len s = Some (st, s')
    \<and> keeps_statics s s' \<and> same_outside_sectors (unat (SectSize fi)) (unat offset div unat (SectSize fi))
        ((unat offset + unat len) div unat (SectSize fi)) (content v s) (content v s')
    \<and> (st = 0 \<longrightarrow> idle v fi s' \<and> content v s' = mem_store (content v s) offset (map buf [0..<unat len]))"
proof -
  let ?S = "unat (SectSize fi)"
  note te = flash_chip_entry [OF c]
  define q where "q = unat offset div ?S"
  define k where "k = unat len div ?S"
  define rest where "rest = unat len mod ?S"
  have S: "?S \<in> {0x10000, 0x20000}" using table_entry(6) [OF te] by auto
  have dev: "unat (FlashDeviceSize fi) \<le> 268435456" using table_entry(7) [OF te] by simp
  have n: "unat len = ?S * k + rest" by (simp add: k_def rest_def)
  have a: "unat offset = ?S * q" using al(1) by (metis q_def add.right_neutral mult_div_mod_eq)
  have rs: "0 < rest" "rest < ?S" using r S by (auto simp: rest_def)
  obtain d where d: "unat (FlashDeviceSize fi) = ?S * d" using table_entry(9) [OF te] by (metis mult.commute)
  have "?S * (q + k) < ?S * d" using l a n d by (simp add: distrib_left)
  then have "q + k + 1 \<le> d" by simp
  then have "?S * (q + k + 1) \<le> ?S * d" by (rule mult_le_mono2)
  then have fit: "?S * (q + k) + ?S \<le> unat (FlashDeviceSize fi)" using d by (simp add: distrib_left)
  have qk: "(unat offset + unat len) div ?S = q + k"
    using a n rs by (simp add: div_add1_eq [of "?S * q"])
  define rw where "rw = len mod SectSize fi"
  have urw: "unat rw = rest" by (simp add: rw_def rest_def unat_mod)
  have ulo: "unat (len - rw) = ?S * k" using n urw by (simp add: unat_sub word_le_nat_alt)
  have ula: "unat (offset + (len - rw)) = ?S * (q + k)"
    using unat_add_nowrap [of offset "len - rw"] ulo a fit dev by (simp add: distrib_left)
  let ?la = "offset + (len - rw)"
  have "2 ^ 9 dvd unat offset" using a S by auto
  then have al256: "offset AND OSPI_VERSAL_PAGESIZE = 0"
    using aligned_bit8 [of offset] by (simp add: OSPI_VERSAL_PAGESIZE_def dvd_eq_mod_eq_0)
  obtain st1 sbuf s1 where rd: "ospi_flash_read drv CL_FLASH_BOOT ?la (SectSize fi) s = Some (st1, sbuf, s1)"
      "idle v fi s1" "content v s1 = content v s" "keeps_statics s s1" "st1 = 0 \<or> st1 = XST_FAILURE"
      "st1 = 0 \<longrightarrow> sbuf = mem_load (content v s) ?la ?S"
    using flash_read_returns [OF c i, of CL_FLASH_BOOT ?la "SectSize fi"] ula fit
    by (auto simp: RPU_PDI_ADDRESS_def)
  define erase_write where "erase_write = (\<lambda>s1. Option.bind (ospi_flash_erase drv CL_FLASH_BOOT offset len s1)
    (\<lambda>(ret, s2). if ret \<noteq> 0 then Some (ret, s2) else ospi_flash_write drv CL_FLASH_BOOT buf offset len s2))"
  have sect: "OspiSectorSize s = SectSize fi" "SectSize fi \<noteq> 0" using i S by (auto simp: idle_def)
  have rw0: "rw \<noteq> 0" using urw rs by auto
  have form: "ospi_flash_safe_write drv True CL_FLASH_BOOT buf offset len s =
     (if st1 \<noteq> 0 then Some (st1, s1)
      else Option.bind (Cl_SecureMemcpy sbuf ?S (\<lambda>i. buf (i + unat (len - rw))) (unat rw))
             (\<lambda>sbuf'. Option.bind (erase_write s1)
               (\<lambda>(ret, s2). if ret \<noteq> 0 then Some (ret, s2)
                  else ospi_flash_write drv CL_FLASH_BOOT (\<lambda>i. sbuf' ! i) ?la (SectSize fi) s2)))"
    using al256 sect rw0 rd(1) unfolding rw_def erase_write_def
    by (simp add: ospi_flash_safe_write_def Let_def)
  show ?thesis
  proof (cases "st1 = 0")
    case False
    then show ?thesis using form rd by (auto simp: same_outside_sectors_def)
  next
    case True
    define sbuf' where "sbuf' = map (\<lambda>i. buf (i + ?S * k)) [0..<rest] @ drop rest (mem_load (content v s) ?la ?S)"
    have lb: "length sbuf' = ?S" using rs by (simp add: sbuf'_def)
    have mc: "Cl_SecureMemcpy sbuf ?S (\<lambda>i. buf (i + unat (len - rw))) (unat rw) = Some sbuf'"
      using rd(6) True rs S by (simp add: Cl_SecureMemcpy_def sizes_ok_def urw ulo sbuf'_def)
    obtain st2 s2 where er: "ospi_flash_erase drv CL_FLASH_BOOT offset len s1 = Some (st2, s2)"
        "erased v fi q (q + k) s1 (st2, s2)"
      using flash_erase_returns [OF c rd(2) l] qk by (auto simp: ospi_flash_erase_def RPU_PDI_ADDRESS_def q_def)
    let ?bs = "map buf [0..<unat len]"
    have k2: "keeps_statics s s2" and so2: "same_outside_sectors ?S q (q + k) (content v s) (content v s2)"
      using er(2) rd(3) keeps_statics_trans [OF rd(4)] by (simp_all add: erased_def)
    show ?thesis
    proof (cases "st2 = 0")
      case False
      then have "ospi_flash_safe_write drv True CL_FLASH_BOOT buf offset len s = Some (st2, s2)"
        using form True mc er(1) by (simp add: erase_write_def)
      then show ?thesis using False k2 so2 qk by (simp add: q_def)
    next
      case e0: True
      have i2: "idle v fi s2" and c2: "content v s2 = flash_blank (content v s) ?S q (q + k)"
        using er(2) rd(3) e0 by (simp_all add: erased_def XST_SUCCESS_def)
      have pl: "256 * unat (page_count len) = unat len" using al(2) by (simp add: unat_page_count pages_exact)
      have ps: "256 * unat (page_count (SectSize fi)) = ?S" using S by (auto simp: unat_page_count)
      obtain st3 s3 where w3: "ospi_flash_write drv CL_FLASH_BOOT buf offset len s2 = Some (st3, s3)"
          "wrote v fi offset ?bs s2 (st3, s3)"
      proof -
        have "unat offset mod 8 = 0" using a S by auto
        moreover have "unat (page_count len) \<le> 1 \<or> 10 \<le> unat (page_count len)" using p pl by auto
        ultimately show ?thesis
          using flash_write_returns [OF c i2, of CL_FLASH_BOOT offset len buf] that pl l
          by (auto simp: RPU_PDI_ADDRESS_def)
      qed
      have k3: "keeps_statics s s3" using w3(2) keeps_statics_trans [OF k2] by (simp add: wrote_def)
      have "same_outside_sectors ?S q (q + k) (content v s2) (content v s3)"
        by (rule same_outside_to_sectors [of offset "unat len"])
           (use w3(2) l dev a n rs in \<open>simp_all add: wrote_def distrib_left\<close>)
      then have so3: "same_outside_sectors ?S q (q + k) (content v s) (content v s3)"
        by (rule same_outside_sectors_trans [OF so2])
      show ?thesis
      proof (cases "st3 = 0")
        case False
        then have "ospi_flash_safe_write drv True CL_FLASH_BOOT buf offset len s = Some (st3, s3)"
          using form True mc er(1) e0 w3(1) by (simp add: erase_write_def)
        then show ?thesis using False k3 so3 qk by (simp add: q_def)
      next
        case w0: True
        have i3: "idle v fi s3" and c3: "content v s3 = flash_prog (content v s2) offset ?bs"
          using w3(2) w0 by (simp_all add: wrote_def XST_SUCCESS_def)
        have nth: "map (\<lambda>i. sbuf' ! i) [0..<?S] = sbuf'" using lb map_nth_upt [of ?S sbuf'] by simp
        obtain st4 s4 where w4: "ospi_flash_write drv CL_FLASH_BOOT (\<lambda>i. sbuf' ! i) ?la (SectSize fi) s3 = Some (st4, s4)"
            "wrote v fi ?la sbuf' s3 (st4, s4)"
        proof -
          have "unat ?la mod 8 = 0" using ula S by auto
          moreover have "10 \<le> unat (page_count (SectSize fi))" using ps S by auto
          ultimately show ?thesis
            using flash_write_returns [OF c i3, of CL_FLASH_BOOT ?la "SectSize fi" "\<lambda>i. sbuf' ! i"] that ps ula fit nth
            by (auto simp: RPU_PDI_ADDRESS_def)
        qed
        have k4: "keeps_statics s s4" using w4(2) keeps_statics_trans [OF k3] by (simp add: wrote_def)
        have "same_outside_sectors ?S q (q + k) (content v s3) (content v s4)"
          by (rule same_outside_to_sectors [of ?la ?S])
             (use w4(2) ula fit dev lb S in \<open>auto simp: wrote_def distrib_left\<close>)
        then have so4: "same_outside_sectors ?S q (q + k) (content v s) (content v s4)"
          by (rule same_outside_sectors_trans [OF so3])
        have "st4 = 0 \<longrightarrow> idle v fi s4 \<and> content v s4 = mem_store (content v s) offset ?bs"
          using w4(2) c3 c2 safe_write_content [OF a n rs _ ula sbuf'_def] l dev S
          by (auto simp: wrote_def XST_SUCCESS_def)
        moreover have "ospi_flash_safe_write drv True CL_FLASH_BOOT buf offset len s = Some (st4, s4)"
          using form True mc er(1) e0 w3(1) w0 w4(1) by (simp add: erase_write_def)
        ultimately show ?thesis using k4 so4 qk by (simp add: q_def)
      qed
    qed
  qed
qed

section \<open>The copy\<close>

lemma wrote_Nil: "idle v fi s \<Longrightarrow> wrote v fi a [] s (0, s)"
  by (simp add: wrote_def idle_def)

lemma copy_loop_returns:
  assumes c: "flash_chip drv v fi" and al: "unat tgt mod 8 = 0"
    and l: "unat src + 256 * K \<le> unat (FlashDeviceSize fi)" "unat tgt + 256 * K \<le> unat (FlashDeviceSize fi)"
    and dj: "disjoint_ranges tgt (256 * K) src (256 * K)" and K: "K = unat len div 256 + 1" and len: "len \<noteq> 0"
  shows "idle v fi s \<Longrightarrow> k + n = K \<Longrightarrow>
    \<exists>r. copy_loop drv CL_FLASH_BOOT src tgt len (of_nat (256 * k)) s = Some r
      \<and> wrote v fi (tgt + of_nat (256 * k)) (mem_load (content v s) (src + of_nat (256 * k)) (256 * n)) s r"
proof (induct n arbitrary: k s)
  case 0
  have "unat len < 256 * k" using 0 K by auto
  moreover have dev: "unat (FlashDeviceSize fi) \<le> 268435456" using table_entry(7) [OF flash_chip_entry [OF c]] by simp
  have "unat (of_nat (256 * k) :: u32) = 256 * k" using 0 l(1) dev by (intro unat_of_nat_u32) simp
  ultimately have "\<not> of_nat (256 * k) \<le> len" by (simp only: word_le_nat_alt not_le)
  then show ?case
    using 0 wrote_Nil by (subst copy_loop.simps) (simp add: mem_load_def del: of_nat_mult)
next
  case (Suc n)
  have dev: "unat (FlashDeviceSize fi) \<le> 268435456" using table_entry(7) [OF flash_chip_entry [OF c]] by simp
  have small: "256 * k + 256 \<le> 256 * K" "256 * K \<le> 268435456" using Suc.prems(2) l dev by auto
  let ?i = "of_nat (256 * k) :: u32"
  have ui: "unat ?i = 256 * k" using small by (intro unat_of_nat_u32) simp
  have us: "unat (src + ?i) = unat src + 256 * k" "unat (tgt + ?i) = unat tgt + 256 * k"
    using small l dev by (auto intro!: unat_add_of_nat simp del: of_nat_mult)
  have "256 * k \<le> unat len" using K Suc.prems(2) by auto
  then have le: "?i \<le> len" by (simp only: word_le_nat_alt ui)
  have pc: "unat (page_count OSPI_VERSAL_PAGESIZE) = 1" by (simp add: unat_page_count OSPI_VERSAL_PAGESIZE_def)
  have ps: "unat OSPI_VERSAL_PAGESIZE = 256" by (simp add: OSPI_VERSAL_PAGESIZE_def)
  let ?s = "s\<lparr>ospi_percentage := uint (?i * 100 div len)\<rparr>"
  have ip: "idle v fi ?s" using Suc.prems(1) by simp
  obtain st1 rbuf s1 where rd: "ospi_flash_read drv CL_FLASH_BOOT (src + ?i) OSPI_VERSAL_PAGESIZE ?s = Some (st1, rbuf, s1)"
      "idle v fi s1" "content v s1 = content v s" "keeps_statics ?s s1"
      "st1 = 0 \<longrightarrow> rbuf = mem_load (content v s) (src + ?i) 256"
    using flash_read_returns [OF c ip, of CL_FLASH_BOOT "src + ?i" OSPI_VERSAL_PAGESIZE] us ps small l(1)
    by (auto simp: RPU_PDI_ADDRESS_def simp del: of_nat_mult)
  have k1: "keeps_statics s s1" using rd(4) by (simp add: keeps_statics_def flash_info_def)
  have step: "copy_loop drv CL_FLASH_BOOT src tgt len ?i s =
    (if st1 \<noteq> 0 then Some (st1, s1)
     else Option.bind (ospi_flash_write drv CL_FLASH_BOOT (\<lambda>i. rbuf ! i) (tgt + ?i) OSPI_VERSAL_PAGESIZE s1)
       (\<lambda>(ret, s2). if ret \<noteq> 0 then Some (ret, s2)
          else copy_loop drv CL_FLASH_BOOT src tgt len (?i + OSPI_VERSAL_PAGESIZE) s2))"
    using le len rd(1) by (subst copy_loop.simps) (simp del: of_nat_mult)
  let ?xs = "mem_load (content v s) (src + ?i) 256"
  let ?ys = "mem_load (content v s) (src + of_nat (256 * Suc k)) (256 * n)"
  have idx: "src + of_nat (256 * Suc k) = src + ?i + of_nat 256" "tgt + of_nat (256 * Suc k) = tgt + ?i + of_nat 256"
    "?i + OSPI_VERSAL_PAGESIZE = of_nat (256 * Suc k)"
    by (simp_all add: OSPI_VERSAL_PAGESIZE_def)
  have xy: "mem_load (content v s) (src + ?i) (256 * Suc n) = ?xs @ ?ys"
    unfolding idx(1) by (simp add: mem_load_append [symmetric] del: of_nat_mult of_nat_numeral)
  show ?case
  proof (cases "st1 = 0")
    case False
    then show ?thesis
      using step rd k1 by (auto simp: wrote_def idle_def XST_SUCCESS_def simp del: of_nat_mult)
  next
    case r0: True
    have nth: "map (\<lambda>i. rbuf ! i) [0..<256] = ?xs" using rd(5) r0 map_nth_upt [of 256 rbuf] by simp
    have "unat (tgt + ?i) mod 8 = 0" using us al by presburger
    then obtain st2 s2 where w: "ospi_flash_write drv CL_FLASH_BOOT (\<lambda>i. rbuf ! i) (tgt + ?i) OSPI_VERSAL_PAGESIZE s1 = Some (st2, s2)"
        "wrote v fi (tgt + ?i) ?xs s1 (st2, s2)"
      using flash_write_returns [OF c rd(2), of CL_FLASH_BOOT "tgt + ?i" OSPI_VERSAL_PAGESIZE "\<lambda>i. rbuf ! i"] nth pc us small l(2)
      by (auto simp: RPU_PDI_ADDRESS_def simp del: of_nat_mult)
    have w2: "wrote v fi (tgt + ?i) ?xs s (st2, s2)"
      using w(2) rd(3) keeps_statics_trans [OF k1] by (simp add: wrote_def del: of_nat_mult)
    show ?thesis
    proof (cases "st2 = 0")
      case False
      then show ?thesis
        using step r0 w(1) wrote_failed [OF w2, of st2 ?ys] unfolding xy
        by (simp add: XST_SUCCESS_def del: of_nat_mult)
    next
      case w0: True
      have i2: "idle v fi s2" and c2: "content v s2 = flash_prog (content v s) (tgt + ?i) ?xs"
        using w2 w0 by (simp_all add: wrote_def XST_SUCCESS_def del: of_nat_mult)
      from Suc.hyps [OF i2, of "Suc k"] obtain r where
        r: "copy_loop drv CL_FLASH_BOOT src tgt len (of_nat (256 * Suc k)) s2 = Some r"
          "wrote v fi (tgt + of_nat (256 * Suc k)) (mem_load (content v s2) (src + of_nat (256 * Suc k)) (256 * n)) s2 r"
        using Suc.prems(2) by auto
      have same: "mem_load (content v s2) (src + of_nat (256 * Suc k)) (256 * n) = ?ys"
      proof (rule nth_equalityI)
        fix j assume "j < length (mem_load (content v s2) (src + of_nat (256 * Suc k)) (256 * n))"
        then have j: "j < 256 * n" by simp
        let ?x = "src + of_nat (256 * Suc k) + of_nat j"
        have x: "?x = src + of_nat (256 * Suc k + j)" by (simp add: algebra_simps)
        have jK: "256 * Suc k + j < 256 * K" using j Suc.prems(2) by simp
        have "256 * K \<le> unat (?x - tgt)"
          unfolding x using disjoint_ranges_offset [OF dj jK] jK by simp
        then have "256 \<le> unat (?x - (tgt + of_nat (256 * k)))"
          using unat_diff_add [of "256 * k" ?x tgt] small by auto
        then have "content v s2 ?x = content v s ?x" unfolding c2 flash_prog_def by (simp del: of_nat_mult)
        then show "mem_load (content v s2) (src + of_nat (256 * Suc k)) (256 * n) ! j = ?ys ! j"
          using j by (simp del: of_nat_mult of_nat_Suc mult_Suc_right)
      qed simp
      have "wrote v fi (tgt + ?i) (?xs @ ?ys) s r"
      proof (rule wrote_then)
        show "wrote v fi (tgt + ?i) ?xs s (XST_SUCCESS, s2)" using w2 w0 by (simp add: XST_SUCCESS_def)
        show "wrote v fi (tgt + ?i + of_nat (length ?xs)) ?ys s2 r"
          using r(2) unfolding same idx(2) by simp
      qed (use small Suc.prems(2) in simp_all)
      then show ?thesis using step r0 w(1) w0 r(1) unfolding xy idx(3) by simp
    qed
  qed
qed

section \<open>A chip\<close>

text \<open>An instance: a chip that keeps its content, needs a write enable for every change and is busy
  for two status polls after one.\<close>

record sim_chip =
  sim_cells :: mem
  sim_wel :: bool
  sim_busy :: nat

definition sim_poll :: "xospi_msg \<Rightarrow> sim_chip \<Rightarrow> int \<times> u8 list \<times> sim_chip" where
  "sim_poll m d =
     (if Opcode m = 0x06 then (0, [], d\<lparr>sim_wel := True\<rparr>)
      else if Opcode m = 0x70
      then (0, [if sim_busy d = 0 then 0x80 else 0], d\<lparr>sim_busy := sim_busy d - 1\<rparr>)
      else if Opcode m = 0xCC then (0, mem_load (sim_cells d) (Addr m) (unat (ByteCount m)), d)
      else if Opcode m = 0x12 \<and> sim_wel d
      then (0, [], \<lparr> sim_cells = flash_prog (sim_cells d) (Addr m) (TxBfr m), sim_wel = False, sim_busy = 2 \<rparr>)
      else if Opcode m = 0xDC \<and> sim_wel d
      then (0, [], \<lparr> sim_cells = flash_blank (sim_cells d) 0x20000 (unat (Addr m) div 0x20000) (unat (Addr m) div 0x20000),
                    sim_wel = False, sim_busy = 2 \<rparr>)
      else (0, [], d))"

definition sim_driver :: "sim_chip ospi_driver" where
  "sim_driver = \<lparr> drv_poll = sim_poll, drv_select = (\<lambda>b d. (0, d)), drv_set_mode = (\<lambda>m d. (0, d)),
     drv_auto_polling = (\<lambda>m d. d), drv_reset = (\<lambda>d. (0, d)), drv_has_config = (\<lambda>d. True),
     drv_cfg_init = (\<lambda>d. (0, d)), drv_set_idac = (\<lambda>d. d), drv_set_prescaler = (\<lambda>d. d),
     drv_set_device_id = (\<lambda>w d. d), drv_delay = (\<lambda>d. d), drv_ddr_phy = (\<lambda>d. False),
     drv_idac_mode = (\<lambda>d. True), drv_dac_mode = (\<lambda>d. False), drv_dac_option = (\<lambda>d. False),
     drv_stacked = (\<lambda>d. False), drv_extra_dummy = (\<lambda>d. 0) \<rparr>"

definition sim_view :: "sim_chip chip_view" where
  "sim_view = \<lparr> up = (\<lambda>d. True), cells = sim_cells, wel = sim_wel, busy = sim_busy \<rparr>"

definition sim_info :: FlashInfo where
  "sim_info = octal_flash 0x2c5b1c 0x20000 0x800 0x100000 0x10000000 0xFFFE0000"

definition sim_start :: "mem \<Rightarrow> sim_chip ospi" where
  "sim_start m = \<lparr> dev = \<lparr> sim_cells = m, sim_wel = False, sim_busy = 0 \<rparr>,
     FlashMsg = \<lparr> Opcode = 0, Addrsize = 0, Addrvalid = False, TxBfr = [], RxBfr = False, ByteCount = 0,
       Flags = MSG_FLAG_TX, Addr = 0, IsDDROpCode = False, Proto = PROTO_NONE, Dummy = 0 \<rparr>,
     FlashMake = 0x2c, FCTIndex = 2, Flash_Config_Table = initial_config_table, ospi_percentage = 0,
     OspiSectorSize = 0x20000 \<rparr>"

lemma sim_info_in_table: "sim_info \<in> set initial_config_table"
  by (simp add: sim_info_def initial_config_table_def)

lemma sim_sizes [simp]: "SectSize sim_info = 0x20000" "FlashDeviceSize sim_info = 0x10000000"
  by (simp_all add: sim_info_def octal_flash_def)

lemma sim_chip_ok: "flash_chip sim_driver sim_view sim_info"
  unfolding flash_chip_def
proof (intro conjI)
  show "driver_laws sim_driver sim_view"
    by (auto simp: driver_laws_def sim_driver_def sim_view_def sim_poll_def XST_SUCCESS_def)
  show "chip_laws sim_driver sim_view (unat (SectSize sim_info)) (unat (FlashDeviceSize sim_info))"
    unfolding chip_laws_def sim_driver_def sim_view_def
    by (auto simp: sim_poll_def first_byte_def split: if_splits)
qed (rule sim_info_in_table)

lemma sim_idle [simp]: "idle sim_view sim_info (sim_start m)"
  by (simp add: idle_def sim_view_def sim_start_def flash_info_def initial_config_table_def sim_info_def octal_flash_def)

lemma sim_content [simp]: "content sim_view (sim_start m) = m"
  by (simp add: sim_view_def sim_start_def)

section \<open>Properties\<close>











end
