(* ===== verification/Rmgmt_Base.thy ===== *)
theory Rmgmt_Base
  imports Cl_Xgq_Client Cl_Xgq_Receive Ospi_Flash
begin

text \<open>What the modules of \<open>rmgmt/\<close> share: the state of the resource management, the environment it
  runs in, the registers of \<open>rmgmt_common.h\<close> and the formatting of its reports.

  The state extends that of the APU client (memory, APU queue, world) with the flash and the handler;
  its buffers, \<open>rh_log\<close> among them, are ranges of the memory.  The environment \<open>board\<close> holds what is
  not part of this component: registers that hardware may change at any access, the passing of time,
  the kernel, the FPGA and power-management libraries, the words a command on the stack is not
  initialised with, the addresses from \<open>xparameters.h\<close>, the flash functions of \<open>cl_flash.h\<close> and the
  functions of \<open>cl_vmc.h\<close>.\<close>

section \<open>Environment and state\<close>

record 'f flash_ops =
  fl_init :: "'f \<Rightarrow> (int \<times> 'f) option"
  fl_read :: "flash_area \<Rightarrow> u32 \<Rightarrow> u32 \<Rightarrow> 'f \<Rightarrow> (int \<times> u8 list \<times> 'f) option"
  fl_write :: "flash_area \<Rightarrow> (nat \<Rightarrow> u8) \<Rightarrow> u32 \<Rightarrow> u32 \<Rightarrow> 'f \<Rightarrow> (int \<times> 'f) option"
  fl_copy :: "flash_area \<Rightarrow> u32 \<Rightarrow> u32 \<Rightarrow> u32 \<Rightarrow> 'f \<Rightarrow> (int \<times> 'f) option"
  fl_erase :: "flash_area \<Rightarrow> u32 \<Rightarrow> u32 \<Rightarrow> 'f \<Rightarrow> (int \<times> 'f) option"
  fl_safe_write :: "flash_area \<Rightarrow> (nat \<Rightarrow> u8) \<Rightarrow> u32 \<Rightarrow> u32 \<Rightarrow> 'f \<Rightarrow> (int \<times> 'f) option"
  fl_progress :: "'f \<Rightarrow> int"

text \<open>The OSPI driver provides them; \<open>heap_ok\<close> is whether the safe write finds its memory.\<close>

definition ospi_ops :: "'d ospi_driver \<Rightarrow> bool \<Rightarrow> 'd ospi flash_ops" where
  "ospi_ops drv heap_ok = \<lparr> fl_init = ospi_flash_init drv, fl_read = ospi_flash_read drv,
     fl_write = ospi_flash_write drv, fl_copy = ospi_flash_copy drv, fl_erase = ospi_flash_erase drv,
     fl_safe_write = ospi_flash_safe_write drv heap_ok, fl_progress = ospi_flash_progress \<rparr>"

record 'w vmc_ops =
  vmc_ready :: "'w \<Rightarrow> bool"
  vmc_throttling_disable :: "'w \<Rightarrow> int \<times> 'w"
  vmc_throttling_enable :: "'w \<Rightarrow> int \<times> 'w"
  vmc_throttled :: "'w \<Rightarrow> u8"
  vmc_scfw_version :: "'w \<Rightarrow> (u8 \<times> u8 \<times> u8) \<times> 'w"

text \<open>The vendor's driver of the inter-processor interrupt.\<close>

record 'w ipi_ops =
  ipi_lookup :: "'w \<Rightarrow> bool"
  ipi_cfg_init :: "'w \<Rightarrow> int \<times> 'w"
  ipi_clear :: "u32 \<Rightarrow> 'w \<Rightarrow> 'w"
  ipi_enable :: "u32 \<Rightarrow> 'w \<Rightarrow> 'w"
  ipi_status :: "'w \<Rightarrow> u32 \<times> 'w"
  ipi_write :: "u32 list \<Rightarrow> 'w \<Rightarrow> int \<times> 'w"
  ipi_trigger :: "'w \<Rightarrow> int \<times> 'w"
  ipi_poll :: "u32 \<Rightarrow> 'w \<Rightarrow> int \<times> 'w"
  ipi_read :: "'w \<Rightarrow> (int \<times> u32) \<times> 'w"

text \<open>What FreeRTOS reports of a task; the base priority, the high-water mark of the stack, its base
  and the run time.\<close>

datatype eTaskState = eRunning | eReady | eBlocked | eSuspended | eDeleted | eInvalid

record task_status =
  pcTaskName :: "u8 list"
  eCurrentState :: eTaskState
  uxBasePriority :: u32
  usStackHighWaterMark :: u32
  pxStackBase :: u32
  ulRunTimeCounter :: u32

record ('w, 'f) board = "'w world" +
  b_read32 :: "u32 \<Rightarrow> 'w \<Rightarrow> u32 \<times> 'w"
  b_write32 :: "u32 \<Rightarrow> u32 \<Rightarrow> 'w \<Rightarrow> 'w"
  b_mdelay :: "nat \<Rightarrow> 'w \<times> mem \<Rightarrow> 'w \<times> mem"
  b_malloc :: "u32 \<Rightarrow> 'w \<Rightarrow> u32 \<times> 'w"
  b_free :: "u32 \<Rightarrow> 'w \<Rightarrow> 'w"
  b_rtos :: "'w rtos"
  b_flash :: "'f flash_ops"
  b_vmc :: "'w vmc_ops"
  b_fpga_init :: "'w \<Rightarrow> int \<times> 'w"
  b_bitstream_load :: "u32 \<Rightarrow> u32 \<Rightarrow> mem \<Rightarrow> 'w \<Rightarrow> int \<times> 'w"
  b_ipi :: "'w ipi_ops"
  b_xilpm_init :: "'w \<Rightarrow> int \<times> 'w"
  b_shutdown :: "bool \<Rightarrow> 'w \<Rightarrow> int \<times> 'w"
  b_task_count :: "'w \<Rightarrow> u32"
  b_task_stats :: "u32 \<Rightarrow> 'w \<Rightarrow> task_status list \<times> u32"
  b_heap_stats :: "'w \<Rightarrow> u32 list"
  PR_ISOLATION :: u32
  UCS_CONTROL_STATUS :: u32
  FIREWALL_USER :: u32
  GAPPING_DEMAND :: u32
  ACLK_KERNEL :: "u32 \<times> u32"
  ACLK_FREQ_0 :: u32
  ACLK_FREQ_KERNEL :: "u32 \<times> u32"
  FORCE_RESET :: "u32 option"
  PRELOAD_FPT :: u32
  STDIN_OUT :: "u32 \<times> u32"
  SQ_CQ_BASES :: "u32 list"
  STACK_WORDS :: "u32 list"
  SIZEOF_TASK_STATUS :: u32
  BUILD_XRT_ONLY :: bool
  BUILD_VERSION :: "(string \<times> string \<times> string \<times> string \<times> string \<times> string) option"

record ('w, 'f) rmgmt = "'w client" +
  rm_flash :: 'f
  rm_rh :: rmgmt_handler
  rmgmt_is_ready_flag :: bool

text \<open>A call of the APU client works on its part of the state.\<close>

definition on_client :: "('w client \<Rightarrow> 'a \<times> 'w client) \<Rightarrow> ('w, 'f) rmgmt \<Rightarrow> 'a \<times> ('w, 'f) rmgmt" where
  "on_client f s = (case f (client.truncate s) of (r, c) \<Rightarrow> (r, client.extend c (client.more s)))"

definition on_client_opt :: "('w client \<Rightarrow> ('a \<times> 'w client) option) \<Rightarrow> ('w, 'f) rmgmt \<Rightarrow> ('a \<times> ('w, 'f) rmgmt) option" where
  "on_client_opt f s = map_option (\<lambda>(r, c). (r, client.extend c (client.more s))) (f (client.truncate s))"

text \<open>A call that changes the world only.\<close>

definition on_world :: "('w \<Rightarrow> 'a \<times> 'w) \<Rightarrow> ('w, 'f) rmgmt \<Rightarrow> 'a \<times> ('w, 'f) rmgmt" where
  "on_world f s = (case f (cl_world s) of (r, w) \<Rightarrow> (r, s\<lparr>cl_world := w\<rparr>))"

section \<open>Registers and time\<close>

definition reg_read :: "('w, 'f) board \<Rightarrow> u32 \<Rightarrow> ('w, 'f) rmgmt \<Rightarrow> u32 \<times> ('w, 'f) rmgmt" where
  "reg_read bd addr s = (case b_read32 bd addr (cl_world s) of (v, w) \<Rightarrow> (v, s\<lparr>cl_world := w\<rparr>))"

definition reg_write :: "('w, 'f) board \<Rightarrow> u32 \<Rightarrow> u32 \<Rightarrow> ('w, 'f) rmgmt \<Rightarrow> ('w, 'f) rmgmt" where
  "reg_write bd val addr s = s\<lparr>cl_world := b_write32 bd val addr (cl_world s)\<rparr>"

definition MDELAY :: "('w, 'f) board \<Rightarrow> nat \<Rightarrow> ('w, 'f) rmgmt \<Rightarrow> ('w, 'f) rmgmt" where
  "MDELAY bd n s = (case b_mdelay bd n (cl_world s, cl_mem s) of (w, m) \<Rightarrow> s\<lparr>cl_world := w, cl_mem := m\<rparr>)"

definition VMR_EP_UCS_CHANNEL_2 :: u32 where "VMR_EP_UCS_CHANNEL_2 = 8"

definition VMR_EP_UCS_SHUTDOWN :: "('w, 'f) board \<Rightarrow> u32" where
  "VMR_EP_UCS_SHUTDOWN bd = UCS_CONTROL_STATUS bd + VMR_EP_UCS_CHANNEL_2"

definition axigate_freeze :: "('w, 'f) board \<Rightarrow> ('w, 'f) rmgmt \<Rightarrow> ('w, 'f) rmgmt" where
  "axigate_freeze bd = reg_write bd 0 (PR_ISOLATION bd)"

definition axigate_free :: "('w, 'f) board \<Rightarrow> ('w, 'f) rmgmt \<Rightarrow> ('w, 'f) rmgmt" where
  "axigate_free bd = reg_write bd 3 (PR_ISOLATION bd)"

definition ucs_stop :: "('w, 'f) board \<Rightarrow> ('w, 'f) rmgmt \<Rightarrow> ('w, 'f) rmgmt" where
  "ucs_stop bd = reg_write bd 0 (VMR_EP_UCS_SHUTDOWN bd)"

definition ucs_start :: "('w, 'f) board \<Rightarrow> ('w, 'f) rmgmt \<Rightarrow> ('w, 'f) rmgmt" where
  "ucs_start bd = reg_write bd 1 (VMR_EP_UCS_SHUTDOWN bd)"

section \<open>Flash calls\<close>

definition flash_read ::
    "('w, 'f) board \<Rightarrow> flash_area \<Rightarrow> u32 \<Rightarrow> u32 \<Rightarrow> ('w, 'f) rmgmt \<Rightarrow> (int \<times> u8 list \<times> ('w, 'f) rmgmt) option" where
  "flash_read bd area offset len s =
     map_option (\<lambda>(ret, bs, f). (ret, bs, s\<lparr>rm_flash := f\<rparr>)) (fl_read (b_flash bd) area offset len (rm_flash s))"

definition flash_do ::
    "('f \<Rightarrow> (int \<times> 'f) option) \<Rightarrow> ('w, 'f) rmgmt \<Rightarrow> (int \<times> ('w, 'f) rmgmt) option" where
  "flash_do f s = map_option (\<lambda>(ret, x). (ret, s\<lparr>rm_flash := x\<rparr>)) (f (rm_flash s))"

section \<open>Reports\<close>

text \<open>Texts are bytes.  The conversions are those the formats of the reports use: \<open>%x\<close>, \<open>%d\<close>,
  \<open>%s\<close> and the field width of \<open>%-16s\<close>.\<close>

definition ascii :: "string \<Rightarrow> u8 list" where
  "ascii = map of_char"

definition digit :: "nat \<Rightarrow> u8" where
  "digit d = (if d < 10 then of_nat (48 + d) else of_nat (87 + d))"

fun fmt_base :: "nat \<Rightarrow> nat \<Rightarrow> u8 list" where
  "fmt_base b n = (if b < 2 \<or> n < b then [digit n] else fmt_base b (n div b) @ [digit (n mod b)])"

declare fmt_base.simps [simp del]

definition fmt_hex :: "nat \<Rightarrow> u8 list" where "fmt_hex n = fmt_base 16 n"

definition fmt_dec :: "int \<Rightarrow> u8 list" where
  "fmt_dec i = (if i < 0 then ascii ''-'' @ fmt_base 10 (nat (- i)) else fmt_base 10 (nat i))"

definition fmt_pad :: "nat \<Rightarrow> u8 list \<Rightarrow> u8 list" where
  "fmt_pad width t = t @ replicate (width - length t) 32"

text \<open>\<open>%s\<close> stops at the first zero byte.\<close>

definition fmt_str :: "u8 list \<Rightarrow> u8 list" where
  "fmt_str bs = takeWhile (\<lambda>b. b \<noteq> 0) bs"

definition newline :: "u8 list" where "newline = [10]"
definition tab :: "u8 list" where "tab = [9]"

text \<open>\<open>snprintf (buf, room, ...)\<close>: the count is the length of the whole text, of which at most
  \<open>room - 1\<close> bytes and a terminating zero are stored.\<close>

definition snprintf :: "u32 \<Rightarrow> u32 \<Rightarrow> u8 list \<Rightarrow> mem \<Rightarrow> u32 \<times> mem" where
  "snprintf buf room t m =
     (of_nat (length t), if room = 0 then m else mem_store m buf (take (unat room - 1) t @ [0]))"

end
