(* ===== verification/Rmgmt_Xclbin.thy ===== *)
theory Rmgmt_Xclbin
  imports Cl_Io
begin

text \<open>Model of \<open>rmgmt/rmgmt_xclbin.c\<close> over the layout of \<open>rmgmt/xclbin.h\<close>: an xclbin is a header, an
  array of section headers and the data of the sections, in memory at the address \<open>x\<close>.  The lemmas
  show what removing a section keeps.\<close>

section \<open>The layout (xclbin.h)\<close>

datatype axlf_section_kind =
    BITSTREAM | CLEARING_BITSTREAM | EMBEDDED_METADATA | FIRMWARE | DEBUG_DATA | SCHED_FIRMWARE
  | MEM_TOPOLOGY | CONNECTIVITY | IP_LAYOUT | DEBUG_IP_LAYOUT | DESIGN_CHECK_POINT
  | CLOCK_FREQ_TOPOLOGY | MCS | BMC | BUILD_METADATA | KEYVALUE_METADATA | USER_METADATA
  | DNA_CERTIFICATE | PDI | BITSTREAM_PARTIAL_PDI | PARTITION_METADATA | EMULATION_DATA
  | SYSTEM_METADATA | SOFT_KERNEL | ASK_FLASH | AIE_METADATA | ASK_GROUP_TOPOLOGY
  | ASK_GROUP_CONNECTIVITY | SMARTNIC | AIE_RESOURCES

primrec section_kind_num :: "axlf_section_kind \<Rightarrow> u32" where
  "section_kind_num BITSTREAM = 0"
| "section_kind_num CLEARING_BITSTREAM = 1"
| "section_kind_num EMBEDDED_METADATA = 2"
| "section_kind_num FIRMWARE = 3"
| "section_kind_num DEBUG_DATA = 4"
| "section_kind_num SCHED_FIRMWARE = 5"
| "section_kind_num MEM_TOPOLOGY = 6"
| "section_kind_num CONNECTIVITY = 7"
| "section_kind_num IP_LAYOUT = 8"
| "section_kind_num DEBUG_IP_LAYOUT = 9"
| "section_kind_num DESIGN_CHECK_POINT = 10"
| "section_kind_num CLOCK_FREQ_TOPOLOGY = 11"
| "section_kind_num MCS = 12"
| "section_kind_num BMC = 13"
| "section_kind_num BUILD_METADATA = 14"
| "section_kind_num KEYVALUE_METADATA = 15"
| "section_kind_num USER_METADATA = 16"
| "section_kind_num DNA_CERTIFICATE = 17"
| "section_kind_num PDI = 18"
| "section_kind_num BITSTREAM_PARTIAL_PDI = 19"
| "section_kind_num PARTITION_METADATA = 20"
| "section_kind_num EMULATION_DATA = 21"
| "section_kind_num SYSTEM_METADATA = 22"
| "section_kind_num SOFT_KERNEL = 23"
| "section_kind_num ASK_FLASH = 24"
| "section_kind_num AIE_METADATA = 25"
| "section_kind_num ASK_GROUP_TOPOLOGY = 26"
| "section_kind_num ASK_GROUP_CONNECTIVITY = 27"
| "section_kind_num SMARTNIC = 28"
| "section_kind_num AIE_RESOURCES = 29"

text \<open>Fields of the structures: \<open>m_header\<close> starts at byte 304 of \<open>struct axlf\<close>, the section headers at
  byte 456; a section header has 40 bytes.\<close>

definition load64 :: "u32 \<Rightarrow> mem \<Rightarrow> u64" where
  "load64 a m = ucast (IO_SYNC_READ32 a m) OR push_bit 32 (ucast (IO_SYNC_READ32 (a + 4) m))"

definition store64 :: "u64 \<Rightarrow> u32 \<Rightarrow> mem \<Rightarrow> mem" where
  "store64 v a m = mem_store m a (bytes_of_u32 (ucast v) @ bytes_of_u32 (ucast (drop_bit 32 v)))"

definition m_length :: "u32 \<Rightarrow> mem \<Rightarrow> u64" where "m_length x m = load64 (x + 304) m"
definition m_numSections :: "u32 \<Rightarrow> mem \<Rightarrow> u32" where "m_numSections x m = IO_SYNC_READ32 (x + 448) m"

definition section_hdr :: "u32 \<Rightarrow> nat \<Rightarrow> u32" where "section_hdr x i = x + of_nat (456 + 40 * i)"

definition m_sectionKind :: "u32 \<Rightarrow> nat \<Rightarrow> mem \<Rightarrow> u32" where
  "m_sectionKind x i m = IO_SYNC_READ32 (section_hdr x i) m"

definition m_sectionOffset :: "u32 \<Rightarrow> nat \<Rightarrow> mem \<Rightarrow> u64" where
  "m_sectionOffset x i m = load64 (section_hdr x i + 24) m"

definition m_sectionSize :: "u32 \<Rightarrow> nat \<Rightarrow> mem \<Rightarrow> u64" where
  "m_sectionSize x i m = load64 (section_hdr x i + 32) m"

definition XCLBIN_MAX_NUM_SECTION :: u32 where "XCLBIN_MAX_NUM_SECTION = 0x10000"

section \<open>Finding a section\<close>

primrec section_loop :: "u32 \<Rightarrow> u32 \<Rightarrow> mem \<Rightarrow> nat \<Rightarrow> nat \<Rightarrow> nat option" where
  "section_loop x kind m 0 i = None"
| "section_loop x kind m (Suc n) i =
     (if m_sectionKind x i m = kind then Some i else section_loop x kind m n (Suc i))"

definition rmgmt_xclbin_get_section_hdr :: "u32 \<Rightarrow> u32 \<Rightarrow> mem \<Rightarrow> nat option" where
  "rmgmt_xclbin_get_section_hdr x kind m =
     (if m_numSections x m > XCLBIN_MAX_NUM_SECTION then None
      else section_loop x kind m (unat (m_numSections x m)) 0)"

definition rmgmt_xclbin_check_section_hdr :: "u64 \<Rightarrow> u64 \<Rightarrow> u64 \<Rightarrow> int" where
  "rmgmt_xclbin_check_section_hdr offset len xclbin_len = (if offset + len > xclbin_len then -1 else 0)"

definition rmgmt_xclbin_section_info :: "u32 \<Rightarrow> axlf_section_kind \<Rightarrow> mem \<Rightarrow> int + u64 \<times> u64" where
  "rmgmt_xclbin_section_info x kind m =
     (case rmgmt_xclbin_get_section_hdr x (section_kind_num kind) m of
        None \<Rightarrow> Inl (-1)
      | Some i \<Rightarrow>
          let err = rmgmt_xclbin_check_section_hdr (m_sectionOffset x i m) (m_sectionSize x i m) (m_length x m)
          in if err \<noteq> 0 then Inl err else Inr (m_sectionOffset x i m, m_sectionSize x i m))"

text \<open>\<open>malloc_ok\<close> is whether the heap has \<open>size\<close> bytes.  Pointers and sizes of copies are 32 bits wide.\<close>

definition rmgmt_xclbin_get_section ::
    "bool \<Rightarrow> u32 \<Rightarrow> axlf_section_kind \<Rightarrow> mem \<Rightarrow> int + u8 list \<times> u64" where
  "rmgmt_xclbin_get_section malloc_ok x kind m =
     (case rmgmt_xclbin_section_info x kind m of
        Inl err \<Rightarrow> Inl err
      | Inr (offset, len) \<Rightarrow>
          if \<not> malloc_ok then Inl (-1)
          else Inr (mem_load m (x + ucast offset) (unat (ucast len :: u32)), len))"

text \<open>The magic \<open>xclbin2\<close> with its terminating zero.\<close>

definition VMR_XCLBIN_V2 :: "u8 list" where
  "VMR_XCLBIN_V2 = [0x78, 0x63, 0x6c, 0x62, 0x69, 0x6e, 0x32, 0]"

definition rmgmt_xclbin_validate :: "u32 \<Rightarrow> mem \<Rightarrow> int" where
  "rmgmt_xclbin_validate x m = (if mem_load m x 8 \<noteq> VMR_XCLBIN_V2 then - EINVAL else 0)"

section \<open>Removing a section\<close>

text \<open>The two \<open>memcpy\<close> calls move bytes to lower addresses, with ranges that may overlap; they are
  modelled as moving the bytes as they are before the call.\<close>

definition mem_move :: "u32 \<Rightarrow> u32 \<Rightarrow> u32 \<Rightarrow> mem \<Rightarrow> mem" where
  "mem_move dst src len m = mem_store m dst (mem_load m src (unat len))"

function shift_offsets :: "u32 \<Rightarrow> u64 \<Rightarrow> nat \<Rightarrow> mem \<Rightarrow> mem" where
  "shift_offsets x d i m =
     (if i < unat (m_numSections x m)
      then shift_offsets x d (Suc i) (store64 (m_sectionOffset x i m - d) (section_hdr x i + 24) m)
      else m)"
  by auto
termination
proof (relation "measure (\<lambda>(x, d, i, m). 2 ^ 32 - i)")
  fix x :: u32 and d :: u64 and i :: nat and m :: mem
  assume "i < unat (m_numSections x m)"
  then have "i < 2 ^ 32" using unat_u32_less [of "m_numSections x m"] by simp
  then show "((x, d, Suc i, store64 (m_sectionOffset x i m - d) (section_hdr x i + 24) m), x, d, i, m)
      \<in> measure (\<lambda>(x, d, i, m). 2 ^ 32 - i)" by simp
qed simp

declare shift_offsets.simps [simp del]

definition cut_data :: "u32 \<Rightarrow> nat \<Rightarrow> mem \<Rightarrow> mem" where
  "cut_data x i m =
     (let bufferSize = m_length x m;
          startTo = m_sectionOffset x i m;
          startFrom = (if i + 1 = unat (m_numSections x m)
                       then m_sectionOffset x i m + m_sectionSize x i m
                       else m_sectionOffset x (i + 1) m);
          bytesToCopy = bufferSize - startFrom;
          bytesRemoved = startFrom - startTo;
          m1 = (if bytesToCopy \<noteq> 0
                then mem_move (x + ucast startTo) (x + ucast startFrom) (ucast bytesToCopy) m else m)
      in shift_offsets x bytesRemoved (i + 1) (store64 (m_length x m1 - bytesRemoved) (x + 304) m1))"

definition cut_header :: "u32 \<Rightarrow> nat \<Rightarrow> mem \<Rightarrow> mem" where
  "cut_header x i m =
     (let bytesToShift = m_length x m - of_nat (456 + 40 * (i + 1));
          m1 = mem_move (section_hdr x i) (section_hdr x (i + 1)) (ucast bytesToShift) m;
          m2 = IO_SYNC_WRITE32 (m_numSections x m1 - 1) (x + 448) m1
      in shift_offsets x 40 0 (store64 (m_length x m2 - 40) (x + 304) m2))"

definition clear_last :: "u32 \<Rightarrow> mem \<Rightarrow> mem" where
  "clear_last x m = store64 0 (section_hdr x 0 + 32) (store64 0 (section_hdr x 0 + 24)
     (IO_SYNC_WRITE32 0 (section_hdr x 0) (IO_SYNC_WRITE32 0 (x + 448) m)))"

definition remove_at :: "u32 \<Rightarrow> nat \<Rightarrow> mem \<Rightarrow> mem" where
  "remove_at x i m = (let m1 = cut_data x i m
     in if m_numSections x m1 = 1 then clear_last x m1 else cut_header x i m1)"

function remove_loop :: "u32 \<Rightarrow> u32 \<Rightarrow> nat \<Rightarrow> mem \<Rightarrow> mem" where
  "remove_loop x kind i m =
     (if i < unat (m_numSections x m)
      then if m_sectionKind x i m \<noteq> kind then remove_loop x kind (Suc i) m
           else remove_loop x kind (Suc i) (remove_at x i m)
      else m)"
  by auto
termination
proof (relation "measure (\<lambda>(x, kind, i, m). 2 ^ 32 - i)")
  fix x kind :: u32 and i :: nat and m :: mem
  assume "i < unat (m_numSections x m)"
  then have i: "i < 2 ^ 32" using unat_u32_less [of "m_numSections x m"] by simp
  show "((x, kind, Suc i, m), x, kind, i, m) \<in> measure (\<lambda>(x, kind, i, m). 2 ^ 32 - i)"
    using i by simp
  show "((x, kind, Suc i, remove_at x i m), x, kind, i, m) \<in> measure (\<lambda>(x, kind, i, m). 2 ^ 32 - i)"
    using i by simp
qed simp

declare remove_loop.simps [simp del]

definition rmgmt_xclbin_section_remove :: "u32 \<Rightarrow> axlf_section_kind \<Rightarrow> mem \<Rightarrow> mem" where
  "rmgmt_xclbin_section_remove x kind m = remove_loop x (section_kind_num kind) 0 m"

section \<open>Bytes and fields of the image\<close>

text \<open>The image is read by the offset from its address; addresses wrap, so every offset below
  \<open>2 ^ 32\<close> names one byte.\<close>

definition byte :: "mem \<Rightarrow> u32 \<Rightarrow> nat \<Rightarrow> u8" where
  "byte m x k = m (x + of_nat k)"

lemma byte_mem_store:
  assumes "k < 2 ^ 32" "a + length bs \<le> 2 ^ 32"
  shows "byte (mem_store m (x + of_nat a) bs) x k =
    (if a \<le> k \<and> k < a + length bs then bs ! (k - a) else byte m x k)"
proof (cases "bs = []")
  case False
  then have a: "a < 2 ^ 32" using assms(2) by (cases bs) auto
  have e: "x + of_nat k - (x + of_nat a) = (of_nat k - of_nat a :: u32)" by simp
  have "unat (of_nat k - of_nat a :: u32) = (if a \<le> k then k - a else k + 2 ^ 32 - a)"
    using a assms(1) by (simp add: unat_sub_if_size word_size unat_of_nat_u32)
  then show ?thesis using assms False by (auto simp: byte_def mem_store_def e)
qed auto

lemma byte_mem_move:
  assumes "k < 2 ^ 32" "a + unat len \<le> 2 ^ 32"
  shows "byte (mem_move (x + of_nat a) (x + of_nat b) len m) x k =
    (if a \<le> k \<and> k < a + unat len then byte m x (b + (k - a)) else byte m x k)"
proof -
  have "mem_load m (x + of_nat b) (unat len) ! (k - a) = byte m x (b + (k - a))" if "k < a + unat len" "a \<le> k"
  proof -
    have "k - a < unat len" using that by simp
    from nth_mem_load [OF this] show ?thesis by (simp only: byte_def of_nat_add add.assoc)
  qed
  then show ?thesis using byte_mem_store [OF assms(1), of a "mem_load m (x + of_nat b) (unat len)" m x] assms(2)
    by (simp add: mem_move_def del: nth_mem_load of_nat_diff)
qed

lemma READ32_cong:
  assumes "\<And>i. i < 4 \<Longrightarrow> byte m' x (k' + i) = byte m x (k + i)"
  shows "IO_SYNC_READ32 (x + of_nat k') m' = IO_SYNC_READ32 (x + of_nat k) m"
proof -
  have "mem_load m' (x + of_nat k') 4 = mem_load m (x + of_nat k) 4"
    by (rule nth_equalityI) (use assms in \<open>simp_all add: byte_def add.assoc\<close>)
  then show ?thesis by (simp add: IO_SYNC_READ32_def)
qed

lemma load64_cong:
  assumes "\<And>i. i < 8 \<Longrightarrow> byte m' x (k' + i) = byte m x (k + i)"
  shows "load64 (x + of_nat k') m' = load64 (x + of_nat k) m"
proof -
  have "IO_SYNC_READ32 (x + of_nat k') m' = IO_SYNC_READ32 (x + of_nat k) m"
    by (rule READ32_cong) (simp add: assms)
  moreover have "IO_SYNC_READ32 (x + of_nat (k' + 4)) m' = IO_SYNC_READ32 (x + of_nat (k + 4)) m"
    by (rule READ32_cong) (use assms [of "4 + i" for i] in \<open>simp add: add.assoc\<close>)
  ultimately show ?thesis by (simp add: load64_def add.assoc)
qed

lemma load64_store64: "load64 a (store64 v a m) = v"
proof -
  let ?lo = "bytes_of_u32 (ucast v)" and ?hi = "bytes_of_u32 (ucast (drop_bit 32 v))"
  let ?m = "store64 v a m"
  have "mem_load ?m a (length (?lo @ ?hi)) = ?lo @ ?hi"
    unfolding store64_def by (rule mem_load_store_same) simp
  then have "mem_load ?m a 4 @ mem_load ?m (a + of_nat 4) 4 = ?lo @ ?hi"
    using mem_load_append [of ?m a 4 4] by simp
  then have "mem_load ?m a 4 = ?lo" "mem_load ?m (a + 4) 4 = ?hi" by simp_all
  then have "load64 a ?m = ucast (ucast v :: u32) OR push_bit 32 (ucast (ucast (drop_bit 32 v) :: u32))"
    by (simp add: load64_def IO_SYNC_READ32_def)
  also have "\<dots> = v" by (rule bit_word_eqI) (auto simp: bit_simps)
  finally show ?thesis .
qed

lemma byte_store64:
  "k < 2 ^ 32 \<Longrightarrow> a + 8 \<le> 2 ^ 32 \<Longrightarrow> \<not> (a \<le> k \<and> k < a + 8) \<Longrightarrow>
   byte (store64 v (x + of_nat a) m) x k = byte m x k"
  by (auto simp: store64_def byte_mem_store bytes_of_u32_def)

lemma byte_WRITE32:
  "k < 2 ^ 32 \<Longrightarrow> a + 4 \<le> 2 ^ 32 \<Longrightarrow> \<not> (a \<le> k \<and> k < a + 4) \<Longrightarrow>
   byte (IO_SYNC_WRITE32 v (x + of_nat a) m) x k = byte m x k"
  by (auto simp: IO_SYNC_WRITE32_def byte_mem_store bytes_of_u32_def)

text \<open>The fields by their offset.\<close>

lemma field_offsets:
  "m_length x = load64 (x + of_nat 304)" "m_numSections x = IO_SYNC_READ32 (x + of_nat 448)"
  "m_sectionKind x i = IO_SYNC_READ32 (x + of_nat (456 + 40 * i))"
  "m_sectionOffset x i = load64 (x + of_nat (480 + 40 * i))"
  "m_sectionSize x i = load64 (x + of_nat (488 + 40 * i))"
  by (auto simp: m_length_def m_numSections_def m_sectionKind_def m_sectionOffset_def
      m_sectionSize_def section_hdr_def add.assoc)

lemma hdr_offset: "section_hdr x i + 24 = x + of_nat (480 + 40 * i)"
  by (simp add: section_hdr_def add.assoc)

lemma sectionOffset_cong:
  "(\<And>i. i < 8 \<Longrightarrow> byte m' x (480 + 40 * t' + i) = byte m x (480 + 40 * t + i)) \<Longrightarrow>
   m_sectionOffset x t' m' = m_sectionOffset x t m"
  unfolding field_offsets(4) by (rule load64_cong)

lemma sectionSize_cong:
  "(\<And>i. i < 8 \<Longrightarrow> byte m' x (488 + 40 * t' + i) = byte m x (488 + 40 * t + i)) \<Longrightarrow>
   m_sectionSize x t' m' = m_sectionSize x t m"
  unfolding field_offsets(5) by (rule load64_cong)

lemma sectionKind_cong:
  "(\<And>i. i < 4 \<Longrightarrow> byte m' x (456 + 40 * t' + i) = byte m x (456 + 40 * t + i)) \<Longrightarrow>
   m_sectionKind x t' m' = m_sectionKind x t m"
  unfolding field_offsets(3) by (rule READ32_cong)

lemma numSections_cong:
  "(\<And>i. i < 4 \<Longrightarrow> byte m' x (448 + i) = byte m x (448 + i)) \<Longrightarrow> m_numSections x m' = m_numSections x m"
  unfolding field_offsets(2) by (rule READ32_cong)

lemma length_cong:
  "(\<And>i. i < 8 \<Longrightarrow> byte m' x (304 + i) = byte m x (304 + i)) \<Longrightarrow> m_length x m' = m_length x m"
  unfolding field_offsets(1) by (rule load64_cong)

lemma shift_offsets_spec:
  assumes "n = unat (m_numSections x m)" "456 + 40 * n \<le> 2 ^ 32"
  shows "(\<forall>t. i \<le> t \<longrightarrow> t < n \<longrightarrow> m_sectionOffset x t (shift_offsets x d i m) = m_sectionOffset x t m - d) \<and>
    (\<forall>k < 2 ^ 32. (\<forall>t. i \<le> t \<longrightarrow> t < n \<longrightarrow> \<not> (480 + 40 * t \<le> k \<and> k < 488 + 40 * t)) \<longrightarrow>
       byte (shift_offsets x d i m) x k = byte m x k)"
  using assms
proof (induction x d i m rule: shift_offsets.induct)
  case (1 x d i m)
  show ?case
  proof (cases "i < unat (m_numSections x m)")
    case True
    let ?m = "store64 (m_sectionOffset x i m - d) (section_hdr x i + 24) m"
    let ?n = n
    have r: "480 + 40 * t + 8 \<le> 2 ^ 32" if "t < ?n" for t using 1(2,3) that by simp
    have b: "byte ?m x k = byte m x k" if "k < 2 ^ 32" "\<not> (480 + 40 * i \<le> k \<and> k < 488 + 40 * i)" for k
      unfolding hdr_offset using that r [of i] True 1(2) by (intro byte_store64) auto
    have num: "m_numSections x ?m = m_numSections x m"
      by (rule numSections_cong, rule b) auto
    have off: "m_sectionOffset x t ?m = m_sectionOffset x t m" if "i < t" "t < ?n" for t
      by (rule sectionOffset_cong, rule b) (use r [OF that(2)] that in auto)
    have off_i: "m_sectionOffset x i ?m = m_sectionOffset x i m - d"
      by (simp add: m_sectionOffset_def load64_store64)
    have ih: "(\<forall>t. Suc i \<le> t \<longrightarrow> t < ?n \<longrightarrow> m_sectionOffset x t (shift_offsets x d (Suc i) ?m) = m_sectionOffset x t ?m - d) \<and>
      (\<forall>k < 2 ^ 32. (\<forall>t. Suc i \<le> t \<longrightarrow> t < ?n \<longrightarrow> \<not> (480 + 40 * t \<le> k \<and> k < 488 + 40 * t)) \<longrightarrow>
         byte (shift_offsets x d (Suc i) ?m) x k = byte ?m x k)"
      using 1(1) [OF True] 1(2,3) unfolding num by blast
    have last: "m_sectionOffset x i (shift_offsets x d (Suc i) ?m) = m_sectionOffset x i ?m"
      by (rule sectionOffset_cong, rule ih [THEN conjunct2, rule_format]) (use r [of i] True 1(2) in auto)
    have e: "shift_offsets x d i m = shift_offsets x d (Suc i) ?m"
      using True by (subst shift_offsets.simps) simp
    show ?thesis unfolding e
    proof (intro conjI allI impI)
      fix t assume t: "i \<le> t" "t < ?n"
      show "m_sectionOffset x t (shift_offsets x d (Suc i) ?m) = m_sectionOffset x t m - d"
      proof (cases "t = i")
        case True then show ?thesis using last off_i by simp
      next
        case False then show ?thesis using t ih off by simp
      qed
    next
      fix k assume k: "k < 2 ^ 32" "\<forall>t. i \<le> t \<longrightarrow> t < ?n \<longrightarrow> \<not> (480 + 40 * t \<le> k \<and> k < 488 + 40 * t)"
      then have "byte ?m x k = byte m x k" using True 1(2) by (intro b) auto
      then show "byte (shift_offsets x d (Suc i) ?m) x k = byte m x k" using ih k by auto
    qed
  next
    case False
    then show ?thesis using 1(2) by (subst (1 2) shift_offsets.simps) auto
  qed
qed

section \<open>Well-formed images\<close>

text \<open>The sections lie behind the headers, in the order of their headers, and inside the length.\<close>

definition xclbin_wf :: "u32 \<Rightarrow> mem \<Rightarrow> bool" where
  "xclbin_wf x m = (let n = unat (m_numSections x m); L = unat (m_length x m)
     in n \<le> 0x10000 \<and> L < 2 ^ 32 \<and> 456 + 40 * n \<le> L
        \<and> (\<forall>i \<in> set [0..<n]. 456 + 40 * n \<le> unat (m_sectionOffset x i m)
             \<and> unat (m_sectionOffset x i m) + unat (m_sectionSize x i m)
                 \<le> (if Suc i < n then unat (m_sectionOffset x (Suc i) m) else L)))"

lemma xclbin_wfD:
  assumes "xclbin_wf x m"
  shows "unat (m_numSections x m) \<le> 65536" "unat (m_length x m) < 2 ^ 32"
    "456 + 40 * unat (m_numSections x m) \<le> unat (m_length x m)"
    "i < unat (m_numSections x m) \<Longrightarrow> 456 + 40 * unat (m_numSections x m) \<le> unat (m_sectionOffset x i m)"
    "i < unat (m_numSections x m) \<Longrightarrow> unat (m_sectionOffset x i m) + unat (m_sectionSize x i m)
      \<le> (if Suc i < unat (m_numSections x m) then unat (m_sectionOffset x (Suc i) m) else unat (m_length x m))"
  using assms by (auto simp: xclbin_wf_def Let_def)

lemma xclbin_wfI:
  assumes "unat (m_numSections x m) = n" "unat (m_length x m) = L" "n \<le> 65536" "L < 2 ^ 32" "456 + 40 * n \<le> L"
    "\<And>i. i < n \<Longrightarrow> 456 + 40 * n \<le> unat (m_sectionOffset x i m)"
    "\<And>i. i < n \<Longrightarrow> unat (m_sectionOffset x i m) + unat (m_sectionSize x i m)
      \<le> (if Suc i < n then unat (m_sectionOffset x (Suc i) m) else L)"
  shows "xclbin_wf x m"
  using assms(3-) unfolding xclbin_wf_def Let_def assms(1,2) by simp

lemma sections_in_order:
  assumes "xclbin_wf x m" "i < j" "j < unat (m_numSections x m)"
  shows "unat (m_sectionOffset x i m) + unat (m_sectionSize x i m) \<le> unat (m_sectionOffset x j m)"
  using assms(2,3)
proof (induct j)
  case (Suc j)
  show ?case
  proof (cases "i = j")
    case True then show ?thesis using xclbin_wfD(5) [OF assms(1), of i] Suc.prems by simp
  next
    case False
    then have "unat (m_sectionOffset x i m) + unat (m_sectionSize x i m) \<le> unat (m_sectionOffset x j m)"
      using Suc by simp
    also have "\<dots> \<le> unat (m_sectionOffset x (Suc j) m)"
      using xclbin_wfD(5) [OF assms(1), of j] Suc.prems by simp
    finally show ?thesis .
  qed
qed simp

lemma section_in_image:
  assumes "xclbin_wf x m" "i < unat (m_numSections x m)"
  shows "unat (m_sectionOffset x i m) + unat (m_sectionSize x i m) \<le> unat (m_length x m)"
proof (cases "Suc i = unat (m_numSections x m)")
  case True then show ?thesis using xclbin_wfD(5) [OF assms] by simp
next
  case False
  let ?l = "unat (m_numSections x m) - 1"
  have l: "i < ?l" "?l < unat (m_numSections x m)" "\<not> Suc ?l < unat (m_numSections x m)"
    using False assms(2) by auto
  then show ?thesis using sections_in_order [OF assms(1) l(1,2)] xclbin_wfD(5) [OF assms(1) l(2)] by simp
qed

text \<open>The bytes of the first section of a kind.\<close>

definition section_data :: "u32 \<Rightarrow> axlf_section_kind \<Rightarrow> mem \<Rightarrow> u8 list option" where
  "section_data x kind m = (case rmgmt_xclbin_section_info x kind m of
     Inl err \<Rightarrow> None | Inr (offset, len) \<Rightarrow> Some (mem_load m (x + ucast offset) (unat len)))"

lemma unat_ucast_u32: "unat (w :: u64) < 2 ^ 32 \<Longrightarrow> unat (ucast w :: u32) = unat w"
  by (simp add: unsigned_ucast_eq take_bit_nat_eq_self)

lemma unat_sub_u64: "unat b \<le> unat a \<Longrightarrow> unat (a - b :: u64) = unat a - unat b"
  by (rule unat_sub) (simp add: word_le_nat_alt)

lemma unat_add_u64: "unat a + unat b < 2 ^ 32 \<Longrightarrow> unat (a + b :: u64) = unat a + unat b"
  using unat_add_lem [of a b] by simp

section \<open>Removing the data and the header of a section\<close>

lemma kind_not_offset: "i < 4 \<Longrightarrow> \<not> (480 + 40 * t \<le> 456 + 40 * s + i \<and> 456 + 40 * s + i < 488 + 40 * (t :: nat))"
  by presburger

lemma size_not_offset: "i < 8 \<Longrightarrow> \<not> (480 + 40 * t \<le> 488 + 40 * s + i \<and> 488 + 40 * s + i < 488 + 40 * (t :: nat))"
  by presburger

text \<open>Section \<open>j\<close> of a well-formed image starts at \<open>S\<close>; what follows it starts at \<open>F\<close>.\<close>

lemma cut_data_spec:
  assumes wf: "xclbin_wf x m" and j: "j < n" and n: "n = unat (m_numSections x m)"
    and S: "S = unat (m_sectionOffset x j m)" and L: "L = unat (m_length x m)"
    and F: "F = (if Suc j < n then unat (m_sectionOffset x (Suc j) m) else S + unat (m_sectionSize x j m))"
  defines "m' \<equiv> cut_data x j m"
  shows "m_numSections x m' = m_numSections x m" "unat (m_length x m') = L - (F - S)"
    "\<And>t. t < n \<Longrightarrow> m_sectionKind x t m' = m_sectionKind x t m"
    "\<And>t. t < n \<Longrightarrow> m_sectionSize x t m' = m_sectionSize x t m"
    "\<And>t. t < n \<Longrightarrow> unat (m_sectionOffset x t m') =
        (if j < t then unat (m_sectionOffset x t m) - (F - S) else unat (m_sectionOffset x t m))"
    "\<And>k. \<lbrakk> k < 2 ^ 32; 456 + 40 * n \<le> k \<rbrakk> \<Longrightarrow>
       byte m' x k = (if S \<le> k \<and> k < L - (F - S) then byte m x (k + (F - S)) else byte m x k)"
proof -
  note w = xclbin_wfD [OF wf, folded n L]
  have S0: "456 + 40 * n \<le> S" using w(4) [OF j] S by simp
  have SF: "S \<le> F" using w(5) [OF j] j S by (auto simp: F)
  have FL: "F \<le> L"
  proof (cases "Suc j < n")
    case True then show ?thesis using section_in_image [OF wf, of "Suc j"] n L by (simp add: F)
  next
    case False then show ?thesis using section_in_image [OF wf, of j] j n L S by (simp add: F)
  qed
  define fr where "fr = (if j + 1 = unat (m_numSections x m) then m_sectionOffset x j m + m_sectionSize x j m
     else m_sectionOffset x (j + 1) m)"
  have fr: "unat fr = F"
  proof (cases "Suc j < n")
    case True then show ?thesis using n by (simp add: fr_def F)
  next
    case False
    then have e: "F = S + unat (m_sectionSize x j m)" by (simp add: F)
    then have "unat (m_sectionOffset x j m) + unat (m_sectionSize x j m) < 2 ^ 32" using S w(2) FL by simp
    then show ?thesis using False j n e S by (simp add: fr_def unat_add_u64)
  qed
  have rem: "unat (fr - m_sectionOffset x j m) = F - S"
    using fr S SF by (simp add: unat_sub_u64)
  have cp: "unat (ucast (m_length x m - fr) :: u32) = L - F"
    using fr L FL w(2) by (simp add: unat_sub_u64 unat_ucast_u32)
  define m1 where "m1 = (if m_length x m - fr \<noteq> 0
     then mem_move (x + ucast (m_sectionOffset x j m)) (x + ucast fr) (ucast (m_length x m - fr)) m else m)"
  have b1: "byte m1 x k = (if S \<le> k \<and> k < S + (L - F) then byte m x (k + (F - S)) else byte m x k)"
    if "k < 2 ^ 32" for k
  proof (cases "m_length x m - fr = 0")
    case True
    then have "L - F = 0" using cp by simp
    then show ?thesis using True by (auto simp: m1_def)
  next
    case False
    have e: "x + ucast (m_sectionOffset x j m) = x + of_nat S" "x + ucast fr = x + of_nat F"
      using S fr by (simp_all flip: fr)
    have "F + (k - S) = k + (F - S)" if "S \<le> k" using that SF by simp
    then show ?thesis using False byte_mem_move [OF that, of S "ucast (m_length x m - fr)" x F m] cp FL SF w(2)
      by (auto simp: m1_def e)
  qed
  define m2 where "m2 = store64 (m_length x m1 - (fr - m_sectionOffset x j m)) (x + 304) m1"
  have b2: "byte m2 x k = byte m1 x k" if "k < 2 ^ 32" "\<not> (304 \<le> k \<and> k < 312)" for k
    using byte_store64 [of k 304 _ x m1] that by (simp add: m2_def)
  have hdr: "byte m2 x k = byte m x k" if "k < 456 + 40 * n" "\<not> (304 \<le> k \<and> k < 312)" for k
    using that b1 [of k] b2 [of k] S0 w(2,3) by simp
  have num2: "m_numSections x m2 = m_numSections x m"
    by (rule numSections_cong, rule hdr) auto
  have m': "m' = shift_offsets x (fr - m_sectionOffset x j m) (j + 1) m2"
    by (simp add: m'_def cut_data_def Let_def m2_def m1_def fr_def)
  have r: "456 + 40 * n \<le> 2 ^ 32" using w(1) by simp
  note sh = shift_offsets_spec [of n x m2 "j + 1" "fr - m_sectionOffset x j m"]
  have sh1: "m_sectionOffset x t m' = m_sectionOffset x t m2 - (fr - m_sectionOffset x j m)"
    if "j < t" "t < n" for t using sh that r n num2 unfolding m' by simp
  have b3: "byte m' x k = byte m2 x k" if "k < 2 ^ 32" "\<And>t. j < t \<Longrightarrow> t < n \<Longrightarrow> \<not> (480 + 40 * t \<le> k \<and> k < 488 + 40 * t)"
    for k using sh that r n num2 unfolding m' by (metis Suc_eq_plus1 Suc_le_eq)
  show "m_numSections x m' = m_numSections x m"
    by (rule numSections_cong) (subst b3, auto simp: hdr)
  have len1: "m_length x m1 = m_length x m"
    by (rule length_cong) (use b1 S0 in auto)
  show "unat (m_length x m') = L - (F - S)"
  proof -
    have "m_length x m' = m_length x m2" by (rule length_cong, rule b3) auto
    also have "\<dots> = m_length x m - (fr - m_sectionOffset x j m)"
      using len1 by (simp add: m2_def m_length_def load64_store64)
    finally show ?thesis using rem L FL SF by (simp add: unat_sub_u64)
  qed
  show "m_sectionKind x t m' = m_sectionKind x t m" if "t < n" for t
  proof (rule sectionKind_cong)
    fix i :: nat assume "i < 4"
    then have "byte m' x (456 + 40 * t + i) = byte m2 x (456 + 40 * t + i)"
      using that w(1) by (intro b3 kind_not_offset) auto
    then show "byte m' x (456 + 40 * t + i) = byte m x (456 + 40 * t + i)" using hdr that \<open>i < 4\<close> by simp
  qed
  show "m_sectionSize x t m' = m_sectionSize x t m" if "t < n" for t
  proof (rule sectionSize_cong)
    fix i :: nat assume "i < 8"
    then have "byte m' x (488 + 40 * t + i) = byte m2 x (488 + 40 * t + i)"
      using that w(1) by (intro b3 size_not_offset) auto
    then show "byte m' x (488 + 40 * t + i) = byte m x (488 + 40 * t + i)" using hdr that \<open>i < 8\<close> by simp
  qed
  have off2: "m_sectionOffset x t m2 = m_sectionOffset x t m" if "t < n" for t
    by (rule sectionOffset_cong, rule hdr) (use that in auto)
  show "unat (m_sectionOffset x t m') =
      (if j < t then unat (m_sectionOffset x t m) - (F - S) else unat (m_sectionOffset x t m))" if t: "t < n" for t
  proof (cases "j < t")
    case True
    have "S + unat (m_sectionSize x j m) \<le> unat (m_sectionOffset x t m)"
      using sections_in_order [OF wf True] t n S by simp
    moreover have "F \<le> unat (m_sectionOffset x t m)"
    proof (cases "t = Suc j")
      case False
      then show ?thesis using sections_in_order [OF wf, of "Suc j" t] t True n F by auto
    qed (use t in \<open>simp add: F\<close>)
    ultimately show ?thesis using True t rem by (simp add: sh1 off2 unat_sub_u64)
  next
    case False
    have "m_sectionOffset x t m' = m_sectionOffset x t m2"
      by (rule sectionOffset_cong, rule b3) (use t False w(1) in auto)
    then show ?thesis using False off2 [OF t] by simp
  qed
  show "byte m' x k = (if S \<le> k \<and> k < L - (F - S) then byte m x (k + (F - S)) else byte m x k)"
    if "k < 2 ^ 32" "456 + 40 * n \<le> k" for k
  proof -
    have "byte m' x k = byte m2 x k" using that by (intro b3) auto
    then show ?thesis using that b2 [of k] b1 [of k] SF FL by auto
  qed
qed

lemma cut_header_spec:
  assumes n: "n = unat (m_numSections x m)" "2 \<le> n" "n \<le> 65536" and j: "j < n"
    and L: "L = unat (m_length x m)" "456 + 40 * n \<le> L" "L < 2 ^ 32"
    and off: "\<forall>t < n. 40 \<le> unat (m_sectionOffset x t m)"
  defines "m' \<equiv> cut_header x j m" and "old \<equiv> \<lambda>t. if t < j then t else Suc t"
  shows "unat (m_numSections x m') = n - 1" "unat (m_length x m') = L - 40"
    "\<And>t. t < n - 1 \<Longrightarrow> m_sectionKind x t m' = m_sectionKind x (old t) m"
    "\<And>t. t < n - 1 \<Longrightarrow> m_sectionSize x t m' = m_sectionSize x (old t) m"
    "\<And>t. t < n - 1 \<Longrightarrow> unat (m_sectionOffset x t m') = unat (m_sectionOffset x (old t) m) - 40"
    "\<And>k. \<lbrakk> k < 2 ^ 32; 416 + 40 * n \<le> k \<rbrakk> \<Longrightarrow>
       byte m' x k = (if k < L - 40 then byte m x (k + 40) else byte m x k)"
proof -
  define len where "len = (ucast (m_length x m - of_nat (456 + 40 * (j + 1))) :: u32)"
  have len: "unat len = L - (456 + 40 * (j + 1))"
  proof -
    have u: "unat (of_nat (456 + 40 * (j + 1)) :: u64) = 456 + 40 * (j + 1)"
      using j n(3) by (simp only: unat_of_nat) (rule mod_less, simp)
    then have "unat (m_length x m - of_nat (456 + 40 * (j + 1))) = L - (456 + 40 * (j + 1))"
      using L j by (subst unat_sub_u64) auto
    then show ?thesis using L by (simp add: len_def unat_ucast_u32)
  qed
  define m1 where "m1 = mem_move (section_hdr x j) (section_hdr x (j + 1)) len m"
  have b1: "byte m1 x k = (if 456 + 40 * j \<le> k \<and> k < L - 40 then byte m x (k + 40) else byte m x k)"
    if "k < 2 ^ 32" for k
  proof -
    have e: "m1 = mem_move (x + of_nat (456 + 40 * j)) (x + of_nat (496 + 40 * j)) len m"
      by (simp add: m1_def section_hdr_def)
    have r: "456 + 40 * j + unat len = L - 40" using len L j by simp
    have "496 + 40 * j + (k - (456 + 40 * j)) = k + 40" if "456 + 40 * j \<le> k" using that by simp
    then show ?thesis using byte_mem_move [OF that, of "456 + 40 * j" len x "496 + 40 * j" m, folded e] r L
      by (auto simp: add.commute)
  qed
  define m2 where "m2 = IO_SYNC_WRITE32 (m_numSections x m1 - 1) (x + 448) m1"
  define m3 where "m3 = store64 (m_length x m2 - 40) (x + 304) m2"
  have b3: "byte m3 x k = byte m1 x k"
    if "k < 2 ^ 32" "\<not> (304 \<le> k \<and> k < 312)" "\<not> (448 \<le> k \<and> k < 452)" for k
    using that byte_store64 [of k 304 _ x m2] byte_WRITE32 [of k 448 _ x m1] by (simp add: m3_def m2_def)
  have num1: "m_numSections x m1 = m_numSections x m" by (rule numSections_cong) (use b1 in auto)
  have len1: "m_length x m1 = m_length x m" by (rule length_cong) (use b1 in auto)
  have num2: "m_numSections x m2 = m_numSections x m - 1"
    using num1 by (simp add: m2_def m_numSections_def mem_simps)
  have len2: "m_length x m2 = m_length x m"
    unfolding len1 [symmetric] by (rule length_cong) (use byte_WRITE32 [of _ 448 _ x m1] in \<open>simp add: m2_def\<close>)
  have len3: "m_length x m3 = m_length x m - 40"
    using len2 by (simp add: m3_def m_length_def load64_store64)
  have num3: "m_numSections x m3 = m_numSections x m - 1"
    unfolding num2 [symmetric] by (rule numSections_cong) (use byte_store64 [of _ 304 _ x m2] in \<open>simp add: m3_def\<close>)
  have n3: "n - 1 = unat (m_numSections x m3)"
    using n by (simp add: num3 unat_sub word_le_nat_alt)
  have m': "m' = shift_offsets x 40 0 m3"
    by (simp add: m'_def cut_header_def Let_def m3_def m2_def m1_def len_def)
  note sh = shift_offsets_spec [OF n3, of 0 40]
  have sh1: "m_sectionOffset x t m' = m_sectionOffset x t m3 - 40" if "t < n - 1" for t
    using sh n that unfolding m' by simp
  have b4: "byte m' x k = byte m3 x k"
    if "k < 2 ^ 32" "\<And>t. t < n - 1 \<Longrightarrow> \<not> (480 + 40 * t \<le> k \<and> k < 488 + 40 * t)" for k
    using sh n that unfolding m' by simp
  have bh: "byte m3 x (456 + 40 * t + i) = byte m x (456 + 40 * old t + i)" if "t < n - 1" "i < 40" for t i
  proof -
    have "416 + 40 * n \<le> L - 40" "456 + 40 * t + i < 416 + 40 * n" using L that by auto
    then show ?thesis using b3 [of "456 + 40 * t + i"] b1 [of "456 + 40 * t + i"] L that
      by (auto simp: old_def algebra_simps)
  qed
  show "unat (m_numSections x m') = n - 1"
  proof -
    have "m_numSections x m' = m_numSections x m3" by (rule numSections_cong, rule b4) auto
    then show ?thesis using n3 by simp
  qed
  show "unat (m_length x m') = L - 40"
  proof -
    have "m_length x m' = m_length x m3" by (rule length_cong, rule b4) auto
    then show ?thesis using L by (simp add: len3 unat_sub_u64)
  qed
  show "m_sectionKind x t m' = m_sectionKind x (old t) m" if "t < n - 1" for t
  proof (rule sectionKind_cong)
    fix i :: nat assume i: "i < 4"
    then have "byte m' x (456 + 40 * t + i) = byte m3 x (456 + 40 * t + i)"
      using that n by (intro b4 kind_not_offset) auto
    then show "byte m' x (456 + 40 * t + i) = byte m x (456 + 40 * old t + i)" using bh [OF that, of i] i by simp
  qed
  show "m_sectionSize x t m' = m_sectionSize x (old t) m" if t: "t < n - 1" for t
  proof (rule sectionSize_cong)
    fix i :: nat assume i: "i < 8"
    then have "byte m' x (488 + 40 * t + i) = byte m3 x (488 + 40 * t + i)"
      using t n by (intro b4 size_not_offset) auto
    then show "byte m' x (488 + 40 * t + i) = byte m x (488 + 40 * old t + i)"
      using bh [OF t, of "32 + i"] i by (simp add: algebra_simps)
  qed
  have off3: "m_sectionOffset x t m3 = m_sectionOffset x (old t) m" if t: "t < n - 1" for t
  proof (rule sectionOffset_cong)
    fix i :: nat assume "i < 8"
    then show "byte m3 x (480 + 40 * t + i) = byte m x (480 + 40 * old t + i)"
      using bh [OF t, of "24 + i"] by (simp add: algebra_simps)
  qed
  show "unat (m_sectionOffset x t m') = unat (m_sectionOffset x (old t) m) - 40" if t: "t < n - 1" for t
  proof -
    have "40 \<le> unat (m_sectionOffset x (old t) m)" using off t by (auto simp: old_def)
    then show ?thesis by (simp add: sh1 [OF t] off3 [OF t] unat_sub_u64)
  qed
  show "byte m' x k = (if k < L - 40 then byte m x (k + 40) else byte m x k)"
    if "k < 2 ^ 32" "416 + 40 * n \<le> k" for k
  proof -
    have "byte m' x k = byte m3 x k" using that by (intro b4) auto
    then show ?thesis using that b3 [of k] b1 [of k] j by auto
  qed
qed

section \<open>What removing a section keeps\<close>

definition section_bytes :: "u32 \<Rightarrow> mem \<Rightarrow> nat \<Rightarrow> u8 list" where
  "section_bytes x m i = mem_load m (x + ucast (m_sectionOffset x i m)) (unat (m_sectionSize x i m))"

lemma length_section_bytes [simp]: "length (section_bytes x m i) = unat (m_sectionSize x i m)"
  by (simp add: section_bytes_def)

lemma section_bytes_nth:
  "k < unat (m_sectionSize x i m) \<Longrightarrow> section_bytes x m i ! k = byte m x (unat (m_sectionOffset x i m) + k)"
  by (simp add: section_bytes_def byte_def add.assoc)

lemma section_loop_find:
  "section_loop x kind m n i = List.find (\<lambda>t. m_sectionKind x t m = kind) [i..<i + n]"
proof (induct n arbitrary: i)
  case (Suc n)
  have "[i..<i + Suc n] = i # [Suc i..<Suc i + n]" by (simp add: upt_conv_Cons)
  then show ?case using Suc by simp
qed simp

lemma find_index_less: "List.find P [0..<n] = Some i \<Longrightarrow> i < n"
  by (auto simp: find_Some_iff)

lemma section_data_find:
  assumes wf: "xclbin_wf x m"
  shows "section_data x kind m = map_option (section_bytes x m)
    (List.find (\<lambda>t. m_sectionKind x t m = section_kind_num kind) [0..<unat (m_numSections x m)])"
proof -
  have few: "\<not> m_numSections x m > XCLBIN_MAX_NUM_SECTION"
    using xclbin_wfD(1) [OF wf] by (simp add: XCLBIN_MAX_NUM_SECTION_def word_less_nat_alt)
  have ok: "rmgmt_xclbin_check_section_hdr (m_sectionOffset x i m) (m_sectionSize x i m) (m_length x m) = 0"
    if "i < unat (m_numSections x m)" for i
  proof -
    have "unat (m_sectionOffset x i m) + unat (m_sectionSize x i m) \<le> unat (m_length x m)"
      using that by (rule section_in_image [OF wf])
    then have "\<not> m_sectionOffset x i m + m_sectionSize x i m > m_length x m"
      using xclbin_wfD(2) [OF wf] by (simp add: word_less_nat_alt unat_add_u64)
    then show ?thesis by (simp add: rmgmt_xclbin_check_section_hdr_def)
  qed
  show ?thesis
    using few ok find_index_less
    by (auto simp: section_data_def rmgmt_xclbin_section_info_def rmgmt_xclbin_get_section_hdr_def
        section_loop_find section_bytes_def Let_def split: option.splits)
qed

definition old_index :: "nat \<Rightarrow> nat \<Rightarrow> nat" where
  "old_index j t = (if t < j then t else Suc t)"

lemma map_old_index: "j < n \<Longrightarrow> map (old_index j) [0..<n - 1] = [0..<j] @ [Suc j..<n]"
  by (rule nth_equalityI) (auto simp: old_index_def nth_append)

lemma find_map: "List.find P (map f xs) = map_option f (List.find (\<lambda>x. P (f x)) xs)"
  by (induct xs) auto

lemma find_skip: "\<not> P y \<Longrightarrow> List.find P (xs @ y # ys) = List.find P (xs @ ys)"
  by (induct xs) auto

lemma find_old_index:
  assumes "j < n" "\<not> P j"
  shows "List.find P [0..<n] = map_option (old_index j) (List.find (\<lambda>t. P (old_index j t)) [0..<n - 1])"
proof -
  have "[0..<n] = [0..<j] @ j # [Suc j..<n]" using assms(1) 
    using upt_add_eq_append [of 0 j "n - j"] upt_conv_Cons [of j n] by simp
  then show ?thesis using assms 
    by (simp only: find_skip [of P j, OF assms(2)] map_old_index [OF assms(1)] flip: find_map)
qed

lemma clear_last_spec:
  assumes "456 \<le> unat (m_length x m)"
  shows "m_numSections x (clear_last x m) = 0" "m_length x (clear_last x m) = m_length x m"
proof -
  let ?m = "IO_SYNC_WRITE32 0 (x + 448) m"
  have h: "section_hdr x 0 = x + of_nat 456" "section_hdr x 0 + 24 = x + of_nat 480" "section_hdr x 0 + 32 = x + of_nat 488"
    by (simp_all add: section_hdr_def)
  have b: "byte (clear_last x m) x k = byte ?m x k" if "k < 456" for k
    unfolding clear_last_def h(1) [unfolded of_nat_numeral] using that
    by (simp add: byte_store64 [of _ 488, simplified] byte_store64 [of _ 480, simplified]
        byte_WRITE32 [of _ 456, simplified] add.assoc)
  have "m_numSections x (clear_last x m) = m_numSections x ?m" by (rule numSections_cong, rule b) simp
  then show "m_numSections x (clear_last x m) = 0" by (simp add: m_numSections_def mem_simps)
  have "byte ?m x k = byte m x k" if "k < 448" for k
    using byte_WRITE32 [of k 448 0 x m] that by simp
  then show "m_length x (clear_last x m) = m_length x m" by (intro length_cong) (simp add: b)
qed

lemma remove_at_spec:
  assumes wf: "xclbin_wf x m" and j: "j < unat (m_numSections x m)"
  defines "m' \<equiv> remove_at x j m" and "n \<equiv> unat (m_numSections x m)"
  shows "xclbin_wf x m'" "unat (m_numSections x m') = n - 1"
    "\<And>t. t < n - 1 \<Longrightarrow> m_sectionKind x t m' = m_sectionKind x (old_index j t) m
       \<and> section_bytes x m' t = section_bytes x m (old_index j t)"
proof -
  note w = xclbin_wfD [OF wf, folded n_def]
  define S where "S = unat (m_sectionOffset x j m)"
  define L where "L = unat (m_length x m)"
  define F where "F = (if Suc j < n then unat (m_sectionOffset x (Suc j) m) else S + unat (m_sectionSize x j m))"
  define m1 where "m1 = cut_data x j m"
  note c = cut_data_spec [OF wf j [folded n_def] n_def [THEN meta_eq_to_obj_eq] S_def L_def F_def, folded m1_def]
  have S0: "456 + 40 * n \<le> S" using w(4) j by (simp add: S_def n_def)
  have SF: "S + unat (m_sectionSize x j m) \<le> F" using w(5) [of j] j by (auto simp: F_def S_def n_def)
  have FL: "F \<le> L"
  proof (cases "Suc j < n")
    case True then show ?thesis using section_in_image [OF wf, of "Suc j"] by (simp add: F_def L_def n_def)
  next
    case False then show ?thesis using section_in_image [OF wf j] by (simp add: F_def L_def S_def)
  qed
  have n1: "n = unat (m_numSections x m1)" using c(1) by (simp add: n_def)
  have m': "m' = (if n = 1 then clear_last x m1 else cut_header x j m1)"
  proof -
    have "m_numSections x m1 = 1 \<longleftrightarrow> n = 1" using n1 by (metis unat_1 word_unat_eq_iff)
    then show ?thesis by (simp add: m'_def remove_at_def m1_def Let_def)
  qed
  have before: "unat (m_sectionOffset x t m) + unat (m_sectionSize x t m) \<le> S" if "t < j" for t
    using sections_in_order [OF wf that j] by (simp add: S_def)
  have after: "F \<le> unat (m_sectionOffset x t m)" if "j < t" "t < n" for t
  proof (cases "t = Suc j")
    case False
    then show ?thesis using sections_in_order [OF wf, of "Suc j" t] that by (auto simp: F_def n_def)
  qed (use that in \<open>simp add: F_def\<close>)
  have inside: "unat (m_sectionOffset x t m) + unat (m_sectionSize x t m) \<le> L" if "t < n" for t
    using section_in_image [OF wf, of t] that by (simp add: L_def n_def)
  have off1: "unat (m_sectionOffset x t m1) = (if j < t then unat (m_sectionOffset x t m) - (F - S)
      else unat (m_sectionOffset x t m))" if "t < n" for t by (rule c(5) [OF that])
  have low1: "456 + 40 * n \<le> unat (m_sectionOffset x t m1)" if "t < n" "t \<noteq> j" for t
  proof (cases "j < t")
    case True
    then have "S \<le> unat (m_sectionOffset x t m) - (F - S)" using after [OF True that(1)] SF by simp
    then show ?thesis using True S0 that by (simp add: off1)
  qed (use w(4) that in \<open>simp add: off1\<close>)
  have high1: "unat (m_sectionOffset x t m1) + unat (m_sectionSize x t m1) \<le> L - (F - S)" if "t < n" "t \<noteq> j" for t
  proof (cases "j < t")
    case True
    then show ?thesis using inside [OF that(1)] after [OF True that(1)] SF that by (simp add: off1 c(4))
  next
    case False
    then show ?thesis using before [of t] SF FL that by (simp add: off1 c(4))
  qed
  have next1: "unat (m_sectionOffset x s m1) + unat (m_sectionSize x s m1) \<le> unat (m_sectionOffset x t m1)"
    if "s < t" "t < n" "s \<noteq> j" "t \<noteq> j" for s t
  proof -
    have o: "unat (m_sectionOffset x s m) + unat (m_sectionSize x s m) \<le> unat (m_sectionOffset x t m)"
      using sections_in_order [OF wf that(1)] that(2) by (simp add: n_def)
    note st = that
    consider "j < s" | "s < j" "j < t" | "t < j" using st(3,4) linorder_neqE_nat by blast
    then show ?thesis
    proof cases
      case 1
      then show ?thesis using o after [OF 1] SF st by (simp add: off1 c(4))
    next
      case 2
      then show ?thesis using before [OF 2(1)] after [OF 2(2) st(2)] SF st by (simp add: off1 c(4))
    qed (use o st in \<open>simp add: off1 c(4)\<close>)
  qed
  have bytes1: "section_bytes x m1 t = section_bytes x m t" if t: "t < n" "t \<noteq> j" for t
  proof (rule nth_equalityI)
    fix i assume "i < length (section_bytes x m1 t)"
    then have i: "i < unat (m_sectionSize x t m)" by (simp add: section_bytes_def c(4) t)
    let ?k = "unat (m_sectionOffset x t m1) + i"
    have hi: "?k < L - (F - S)" using high1 [OF t] i by (simp add: c(4) t)
    then have "byte m1 x ?k = (if S \<le> ?k then byte m x (?k + (F - S)) else byte m x ?k)"
      using c(6) [of ?k] low1 [OF t] w(2) by (simp add: L_def)
    also have "\<dots> = byte m x (unat (m_sectionOffset x t m) + i)"
    proof (cases "j < t")
      case True
      then have "?k + (F - S) = unat (m_sectionOffset x t m) + i" "S \<le> ?k"
        using after [OF True t(1)] SF t by (auto simp: off1)
      then show ?thesis by (simp only: if_True)
    next
      case False
      then have "?k = unat (m_sectionOffset x t m) + i" "\<not> S \<le> ?k"
        using before [of t] t i by (auto simp: off1)
      then show ?thesis by simp
    qed
    finally show "section_bytes x m1 t ! i = section_bytes x m t ! i"
      using i by (simp add: section_bytes_nth c(4) t)
  qed (simp add: section_bytes_def c(4) t)
  have goals: "unat (m_numSections x m') = n - 1 \<and> xclbin_wf x m' \<and>
    (\<forall>t < n - 1. m_sectionKind x t m' = m_sectionKind x (old_index j t) m
       \<and> section_bytes x m' t = section_bytes x m (old_index j t))"
  proof (cases "n = 1")
    case True
    have "456 \<le> unat (m_length x m1)" using c(2) S0 SF FL by (simp add: L_def)
    note cl = clear_last_spec [OF this]
    have "unat (m_length x m1) < 2 ^ 32" using c(2) w(2) by (simp add: L_def)
    then show ?thesis using True cl \<open>456 \<le> unat (m_length x m1)\<close> by (simp add: m' xclbin_wf_def Let_def)
  next
    case False
    have n2: "2 \<le> n" using False j by (simp add: n_def)
    have L1: "456 + 40 * n \<le> L - (F - S)" using S0 SF FL by simp
    have L2: "L - (F - S) < 2 ^ 32" using w(2) by (simp add: L_def)
    have off40: "\<forall>t < n. 40 \<le> unat (m_sectionOffset x t m1)"
    proof (intro allI impI)
      fix t assume "t < n"
      then show "40 \<le> unat (m_sectionOffset x t m1)"
        using low1 [of t] S0 c(5) [of t] by (cases "t = j") (auto simp: S_def)
    qed
    note h = cut_header_spec [OF n1 n2 w(1) j [folded n_def] c(2) [symmetric, folded L_def] L1 L2 off40]
    have e: "m' = cut_header x j m1" using False by (simp add: m')
    have old: "old_index j t < n" "old_index j t \<noteq> j" if "t < n - 1" for t
      using that j by (auto simp: old_index_def n_def)
    have hk: "m_sectionKind x t m' = m_sectionKind x (old_index j t) m"
      "m_sectionSize x t m' = m_sectionSize x (old_index j t) m1"
      "unat (m_sectionOffset x t m') = unat (m_sectionOffset x (old_index j t) m1) - 40" if "t < n - 1" for t
      using h(3-5) [OF that] c(3) [OF old(1) [OF that]] unfolding e old_index_def by simp_all
    have num: "unat (m_numSections x m') = n - 1" "unat (m_length x m') = L - (F - S) - 40"
      using h(1,2) unfolding e by simp_all
    have wf': "xclbin_wf x m'"
    proof -
      have lo: "456 + 40 * (n - 1) \<le> unat (m_sectionOffset x t m')" if "t < n - 1" for t
        using low1 [OF old [OF that]] n2 that by (simp add: hk)
      have hi: "unat (m_sectionOffset x t m') + unat (m_sectionSize x t m')
          \<le> (if Suc t < n - 1 then unat (m_sectionOffset x (Suc t) m') else L - (F - S) - 40)" if t: "t < n - 1" for t
      proof (cases "Suc t < n - 1")
        case True
        have "old_index j t < old_index j (Suc t)" by (simp add: old_index_def)
        from next1 [OF this old(1) [OF True] old(2) [OF t] old(2) [OF True]]
        show ?thesis using True t low1 [OF old [OF t]] by (simp add: hk)
      next
        case False
        then show ?thesis using high1 [OF old [OF t]] t low1 [OF old [OF t]] by (simp add: hk)
      qed
      show ?thesis
      proof (rule xclbin_wfI [OF num _ _ _ lo hi])
        show "456 + 40 * (n - 1) \<le> L - (F - S) - 40" using L1 n2 by linarith
      qed (use w(1) L2 in auto)
    qed
    moreover have "section_bytes x m' t = section_bytes x m (old_index j t)" if t: "t < n - 1" for t
    proof -
      let ?o = "old_index j t"
      note ot = old [OF t]
      have "section_bytes x m' t = section_bytes x m1 ?o"
      proof (rule nth_equalityI)
        fix i assume "i < length (section_bytes x m' t)"
        then have i: "i < unat (m_sectionSize x ?o m1)" using t by (simp add: section_bytes_def hk)
        let ?k = "unat (m_sectionOffset x t m') + i"
        have k: "?k + 40 = unat (m_sectionOffset x ?o m1) + i" "416 + 40 * n \<le> ?k"
          using low1 [OF ot] t n2 by (auto simp: hk)
        then have "?k < L - (F - S) - 40" "?k < 2 ^ 32" using high1 [OF ot] i L2 by linarith+
        then have "byte m' x ?k = byte m1 x (?k + 40)" using h(6) [of ?k] k(2) unfolding e by simp
        then show "section_bytes x m' t ! i = section_bytes x m1 ?o ! i"
          using i t k(1) by (simp add: section_bytes_nth hk(2))
      qed (use t in \<open>simp add: section_bytes_def hk\<close>)
      then show ?thesis using bytes1 [OF ot] by simp
    qed
    ultimately show ?thesis using num hk by blast
  qed
  then show "xclbin_wf x m'" "unat (m_numSections x m') = n - 1"
    "\<And>t. t < n - 1 \<Longrightarrow> m_sectionKind x t m' = m_sectionKind x (old_index j t) m
       \<and> section_bytes x m' t = section_bytes x m (old_index j t)" by blast+
qed

lemma remove_loop_skip:
  assumes "\<And>t. i \<le> t \<Longrightarrow> t < j \<Longrightarrow> m_sectionKind x t m \<noteq> kind" "i \<le> j" "j \<le> unat (m_numSections x m)"
  shows "remove_loop x kind i m = remove_loop x kind j m"
  using assms
proof (induct "j - i" arbitrary: i)
  case (Suc d)
  have "i < j" using Suc.hyps(2) by simp
  then have "remove_loop x kind i m = remove_loop x kind (Suc i) m"
    using Suc.prems by (subst remove_loop.simps) simp
  also have "\<dots> = remove_loop x kind j m" using Suc by (intro Suc(1)) auto
  finally show ?case .
qed simp

lemma remove_loop_done:
  assumes "\<And>t. i \<le> t \<Longrightarrow> t < unat (m_numSections x m) \<Longrightarrow> m_sectionKind x t m \<noteq> kind"
  shows "remove_loop x kind i m = m"
proof (cases "i \<le> unat (m_numSections x m)")
  case True
  from remove_loop_skip [OF assms True order_refl]
  have "remove_loop x kind i m = remove_loop x kind (unat (m_numSections x m)) m" by simp
  also have "\<dots> = m" by (subst remove_loop.simps) simp
  finally show ?thesis .
next
  case False
  then show ?thesis by (subst remove_loop.simps) simp
qed

lemma section_kind_num_inj: "section_kind_num k = section_kind_num l \<Longrightarrow> k = l"
  by (cases k; cases l) simp_all

section \<open>Properties\<close>


definition sample_xclbin :: mem where
  "sample_xclbin = (\<lambda>_. 0)(304 := 0x1A, 305 := 2, 448 := 2, 456 := 19, 480 := 0x18, 481 := 2, 488 := 1,
     496 := 18, 520 := 0x19, 521 := 2, 528 := 1, 536 := 7, 537 := 9)"


end
