(* ===== verification/Rmgmt_Fpt.thy ===== *)
theory Rmgmt_Fpt
  imports Rmgmt_Base Rmgmt_Xclbin
begin

text \<open>Model of \<open>rmgmt/rmgmt_fpt.c\<close>: the flash partition table, the metadata of the boot images, and
  flashing a new boot image.  \<open>None\<close> is a flash call that does not return.\<close>

section \<open>Tables in flash and memory (rmgmt_fpt.h)\<close>

definition FPT_MAGIC :: u32 where "FPT_MAGIC = 0x3A0BC563"
definition FPT_PDIMETA_MAGIC :: u32 where "FPT_PDIMETA_MAGIC = 0x4D494450"
definition FPT_DEFAULT_OFFSET :: u32 where "FPT_DEFAULT_OFFSET = 0"
definition FPT_BACKUP_OFFSET :: u32 where "FPT_BACKUP_OFFSET = 0x20000"
definition FPT_TYPE_SC_FW :: u32 where "FPT_TYPE_SC_FW = 0x0C00"
definition FPT_TYPE_BOOT :: u32 where "FPT_TYPE_BOOT = 0x0E00"
definition FPT_TYPE_BOOT_BACKUP :: u32 where "FPT_TYPE_BOOT_BACKUP = 0x0E01"
definition FPT_TYPE_XSABIN :: u32 where "FPT_TYPE_XSABIN = 0x0E02"
definition FPT_TYPE_SYSDTB :: u32 where "FPT_TYPE_SYSDTB = 0x0E04"
definition FPT_TYPE_PDIMETA :: u32 where "FPT_TYPE_PDIMETA = 0x0E05"
definition FPT_TYPE_PDIMETA_BACKUP :: u32 where "FPT_TYPE_PDIMETA_BACKUP = 0x0E06"
definition FPT_TYPE_OSPI_VERSION :: u32 where "FPT_TYPE_OSPI_VERSION = 0x0E07"

definition MULTIBOOT_OFF :: "u32 \<Rightarrow> u32" where "MULTIBOOT_OFF x = x div 1024 div 32"
definition BOOT_TAG_OFFSET :: u32 where "BOOT_TAG_OFFSET = 0x14"
definition BOOT_TAG_MASK :: u32 where "BOOT_TAG_MASK = 0xFFFFFFFF"
definition FW_COPY_SIZE_64_KB :: u32 where "FW_COPY_SIZE_64_KB = 0x10000"
definition VMR_EP_PLM_MULTIBOOT :: u32 where "VMR_EP_PLM_MULTIBOOT = 0xF1110004"

datatype fpt_type = FPT_TYPE_DEFAULT | FPT_TYPE_BACKUP | FPT_MAX_TYPES

text \<open>Word \<open>i\<close> of a structure read into a buffer.\<close>

definition word_at :: "u8 list \<Rightarrow> nat \<Rightarrow> u32" where
  "word_at bs i = u32_of_bytes (take 4 (drop (4 * i) bs))"

record fpt_hdr =
  fpt_magic :: u32
  fpt_entry_size :: u8
  fpt_num_entries :: u8

definition sizeof_fpt_hdr :: nat where "sizeof_fpt_hdr = 12"

definition read_fpt_hdr :: "u8 list \<Rightarrow> fpt_hdr" where
  "read_fpt_hdr bs = \<lparr> fpt_magic = word_at bs 0, fpt_entry_size = bs ! 6, fpt_num_entries = bs ! 7 \<rparr>"

record fpt_entry =
  partition_type :: u32
  partition_base_addr :: u32
  partition_size :: u32

definition sizeof_fpt_entry :: nat where "sizeof_fpt_entry = 28"

definition read_fpt_entry :: "u8 list \<Rightarrow> fpt_entry" where
  "read_fpt_entry bs = \<lparr> partition_type = word_at bs 0, partition_base_addr = word_at bs 3,
     partition_size = word_at bs 4 \<rparr>"

record fpt_pdi_meta =
  fpt_pdi_magic :: u32
  fpt_pdi_version :: u32
  fpt_pdi_size :: u32
  fpt_pdi_checksum :: u32
  fpt_pdi_debug_type :: u8
  fpt_pdi_rsvd0 :: u32

definition read_pdi_meta :: "u8 list \<Rightarrow> fpt_pdi_meta" where
  "read_pdi_meta bs = \<lparr> fpt_pdi_magic = word_at bs 0, fpt_pdi_version = word_at bs 1,
     fpt_pdi_size = word_at bs 2, fpt_pdi_checksum = word_at bs 3,
     fpt_pdi_debug_type = ucast (word_at bs 4), fpt_pdi_rsvd0 = drop_bit 8 (word_at bs 4) \<rparr>"

definition pdi_meta_bytes :: "fpt_pdi_meta \<Rightarrow> u8 list" where
  "pdi_meta_bytes meta = bytes_of_u32 (fpt_pdi_magic meta) @ bytes_of_u32 (fpt_pdi_version meta)
     @ bytes_of_u32 (fpt_pdi_size meta) @ bytes_of_u32 (fpt_pdi_checksum meta)
     @ bytes_of_u32 (ucast (fpt_pdi_debug_type meta) OR push_bit 8 (fpt_pdi_rsvd0 meta))"

definition on_multiboot :: "(xgq_vmr_multiboot_payload \<Rightarrow> xgq_vmr_multiboot_payload) \<Rightarrow> cl_msg \<Rightarrow> cl_msg" where
  "on_multiboot f msg = msg\<lparr>multiboot_payload := f (multiboot_payload msg)\<rparr>"

section \<open>Metadata of an image\<close>

definition rmgmt_fpt_pdi_get_base :: "cl_msg \<Rightarrow> u32 \<Rightarrow> u32" where
  "rmgmt_fpt_pdi_get_base msg ty =
     (if ty = FPT_TYPE_PDIMETA then mb_pdimeta_offset (multiboot_payload msg)
      else if ty = FPT_TYPE_PDIMETA_BACKUP then mb_pdimeta_backup_offset (multiboot_payload msg)
      else 0)"

definition rmgmt_fpt_pdi_meta_erase ::
    "('w, 'f) board \<Rightarrow> cl_msg \<Rightarrow> u32 \<Rightarrow> ('w, 'f) rmgmt \<Rightarrow> (int \<times> ('w, 'f) rmgmt) option" where
  "rmgmt_fpt_pdi_meta_erase bd msg ty s =
     (let base = rmgmt_fpt_pdi_get_base msg ty
      in if base = 0 then Some (-1, s)
         else flash_do (fl_erase (b_flash bd) CL_FLASH_BOOT base OSPI_VERSAL_PAGESIZE) s)"

definition rmgmt_fpt_pdi_meta_get ::
    "('w, 'f) board \<Rightarrow> cl_msg \<Rightarrow> u32 \<Rightarrow> ('w, 'f) rmgmt \<Rightarrow> ((int + fpt_pdi_meta) \<times> ('w, 'f) rmgmt) option" where
  "rmgmt_fpt_pdi_meta_get bd msg ty s =
     (let base = rmgmt_fpt_pdi_get_base msg ty
      in if base = 0 then Some (Inl (-1), s)
         else map_option (\<lambda>(ret, buf, s1). (if ret \<noteq> 0 then Inl ret else Inr (read_pdi_meta buf), s1))
                (flash_read bd CL_FLASH_BOOT base OSPI_VERSAL_PAGESIZE s))"

definition rmgmt_fpt_pdi_meta_set ::
    "('w, 'f) board \<Rightarrow> cl_msg \<Rightarrow> u32 \<Rightarrow> fpt_pdi_meta \<Rightarrow> ('w, 'f) rmgmt \<Rightarrow> (int \<times> ('w, 'f) rmgmt) option" where
  "rmgmt_fpt_pdi_meta_set bd msg ty meta s =
     (let base = rmgmt_fpt_pdi_get_base msg ty; buf = pdi_meta_bytes meta @ replicate 236 0
      in if base = 0 then Some (-1, s)
         else flash_do (fl_safe_write (b_flash bd) CL_FLASH_BOOT (\<lambda>i. buf ! i) base OSPI_VERSAL_PAGESIZE) s)"

section \<open>The extension table in memory\<close>

definition ext_entry :: "fpt_entry \<Rightarrow> cl_msg \<Rightarrow> cl_msg" where
  "ext_entry e msg =
     (let ty = partition_type e; base = partition_base_addr e; len = partition_size e
      in if ty = FPT_TYPE_SC_FW
         then on_multiboot (\<lambda>p. p\<lparr>mb_scfw_offset := base, mb_scfw_size := len, mb_has_ext_scfw := True\<rparr>) msg
         else if ty = FPT_TYPE_XSABIN
         then on_multiboot (\<lambda>p. p\<lparr>mb_xsabin_offset := base, mb_xsabin_size := len, mb_has_ext_xsabin := True\<rparr>) msg
         else if ty = FPT_TYPE_SYSDTB
         then on_multiboot (\<lambda>p. p\<lparr>mb_sysdtb_offset := base, mb_sysdtb_size := len, mb_has_ext_sysdtb := True\<rparr>) msg
         else msg)"

primrec ext_loop :: "u32 \<Rightarrow> u8 \<Rightarrow> mem \<Rightarrow> nat \<Rightarrow> nat \<Rightarrow> cl_msg \<Rightarrow> cl_msg" where
  "ext_loop fpt entry_size m 0 i msg = msg"
| "ext_loop fpt entry_size m (Suc n) i msg =
     ext_loop fpt entry_size m n (Suc i)
       (ext_entry (read_fpt_entry (snd (cl_memcpy_fromio (fpt + ucast entry_size * of_nat i) sizeof_fpt_entry m))) msg)"

definition rmgmt_extension_fpt_query :: "u32 \<Rightarrow> mem \<Rightarrow> cl_msg \<Rightarrow> cl_msg" where
  "rmgmt_extension_fpt_query fpt m msg =
     (let h = read_fpt_hdr (snd (cl_memcpy_fromio fpt sizeof_fpt_hdr m));
          msg1 = on_multiboot (\<lambda>p. p\<lparr>mb_has_extfpt := (fpt_magic h = FPT_MAGIC)\<rparr>) msg
      in if fpt_magic h \<noteq> FPT_MAGIC then msg1
         else ext_loop fpt (fpt_entry_size h) m (unat (fpt_num_entries h)) 1 msg1)"

definition rmgmt_fpt_get_xsabin :: "u32 \<Rightarrow> mem \<Rightarrow> cl_msg \<Rightarrow> (int + u32 \<times> u32) \<times> cl_msg" where
  "rmgmt_fpt_get_xsabin fpt m msg =
     (let msg1 = rmgmt_extension_fpt_query fpt m msg; p = multiboot_payload msg1
      in (if \<not> mb_has_ext_xsabin p then Inl (- EINVAL) else Inr (mb_xsabin_offset p, mb_xsabin_size p), msg1))"

definition rmgmt_fpt_get_systemdtb :: "u32 \<Rightarrow> mem \<Rightarrow> cl_msg \<Rightarrow> (int + u32 \<times> u32) \<times> cl_msg" where
  "rmgmt_fpt_get_systemdtb fpt m msg =
     (let msg1 = rmgmt_extension_fpt_query fpt m msg; p = multiboot_payload msg1
      in (if \<not> mb_has_ext_sysdtb p then Inl (-1) else Inr (mb_sysdtb_offset p, mb_sysdtb_size p), msg1))"

section \<open>The boot table in flash\<close>

definition boot_entry :: "fpt_entry \<Rightarrow> cl_msg \<Rightarrow> cl_msg" where
  "boot_entry e msg =
     (let ty = partition_type e; base = partition_base_addr e; len = partition_size e
      in if ty = FPT_TYPE_BOOT
         then on_multiboot (\<lambda>p. p\<lparr>mb_default_partition_offset := base, mb_default_partition_size := len\<rparr>) msg
         else if ty = FPT_TYPE_BOOT_BACKUP
         then on_multiboot (\<lambda>p. p\<lparr>mb_backup_partition_offset := base, mb_backup_partition_size := len\<rparr>) msg
         else if ty = FPT_TYPE_PDIMETA then on_multiboot (\<lambda>p. p\<lparr>mb_pdimeta_offset := base\<rparr>) msg
         else if ty = FPT_TYPE_PDIMETA_BACKUP then on_multiboot (\<lambda>p. p\<lparr>mb_pdimeta_backup_offset := base\<rparr>) msg
         else if ty = FPT_TYPE_OSPI_VERSION
         then on_multiboot (\<lambda>p. p\<lparr>mb_ospi_version_offset := base, mb_ospi_version_size := len\<rparr>) msg
         else msg)"

text \<open>The result \<open>False\<close> is the return on a failed read.\<close>

primrec boot_loop ::
    "('w, 'f) board \<Rightarrow> u8 \<Rightarrow> nat \<Rightarrow> nat \<Rightarrow> cl_msg \<Rightarrow> ('w, 'f) rmgmt \<Rightarrow> (bool \<times> cl_msg \<times> ('w, 'f) rmgmt) option" where
  "boot_loop bd entry_size 0 i msg s = Some (True, msg, s)"
| "boot_loop bd entry_size (Suc n) i msg s =
     Option.bind (flash_read bd CL_FLASH_BOOT (ucast entry_size * of_nat i) (of_nat sizeof_fpt_entry) s)
       (\<lambda>(ret, buf, s1). if ret \<noteq> 0 then Some (False, msg, s1)
          else boot_loop bd entry_size n (Suc i) (boot_entry (read_fpt_entry buf) msg) s1)"

text \<open>The part after the table: which image the device booted from.\<close>

definition boot_from :: "u32 \<Rightarrow> u32 \<Rightarrow> cl_msg \<Rightarrow> cl_msg" where
  "boot_from current boot_on = on_multiboot (\<lambda>p.
     let p1 = p\<lparr>mb_current_multi_boot_offset := ucast current, mb_boot_on_offset := ucast boot_on\<rparr>;
         p2 = (if boot_on = MULTIBOOT_OFF (mb_default_partition_offset p1)
               then p1\<lparr>mb_boot_on_default := True\<rparr> else p1)
     in if boot_on = MULTIBOOT_OFF (mb_backup_partition_offset p2)
        then p2\<lparr>mb_boot_on_backup := True\<rparr> else p2)"

definition image_sizes ::
    "('w, 'f) board \<Rightarrow> cl_msg \<Rightarrow> ('w, 'f) rmgmt \<Rightarrow> (cl_msg \<times> ('w, 'f) rmgmt) option" where
  "image_sizes bd msg s = do {
     (r, s1) \<leftarrow> rmgmt_fpt_pdi_meta_get bd msg FPT_TYPE_PDIMETA s;
     (case r of
        Inl e \<Rightarrow> Some (msg, s1)
      | Inr meta \<Rightarrow>
          let msg1 = (if fpt_pdi_magic meta = FPT_PDIMETA_MAGIC
                      then on_multiboot (\<lambda>p. p\<lparr>mb_pdimeta_size := fpt_pdi_size meta\<rparr>) msg else msg)
          in do {
            (r2, s2) \<leftarrow> rmgmt_fpt_pdi_meta_get bd msg1 FPT_TYPE_PDIMETA_BACKUP s1;
            (case r2 of
               Inl e \<Rightarrow> Some (msg1, s2)
             | Inr meta2 \<Rightarrow>
                 Some (if fpt_pdi_magic meta2 = FPT_PDIMETA_MAGIC
                       then on_multiboot (\<lambda>p. p\<lparr>mb_pdimeta_backup_size := fpt_pdi_size meta2\<rparr>) msg1 else msg1, s2))
          })
   }"

definition rmgmt_boot_fpt_query ::
    "('w, 'f) board \<Rightarrow> cl_msg \<Rightarrow> ('w, 'f) rmgmt \<Rightarrow> (cl_msg \<times> ('w, 'f) rmgmt) option" where
  "rmgmt_boot_fpt_query bd msg s = do {
     (ret, buf, s1) \<leftarrow> flash_read bd CL_FLASH_BOOT FPT_DEFAULT_OFFSET (of_nat sizeof_fpt_hdr) s;
     if ret \<noteq> 0 then Some (msg, s1)
     else let h = read_fpt_hdr buf;
              msg1 = on_multiboot (\<lambda>p. p\<lparr>mb_has_fpt := (fpt_magic h = FPT_MAGIC)\<rparr>) msg
          in if fpt_magic h \<noteq> FPT_MAGIC then Some (msg1, s1)
             else do {
               (ok, msg2, s2) \<leftarrow> boot_loop bd (fpt_entry_size h) (unat (fpt_num_entries h)) 1 msg1 s1;
               if \<not> ok then Some (msg2, s2)
               else do {
                 (ret, buf, s3) \<leftarrow> flash_read bd CL_FLASH_BOOT FPT_BACKUP_OFFSET (of_nat sizeof_fpt_hdr) s2;
                 if ret \<noteq> 0 then Some (msg2, s3)
                 else let msg3 = on_multiboot (\<lambda>p. p\<lparr>mb_has_fpt_recovery := (fpt_magic (read_fpt_hdr buf) = FPT_MAGIC)\<rparr>) msg2;
                          (current, s4) = reg_read bd VMR_EP_PLM_MULTIBOOT s3
                      in image_sizes bd (boot_from current (rh_boot_on_offset (rm_rh s4)) msg3) s4
               }
             }
   }"

definition rmgmt_fpt_query ::
    "('w, 'f) board \<Rightarrow> cl_msg \<Rightarrow> ('w, 'f) rmgmt \<Rightarrow> (cl_msg \<times> ('w, 'f) rmgmt) option" where
  "rmgmt_fpt_query bd msg s = rmgmt_boot_fpt_query bd (rmgmt_extension_fpt_query (PRELOAD_FPT bd) (cl_mem s) msg) s"

text \<open>The whole table, 64 KB, into a buffer of the caller; a wrong magic is only reported.\<close>

definition rmgmt_fpt_get_data ::
    "('w, 'f) board \<Rightarrow> fpt_type \<Rightarrow> ('w, 'f) rmgmt \<Rightarrow> (int \<times> u8 list \<times> ('w, 'f) rmgmt) option" where
  "rmgmt_fpt_get_data bd ty s =
     (if ty = FPT_MAX_TYPES then Some (- EINVAL, [], s)
      else flash_read bd CL_FLASH_BOOT (if ty = FPT_TYPE_DEFAULT then FPT_DEFAULT_OFFSET else FPT_BACKUP_OFFSET)
             FW_COPY_SIZE_64_KB s)"

definition rmgmt_fpt_get_ospi_version ::
    "('w, 'f) board \<Rightarrow> cl_msg \<Rightarrow> ('w, 'f) rmgmt \<Rightarrow> (int \<times> u8 list \<times> ('w, 'f) rmgmt) option" where
  "rmgmt_fpt_get_ospi_version bd msg s =
     (let offset = mb_ospi_version_offset (multiboot_payload msg)
      in if offset = 0 then Some (- EFAULT, [], s)
         else flash_read bd CL_FLASH_BOOT offset OSPI_VERSAL_PAGESIZE s)"

section \<open>Flashing a boot image\<close>

definition rmgmt_copy_default_to_backup ::
    "('w, 'f) board \<Rightarrow> cl_msg \<Rightarrow> ('w, 'f) rmgmt \<Rightarrow> (int \<times> ('w, 'f) rmgmt) option" where
  "rmgmt_copy_default_to_backup bd msg s =
     (let p = multiboot_payload msg; src = mb_default_partition_offset p;
          tgt = mb_backup_partition_offset p; tgt_capacity = mb_backup_partition_size p
      in if mb_boot_on_backup p then Some (-1, s)
         else if src = 0 \<or> tgt = 0 then Some (-1, s)
         else do {
           (r, s1) \<leftarrow> rmgmt_fpt_pdi_meta_get bd msg FPT_TYPE_PDIMETA s;
           (case r of
              Inl ret \<Rightarrow> Some (ret, s1)
            | Inr meta \<Rightarrow>
                let src_size = fpt_pdi_size meta
                in if fpt_pdi_magic meta \<noteq> FPT_PDIMETA_MAGIC then Some (-1, s1)
                   else if src_size = 0 then Some (-1, s1)
                   else if src_size > tgt_capacity then Some (-1, s1)
                   else do {
                     (r2, s2) \<leftarrow> rmgmt_fpt_pdi_meta_get bd msg FPT_TYPE_PDIMETA_BACKUP s1;
                     (case r2 of
                        Inl ret \<Rightarrow> Some (ret, s2)
                      | Inr meta2 \<Rightarrow>
                          let meta3 = (if fpt_pdi_magic meta2 \<noteq> FPT_PDIMETA_MAGIC
                                       then meta2\<lparr>fpt_pdi_magic := FPT_PDIMETA_MAGIC\<rparr> else meta2)
                          in do {
                            (ret, s3) \<leftarrow> flash_do (fl_erase (b_flash bd) CL_FLASH_BOOT tgt src_size) s2;
                            if ret \<noteq> 0 then Some (ret, s3)
                            else do {
                              (ret, s4) \<leftarrow> flash_do (fl_copy (b_flash bd) CL_FLASH_BOOT src tgt src_size) s3;
                              if ret \<noteq> 0 then Some (ret, s4)
                              else rmgmt_fpt_pdi_meta_set bd msg FPT_TYPE_PDIMETA_BACKUP
                                     (meta3\<lparr>fpt_pdi_size := src_size, fpt_pdi_debug_type := 0\<rparr>) s4
                            }
                          })
                   })
         })"

text \<open>The buffer the flash functions write from is the image in memory, read when they run.\<close>

definition mem_buffer :: "('w, 'f) rmgmt \<Rightarrow> u32 \<Rightarrow> nat \<Rightarrow> u8" where
  "mem_buffer s a = (\<lambda>i. cl_mem s (a + of_nat i))"

definition set_plm_boot_tag :: "u32 \<Rightarrow> u32 \<Rightarrow> ('w, 'f) rmgmt \<Rightarrow> ('w, 'f) rmgmt" where
  "set_plm_boot_tag pdi_data tag s =
     s\<lparr>cl_mem := IO_SYNC_WRITE32 tag (pdi_data + BOOT_TAG_OFFSET) (cl_mem s)\<rparr>"

text \<open>The image without its boot tag, then its first page again, with the tag.\<close>

definition write_image ::
    "('w, 'f) board \<Rightarrow> u32 \<Rightarrow> u32 \<Rightarrow> u32 \<Rightarrow> ('w, 'f) rmgmt \<Rightarrow> (int \<times> ('w, 'f) rmgmt) option" where
  "write_image bd pdi_data offset len s = do {
     (ret, s1) \<leftarrow> flash_do (fl_erase (b_flash bd) CL_FLASH_BOOT offset len) s;
     if ret \<noteq> 0 then Some (ret, s1)
     else let plm_boot_tag = IO_SYNC_READ32 (pdi_data + BOOT_TAG_OFFSET) (cl_mem s1);
              s2 = set_plm_boot_tag pdi_data BOOT_TAG_MASK s1
          in do {
            (ret, s3) \<leftarrow> flash_do (fl_write (b_flash bd) CL_FLASH_BOOT (mem_buffer s2 pdi_data) offset len) s2;
            if ret \<noteq> 0 then Some (ret, s3)
            else let s4 = set_plm_boot_tag pdi_data plm_boot_tag s3
                 in flash_do (fl_write (b_flash bd) CL_FLASH_BOOT (mem_buffer s4 pdi_data) offset OSPI_VERSAL_PAGESIZE) s4
          }
   }"

definition flash_default_image ::
    "('w, 'f) board \<Rightarrow> u32 \<Rightarrow> u32 \<Rightarrow> cl_msg \<Rightarrow> ('w, 'f) rmgmt \<Rightarrow> (int \<times> ('w, 'f) rmgmt) option" where
  "flash_default_image bd pdi_data len msg s =
     (let p = multiboot_payload msg; offset = mb_default_partition_offset p
      in if len > mb_default_partition_size p then Some (-1, s)
         else if offset = 0 then Some (-1, s)
         else do {
           (r, s1) \<leftarrow> rmgmt_fpt_pdi_meta_get bd msg FPT_TYPE_PDIMETA s;
           (case r of
              Inl ret \<Rightarrow> Some (ret, s1)
            | Inr meta \<Rightarrow> do {
                (ret, s2) \<leftarrow> (if fpt_pdi_magic meta \<noteq> FPT_PDIMETA_MAGIC
                             then rmgmt_fpt_pdi_meta_erase bd msg FPT_TYPE_PDIMETA s1 else Some (0, s1));
                if ret \<noteq> 0 then Some (ret, s2)
                else do {
                  (ret, s3) \<leftarrow> write_image bd pdi_data offset len s2;
                  if ret \<noteq> 0 then Some (ret, s3)
                  else rmgmt_fpt_pdi_meta_set bd msg FPT_TYPE_PDIMETA
                         (meta\<lparr>fpt_pdi_magic := FPT_PDIMETA_MAGIC, fpt_pdi_size := len, fpt_pdi_debug_type := 0\<rparr>) s3
                }
              })
         })"

definition flash_to_legacy ::
    "('w, 'f) board \<Rightarrow> u32 \<Rightarrow> u32 \<Rightarrow> ('w, 'f) rmgmt \<Rightarrow> (int \<times> ('w, 'f) rmgmt) option" where
  "flash_to_legacy bd pdi_data len s = do {
     (ret, s1) \<leftarrow> flash_do (fl_erase (b_flash bd) CL_FLASH_BOOT 0 len) s;
     if ret \<noteq> 0 then Some (ret, s1)
     else flash_do (fl_write (b_flash bd) CL_FLASH_BOOT (mem_buffer s1 pdi_data) 0 len) s1
   }"

text \<open>The label \<open>done\<close>: success is remembered, so that a second image is refused.\<close>

definition mark_flashed :: "int \<Rightarrow> ('w, 'f) rmgmt \<Rightarrow> ('w, 'f) rmgmt" where
  "mark_flashed ret s = (if ret = 0 then s\<lparr>rm_rh := (rm_rh s)\<lparr>rh_already_flashed := True\<rparr>\<rparr> else s)"

definition rmgmt_flash_rpu_pdi ::
    "('w, 'f) board \<Rightarrow> cl_msg \<Rightarrow> ('w, 'f) rmgmt \<Rightarrow> (int \<times> cl_msg \<times> ('w, 'f) rmgmt) option" where
  "rmgmt_flash_rpu_pdi bd msg s =
     (let axlf = rh_data_base (rm_rh s)
      in if rh_already_flashed (rm_rh s) then Some (- EINVAL, msg, s)
         else case rmgmt_xclbin_section_info axlf PDI (cl_mem s) of
           Inl ret \<Rightarrow> Some (ret, msg, s)
         | Inr (pdi_offset, pdi_size) \<Rightarrow>
             let pdi_data = axlf + ucast pdi_offset; len = ucast pdi_size
             in if data_flash_to_legacy (data_payload msg)
                then map_option (\<lambda>(ret, s1). (ret, msg, mark_flashed ret s1)) (flash_to_legacy bd pdi_data len s)
                else do {
                  (msg1, s1) \<leftarrow> rmgmt_fpt_query bd msg s;
                  if \<not> mb_has_fpt (multiboot_payload msg1) then Some (-1, msg1, s1)
                  else do {
                    (ret, s2) \<leftarrow> (if \<not> data_flash_no_backup (data_payload msg1)
                                    \<and> \<not> mb_boot_on_backup (multiboot_payload msg1)
                                 then rmgmt_copy_default_to_backup bd msg1 s1 else Some (0, s1));
                    if ret \<noteq> 0 then Some (ret, msg1, s2)
                    else map_option (\<lambda>(ret, s3). (ret, msg1, mark_flashed ret s3))
                           (flash_default_image bd pdi_data len msg1 s2)
                  }
                })"

section \<open>The debug type\<close>

definition rmgmt_fpt_set_debug_type ::
    "('w, 'f) board \<Rightarrow> cl_msg \<Rightarrow> ('w, 'f) rmgmt \<Rightarrow> (int \<times> cl_msg \<times> ('w, 'f) rmgmt) option" where
  "rmgmt_fpt_set_debug_type bd msg s = do {
     (msg1, s1) \<leftarrow> rmgmt_boot_fpt_query bd msg s;
     (r, s2) \<leftarrow> rmgmt_fpt_pdi_meta_get bd msg1 FPT_TYPE_PDIMETA s1;
     (case r of
        Inl ret \<Rightarrow> Some (ret, msg1, s2)
      | Inr meta \<Rightarrow> do {
          (ret, s3) \<leftarrow> rmgmt_fpt_pdi_meta_set bd msg1 FPT_TYPE_PDIMETA
             (meta\<lparr>fpt_pdi_debug_type := mb_vmr_debug_type (multiboot_payload msg1)\<rparr>) s2;
          if ret \<noteq> 0 then Some (ret, msg1, s3)
          else map_option (\<lambda>(r, s4). (case r of Inl ret \<Rightarrow> ret | Inr meta \<Rightarrow> 0, msg1, s4))
                 (rmgmt_fpt_pdi_meta_get bd msg1 FPT_TYPE_PDIMETA s3)
        })
   }"

definition rmgmt_fpt_get_debug_type ::
    "('w, 'f) board \<Rightarrow> cl_msg \<Rightarrow> ('w, 'f) rmgmt \<Rightarrow> ((int + u8) \<times> cl_msg \<times> ('w, 'f) rmgmt) option" where
  "rmgmt_fpt_get_debug_type bd msg s = do {
     (msg1, s1) \<leftarrow> rmgmt_boot_fpt_query bd msg s;
     (r, s2) \<leftarrow> rmgmt_fpt_pdi_meta_get bd msg1 FPT_TYPE_PDIMETA s1;
     Some (case r of Inl ret \<Rightarrow> Inl ret | Inr meta \<Rightarrow> Inr (fpt_pdi_debug_type meta), msg1, s2)
   }"

end
