(* ===== verification/Flash_Service.thy ===== *)
theory Flash_Service
  imports Rmgmt_Base Ospi_Props
begin

text \<open>The interface of \<open>include/cl_flash.h\<close> as its clients use it.  The locale states what the calls
  promise on the boot area, over a view \<open>img\<close> of the content of the flash: a read delivers the bytes
  and changes nothing, an erase blanks sectors, a write programs pages, the safe write of one page
  replaces it.  A call that fails may leave the flash unusable (not \<open>good\<close>), except a read.  The OSPI
  driver on a flash chip provides the interface.\<close>

locale flash_service =
  fixes ops :: "'f flash_ops"
    and good :: "'f \<Rightarrow> bool"
    and img :: "'f \<Rightarrow> mem"
    and cap :: nat
    and sect :: nat
  assumes cap: "262144 \<le> cap" "cap \<le> 268435456"
    and sect: "65536 \<le> sect" "256 dvd sect"
    and read_law: "\<lbrakk> good f; unat a + unat n \<le> cap \<rbrakk> \<Longrightarrow>
      \<exists>st bs f'. fl_read ops CL_FLASH_BOOT a n f = Some (st, bs, f') \<and> good f' \<and> img f' = img f
        \<and> (st = 0 \<longrightarrow> bs = mem_load (img f) a (unat n))"
    and erase_law: "\<lbrakk> good f; unat a + unat n < cap \<rbrakk> \<Longrightarrow>
      \<exists>st f'. fl_erase ops CL_FLASH_BOOT a n f = Some (st, f')
        \<and> (st = 0 \<longrightarrow> good f'
             \<and> img f' = flash_blank (img f) sect (unat a div sect) ((unat a + unat n) div sect))"
    and write_law: "\<lbrakk> good f; unat a mod 8 = 0; unat a + 256 * unat (page_count n) \<le> cap;
        unat (page_count n) \<le> 1 \<or> 10 \<le> unat (page_count n) \<rbrakk> \<Longrightarrow>
      \<exists>st f'. fl_write ops CL_FLASH_BOOT buf a n f = Some (st, f')
        \<and> (st = 0 \<longrightarrow> good f'
             \<and> img f' = flash_prog (img f) a (map buf [0..<256 * unat (page_count n)]))"
    and safe_write_law: "\<lbrakk> good f; unat a mod sect = 0; unat a + 256 < cap \<rbrakk> \<Longrightarrow>
      \<exists>st f'. fl_safe_write ops CL_FLASH_BOOT buf a 256 f = Some (st, f')
        \<and> (st = 0 \<longrightarrow> good f' \<and> img f' = mem_store (img f) a (map buf [0..<256]))"
begin

text \<open>The interface through the state of the resource management.\<close>

lemma service_read:
  assumes "b_flash bd = ops" "good (rm_flash s)" "unat a + unat n \<le> cap"
  shows "\<exists>st bs s'. flash_read bd CL_FLASH_BOOT a n s = Some (st, bs, s') \<and> good (rm_flash s')
    \<and> img (rm_flash s') = img (rm_flash s) \<and> s' = s\<lparr>rm_flash := rm_flash s'\<rparr>
    \<and> (st = 0 \<longrightarrow> bs = mem_load (img (rm_flash s)) a (unat n))"
  using read_law [OF assms(2,3)] by (auto simp: flash_read_def assms(1))

lemma service_erase:
  assumes "b_flash bd = ops" "good (rm_flash s)" "unat a + unat n < cap"
  shows "\<exists>st s'. flash_do (fl_erase (b_flash bd) CL_FLASH_BOOT a n) s = Some (st, s')
    \<and> s' = s\<lparr>rm_flash := rm_flash s'\<rparr>
    \<and> (st = 0 \<longrightarrow> good (rm_flash s') \<and> img (rm_flash s') =
         flash_blank (img (rm_flash s)) sect (unat a div sect) ((unat a + unat n) div sect))"
  using erase_law [OF assms(2,3)] by (auto simp: flash_do_def assms(1))

lemma service_write:
  assumes "b_flash bd = ops" "good (rm_flash s)" "unat a mod 8 = 0" "unat a + 256 * unat (page_count n) \<le> cap"
    "unat (page_count n) \<le> 1 \<or> 10 \<le> unat (page_count n)"
  shows "\<exists>st s'. flash_do (fl_write (b_flash bd) CL_FLASH_BOOT buf a n) s = Some (st, s')
    \<and> s' = s\<lparr>rm_flash := rm_flash s'\<rparr>
    \<and> (st = 0 \<longrightarrow> good (rm_flash s') \<and> img (rm_flash s') =
         flash_prog (img (rm_flash s)) a (map buf [0..<256 * unat (page_count n)]))"
  using write_law [OF assms(2-5), of buf] by (auto simp: flash_do_def assms(1))

lemma service_safe_write:
  assumes "b_flash bd = ops" "good (rm_flash s)" "unat a mod sect = 0" "unat a + 256 < cap"
  shows "\<exists>st s'. flash_do (fl_safe_write (b_flash bd) CL_FLASH_BOOT buf a 256) s = Some (st, s')
    \<and> s' = s\<lparr>rm_flash := rm_flash s'\<rparr>
    \<and> (st = 0 \<longrightarrow> good (rm_flash s') \<and> img (rm_flash s') = mem_store (img (rm_flash s)) a (map buf [0..<256]))"
  using safe_write_law [OF assms(2-4), of buf] by (auto simp: flash_do_def assms(1))

end

section \<open>The OSPI driver provides the interface\<close>

lemma ospi_flash_service:
  assumes c: "flash_chip drv v fi"
  shows "flash_service (ospi_ops drv True) (idle v fi) (content v) (unat (FlashDeviceSize fi)) (unat (SectSize fi))"
proof
  note te = table_entry [OF flash_chip_entry [OF c]]
  show "262144 \<le> unat (FlashDeviceSize fi)" "unat (FlashDeviceSize fi) \<le> 268435456" using te(7,8) by simp_all
  have s: "unat (SectSize fi) = 65536 \<or> unat (SectSize fi) = 131072" using te(6) by (auto simp: unat_exp_u32)
  then show "65536 \<le> unat (SectSize fi)" "256 dvd unat (SectSize fi)" by auto
  fix f :: "'a ospi" and a n :: u32 and buf :: "nat \<Rightarrow> u8"
  assume i: "idle v fi f"
  show "\<exists>st bs f'. fl_read (ospi_ops drv True) CL_FLASH_BOOT a n f = Some (st, bs, f') \<and> idle v fi f'
      \<and> content v f' = content v f \<and> (st = 0 \<longrightarrow> bs = mem_load (content v f) a (unat n))"
    if "unat a + unat n \<le> unat (FlashDeviceSize fi)"
    using flash_read_returns [OF c i, of CL_FLASH_BOOT a n] that by (auto simp: ospi_ops_def RPU_PDI_ADDRESS_def)
  show "\<exists>st f'. fl_erase (ospi_ops drv True) CL_FLASH_BOOT a n f = Some (st, f') \<and> (st = 0 \<longrightarrow> idle v fi f'
      \<and> content v f' = flash_blank (content v f) (unat (SectSize fi)) (unat a div unat (SectSize fi))
          ((unat a + unat n) div unat (SectSize fi)))"
    if "unat a + unat n < unat (FlashDeviceSize fi)"
    using flash_erase_returns [OF c i that]
    by (auto simp: ospi_ops_def ospi_flash_erase_def erased_def RPU_PDI_ADDRESS_def XST_SUCCESS_def)
  show "\<exists>st f'. fl_write (ospi_ops drv True) CL_FLASH_BOOT buf a n f = Some (st, f') \<and> (st = 0 \<longrightarrow> idle v fi f'
      \<and> content v f' = flash_prog (content v f) a (map buf [0..<256 * unat (page_count n)]))"
    if "unat a mod 8 = 0" "unat a + 256 * unat (page_count n) \<le> unat (FlashDeviceSize fi)"
      "unat (page_count n) \<le> 1 \<or> 10 \<le> unat (page_count n)"
    using flash_write_returns [OF c i, of CL_FLASH_BOOT a n buf] that
    by (auto simp: ospi_ops_def wrote_def RPU_PDI_ADDRESS_def XST_SUCCESS_def)
  show "\<exists>st f'. fl_safe_write (ospi_ops drv True) CL_FLASH_BOOT buf a 256 f = Some (st, f')
      \<and> (st = 0 \<longrightarrow> idle v fi f' \<and> content v f' = mem_store (content v f) a (map buf [0..<256]))"
    if "unat a mod unat (SectSize fi) = 0" "unat a + 256 < unat (FlashDeviceSize fi)"
    using safe_write_returns [OF c i that(1), of "256" buf] that(2) s by (auto simp: ospi_ops_def)
qed

interpretation sim_flash: flash_service "ospi_ops sim_driver True" "idle sim_view sim_info" "content sim_view"
    "unat (FlashDeviceSize sim_info)" "unat (SectSize sim_info)"
  by (rule ospi_flash_service [OF sim_chip_ok])

end
