(* ===== verification/Rmgmt_Fpt_Props.thy ===== *)
theory Rmgmt_Fpt_Props
  imports Rmgmt_Fpt Flash_Service
begin

text \<open>What the partition table operations do over a flash that keeps the contract of
  \<open>flash_service\<close>: the debug type is stored and read back, a new boot image replaces the default
  partition.\<close>

section \<open>Metadata\<close>

lemma unat_u8_less: "unat (w :: u8) < 256"
  using unsigned_less [where ?'a = nat, of w] by simp

lemma word_at_append_skip: "length xs = 4 * k \<Longrightarrow> word_at (xs @ ys) (k + i) = word_at ys i"
  by (simp add: word_at_def)

lemma word_at_bytes [simp]: "word_at (bytes_of_u32 w @ ys) 0 = w" "word_at (bytes_of_u32 w @ ys) (Suc i) = word_at ys i"
  by (simp_all add: word_at_def)

lemma word_at_bytes_numeral [simp]:
  "word_at (bytes_of_u32 w @ ys) (numeral k) = word_at ys (pred_numeral k)"
  by (simp add: numeral_eq_Suc)

lemma rsvd_word:
  assumes "drop_bit 24 (r :: u32) = 0"
  shows "ucast (ucast (d :: u8) OR push_bit 8 r :: u32) = d" "drop_bit 8 (ucast d OR push_bit 8 r) = r"
proof -
  show "ucast (ucast d OR push_bit 8 r :: u32) = d"
    by (rule bit_word_eqI) (auto simp: bit_simps)
  have hi: "\<not> bit r n" if "24 \<le> n" for n
  proof -
    have "bit (drop_bit 24 r) (n - 24) = bit r n" using that by (simp add: bit_simps)
    then show ?thesis using assms by simp
  qed
  show "drop_bit 8 (ucast d OR push_bit 8 r) = r"
  proof (rule bit_word_eqI)
    fix n assume "n < LENGTH(32)"
    show "bit (drop_bit 8 (ucast d OR push_bit 8 r)) n = bit r n"
      using hi [of n] by (auto simp: bit_simps dest: bit_imp_le_length)
  qed
qed

definition meta_ok :: "fpt_pdi_meta \<Rightarrow> bool" where
  "meta_ok meta \<longleftrightarrow> drop_bit 24 (fpt_pdi_rsvd0 meta) = 0"

lemma meta_ok_read [simp]: "meta_ok (read_pdi_meta bs)"
  by (auto simp: meta_ok_def read_pdi_meta_def intro!: bit_word_eqI simp: bit_simps dest: bit_imp_le_length)

lemma read_meta_bytes: "meta_ok meta \<Longrightarrow> read_pdi_meta (pdi_meta_bytes meta @ bs) = meta"
  by (simp add: read_pdi_meta_def pdi_meta_bytes_def meta_ok_def rsvd_word [simplified])

lemma length_pdi_meta_bytes [simp]: "length (pdi_meta_bytes meta) = 20"
  by (simp add: pdi_meta_bytes_def)

section \<open>What a query finds\<close>

text \<open>The table in the flash: every entry for the metadata of the default image gives the address \<open>B\<close>,
  every entry for the default image the address \<open>D\<close>, and the metadata of the backup lies inside.\<close>

definition table_entry_at :: "mem \<Rightarrow> nat \<Rightarrow> fpt_entry" where
  "table_entry_at m i = read_fpt_entry (mem_load m (ucast (fpt_entry_size (read_fpt_hdr (mem_load m 0 12))) * of_nat i) 28)"

definition fpt_layout :: "mem \<Rightarrow> nat \<Rightarrow> u32 \<Rightarrow> u32 \<Rightarrow> bool" where
  "fpt_layout m cap B D \<longleftrightarrow>
     (\<forall>i \<in> set [1..<Suc (unat (fpt_num_entries (read_fpt_hdr (mem_load m 0 12))))].
        let e = table_entry_at m i
        in (partition_type e = FPT_TYPE_PDIMETA \<longrightarrow> partition_base_addr e = B)
         \<and> (partition_type e = FPT_TYPE_BOOT \<longrightarrow> partition_base_addr e = D)
         \<and> (partition_type e = FPT_TYPE_PDIMETA_BACKUP \<longrightarrow> unat (partition_base_addr e) + 256 \<le> cap))"

text \<open>Whatever reads fail, a message holds these addresses or those it came with.\<close>

definition found :: "nat \<Rightarrow> u32 \<Rightarrow> u32 \<Rightarrow> cl_msg \<Rightarrow> cl_msg \<Rightarrow> bool" where
  "found cap B D msg msg' \<longleftrightarrow>
     mb_pdimeta_offset (multiboot_payload msg') \<in> {0, B}
     \<and> mb_default_partition_offset (multiboot_payload msg') \<in> {0, D}
     \<and> unat (mb_pdimeta_backup_offset (multiboot_payload msg')) + 256 \<le> cap
     \<and> mb_vmr_debug_type (multiboot_payload msg') = mb_vmr_debug_type (multiboot_payload msg)
     \<and> data_payload msg' = data_payload msg"

definition kept :: "('f \<Rightarrow> bool) \<Rightarrow> ('f \<Rightarrow> mem) \<Rightarrow> ('w, 'f) rmgmt \<Rightarrow> ('w, 'f) rmgmt \<Rightarrow> bool" where
  "kept good img s s' \<longleftrightarrow> good (rm_flash s') \<and> img (rm_flash s') = img (rm_flash s)
     \<and> cl_mem s' = cl_mem s \<and> rm_rh s' = rm_rh s"

lemma kept_trans: "kept good img s t \<Longrightarrow> kept good img t u \<Longrightarrow> kept good img s u"
  by (simp add: kept_def)

lemma found_boot_entry:
  assumes "found cap B D msg msg'"
    "partition_type e = FPT_TYPE_PDIMETA \<longrightarrow> partition_base_addr e = B"
    "partition_type e = FPT_TYPE_BOOT \<longrightarrow> partition_base_addr e = D"
    "partition_type e = FPT_TYPE_PDIMETA_BACKUP \<longrightarrow> unat (partition_base_addr e) + 256 \<le> cap"
  shows "found cap B D msg (boot_entry e msg')"
  using assms by (auto simp: found_def boot_entry_def on_multiboot_def Let_def)

lemma found_ext_loop:
  "found cap B D msg msg' \<Longrightarrow> found cap B D msg (ext_loop fpt es m n i msg')"
proof (induct n arbitrary: i msg')
  case (Suc n)
  have "found cap B D msg (ext_entry e msg')" for e
    using Suc(2) by (auto simp: found_def ext_entry_def on_multiboot_def Let_def)
  then show ?case using Suc(1) by simp
qed simp

lemma found_extension:
  "found cap B D msg msg' \<Longrightarrow> found cap B D msg (rmgmt_extension_fpt_query fpt m msg')"
proof -
  assume "found cap B D msg msg'"
  then have "found cap B D msg (on_multiboot (\<lambda>p. p\<lparr>mb_has_extfpt := b\<rparr>) msg')" for b
    by (simp add: found_def on_multiboot_def)
  then show ?thesis by (simp add: rmgmt_extension_fpt_query_def Let_def found_ext_loop)
qed

lemma found_boot_from: "found cap B D msg msg' \<Longrightarrow> found cap B D msg (boot_from c b msg')"
  by (simp add: found_def boot_from_def on_multiboot_def Let_def)

text \<open>The table lies in the first 64 KB.\<close>

lemma mem_load_low:
  assumes "\<And>x. unat x < 65536 \<Longrightarrow> m' x = m x" "unat a + n \<le> 65536"
  shows "mem_load m' a n = mem_load m a n"
proof (rule nth_equalityI)
  fix i assume "i < length (mem_load m' a n)"
  then have "unat (a + of_nat i) < 65536" using assms(2) by (simp add: unat_add_of_nat)
  then show "mem_load m' a n ! i = mem_load m a n ! i"
    using \<open>i < length (mem_load m' a n)\<close> assms(1) by simp
qed simp

lemma entry_address:
  assumes "i < 256"
  shows "unat (ucast (es :: u8) * of_nat i :: u32) = unat es * i" "unat es * i \<le> 65025"
proof -
  show "unat es * i \<le> 65025"
  proof -
    have "unat es * i \<le> 255 * 255" using assms unat_u8_less [of es] by (intro mult_mono) auto
    then show ?thesis by simp
  qed
  moreover have "unat (ucast es :: u32) = unat es" "unat (of_nat i :: u32) = i"
    using assms unat_u8_less [of es] by (simp_all add: unsigned_ucast_eq take_bit_nat_eq_self)
  ultimately show "unat (ucast es * of_nat i :: u32) = unat es * i"
    by (simp only: unat_word_ariths) simp
qed

lemma fpt_layout_low:
  assumes "\<And>x. unat x < 65536 \<Longrightarrow> m' x = m x"
  shows "fpt_layout m' cap B D = fpt_layout m cap B D"
proof -
  have h: "mem_load m' 0 12 = mem_load m 0 12" by (rule mem_load_low [OF assms]) simp_all
  have "table_entry_at m' i = table_entry_at m i"
    if "i \<in> set [1..<Suc (unat (fpt_num_entries (read_fpt_hdr (mem_load m 0 12))))]" for i
  proof -
    have i: "i < 256" using that unat_u8_less [of "fpt_num_entries (read_fpt_hdr (mem_load m 0 12))"] by auto
    have "mem_load m' (ucast es * of_nat i) 28 = mem_load m (ucast es * of_nat i) 28" for es :: u8
      by (rule mem_load_low [OF assms]) (use entry_address [OF i, of es] in simp_all)
    then show ?thesis by (simp add: table_entry_at_def h)
  qed
  then show ?thesis by (simp add: fpt_layout_def h Let_def)
qed

section \<open>The boot tag\<close>

lemma write32_restore: "IO_SYNC_WRITE32 (IO_SYNC_READ32 a m) a (IO_SYNC_WRITE32 v a m) = m"
proof
  fix x
  have "m (a + of_nat (unat (x - a))) = m x" by simp
  then show "IO_SYNC_WRITE32 (IO_SYNC_READ32 a m) a (IO_SYNC_WRITE32 v a m) x = m x"
    by (auto simp: IO_SYNC_WRITE32_def IO_SYNC_READ32_def bytes_of_u32_of_bytes mem_store_def)
qed

lemma masked_byte:
  assumes "i < 2 ^ 32"
  shows "IO_SYNC_WRITE32 BOOT_TAG_MASK (a + BOOT_TAG_OFFSET) m (a + of_nat i) =
    (if 20 \<le> i \<and> i < 24 then 0xFF else m (a + of_nat i))"
proof -
  have "bytes_of_u32 BOOT_TAG_MASK ! (i - 20) = 0xFF" if "i < 24" "20 \<le> i"
  proof -
    have "i - 20 \<in> {0, 1, 2, 3}" using that by auto
    then show ?thesis by (auto simp: bytes_of_u32_def BOOT_TAG_MASK_def)
  qed
  then show ?thesis using byte_mem_store [OF assms, of 20 "bytes_of_u32 BOOT_TAG_MASK" m a]
    by (auto simp: IO_SYNC_WRITE32_def byte_def BOOT_TAG_OFFSET_def)
qed

text \<open>On blank flash, the image without its tag and then the first page with it amount to the image.\<close>

lemma tag_written_last:
  assumes blank: "\<And>x :: u32. unat a \<le> unat x \<Longrightarrow> unat x < unat a + n \<Longrightarrow> m x = 0xFF" and n: "256 \<le> n"
    and fit: "unat a + n \<le> 268435456"
  shows "flash_prog (flash_prog m a (map (\<lambda>i. IO_SYNC_WRITE32 BOOT_TAG_MASK (d + BOOT_TAG_OFFSET) w (d + of_nat i)) [0..<n]))
      a (map (\<lambda>i. w (d + of_nat i)) [0..<256])
    = (\<lambda>x. if unat a \<le> unat x \<and> unat x < unat a + n then w (d + of_nat (unat x - unat a)) else m x)"
proof
  fix x :: u32
  let ?k = "unat x - unat a"
  show "flash_prog (flash_prog m a (map (\<lambda>i. IO_SYNC_WRITE32 BOOT_TAG_MASK (d + BOOT_TAG_OFFSET) w (d + of_nat i)) [0..<n]))
      a (map (\<lambda>i. w (d + of_nat i)) [0..<256]) x
    = (if unat a \<le> unat x \<and> unat x < unat a + n then w (d + of_nat ?k) else m x)"
  proof (cases "unat a \<le> unat x \<and> unat x < unat a + n")
    case True
    then have k: "?k < n" "?k < 2 ^ 32" "unat x - unat a < 256 \<longleftrightarrow> unat x < unat a + 256" using fit n by auto
    have "flash_prog m a (map (\<lambda>i. IO_SYNC_WRITE32 BOOT_TAG_MASK (d + BOOT_TAG_OFFSET) w (d + of_nat i)) [0..<n]) x
        = (if 20 \<le> ?k \<and> ?k < 24 then 0xFF else w (d + of_nat ?k))"
      using True k fit blank masked_byte [OF k(2), of d w] by (subst flash_prog_at) (auto simp: ff_and)
    then show ?thesis using True k fit n by (subst flash_prog_at) (auto simp: ff_and)
  next
    case False
    then show ?thesis using fit n by (simp add: flash_prog_at) (auto simp: flash_prog_at)
  qed
qed

context flash_service begin

lemma meta_get_returns:
  assumes "b_flash bd = ops" "good (rm_flash s)" "unat (rmgmt_fpt_pdi_get_base msg ty) + 256 \<le> cap"
  shows "\<exists>r s'. rmgmt_fpt_pdi_meta_get bd msg ty s = Some (r, s') \<and> kept good img s s'
    \<and> (\<forall>meta. r = Inr meta \<longrightarrow> rmgmt_fpt_pdi_get_base msg ty \<noteq> 0
         \<and> meta = read_pdi_meta (mem_load (img (rm_flash s)) (rmgmt_fpt_pdi_get_base msg ty) 256))"
proof (cases "rmgmt_fpt_pdi_get_base msg ty = 0")
  case True
  then show ?thesis using assms by (auto simp: rmgmt_fpt_pdi_meta_get_def kept_def)
next
  case False
  from service_read [OF assms(1,2), of "rmgmt_fpt_pdi_get_base msg ty" OSPI_VERSAL_PAGESIZE] assms(3)
  obtain st bs s' where "flash_read bd CL_FLASH_BOOT (rmgmt_fpt_pdi_get_base msg ty) OSPI_VERSAL_PAGESIZE s = Some (st, bs, s')"
      "good (rm_flash s')" "img (rm_flash s') = img (rm_flash s)" "s' = s\<lparr>rm_flash := rm_flash s'\<rparr>"
      "st = 0 \<longrightarrow> bs = mem_load (img (rm_flash s)) (rmgmt_fpt_pdi_get_base msg ty) 256"
    by (auto simp: OSPI_VERSAL_PAGESIZE_def)
  moreover have "cl_mem s' = cl_mem s" "rm_rh s' = rm_rh s" by (subst calculation(4), simp)+
  ultimately show ?thesis using False by (auto simp: rmgmt_fpt_pdi_meta_get_def kept_def)
qed

lemma boot_loop_returns:
  assumes "b_flash bd = ops" "fpt_layout (img (rm_flash s)) cap B D"
    "h = read_fpt_hdr (mem_load (img (rm_flash s)) 0 12)"
  shows "\<lbrakk> good (rm_flash t); img (rm_flash t) = img (rm_flash s); 1 \<le> i; i + n = Suc (unat (fpt_num_entries h));
      found cap B D msg0 msg \<rbrakk> \<Longrightarrow>
    \<exists>ok msg' t'. boot_loop bd (fpt_entry_size h) n i msg t = Some (ok, msg', t') \<and> kept good img t t'
      \<and> found cap B D msg0 msg'"
proof (induct n arbitrary: i msg t)
  case 0
  then show ?case by (auto simp: kept_def)
next
  case (Suc n)
  let ?a = "ucast (fpt_entry_size h) * of_nat i :: u32"
  have "i < 256" using unat_u8_less [of "fpt_num_entries h"] Suc(5) by auto
  then have a: "unat ?a + 28 \<le> cap" using entry_address [of i "fpt_entry_size h"] cap by simp
  from service_read [OF assms(1) Suc(2), of ?a "28"] a obtain st bs t1 where
    r: "flash_read bd CL_FLASH_BOOT ?a 28 t = Some (st, bs, t1)" "good (rm_flash t1)"
      "img (rm_flash t1) = img (rm_flash t)" "t1 = t\<lparr>rm_flash := rm_flash t1\<rparr>"
      "st = 0 \<longrightarrow> bs = mem_load (img (rm_flash t)) ?a 28" by auto
  have k: "kept good img t t1" using r(2,3) by (subst r(4)) (simp add: kept_def)
  show ?case
  proof (cases "st = 0")
    case False
    then show ?thesis using r(1) k Suc(6) by (auto simp: sizeof_fpt_entry_def)
  next
    case True
    have e: "read_fpt_entry bs = table_entry_at (img (rm_flash s)) i"
      using True r(5) Suc(3) assms(3) by (simp add: table_entry_at_def)
    have "i \<in> set [1..<Suc (unat (fpt_num_entries h))]" using Suc(4,5) by auto
    then have "found cap B D msg0 (boot_entry (read_fpt_entry bs) msg)"
      using assms(2,3) e Suc(6) by (intro found_boot_entry) (auto simp: fpt_layout_def Let_def)
    from Suc(1) [OF r(2) _ _ _ this, of "Suc i"] r(3) Suc(3,4,5) obtain ok msg' t' where
      "boot_loop bd (fpt_entry_size h) n (Suc i) (boot_entry (read_fpt_entry bs) msg) t1 = Some (ok, msg', t')"
      "kept good img t1 t'" "found cap B D msg0 msg'" by auto
    then show ?thesis using r(1) True kept_trans [OF k] by (simp add: sizeof_fpt_entry_def)
  qed
qed

lemma found_bases:
  assumes "found cap B D msg0 msg" "unat B + 256 \<le> cap"
  shows "unat (rmgmt_fpt_pdi_get_base msg FPT_TYPE_PDIMETA) + 256 \<le> cap"
    "unat (rmgmt_fpt_pdi_get_base msg FPT_TYPE_PDIMETA_BACKUP) + 256 \<le> cap"
    "rmgmt_fpt_pdi_get_base msg FPT_TYPE_PDIMETA \<in> {0, B}"
  using assms cap
  by (auto simp: found_def rmgmt_fpt_pdi_get_base_def FPT_TYPE_PDIMETA_def FPT_TYPE_PDIMETA_BACKUP_def)

lemma image_sizes_returns:
  assumes "b_flash bd = ops" "good (rm_flash s)" "found cap B D msg0 msg" "unat B + 256 \<le> cap"
  shows "\<exists>msg' s'. image_sizes bd msg s = Some (msg', s') \<and> kept good img s s' \<and> found cap B D msg0 msg'"
proof -
  from meta_get_returns [OF assms(1,2) found_bases(1) [OF assms(3,4)]] obtain r s1 where
    r: "rmgmt_fpt_pdi_meta_get bd msg FPT_TYPE_PDIMETA s = Some (r, s1)" "kept good img s s1" by blast
  show ?thesis
  proof (cases r)
    case (Inl e)
    then show ?thesis using r assms(3) by (simp add: image_sizes_def)
  next
    case (Inr meta)
    define msg1 where "msg1 = (if fpt_pdi_magic meta = FPT_PDIMETA_MAGIC
       then on_multiboot (\<lambda>p. p\<lparr>mb_pdimeta_size := fpt_pdi_size meta\<rparr>) msg else msg)"
    have f1: "found cap B D msg0 msg1" using assms(3) by (simp add: msg1_def found_def on_multiboot_def)
    have "good (rm_flash s1)" using r(2) by (simp add: kept_def)
    from meta_get_returns [OF assms(1) this found_bases(2) [OF f1 assms(4)]] obtain r2 s2 where
      r2: "rmgmt_fpt_pdi_meta_get bd msg1 FPT_TYPE_PDIMETA_BACKUP s1 = Some (r2, s2)" "kept good img s1 s2" by blast
    have "found cap B D msg0 (on_multiboot (\<lambda>p. p\<lparr>mb_pdimeta_backup_size := z\<rparr>) msg1)" for z
      using f1 by (simp add: found_def on_multiboot_def)
    then show ?thesis using r r2 Inr f1 kept_trans [OF r(2) r2(2)]
      by (auto simp: image_sizes_def Let_def simp flip: msg1_def split: sum.splits)
  qed
qed

lemma boot_query_returns:
  assumes "b_flash bd = ops" "good (rm_flash s)" "fpt_layout (img (rm_flash s)) cap B D"
    "found cap B D msg0 msg" "unat B + 256 \<le> cap"
  shows "\<exists>msg' s'. rmgmt_boot_fpt_query bd msg s = Some (msg', s') \<and> kept good img s s' \<and> found cap B D msg0 msg'"
proof -
  from service_read [OF assms(1,2), of 0 "12"] cap obtain st bs s1 where
    r: "flash_read bd CL_FLASH_BOOT 0 12 s = Some (st, bs, s1)" "good (rm_flash s1)"
      "img (rm_flash s1) = img (rm_flash s)" "s1 = s\<lparr>rm_flash := rm_flash s1\<rparr>"
      "st = 0 \<longrightarrow> bs = mem_load (img (rm_flash s)) 0 12" by auto
  have k1: "kept good img s s1" using r(2,3) by (subst r(4)) (simp add: kept_def)
  let ?h = "read_fpt_hdr bs"
  let ?m1 = "on_multiboot (\<lambda>p. p\<lparr>mb_has_fpt := (fpt_magic ?h = FPT_MAGIC)\<rparr>) msg"
  have f1: "found cap B D msg0 ?m1" using assms(4) by (simp add: found_def on_multiboot_def)
  show ?thesis
  proof (cases "st = 0 \<and> fpt_magic ?h = FPT_MAGIC")
    case False
    then show ?thesis using r(1) k1 f1 assms(4)
      by (auto simp: rmgmt_boot_fpt_query_def FPT_DEFAULT_OFFSET_def sizeof_fpt_hdr_def Let_def)
  next
    case True
    have h: "?h = read_fpt_hdr (mem_load (img (rm_flash s)) 0 12)" using True r(5) by simp
    from boot_loop_returns [OF assms(1,3) h r(2,3) _ _ f1, of 1 "unat (fpt_num_entries ?h)"] obtain ok m2 s2 where
      l: "boot_loop bd (fpt_entry_size ?h) (unat (fpt_num_entries ?h)) 1 ?m1 s1 = Some (ok, m2, s2)"
        "kept good img s1 s2" "found cap B D msg0 m2" by auto
    have k2: "kept good img s s2" using kept_trans [OF k1 l(2)] .
    show ?thesis
    proof (cases ok)
      case False
      then show ?thesis using r(1) True l k2
        by (auto simp: rmgmt_boot_fpt_query_def FPT_DEFAULT_OFFSET_def sizeof_fpt_hdr_def Let_def)
    next
      case ok: True
      have "good (rm_flash s2)" using l(2) by (simp add: kept_def)
      from service_read [OF assms(1) this, of FPT_BACKUP_OFFSET "12"] cap obtain st3 bs3 s3 where
        r3: "flash_read bd CL_FLASH_BOOT FPT_BACKUP_OFFSET 12 s2 = Some (st3, bs3, s3)" "good (rm_flash s3)"
          "img (rm_flash s3) = img (rm_flash s2)" "s3 = s2\<lparr>rm_flash := rm_flash s3\<rparr>"
        by (auto simp: FPT_BACKUP_OFFSET_def)
      have "kept good img s2 s3" using r3(2,3) by (subst r3(4)) (simp add: kept_def)
      note k3 = kept_trans [OF k2 this]
      let ?m3 = "on_multiboot (\<lambda>p. p\<lparr>mb_has_fpt_recovery := (fpt_magic (read_fpt_hdr bs3) = FPT_MAGIC)\<rparr>) m2"
      obtain c s4 where c: "reg_read bd VMR_EP_PLM_MULTIBOOT s3 = (c, s4)" by fastforce
      then have k4: "kept good img s3 s4" "good (rm_flash s4)"
        using r3(2) by (auto simp: reg_read_def kept_def split: prod.splits)
      have "found cap B D msg0 (boot_from c (rh_boot_on_offset (rm_rh s4)) ?m3)"
        using l(3) by (intro found_boot_from) (simp add: found_def on_multiboot_def)
      from image_sizes_returns [OF assms(1) k4(2) this assms(5)] kept_trans [OF kept_trans [OF k3 k4(1)]]
      show ?thesis using r(1) True l(1) ok r3(1) c k3 l(3)
        by (cases "st3 = 0")
          (auto simp: rmgmt_boot_fpt_query_def FPT_DEFAULT_OFFSET_def sizeof_fpt_hdr_def Let_def)
    qed
  qed
qed

lemma meta_set_returns:
  assumes "b_flash bd = ops" "good (rm_flash s)" "rmgmt_fpt_pdi_get_base msg ty = B \<or> rmgmt_fpt_pdi_get_base msg ty = 0"
    "unat B mod sect = 0" "unat B + 256 < cap" "meta_ok meta"
  shows "\<exists>ret s'. rmgmt_fpt_pdi_meta_set bd msg ty meta s = Some (ret, s') \<and> cl_mem s' = cl_mem s \<and> rm_rh s' = rm_rh s
    \<and> (ret = 0 \<longrightarrow> rmgmt_fpt_pdi_get_base msg ty = B \<and> good (rm_flash s')
         \<and> img (rm_flash s') = mem_store (img (rm_flash s)) B (pdi_meta_bytes meta @ replicate 236 0))"
proof (cases "rmgmt_fpt_pdi_get_base msg ty = 0")
  case True
  then show ?thesis by (simp add: rmgmt_fpt_pdi_meta_set_def)
next
  case False
  then have b: "rmgmt_fpt_pdi_get_base msg ty = B" using assms(3) by simp
  let ?buf = "pdi_meta_bytes meta @ replicate 236 0"
  have m: "map (\<lambda>i. ?buf ! i) [0..<256] = ?buf"
    using map_nth [of ?buf] by (simp only: length_append length_pdi_meta_bytes length_replicate) simp
  from service_safe_write [OF assms(1,2,4,5), of "\<lambda>i. ?buf ! i"] obtain st s' where
    r: "flash_do (fl_safe_write (b_flash bd) CL_FLASH_BOOT (\<lambda>i. ?buf ! i) B 256) s = Some (st, s')"
      "s' = s\<lparr>rm_flash := rm_flash s'\<rparr>"
      "st = 0 \<longrightarrow> good (rm_flash s') \<and> img (rm_flash s') = mem_store (img (rm_flash s)) B ?buf"
    unfolding m by blast
  have "cl_mem s' = cl_mem s" "rm_rh s' = rm_rh s" by (subst r(2), simp)+
  then show ?thesis using r(1,3) False b by (simp add: rmgmt_fpt_pdi_meta_set_def OSPI_VERSAL_PAGESIZE_def)
qed

lemma high_sector:
  assumes "unat (B :: u32) mod sect = 0" "B \<noteq> 0" "unat x < 65536" "length bs \<le> 256" "unat B + 256 < cap"
  shows "mem_store m B bs x = m x"
proof -
  have "unat B \<noteq> 0" using assms(2) by (simp add: unat_eq_0)
  then have "sect \<le> unat B" using assms(1) by (metis dvd_eq_mod_eq_0 dvd_imp_le neq0_conv)
  then show ?thesis using assms(3-5) sect cap
    by (subst mem_store_at) auto
qed

lemma debug_type_stored:
  assumes bd: "b_flash bd = ops" and g: "good (rm_flash s)" and l: "fpt_layout (img (rm_flash s)) cap B D"
    and B: "unat B mod sect = 0" "unat B + 256 < cap" and f: "found cap B D msg msg" "found cap B D msg2 msg2"
  shows "\<exists>ret msg1 s1. rmgmt_fpt_set_debug_type bd msg s = Some (ret, msg1, s1)
    \<and> (ret = 0 \<longrightarrow> (\<exists>r msg3 s2. rmgmt_fpt_get_debug_type bd msg2 s1 = Some (r, msg3, s2)
          \<and> (\<forall>t. r = Inr t \<longrightarrow> t = mb_vmr_debug_type (multiboot_payload msg))))"
proof -
  have Bc: "unat B + 256 \<le> cap" using B by simp
  from boot_query_returns [OF bd g l f(1) Bc] obtain m1 t1 where
    q: "rmgmt_boot_fpt_query bd msg s = Some (m1, t1)" "kept good img s t1" "found cap B D msg m1" by blast
  have g1: "good (rm_flash t1)" using q(2) by (simp add: kept_def)
  from meta_get_returns [OF bd g1 found_bases(1) [OF q(3) Bc]] obtain r t2 where
    r: "rmgmt_fpt_pdi_meta_get bd m1 FPT_TYPE_PDIMETA t1 = Some (r, t2)" "kept good img t1 t2"
      "\<forall>meta. r = Inr meta \<longrightarrow> rmgmt_fpt_pdi_get_base m1 FPT_TYPE_PDIMETA \<noteq> 0
         \<and> meta = read_pdi_meta (mem_load (img (rm_flash t1)) (rmgmt_fpt_pdi_get_base m1 FPT_TYPE_PDIMETA) 256)"
    by blast
  show ?thesis
  proof (cases r)
    case (Inl e)
    moreover have "e \<noteq> 0" if "rmgmt_fpt_pdi_meta_get bd m1 FPT_TYPE_PDIMETA t1 = Some (Inl e, t2)"
      using that by (auto simp: rmgmt_fpt_pdi_meta_get_def Let_def split: if_splits)
    ultimately show ?thesis using q(1) r(1) by (simp add: rmgmt_fpt_set_debug_type_def)
  next
    case (Inr meta)
    let ?meta = "meta\<lparr>fpt_pdi_debug_type := mb_vmr_debug_type (multiboot_payload m1)\<rparr>"
    let ?bs = "pdi_meta_bytes ?meta @ replicate 236 0"
    have mo: "meta_ok ?meta" using r(3) Inr meta_ok_read by (auto simp: meta_ok_def)
    have g2: "good (rm_flash t2)" using r(2) by (simp add: kept_def)
    have b0: "rmgmt_fpt_pdi_get_base m1 FPT_TYPE_PDIMETA = B" "B \<noteq> 0"
      using found_bases(3) [OF q(3) Bc] r(3) Inr by auto
    from meta_set_returns [OF bd g2 _ B mo, of m1 FPT_TYPE_PDIMETA] b0 obtain ret t3 where
      w: "rmgmt_fpt_pdi_meta_set bd m1 FPT_TYPE_PDIMETA ?meta t2 = Some (ret, t3)"
        "ret = 0 \<longrightarrow> good (rm_flash t3) \<and> img (rm_flash t3) = mem_store (img (rm_flash t2)) B ?bs" by blast
    show ?thesis
    proof (cases "ret = 0")
      case False
      then show ?thesis using q(1) r(1) Inr w(1) by (simp add: rmgmt_fpt_set_debug_type_def)
    next
    case ret: True
    then have g3: "good (rm_flash t3)" using w(2) by simp
    from meta_get_returns [OF bd g3 found_bases(1) [OF q(3) Bc]] obtain r3 s1 where
      r3: "rmgmt_fpt_pdi_meta_get bd m1 FPT_TYPE_PDIMETA t3 = Some (r3, s1)" "kept good img t3 s1" by blast
    have set: "rmgmt_fpt_set_debug_type bd msg s = Some (case r3 of Inl e \<Rightarrow> e | Inr _ \<Rightarrow> 0, m1, s1)"
      using q(1) r(1) Inr w(1) ret r3(1) by (simp add: rmgmt_fpt_set_debug_type_def)
    have i3: "img (rm_flash s1) = mem_store (img (rm_flash t2)) B ?bs" and gs1: "good (rm_flash s1)"
      using r3(2) w(2) ret by (simp_all add: kept_def)
    have lb: "length ?bs = 256" by simp
    have low: "mem_store (img (rm_flash t2)) B ?bs x = img (rm_flash s) x" if "unat x < 65536" for x
      using high_sector [OF B(1) b0(2) that _ B(2), of ?bs] q(2) r(2) lb by (simp add: kept_def)
    have l1: "fpt_layout (img (rm_flash s1)) cap B D"
      using fpt_layout_low [of _ _ cap B D, OF low] l i3 by simp
    from boot_query_returns [OF bd gs1 l1 f(2) Bc] obtain m4 t4 where
      q4: "rmgmt_boot_fpt_query bd msg2 s1 = Some (m4, t4)" "kept good img s1 t4" "found cap B D msg2 m4" by blast
    have g4: "good (rm_flash t4)" using q4(2) by (simp add: kept_def)
    from meta_get_returns [OF bd g4 found_bases(1) [OF q4(3) Bc]] obtain r5 s2 where
      r5: "rmgmt_fpt_pdi_meta_get bd m4 FPT_TYPE_PDIMETA t4 = Some (r5, s2)"
        "\<forall>meta. r5 = Inr meta \<longrightarrow> rmgmt_fpt_pdi_get_base m4 FPT_TYPE_PDIMETA \<noteq> 0
          \<and> meta = read_pdi_meta (mem_load (img (rm_flash t4)) (rmgmt_fpt_pdi_get_base m4 FPT_TYPE_PDIMETA) 256)"
      by blast
    have "fpt_pdi_debug_type meta5 = mb_vmr_debug_type (multiboot_payload msg)" if "r5 = Inr meta5" for meta5
    proof -
      have "rmgmt_fpt_pdi_get_base m4 FPT_TYPE_PDIMETA = B"
        using found_bases(3) [OF q4(3) Bc] r5(2) that by auto
      then have "meta5 = read_pdi_meta (mem_load (mem_store (img (rm_flash t2)) B ?bs) B (length ?bs))"
        using r5(2) that q4(2) i3 lb by (simp add: kept_def)
      also have "\<dots> = ?meta" using mo lb by (subst mem_load_store_same) (simp_all add: read_meta_bytes)
      finally show ?thesis using q(3) by (simp add: found_def)
    qed
    then have "\<exists>r msg3 s2. rmgmt_fpt_get_debug_type bd msg2 s1 = Some (r, msg3, s2)
        \<and> (\<forall>t. r = Inr t \<longrightarrow> t = mb_vmr_debug_type (multiboot_payload msg))"
      using q4(1) r5(1) by (auto simp: rmgmt_fpt_get_debug_type_def split: sum.splits)
    with set show ?thesis by blast
    qed
  qed
qed

lemma write_image_returns:
  assumes bd: "b_flash bd = ops" and g: "good (rm_flash s)"
    and D: "unat D mod 256 = 0" "unat D + 256 * P \<le> cap" "unat D + unat len < cap"
    and P: "P = unat (page_count len)" "P = 1 \<or> 10 \<le> P"
  shows "\<exists>ret s'. write_image bd pdi D len s = Some (ret, s') \<and> rm_rh s' = rm_rh s
    \<and> (ret = 0 \<longrightarrow> cl_mem s' = cl_mem s \<and> good (rm_flash s')
         \<and> (\<forall>i < 256 * P. img (rm_flash s') (D + of_nat i) = cl_mem s (pdi + of_nat i)))"
proof -
  let ?w = "cl_mem s" and ?m = "IO_SYNC_WRITE32 BOOT_TAG_MASK (pdi + BOOT_TAG_OFFSET) (cl_mem s)"
  let ?blank = "flash_blank (img (rm_flash s)) sect (unat D div sect) ((unat D + unat len) div sect)"
  have D8: "unat D mod 8 = 0" using mod_mod_cancel [of 8 256 "unat D"] D(1) by simp
  have N: "256 * P = 256 * ((unat len + 255) div 256)" using P by (simp add: unat_page_count)
  from service_erase [OF bd g D(3)] obtain st1 s1 where
    e: "flash_do (fl_erase (b_flash bd) CL_FLASH_BOOT D len) s = Some (st1, s1)" "s1 = s\<lparr>rm_flash := rm_flash s1\<rparr>"
      "st1 = 0 \<longrightarrow> good (rm_flash s1) \<and> img (rm_flash s1) = ?blank" by blast
  have s1: "cl_mem s1 = cl_mem s" "rm_rh s1 = rm_rh s" by (subst e(2), simp)+
  show ?thesis
  proof (cases "st1 = 0")
    case False
    then show ?thesis using e(1) s1 by (simp add: write_image_def)
  next
    case True
    define s2 where "s2 = set_plm_boot_tag pdi BOOT_TAG_MASK s1"
    have s2: "rm_flash s2 = rm_flash s1" "rm_rh s2 = rm_rh s" "cl_mem s2 = ?m"
      using s1 by (simp_all add: s2_def set_plm_boot_tag_def)
    have g2: "good (rm_flash s2)" using e(3) True s2 by simp
    have pc: "unat (page_count len) \<le> 1 \<or> 10 \<le> unat (page_count len)" using P by auto
    from service_write [OF bd g2 D8 _ pc, of "mem_buffer s2 pdi"] D P obtain st3 s3 where
      w: "flash_do (fl_write (b_flash bd) CL_FLASH_BOOT (mem_buffer s2 pdi) D len) s2 = Some (st3, s3)"
        "s3 = s2\<lparr>rm_flash := rm_flash s3\<rparr>"
        "st3 = 0 \<longrightarrow> good (rm_flash s3)
           \<and> img (rm_flash s3) = flash_prog (img (rm_flash s2)) D (map (mem_buffer s2 pdi) [0..<256 * P])" by blast
    have s3: "cl_mem s3 = ?m" "rm_rh s3 = rm_rh s" using s2 by (subst w(2), simp)+
    show ?thesis
    proof (cases "st3 = 0")
      case False
      then show ?thesis using e(1) True w(1) s3(2)
        by (simp add: write_image_def Let_def flip: s2_def)
    next
      case st3: True
      define s4 where "s4 = set_plm_boot_tag pdi (IO_SYNC_READ32 (pdi + BOOT_TAG_OFFSET) (cl_mem s1)) s3"
      have s4: "rm_flash s4 = rm_flash s3" "rm_rh s4 = rm_rh s" "cl_mem s4 = cl_mem s"
        using s1 s3 by (simp_all add: s4_def set_plm_boot_tag_def write32_restore)
      have g4: "good (rm_flash s4)" using w(3) st3 s4 by simp
      have p1: "unat (page_count OSPI_VERSAL_PAGESIZE) = 1"
        by (simp add: unat_page_count OSPI_VERSAL_PAGESIZE_def)
      from service_write [OF bd g4 D8, of OSPI_VERSAL_PAGESIZE "mem_buffer s4 pdi"] p1 D P obtain st5 s5 where
        w5: "flash_do (fl_write (b_flash bd) CL_FLASH_BOOT (mem_buffer s4 pdi) D OSPI_VERSAL_PAGESIZE) s4 = Some (st5, s5)"
          "s5 = s4\<lparr>rm_flash := rm_flash s5\<rparr>"
          "st5 = 0 \<longrightarrow> good (rm_flash s5)
             \<and> img (rm_flash s5) = flash_prog (img (rm_flash s4)) D (map (mem_buffer s4 pdi) [0..<256])"
        by auto
      have s5: "cl_mem s5 = cl_mem s" "rm_rh s5 = rm_rh s" using s4 by (subst w5(2), simp)+
      have res: "write_image bd pdi D len s = Some (st5, s5)"
        using e(1) True w(1) st3 w5(1) by (simp add: write_image_def Let_def flip: s2_def s4_def)
      have blank: "?blank x = 0xFF" if "unat D \<le> unat x" "unat x < unat D + 256 * P" for x
      proof -
        have "unat x div sect \<le> (unat D + unat len) div sect"
        proof -
          obtain q where q: "unat D = 256 * q" using D(1) by (auto elim: dvdE)
          have "unat x < (q + P) * 256" using that(2) q by simp
          then have "unat x div 256 < q + P" by (simp add: div_less_iff_less_mult)
          moreover have "P \<le> unat len div 256 + 1"
            using div_le_mono [of "unat len + 255" "unat len + 256" 256] N by simp
          moreover have "(unat D + unat len) div 256 = q + unat len div 256" using q by simp
          ultimately have "unat x div 256 \<le> (unat D + unat len) div 256" by simp
          moreover have "unat x div sect = unat x div 256 div (sect div 256)"
            "(unat D + unat len) div sect = (unat D + unat len) div 256 div (sect div 256)"
            using sect(2) by (auto simp: div_mult2_eq [symmetric] elim!: dvdE)
          ultimately show ?thesis by (simp add: div_le_mono)
        qed
        moreover have "unat D div sect \<le> unat x div sect" using that(1) by (rule div_le_mono)
        ultimately show ?thesis by (simp add: flash_blank_def)
      qed
      have i5: "img (rm_flash s5) = (\<lambda>x. if unat D \<le> unat x \<and> unat x < unat D + 256 * P
          then ?w (pdi + of_nat (unat x - unat D)) else ?blank x)" if "st5 = 0"
      proof -
        have "img (rm_flash s5) = flash_prog (flash_prog ?blank D (map (\<lambda>i. ?m (pdi + of_nat i)) [0..<256 * P])) D
            (map (\<lambda>i. ?w (pdi + of_nat i)) [0..<256])"
          using w5(3) w(3) e(3) that st3 True s2 s4 by (simp add: mem_buffer_def)
        also have "\<dots> = (\<lambda>x. if unat D \<le> unat x \<and> unat x < unat D + 256 * P
            then ?w (pdi + of_nat (unat x - unat D)) else ?blank x)"
          using blank P(2) D(2) cap by (intro tag_written_last) auto
        finally show ?thesis .
      qed
      have "img (rm_flash s5) (D + of_nat i) = ?w (pdi + of_nat i)" if "st5 = 0" "i < 256 * P" for i
      proof -
        have "unat (D + of_nat i) = unat D + i" using that(2) D(2) cap by (intro unat_add_of_nat) simp
        then show ?thesis using i5 [OF that(1)] that(2) by simp
      qed
      then show ?thesis using res s5 w5(3) by auto
    qed
  qed
qed

lemma flash_default_returns:
  assumes bd: "b_flash bd = ops" and g: "good (rm_flash s)"
    and D: "unat D mod 256 = 0" "unat D + 256 * P \<le> cap" "unat D + unat len < cap"
    and P: "P = unat (page_count len)" "P = 1 \<or> 10 \<le> P"
    and B: "unat B mod sect = 0" "unat B + 256 < cap"
    and apart: "unat B + 256 \<le> unat D \<or> unat D + 256 * P \<le> unat B"
    and f: "found cap B D msg0 msg"
  shows "\<exists>ret s'. flash_default_image bd pdi len msg s = Some (ret, s') \<and> rm_rh s' = rm_rh s
    \<and> (ret = 0 \<longrightarrow> cl_mem s' = cl_mem s
         \<and> (\<forall>i < 256 * P. img (rm_flash s') (D + of_nat i) = cl_mem s (pdi + of_nat i))
         \<and> (let meta = read_pdi_meta (mem_load (img (rm_flash s')) B 256)
            in fpt_pdi_magic meta = FPT_PDIMETA_MAGIC \<and> fpt_pdi_size meta = len \<and> fpt_pdi_debug_type meta = 0))"
proof -
  have Bc: "unat B + 256 \<le> cap" using B by simp
  let ?p = "multiboot_payload msg"
  show ?thesis
  proof (cases "len > mb_default_partition_size ?p \<or> mb_default_partition_offset ?p = 0")
    case True
    then show ?thesis by (auto simp: flash_default_image_def Let_def)
  next
    case pre: False
    then have off: "mb_default_partition_offset ?p = D" using f by (auto simp: found_def)
    from meta_get_returns [OF bd g found_bases(1) [OF f Bc]] obtain r s1 where
      r: "rmgmt_fpt_pdi_meta_get bd msg FPT_TYPE_PDIMETA s = Some (r, s1)" "kept good img s s1"
        "\<forall>meta. r = Inr meta \<longrightarrow> rmgmt_fpt_pdi_get_base msg FPT_TYPE_PDIMETA \<noteq> 0
         \<and> meta = read_pdi_meta (mem_load (img (rm_flash s)) (rmgmt_fpt_pdi_get_base msg FPT_TYPE_PDIMETA) 256)"
      by blast
    have k1: "good (rm_flash s1)" "cl_mem s1 = cl_mem s" "rm_rh s1 = rm_rh s" using r(2) by (simp_all add: kept_def)
    show ?thesis
    proof (cases r)
      case (Inl e)
      moreover have "e \<noteq> 0" using r(1) Inl by (auto simp: rmgmt_fpt_pdi_meta_get_def Let_def split: if_splits)
      ultimately show ?thesis using pre r(1) k1 by (auto simp: flash_default_image_def Let_def)
    next
      case (Inr meta)
      have b: "rmgmt_fpt_pdi_get_base msg FPT_TYPE_PDIMETA = B" "B \<noteq> 0"
        using found_bases(3) [OF f Bc] r(3) Inr by auto
      have mo: "meta_ok meta" using r(3) Inr by simp
      have er: "\<exists>ret s2. (if fpt_pdi_magic meta \<noteq> FPT_PDIMETA_MAGIC
          then rmgmt_fpt_pdi_meta_erase bd msg FPT_TYPE_PDIMETA s1 else Some (0, s1)) = Some (ret, s2)
        \<and> cl_mem s2 = cl_mem s \<and> rm_rh s2 = rm_rh s \<and> (ret = 0 \<longrightarrow> good (rm_flash s2))"
      proof (cases "fpt_pdi_magic meta = FPT_PDIMETA_MAGIC")
        case False
        from service_erase [OF bd k1(1), of B OSPI_VERSAL_PAGESIZE] B(2) obtain st s2 where
          e: "flash_do (fl_erase (b_flash bd) CL_FLASH_BOOT B OSPI_VERSAL_PAGESIZE) s1 = Some (st, s2)"
            "s2 = s1\<lparr>rm_flash := rm_flash s2\<rparr>" "st = 0 \<longrightarrow> good (rm_flash s2)"
          by (auto simp: OSPI_VERSAL_PAGESIZE_def)
        have "cl_mem s2 = cl_mem s" "rm_rh s2 = rm_rh s" using k1 by (subst e(2), simp)+
        then show ?thesis using e(1,3) False b by (simp add: rmgmt_fpt_pdi_meta_erase_def)
      qed (use k1 in simp)
      then obtain ret s2 where e: "(if fpt_pdi_magic meta \<noteq> FPT_PDIMETA_MAGIC
          then rmgmt_fpt_pdi_meta_erase bd msg FPT_TYPE_PDIMETA s1 else Some (0, s1)) = Some (ret, s2)"
        "cl_mem s2 = cl_mem s" "rm_rh s2 = rm_rh s" "ret = 0 \<longrightarrow> good (rm_flash s2)" by blast
      show ?thesis
      proof (cases "ret = 0")
        case False
        then show ?thesis using pre r(1) Inr e by (simp add: flash_default_image_def Let_def)
      next
        case True
        then have g2: "good (rm_flash s2)" using e by simp
        from write_image_returns [OF bd g2 D P, of pdi] obtain ret3 s3 where
          w: "write_image bd pdi D len s2 = Some (ret3, s3)" "rm_rh s3 = rm_rh s"
            "ret3 = 0 \<longrightarrow> cl_mem s3 = cl_mem s \<and> good (rm_flash s3)
             \<and> (\<forall>i < 256 * P. img (rm_flash s3) (D + of_nat i) = cl_mem s (pdi + of_nat i))"
          using e(2,3) by auto
        show ?thesis
        proof (cases "ret3 = 0")
          case False
          then show ?thesis using pre off r(1) Inr e True w by (simp add: flash_default_image_def Let_def)
        next
          case ret3: True
          let ?meta = "meta\<lparr>fpt_pdi_magic := FPT_PDIMETA_MAGIC, fpt_pdi_size := len, fpt_pdi_debug_type := 0\<rparr>"
          let ?bs = "pdi_meta_bytes ?meta @ replicate 236 0"
          have mo': "meta_ok ?meta" using mo by (simp add: meta_ok_def)
          have g3: "good (rm_flash s3)" using w ret3 by simp
          from meta_set_returns [OF bd g3 _ B mo', of msg FPT_TYPE_PDIMETA] b obtain ret4 s4 where
            m: "rmgmt_fpt_pdi_meta_set bd msg FPT_TYPE_PDIMETA ?meta s3 = Some (ret4, s4)"
              "cl_mem s4 = cl_mem s3" "rm_rh s4 = rm_rh s3"
              "ret4 = 0 \<longrightarrow> img (rm_flash s4) = mem_store (img (rm_flash s3)) B ?bs" by blast
          have res: "flash_default_image bd pdi len msg s = Some (ret4, s4)"
            using pre off r(1) Inr e True w(1) ret3 m(1) by (simp add: flash_default_image_def Let_def)
          have image: "mem_store (img (rm_flash s3)) B ?bs (D + of_nat i) = cl_mem s (pdi + of_nat i)"
            if i: "i < 256 * P" for i
          proof -
            have "unat (D + of_nat i) = unat D + i" using i D(2) cap by (intro unat_add_of_nat) simp
            then have "mem_store (img (rm_flash s3)) B ?bs (D + of_nat i) = img (rm_flash s3) (D + of_nat i)"
              using apart i B(2) cap by (subst mem_store_at) auto
            then show ?thesis using w(3) ret3 i by simp
          qed
          have "mem_load (mem_store (img (rm_flash s3)) B ?bs) B 256 = ?bs"
            using mem_load_store_same [of ?bs "img (rm_flash s3)" B] by simp
          then have "read_pdi_meta (mem_load (mem_store (img (rm_flash s3)) B ?bs) B 256) = ?meta"
            using mo' by (simp add: read_meta_bytes)
          then show ?thesis using res m w ret3 image by (auto simp: Let_def)
        qed
      qed
    qed
  qed
qed

end

section \<open>A sample board\<close>

text \<open>A board on which nothing else happens, with registers that read zero, and a flash chip that
  holds a boot table with the metadata at \<open>0x40000\<close> and the default image at \<open>0x80000\<close>.\<close>

definition sim_rtos :: "'w rtos" where
  "sim_rtos = \<lparr> xQueueCreate = (\<lambda>qid len k. (True, k)), xQueueSend = (\<lambda>qid msg wait k. (True, k)),
     xQueueReceive = (\<lambda>qid wait k. (None, k)), xTaskCreate = (\<lambda>t k. (True, k)),
     xSemaphoreTake = (\<lambda>k. (True, k)), xSemaphoreGive = (\<lambda>k. k) \<rparr>"

definition sim_vmc :: "'w vmc_ops" where
  "sim_vmc = \<lparr> vmc_ready = (\<lambda>w. True), vmc_throttling_disable = (\<lambda>w. (0, w)),
     vmc_throttling_enable = (\<lambda>w. (0, w)), vmc_throttled = (\<lambda>w. 0), vmc_scfw_version = (\<lambda>w. ((4, 4, 6), w)) \<rparr>"

definition sim_ipi :: "'w ipi_ops" where
  "sim_ipi = \<lparr> ipi_lookup = (\<lambda>w. True), ipi_cfg_init = (\<lambda>w. (0, w)), ipi_clear = (\<lambda>i w. w),
     ipi_enable = (\<lambda>i w. w), ipi_status = (\<lambda>w. (0, w)), ipi_write = (\<lambda>ws w. (0, w)),
     ipi_trigger = (\<lambda>w. (0, w)), ipi_poll = (\<lambda>n w. (0, w)), ipi_read = (\<lambda>w. ((0, 0), w)) \<rparr>"

definition sim_board :: "'f flash_ops \<Rightarrow> ('w, 'f) board" where
  "sim_board ops = \<lparr> w_delay = (\<lambda>x. x), w_create = (\<lambda>w. (True, w)), w_take = (\<lambda>w. (True, w)),
     w_give = (\<lambda>w. (True, w)), w_delete = (\<lambda>w. w),
     b_read32 = (\<lambda>a w. (0, w)), b_write32 = (\<lambda>v a w. w), b_mdelay = (\<lambda>n x. x),
     b_malloc = (\<lambda>n w. (0x10000000, w)), b_free = (\<lambda>a w. w), b_rtos = sim_rtos, b_flash = ops, b_vmc = sim_vmc,
     b_fpga_init = (\<lambda>w. (0, w)), b_bitstream_load = (\<lambda>a n m w. (0, w)), b_ipi = sim_ipi,
     b_xilpm_init = (\<lambda>w. (0, w)), b_shutdown = (\<lambda>f w. (0, w)),
     b_task_count = (\<lambda>w. 1), b_task_stats = (\<lambda>n w. ([], 0)), b_heap_stats = (\<lambda>w. replicate 7 0),
     PR_ISOLATION = 0x80000000, UCS_CONTROL_STATUS = 0x80010000, FIREWALL_USER = 0x80020000,
     GAPPING_DEMAND = 0x80030000, ACLK_KERNEL = (0x80040000, 0x80050000), ACLK_FREQ_0 = 0x80060000,
     ACLK_FREQ_KERNEL = (0x80070000, 0x80080000), FORCE_RESET = None, PRELOAD_FPT = 0x7F000000,
     STDIN_OUT = (0xFF000000, 0xFF000000), SQ_CQ_BASES = [0x80090000, 0x800A0000], STACK_WORDS = [],
     SIZEOF_TASK_STATUS = 36, BUILD_XRT_ONLY = False, BUILD_VERSION = None \<rparr>"

lemma sim_board_flash [simp]: "b_flash (sim_board ops) = ops"
  by (simp add: sim_board_def)

definition sim_table :: mem where
  "sim_table = (\<lambda>_. 0)(0 := 0x63, 1 := 0xC5, 2 := 0x0B, 3 := 0x3A, 6 := 28, 7 := 2,
     28 := 5, 29 := 0x0E, 42 := 4, 57 := 0x0E, 70 := 8)"

definition no_ring :: xgq_ring where
  "no_ring = \<lparr> xr_slot_num = 0, xr_slot_sz = 0, xr_produced = 0, xr_consumed = 0, xr_produced_addr = 0,
     xr_consumed_addr = 0, xr_slot_addr = 0 \<rparr>"

definition sim_state_of :: "'w \<Rightarrow> mem \<Rightarrow> mem \<Rightarrow> ('w, sim_chip ospi) rmgmt" where
  "sim_state_of w chip m = \<lparr> apu_xgq = \<lparr> xq_io_hdl = 0, xq_header_addr = 0, xq_flags = 0, xq_sq = no_ring, xq_cq = no_ring \<rparr>, cl_mem = m,
     apu_mem = \<lparr> apu_channel_ready = 0, apu_xgq_ring_buffer = 0 \<rparr>, xgq_apu_ready = False, cl_world = w,
     rm_flash = sim_start chip,
     rm_rh = \<lparr> rh_boot_on_offset = 0, rh_data_max_size = 0, rh_data_size = 0, rh_data_base = 0,
       rh_data_priv = None, rh_log_max_size = 0, rh_log = 0, rh_data_buffer = 0, rh_already_flashed = False \<rparr>,
     rmgmt_is_ready_flag = False \<rparr>"

definition sim_state :: "mem \<Rightarrow> mem \<Rightarrow> (unit, sim_chip ospi) rmgmt" where
  "sim_state = sim_state_of ()"

lemma sim_table_layout: "fpt_layout sim_table 0x10000000 0x40000 0x80000"
proof -
  have h: "read_fpt_hdr (mem_load sim_table 0 12)
      = \<lparr> fpt_magic = FPT_MAGIC, fpt_entry_size = 28, fpt_num_entries = 2 \<rparr>"
    by (simp add: read_fpt_hdr_def word_at_def sim_table_def mem_load_def u32_of_bytes_def FPT_MAGIC_def upt_rec)
  have e: "table_entry_at sim_table 1 = \<lparr> partition_type = FPT_TYPE_PDIMETA, partition_base_addr = 0x40000, partition_size = 0 \<rparr>"
    "table_entry_at sim_table 2 = \<lparr> partition_type = FPT_TYPE_BOOT, partition_base_addr = 0x80000, partition_size = 0 \<rparr>"
    unfolding table_entry_at_def h
    by (simp_all add: read_fpt_entry_def word_at_def sim_table_def mem_load_def u32_of_bytes_def
        FPT_TYPE_PDIMETA_def FPT_TYPE_BOOT_def upt_rec)
  have "[1..<Suc (unat (2 :: u8))] = [1, 2]" by (simp add: upt_rec)
  then show ?thesis unfolding fpt_layout_def h
    by (simp add: e [unfolded One_nat_def] Let_def FPT_TYPE_PDIMETA_def FPT_TYPE_BOOT_def FPT_TYPE_PDIMETA_BACKUP_def)
qed

section \<open>Properties\<close>

text \<open>C21: The debug type round trip: a value stored by \<open>rmgmt_fpt_set_debug_type\<close> is what
  \<open>rmgmt_fpt_get_debug_type\<close> returns, if it returns one at all, over the OSPI driver and any chip that
  keeps its laws, whatever transfers fail.\<close>

theorem debug_type_roundtrip:
  assumes "flash_chip drv v fi" "b_flash bd = ospi_ops drv True" "idle v fi (rm_flash s)"
    "fpt_layout (content v (rm_flash s)) (unat (FlashDeviceSize fi)) B D"
    "unat B mod unat (SectSize fi) = 0" "unat B + 256 < unat (FlashDeviceSize fi)"
    "mb_pdimeta_offset (multiboot_payload msg) = 0" "mb_pdimeta_backup_offset (multiboot_payload msg) = 0"
    "mb_default_partition_offset (multiboot_payload msg) = 0"
  shows "\<exists>ret msg1 s1. rmgmt_fpt_set_debug_type bd msg s = Some (ret, msg1, s1)
    \<and> (ret = 0 \<longrightarrow> (\<exists>r msg3 s2. rmgmt_fpt_get_debug_type bd cl_msg_zero s1 = Some (r, msg3, s2)
          \<and> (\<forall>t. r = Inr t \<longrightarrow> t = mb_vmr_debug_type (multiboot_payload msg))))"
proof -
  have "256 \<le> unat (FlashDeviceSize fi)" using assms(6) by simp
  then have "found (unat (FlashDeviceSize fi)) B D msg msg"
    "found (unat (FlashDeviceSize fi)) B D cl_msg_zero cl_msg_zero"
    using assms(7-9) by (simp_all add: found_def cl_msg_zero_def multiboot_zero_def)
  from flash_service.debug_type_stored [OF ospi_flash_service [OF assms(1)] assms(2-6) this]
  show ?thesis .
qed

theorem debug_type_roundtrip_witness:
  "\<exists>ret msg1 s1. rmgmt_fpt_set_debug_type (sim_board (ospi_ops sim_driver True))
       (on_multiboot (\<lambda>p. p\<lparr>mb_vmr_debug_type := 3\<rparr>) cl_msg_zero) (sim_state sim_table (\<lambda>_. 0)) = Some (ret, msg1, s1)
     \<and> (ret = 0 \<longrightarrow> (\<exists>r msg3 s2. rmgmt_fpt_get_debug_type (sim_board (ospi_ops sim_driver True)) cl_msg_zero s1
            = Some (r, msg3, s2) \<and> (\<forall>t. r = Inr t \<longrightarrow> t = 3)))"
  using debug_type_roundtrip [OF sim_chip_ok, of "sim_board (ospi_ops sim_driver True)" "sim_state sim_table (\<lambda>_. 0)"
      "262144" "524288" "on_multiboot (\<lambda>p. p\<lparr>mb_vmr_debug_type := 3\<rparr>) cl_msg_zero"] sim_table_layout
  by (simp add: sim_state_def sim_state_of_def on_multiboot_def cl_msg_zero_def multiboot_zero_def)



end
