(* ===== verification/Rmgmt_Trace.thy ===== *)
theory Rmgmt_Trace
  imports Rmgmt_Base
begin

text \<open>A board that also writes down what is done to the hardware: \<open>traced bd\<close> behaves as \<open>bd\<close>, and
  keeps the list of the events, the latest first, beside its state.  Statements on the order of
  register accesses and of loads are statements on this list.\<close>

datatype hw_event =
    Rd u32 u32
  | Wr u32 u32
  | Delay nat
  | Load u32 u32 int

definition traced_rtos :: "'w rtos \<Rightarrow> ('w \<times> hw_event list) rtos" where
  "traced_rtos rt = \<lparr>
     xQueueCreate = (\<lambda>qid len (w, t). let (r, w') = xQueueCreate rt qid len w in (r, w', t)),
     xQueueSend = (\<lambda>qid msg wait (w, t). let (r, w') = xQueueSend rt qid msg wait w in (r, w', t)),
     xQueueReceive = (\<lambda>qid wait (w, t). let (r, w') = xQueueReceive rt qid wait w in (r, w', t)),
     xTaskCreate = (\<lambda>k (w, t). let (r, w') = xTaskCreate rt k w in (r, w', t)),
     xSemaphoreTake = (\<lambda>(w, t). let (r, w') = xSemaphoreTake rt w in (r, w', t)),
     xSemaphoreGive = (\<lambda>(w, t). (xSemaphoreGive rt w, t)) \<rparr>"

definition traced_vmc :: "'w vmc_ops \<Rightarrow> ('w \<times> hw_event list) vmc_ops" where
  "traced_vmc v = \<lparr> vmc_ready = (\<lambda>(w, t). vmc_ready v w),
     vmc_throttling_disable = (\<lambda>(w, t). let (r, w') = vmc_throttling_disable v w in (r, w', t)),
     vmc_throttling_enable = (\<lambda>(w, t). let (r, w') = vmc_throttling_enable v w in (r, w', t)),
     vmc_throttled = (\<lambda>(w, t). vmc_throttled v w),
     vmc_scfw_version = (\<lambda>(w, t). let (r, w') = vmc_scfw_version v w in (r, w', t)) \<rparr>"

definition traced_ipi :: "'w ipi_ops \<Rightarrow> ('w \<times> hw_event list) ipi_ops" where
  "traced_ipi p = \<lparr> ipi_lookup = (\<lambda>(w, t). ipi_lookup p w),
     ipi_cfg_init = (\<lambda>(w, t). let (r, w') = ipi_cfg_init p w in (r, w', t)),
     ipi_clear = (\<lambda>i (w, t). (ipi_clear p i w, t)), ipi_enable = (\<lambda>i (w, t). (ipi_enable p i w, t)),
     ipi_status = (\<lambda>(w, t). let (r, w') = ipi_status p w in (r, w', t)),
     ipi_write = (\<lambda>ws (w, t). let (r, w') = ipi_write p ws w in (r, w', t)),
     ipi_trigger = (\<lambda>(w, t). let (r, w') = ipi_trigger p w in (r, w', t)),
     ipi_poll = (\<lambda>n (w, t). let (r, w') = ipi_poll p n w in (r, w', t)),
     ipi_read = (\<lambda>(w, t). let (r, w') = ipi_read p w in (r, w', t)) \<rparr>"

definition traced :: "('w, 'f) board \<Rightarrow> ('w \<times> hw_event list, 'f) board" where
  "traced bd = \<lparr>
     w_delay = (\<lambda>((w, t), m). let (w', m') = w_delay bd (w, m) in ((w', t), m')),
     w_create = (\<lambda>(w, t). let (r, w') = w_create bd w in (r, w', t)),
     w_take = (\<lambda>(w, t). let (r, w') = w_take bd w in (r, w', t)),
     w_give = (\<lambda>(w, t). let (r, w') = w_give bd w in (r, w', t)),
     w_delete = (\<lambda>(w, t). (w_delete bd w, t)),
     b_read32 = (\<lambda>a (w, t). let (v, w') = b_read32 bd a w in (v, w', Rd a v # t)),
     b_write32 = (\<lambda>v a (w, t). (b_write32 bd v a w, Wr a v # t)),
     b_mdelay = (\<lambda>n ((w, t), m). let (w', m') = b_mdelay bd n (w, m) in ((w', Delay n # t), m')),
     b_malloc = (\<lambda>n (w, t). let (r, w') = b_malloc bd n w in (r, w', t)),
     b_free = (\<lambda>a (w, t). (b_free bd a w, t)),
     b_rtos = traced_rtos (b_rtos bd), b_flash = b_flash bd, b_vmc = traced_vmc (b_vmc bd),
     b_fpga_init = (\<lambda>(w, t). let (r, w') = b_fpga_init bd w in (r, w', t)),
     b_bitstream_load = (\<lambda>a n m (w, t). let (r, w') = b_bitstream_load bd a n m w in (r, w', Load a n r # t)),
     b_ipi = traced_ipi (b_ipi bd),
     b_xilpm_init = (\<lambda>(w, t). let (r, w') = b_xilpm_init bd w in (r, w', t)),
     b_shutdown = (\<lambda>x (w, t). let (r, w') = b_shutdown bd x w in (r, w', t)),
     b_task_count = (\<lambda>(w, t). b_task_count bd w), b_task_stats = (\<lambda>n (w, t). b_task_stats bd n w),
     b_heap_stats = (\<lambda>(w, t). b_heap_stats bd w),
     PR_ISOLATION = PR_ISOLATION bd, UCS_CONTROL_STATUS = UCS_CONTROL_STATUS bd,
     FIREWALL_USER = FIREWALL_USER bd, GAPPING_DEMAND = GAPPING_DEMAND bd, ACLK_KERNEL = ACLK_KERNEL bd,
     ACLK_FREQ_0 = ACLK_FREQ_0 bd, ACLK_FREQ_KERNEL = ACLK_FREQ_KERNEL bd, FORCE_RESET = FORCE_RESET bd,
     PRELOAD_FPT = PRELOAD_FPT bd, STDIN_OUT = STDIN_OUT bd, SQ_CQ_BASES = SQ_CQ_BASES bd, STACK_WORDS = STACK_WORDS bd,
     SIZEOF_TASK_STATUS = SIZEOF_TASK_STATUS bd, BUILD_XRT_ONLY = BUILD_XRT_ONLY bd, BUILD_VERSION = BUILD_VERSION bd \<rparr>"

definition events :: "('w \<times> hw_event list, 'f) rmgmt \<Rightarrow> hw_event list" where
  "events s = snd (cl_world s)"

lemma traced_simps [simp]:
  "PR_ISOLATION (traced bd) = PR_ISOLATION bd" "UCS_CONTROL_STATUS (traced bd) = UCS_CONTROL_STATUS bd"
  "FIREWALL_USER (traced bd) = FIREWALL_USER bd" "ACLK_KERNEL (traced bd) = ACLK_KERNEL bd"
  "ACLK_FREQ_KERNEL (traced bd) = ACLK_FREQ_KERNEL bd" "b_flash (traced bd) = b_flash bd"
  "PRELOAD_FPT (traced bd) = PRELOAD_FPT bd" "GAPPING_DEMAND (traced bd) = GAPPING_DEMAND bd"
  "FORCE_RESET (traced bd) = FORCE_RESET bd"
  by (simp_all add: traced_def)

lemma events_reg_read: "reg_read (traced bd) a s = (v, s') \<Longrightarrow> events s' = Rd a v # events s"
  by (auto simp: reg_read_def traced_def events_def split: prod.splits)

lemma events_reg_write [simp]: "events (reg_write (traced bd) v a s) = Wr a v # events s"
  by (auto simp: reg_write_def traced_def events_def split: prod.splits)

lemma events_MDELAY [simp]: "events (MDELAY (traced bd) n s) = Delay n # events s"
  by (auto simp: MDELAY_def traced_def events_def split: prod.splits)

text \<open>The events between two states.\<close>

definition emits :: "(hw_event \<Rightarrow> bool) \<Rightarrow> ('w \<times> hw_event list, 'f) rmgmt \<Rightarrow> ('w \<times> hw_event list, 'f) rmgmt \<Rightarrow> bool" where
  "emits P s s' \<longleftrightarrow> (\<exists>new. events s' = new @ events s \<and> (\<forall>e \<in> set new. P e))"

lemma emits_refl [simp]: "emits P s s"
  by (simp add: emits_def)

lemma emits_trans: "emits P s t \<Longrightarrow> emits P t u \<Longrightarrow> emits P s u"
  by (fastforce simp: emits_def)

lemma emits_mono: "emits P s t \<Longrightarrow> (\<And>e. P e \<Longrightarrow> Q e) \<Longrightarrow> emits Q s t"
  by (fastforce simp: emits_def)

lemma emits_silent: "events s' = events s \<Longrightarrow> emits P s s'"
  by (simp add: emits_def)

lemma emits_write: "P (Wr a v) \<Longrightarrow> emits P s (reg_write (traced bd) v a s)"
  by (auto simp: emits_def)

lemma emits_read: "reg_read (traced bd) a s = (v, s') \<Longrightarrow> P (Rd a v) \<Longrightarrow> emits P s s'"
  using events_reg_read by (fastforce simp: emits_def)

lemma emits_delay: "P (Delay n) \<Longrightarrow> emits P s (MDELAY (traced bd) n s)"
  by (auto simp: emits_def)

end
