(* ===== verification/Rmgmt_Clock.thy ===== *)
theory Rmgmt_Clock
  imports Rmgmt_Trace "HOL-Library.Signed_Division"
begin

text \<open>Model of \<open>rmgmt/rmgmt_clock.c\<close>, the scaling of the kernel clocks and the measuring of their
  frequencies, and of the parts of \<open>rmgmt/rmgmt_main.c\<close> that a clock request needs: the state of the
  firewall, and \<open>cl_rmgmt_clock\<close> itself.\<close>

section \<open>Registers of the clock wizard (rmgmt_clock.h)\<close>

definition CLOCK_COUNTER_MAX_RES :: int where "CLOCK_COUNTER_MAX_RES = 4"
definition OCL_CLKWIZ_STATUS_OFFSET :: u32 where "OCL_CLKWIZ_STATUS_OFFSET = 4"
definition OCL_CLKWIZ_STATUS_MASK :: u32 where "OCL_CLKWIZ_STATUS_MASK = 0xffff"
definition OCL_CLKWIZ_STATUS_MEASURE_START :: u32 where "OCL_CLKWIZ_STATUS_MEASURE_START = 1"
definition OCL_CLKWIZ_STATUS_MEASURE_DONE :: u32 where "OCL_CLKWIZ_STATUS_MEASURE_DONE = 2"
definition OCL_CLK_FREQ_COUNTER_OFFSET :: u32 where "OCL_CLK_FREQ_COUNTER_OFFSET = 8"
definition OCL_CLK_FREQ_V5_COUNTER_OFFSET :: u32 where "OCL_CLK_FREQ_V5_COUNTER_OFFSET = 0x10"
definition OCL_CLK_FREQ_V5_CLK0_ENABLED :: u32 where "OCL_CLK_FREQ_V5_CLK0_ENABLED = 0x10000"
definition OCL_CLKWIZ_INIT_CONFIG :: u32 where "OCL_CLKWIZ_INIT_CONFIG = 0x14"
definition OCL_CLKWIZ_DIVCLK :: u32 where "OCL_CLKWIZ_DIVCLK = 0x380"
definition OCL_CLKWIZ_DIVCLK_TS :: u32 where "OCL_CLKWIZ_DIVCLK_TS = 0x384"
definition OCL_CLKWIZ_CLKFBOUT :: u32 where "OCL_CLKWIZ_CLKFBOUT = 0x330"
definition OCL_CLKWIZ_CLKFBOUT_TS :: u32 where "OCL_CLKWIZ_CLKFBOUT_TS = 0x334"
definition OCL_CLKWIZ_CLKFBOUT_FRACT :: u32 where "OCL_CLKWIZ_CLKFBOUT_FRACT = 0x3fc"
definition OCL_CLKWIZ_CLKOUT0 :: u32 where "OCL_CLKWIZ_CLKOUT0 = 0x338"
definition OCL_CLKWIZ_CLKOUT0_TS :: u32 where "OCL_CLKWIZ_CLKOUT0_TS = 0x33c"
definition CLK_ACAP_MAX_VALUE_FOR_O :: int where "CLK_ACAP_MAX_VALUE_FOR_O = 4320"
definition CLK_ACAP_INPUT_FREQ_X_1000 :: u32 where "CLK_ACAP_INPUT_FREQ_X_1000 = 33333"

text \<open>A bit field of a register: \<open>len\<close> bits from bit \<open>lo\<close> on.\<close>

definition set_field :: "nat \<Rightarrow> nat \<Rightarrow> u32 \<Rightarrow> u32 \<Rightarrow> u32" where
  "set_field lo len x v = (v AND NOT (push_bit lo (mask len))) OR push_bit lo (take_bit len x)"

text \<open>The structures \<open>acap_\<close>... name the fields of the registers.\<close>

definition set_divclk_edge :: "u32 \<Rightarrow> u32 \<Rightarrow> u32" where "set_divclk_edge = set_field 10 1"
definition set_divclk_lt :: "u32 \<Rightarrow> u32 \<Rightarrow> u32" where "set_divclk_lt = set_field 0 8"
definition set_divclk_ht :: "u32 \<Rightarrow> u32 \<Rightarrow> u32" where "set_divclk_ht = set_field 8 8"
definition set_clkfbout_fract_en :: "u32 \<Rightarrow> u32 \<Rightarrow> u32" where "set_clkfbout_fract_en = set_field 1 1"
definition set_clkfbout_edge :: "u32 \<Rightarrow> u32 \<Rightarrow> u32" where "set_clkfbout_edge = set_field 8 1"
definition set_clkfbout_en :: "u32 \<Rightarrow> u32 \<Rightarrow> u32" where "set_clkfbout_en = set_field 9 1"
definition set_clkfbout_mx :: "u32 \<Rightarrow> u32 \<Rightarrow> u32" where "set_clkfbout_mx = set_field 10 2"
definition set_clkfbout_prediv2 :: "u32 \<Rightarrow> u32 \<Rightarrow> u32" where "set_clkfbout_prediv2 = set_field 12 1"
definition set_clkfbout_lt :: "u32 \<Rightarrow> u32 \<Rightarrow> u32" where "set_clkfbout_lt = set_field 0 8"
definition set_clkfbout_ht :: "u32 \<Rightarrow> u32 \<Rightarrow> u32" where "set_clkfbout_ht = set_field 8 8"
definition set_clkout0_edge :: "u32 \<Rightarrow> u32 \<Rightarrow> u32" where "set_clkout0_edge = set_field 8 1"
definition set_clkout0_mx :: "u32 \<Rightarrow> u32 \<Rightarrow> u32" where "set_clkout0_mx = set_field 9 2"
definition set_clkout0_prediv2 :: "u32 \<Rightarrow> u32 \<Rightarrow> u32" where "set_clkout0_prediv2 = set_field 11 1"
definition set_clkout0_used :: "u32 \<Rightarrow> u32 \<Rightarrow> u32" where "set_clkout0_used = set_field 12 1"
definition set_clkout0_p5en :: "u32 \<Rightarrow> u32 \<Rightarrow> u32" where "set_clkout0_p5en = set_field 13 1"
definition set_clkout0_lt :: "u32 \<Rightarrow> u32 \<Rightarrow> u32" where "set_clkout0_lt = set_field 0 8"
definition set_clkout0_ht :: "u32 \<Rightarrow> u32 \<Rightarrow> u32" where "set_clkout0_ht = set_field 8 8"

datatype clock_ip = RMGMT_CLOCK_WIZARD | RMGMT_CLOCK_COUNTER

definition VMR_EP_ACLK_HBM_0 :: u32 where "VMR_EP_ACLK_HBM_0 = 0"
definition VMR_EP_ACLK_SHUTDOWN_0 :: u32 where "VMR_EP_ACLK_SHUTDOWN_0 = 0"
definition VMR_EP_ACLK_FREQ_HBM :: u32 where "VMR_EP_ACLK_FREQ_HBM = 0"
definition VMR_EP_ACLK_FREQ_K1_K2 :: u32 where "VMR_EP_ACLK_FREQ_K1_K2 = 0"

definition clock_wiz_bases :: "('w, 'f) board \<Rightarrow> u32 list" where
  "clock_wiz_bases bd = [fst (ACLK_KERNEL bd), snd (ACLK_KERNEL bd), VMR_EP_ACLK_HBM_0, VMR_EP_ACLK_SHUTDOWN_0]"

definition clock_counter_bases :: "('w, 'f) board \<Rightarrow> u32 list" where
  "clock_counter_bases bd = [fst (ACLK_FREQ_KERNEL bd), snd (ACLK_FREQ_KERNEL bd), VMR_EP_ACLK_FREQ_HBM,
     VMR_EP_ACLK_FREQ_K1_K2]"

section \<open>Measuring a frequency\<close>

primrec measure_wait ::
    "('w, 'f) board \<Rightarrow> u32 \<Rightarrow> nat \<Rightarrow> u32 \<Rightarrow> ('w, 'f) rmgmt \<Rightarrow> u32 \<times> ('w, 'f) rmgmt" where
  "measure_wait bd base 0 status s = (status, s)"
| "measure_wait bd base (Suc n) status s =
     (let (status, s1) = reg_read bd base s
      in if status AND OCL_CLKWIZ_STATUS_MASK = OCL_CLKWIZ_STATUS_MEASURE_DONE then (status, s1)
         else measure_wait bd base n status (MDELAY bd 30 s1))"

text \<open>An index past the tables is not excluded by the check when it is \<open>4\<close>; the table then has no such
  entry, and the value is unspecified.\<close>

definition rmgmt_clock_get_freq :: "('w, 'f) board \<Rightarrow> int \<Rightarrow> clock_ip \<Rightarrow> ('w, 'f) rmgmt \<Rightarrow> u32 \<times> ('w, 'f) rmgmt" where
  "rmgmt_clock_get_freq bd idx ip s =
     (if idx > CLOCK_COUNTER_MAX_RES then (0, s)
      else if ip \<noteq> RMGMT_CLOCK_WIZARD \<and> ip \<noteq> RMGMT_CLOCK_COUNTER then (0, s)
      else let base = clock_counter_bases bd ! nat idx
           in if base = 0 then (0, s)
              else let s1 = reg_write bd OCL_CLKWIZ_STATUS_MEASURE_START base s;
                       (status, s2) = measure_wait bd base 10 0 s1
                   in if status AND OCL_CLKWIZ_STATUS_MASK = OCL_CLKWIZ_STATUS_MEASURE_DONE
                      then reg_read bd (base + (if status AND OCL_CLK_FREQ_V5_CLK0_ENABLED \<noteq> 0
                             then OCL_CLK_FREQ_V5_COUNTER_OFFSET else OCL_CLK_FREQ_COUNTER_OFFSET)) s2
                      else (0, s2))"

section \<open>Scaling the clocks\<close>

primrec wiz_wait ::
    "('w, 'f) board \<Rightarrow> u32 \<Rightarrow> nat \<Rightarrow> nat \<Rightarrow> u32 \<Rightarrow> ('w, 'f) rmgmt \<Rightarrow> u32 \<times> ('w, 'f) rmgmt" where
  "wiz_wait bd base interval 0 val s = (val, s)"
| "wiz_wait bd base interval (Suc n) val s =
     (if val = 1 then (val, s)
      else let (val, s1) = reg_read bd (base + OCL_CLKWIZ_STATUS_OFFSET) (MDELAY bd interval s)
           in wiz_wait bd base interval n val s1)"

definition clock_wiz_busy :: "('w, 'f) board \<Rightarrow> nat \<Rightarrow> nat \<Rightarrow> nat \<Rightarrow> ('w, 'f) rmgmt \<Rightarrow> int \<times> ('w, 'f) rmgmt" where
  "clock_wiz_busy bd idx cycle interval s =
     (let base = clock_wiz_bases bd ! idx;
          (val, s1) = reg_read bd (base + OCL_CLKWIZ_STATUS_OFFSET) s;
          (val, s2) = wiz_wait bd base interval cycle val s1
      in (if val \<noteq> 1 then -1 else 0, s2))"

text \<open>Division of \<open>int\<close> truncates; the result is then unsigned, as the arithmetic of \<open>floor_acap_m\<close> is.\<close>

definition floor_acap_o :: "u32 \<Rightarrow> u32" where
  "floor_acap_o freq = word_of_int (CLK_ACAP_MAX_VALUE_FOR_O sdiv sint freq)"

definition floor_acap_m :: "u32 \<Rightarrow> u32" where
  "floor_acap_m freq = floor_acap_o freq * freq * 1000 div CLK_ACAP_INPUT_FREQ_X_1000"

definition reg_update :: "('w, 'f) board \<Rightarrow> u32 \<Rightarrow> (u32 \<Rightarrow> u32) \<Rightarrow> ('w, 'f) rmgmt \<Rightarrow> ('w, 'f) rmgmt" where
  "reg_update bd addr f s = (let (val, s1) = reg_read bd addr s in reg_write bd (f val) addr s1)"

definition half :: "u32 \<Rightarrow> u32" where "half x = (x - x mod 2) div 2"

text \<open>The steps 1 to 8 for one clock and the start of the change.\<close>

definition program_wizard :: "('w, 'f) board \<Rightarrow> u32 \<Rightarrow> u32 \<Rightarrow> ('w, 'f) rmgmt \<Rightarrow> ('w, 'f) rmgmt" where
  "program_wizard bd base freq s =
     (let s1 = reg_update bd (base + OCL_CLKWIZ_DIVCLK) (set_divclk_edge 0) s;
          s2 = reg_update bd (base + OCL_CLKWIZ_DIVCLK_TS) (\<lambda>v. set_divclk_ht 0 (set_divclk_lt 0 v)) s1;
          s3 = reg_update bd (base + OCL_CLKWIZ_CLKFBOUT_FRACT) (set_clkfbout_fract_en 0) s2;
          q = floor_acap_o freq;
          m = floor_acap_m freq;
          s4 = reg_update bd (base + OCL_CLKWIZ_CLKFBOUT)
                 (\<lambda>v. set_clkfbout_prediv2 1 (set_clkfbout_mx 1 (set_clkfbout_en 1
                        (set_clkfbout_edge (if m mod 2 \<noteq> 0 then 1 else 0) v)))) s3;
          s5 = reg_write bd (set_clkfbout_ht (half m) (set_clkfbout_lt (half m) 0)) (base + OCL_CLKWIZ_CLKFBOUT_TS) s4;
          s6 = reg_update bd (base + OCL_CLKWIZ_CLKOUT0)
                 (\<lambda>v. set_clkout0_p5en 0 (set_clkout0_prediv2 0 (set_clkout0_used 1 (set_clkout0_mx 1
                        (set_clkout0_edge (if q mod 2 \<noteq> 0 then 1 else 0) v))))) s5;
          s7 = reg_write bd (set_clkout0_ht (half q) (set_clkout0_lt (half q) 0)) (base + OCL_CLKWIZ_CLKOUT0_TS) s6
      in reg_write bd 3 (base + OCL_CLKWIZ_INIT_CONFIG) s7)"

text \<open>The loop over the requested clocks, the next one \<open>i\<close>, \<open>n\<close> of them left.\<close>

primrec scaling_loop ::
    "('w, 'f) board \<Rightarrow> bool \<Rightarrow> u32 list \<Rightarrow> nat \<Rightarrow> nat \<Rightarrow> int \<Rightarrow> ('w, 'f) rmgmt \<Rightarrow> int \<times> ('w, 'f) rmgmt" where
  "scaling_loop bd force freqs 0 i err s = (err, s)"
| "scaling_loop bd force freqs (Suc n) i err s =
     (let freq = freqs ! i
      in if freq = 0 then scaling_loop bd force freqs n (Suc i) err s
         else let (cur_freq, s1) = (if force then (0, s) else rmgmt_clock_get_freq bd (int i) RMGMT_CLOCK_COUNTER s)
              in if \<not> force \<and> cur_freq = freq then scaling_loop bd force freqs n (Suc i) err s1
                 else let (err, s2) = clock_wiz_busy bd i 20 50 s1
                      in if err \<noteq> 0 then (err, s2)
                         else let (err, s3) = clock_wiz_busy bd i 100 100
                                    (program_wizard bd (clock_wiz_bases bd ! i) freq s2)
                              in if err \<noteq> 0 then (err, s3) else scaling_loop bd force freqs n (Suc i) err s3)"

definition rmgmt_clock_freq_scaling_impl ::
    "('w, 'f) board \<Rightarrow> cl_msg \<Rightarrow> bool \<Rightarrow> ('w, 'f) rmgmt \<Rightarrow> int \<times> ('w, 'f) rmgmt" where
  "rmgmt_clock_freq_scaling_impl bd msg force s =
     scaling_loop bd force (ocl_req_freq (clock_payload msg)) (nat (sint (ocl_req_num (clock_payload msg)))) 0 0 s"

definition rmgmt_clock_freq_scaling :: "('w, 'f) board \<Rightarrow> cl_msg \<Rightarrow> ('w, 'f) rmgmt \<Rightarrow> int \<times> ('w, 'f) rmgmt" where
  "rmgmt_clock_freq_scaling bd msg s =
     (let internal = (ocl_req_type (clock_payload msg) = cl_clock_num CL_CLOCK_SCALE_INTERNAL);
          s1 = (if \<not> internal then axigate_freeze bd s else s);
          (ret, s2) = rmgmt_clock_freq_scaling_impl bd msg internal s1
      in (ret, if \<not> internal then axigate_free bd s2 else s2))"

section \<open>The firewall (rmgmt_main.c)\<close>

definition FAULT_STATUS :: u32 where "FAULT_STATUS = 0"
definition UNBLOCK_CTRL :: u32 where "UNBLOCK_CTRL = 8"
definition IP_VERSION :: u32 where "IP_VERSION = 0x10"
definition SI_FAULT_STATUS :: u32 where "SI_FAULT_STATUS = 0x100"
definition MAX_CONTINUOUS_WTRANSFERS_WAITS :: u32 where "MAX_CONTINUOUS_WTRANSFERS_WAITS = 0x130"
definition IP_VER_11 :: u32 where "IP_VER_11 = 1"
definition READ_RESPONSE_BUSY :: u32 where "READ_RESPONSE_BUSY = push_bit 0 1"
definition WRITE_RESPONSE_BUSY :: u32 where "WRITE_RESPONSE_BUSY = push_bit 16 1"
definition FIREWALL_STATUS_BUSY :: u32 where "FIREWALL_STATUS_BUSY = READ_RESPONSE_BUSY OR WRITE_RESPONSE_BUSY"
definition IS_FIRED :: "u32 \<Rightarrow> u32" where "IS_FIRED val = val AND NOT FIREWALL_STATUS_BUSY"
definition FIREWALL_RETRY_COUNT :: nat where "FIREWALL_RETRY_COUNT = 10"
definition BUSY_RETRY_INTERVAL :: nat where "BUSY_RETRY_INTERVAL = 100"
definition CLEAR_RETRY_INTERVAL :: nat where "CLEAR_RETRY_INTERVAL = 2"

definition vmr_afs :: "('w, 'f) board \<Rightarrow> (string \<times> u32) list" where
  "vmr_afs bd = [(''VMR_EP_FIREWALL_USER_BASE'', FIREWALL_USER bd)]"

definition read_firewall :: "('w, 'f) board \<Rightarrow> u32 \<Rightarrow> ('w, 'f) rmgmt \<Rightarrow> u32 \<times> ('w, 'f) rmgmt" where
  "read_firewall bd af_base s =
     (let (version, s1) = reg_read bd (af_base + IP_VERSION) s;
          (si_mode, s2) = (if version \<ge> IP_VER_11
             then let (waits, s2) = reg_read bd (af_base + MAX_CONTINUOUS_WTRANSFERS_WAITS) s1 in (waits \<noteq> 0, s2)
             else (False, s1))
      in reg_read bd (af_base + (if si_mode then SI_FAULT_STATUS else FAULT_STATUS)) s2)"

definition write_firewall_unblock :: "('w, 'f) board \<Rightarrow> u32 \<Rightarrow> ('w, 'f) rmgmt \<Rightarrow> ('w, 'f) rmgmt" where
  "write_firewall_unblock bd val s = reg_write bd val (FIREWALL_USER bd + UNBLOCK_CTRL) s"

fun check_loop :: "('w, 'f) board \<Rightarrow> u32 list \<Rightarrow> u32 \<Rightarrow> ('w, 'f) rmgmt \<Rightarrow> u32 \<times> ('w, 'f) rmgmt" where
  "check_loop bd [] val s = (val, s)"
| "check_loop bd (b # bs) val s =
     (let (v, s1) = read_firewall bd b s
      in if IS_FIRED v \<noteq> 0 then (IS_FIRED v, s1) else check_loop bd bs (IS_FIRED v) s1)"

definition check_firewall :: "('w, 'f) board \<Rightarrow> ('w, 'f) rmgmt \<Rightarrow> u32 \<times> ('w, 'f) rmgmt" where
  "check_firewall bd s = check_loop bd (map snd (vmr_afs bd)) 0 s"

definition cl_rmgmt_pl_is_ready :: "('w, 'f) board \<Rightarrow> ('w, 'f) rmgmt \<Rightarrow> bool \<times> ('w, 'f) rmgmt" where
  "cl_rmgmt_pl_is_ready bd s = (let (val, s1) = check_firewall bd s in (val = 0, s1))"

primrec busy_loop :: "('w, 'f) board \<Rightarrow> u32 \<Rightarrow> nat \<Rightarrow> u32 \<Rightarrow> ('w, 'f) rmgmt \<Rightarrow> u32 \<times> ('w, 'f) rmgmt" where
  "busy_loop bd af_base 0 val s = (val, s)"
| "busy_loop bd af_base (Suc n) val s =
     (let (val, s1) = read_firewall bd af_base s
      in if val AND FIREWALL_STATUS_BUSY \<noteq> 0 then busy_loop bd af_base n val (MDELAY bd BUSY_RETRY_INTERVAL s1)
         else (val, s1))"

primrec clear_loop :: "('w, 'f) board \<Rightarrow> nat \<Rightarrow> ('w, 'f) rmgmt \<Rightarrow> bool \<times> ('w, 'f) rmgmt" where
  "clear_loop bd 0 s = (False, s)"
| "clear_loop bd (Suc n) s =
     (let (val, s1) = check_firewall bd s
      in if val = 0 then (True, s1) else clear_loop bd n (MDELAY bd CLEAR_RETRY_INTERVAL s1))"

text \<open>The last read is for the message of the failure.\<close>

definition rmgmt_clear_firewall :: "('w, 'f) board \<Rightarrow> ('w, 'f) rmgmt \<Rightarrow> int \<times> ('w, 'f) rmgmt" where
  "rmgmt_clear_firewall bd s =
     (let af_base = snd (vmr_afs bd ! 0);
          (fired, s1) = check_firewall bd s
      in if fired = 0 then (0, s1)
         else let (val, s2) = busy_loop bd af_base FIREWALL_RETRY_COUNT 0 s1
              in if val AND FIREWALL_STATUS_BUSY \<noteq> 0 then (- EINVAL, s2)
                 else let (ok, s3) = clear_loop bd FIREWALL_RETRY_COUNT (write_firewall_unblock bd 1 s2)
                      in if ok then (0, s3) else (- EINVAL, snd (read_firewall bd af_base s3)))"

section \<open>Clock requests (rmgmt_main.c)\<close>

definition OCL_MAX_ID :: u32 where "OCL_MAX_ID = 3"
definition OCL_MAX_NUM :: u32 where "OCL_MAX_NUM = 4"

definition validate_clock_payload ::
    "('w, 'f) board \<Rightarrow> xgq_vmr_clock_payload \<Rightarrow> ('w, 'f) rmgmt \<Rightarrow> int \<times> ('w, 'f) rmgmt" where
  "validate_clock_payload bd payload s =
     (let (ready, s1) = cl_rmgmt_pl_is_ready bd s
      in (if \<not> ready then - EIO
          else if ocl_region payload \<noteq> 0 then - EINVAL
          else if ocl_req_type payload > cl_clock_num CL_CLOCK_SCALE_INTERNAL then - EINVAL
          else if ocl_req_id payload > OCL_MAX_ID then - EINVAL
          else if ocl_req_num payload > OCL_MAX_NUM then - EINVAL
          else 0, s1))"

definition set_req_freq :: "u32 \<Rightarrow> cl_msg \<Rightarrow> cl_msg" where
  "set_req_freq freq msg = msg\<lparr>clock_payload := (clock_payload msg)\<lparr>
     ocl_req_freq := (ocl_req_freq (clock_payload msg))[0 := freq]\<rparr>\<rparr>"

definition cl_rmgmt_clock ::
    "('w, 'f) board \<Rightarrow> cl_msg \<Rightarrow> ('w, 'f) rmgmt \<Rightarrow> int \<times> cl_msg \<times> ('w, 'f) rmgmt" where
  "cl_rmgmt_clock bd msg s =
     (let (ret, s1) = validate_clock_payload bd (clock_payload msg) s; ty = ocl_req_type (clock_payload msg);
          idx = sint (ocl_req_id (clock_payload msg))
      in if ret \<noteq> 0 then (ret, msg, s1)
         else if ty = cl_clock_num CL_CLOCK_SCALE \<or> ty = cl_clock_num CL_CLOCK_SCALE_INTERNAL
         then let (ret, s2) = rmgmt_clock_freq_scaling bd msg s1 in (ret, msg, s2)
         else if ty = cl_clock_num CL_CLOCK_WIZARD
         then let (freq, s2) = rmgmt_clock_get_freq bd idx RMGMT_CLOCK_WIZARD s1 in (0, set_req_freq freq msg, s2)
         else if ty = cl_clock_num CL_CLOCK_COUNTER
         then let (freq, s2) = rmgmt_clock_get_freq bd idx RMGMT_CLOCK_COUNTER s1 in (0, set_req_freq freq msg, s2)
         else (- EINVAL, msg, s1))"

end
