(* ===== verification/Rmgmt_Xfer.thy ===== *)
theory Rmgmt_Xfer
  imports Rmgmt_Fpt Rmgmt_Clock
begin

text \<open>Model of \<open>rmgmt/rmgmt_xfer.c\<close>: loading images into the FPGA behind the isolation gate, the
  clocks an xclbin asks for, the interface UUID in the device tree of an xclbin, and passing an
  xclbin on to the APU.  \<open>None\<close> is a call that does not return.\<close>

definition BITSTREAM_SIZE :: u32 where "BITSTREAM_SIZE = 0x8000000"
definition LOG_MSG_SIZE :: u32 where "LOG_MSG_SIZE = 0x1000"
definition FDT_BEGIN_NODE :: u32 where "FDT_BEGIN_NODE = 1"
definition FDT_PROP :: u32 where "FDT_PROP = 3"
definition FDT_END :: u32 where "FDT_END = 9"
definition UUID_BYTES_LEN :: u32 where "UUID_BYTES_LEN = 33"
definition MAGIC_NUM32 :: u32 where "MAGIC_NUM32 = 0x585254"
definition VMR_EP_SYSTEM_DTB :: u32 where "VMR_EP_SYSTEM_DTB = 0x40000"

definition set_rh :: "(rmgmt_handler \<Rightarrow> rmgmt_handler) \<Rightarrow> ('w, 'f) rmgmt \<Rightarrow> ('w, 'f) rmgmt" where
  "set_rh f s = s\<lparr>rm_rh := f (rm_rh s)\<rparr>"

definition rmgmt_init_handler :: "('w, 'f) board \<Rightarrow> ('w, 'f) rmgmt \<Rightarrow> int \<times> ('w, 'f) rmgmt" where
  "rmgmt_init_handler bd s =
     (let s1 = set_rh (\<lambda>r. r\<lparr>rh_data_base := 0, rh_data_max_size := BITSTREAM_SIZE,
                              rh_log_max_size := LOG_MSG_SIZE\<rparr>) s;
          (buf, s2) = on_world (b_malloc bd (rh_data_max_size (rm_rh s1))) s1;
          s3 = set_rh (\<lambda>r. r\<lparr>rh_data_buffer := buf\<rparr>) s2
      in if buf = 0 then (- ENOMEM, s3)
         else let (log, s4) = on_world (b_malloc bd (rh_log_max_size (rm_rh s3))) s3;
                  s5 = set_rh (\<lambda>r. r\<lparr>rh_log := log\<rparr>) s4
              in if log = 0 then (- ENOMEM, s5\<lparr>cl_world := b_free bd buf (cl_world s5)\<rparr>)
                 else (0, set_rh (\<lambda>r. r\<lparr>rh_already_flashed := False\<rparr>) s5))"

section \<open>Loading an image\<close>

definition fpga_pdi_download_workaround ::
    "('w, 'f) board \<Rightarrow> u32 \<Rightarrow> u32 \<Rightarrow> bool \<Rightarrow> ('w, 'f) rmgmt \<Rightarrow> int \<times> ('w, 'f) rmgmt" where
  "fpga_pdi_download_workaround bd data len has_pl s =
     (let (ret, s1) = on_world (b_fpga_init bd) s
      in if ret \<noteq> XST_SUCCESS then (ret, s1)
         else let s2 = (if has_pl then ucs_stop bd (axigate_freeze bd s1) else s1);
                  s3 = reg_write bd 0x2 0xff330000 (reg_write bd data 0xff3f044c (reg_write bd 0 0xff3f0448
                         (reg_write bd 0xf 0xff3f0444 (reg_write bd 0x30701 0xff3f0440 s2))));
                  s4 = MDELAY bd 1000 s3
              in (ret, if has_pl then axigate_free bd (MDELAY bd 10 (ucs_start bd s4)) else s4))"

definition sensor_task_request :: "('w, 'f) board \<Rightarrow> cl_msg \<Rightarrow> ('w, 'f) rmgmt \<Rightarrow> int \<times> ('w, 'f) rmgmt" where
  "sensor_task_request bd msg s =
     (let (ret, s1) = on_world (cl_send_to_queue (b_rtos bd) msg CL_QUEUE_SENSOR_REQ) s
      in if ret \<noteq> 0 then (ret, s1)
         else let (ret, msg1, w) = cl_recv_from_queue (b_rtos bd) msg CL_QUEUE_SENSOR_RESP (cl_world s1);
                  s2 = s1\<lparr>cl_world := w\<rparr>
              in if ret \<noteq> 0 then (ret, s2) else (sint (cl_msg_get_rcode msg1), s2))"

definition disable_kernel_clock :: "('w, 'f) board \<Rightarrow> ('w, 'f) rmgmt \<Rightarrow> int \<times> ('w, 'f) rmgmt" where
  "disable_kernel_clock bd s =
     (if \<not> vmc_ready (b_vmc bd) (cl_world s) then on_world (vmc_throttling_disable (b_vmc bd)) s
      else sensor_task_request bd (cl_msg_set_type CL_MSG_CLK_DISABLE cl_msg_zero) s)"

definition enable_kernel_clock :: "('w, 'f) board \<Rightarrow> ('w, 'f) rmgmt \<Rightarrow> int \<times> ('w, 'f) rmgmt" where
  "enable_kernel_clock bd s =
     (if \<not> vmc_ready (b_vmc bd) (cl_world s) then on_world (vmc_throttling_enable (b_vmc bd)) s
      else sensor_task_request bd (cl_msg_set_type CL_MSG_CLK_ENABLE cl_msg_zero) s)"

definition freq_scaling_internal :: "('w, 'f) board \<Rightarrow> u16 list \<Rightarrow> ('w, 'f) rmgmt \<Rightarrow> int \<times> ('w, 'f) rmgmt" where
  "freq_scaling_internal bd freqs s =
     (let payload = (clock_payload cl_msg_zero)\<lparr>ocl_req_type := cl_clock_num CL_CLOCK_SCALE_INTERNAL,
                      ocl_req_num := of_nat (length freqs), ocl_req_freq := map ucast freqs\<rparr>;
          (ret, msg, s1) = cl_rmgmt_clock bd (cl_msg_zero\<lparr>clock_payload := payload\<rparr>) s
      in (ret, s1))"

section \<open>The clocks of an xclbin\<close>

definition CLK_TYPE_DATA :: nat where "CLK_TYPE_DATA = 0"
definition CLK_TYPE_KERNEL :: nat where "CLK_TYPE_KERNEL = 1"
definition CLK_TYPE_SYSTEM :: nat where "CLK_TYPE_SYSTEM = 2"
definition CLK_TYPE_MAX :: nat where "CLK_TYPE_MAX = 4"

definition CT_DATA :: u8 where "CT_DATA = 1"
definition CT_KERNEL :: u8 where "CT_KERNEL = 2"
definition CT_SYSTEM :: u8 where "CT_SYSTEM = 3"

text \<open>The topology in memory: a signed 16-bit count, then entries of 136 bytes.\<close>

definition load16 :: "u32 \<Rightarrow> mem \<Rightarrow> u16" where
  "load16 a m = ucast (m a) OR push_bit 8 (ucast (m (a + 1)))"

definition m_count :: "u32 \<Rightarrow> mem \<Rightarrow> int" where "m_count topo m = sint (load16 topo m)"

definition m_freq_Mhz :: "u32 \<Rightarrow> nat \<Rightarrow> mem \<Rightarrow> u16" where
  "m_freq_Mhz topo i m = load16 (topo + 2 + of_nat (136 * i)) m"

definition m_type :: "u32 \<Rightarrow> nat \<Rightarrow> mem \<Rightarrow> u8" where
  "m_type topo i m = m (topo + 2 + of_nat (136 * i) + 2)"

definition count_type :: "u32 \<Rightarrow> mem \<Rightarrow> u8 \<Rightarrow> nat \<Rightarrow> nat" where
  "count_type topo m t n = length (filter (\<lambda>i. m_type topo i m = t) [0..<n])"

fun freq_loop :: "u32 \<Rightarrow> mem \<Rightarrow> nat list \<Rightarrow> nat \<Rightarrow> u16 list \<Rightarrow> u16 list option" where
  "freq_loop topo m [] sys freqs = Some freqs"
| "freq_loop topo m (i # is) sys freqs =
     (if m_type topo i m = CT_DATA then freq_loop topo m is sys (freqs[CLK_TYPE_DATA := m_freq_Mhz topo i m])
      else if m_type topo i m = CT_KERNEL then freq_loop topo m is sys (freqs[CLK_TYPE_KERNEL := m_freq_Mhz topo i m])
      else if m_type topo i m = CT_SYSTEM then freq_loop topo m is (Suc sys) (freqs[sys := m_freq_Mhz topo i m])
      else None)"

definition reconfig_clock :: "('w, 'f) board \<Rightarrow> u32 \<Rightarrow> u32 \<Rightarrow> ('w, 'f) rmgmt \<Rightarrow> int \<times> ('w, 'f) rmgmt" where
  "reconfig_clock bd clock clock_size s =
     (if clock = 0 \<or> clock_size = 0 then (0, s)
      else let m = cl_mem s; n = nat (m_count clock m)
           in if m_count clock m > int CLK_TYPE_MAX then (- EINVAL, s)
              else if count_type clock m CT_DATA n \<noteq> 1 then (- EINVAL, s)
              else if count_type clock m CT_KERNEL n \<noteq> 1 then (- EINVAL, s)
              else if count_type clock m CT_SYSTEM n > 2 then (- EINVAL, s)
              else case freq_loop clock m [0..<n] CLK_TYPE_SYSTEM (replicate CLK_TYPE_MAX 0) of
                     None \<Rightarrow> (- EINVAL, s)
                   | Some freqs \<Rightarrow> freq_scaling_internal bd freqs s)"

definition fpga_pdi_download ::
    "('w, 'f) board \<Rightarrow> u32 \<Rightarrow> u32 \<Rightarrow> u32 \<Rightarrow> u32 \<Rightarrow> bool \<Rightarrow> ('w, 'f) rmgmt \<Rightarrow> int \<times> ('w, 'f) rmgmt" where
  "fpga_pdi_download bd data len clock clock_size has_pl s =
     (let (ret, s1) = on_world (b_fpga_init bd) s
      in if ret \<noteq> XST_SUCCESS then (ret, s1)
         else let (ret, s2) = (if has_pl then disable_kernel_clock bd s1 else (0, s1))
              in if has_pl \<and> ret \<noteq> 0 then (ret, s2)
                 else let s3 = (if has_pl then ucs_stop bd (axigate_freeze bd s2) else s2);
                          (ret, s4) = on_world (b_bitstream_load bd data len (cl_mem s3)) s3
                      in if has_pl
                         then let (r, s5) = reconfig_clock bd clock clock_size s4;
                                  s6 = axigate_free bd (MDELAY bd 10 (ucs_start bd s5))
                              in (ret, snd (enable_kernel_clock bd s6))
                         else (ret, s4))"

definition pdi_download ::
    "('w, 'f) board \<Rightarrow> u32 \<Rightarrow> u32 \<Rightarrow> u32 \<Rightarrow> u32 \<Rightarrow> bool \<Rightarrow> ('w, 'f) rmgmt \<Rightarrow> int \<times> ('w, 'f) rmgmt" where
  "pdi_download bd data len clock clock_size has_pl s = fpga_pdi_download bd data len clock clock_size has_pl s"

section \<open>The interface UUID\<close>

text \<open>The length of a string in memory; without a zero byte anywhere there is none.\<close>

partial_function (option) c_strlen :: "mem \<Rightarrow> u32 \<Rightarrow> nat option" where
  "c_strlen m p = (if m p = 0 then Some 0 else Option.bind (c_strlen m (p + 1)) (\<lambda>n. Some (Suc n)))"

definition PALIGN :: "u32 \<Rightarrow> u32 \<Rightarrow> u32" where
  "PALIGN p a = (p + (a - 1)) AND NOT (a - 1)"

definition GET_CELL :: "u32 \<Rightarrow> mem \<Rightarrow> u32 \<times> u32" where
  "GET_CELL p m = (IO_SYNC_READ32 p m, p + 4)"

text \<open>\<open>!strncmp (s, name, strlen (name))\<close>: the first bytes at \<open>s\<close> are those of the name.\<close>

definition starts_with :: "mem \<Rightarrow> u32 \<Rightarrow> u8 list \<Rightarrow> bool" where
  "starts_with m s name \<longleftrightarrow> mem_load m s (length name) = name"

text \<open>One cell after the other, \<open>n\<close> of them at most.  The result is the UUID or the failure.\<close>

primrec fdt_loop ::
    "mem \<Rightarrow> u32 \<Rightarrow> u32 \<Rightarrow> u32 \<Rightarrow> nat \<Rightarrow> u32 \<Rightarrow> (int + u8 list) option" where
  "fdt_loop m version p_strings uuid_size 0 p = Some (Inl (- ENOENT))"
| "fdt_loop m version p_strings uuid_size (Suc n) p =
     (let (cell, p1) = GET_CELL p m; tag = cl_bswap32 cell
      in if tag = FDT_END then Some (Inl (- ENOENT))
         else if tag = FDT_BEGIN_NODE
         then Option.bind (c_strlen m p1)
                (\<lambda>len. fdt_loop m version p_strings uuid_size n (PALIGN (p1 + of_nat len + 1) 4))
         else if tag \<noteq> FDT_PROP then fdt_loop m version p_strings uuid_size n p1
         else let (cell1, p2) = GET_CELL p1 m; sz = cl_bswap32 cell1;
                  (cell2, p3) = GET_CELL p2 m; s = p_strings + cl_bswap32 cell2;
                  p4 = (if version < 16 \<and> 8 \<le> sint sz then PALIGN p3 8 else p3)
              in if starts_with m s (ascii ''interface_uuid'')
                 then Some (Inr (strncpy_bytes (unat uuid_size) (\<lambda>i. m (p4 + of_nat i))))
                 else fdt_loop m version p_strings uuid_size n (PALIGN (p4 + sz) 4))"

definition fdt_retry :: nat where "fdt_retry = 1000"

definition rmgmt_fdt_get_uuids :: "u32 \<Rightarrow> u32 \<Rightarrow> mem \<Rightarrow> (int + u8 list) option" where
  "rmgmt_fdt_get_uuids fdt_addr uuid_size m =
     (let ret = rmgmt_xclbin_validate fdt_addr m
      in if ret \<noteq> 0 then Some (Inl ret)
         else case rmgmt_xclbin_section_info fdt_addr PARTITION_METADATA m of
           Inl ret \<Rightarrow> Some (Inl (- ENOENT))
         | Inr (offset, len) \<Rightarrow>
             if len = 0 then Some (Inl (- ENOENT))
             else let bph = fdt_addr + ucast offset;
                      version = cl_bswap32 (IO_SYNC_READ32 (bph + 20) m);
                      off_dt = cl_bswap32 (IO_SYNC_READ32 (bph + 8) m);
                      off_str = cl_bswap32 (IO_SYNC_READ32 (bph + 12) m)
                  in fdt_loop m version (bph + off_str) uuid_size (Suc fdt_retry) (bph + off_dt))"

definition rmgmt_validate_uuid :: "u32 \<Rightarrow> u32 \<Rightarrow> mem \<Rightarrow> int option" where
  "rmgmt_validate_uuid fpt xclbin m = do {
     r \<leftarrow> rmgmt_fdt_get_uuids xclbin UUID_BYTES_LEN m;
     (case r of
        Inl ret \<Rightarrow> Some (if ret = - ENOENT then 0 else ret)
      | Inr xclbin_uuid \<Rightarrow>
          (case fst (rmgmt_fpt_get_xsabin fpt m cl_msg_zero) of
             Inl e \<Rightarrow> Some (- EINVAL)
           | Inr (fdtdata, fdtdata_size) \<Rightarrow> do {
               r2 \<leftarrow> rmgmt_fdt_get_uuids fdtdata UUID_BYTES_LEN m;
               Some (case r2 of
                       Inl e \<Rightarrow> - EINVAL
                     | Inr xsabin_uuid \<Rightarrow>
                         if strncmp_bytes (unat UUID_BYTES_LEN) (\<lambda>i. xclbin_uuid ! i) (\<lambda>i. xsabin_uuid ! i) \<noteq> 0
                         then - EINVAL else 0)
             }))
   }"

section \<open>Downloads\<close>

text \<open>A section of the image: its address and size, or zeros when it is missing or empty.\<close>

definition image_section :: "u32 \<Rightarrow> axlf_section_kind \<Rightarrow> mem \<Rightarrow> (u32 \<times> u32) option" where
  "image_section axlf kind m =
     (case rmgmt_xclbin_section_info axlf kind m of
        Inl ret \<Rightarrow> None
      | Inr (offset, len) \<Rightarrow> if len = 0 then None else Some (axlf + ucast offset, ucast len))"

text \<open>Load a section and cut it out of the xclbin.\<close>

definition load_section ::
    "('w, 'f) board \<Rightarrow> u32 \<Rightarrow> axlf_section_kind \<Rightarrow> u32 \<Rightarrow> u32 \<Rightarrow> ('w, 'f) rmgmt \<Rightarrow> int \<times> ('w, 'f) rmgmt" where
  "load_section bd axlf kind topo topo_size s =
     (case image_section axlf kind (cl_mem s) of
        None \<Rightarrow> (0, s)
      | Some (pdi, len) \<Rightarrow>
          let (ret, s1) = pdi_download bd pdi len topo topo_size True s
          in if ret \<noteq> 0 then (ret, s1)
             else (0, s1\<lparr>cl_mem := rmgmt_xclbin_section_remove axlf kind (cl_mem s1)\<rparr>))"

definition rmgmt_fpga_download ::
    "('w, 'f) board \<Rightarrow> u32 \<Rightarrow> ('w, 'f) rmgmt \<Rightarrow> (int \<times> ('w, 'f) rmgmt) option" where
  "rmgmt_fpga_download bd len s =
     (let axlf = rh_data_base (rm_rh s)
      in do {
        ret \<leftarrow> rmgmt_validate_uuid (PRELOAD_FPT bd) axlf (cl_mem s);
        if ret \<noteq> 0 then Some (ret, s)
        else let (topo, topo_size) = (case image_section axlf CLOCK_FREQ_TOPOLOGY (cl_mem s) of
                                        None \<Rightarrow> (0, 0) | Some p \<Rightarrow> p);
                 (ret, s1) = load_section bd axlf BITSTREAM_PARTIAL_PDI topo topo_size s
             in if ret \<noteq> 0 then Some (ret, s1)
                else let (ret, s2) = load_section bd axlf PDI topo topo_size s1
                     in if ret \<noteq> 0 then Some (ret, s2)
                        else let s3 = set_rh (\<lambda>r. r\<lparr>rh_data_size := ucast (m_length axlf (cl_mem s2))\<rparr>) s2
                             in do {
                               (ret, s4) \<leftarrow> on_client_opt (rmgmt_apu_download_xclbin (world.truncate bd) (STACK_WORDS bd)
                                              (rm_rh s3)) s3;
                               Some (if ret = - ENODEV then 0 else ret, s4)
                             }
      })"

definition rmgmt_load_apu :: "('w, 'f) board \<Rightarrow> ('w, 'f) rmgmt \<Rightarrow> (int \<times> ('w, 'f) rmgmt) option" where
  "rmgmt_load_apu bd s = do {
     (ret, header, s1) \<leftarrow> flash_read bd CL_FLASH_APU 0 OSPI_VERSAL_PAGESIZE s;
     if word_at header 0 \<noteq> MAGIC_NUM32 then Some (0, s1)
     else let len = word_at header 1
          in if len = 0 then Some (-1, s1)
             else do {
               (ret, bs, s2) \<leftarrow> flash_read bd CL_FLASH_APU OSPI_VERSAL_PAGESIZE len s1;
               let base = rh_data_base (rm_rh s2); s3 = s2\<lparr>cl_mem := mem_store (cl_mem s2) base bs\<rparr>
               in if ret \<noteq> 0 then Some (ret, s3) else Some (pdi_download bd base len 0 0 False s3)
             }
   }"

definition rmgmt_ospi_rpu_download ::
    "('w, 'f) board \<Rightarrow> u32 \<Rightarrow> ('w, 'f) rmgmt \<Rightarrow> (int \<times> ('w, 'f) rmgmt) option" where
  "rmgmt_ospi_rpu_download bd len s = do {
     (ret, s1) \<leftarrow> flash_do (fl_erase (b_flash bd) CL_FLASH_BOOT 0 len) s;
     if ret \<noteq> 0 then Some (ret, s1)
     else flash_do (fl_write (b_flash bd) CL_FLASH_BOOT (mem_buffer s1 (rh_data_base (rm_rh s1))) 0 len) s1
   }"

definition copy_dtb :: "u32 \<Rightarrow> u32 \<Rightarrow> ('w, 'f) rmgmt \<Rightarrow> ('w, 'f) rmgmt" where
  "copy_dtb src len s = s\<lparr>cl_mem := snd (cl_memcpy VMR_EP_SYSTEM_DTB src (unat len) (cl_mem s))\<rparr>"

text \<open>What the query of the table finds is only reported.\<close>

definition rmgmt_ospi_apu_download :: "('w, 'f) board \<Rightarrow> u32 \<Rightarrow> ('w, 'f) rmgmt \<Rightarrow> int \<times> ('w, 'f) rmgmt" where
  "rmgmt_ospi_apu_download bd len s =
     (let axlf = rh_data_base (rm_rh s)
      in if xgq_apu_ready s then (0, s)
         else let s1 = (case rmgmt_xclbin_section_info axlf SYSTEM_METADATA (cl_mem s) of
                          Inl ret \<Rightarrow> s
                        | Inr (offset, len) \<Rightarrow> copy_dtb (axlf + ucast offset) (ucast len) s)
              in case rmgmt_xclbin_section_info axlf PDI (cl_mem s1) of
                   Inl ret \<Rightarrow> (ret, s1)
                 | Inr (offset, len) \<Rightarrow> pdi_download bd (axlf + ucast offset) (ucast len) 0 0 False s1)"

definition rmgmt_download_xclbin :: "('w, 'f) board \<Rightarrow> ('w, 'f) rmgmt \<Rightarrow> (int \<times> ('w, 'f) rmgmt) option" where
  "rmgmt_download_xclbin bd s = rmgmt_fpga_download bd (rh_data_size (rm_rh s)) s"

definition rmgmt_download_rpu_pdi :: "('w, 'f) board \<Rightarrow> ('w, 'f) rmgmt \<Rightarrow> (int \<times> ('w, 'f) rmgmt) option" where
  "rmgmt_download_rpu_pdi bd s = rmgmt_ospi_rpu_download bd (rh_data_size (rm_rh s)) s"

definition rmgmt_download_apu_pdi :: "('w, 'f) board \<Rightarrow> ('w, 'f) rmgmt \<Rightarrow> int \<times> ('w, 'f) rmgmt" where
  "rmgmt_download_apu_pdi bd s = rmgmt_ospi_apu_download bd (rh_data_size (rm_rh s)) s"

end
