(* ===== verification/Rmgmt_Clock_Props.thy ===== *)
theory Rmgmt_Clock_Props
  imports Rmgmt_Clock Rmgmt_Fpt_Props
begin

text \<open>What the clock wizard is programmed to, and what the firewall is cleared by.  The hardware
  behind the registers is a register file: a write sets the register, and neither reads nor the
  passing of time change what the view shows, which is the configuration.\<close>

section \<open>The dividers\<close>

lemma acap_o:
  assumes "9 \<le> unat freq" "unat freq \<le> 4320"
  shows "unat (floor_acap_o freq) = 4320 div unat freq" "4320 div unat freq \<le> 480"
proof -
  have "int (unat freq) < 2147483648" using assms(2) by linarith
  moreover have "- (2 ^ 31) \<le> uint freq" by (rule order.trans [of _ 0]) simp_all
  ultimately have "signed_take_bit 31 (uint freq) = uint freq" by (intro signed_take_bit_int_eq_self) simp_all
  then have s: "sint freq = int (unat freq)" by (simp add: sint_uint)
  have nz: "freq \<noteq> 0" using assms(1) by auto
  show b: "4320 div unat freq \<le> 480" using div_le_mono2 [of 9 "unat freq" 4320] assms(1) by simp
  have "CLK_ACAP_MAX_VALUE_FOR_O sdiv sint freq = int (4320 div unat freq)"
    using assms(1) nz by (simp add: CLK_ACAP_MAX_VALUE_FOR_O_def s signed_divide_int_def zdiv_int)
  then show "unat (floor_acap_o freq) = 4320 div unat freq"
    using b by (simp add: floor_acap_o_def)
qed

lemma acap_m:
  assumes "9 \<le> unat freq" "unat freq \<le> 4320"
  shows "unat (floor_acap_m freq) = 4320 div unat freq * unat freq * 1000 div 33333"
    "4320 div unat freq * unat freq * 1000 div 33333 \<le> 129"
proof -
  note q = acap_o [OF assms]
  have b: "4320 div unat freq * unat freq \<le> 4320" by simp
  then show "4320 div unat freq * unat freq * 1000 div 33333 \<le> 129"
    using div_le_mono [of "4320 div unat freq * unat freq * 1000" 4320000 33333] by simp
  have 1: "unat (floor_acap_o freq * freq) = 4320 div unat freq * unat freq"
    using order.strict_trans1 [OF b, of 4294967296] q(1) by (simp add: unat_word_ariths)
  have "unat (floor_acap_o freq * freq * 1000) = unat (floor_acap_o freq * freq) * 1000"
    using order.strict_trans1 [OF mult_le_mono1 [OF b, of 1000], of 4294967296] 1
    by (simp add: unat_word_ariths(2) [of _ 1000])
  then show "unat (floor_acap_m freq) = 4320 div unat freq * unat freq * 1000 div 33333"
    by (simp add: floor_acap_m_def CLK_ACAP_INPUT_FREQ_X_1000_def unat_div 1)
qed

lemma unat_half: "unat (half x) = unat x div 2"
proof -
  have "unat (x - x mod 2) = unat x - unat x mod 2"
    by (subst unat_sub) (simp_all add: word_le_nat_alt unat_mod)
  then show ?thesis by (simp add: half_def unat_div minus_mod_eq_mult_div)
qed

section \<open>The fields\<close>

definition fb_divider :: "(u32 \<Rightarrow> u32) \<Rightarrow> u32 \<Rightarrow> nat" where
  "fb_divider regs base = unat (bits_of (regs (base + OCL_CLKWIZ_CLKFBOUT_TS)) 0 8)
     + unat (bits_of (regs (base + OCL_CLKWIZ_CLKFBOUT_TS)) 8 8)
     + unat (bits_of (regs (base + OCL_CLKWIZ_CLKFBOUT)) 8 1)"

definition out_divider :: "(u32 \<Rightarrow> u32) \<Rightarrow> u32 \<Rightarrow> nat" where
  "out_divider regs base = unat (bits_of (regs (base + OCL_CLKWIZ_CLKOUT0_TS)) 0 8)
     + unat (bits_of (regs (base + OCL_CLKWIZ_CLKOUT0_TS)) 8 8)
     + unat (bits_of (regs (base + OCL_CLKWIZ_CLKOUT0)) 8 1)"

lemma bits_of_set_field_same:
  "lo + len \<le> 32 \<Longrightarrow> bits_of (set_field lo len x v) lo len = take_bit len x"
  by (rule bit_word_eqI) (auto simp: bits_of_def set_field_def bit_simps)

lemma bits_of_set_field_other:
  "lo + len \<le> lo' \<or> lo' + len' \<le> lo \<Longrightarrow> bits_of (set_field lo' len' x v) lo len = bits_of v lo len"
  by (rule bit_word_eqI) (auto simp: bits_of_def set_field_def bit_simps dest: bit_imp_le_length)

lemmas field_defs = set_divclk_edge_def set_divclk_lt_def set_divclk_ht_def set_clkfbout_fract_en_def
  set_clkfbout_edge_def set_clkfbout_en_def set_clkfbout_mx_def set_clkfbout_prediv2_def
  set_clkfbout_lt_def set_clkfbout_ht_def set_clkout0_edge_def set_clkout0_mx_def set_clkout0_prediv2_def
  set_clkout0_used_def set_clkout0_p5en_def set_clkout0_lt_def set_clkout0_ht_def

lemmas wizard_offsets = OCL_CLKWIZ_INIT_CONFIG_def OCL_CLKWIZ_DIVCLK_def OCL_CLKWIZ_DIVCLK_TS_def
  OCL_CLKWIZ_CLKFBOUT_def OCL_CLKWIZ_CLKFBOUT_TS_def OCL_CLKWIZ_CLKFBOUT_FRACT_def OCL_CLKWIZ_CLKOUT0_def
  OCL_CLKWIZ_CLKOUT0_TS_def

lemma parity: "(x :: u32) mod 2 = 0 \<longleftrightarrow> unat x mod 2 = 0" "x mod 2 = 1 \<longleftrightarrow> unat x mod 2 = 1"
  by (simp_all add: word_unat_eq_iff unat_mod)

lemma half_field: "unat x \<le> 511 \<Longrightarrow> unat (take_bit 8 (half x)) = unat x div 2"
  by (simp add: unsigned_take_bit_eq unat_half take_bit_nat_eq_self)

section \<open>Registers as a view\<close>

definition register_file :: "('w, 'f) board \<Rightarrow> ('w \<Rightarrow> u32 \<Rightarrow> u32) \<Rightarrow> bool" where
  "register_file bd view \<longleftrightarrow>
     (\<forall>a w. view (snd (b_read32 bd a w)) = view w)
   \<and> (\<forall>v a w. view (b_write32 bd v a w) = (view w)(a := v))
   \<and> (\<forall>n w m. view (fst (b_mdelay bd n (w, m))) = view w)"

lemma view_simps:
  assumes "register_file bd view"
  shows "view (cl_world (snd (reg_read bd a s))) = view (cl_world s)"
    "view (cl_world (reg_write bd v a s)) = (view (cl_world s))(a := v)"
    "view (cl_world (MDELAY bd n s)) = view (cl_world s)"
    "view (cl_world (reg_update bd a f s)) = (view (cl_world s))(a := f (fst (reg_read bd a s)))"
proof -
  show r: "view (cl_world (snd (reg_read bd a s))) = view (cl_world s)" for a and s :: "('a, 'b) rmgmt"
    using assms by (auto simp: register_file_def reg_read_def split: prod.splits dest: spec [of _ a])
      (metis snd_conv)
  show w: "view (cl_world (reg_write bd v a s)) = (view (cl_world s))(a := v)" for v a and s :: "('a, 'b) rmgmt"
    using assms by (simp add: register_file_def reg_write_def)
  show "view (cl_world (MDELAY bd n s)) = view (cl_world s)"
    using assms by (auto simp: register_file_def MDELAY_def split: prod.splits) (metis fst_conv)
  show "view (cl_world (reg_update bd a f s)) = (view (cl_world s))(a := f (fst (reg_read bd a s)))"
    using r [of a s] by (cases "reg_read bd a s") (simp add: reg_update_def w)
qed

section \<open>One clock\<close>

definition wizard_window :: "u32 \<Rightarrow> u32 set" where
  "wizard_window base = (+) base ` {x. x < 0x400}"

lemma wizard_window_iff: "a \<in> wizard_window base \<longleftrightarrow> a - base < 0x400"
  by (auto simp: wizard_window_def image_iff intro!: exI [of _ "a - base"])

definition wizard_set :: "(u32 \<Rightarrow> u32) \<Rightarrow> u32 \<Rightarrow> u32 \<Rightarrow> bool" where
  "wizard_set regs base freq \<longleftrightarrow> fb_divider regs base = unat (floor_acap_m freq)
     \<and> out_divider regs base = unat (floor_acap_o freq)"

lemma wizard_set_cong:
  "(\<And>a. a \<in> wizard_window base \<Longrightarrow> regs' a = regs a) \<Longrightarrow> wizard_set regs' base freq = wizard_set regs base freq"
  by (simp add: wizard_set_def fb_divider_def out_divider_def wizard_window_iff wizard_offsets)

lemma program_wizard_outside:
  assumes "register_file bd view" "a \<notin> wizard_window base"
  shows "view (cl_world (program_wizard bd base freq s)) a = view (cl_world s) a"
proof -
  have "a \<noteq> base + k" if "k < 0x400" for k using assms(2) that by (auto simp: wizard_window_iff)
  then show ?thesis
    by (simp add: program_wizard_def Let_def view_simps [OF assms(1)] wizard_offsets)
qed

lemma program_wizard_sets:
  assumes "register_file bd view" "9 \<le> unat freq" "unat freq \<le> 4320"
  shows "wizard_set (view (cl_world (program_wizard bd base freq s))) base freq"
proof -
  have "unat (floor_acap_m freq) \<le> 511" "unat (floor_acap_o freq) \<le> 511"
    using acap_o [OF assms(2,3)] acap_m [OF assms(2,3)] by simp_all
  then show ?thesis
    unfolding wizard_set_def fb_divider_def out_divider_def
    by (simp add: program_wizard_def Let_def view_simps [OF assms(1)] wizard_offsets field_defs
        bits_of_set_field_same bits_of_set_field_other half_field parity) presburger
qed

lemma wiz_wait_view:
  assumes "register_file bd view"
  shows "view (cl_world (snd (wiz_wait bd base interval n val s))) = view (cl_world s)"
proof (induct n arbitrary: val s)
  case (Suc n)
  show ?case
    using view_simps(1) [OF assms, of "base + OCL_CLKWIZ_STATUS_OFFSET" "MDELAY bd interval s"] Suc
    by (auto simp: view_simps(3) [OF assms] split: prod.splits)
qed simp

lemma clock_wiz_busy_view:
  assumes "register_file bd view"
  shows "view (cl_world (snd (clock_wiz_busy bd i cycle interval s))) = view (cl_world s)"
  using view_simps(1) [OF assms, of "clock_wiz_bases bd ! i + OCL_CLKWIZ_STATUS_OFFSET" s]
    wiz_wait_view [OF assms]
  by (auto simp: clock_wiz_busy_def Let_def split_beta)

section \<open>All clocks\<close>

lemma scaling_loop_outside:
  assumes "register_file bd view" "\<forall>j. i \<le> j \<and> j < i + n \<longrightarrow> a \<notin> wizard_window (clock_wiz_bases bd ! j)"
  shows "view (cl_world (snd (scaling_loop bd True freqs n i err s))) a = view (cl_world s) a"
  using assms(2)
proof (induct n arbitrary: i err s)
  case (Suc n)
  have ih: "view (cl_world (snd (scaling_loop bd True freqs n (Suc i) err s))) a = view (cl_world s) a" for err s
    by (rule Suc.hyps) (use Suc.prems in auto)
  have w: "view (cl_world (program_wizard bd (clock_wiz_bases bd ! i) freq s)) a = view (cl_world s) a" for freq s
    by (rule program_wizard_outside [OF assms(1)]) (use Suc.prems in auto)
  obtain e2 s2 where b2: "clock_wiz_busy bd i 20 50 s = (e2, s2)" by (cases "clock_wiz_busy bd i 20 50 s")
  obtain e3 s3 where b3: "clock_wiz_busy bd i 100 100 (program_wizard bd (clock_wiz_bases bd ! i) (freqs ! i) s2)
      = (e3, s3)" by (cases "clock_wiz_busy bd i 100 100 (program_wizard bd (clock_wiz_bases bd ! i) (freqs ! i) s2)")
  show ?case
    using clock_wiz_busy_view [OF assms(1), of i 20 50 s] b2 b3 ih w
      clock_wiz_busy_view [OF assms(1), of i 100 100 "program_wizard bd (clock_wiz_bases bd ! i) (freqs ! i) s2"]
    by (simp add: Let_def)
qed simp

lemma scaling_loop_sets:
  assumes "register_file bd view"
    "\<forall>j k. i \<le> j \<and> j < k \<and> k < i + n \<longrightarrow>
       wizard_window (clock_wiz_bases bd ! j) \<inter> wizard_window (clock_wiz_bases bd ! k) = {}"
    "fst (scaling_loop bd True freqs n i err s) = 0" "i \<le> j" "j < i + n"
    "9 \<le> unat (freqs ! j)" "unat (freqs ! j) \<le> 4320"
  shows "wizard_set (view (cl_world (snd (scaling_loop bd True freqs n i err s)))) (clock_wiz_bases bd ! j) (freqs ! j)"
  using assms(2-5)
proof (induct n arbitrary: i err s)
  case (Suc n)
  have apart: "\<forall>j k. Suc i \<le> j \<and> j < k \<and> k < Suc i + n \<longrightarrow>
      wizard_window (clock_wiz_bases bd ! j) \<inter> wizard_window (clock_wiz_bases bd ! k) = {}"
    using Suc.prems(1) by auto
  have ih: "wizard_set (view (cl_world (snd (scaling_loop bd True freqs n (Suc i) e t)))) (clock_wiz_bases bd ! j) (freqs ! j)"
    if "fst (scaling_loop bd True freqs n (Suc i) e t) = 0" "i \<noteq> j" for e t
    by (rule Suc.hyps [OF apart that(1)]) (use Suc.prems that(2) in auto)
  obtain e2 s2 where b2: "clock_wiz_busy bd i 20 50 s = (e2, s2)" by (cases "clock_wiz_busy bd i 20 50 s")
  obtain e3 s3 where b3: "clock_wiz_busy bd i 100 100 (program_wizard bd (clock_wiz_bases bd ! i) (freqs ! i) s2)
      = (e3, s3)" by (cases "clock_wiz_busy bd i 100 100 (program_wizard bd (clock_wiz_bases bd ! i) (freqs ! i) s2)")
  show ?case
  proof (cases "i = j")
    case False
    then show ?thesis using ih Suc.prems(2) b2 b3 by (simp add: Let_def split: if_splits)
  next
    case True
    let ?r = "scaling_loop bd True freqs n (Suc i) e3 s3"
    have nz: "freqs ! i \<noteq> 0" using assms(6) True by auto
    have loop: "scaling_loop bd True freqs (Suc n) i err s = ?r" using Suc.prems(2) nz b2 b3 by (simp add: Let_def split: if_splits)
    have "wizard_set (view (cl_world (program_wizard bd (clock_wiz_bases bd ! i) (freqs ! i) s2)))
        (clock_wiz_bases bd ! i) (freqs ! i)"
      using assms(6,7) True by (intro program_wizard_sets [OF assms(1)]) simp_all
    then have "wizard_set (view (cl_world s3)) (clock_wiz_bases bd ! i) (freqs ! i)"
      using clock_wiz_busy_view [OF assms(1), of i 100 100] b3 by (metis snd_conv)
    moreover have "wizard_window (clock_wiz_bases bd ! i) \<inter> wizard_window (clock_wiz_bases bd ! k) = {}"
      if "Suc i \<le> k" "k < Suc i + n" for k using Suc.prems(1) [rule_format, of i k] that by simp
    then have "view (cl_world (snd ?r)) a = view (cl_world s3) a" if "a \<in> wizard_window (clock_wiz_bases bd ! i)" for a
      using that by (intro scaling_loop_outside [OF assms(1)]) blast
    then have "wizard_set (view (cl_world (snd ?r))) (clock_wiz_bases bd ! i) (freqs ! i)
        = wizard_set (view (cl_world s3)) (clock_wiz_bases bd ! i) (freqs ! i)" by (rule wizard_set_cong)
    ultimately show ?thesis unfolding loop using True by simp
  qed
qed simp

section \<open>The firewall on a traced board\<close>

definition is_read :: "hw_event \<Rightarrow> bool" where
  "is_read e \<longleftrightarrow> (\<exists>a v. e = Rd a v)"

definition fault_read :: "u32 \<Rightarrow> u32 \<Rightarrow> hw_event list \<Rightarrow> bool" where
  "fault_read base v es \<longleftrightarrow> (\<exists>a rest. es = Rd a v # rest \<and> a \<in> {base + FAULT_STATUS, base + SI_FAULT_STATUS})"

lemma fault_read_append: "fault_read base v es \<Longrightarrow> fault_read base v (es @ fs)"
  by (auto simp: fault_read_def)

lemma read_firewall_events:
  assumes "read_firewall (traced bd) base s = (v, s')"
  shows "\<exists>new. events s' = new @ events s \<and> fault_read base v new \<and> length new \<le> 3 \<and> list_all is_read new"
proof -
  obtain ver s1 where 1: "reg_read (traced bd) (base + IP_VERSION) s = (ver, s1)"
    by (cases "reg_read (traced bd) (base + IP_VERSION) s")
  obtain wt s2 where 2: "reg_read (traced bd) (base + MAX_CONTINUOUS_WTRANSFERS_WAITS) s1 = (wt, s2)"
    by (cases "reg_read (traced bd) (base + MAX_CONTINUOUS_WTRANSFERS_WAITS) s1")
  show ?thesis
    using assms 1 2 events_reg_read [OF 1] events_reg_read [OF 2]
    by (auto simp: read_firewall_def Let_def fault_read_def is_read_def split: if_splits dest!: events_reg_read)
qed

lemma check_firewall_events:
  assumes "check_firewall (traced bd) s = (val, s')"
  shows "\<exists>v new. val = IS_FIRED v \<and> events s' = new @ events s \<and> fault_read (FIREWALL_USER bd) v new
    \<and> length new \<le> 3 \<and> list_all is_read new"
proof -
  obtain v t where r: "read_firewall (traced bd) (FIREWALL_USER bd) s = (v, t)"
    by (cases "read_firewall (traced bd) (FIREWALL_USER bd) s")
  then have "val = IS_FIRED v" "s' = t"
    using assms by (simp_all add: check_firewall_def vmr_afs_def Let_def split: if_splits)
  then show ?thesis using read_firewall_events [OF r] by blast
qed

definition is_wait :: "hw_event \<Rightarrow> bool" where
  "is_wait e \<longleftrightarrow> is_read e \<or> (\<exists>n. e = Delay n)"

lemma is_wait_delay [simp]: "is_wait (Delay n)"
  by (simp add: is_wait_def)

lemma list_all_is_wait: "list_all is_read es \<Longrightarrow> list_all is_wait es"
  by (auto simp: list_all_iff is_wait_def)

lemma busy_loop_events:
  assumes "busy_loop (traced bd) base n val s = (v, s')"
  shows "\<exists>new. events s' = new @ events s \<and> length new \<le> 4 * n \<and> list_all is_wait new
    \<and> (0 < n \<and> v AND FIREWALL_STATUS_BUSY = 0 \<longrightarrow> fault_read base v new)"
  using assms
proof (induct n arbitrary: val s)
  case (Suc n)
  obtain u t where r: "read_firewall (traced bd) base s = (u, t)" by (cases "read_firewall (traced bd) base s")
  then obtain new where new: "events t = new @ events s" "fault_read base u new" "length new \<le> 3"
    "list_all is_wait new" using read_firewall_events list_all_is_wait by blast
  show ?case
  proof (cases "u AND FIREWALL_STATUS_BUSY = 0")
    case True
    then show ?thesis using Suc.prems r new by (intro exI [of _ new]) auto
  next
    case False
    let ?t = "MDELAY (traced bd) BUSY_RETRY_INTERVAL t"
    have b: "busy_loop (traced bd) base n u ?t = (v, s')" using Suc.prems r False by simp
    from Suc.hyps [OF b] obtain more where
      more: "events s' = more @ events ?t" "length more \<le> 4 * n" "list_all is_wait more"
        "0 < n \<and> v AND FIREWALL_STATUS_BUSY = 0 \<longrightarrow> fault_read base v more" by blast
    have "0 < n" if "v AND FIREWALL_STATUS_BUSY = 0" using that b False by (cases n) auto
    then show ?thesis using more new fault_read_append
      by (intro exI [of _ "more @ Delay BUSY_RETRY_INTERVAL # new"]) auto
  qed
qed simp

lemma clear_loop_events:
  assumes "clear_loop (traced bd) n s = (ok, s')"
  shows "\<exists>new. events s' = new @ events s \<and> length new \<le> 4 * n \<and> list_all is_wait new
    \<and> (ok \<longrightarrow> (\<exists>v. IS_FIRED v = 0 \<and> fault_read (FIREWALL_USER bd) v new))"
  using assms
proof (induct n arbitrary: s)
  case (Suc n)
  obtain u t where r: "check_firewall (traced bd) s = (u, t)" by (cases "check_firewall (traced bd) s")
  then obtain v new where new: "u = IS_FIRED v" "events t = new @ events s" "fault_read (FIREWALL_USER bd) v new"
    "length new \<le> 3" "list_all is_wait new" using check_firewall_events list_all_is_wait by blast
  show ?case
  proof (cases "u = 0")
    case True
    then show ?thesis using Suc.prems r new by (intro exI [of _ new]) auto
  next
    case False
    let ?t = "MDELAY (traced bd) CLEAR_RETRY_INTERVAL t"
    have b: "clear_loop (traced bd) n ?t = (ok, s')" using Suc.prems r False by simp
    from Suc.hyps [OF b] obtain more where
      more: "events s' = more @ events ?t" "length more \<le> 4 * n" "list_all is_wait more"
        "ok \<longrightarrow> (\<exists>v. IS_FIRED v = 0 \<and> fault_read (FIREWALL_USER bd) v more)" by blast
    then show ?thesis using new fault_read_append
      by (intro exI [of _ "more @ Delay CLEAR_RETRY_INTERVAL # new"]) auto
  qed
qed simp

text \<open>An unblock follows a read of a status that is not busy.\<close>

definition unblocks_idle :: "u32 \<Rightarrow> hw_event list \<Rightarrow> bool" where
  "unblocks_idle base es \<longleftrightarrow> (\<forall>xs a w ys. es = xs @ Wr a w # ys \<longrightarrow>
     a = base + UNBLOCK_CTRL \<and> w = 1 \<and> (\<exists>v. fault_read base v ys \<and> v AND FIREWALL_STATUS_BUSY = 0))"

lemma no_write_in: "list_all is_wait es \<Longrightarrow> Wr a w \<notin> set es"
  by (auto simp: list_all_iff is_wait_def is_read_def)

lemma unblocks_idle_waits: "list_all is_wait es \<Longrightarrow> unblocks_idle base es"
  using no_write_in by (fastforce simp: unblocks_idle_def)

lemma unblocks_idle_one:
  assumes "list_all is_wait xs" "list_all is_wait ys" "fault_read base v ys" "v AND FIREWALL_STATUS_BUSY = 0"
  shows "unblocks_idle base (xs @ Wr (base + UNBLOCK_CTRL) 1 # ys)"
  unfolding unblocks_idle_def
proof (intro allI impI)
  fix us a w vs assume e: "xs @ Wr (base + UNBLOCK_CTRL) 1 # ys = us @ Wr a w # vs"
  have "us = xs \<and> Wr a w = Wr (base + UNBLOCK_CTRL) 1 \<and> vs = ys"
    using e no_write_in [OF assms(1), of a w] no_write_in [OF assms(2), of a w]
    by (auto simp: append_eq_append_conv2 append_eq_Cons_conv Cons_eq_append_conv)
  then show "a = base + UNBLOCK_CTRL \<and> w = 1 \<and> (\<exists>v. fault_read base v vs \<and> v AND FIREWALL_STATUS_BUSY = 0)"
    using assms by auto
qed

section \<open>Properties\<close>


text \<open>C24: Clearing the firewall ends after at most 87 register accesses and delays.  The firewall is
  unblocked at most after a status that is not busy was read, success is reported only when the last
  thing read was a status without a fault, and nothing else is written.\<close>

theorem firewall_cleared:
  "let (ret, s') = rmgmt_clear_firewall (traced bd) s
   in ret \<in> {0, - EINVAL} \<and> (\<exists>new. events s' = new @ events s \<and> length new \<le> 87
        \<and> unblocks_idle (FIREWALL_USER bd) new
        \<and> (ret = 0 \<longrightarrow> (\<exists>v. fault_read (FIREWALL_USER bd) v new \<and> IS_FIRED v = 0)))"
proof -
  let ?F = "FIREWALL_USER bd"
  obtain fired s1 where 1: "check_firewall (traced bd) s = (fired, s1)" by (cases "check_firewall (traced bd) s")
  then obtain v1 n1 where n1: "fired = IS_FIRED v1" "events s1 = n1 @ events s" "fault_read ?F v1 n1" "length n1 \<le> 3"
    "list_all is_wait n1" using check_firewall_events list_all_is_wait by blast
  obtain val s2 where 2: "busy_loop (traced bd) ?F FIREWALL_RETRY_COUNT 0 s1 = (val, s2)"
    by (cases "busy_loop (traced bd) ?F FIREWALL_RETRY_COUNT 0 s1")
  from busy_loop_events [OF 2] obtain n2 where n2: "events s2 = n2 @ events s1" "length n2 \<le> 40" "list_all is_wait n2"
    "val AND FIREWALL_STATUS_BUSY = 0 \<longrightarrow> fault_read ?F val n2" by (auto simp: FIREWALL_RETRY_COUNT_def)
  let ?s2 = "write_firewall_unblock (traced bd) 1 s2"
  obtain ok s3 where 3: "clear_loop (traced bd) FIREWALL_RETRY_COUNT ?s2 = (ok, s3)"
    by (cases "clear_loop (traced bd) FIREWALL_RETRY_COUNT ?s2")
  from clear_loop_events [OF 3] obtain n3 where n3: "events s3 = n3 @ Wr (?F + UNBLOCK_CTRL) 1 # events s2" "length n3 \<le> 40"
    "list_all is_wait n3" "ok \<longrightarrow> (\<exists>v. IS_FIRED v = 0 \<and> fault_read ?F v n3)"
    by (auto simp: FIREWALL_RETRY_COUNT_def write_firewall_unblock_def)
  obtain v4 s4 where 4: "read_firewall (traced bd) ?F s3 = (v4, s4)" by (cases "read_firewall (traced bd) ?F s3")
  then obtain n4 where n4: "events s4 = n4 @ events s3" "length n4 \<le> 3" "list_all is_wait n4"
    using read_firewall_events list_all_is_wait by blast
  note defs = rmgmt_clear_firewall_def Let_def vmr_afs_def
  consider "fired = 0" | "fired \<noteq> 0" "val AND FIREWALL_STATUS_BUSY \<noteq> 0" | "fired \<noteq> 0" "val AND FIREWALL_STATUS_BUSY = 0"
    by blast
  then show ?thesis
  proof cases
    case 1
    then show ?thesis using \<open>check_firewall (traced bd) s = (fired, s1)\<close> n1 unblocks_idle_waits
      by (auto simp: defs intro!: exI [of _ n1])
  next
    case busy: 2
    then have "rmgmt_clear_firewall (traced bd) s = (- EINVAL, s2)" using 1 2 by (simp add: defs)
    then show ?thesis using n1 n2 by (auto intro!: exI [of _ "n2 @ n1"] unblocks_idle_waits)
  next
    case idle: 3
    let ?ys = "n2 @ n1"
    have f: "fault_read ?F val ?ys" "list_all is_wait ?ys" using n1 n2 idle fault_read_append by auto
    show ?thesis
    proof (cases ok)
      case True
      then have "rmgmt_clear_firewall (traced bd) s = (0, s3)" using 1 2 3 idle by (simp add: defs)
      moreover obtain v where "IS_FIRED v = 0" "fault_read ?F v (n3 @ Wr (?F + UNBLOCK_CTRL) 1 # n2 @ n1)"
        using n3(4) True fault_read_append by blast
      ultimately show ?thesis using n1 n2 n3 f idle unblocks_idle_one [of n3 ?ys ?F val]
        by (auto intro!: exI [of _ "n3 @ Wr (?F + UNBLOCK_CTRL) 1 # n2 @ n1"])
    next
      case False
      then have "rmgmt_clear_firewall (traced bd) s = (- EINVAL, s4)" using 1 2 3 4 idle by (simp add: defs)
      then show ?thesis using n1 n2 n3 n4 False f idle unblocks_idle_one [of "n4 @ n3" ?ys ?F val]
        by (auto intro!: exI [of _ "n4 @ n3 @ Wr (?F + UNBLOCK_CTRL) 1 # n2 @ n1"])
    qed
  qed
qed

text \<open>A board whose registers are a register file that reads one everywhere at first.\<close>

definition reg_board :: "(u32 \<Rightarrow> u32, sim_chip ospi) board" where
  "reg_board = (sim_board (ospi_ops sim_driver True))
     \<lparr>b_read32 := (\<lambda>a w. (w a, w)), b_write32 := (\<lambda>v a w. w(a := v))\<rparr>"


theorem firewall_cleared_witness:
  "\<exists>new. events (snd (rmgmt_clear_firewall (traced reg_board) (sim_state_of (\<lambda>_. 0x10, []) sim_table (\<lambda>_. 0))))
     = new \<and> length new \<le> 87 \<and> unblocks_idle 0x80020000 new"
  using firewall_cleared [of reg_board "sim_state_of (\<lambda>_. 0x10, []) sim_table (\<lambda>_. 0)"]
  by (auto simp: reg_board_def sim_board_def events_def sim_state_of_def split_beta)

end
