(* ===== verification/Rmgmt_Xfer_Props.thy ===== *)
theory Rmgmt_Xfer_Props
  imports Rmgmt_Xfer Rmgmt_Clock_Props
begin

text \<open>Loading an image happens behind the closed isolation gate, with the kernel clocks shut down,
  and the gate is open again afterwards; the walk through a device tree finds the interface UUID.\<close>

section \<open>What leaves gate and loads alone\<close>

definition quiet :: "('w, 'f) board \<Rightarrow> hw_event \<Rightarrow> bool" where
  "quiet bd e \<longleftrightarrow> (\<forall>v. e \<noteq> Wr (PR_ISOLATION bd) v) \<and> (\<forall>v. e \<noteq> Wr (VMR_EP_UCS_SHUTDOWN bd) v)
     \<and> (\<forall>a n r. e \<noteq> Load a n r)"

text \<open>The two registers are different, and none of a clock wizard.\<close>

definition gate_apart :: "('w, 'f) board \<Rightarrow> bool" where
  "gate_apart bd \<longleftrightarrow> PR_ISOLATION bd \<noteq> VMR_EP_UCS_SHUTDOWN bd
     \<and> (\<forall>b \<in> set (clock_wiz_bases bd). PR_ISOLATION bd \<notin> wizard_window b \<and> VMR_EP_UCS_SHUTDOWN bd \<notin> wizard_window b)"

lemma quiet_events [simp]: "quiet bd (Rd a v)" "quiet bd (Delay d)" "\<not> quiet bd (Load a n r)"
  "quiet bd (Wr a v) \<longleftrightarrow> a \<noteq> PR_ISOLATION bd \<and> a \<noteq> VMR_EP_UCS_SHUTDOWN bd"
  by (auto simp: quiet_def)

lemma quiet_wizard:
  assumes "gate_apart bd" "base \<in> set (clock_wiz_bases bd)" "k < 0x400"
  shows "quiet bd (Wr (base + k) v)"
proof -
  have "base + k \<in> wizard_window base" using assms(3) by (simp add: wizard_window_iff)
  then show ?thesis using assms(1,2) by (auto simp: gate_apart_def)
qed

lemma traced_bases [simp]: "clock_wiz_bases (traced bd) = clock_wiz_bases bd"
  "VMR_EP_UCS_SHUTDOWN (traced bd) = VMR_EP_UCS_SHUTDOWN bd"
  by (simp_all add: clock_wiz_bases_def VMR_EP_UCS_SHUTDOWN_def)

lemma emits_update:
  "P (Rd a (fst (reg_read (traced bd) a s))) \<Longrightarrow> (\<And>v. P (Wr a v)) \<Longrightarrow> emits P s (reg_update (traced bd) a f s)"
  by (cases "reg_read (traced bd) a s")
    (auto simp: reg_update_def intro: emits_trans [OF emits_read emits_write])

lemma program_wizard_quiet:
  assumes "gate_apart bd" "base \<in> set (clock_wiz_bases bd)"
  shows "emits (quiet bd) s (program_wizard (traced bd) base freq s)"
proof -
  have w: "quiet bd (Wr (base + k) v)" if "k < 0x400" for k v
    using quiet_wizard [OF assms that] .
  show ?thesis
    unfolding program_wizard_def Let_def
    by (intro emits_trans [OF _ emits_write] emits_trans [OF _ emits_update] emits_refl)
      (simp_all add: w wizard_offsets del: quiet_events(4))
qed

lemma wiz_wait_quiet: "emits (quiet bd) s (snd (wiz_wait (traced bd) base interval n val s))"
proof (induct n arbitrary: val s)
  case (Suc n)
  obtain v t where r: "reg_read (traced bd) (base + OCL_CLKWIZ_STATUS_OFFSET) (MDELAY (traced bd) interval s) = (v, t)"
    by (cases "reg_read (traced bd) (base + OCL_CLKWIZ_STATUS_OFFSET) (MDELAY (traced bd) interval s)")
  have "emits (quiet bd) s t" by (rule emits_trans [OF emits_delay emits_read [OF r]]) simp_all
  then show ?case using emits_trans [OF _ Suc] by (simp add: r)
qed simp

lemma clock_wiz_busy_quiet: "emits (quiet bd) s (snd (clock_wiz_busy (traced bd) i cycle interval s))"
proof -
  obtain v t where r: "reg_read (traced bd) (clock_wiz_bases bd ! i + OCL_CLKWIZ_STATUS_OFFSET) s = (v, t)"
    by (cases "reg_read (traced bd) (clock_wiz_bases bd ! i + OCL_CLKWIZ_STATUS_OFFSET) s")
  have "emits (quiet bd) s t" by (rule emits_read [OF r]) simp
  then show ?thesis
    using emits_trans [OF _ wiz_wait_quiet] by (auto simp: clock_wiz_busy_def r Let_def split_beta)
qed

lemma scaling_loop_quiet:
  assumes "gate_apart bd" "i + n \<le> 4"
  shows "emits (quiet bd) s (snd (scaling_loop (traced bd) True freqs n i err s))"
  using assms(2)
proof (induct n arbitrary: i err s)
  case (Suc n)
  let ?base = "clock_wiz_bases bd ! i" and ?f = "freqs ! i"
  have ih: "emits (quiet bd) s (snd (scaling_loop (traced bd) True freqs n (Suc i) err s))" for err s
    by (rule Suc.hyps) (use Suc.prems in simp)
  obtain e2 s2 where b2: "clock_wiz_busy (traced bd) i 20 50 s = (e2, s2)" by (cases "clock_wiz_busy (traced bd) i 20 50 s")
  let ?t = "program_wizard (traced bd) ?base ?f s2"
  obtain e3 s3 where b3: "clock_wiz_busy (traced bd) i 100 100 ?t = (e3, s3)"
    by (cases "clock_wiz_busy (traced bd) i 100 100 ?t")
  have "emits (quiet bd) s s2" using clock_wiz_busy_quiet [of bd s i 20 50] b2 by simp
  moreover have "emits (quiet bd) s2 ?t"
    using Suc.prems by (intro program_wizard_quiet [OF assms(1)] nth_mem) (simp add: clock_wiz_bases_def)
  moreover have "emits (quiet bd) ?t s3" using clock_wiz_busy_quiet [of bd ?t i 100 100] b3 by simp
  ultimately have e: "emits (quiet bd) s s2" "emits (quiet bd) s s3" by (blast intro: emits_trans)+
  show ?case using e emits_trans [OF e(2) ih] ih b2 b3 by (simp add: Let_def)
qed simp

lemma check_firewall_quiet: "emits (quiet bd) s (snd (check_firewall (traced bd) s))"
proof -
  obtain v t where r: "check_firewall (traced bd) s = (v, t)" by (cases "check_firewall (traced bd) s")
  from check_firewall_events [OF r] show ?thesis
    by (fastforce simp: emits_def r list_all_iff is_read_def)
qed

lemma freq_scaling_internal_quiet:
  assumes "gate_apart bd" "length freqs = 4"
  shows "emits (quiet bd) s (snd (freq_scaling_internal (traced bd) freqs s))"
proof -
  obtain v t where r: "check_firewall (traced bd) s = (v, t)" by (cases "check_firewall (traced bd) s")
  have q: "emits (quiet bd) s t" using check_firewall_quiet [of bd s] r by simp
  have "nat (sint (4 :: u32)) = 4" by simp
  then have l: "emits (quiet bd) t (snd (scaling_loop (traced bd) True fs (nat (sint (4 :: u32))) 0 0 t))" for fs
    using scaling_loop_quiet [OF assms(1), of 0 4 t fs 0] by simp
  show ?thesis
    using q emits_trans [OF q l]
    by (auto simp: freq_scaling_internal_def cl_rmgmt_clock_def validate_clock_payload_def cl_rmgmt_pl_is_ready_def
        r Let_def split_beta rmgmt_clock_freq_scaling_def rmgmt_clock_freq_scaling_impl_def assms(2))
qed

lemma freq_loop_length: "freq_loop topo m is sys fs = Some gs \<Longrightarrow> length gs = length fs"
  by (induct topo m "is" sys fs rule: freq_loop.induct) (auto split: if_splits)

lemma reconfig_clock_quiet:
  assumes "gate_apart bd"
  shows "emits (quiet bd) s (snd (reconfig_clock (traced bd) clock len s))"
  using freq_scaling_internal_quiet [OF assms] freq_loop_length
  by (fastforce simp: reconfig_clock_def Let_def CLK_TYPE_MAX_def split: option.splits)

section \<open>What leaves no event\<close>

lemma events_sensor_task [simp]:
  "events (snd (sensor_task_request (traced bd) msg s)) = events s"
  by (auto simp: sensor_task_request_def on_world_def events_def cl_send_to_queue_simps cl_recv_from_queue_simps
      traced_def traced_rtos_def Let_def split_beta)

lemma events_kernel_clock [simp]:
  "events (snd (disable_kernel_clock (traced bd) s)) = events s"
  "events (snd (enable_kernel_clock (traced bd) s)) = events s"
  by (auto simp: disable_kernel_clock_def enable_kernel_clock_def)
    (auto simp: on_world_def events_def traced_def traced_vmc_def Let_def split_beta)

lemma events_fpga_init [simp]: "events (snd (on_world (b_fpga_init (traced bd)) s)) = events s"
  by (auto simp: on_world_def events_def traced_def Let_def split_beta)

lemma events_load:
  "on_world (b_bitstream_load (traced bd) a n m) s = (r, t) \<Longrightarrow> events t = Load a n r # events s"
  by (auto simp: on_world_def events_def traced_def Let_def split_beta)

section \<open>Loads behind the gate\<close>

fun last_write :: "u32 \<Rightarrow> hw_event list \<Rightarrow> u32 option" where
  "last_write reg [] = None"
| "last_write reg (Wr a v # es) = (if a = reg then Some v else last_write reg es)"
| "last_write reg (_ # es) = last_write reg es"

lemma last_write_append: "last_write reg (xs @ ys) = (case last_write reg xs of None \<Rightarrow> last_write reg ys | Some v \<Rightarrow> Some v)"
  by (induct reg xs rule: last_write.induct) auto

lemma last_write_quiet:
  assumes "\<forall>e \<in> set es. quiet bd e"
  shows "last_write (PR_ISOLATION bd) es = None" "last_write (VMR_EP_UCS_SHUTDOWN bd) es = None"
proof -
  show "last_write (PR_ISOLATION bd) es = None"
    using assms by (induct "PR_ISOLATION bd" es rule: last_write.induct) auto
  show "last_write (VMR_EP_UCS_SHUTDOWN bd) es = None"
    using assms by (induct "VMR_EP_UCS_SHUTDOWN bd" es rule: last_write.induct) auto
qed

text \<open>When something is loaded, the gate was closed and the clocks shut down before; at the end the
  gate is not closed and the clocks are not shut down by what happened.\<close>

fun behind_gate :: "('w, 'f) board \<Rightarrow> hw_event list \<Rightarrow> bool" where
  "behind_gate bd [] = True"
| "behind_gate bd (Load a n r # es) \<longleftrightarrow>
     last_write (PR_ISOLATION bd) es = Some 0 \<and> last_write (VMR_EP_UCS_SHUTDOWN bd) es = Some 0 \<and> behind_gate bd es"
| "behind_gate bd (_ # es) = behind_gate bd es"

definition isolated :: "('w, 'f) board \<Rightarrow> hw_event list \<Rightarrow> bool" where
  "isolated bd es \<longleftrightarrow> behind_gate bd es
     \<and> last_write (PR_ISOLATION bd) es \<in> {None, Some 3} \<and> last_write (VMR_EP_UCS_SHUTDOWN bd) es \<in> {None, Some 1}"

lemma behind_gate_append: "behind_gate bd es \<Longrightarrow> behind_gate bd fs \<Longrightarrow> behind_gate bd (es @ fs)"
  by (induct bd es rule: behind_gate.induct) (auto simp: last_write_append)

lemma behind_gate_quiet: "\<forall>e \<in> set qs. quiet bd e \<Longrightarrow> behind_gate bd qs"
  by (induct bd qs rule: behind_gate.induct) auto

lemma isolated_Nil [simp]: "isolated bd []"
  by (simp add: isolated_def)

lemma isolated_append: "isolated bd es \<Longrightarrow> isolated bd fs \<Longrightarrow> isolated bd (es @ fs)"
  by (auto simp: isolated_def behind_gate_append last_write_append)

lemma isolated_one:
  assumes "gate_apart bd" "\<forall>e \<in> set qs. quiet bd e"
  shows "isolated bd (Wr (PR_ISOLATION bd) 3 # Delay d # Wr (VMR_EP_UCS_SHUTDOWN bd) 1 # qs
           @ [Load a n r, Wr (VMR_EP_UCS_SHUTDOWN bd) 0, Wr (PR_ISOLATION bd) 0])"
  using assms behind_gate_quiet [OF assms(2)]
  by (auto simp: isolated_def gate_apart_def last_write_append last_write_quiet intro!: behind_gate_append)

lemma pdi_download_isolated:
  assumes "gate_apart bd"
  shows "\<exists>new. events (snd (pdi_download (traced bd) data len clock clock_size True s)) = new @ events s
    \<and> isolated bd new"
proof -
  obtain r1 s1 where 1: "on_world (b_fpga_init (traced bd)) s = (r1, s1)" by (cases "on_world (b_fpga_init (traced bd)) s")
  obtain r2 s2 where 2: "disable_kernel_clock (traced bd) s1 = (r2, s2)" by (cases "disable_kernel_clock (traced bd) s1")
  have e2: "events s1 = events s" "events s2 = events s"
    using events_fpga_init [of bd s] events_kernel_clock(1) [of bd s1] 1 2 by simp_all
  let ?s3 = "ucs_stop (traced bd) (axigate_freeze (traced bd) s2)"
  obtain r4 s4 where 4: "on_world (b_bitstream_load (traced bd) data len (cl_mem ?s3)) ?s3 = (r4, s4)"
    by (cases "on_world (b_bitstream_load (traced bd) data len (cl_mem ?s3)) ?s3")
  obtain r5 s5 where 5: "reconfig_clock (traced bd) clock clock_size s4 = (r5, s5)"
    by (cases "reconfig_clock (traced bd) clock clock_size s4")
  have "emits (quiet bd) s4 s5" using reconfig_clock_quiet [OF assms, of s4 clock clock_size] 5 by simp
  then obtain qs where qs: "events s5 = qs @ events s4" "\<forall>e \<in> set qs. quiet bd e" by (auto simp: emits_def)
  let ?s6 = "axigate_free (traced bd) (MDELAY (traced bd) 10 (ucs_start (traced bd) s5))"
  note defs = pdi_download_def fpga_pdi_download_def Let_def
  consider "r1 \<noteq> XST_SUCCESS" | "r1 = XST_SUCCESS" "r2 \<noteq> 0" | "r1 = XST_SUCCESS" "r2 = 0" by blast
  then show ?thesis
  proof cases
    case 1
    then show ?thesis using \<open>on_world (b_fpga_init (traced bd)) s = (r1, s1)\<close> e2 by (simp add: defs)
  next
    case 2
    then show ?thesis using 1 \<open>disable_kernel_clock (traced bd) s1 = (r2, s2)\<close> e2 by (simp add: defs)
  next
    case 3
    then have "pdi_download (traced bd) data len clock clock_size True s = (r4, snd (enable_kernel_clock (traced bd) ?s6))"
      using 1 2 4 5 by (simp add: defs)
    moreover have "events ?s6 = Wr (PR_ISOLATION bd) 3 # Delay 10 # Wr (VMR_EP_UCS_SHUTDOWN bd) 1 # qs
        @ [Load data len r4, Wr (VMR_EP_UCS_SHUTDOWN bd) 0, Wr (PR_ISOLATION bd) 0] @ events s"
      by (simp add: axigate_free_def axigate_freeze_def ucs_start_def ucs_stop_def qs(1) events_load [OF 4] e2)
    ultimately show ?thesis
      using isolated_one [OF assms qs(2), of 10 data len r4]
      by (intro exI [of _ "Wr (PR_ISOLATION bd) 3 # Delay 10 # Wr (VMR_EP_UCS_SHUTDOWN bd) 1 # qs
        @ [Load data len r4, Wr (VMR_EP_UCS_SHUTDOWN bd) 0, Wr (PR_ISOLATION bd) 0]"]) simp
  qed
qed

section \<open>A download returns\<close>

text \<open>The position of the ring of the APU stays as it was.\<close>

lemma apu_mem_steps [simp]:
  "apu_mem (snd (reg_read bd a s)) = apu_mem s" "apu_mem (reg_write bd v a s) = apu_mem s"
  "apu_mem (MDELAY bd n s) = apu_mem s" "apu_mem (snd (on_world f s)) = apu_mem s"
  "apu_mem (reg_update bd a g s) = apu_mem s"
  by (simp_all add: reg_read_def reg_write_def MDELAY_def on_world_def reg_update_def split_beta)

lemma apu_mem_wiz_wait [simp]: "apu_mem (snd (wiz_wait bd base interval n v s)) = apu_mem s"
  by (induct n arbitrary: v s) (simp_all add: split_beta)

lemma apu_mem_measure [simp]: "apu_mem (snd (measure_wait bd base n v s)) = apu_mem s"
  by (induct n arbitrary: v s) (simp_all add: split_beta Let_def)

lemma apu_mem_clock_ops [simp]:
  "apu_mem (snd (clock_wiz_busy bd i c d s)) = apu_mem s" "apu_mem (program_wizard bd base f s) = apu_mem s"
  "apu_mem (snd (rmgmt_clock_get_freq bd idx ip s)) = apu_mem s"
  by (simp_all add: clock_wiz_busy_def program_wizard_def rmgmt_clock_get_freq_def Let_def split_beta)

lemma apu_mem_scaling_loop [simp]: "apu_mem (snd (scaling_loop bd force fs n i e s)) = apu_mem s"
  by (induct n arbitrary: i e s) (cases force; simp add: Let_def split_beta)+

lemma apu_mem_check_firewall [simp]: "apu_mem (snd (check_firewall bd s)) = apu_mem s"
  by (simp add: check_firewall_def vmr_afs_def read_firewall_def Let_def split_beta)

lemma apu_mem_reconfig [simp]: "apu_mem (snd (reconfig_clock bd clock len s)) = apu_mem s"
  by (simp add: reconfig_clock_def freq_scaling_internal_def cl_rmgmt_clock_def validate_clock_payload_def
      cl_rmgmt_pl_is_ready_def rmgmt_clock_freq_scaling_def rmgmt_clock_freq_scaling_impl_def axigate_freeze_def
      axigate_free_def Let_def split_beta split: option.splits)

lemma apu_mem_kernel_clock [simp]:
  "apu_mem (snd (disable_kernel_clock bd s)) = apu_mem s" "apu_mem (snd (enable_kernel_clock bd s)) = apu_mem s"
  by (simp_all add: disable_kernel_clock_def enable_kernel_clock_def sensor_task_request_def Let_def split_beta)

lemma apu_mem_load_section [simp]: "apu_mem (snd (load_section bd axlf kind t n s)) = apu_mem s"
  by (simp add: load_section_def pdi_download_def fpga_pdi_download_def axigate_freeze_def axigate_free_def
      ucs_stop_def ucs_start_def Let_def split_beta split: option.splits)

text \<open>A string ends where the first zero byte is.\<close>

lemma c_strlen_returns: "m (p + of_nat n) = 0 \<Longrightarrow> \<exists>k. c_strlen m p = Some k"
proof (induct n arbitrary: p)
  case (Suc n)
  then have "m (p + 1 + of_nat n) = 0" by (simp add: ac_simps)
  from Suc.hyps [OF this] show ?case by (subst c_strlen.simps) auto
qed (subst c_strlen.simps, simp)

lemma fdt_loop_returns:
  assumes "m z = 0"
  shows "\<exists>r. fdt_loop m version strs len n p = Some r"
proof (induct n arbitrary: p)
  case (Suc n)
  have "\<exists>k. c_strlen m q = Some k" for q
    using c_strlen_returns [of m q "unat (z - q)"] assms by simp
  then obtain k where k: "c_strlen m (snd (GET_CELL p m)) = Some k" by blast
  show ?case using Suc by (auto simp: Let_def split_beta k)
qed simp

lemma fdt_get_uuids_returns:
  assumes "m z = 0"
  shows "\<exists>r. rmgmt_fdt_get_uuids fdt len m = Some r"
  using fdt_loop_returns [of m z, OF assms] by (auto simp: rmgmt_fdt_get_uuids_def Let_def simp del: fdt_loop.simps split: sum.splits)

lemma validate_uuid_returns:
  assumes "m z = 0"
  shows "\<exists>r. rmgmt_validate_uuid fpt xclbin m = Some r"
proof -
  obtain r where r: "rmgmt_fdt_get_uuids xclbin UUID_BYTES_LEN m = Some r"
    using fdt_get_uuids_returns [of m z, OF assms] by blast
  show ?thesis
  proof (cases r)
    case (Inr u)
    show ?thesis
    proof (cases "fst (rmgmt_fpt_get_xsabin fpt m cl_msg_zero)")
      case x: (Inr q)
      obtain r2 where "rmgmt_fdt_get_uuids (fst q) UUID_BYTES_LEN m = Some r2"
        using fdt_get_uuids_returns [of m z, OF assms] by blast
      then show ?thesis using r Inr x by (simp add: rmgmt_validate_uuid_def split_beta)
    qed (use r Inr in \<open>simp add: rmgmt_validate_uuid_def\<close>)
  qed (use r in \<open>simp add: rmgmt_validate_uuid_def\<close>)
qed

definition apu_area :: "apu_shared_mem \<Rightarrow> u32" where
  "apu_area a = VMR_EP_APU_SHARED_MEMORY_END - APU_SHARED_MEMORY_ADDR (apu_xgq_ring_buffer a + APU_RING_SIZE) + 1"

lemma apu_download_returns:
  assumes "apu_area (apu_mem s) \<noteq> 0"
  shows "\<exists>r s'. on_client_opt (rmgmt_apu_download_xclbin wd init rh) s = Some (r, s')"
proof -
  let ?c = "client.truncate s"
  have a: "apu_mem ?c = apu_mem s" by (simp add: client.truncate_def)
  have nn: "\<exists>r u. download_loop f area 0 len t = Some (r, u)" if "area \<noteq> 0" for f area len and t :: "'a client"
    using apu_download_loop_returns [OF that, of f len t] by auto
  obtain q t where sh: "shm_acquire_data wd ?c = (q, t)" by (cases "shm_acquire_data wd ?c")
  have "snd p = apu_area (apu_mem s)" if "q = Some p" for p
    using sh that by (auto simp: shm_acquire_data_def apu_area_def a Let_def split_beta split: if_splits)
  then have "rmgmt_apu_download_xclbin wd init rh ?c \<noteq> None"
    using assms by (cases q) (auto simp: rmgmt_apu_download_xclbin_def sh nn)
  then show ?thesis by (auto simp: on_client_opt_def)
qed

section \<open>The client leaves no event\<close>

definition trace_of :: "('w \<times> hw_event list) client \<Rightarrow> hw_event list" where
  "trace_of c = snd (cl_world c)"

definition traced_world :: "('w, 'f) board \<Rightarrow> ('w \<times> hw_event list) world" where
  "traced_world bd = world.truncate (traced bd)"

lemma trace_of_shm [simp]:
  "trace_of (snd (shm_acquire_data (traced_world bd) c)) = trace_of c"
  "trace_of (shm_release_data (traced_world bd) c) = trace_of c"
  by (auto simp: shm_acquire_data_def shm_release_data_def trace_of_def traced_world_def world.truncate_def
      traced_def Let_def split_beta)

lemma trace_of_send [simp]: "trace_of (snd (send_command ws c)) = trace_of c"
  by (auto simp: send_command_def trace_of_def Let_def split: prod.splits option.splits)

lemma trace_of_wait [simp]: "trace_of (snd (wait_completion (traced_world bd) n k c)) = trace_of c"
proof (induct n arbitrary: c)
  case (Suc n)
  have "snd (fst (w_delay (traced_world bd) (cl_world c, cl_mem c))) = snd (cl_world c)"
    by (simp add: traced_world_def world.truncate_def traced_def Let_def split_beta)
  then show ?case
    using Suc by (auto simp: Let_def trace_of_def split: prod.splits option.splits)
qed simp

lemma trace_of_trunk [simp]:
  "trace_of (snd (cl_xgq_apu_download_trunk (traced_world bd) init data t r b p c)) = trace_of c"
proof -
  let ?c = "c\<lparr>cl_mem := snd (cl_memcpy_toio (APU_SHARED_MEMORY_ADDR b) data (unat t) (cl_mem c))\<rparr>"
  obtain rv c1 where s: "send_command (xclbin_words init b t r p) ?c = (rv, c1)"
    by (cases "send_command (xclbin_words init b t r p) ?c")
  have "trace_of c1 = trace_of c" using trace_of_send [of "xclbin_words init b t r p" ?c] s by (simp add: trace_of_def)
  moreover obtain v c2 where w: "wait_completion (traced_world bd) APU_XGQ_TIMEOUT (\<lambda>cq m. (xclbin_cmd_complete cq, m)) c1
      = (v, c2)" by (cases "wait_completion (traced_world bd) APU_XGQ_TIMEOUT (\<lambda>cq m. (xclbin_cmd_complete cq, m)) c1")
  moreover have "trace_of c2 = trace_of c1" using w by (metis snd_conv trace_of_wait)
  ultimately show ?thesis
    using s by (cases v) (simp_all add: cl_xgq_apu_download_trunk_def Let_def)
qed

lemma download_loop_keeps:
  assumes f: "\<And>off t r s. I (snd (f off t r s)) = I s"
  shows "download_loop f area off len s = Some (rc, s') \<Longrightarrow> I s' = I s"
proof -
  have "download_loop f area off len s = Some y \<Longrightarrow> (\<forall>off t r s. I (snd (f off t r s)) = I s) \<longrightarrow> I (snd y) = I s" for y
    by (rule download_loop.raw_induct [where P = "\<lambda>f area off len s y. (\<forall>off t r s. I (snd (f off t r s)) = I s) \<longrightarrow> I (snd y) = I s"])
      (auto simp: Let_def split_beta split: if_splits)
  from this [of "(rc, s')"] show "download_loop f area off len s = Some (rc, s') \<Longrightarrow> I s' = I s" using f by simp
qed

lemma trace_of_download:
  assumes "rmgmt_apu_download_xclbin (traced_world bd) init rh c = Some (r, c')"
  shows "trace_of c' = trace_of c"
proof -
  obtain q c1 where a: "shm_acquire_data (traced_world bd) c = (q, c1)" by (cases "shm_acquire_data (traced_world bd) c")
  have "trace_of c1 = trace_of c" using trace_of_shm(1) [of bd c] a by simp
  then show ?thesis
    using assms a
    by (auto simp: rmgmt_apu_download_xclbin_def split: if_splits option.splits dest!: download_loop_keeps [where I = trace_of, rotated])
qed

lemma events_apu_download:
  assumes "on_client_opt (rmgmt_apu_download_xclbin (world.truncate (traced bd)) init rh) s = Some (r, s')"
  shows "events s' = events s"
proof -
  from assms obtain c where c: "rmgmt_apu_download_xclbin (traced_world bd) init rh (client.truncate s) = Some (r, c)"
    "s' = client.extend c (client.more s)" by (auto simp: on_client_opt_def traced_world_def)
  have "trace_of c = trace_of (client.truncate s)" by (rule trace_of_download [OF c(1)])
  then show ?thesis by (simp add: c(2) trace_of_def events_def client.truncate_def client.extend_def)
qed

lemma load_section_isolated:
  assumes "gate_apart bd"
  shows "\<exists>new. events (snd (load_section (traced bd) axlf kind t n s)) = new @ events s \<and> isolated bd new"
proof (cases "image_section axlf kind (cl_mem s)")
  case (Some q)
  from pdi_download_isolated [OF assms, of "fst q" "snd q" t n s] show ?thesis
    by (auto simp: load_section_def Some split_beta Let_def events_def)
qed (simp add: load_section_def)

section \<open>Properties\<close>



end
