(* ===== verification/Rmgmt_Fdt.thy ===== *)
theory Rmgmt_Fdt
  imports Rmgmt_Xfer
begin

text \<open>The walk of \<open>rmgmt_fdt_get_uuids\<close> (\<open>rmgmt/rmgmt_xfer.c\<close>) against the format it walks through: the
  structure block of a flattened device tree, as a list of items and its encoding in memory.\<close>

section \<open>The structure block\<close>

datatype fdt_item =
    BeginNode "u8 list"
  | EndNode
  | Prop u32 "u8 list"

definition be32 :: "u32 \<Rightarrow> u8 list" where
  "be32 w = bytes_of_u32 (cl_bswap32 w)"

definition padded :: "u8 list \<Rightarrow> u8 list" where
  "padded bs = bs @ replicate (3 - (length bs + 3) mod 4) 0"

fun encode_item :: "fdt_item \<Rightarrow> u8 list" where
  "encode_item (BeginNode name) = be32 FDT_BEGIN_NODE @ padded (name @ [0])"
| "encode_item EndNode = be32 2"
| "encode_item (Prop off data) = be32 FDT_PROP @ be32 (of_nat (length data)) @ be32 off @ padded data"

definition encode_fdt :: "fdt_item list \<Rightarrow> u8 list" where
  "encode_fdt items = concat (map encode_item items) @ be32 FDT_END"

definition holds :: "mem \<Rightarrow> u32 \<Rightarrow> u8 list \<Rightarrow> bool" where
  "holds m p bs \<longleftrightarrow> mem_load m p (length bs) = bs"

fun item_ok :: "fdt_item \<Rightarrow> bool" where
  "item_ok (BeginNode name) \<longleftrightarrow> 0 \<notin> set name"
| "item_ok EndNode = True"
| "item_ok (Prop off data) = (0 \<in> set data)"

text \<open>The reference: the data of the first property of the name, as a string in a field of \<open>n\<close> bytes.\<close>

fun first_prop :: "(u32 \<Rightarrow> bool) \<Rightarrow> fdt_item list \<Rightarrow> u8 list option" where
  "first_prop named [] = None"
| "first_prop named (Prop off data # items) = (if named off then Some data else first_prop named items)"
| "first_prop named (_ # items) = first_prop named items"

definition string_field :: "nat \<Rightarrow> u8 list \<Rightarrow> u8 list" where
  "string_field n data = (let s = takeWhile (\<lambda>b. b \<noteq> 0) data in take n s @ replicate (n - length s) 0)"

section \<open>Addresses\<close>

lemma length_padded: "length (padded bs) = 4 * ((length bs + 3) div 4)"
proof -
  have "n + (3 - (n + 3) mod 4) = 4 * ((n + 3) div 4)" for n :: nat by presburger
  then show ?thesis by (simp add: padded_def)
qed

lemma length_be32 [simp]: "length (be32 w) = 4"
  by (simp add: be32_def)

lemma holds_append: "holds m p (xs @ ys) \<longleftrightarrow> holds m p xs \<and> holds m (p + of_nat (length xs)) ys"
  by (auto simp: holds_def mem_load_append append_eq_append_conv)

lemma holds_nth: "holds m p bs \<Longrightarrow> i < length bs \<Longrightarrow> m (p + of_nat i) = bs ! i"
  by (metis holds_def nth_mem_load)

lemma read_be32: "holds m p (be32 w) \<Longrightarrow> cl_bswap32 (IO_SYNC_READ32 p m) = w"
  by (simp add: holds_def IO_SYNC_READ32_def be32_def cl_bswap32_involution)

lemma palign_unat:
  assumes "unat x + 3 < 2 ^ 32"
  shows "unat (PALIGN x 4) = 4 * ((unat x + 3) div 4)"
proof -
  have m: "(4 - 1 :: u32) = mask 2" "(3 :: u32) = mask 2" by (simp_all add: mask_eq_exp_minus_1)
  have "PALIGN x 4 = push_bit 2 (drop_bit 2 (x + 3))"
    unfolding PALIGN_def m
  proof (rule bit_word_eqI)
    fix n
    have "2 \<le> n \<Longrightarrow> Suc (Suc (n - 2)) = n" by simp
    then show "bit (x + mask 2 AND NOT (mask 2)) n = bit (push_bit 2 (drop_bit 2 (x + mask 2))) n" if "n < LENGTH(32)"
      using that by (cases "2 \<le> n") (auto simp: bit_simps)
  qed
  moreover have "unat (x + 3) = unat x + 3" using assms unat_add_of_nat [of x 3] by simp
  ultimately show ?thesis using assms
    by (simp add: push_bit_eq_mult unat_word_ariths unat_drop_bit_eq drop_bit_eq_div)
qed

lemma palign_offset:
  assumes "unat p mod 4 = 0" "unat p + k + 3 < 2 ^ 32"
  shows "PALIGN (p + of_nat k) 4 = p + of_nat (4 * ((k + 3) div 4))"
proof -
  have "unat (p + of_nat k) = unat p + k" using assms by (intro unat_add_of_nat) simp
  then have "unat (PALIGN (p + of_nat k) 4) = 4 * ((unat p + k + 3) div 4)"
    using assms(2) by (simp add: palign_unat)
  also have "\<dots> = unat p + 4 * ((k + 3) div 4)"
  proof -
    obtain q where "unat p = 4 * q" using assms(1) by (auto simp: mod_eq_0_iff_dvd elim: dvdE)
    then show ?thesis by (simp add: add.assoc)
  qed
  also have "\<dots> = unat (p + of_nat (4 * ((k + 3) div 4)))"
  proof (rule unat_add_of_nat [symmetric])
    have "4 * ((k + 3) div 4) \<le> k + 3" by simp
    then show "unat p + 4 * ((k + 3) div 4) < 2 ^ 32" using assms(2) by linarith
  qed
  finally show ?thesis by (simp only: word_unat_eq_iff)
qed

section \<open>Strings\<close>

lemma strlen_holds: "holds m p (name @ [0]) \<Longrightarrow> 0 \<notin> set name \<Longrightarrow> c_strlen m p = Some (length name)"
proof (induct name arbitrary: p)
  case Nil
  then show ?case by (subst c_strlen.simps) (simp add: holds_def mem_load_def)
next
  case (Cons b name)
  have "holds m p [b] \<and> holds m (p + 1) (name @ [0])"
    using Cons.prems(1) holds_append [of m p "[b]" "name @ [0]"] by simp
  then have "m p = b" "c_strlen m (p + 1) = Some (length name)"
    using Cons by (simp_all add: holds_def mem_load_def)
  then show ?case using Cons.prems(2) by (subst c_strlen.simps) auto
qed

lemma strncpy_string: "0 \<in> set data \<Longrightarrow> (\<And>i. i < length data \<Longrightarrow> src i = data ! i) \<Longrightarrow>
    strncpy_bytes n src = string_field n data"
proof (induct n arbitrary: data src)
  case (Suc n)
  obtain b bs where d: "data = b # bs" using Suc.prems(1) by (cases data) auto
  have b: "src 0 = b" using Suc.prems(2) [of 0] d by simp
  show ?case
  proof (cases "b = 0")
    case True
    then show ?thesis using b d by (simp add: string_field_def)
  next
    case False
    have "strncpy_bytes n (\<lambda>i. src (Suc i)) = string_field n bs"
    proof (rule Suc.hyps)
      show "0 \<in> set bs" using Suc.prems(1) d False by auto
      show "src (Suc i) = bs ! i" if "i < length bs" for i using Suc.prems(2) [of "Suc i"] d that by simp
    qed
    then show ?thesis using b d False by (simp add: string_field_def Let_def)
  qed
qed (simp add: string_field_def)

section \<open>The walk\<close>

lemma tags [simp]: "FDT_BEGIN_NODE \<noteq> FDT_END" "FDT_PROP \<noteq> FDT_END" "FDT_PROP \<noteq> FDT_BEGIN_NODE"
  "2 \<noteq> FDT_END" "2 \<noteq> FDT_BEGIN_NODE" "2 \<noteq> FDT_PROP"
  by (simp_all add: FDT_BEGIN_NODE_def FDT_END_def FDT_PROP_def)

lemma fdt_walk:
  assumes "\<not> version < 16" "holds m p (encode_fdt items)" "unat p mod 4 = 0"
    "unat p + length (encode_fdt items) + 8 < 2 ^ 32" "list_all item_ok items" "length items < n"
  shows "fdt_loop m version strs len n p = Some
    (case first_prop (\<lambda>off. starts_with m (strs + off) (ascii ''interface_uuid'')) items of
       None \<Rightarrow> Inl (- ENOENT) | Some data \<Rightarrow> Inr (string_field (unat len) data))"
  using assms(2-)
proof (induct items arbitrary: n p)
  case Nil
  then have "cl_bswap32 (IO_SYNC_READ32 p m) = FDT_END" by (intro read_be32) (simp add: encode_fdt_def)
  moreover obtain k where "n = Suc k" using Nil.prems by (cases n) auto
  ultimately show ?case by (simp add: GET_CELL_def Let_def)
next
  case (Cons item items)
  obtain k where k: "n = Suc k" "length items < k" using Cons.prems(5) by (cases n) auto
  let ?e = "encode_item item"
  have enc: "encode_fdt (item # items) = ?e @ encode_fdt items" by (simp add: encode_fdt_def)
  have h: "holds m p ?e" "holds m (p + of_nat (length ?e)) (encode_fdt items)"
    using Cons.prems(1) by (simp_all add: enc holds_append)
  have len4: "length ?e mod 4 = 0" by (cases item) (simp_all add: length_padded)
  have room: "unat p + length ?e + length (encode_fdt items) + 8 < 2 ^ 32" using Cons.prems(3) by (simp add: enc)
  have next_p: "unat (p + of_nat (length ?e)) = unat p + length ?e" using room by (intro unat_add_of_nat) simp
  have ih: "fdt_loop m version strs len k (p + of_nat (length ?e)) = Some
    (case first_prop (\<lambda>off. starts_with m (strs + off) (ascii ''interface_uuid'')) items of
       None \<Rightarrow> Inl (- ENOENT) | Some data \<Rightarrow> Inr (string_field (unat len) data))"
    using h(2) Cons.prems(2,4) next_p len4 room k(2) by (intro Cons.hyps) (simp_all add: mod_add_eq [symmetric])
  show ?case
  proof (cases item)
    case (BeginNode name)
    have tag: "cl_bswap32 (IO_SYNC_READ32 p m) = FDT_BEGIN_NODE"
      using h(1) by (intro read_be32) (simp add: BeginNode holds_append)
    have "holds m (p + 4) (name @ [0])"
      using h(1) by (simp add: BeginNode holds_append padded_def del: append_assoc)
    then have sl: "c_strlen m (p + 4) = Some (length name)" using Cons.prems(4) BeginNode by (intro strlen_holds) simp_all
    have "unat (p + 4) = unat p + 4" using room BeginNode unat_add_of_nat [of p 4] by simp
    moreover have "p + 4 + of_nat (length name) + 1 = (p + 4) + of_nat (length name + 1)" by simp
    ultimately have "PALIGN (p + 4 + of_nat (length name) + 1) 4 = p + 4 + of_nat (4 * ((length name + 1 + 3) div 4))"
      using Cons.prems(2) room BeginNode palign_offset [of "p + 4" "length name + 1"]
      by (simp add: length_padded mod_add_eq [symmetric] del: of_nat_add)
    also have "\<dots> = p + of_nat (length ?e)" by (simp add: BeginNode length_padded)
    finally show ?thesis using k(1) tag sl ih by (simp add: GET_CELL_def BeginNode Let_def)
  next
    case EndNode
    have "cl_bswap32 (IO_SYNC_READ32 p m) = 2" using h(1) by (intro read_be32) (simp add: EndNode)
    then show ?thesis using k(1) ih by (simp add: GET_CELL_def EndNode Let_def)
  next
    case (Prop off data)
    have cells: "holds m p (be32 FDT_PROP)" "holds m (p + 4) (be32 (of_nat (length data)))" "holds m (p + 8) (be32 off)"
      "holds m (p + 12) data"
      using h(1) by (simp_all add: Prop holds_append padded_def add.assoc)
    have r: "cl_bswap32 (IO_SYNC_READ32 p m) = FDT_PROP" "cl_bswap32 (IO_SYNC_READ32 (p + 4) m) = of_nat (length data)"
      "cl_bswap32 (IO_SYNC_READ32 (p + 8) m) = off"
      using cells(1-3) by (auto intro: read_be32)
    have copy: "strncpy_bytes (unat len) (\<lambda>i. m (p + 12 + of_nat i)) = string_field (unat len) data"
      using Cons.prems(4) Prop holds_nth [OF cells(4)] by (intro strncpy_string) simp_all
    have "unat (p + 12) = unat p + 12" using room Prop unat_add_of_nat [of p 12] by simp
    then have "PALIGN (p + 12 + of_nat (length data)) 4 = p + 12 + of_nat (4 * ((length data + 3) div 4))"
      using Cons.prems(2) room Prop by (intro palign_offset) (simp_all add: length_padded mod_add_eq [symmetric])
    also have "\<dots> = p + of_nat (length ?e)" by (simp add: Prop length_padded)
    finally have pal: "PALIGN (p + 12 + of_nat (length data)) 4 = p + of_nat (length ?e)" .
    have adr: "p + 4 + 4 = p + 8" "p + 8 + 4 = p + 12" by simp_all
    have "fdt_loop m version strs len (Suc k) p =
        (if starts_with m (strs + off) (ascii ''interface_uuid'') then Some (Inr (string_field (unat len) data))
         else fdt_loop m version strs len k (p + of_nat (length ?e)))"
      unfolding fdt_loop.simps GET_CELL_def Let_def prod.case
      by (simp only: r adr pal copy assms(1) tags simp_thms if_False if_True)
    then show ?thesis by (simp only: k(1) ih) (simp add: Prop)
  qed
qed

section \<open>Properties\<close>


definition sample_tree :: mem where
  "sample_tree = mem_store (mem_store ((\<lambda>_. 0)(0 := 0x78, 1 := 0x63, 2 := 0x6c, 3 := 0x62, 4 := 0x69, 5 := 0x6e, 6 := 0x32,
     305 := 4, 448 := 1, 456 := 20, 481 := 2, 488 := 100, 523 := 64, 527 := 128, 535 := 17))
     576 (encode_fdt [BeginNode [], Prop 0 [97, 98, 0], EndNode])) 640 (ascii ''interface_uuid'')"


end
