(* ===== verification/Rmgmt_Pm.thy ===== *)
theory Rmgmt_Pm
  imports Rmgmt_Xfer
begin

text \<open>Power management and reset: \<open>rmgmt/ipi.c\<close>, \<open>rmgmt/pm_init.c\<close>, \<open>rmgmt/rmgmt_ipi.c\<close>,
  \<open>rmgmt/rmgmt_pm.c\<close>, and from \<open>rmgmt/rmgmt_main.c\<close> the choice of the image of the next boot.  The
  drivers of the interrupt controller and of the inter-processor interrupt, and the power-management
  library, are parts of the environment.  \<open>None\<close> is a reset that is under way.\<close>

section \<open>The lowest bit of a mask\<close>

definition ipimask2idx :: "u32 \<Rightarrow> nat" where
  "ipimask2idx m = length (takeWhile (\<lambda>i. \<not> bit m i) [0..<32])"

lemma ctz_least:
  assumes "v \<noteq> 0"
  shows "ipimask2idx v < 32" "bit v (ipimask2idx v)" "\<forall>i < ipimask2idx v. \<not> bit v i"
proof -
  let ?P = "\<lambda>i. \<not> bit v i" and ?xs = "[0..<32] :: nat list"
  obtain n where n: "bit v n" using assms by (auto simp: bit_eq_iff)
  then have "n < 32" using bit_imp_le_length by fastforce
  then have "takeWhile ?P ?xs \<noteq> ?xs" using n by (auto simp: takeWhile_eq_all_conv)
  then have l: "length (takeWhile ?P ?xs) < length ?xs"
    by (metis length_takeWhile_le order_le_imp_less_or_eq takeWhile_eq_take take_all_iff less_or_eq_imp_le)
  then show lt: "ipimask2idx v < 32" by (simp add: ipimask2idx_def)
  show "bit v (ipimask2idx v)"
    using nth_length_takeWhile [OF l] l by (simp add: ipimask2idx_def)
  show "\<forall>i < ipimask2idx v. \<not> bit v i"
  proof (intro allI impI)
    fix i assume i: "i < ipimask2idx v"
    then have "takeWhile ?P ?xs ! i \<in> set (takeWhile ?P ?xs)" by (simp add: ipimask2idx_def)
    moreover have "takeWhile ?P ?xs ! i = i" using i lt by (simp add: ipimask2idx_def takeWhile_nth)
    ultimately show "\<not> bit v i" by (metis set_takeWhileD)
  qed
qed

lemma lowest_bit:
  assumes "v \<noteq> 0"
  shows "v AND - v = push_bit (ipimask2idx v) 1"
proof -
  define k where "k = ipimask2idx v"
  note k = ctz_least [OF assms, folded k_def]
  have d: "v = push_bit k (drop_bit k v)"
  proof (rule bit_word_eqI)
    fix n assume "n < LENGTH(32)"
    then show "bit v n = bit (push_bit k (drop_bit k v)) n"
      using k(3) by (cases "k \<le> n") (auto simp: bit_simps)
  qed
  let ?w = "drop_bit k v"
  have odd: "odd ?w" using k(2) by (simp add: bit_iff_odd_drop_bit)
  have e: "bit (?w - 1) n \<longleftrightarrow> bit ?w n \<and> n \<noteq> 0" for n
    using odd_bit_iff_bit_pred [OF odd, of n] odd by (cases "n = 0") (simp_all add: bit_0)
  have "v - 1 = push_bit k (?w - 1) + mask k"
    by (subst (1) d) (simp add: push_bit_eq_mult algebra_simps mask_eq_exp_minus_1)
  also have "\<dots> = push_bit k (?w - 1) OR mask k"
    by (rule disjunctive_add) (auto simp: bit_simps)
  finally have v1: "bit (v - 1) i = (k \<le> i \<and> i \<noteq> k \<and> bit v i \<or> i < k)" if "i < 32" for i
    using that by (auto simp: bit_push_bit_iff bit_or_iff bit_mask_iff e bit_drop_bit_eq)
  show ?thesis
  proof (rule bit_word_eqI, fold k_def)
    fix i assume "i < LENGTH(32)"
    then show "bit (v AND - v) i = bit (push_bit k 1 :: u32) i"
      using k v1 [of i] by (auto simp: minus_eq_not_minus_1 bit_simps bit_1_iff)
  qed
qed


lemma clear_lowest_less:
  assumes "(v :: u32) \<noteq> 0"
  shows "unat (v AND NOT (v AND - v)) < unat v"
proof -
  note k = ctz_least [OF assms]
  have "v AND NOT (v AND - v) \<noteq> v"
  proof
    assume "v AND NOT (v AND - v) = v"
    then have "bit (v AND NOT (v AND - v)) (ipimask2idx v) = bit v (ipimask2idx v)" by simp
    then show False using k by (simp add: lowest_bit [OF assms] bit_simps)
  qed
  moreover have "v AND NOT (v AND - v) \<le> v" by (rule word_and_le2)
  ultimately show ?thesis by (simp add: word_le_nat_alt order_le_less word_unat_eq_iff)
qed

section \<open>Inter-processor interrupts (ipi.c)\<close>

definition XIPIPSU_ALL_MASK :: u32 where "XIPIPSU_ALL_MASK = 0x0E0F0301"
definition XST_INVALID_PARAM :: int where "XST_INVALID_PARAM = 15"

text \<open>The table has eleven entries; an index past it is not excluded, and the entry read there is
  unspecified.\<close>

type_synonym 'w ipi_callbacks = "('w \<Rightarrow> 'w) option list"

definition IpiCallbacks_init :: "'w ipi_callbacks" where
  "IpiCallbacks_init = replicate 11 None"

definition serve_source :: "'w ipi_ops \<Rightarrow> 'w ipi_callbacks \<Rightarrow> nat \<Rightarrow> 'w \<Rightarrow> 'w" where
  "serve_source p cbs idx w =
     ipi_clear p (push_bit idx 1) (case cbs ! idx of Some cb \<Rightarrow> cb w | None \<Rightarrow> w)"

function irq_loop :: "'w ipi_ops \<Rightarrow> 'w ipi_callbacks \<Rightarrow> u32 \<Rightarrow> 'w \<Rightarrow> 'w" where
  "irq_loop p cbs v w =
     (if v = 0 then w
      else let low = v AND - v; idx = ipimask2idx low;
               w1 = (case cbs ! idx of Some cb \<Rightarrow> cb w | None \<Rightarrow> w)
           in irq_loop p cbs (v AND NOT low) (ipi_clear p low w1))"
  by auto
termination by (relation "measure (\<lambda>(p, cbs, v, w). unat v)") (simp_all add: clear_lowest_less del: bit.de_Morgan_conj)

declare irq_loop.simps [simp del]

definition IpiIrqHandler :: "'w ipi_ops \<Rightarrow> 'w ipi_callbacks \<Rightarrow> 'w \<Rightarrow> 'w" where
  "IpiIrqHandler p cbs w = (let (v, w1) = ipi_status p w in irq_loop p cbs v w1)"

definition IpiRegisterCallback ::
    "'w ipi_ops \<Rightarrow> u32 \<Rightarrow> ('w \<Rightarrow> 'w) option \<Rightarrow> 'w ipi_callbacks \<Rightarrow> 'w \<Rightarrow> int \<times> 'w ipi_callbacks \<times> 'w" where
  "IpiRegisterCallback p src callback cbs w =
     (case callback of
        None \<Rightarrow> (XST_INVALID_PARAM, cbs, w)
      | Some cb \<Rightarrow>
          let idx = ipimask2idx src
          in if cbs ! idx \<noteq> None then (XST_FAILURE, cbs, w)
             else (XST_SUCCESS, cbs[idx := Some cb], ipi_enable p src w))"

text \<open>Without an interrupt controller, as here, nothing is connected to it.\<close>

definition IpiConfigure :: "'w ipi_ops \<Rightarrow> 'w \<Rightarrow> int \<times> 'w" where
  "IpiConfigure p w =
     (if \<not> ipi_lookup p w then (XST_FAILURE, w)
      else let (st, w1) = ipi_cfg_init p w
           in if st \<noteq> XST_SUCCESS then (st, w1) else (st, ipi_clear p XIPIPSU_ALL_MASK w1))"

definition IpiInit :: "'w ipi_ops \<Rightarrow> 'w \<Rightarrow> int \<times> 'w" where
  "IpiInit p w =
     (let (st, w1) = IpiConfigure p w
      in if st \<noteq> XST_SUCCESS then (st, w1) else (st, ipi_enable p XIPIPSU_ALL_MASK w1))"

section \<open>Starting power management (pm_init.c, rmgmt_pm.c)\<close>

definition PmInit :: "('w, 'f) board \<Rightarrow> u32 \<Rightarrow> ('w, 'f) rmgmt \<Rightarrow> int \<times> ('w, 'f) rmgmt" where
  "PmInit bd full_boot s =
     (let (st, s1) = on_world (IpiInit (b_ipi bd)) s
      in if st \<noteq> XST_SUCCESS then (st, s1) else on_world (b_xilpm_init bd) s1)"

definition RPU_PPA_BASE :: u32 where "RPU_PPA_BASE = 0x3E500000"
definition RPU_PPA_BAD_BOOT_OFFSET :: u32 where "RPU_PPA_BAD_BOOT_OFFSET = 0x10"
definition RPU_BAD_BOOT_KEY :: u32 where "RPU_BAD_BOOT_KEY = 0x37232323"
definition RPU_CLEAN_BOOT_KEY :: u32 where "RPU_CLEAN_BOOT_KEY = 0"

definition GetBootState :: "mem \<Rightarrow> u32" where
  "GetBootState m =
     (let boot_status = IO_SYNC_READ32 (RPU_PPA_BASE + RPU_PPA_BAD_BOOT_OFFSET) m
      in if boot_status = RPU_BAD_BOOT_KEY then 0 else if boot_status = RPU_CLEAN_BOOT_KEY then 1 else 2)"

definition SetNextBootState :: "u32 \<Rightarrow> mem \<Rightarrow> mem" where
  "SetNextBootState state m = IO_SYNC_WRITE32 state (RPU_PPA_BASE + RPU_PPA_BAD_BOOT_OFFSET) m"

definition rmgmt_pm_init :: "('w, 'f) board \<Rightarrow> ('w, 'f) rmgmt \<Rightarrow> int \<times> ('w, 'f) rmgmt" where
  "rmgmt_pm_init bd s =
     (let (st, s1) = PmInit bd (GetBootState (cl_mem s)) s
      in (st, s1\<lparr>cl_mem := SetNextBootState RPU_CLEAN_BOOT_KEY (cl_mem s1)\<rparr>))"

section \<open>The image store (rmgmt_ipi.c)\<close>

definition rmgmt_IpiInit :: "'w ipi_ops \<Rightarrow> 'w \<Rightarrow> int \<times> 'w" where
  "rmgmt_IpiInit p w = (if \<not> ipi_lookup p w then (XST_FAILURE, w) else ipi_cfg_init p w)"

definition image_store_payload :: "u32 \<Rightarrow> u32 \<Rightarrow> u32 list" where
  "image_store_payload pdi_address pdi_size = [0x040709, 0, 0, pdi_address, pdi_size]"

definition IPI_TIMEOUT :: u32 where "IPI_TIMEOUT = 0xFFFFFFFF"

definition rmgmt_ipi_image_store :: "'w ipi_ops \<Rightarrow> u32 \<Rightarrow> u32 \<Rightarrow> 'w \<Rightarrow> int \<times> 'w" where
  "rmgmt_ipi_image_store p pdi_address pdi_size w =
     (let (st, w1) = rmgmt_IpiInit p w
      in if st \<noteq> XST_SUCCESS then (st, w1)
         else let (st, w2) = ipi_write p (image_store_payload pdi_address pdi_size) w1
              in if st \<noteq> XST_SUCCESS then (st, w2)
                 else let (st, w3) = ipi_trigger p w2
                      in if st \<noteq> XST_SUCCESS then (st, w3)
                         else let (st, w4) = ipi_poll p IPI_TIMEOUT w3
                              in if st \<noteq> XST_SUCCESS then (st, w4)
                                 else let ((st, response), w5) = ipi_read p w4
                                      in if st \<noteq> XST_SUCCESS then (st, w5) else (sint response, w5))"

section \<open>The next boot (rmgmt_main.c, vmr_common.h)\<close>

definition VMR_EP_PMC_REG :: u32 where "VMR_EP_PMC_REG = 0xF1130000"
definition PMC_POR_ENABLE_BIT :: u32 where "PMC_POR_ENABLE_BIT = push_bit 24 1"
definition PMC_REG_SRST :: u32 where "PMC_REG_SRST = 0x84"
definition PL_TO_PMC_ERROR_SIGNAL_PATH_MASK :: u32 where "PL_TO_PMC_ERROR_SIGNAL_PATH_MASK = 1"

definition rmgmt_enable_pl_reset :: "('w, 'f) board \<Rightarrow> ('w, 'f) rmgmt \<Rightarrow> int \<times> ('w, 'f) rmgmt" where
  "rmgmt_enable_pl_reset bd s =
     (case FORCE_RESET bd of
        None \<Rightarrow> (- ENODEV, s)
      | Some pmc_mux \<Rightarrow>
          let (val, s1) = reg_read bd pmc_mux s
          in (0, reg_write bd (val OR PL_TO_PMC_ERROR_SIGNAL_PATH_MASK) pmc_mux s1))"

definition rmgmt_enable_srst_por :: "('w, 'f) board \<Rightarrow> ('w, 'f) rmgmt \<Rightarrow> ('w, 'f) rmgmt" where
  "rmgmt_enable_srst_por bd s = reg_write bd PMC_POR_ENABLE_BIT (VMR_EP_PMC_REG + PMC_REG_SRST) s"

definition rmgmt_set_multiboot :: "('w, 'f) board \<Rightarrow> u32 \<Rightarrow> ('w, 'f) rmgmt \<Rightarrow> ('w, 'f) rmgmt" where
  "rmgmt_set_multiboot bd offset s = reg_write bd offset VMR_EP_PLM_MULTIBOOT s"

definition rmgmt_set_multiboot_to_default ::
    "('w, 'f) board \<Rightarrow> cl_msg \<Rightarrow> ('w, 'f) rmgmt \<Rightarrow> (cl_msg \<times> ('w, 'f) rmgmt) option" where
  "rmgmt_set_multiboot_to_default bd msg s = map_option (\<lambda>(msg1, s1).
     (msg1, rmgmt_set_multiboot bd (MULTIBOOT_OFF (mb_default_partition_offset (multiboot_payload msg1))) s1))
     (rmgmt_boot_fpt_query bd msg s)"

definition rmgmt_set_multiboot_to_backup ::
    "('w, 'f) board \<Rightarrow> cl_msg \<Rightarrow> ('w, 'f) rmgmt \<Rightarrow> (cl_msg \<times> ('w, 'f) rmgmt) option" where
  "rmgmt_set_multiboot_to_backup bd msg s = map_option (\<lambda>(msg1, s1).
     (msg1, rmgmt_set_multiboot bd (MULTIBOOT_OFF (mb_backup_partition_offset (multiboot_payload msg1))) s1))
     (rmgmt_boot_fpt_query bd msg s)"

definition request_pl_reset :: "('w, 'f) board \<Rightarrow> ('w, 'f) rmgmt \<Rightarrow> int \<times> ('w, 'f) rmgmt" where
  "request_pl_reset bd s =
     (let (ret, s1) = rmgmt_enable_pl_reset bd s in (if ret \<noteq> 0 \<and> ret \<noteq> - ENODEV then -1 else 0, s1))"

definition rmgmt_enable_boot_default ::
    "('w, 'f) board \<Rightarrow> cl_msg \<Rightarrow> ('w, 'f) rmgmt \<Rightarrow> (int \<times> cl_msg \<times> ('w, 'f) rmgmt) option" where
  "rmgmt_enable_boot_default bd msg s = do {
     (msg1, s1) \<leftarrow> rmgmt_set_multiboot_to_default bd msg (rmgmt_enable_srst_por bd s);
     let (ret, s2) = request_pl_reset bd s1 in Some (ret, msg1, s2)
   }"

definition rmgmt_enable_boot_backup ::
    "('w, 'f) board \<Rightarrow> cl_msg \<Rightarrow> ('w, 'f) rmgmt \<Rightarrow> (int \<times> cl_msg \<times> ('w, 'f) rmgmt) option" where
  "rmgmt_enable_boot_backup bd msg s = do {
     (msg1, s1) \<leftarrow> rmgmt_set_multiboot_to_backup bd msg (rmgmt_enable_srst_por bd s);
     let (ret, s2) = request_pl_reset bd s1 in Some (ret, msg1, s2)
   }"

section \<open>Reset (rmgmt_pm.c)\<close>

definition rmgmt_subsystem_fini :: "('w, 'f) rmgmt \<Rightarrow> int \<times> ('w, 'f) rmgmt" where
  "rmgmt_subsystem_fini s =
     (let (ret, m) = vmr_status_service_stop (cl_mem s); s1 = s\<lparr>cl_mem := m\<rparr>
      in if ret \<noteq> 0 then (- EINVAL, s1)
         else let (ret, s2) = on_client cl_xgq_client_fini s1
              in if ret \<noteq> 0 then (- EINVAL, s2) else (0, s2))"

text \<open>After a reset that was accepted the code waits for it in an endless loop.\<close>

definition shut_down :: "('w, 'f) board \<Rightarrow> bool \<Rightarrow> ('w, 'f) rmgmt \<Rightarrow> (int \<times> ('w, 'f) rmgmt) option" where
  "shut_down bd whole s =
     (let (st, s1) = on_world (b_shutdown bd whole) s in if st = XST_SUCCESS then None else Some (st, s1))"

definition rmgmt_pm_reset_rpu :: "('w, 'f) board \<Rightarrow> ('w, 'f) rmgmt \<Rightarrow> (int \<times> ('w, 'f) rmgmt) option" where
  "rmgmt_pm_reset_rpu bd s =
     (let (st, s1) = rmgmt_subsystem_fini (MDELAY bd 1000 s)
      in if st \<noteq> 0 then Some (st, s1) else shut_down bd False s1)"

definition rmgmt_eemi_pm_reset ::
    "('w, 'f) board \<Rightarrow> cl_msg \<Rightarrow> ('w, 'f) rmgmt \<Rightarrow> (int \<times> cl_msg \<times> ('w, 'f) rmgmt) option" where
  "rmgmt_eemi_pm_reset bd msg s =
     (let (st, s1) = rmgmt_subsystem_fini (MDELAY bd 1000 s)
      in if st \<noteq> 0 then Some (st, msg, s1)
         else do {
           (ret, msg1, s2) \<leftarrow> (if mb_boot_on_backup (multiboot_payload msg)
                              then rmgmt_enable_boot_backup bd msg s1 else rmgmt_enable_boot_default bd msg s1);
           map_option (\<lambda>(st, s3). (st, msg1, s3)) (shut_down bd True s2)
         })"

section \<open>Properties\<close>

lemma lowest_bit_idx: "v \<noteq> 0 \<Longrightarrow> ipimask2idx (v AND - v) = ipimask2idx v"
proof -
  assume v: "v \<noteq> 0"
  let ?k = "ipimask2idx v" and ?u = "push_bit (ipimask2idx v) 1 :: u32"
  have k: "?k < 32" by (rule ctz_least(1) [OF v])
  have "bit ?u ?k" using k by (simp add: bit_simps)
  then have "?u \<noteq> 0" by (metis bit_0_eq bot_apply bot_bool_def)
  from ctz_least [OF this] have "ipimask2idx ?u = ?k" by (auto simp: bit_simps)
  then show ?thesis by (simp add: lowest_bit [OF v])
qed

lemma irq_loop_serves:
  "irq_loop p cbs v w = fold (serve_source p cbs) (filter (bit v) [0..<32]) w"
proof (induct p cbs v w rule: irq_loop.induct)
  case (1 p cbs v w)
  show ?case
  proof (cases "v = 0")
    case True
    then show ?thesis by (subst irq_loop.simps) simp
  next
    case False
    let ?k = "ipimask2idx v" and ?v = "v AND NOT (v AND - v)"
    note k = ctz_least [OF False]
    have split: "[0..<32] = [0..<?k] @ ?k # [Suc ?k..<32]" using k(1) upt_add_eq_append [of 0 ?k "32 - ?k"] upt_conv_Cons [of ?k 32] by simp
    have b: "bit ?v i \<longleftrightarrow> bit v i \<and> i \<noteq> ?k" for i by (auto simp: lowest_bit [OF False] bit_simps dest: bit_imp_le_length)
    have f0: "filter (bit v) [0..<?k] = []" "filter (bit ?v) [0..<?k] = []"
      unfolding filter_empty_conv b using k(3) by auto
    have eq: "filter (bit ?v) [Suc ?k..<32] = filter (bit v) [Suc ?k..<32]"
      unfolding b by (rule filter_cong) auto
    have st: "ipi_clear p (v AND - v) (case cbs ! ipimask2idx (v AND - v) of None \<Rightarrow> w | Some cb \<Rightarrow> cb w)
        = serve_source p cbs ?k w"
      by (simp only: serve_source_def lowest_bit_idx [OF False]) (simp only: lowest_bit [OF False])
    from eq have "filter (bit v) [0..<32] = ?k # filter (bit ?v) [0..<32]"
      unfolding split using f0 k(2) b by simp
    moreover have "irq_loop p cbs v w = irq_loop p cbs ?v (serve_source p cbs ?k w)"
      using False lowest_bit [OF False] lowest_bit_idx [OF False]
      by (subst irq_loop.simps) (simp add: Let_def serve_source_def)
    moreover have "irq_loop p cbs ?v (serve_source p cbs ?k w)
        = fold (serve_source p cbs) (filter (bit ?v) [0..<32]) (serve_source p cbs ?k w)"
      using 1 [OF False refl refl refl] by (simp only: st)
    ultimately show ?thesis by simp
  qed
qed


end
