(* ===== verification/Rmgmt_Report.thy ===== *)
theory Rmgmt_Report
  imports Rmgmt_Pm
begin

text \<open>The log pages of \<open>rmgmt/rmgmt_main.c\<close>: the reports that are written to the buffer \<open>rh_log\<close> and
  copied to the host's window of the shared memory, and the data that is copied there directly.  The
  buffer does not meet the window, so a copy reads the buffer before it writes.  A result \<open>None\<close> is a
  flash call, or a search for the end of a string, that does not return.\<close>

definition set_log_size :: "u32 \<Rightarrow> cl_msg \<Rightarrow> cl_msg" where
  "set_log_size n msg = msg\<lparr>log_payload := (log_payload msg)\<lparr>log_size := n\<rparr>\<rparr>"

definition dst_addr_of :: "cl_msg \<Rightarrow> u32" where
  "dst_addr_of msg = RPU_SHARED_MEMORY_ADDR (log_address (log_payload msg))"

section \<open>Writing to the log buffer\<close>

text \<open>\<open>count += snprintf (buf + count, size - count, ...)\<close>\<close>

definition log_add :: "u32 \<Rightarrow> u32 \<Rightarrow> u8 list \<Rightarrow> u32 \<Rightarrow> ('w, 'f) rmgmt \<Rightarrow> u32 \<times> ('w, 'f) rmgmt" where
  "log_add buf room t count s =
     (case snprintf (buf + count) (room - count) t (cl_mem s) of (n, m) \<Rightarrow> (count + n, s\<lparr>cl_mem := m\<rparr>))"

text \<open>Several such calls, each followed by a return of \<open>size\<close> when the text is longer: then the first
  component is \<open>False\<close>.\<close>

fun log_texts ::
    "u32 \<Rightarrow> u32 \<Rightarrow> u8 list list \<Rightarrow> u32 \<Rightarrow> ('w, 'f) rmgmt \<Rightarrow> bool \<times> u32 \<times> ('w, 'f) rmgmt" where
  "log_texts buf room [] count s = (True, count, s)"
| "log_texts buf room (t # ts) count s =
     (let (count, s1) = log_add buf room t count s
      in if count > room then (False, room, s1) else log_texts buf room ts count s1)"

text \<open>Copying the buffer to the window.\<close>

definition copy_log :: "u32 \<Rightarrow> u32 \<Rightarrow> u32 \<Rightarrow> ('w, 'f) rmgmt \<Rightarrow> ('w, 'f) rmgmt" where
  "copy_log dst buf n s =
     s\<lparr>cl_mem := snd (cl_memcpy_toio dst (mem_load (cl_mem s) buf (unat n)) (unat n) (cl_mem s))\<rparr>"

definition line :: "u8 list list \<Rightarrow> u8 list" where "line ts = concat ts @ newline"

definition hex_line :: "string \<Rightarrow> u32 \<Rightarrow> u8 list" where
  "hex_line name v = line [ascii name, ascii '': 0x'', fmt_hex (unat v)]"

section \<open>What the reports say\<close>

definition partition_texts :: "xgq_vmr_multiboot_payload \<Rightarrow> u8 list list" where
  "partition_texts p =
     [hex_line ''default image offset'' (mb_default_partition_offset p)
        @ hex_line ''default image size'' (mb_pdimeta_size p)
        @ hex_line ''default image capacity'' (mb_default_partition_size p),
      hex_line ''backup image offset'' (mb_backup_partition_offset p)
        @ hex_line ''backup image size'' (mb_pdimeta_backup_size p)
        @ hex_line ''backup image capacity'' (mb_backup_partition_size p),
      hex_line ''SCFW image size'' (mb_scfw_size p)]"

definition version_text :: "u8 \<times> u8 \<times> u8 \<Rightarrow> u8 list" where
  "version_text v = (case v of (major, minor, revision) \<Rightarrow>
     line [ascii ''SCFW image version: '', fmt_dec (uint major), ascii ''.'', fmt_dec (uint minor), ascii ''.'',
           fmt_dec (uint revision)])"

definition ospi_version_text :: "int \<Rightarrow> u8 list \<Rightarrow> u8 list" where
  "ospi_version_text ret bs =
     line [ascii ''OSPI image version: '', if ret \<noteq> 0 then ascii ''N/A'' else fmt_str bs]"

definition rmgmt_fpt_status_query ::
    "('w, 'f) board \<Rightarrow> cl_msg \<Rightarrow> u32 \<Rightarrow> u32 \<Rightarrow> ('w, 'f) rmgmt \<Rightarrow> (u32 \<times> cl_msg \<times> ('w, 'f) rmgmt) option" where
  "rmgmt_fpt_status_query bd msg buf room s = do {
     (msg1, s1) \<leftarrow> rmgmt_fpt_query bd msg s;
     let (ok, count, s2) = log_texts buf room (partition_texts (multiboot_payload msg1)) 0 s1
     in if \<not> ok then Some (count, msg1, s2)
        else let (version, s3) = on_world (vmc_scfw_version (b_vmc bd)) s2;
                 (ok, count, s4) = log_texts buf room [version_text version] count s3
             in if \<not> ok then Some (count, msg1, s4)
                else do {
                  (ret, bs, s5) \<leftarrow> rmgmt_fpt_get_ospi_version bd msg1 s4;
                  let (ok, count, s6) = log_texts buf room [ospi_version_text ret bs] count s5
                  in Some (count, msg1, s6)
                }
   }"

definition vmr_eps :: "('w, 'f) board \<Rightarrow> (string \<times> u32) list" where
  "vmr_eps bd =
     [(''STDIN_BASEADDRESS'', fst (STDIN_OUT bd)), (''STDOUT_BASEADDRESS'', snd (STDIN_OUT bd)),
      (''VMR_EP_SYSTEM_DTB'', VMR_EP_SYSTEM_DTB), (''VMR_EP_PR_ISOLATION'', PR_ISOLATION bd),
      (''VMR_EP_UCS_SHUTDOWN'', VMR_EP_UCS_SHUTDOWN bd), (''VMR_EP_FIREWALL_USER_BASE'', FIREWALL_USER bd),
      (''VMR_EP_GAPPING_DEMAND'', GAPPING_DEMAND bd), (''VMR_EP_ACLK_KERNEL_0'', fst (ACLK_KERNEL bd)),
      (''VMR_EP_ACLK_KERNEL_1'', snd (ACLK_KERNEL bd)), (''VMR_EP_ACLK_FREQ_0'', ACLK_FREQ_0 bd),
      (''VMR_EP_ACLK_FREQ_KERNEL_0'', fst (ACLK_FREQ_KERNEL bd)),
      (''VMR_EP_ACLK_FREQ_KERNEL_1'', snd (ACLK_FREQ_KERNEL bd)),
      (''VMR_EP_PLM_MULTIBOOT'', VMR_EP_PLM_MULTIBOOT), (''VMR_EP_PMC_REG'', VMR_EP_PMC_REG),
      (''VMR_EP_RPU_SHARED_MEMORY_START'', VMR_EP_RPU_SHARED_MEMORY_START),
      (''VMR_EP_RPU_SHARED_MEMORY_END'', VMR_EP_RPU_SHARED_MEMORY_END),
      (''VMR_EP_RPU_PRELOAD_FPT'', PRELOAD_FPT bd),
      (''VMR_EP_RPU_SQ_BASE'', SQ_CQ_BASES bd ! 0), (''VMR_EP_RPU_CQ_BASE'', SQ_CQ_BASES bd ! 1),
      (''VMR_EP_APU_SHARED_MEMORY_START'', VMR_EP_APU_SHARED_MEMORY_START),
      (''VMR_EP_APU_SHARED_MEMORY_END'', VMR_EP_APU_SHARED_MEMORY_END),
      (''VMR_EP_APU_SQ_BASE'', SQ_CQ_BASES bd ! 2), (''VMR_EP_APU_CQ_BASE'', SQ_CQ_BASES bd ! 3),
      (''VMR_EP_RPU_RING_BUFFER_BASE'', VMR_EP_RPU_RING_BUFFER_BASE)]
     @ (case FORCE_RESET bd of None \<Rightarrow> [] | Some a \<Rightarrow> [(''VMR_EP_FORCE_RESET'', a)])"

definition rmgmt_endpoints_query :: "('w, 'f) board \<Rightarrow> u32 \<Rightarrow> u32 \<Rightarrow> ('w, 'f) rmgmt \<Rightarrow> u32 \<times> ('w, 'f) rmgmt" where
  "rmgmt_endpoints_query bd buf room s =
     (let (ok, count, s1) = log_texts buf room (map (\<lambda>(name, a). hex_line name a) (vmr_eps bd)) 0 s in (count, s1))"

definition build_texts :: "('w, 'f) board \<Rightarrow> u8 list list" where
  "build_texts bd =
     line [ascii (if BUILD_XRT_ONLY bd then ''Build flags: -XRT'' else ''Build flags: default full build'')]
     # (case BUILD_VERSION bd of
          None \<Rightarrow> []
        | Some (tool, hash, branch, hash_date, build_date, build) \<Rightarrow>
            [line [ascii ''vitis version: '', ascii tool] @ line [ascii ''git hash: '', ascii hash]
               @ line [ascii ''git branch: '', ascii branch] @ line [ascii ''git hash date: '', ascii hash_date],
             line [ascii ''vmr build date: '', ascii build_date] @ line [ascii ''vmr build version: '', ascii build]])"

definition rmgmt_rpu_status_query :: "('w, 'f) board \<Rightarrow> u32 \<Rightarrow> u32 \<Rightarrow> ('w, 'f) rmgmt \<Rightarrow> u32 \<times> ('w, 'f) rmgmt" where
  "rmgmt_rpu_status_query bd buf room s =
     (let (ok, count, s1) = log_texts buf room (build_texts bd) 0 s in (count, s1))"

definition apu_version_text :: "xgq_vmr_cmd_identify \<Rightarrow> u8 list" where
  "apu_version_text id_cmd =
     line [ascii ''APU XGQ Version: '', fmt_dec (uint (id_major id_cmd)), ascii ''.'', fmt_dec (uint (id_minor id_cmd))]"

text \<open>The APU's own report is stored behind its version.\<close>

definition rmgmt_apu_status_query :: "('w, 'f) board \<Rightarrow> u32 \<Rightarrow> u32 \<Rightarrow> ('w, 'f) rmgmt \<Rightarrow> u32 \<times> ('w, 'f) rmgmt" where
  "rmgmt_apu_status_query bd buf room s =
     (if \<not> cl_rmgmt_apu_is_ready (client.truncate s) then (0, s)
      else let ((ret, id_cmd), s1) = on_client (\<lambda>c. case rmgmt_apu_identify (world.truncate bd)
                                        \<lparr> id_major = 0, id_minor = 0 \<rparr> c of (r, i, c') \<Rightarrow> ((r, i), c')) s;
               (ok, count, s2) = log_texts buf room (if ret = 0 then [apu_version_text id_cmd] else []) 0 s1
           in if \<not> ok then (count, s2)
              else let ((n, bs), s3) = on_client (\<lambda>c. case rmgmt_apu_info (world.truncate bd) (room - count) c of
                                         (n, bs, c') \<Rightarrow> ((n, bs), c')) s2;
                       s4 = s3\<lparr>cl_mem := mem_store (cl_mem s3) (buf + count) bs\<rparr>;
                       written = count + word_of_int n
                   in (if written > room then room else written, s4))"

section \<open>Text pages\<close>

text \<open>One report after the other; the first that does not fit ends the page.\<close>

definition append_page ::
    "u32 \<Rightarrow> u32 \<Rightarrow> u32 \<Rightarrow> u32 \<Rightarrow> u32 \<Rightarrow> ('w, 'f) rmgmt \<Rightarrow> bool \<times> u32 \<times> ('w, 'f) rmgmt" where
  "append_page dst buf max_len written count s =
     (if max_len < written + count then (False, written, s)
      else (True, written + count, copy_log (dst + written) buf count s))"

definition vmr_verbose_info ::
    "('w, 'f) board \<Rightarrow> cl_msg \<Rightarrow> ('w, 'f) rmgmt \<Rightarrow> (int \<times> cl_msg \<times> ('w, 'f) rmgmt) option" where
  "vmr_verbose_info bd msg s =
     (let safe_size = rh_log_max_size (rm_rh s); buf = rh_log (rm_rh s); dst = dst_addr_of msg;
          max_len = log_size (log_payload msg);
          (count, s1) = rmgmt_rpu_status_query bd buf safe_size s;
          (ok, written, s2) = append_page dst buf max_len 0 count s1
      in if \<not> ok then Some (0, set_log_size written msg, s2)
         else let (count, s3) = rmgmt_apu_status_query bd buf safe_size s2;
                  (ok, written, s4) = append_page dst buf max_len written count s3
              in if \<not> ok then Some (0, set_log_size written msg, s4)
                 else do {
                   (count, msg1, s5) \<leftarrow> rmgmt_fpt_status_query bd msg buf safe_size s4;
                   let (ok, written, s6) = append_page dst buf max_len written count s5
                   in Some (0, set_log_size written msg1, s6)
                 })"

definition vmr_endpoint_info :: "('w, 'f) board \<Rightarrow> cl_msg \<Rightarrow> ('w, 'f) rmgmt \<Rightarrow> int \<times> cl_msg \<times> ('w, 'f) rmgmt" where
  "vmr_endpoint_info bd msg s =
     (let safe_size = rh_log_max_size (rm_rh s); buf = rh_log (rm_rh s);
          (count, s1) = rmgmt_endpoints_query bd buf safe_size s;
          (ok, written, s2) = append_page (dst_addr_of msg) buf (log_size (log_payload msg)) 0 count s1
      in (0, set_log_size written msg, s2))"

section \<open>The health of the card\<close>

definition ARADDR_LO :: u32 where "ARADDR_LO = 0x210"
definition ARADDR_HI :: u32 where "ARADDR_HI = 0x214"
definition AWADDR_LO :: u32 where "AWADDR_LO = 0x218"
definition AWADDR_HI :: u32 where "AWADDR_HI = 0x21c"
definition ARUSER :: u32 where "ARUSER = 0x220"
definition AWUSER :: u32 where "AWUSER = 0x224"
definition SHUTDOWN_LATCHED_STATUS :: u32 where "SHUTDOWN_LATCHED_STATUS = 1"
definition MAX_GAPPING_DEMAND_RATE :: u32 where "MAX_GAPPING_DEMAND_RATE = 128"
definition CONVERT_TO_PERCENTAGE :: u32 where "CONVERT_TO_PERCENTAGE = 100"
definition MAX_CLOCK_SPEED_PERCENTAGE :: u32 where "MAX_CLOCK_SPEED_PERCENTAGE = 100"

definition read_64 :: "('w, 'f) board \<Rightarrow> u32 \<Rightarrow> u32 \<Rightarrow> ('w, 'f) rmgmt \<Rightarrow> u64 \<times> ('w, 'f) rmgmt" where
  "read_64 bd hi lo s =
     (let (h, s1) = reg_read bd hi s; (l, s2) = reg_read bd lo s1 in (push_bit 32 (ucast h) OR ucast l, s2))"

definition READ_ARADDR :: "('w, 'f) board \<Rightarrow> u32 \<Rightarrow> ('w, 'f) rmgmt \<Rightarrow> u64 \<times> ('w, 'f) rmgmt" where
  "READ_ARADDR bd base = read_64 bd (base + ARADDR_HI) (base + ARADDR_LO)"

definition READ_AWADDR :: "('w, 'f) board \<Rightarrow> u32 \<Rightarrow> ('w, 'f) rmgmt \<Rightarrow> u64 \<times> ('w, 'f) rmgmt" where
  "READ_AWADDR bd base = read_64 bd (base + AWADDR_HI) (base + AWADDR_LO)"

text \<open>C leaves the order of the four reads of a message open; it is taken as written.\<close>

definition fault_text :: "('w, 'f) board \<Rightarrow> u32 \<Rightarrow> ('w, 'f) rmgmt \<Rightarrow> u8 list \<times> ('w, 'f) rmgmt" where
  "fault_text bd base s =
     (let (ar, s1) = READ_ARADDR bd base s; (aw, s2) = READ_AWADDR bd base s1;
          (aru, s3) = reg_read bd (base + ARUSER) s2; (awu, s4) = reg_read bd (base + AWUSER) s3
      in (line [ascii ''ARADDR 0x'', fmt_hex (unat ar), ascii '', AWADDR 0x'', fmt_hex (unat aw),
                ascii '', ARUSER 0x'', fmt_hex (unat aru), ascii '', AWUSER 0x'', fmt_hex (unat awu)], s4))"

definition firewall_text :: "u32 \<Rightarrow> u32 \<Rightarrow> u8 list" where
  "firewall_text version base =
     concat [ascii ''Firewall IP Version: '', fmt_dec (sint version), ascii '', EP: 0x'', fmt_hex (unat base), ascii ''. '']"

fun fault_loop :: "('w, 'f) board \<Rightarrow> u32 \<Rightarrow> u32 \<Rightarrow> u32 list \<Rightarrow> u32 \<Rightarrow> ('w, 'f) rmgmt \<Rightarrow> u32 \<times> ('w, 'f) rmgmt" where
  "fault_loop bd buf room [] count s = (count, s)"
| "fault_loop bd buf room (base # bases) count s =
     (let (version, s1) = reg_read bd (base + IP_VERSION) s;
          (count, s2) = log_add buf room (firewall_text version base) count s1
      in if count \<ge> room then (count, s2)
         else if version < IP_VER_11 then fault_loop bd buf room bases count s2
         else let (t, s3) = fault_text bd base s2; (count, s4) = log_add buf room t count s3
              in if count \<ge> room then (count, s4) else fault_loop bd buf room bases count s4)"

text \<open>The room of a report: the buffer, or less when the host asked for less.\<close>

definition page_room :: "cl_msg \<Rightarrow> ('w, 'f) rmgmt \<Rightarrow> u32" where
  "page_room msg s =
     (let safe_size = rh_log_max_size (rm_rh s); asked = log_size (log_payload msg)
      in if asked < safe_size then asked else safe_size)"

definition rmgmt_check_firewall :: "('w, 'f) board \<Rightarrow> cl_msg \<Rightarrow> ('w, 'f) rmgmt \<Rightarrow> u32 \<times> cl_msg \<times> ('w, 'f) rmgmt" where
  "rmgmt_check_firewall bd msg s =
     (let (val, s1) = check_firewall bd s
      in if val = 0 then (val, msg, s1)
         else let room = page_room msg s1; buf = rh_log (rm_rh s1);
                  (count, s2) = log_add buf room
                     (concat [ascii ''AXI Firewall User is tripped, status: 0x'', fmt_hex (unat val), ascii ''. '']) 0 s1;
                  (count, s3) = fault_loop bd buf room (map snd (vmr_afs bd)) count s2;
                  n = min count room
              in (val, set_log_size n msg, copy_log (dst_addr_of msg) buf n s3))"

definition check_clock_shutdown_status :: "('w, 'f) board \<Rightarrow> ('w, 'f) rmgmt \<Rightarrow> u32 \<times> ('w, 'f) rmgmt" where
  "check_clock_shutdown_status bd s =
     (let (st, s1) = reg_read bd (GAPPING_DEMAND bd + VMR_EP_UCS_CHANNEL_2) s in (st AND SHUTDOWN_LATCHED_STATUS, s1))"

definition shutdown_text :: "u32 \<Rightarrow> u8 list" where
  "shutdown_text val =
     line [ascii ''Clock shutdown due to power or temperature value reaching Critical threshold, status: 0x'',
           fmt_hex (unat val)]"

definition rmgmt_log_clock_shutdown :: "('w, 'f) board \<Rightarrow> cl_msg \<Rightarrow> ('w, 'f) rmgmt \<Rightarrow> u32 \<times> cl_msg \<times> ('w, 'f) rmgmt" where
  "rmgmt_log_clock_shutdown bd msg s =
     (let (val, s1) = check_clock_shutdown_status bd s
      in if val = 0 then (val, msg, s1)
         else let room = page_room msg s1; buf = rh_log (rm_rh s1);
                  (count, s2) = log_add buf room (shutdown_text val) 0 s1;
                  s3 = copy_log (dst_addr_of msg) buf room s2
              in (val, set_log_size (if room > count then count else room) msg, s3))"

definition throttling_text :: "u32 \<Rightarrow> u8 list" where
  "throttling_text gapping =
     line [ascii ''kernel clocks throttled at '',
           fmt_base 10 (unat (MAX_CLOCK_SPEED_PERCENTAGE - gapping * CONVERT_TO_PERCENTAGE div MAX_GAPPING_DEMAND_RATE)),
           ascii ''%.'']"

definition rmgmt_log_clock_throttling_percentage ::
    "('w, 'f) board \<Rightarrow> cl_msg \<Rightarrow> ('w, 'f) rmgmt \<Rightarrow> u8 \<times> cl_msg \<times> ('w, 'f) rmgmt" where
  "rmgmt_log_clock_throttling_percentage bd msg s =
     (if vmc_throttled (b_vmc bd) (cl_world s) = 0 then (0, set_log_size 0 msg, s)
      else let (ep, s1) = reg_read bd (GAPPING_DEMAND bd) s;
               gapping = min (ep AND 0xFF) MAX_GAPPING_DEMAND_RATE;
               room = page_room msg s1; buf = rh_log (rm_rh s1);
               (count, s2) = log_add buf room (throttling_text gapping) 0 s1
           in (0, set_log_size (min count room) msg, copy_log (dst_addr_of msg) buf room s2))"

definition rmgmt_healthy_check :: "('w, 'f) board \<Rightarrow> cl_msg \<Rightarrow> ('w, 'f) rmgmt \<Rightarrow> int \<times> cl_msg \<times> ('w, 'f) rmgmt" where
  "rmgmt_healthy_check bd msg s =
     (let (val, msg1, s1) = rmgmt_log_clock_shutdown bd msg s
      in if val \<noteq> 0 then (sint val, msg1, s1)
         else let (val, msg2, s2) = rmgmt_check_firewall bd msg1 s1
              in if val \<noteq> 0 then (sint val, msg2, s2)
                 else let (ret, msg3, s3) = rmgmt_log_clock_throttling_percentage bd msg2 s2 in (uint ret, msg3, s3))"

end
