(* ===== verification/Rmgmt_Main.thy ===== *)
theory Rmgmt_Main
  imports Rmgmt_Report
begin

text \<open>The rest of \<open>rmgmt/rmgmt_main.c\<close>: the checks of a request, programming, the log pages that copy
  data, the dispatch of log pages and of control requests, and the start of the component.\<close>

section \<open>Checks of a request\<close>

definition validate_data_payload :: "xgq_vmr_data_payload \<Rightarrow> ('w, 'f) rmgmt \<Rightarrow> int" where
  "validate_data_payload payload s =
     (let address = RPU_SHARED_MEMORY_ADDR (data_address payload); len = data_size payload
      in if address AND 3 \<noteq> 0 then - EINVAL
         else if address + len \<ge> VMR_EP_RPU_SHARED_MEMORY_END then - EINVAL
         else if len > rh_data_max_size (rm_rh s) then - EINVAL
         else 0)"

definition validate_log_payload :: "xgq_vmr_log_payload \<Rightarrow> u32 \<Rightarrow> int" where
  "validate_log_payload payload len =
     (if RPU_SHARED_MEMORY_ADDR (log_address payload) \<ge> VMR_EP_RPU_SHARED_MEMORY_END then - EINVAL
      else if log_pid payload \<ge> cl_log_num CL_LOG_MAX_TYPE then - EINVAL
      else if log_size payload < len then - EINVAL
      else 0)"

section \<open>Programming\<close>

datatype pdi_type = BASE_PDI | APU_PDI | PL_XCLBIN | VMR_PDI

definition rmgmt_download_vmr :: "('w, 'f) board \<Rightarrow> ('w, 'f) rmgmt \<Rightarrow> (int \<times> ('w, 'f) rmgmt) option" where
  "rmgmt_download_vmr bd s =
     (let (r, s1) = on_world (rmgmt_ipi_image_store (b_ipi bd) (rh_data_base (rm_rh s)) (rh_data_size (rm_rh s))) s
      in rmgmt_pm_reset_rpu bd s1)"

text \<open>The handler keeps a pointer to the private data of the message; its value does not change while
  the message is served.\<close>

definition take_request :: "xgq_vmr_data_payload \<Rightarrow> ('w, 'f) rmgmt \<Rightarrow> ('w, 'f) rmgmt" where
  "take_request payload =
     set_rh (\<lambda>r. r\<lparr>rh_data_size := data_size payload, rh_data_priv := Some (data_priv payload),
                   rh_data_base := RPU_SHARED_MEMORY_ADDR (data_address payload)\<rparr>)"

definition rmgmt_download_pdi ::
    "('w, 'f) board \<Rightarrow> pdi_type \<Rightarrow> cl_msg \<Rightarrow> ('w, 'f) rmgmt \<Rightarrow> (int \<times> cl_msg \<times> ('w, 'f) rmgmt) option" where
  "rmgmt_download_pdi bd ptype msg s =
     (let ret = validate_data_payload (data_payload msg) s
      in if ret \<noteq> 0 then Some (ret, msg, s)
         else if data_remain_size (data_payload msg) \<noteq> 0 then Some (- EINVAL, msg, s)
         else let s1 = take_request (data_payload msg) s; with_msg = map_option (\<lambda>(ret, s2). (ret, msg, s2))
              in case ptype of
                   BASE_PDI \<Rightarrow> rmgmt_flash_rpu_pdi bd msg s1
                 | APU_PDI \<Rightarrow> with_msg (Some (rmgmt_download_apu_pdi bd s1))
                 | PL_XCLBIN \<Rightarrow> with_msg (rmgmt_download_xclbin bd s1)
                 | VMR_PDI \<Rightarrow> with_msg (rmgmt_download_vmr bd s1))"

definition cl_rmgmt_program_base_pdi ::
    "('w, 'f) board \<Rightarrow> cl_msg \<Rightarrow> ('w, 'f) rmgmt \<Rightarrow> (int \<times> cl_msg \<times> ('w, 'f) rmgmt) option" where
  "cl_rmgmt_program_base_pdi bd = rmgmt_download_pdi bd BASE_PDI"

definition cl_rmgmt_program_apu_pdi ::
    "('w, 'f) board \<Rightarrow> cl_msg \<Rightarrow> ('w, 'f) rmgmt \<Rightarrow> (int \<times> cl_msg \<times> ('w, 'f) rmgmt) option" where
  "cl_rmgmt_program_apu_pdi bd = rmgmt_download_pdi bd APU_PDI"

definition cl_rmgmt_program_xclbin ::
    "('w, 'f) board \<Rightarrow> cl_msg \<Rightarrow> ('w, 'f) rmgmt \<Rightarrow> (int \<times> cl_msg \<times> ('w, 'f) rmgmt) option" where
  "cl_rmgmt_program_xclbin bd = rmgmt_download_pdi bd PL_XCLBIN"

definition cl_rmgmt_program_vmr ::
    "('w, 'f) board \<Rightarrow> cl_msg \<Rightarrow> ('w, 'f) rmgmt \<Rightarrow> (int \<times> cl_msg \<times> ('w, 'f) rmgmt) option" where
  "cl_rmgmt_program_vmr bd = rmgmt_download_pdi bd VMR_PDI"

section \<open>Log pages of data\<close>

definition copy_to_host :: "cl_msg \<Rightarrow> u32 \<Rightarrow> u32 \<Rightarrow> ('w, 'f) rmgmt \<Rightarrow> ('w, 'f) rmgmt" where
  "copy_to_host msg src len s = s\<lparr>cl_mem := snd (cl_memcpy (dst_addr_of msg) src (unat len) (cl_mem s))\<rparr>"

definition rmgmt_load_firmware :: "('w, 'f) board \<Rightarrow> cl_msg \<Rightarrow> ('w, 'f) rmgmt \<Rightarrow> int \<times> cl_msg \<times> ('w, 'f) rmgmt" where
  "rmgmt_load_firmware bd msg s =
     (case rmgmt_fpt_get_xsabin (PRELOAD_FPT bd) (cl_mem s) msg of
        (Inl e, msg1) \<Rightarrow> (-1, msg1, s)
      | (Inr (fw_offset, fw_size), msg1) \<Rightarrow>
          let ret = validate_log_payload (log_payload msg1) fw_size
          in if ret \<noteq> 0 then (ret, msg1, s)
             else (0, set_log_size fw_size msg1, copy_to_host msg1 fw_offset fw_size s))"

definition rmgmt_load_system_dtb :: "('w, 'f) board \<Rightarrow> cl_msg \<Rightarrow> ('w, 'f) rmgmt \<Rightarrow> int \<times> cl_msg \<times> ('w, 'f) rmgmt" where
  "rmgmt_load_system_dtb bd msg s =
     (case rmgmt_fpt_get_systemdtb (PRELOAD_FPT bd) (cl_mem s) msg of
        (Inl e, msg1) \<Rightarrow> (-1, msg1, s)
      | (Inr (fw_offset, fw_size), msg1) \<Rightarrow>
          let ret = validate_log_payload (log_payload msg1) fw_size
          in if ret \<noteq> 0 then (ret, msg1, s)
             else (0, set_log_size fw_size msg1, copy_to_host msg1 fw_offset fw_size s))"

definition store_bytes :: "u32 \<Rightarrow> u8 list \<Rightarrow> ('w, 'f) rmgmt \<Rightarrow> ('w, 'f) rmgmt" where
  "store_bytes a bs s = s\<lparr>cl_mem := mem_store (cl_mem s) a bs\<rparr>"

definition free_buffer :: "('w, 'f) board \<Rightarrow> u32 \<Rightarrow> ('w, 'f) rmgmt \<Rightarrow> ('w, 'f) rmgmt" where
  "free_buffer bd buf s = s\<lparr>cl_world := b_free bd buf (cl_world s)\<rparr>"

definition rmgmt_load_fpt ::
    "('w, 'f) board \<Rightarrow> fpt_type \<Rightarrow> cl_msg \<Rightarrow> ('w, 'f) rmgmt \<Rightarrow> (int \<times> cl_msg \<times> ('w, 'f) rmgmt) option" where
  "rmgmt_load_fpt bd ty msg s =
     (let (buf, s1) = on_world (b_malloc bd FW_COPY_SIZE_64_KB) s
      in if buf = 0 then Some (- ENOMEM, msg, s1)
         else let s2 = store_bytes buf (replicate (unat FW_COPY_SIZE_64_KB) 0) s1
              in if ty = FPT_MAX_TYPES then Some (- EINVAL, msg, free_buffer bd buf s2)
                 else do {
                   (ret, bs, s3) \<leftarrow> rmgmt_fpt_get_data bd ty s2;
                   let s4 = store_bytes buf bs s3
                   in if ret \<noteq> 0 then Some (- EINVAL, msg, free_buffer bd buf s4)
                      else let ret = validate_log_payload (log_payload msg) FW_COPY_SIZE_64_KB
                           in if ret \<noteq> 0 then Some (ret, msg, free_buffer bd buf s4)
                              else Some (0, set_log_size FW_COPY_SIZE_64_KB msg,
                                     free_buffer bd buf (copy_to_host msg buf FW_COPY_SIZE_64_KB s4))
                 })"

text \<open>The UUID is copied from a buffer on the stack.\<close>

definition rmgmt_load_shell_interface_uuid ::
    "('w, 'f) board \<Rightarrow> cl_msg \<Rightarrow> ('w, 'f) rmgmt \<Rightarrow> (int \<times> cl_msg \<times> ('w, 'f) rmgmt) option" where
  "rmgmt_load_shell_interface_uuid bd msg s =
     (case rmgmt_fpt_get_xsabin (PRELOAD_FPT bd) (cl_mem s) msg of
        (Inl e, msg1) \<Rightarrow> Some (- EINVAL, msg1, s)
      | (Inr (fw_offset, fw_size), msg1) \<Rightarrow>
          let ret = validate_log_payload (log_payload msg1) fw_size
          in if ret \<noteq> 0 then Some (ret, msg1, s)
             else map_option (\<lambda>r. case r of
                      Inl ret \<Rightarrow> (ret, msg1, s)
                    | Inr uuid \<Rightarrow> (0, set_log_size UUID_BYTES_LEN msg1, store_bytes (dst_addr_of msg1) uuid s))
                  (rmgmt_fdt_get_uuids fw_offset UUID_BYTES_LEN (cl_mem s)))"

definition VMR_PLM_DATA_START_ADDRESS :: u32 where "VMR_PLM_DATA_START_ADDRESS = 0xF2019000"
definition VMR_PLM_DATA_TOTAL_SIZE :: u32 where "VMR_PLM_DATA_TOTAL_SIZE = 4096 * 4"

definition rmgmt_sync_plm_data :: "cl_msg \<Rightarrow> ('w, 'f) rmgmt \<Rightarrow> int \<times> cl_msg \<times> ('w, 'f) rmgmt" where
  "rmgmt_sync_plm_data msg s =
     (let ret = validate_log_payload (log_payload msg) VMR_PLM_DATA_TOTAL_SIZE
      in if ret \<noteq> 0 then (ret, msg, s)
         else let len = min (log_size (log_payload msg)) VMR_PLM_DATA_TOTAL_SIZE
              in (0, set_log_size len msg, copy_to_host msg VMR_PLM_DATA_START_ADDRESS len s))"

definition rmgmt_load_apu_log :: "('w, 'f) board \<Rightarrow> cl_msg \<Rightarrow> ('w, 'f) rmgmt \<Rightarrow> int \<times> cl_msg \<times> ('w, 'f) rmgmt" where
  "rmgmt_load_apu_log bd msg s =
     (let p = log_payload msg; ret = validate_log_payload p (log_size p)
      in if ret \<noteq> 0 then (ret, msg, s)
         else let ((n, bs), s1) = on_client (\<lambda>c. case rmgmt_apu_log (world.truncate bd) (log_offset p) (log_size p) c of
                                    (n, bs, c') \<Rightarrow> ((n, bs), c')) s
              in (0, set_log_size (word_of_int n) msg, store_bytes (dst_addr_of msg) bs s1))"

section \<open>Statistics of the kernel\<close>

fun eTaskStateName :: "eTaskState \<Rightarrow> string" where
  "eTaskStateName eRunning = ''Running''"
| "eTaskStateName eReady = ''Ready''"
| "eTaskStateName eBlocked = ''Blocked''"
| "eTaskStateName eSuspended = ''Suspended''"
| "eTaskStateName eDeleted = ''Deleted''"
| "eTaskStateName eInvalid = ''Invalid''"

definition stats_header :: "u8 list" where
  "stats_header = line [ascii ''Name'', tab, tab, ascii ''State'', tab, ascii ''Priority'', tab, ascii ''Stack'', tab,
     ascii ''Base'', tab, tab, ascii ''Run Time'']"

definition task_text :: "u32 \<Rightarrow> task_status \<Rightarrow> u8 list" where
  "task_text runtime t =
     (let percentage = (if runtime > 0 then ulRunTimeCounter t div runtime else 0)
      in line [fmt_pad 16 (fmt_str (pcTaskName t)), fmt_pad 12 (ascii (eTaskStateName (eCurrentState t))),
               fmt_pad 4 (fmt_dec (sint (uxBasePriority t))), tab, fmt_dec (sint (usStackHighWaterMark t)), tab,
               ascii ''0x'', fmt_hex (unat (pxStackBase t)), tab,
               if percentage > 0 then fmt_base 10 (unat percentage) @ ascii ''%'' else ascii ''<1%''])"

fun task_loop ::
    "u32 \<Rightarrow> u32 \<Rightarrow> u32 \<Rightarrow> task_status list \<Rightarrow> u32 \<Rightarrow> ('w, 'f) rmgmt \<Rightarrow> u32 \<times> ('w, 'f) rmgmt" where
  "task_loop buf room runtime [] count s = (count, s)"
| "task_loop buf room runtime (t # ts) count s =
     (let (count, s1) = log_add buf room (task_text runtime t) count s
      in if count \<ge> room then (count, s1) else task_loop buf room runtime ts count s1)"

definition vmr_rtos_task_stats :: "('w, 'f) board \<Rightarrow> cl_msg \<Rightarrow> ('w, 'f) rmgmt \<Rightarrow> int \<times> cl_msg \<times> ('w, 'f) rmgmt" where
  "vmr_rtos_task_stats bd msg s =
     (let room = rh_log_max_size (rm_rh s); buf = rh_log (rm_rh s); n = b_task_count bd (cl_world s);
          (arr, s1) = on_world (b_malloc bd (n * SIZEOF_TASK_STATUS bd)) s
      in if arr = 0 then (- ENOMEM, msg, s1)
         else let (count, s2) = log_add buf room stats_header 0 s1;
                  (tasks, runtime) = b_task_stats bd n (cl_world s2);
                  (count, s3) = task_loop buf room (runtime div 100) tasks count s2;
                  len = min count room
              in (0, set_log_size len msg, copy_log (dst_addr_of msg) buf len (free_buffer bd arr s3)))"

definition heap_text :: "u32 list \<Rightarrow> u8 list" where
  "heap_text hp = concat (map (\<lambda>(name, v). line [ascii name, ascii '': '', fmt_dec (sint v)]) (zip
     [''Available heap size'', ''Max size of free blocks in bytes'', ''Min size of free blocks in bytes'',
      ''Num of free blocks'', ''Min amount of free blocks since system booted'',
      ''Num of successful pvPortMalloc'', ''Num of successful pvPortFree''] hp))"

definition vmr_rtos_mem_stats :: "('w, 'f) board \<Rightarrow> cl_msg \<Rightarrow> ('w, 'f) rmgmt \<Rightarrow> int \<times> cl_msg \<times> ('w, 'f) rmgmt" where
  "vmr_rtos_mem_stats bd msg s =
     (let room = rh_log_max_size (rm_rh s); buf = rh_log (rm_rh s);
          (count, s1) = log_add buf room (heap_text (b_heap_stats bd (cl_world s))) 0 s;
          len = min count room
      in (0, set_log_size len msg, copy_log (dst_addr_of msg) buf len s1))"

section \<open>Requests\<close>

definition cl_rmgmt_log_page ::
    "('w, 'f) board \<Rightarrow> cl_msg \<Rightarrow> ('w, 'f) rmgmt \<Rightarrow> (int \<times> cl_msg \<times> ('w, 'f) rmgmt) option" where
  "cl_rmgmt_log_page bd msg s =
     (let pid = log_pid (log_payload msg)
      in if pid = cl_log_num CL_LOG_AF_CHECK then Some (rmgmt_healthy_check bd msg s)
         else if pid = cl_log_num CL_LOG_AF_CLEAR
         then let (ret, s1) = rmgmt_clear_firewall bd s in Some (ret, msg, s1)
         else if pid = cl_log_num CL_LOG_FW then Some (rmgmt_load_firmware bd msg s)
         else if pid = cl_log_num CL_LOG_INFO then vmr_verbose_info bd msg s
         else if pid = cl_log_num CL_LOG_ENDPOINT then Some (vmr_endpoint_info bd msg s)
         else if pid = cl_log_num CL_LOG_TASK_STATS then Some (vmr_rtos_task_stats bd msg s)
         else if pid = cl_log_num CL_LOG_MEM_STATS then Some (vmr_rtos_mem_stats bd msg s)
         else if pid = cl_log_num CL_LOG_SYSTEM_DTB then Some (rmgmt_load_system_dtb bd msg s)
         else if pid = cl_log_num CL_LOG_PLM_LOG then Some (rmgmt_sync_plm_data msg s)
         else if pid = cl_log_num CL_LOG_APU_LOG then Some (rmgmt_load_apu_log bd msg s)
         else if pid = cl_log_num CL_LOG_SHELL_INTERFACE_UUID then rmgmt_load_shell_interface_uuid bd msg s
         else if pid = cl_log_num CL_LOG_DEFAULT_FPT then rmgmt_load_fpt bd FPT_TYPE_DEFAULT msg s
         else if pid = cl_log_num CL_LOG_BACKUP_FPT then rmgmt_load_fpt bd FPT_TYPE_BACKUP msg s
         else Some (- EINVAL, msg, s))"

definition cl_rmgmt_fpt_query ::
    "('w, 'f) board \<Rightarrow> cl_msg \<Rightarrow> ('w, 'f) rmgmt \<Rightarrow> (int \<times> cl_msg \<times> ('w, 'f) rmgmt) option" where
  "cl_rmgmt_fpt_query bd msg s = map_option (\<lambda>(msg1, s1). (0, msg1, s1)) (rmgmt_fpt_query bd msg s)"

definition rmgmt_fpt_debug ::
    "('w, 'f) board \<Rightarrow> cl_msg \<Rightarrow> ('w, 'f) rmgmt \<Rightarrow> (int \<times> cl_msg \<times> ('w, 'f) rmgmt) option" where
  "rmgmt_fpt_debug bd msg s = rmgmt_fpt_set_debug_type bd msg s"

definition rmgmt_program_sc :: "cl_msg \<Rightarrow> ('w, 'f) rmgmt \<Rightarrow> (int \<times> cl_msg \<times> ('w, 'f) rmgmt) option" where
  "rmgmt_program_sc msg s = Some (0, msg, s)"

definition rmgmt_boot_on_offset :: "('w, 'f) rmgmt \<Rightarrow> u32" where
  "rmgmt_boot_on_offset s = rh_boot_on_offset (rm_rh s)"

definition xgq_vmr_op_table ::
    "('w, 'f) board \<Rightarrow> (cl_vmr_control_type \<times> (cl_msg \<Rightarrow> ('w, 'f) rmgmt \<Rightarrow> (int \<times> cl_msg \<times> ('w, 'f) rmgmt) option)) list" where
  "xgq_vmr_op_table bd =
    [(CL_MULTIBOOT_DEFAULT, rmgmt_enable_boot_default bd),
     (CL_MULTIBOOT_BACKUP, rmgmt_enable_boot_backup bd),
     (CL_VMR_QUERY, cl_rmgmt_fpt_query bd),
     (CL_VMR_DEBUG, rmgmt_fpt_debug bd),
     (CL_PROGRAM_SC, rmgmt_program_sc),
     (CL_VMR_EEMI_SRST, rmgmt_eemi_pm_reset bd)]"

definition cl_rmgmt_vmr_control ::
    "('w, 'f) board \<Rightarrow> cl_msg \<Rightarrow> ('w, 'f) rmgmt \<Rightarrow> (int \<times> cl_msg \<times> ('w, 'f) rmgmt) option" where
  "cl_rmgmt_vmr_control bd msg s =
     (case find (\<lambda>(t, f). cl_vmr_control_num t = mb_req_type (multiboot_payload msg)) (xgq_vmr_op_table bd) of
        Some (t, op_handle) \<Rightarrow> op_handle msg s
      | None \<Rightarrow> Some (- EINVAL, msg, s))"

definition rmgmt_is_ready :: "('w, 'f) rmgmt \<Rightarrow> bool" where
  "rmgmt_is_ready s = rmgmt_is_ready_flag s"

section \<open>Start\<close>

definition cl_rmgmt_init :: "('w, 'f) board \<Rightarrow> ('w, 'f) rmgmt \<Rightarrow> (int \<times> ('w, 'f) rmgmt) option" where
  "cl_rmgmt_init bd s = do {
     (ret, s1) \<leftarrow> flash_do (fl_init (b_flash bd)) s;
     if ret \<noteq> XST_SUCCESS then Some (- EIO, s1)
     else let (ret, s2) = rmgmt_init_handler bd s1
          in if ret \<noteq> 0 then Some (- ENOMEM, s2)
             else let (ret, s3) = rmgmt_pm_init bd s2
                  in if ret \<noteq> 0 then Some (- ENODEV, s3)
                     else let s4 = snd (rmgmt_clear_firewall bd s3);
                              (off, s5) = reg_read bd VMR_EP_PLM_MULTIBOOT s4;
                              s6 = set_rh (\<lambda>r. r\<lparr>rh_boot_on_offset := off\<rparr>) s5
                          in do {
                            (ret, msg, s7) \<leftarrow> rmgmt_enable_boot_default bd cl_msg_zero s6;
                            let s8 = (case fst (rmgmt_fpt_get_systemdtb (PRELOAD_FPT bd) (cl_mem s7) msg) of
                                        Inl e \<Rightarrow> s7 | Inr (off, len) \<Rightarrow> copy_dtb off len s7)
                            in Some (0, s8\<lparr>rmgmt_is_ready_flag := True\<rparr>)
                          }
   }"

end
