(* ===== verification/Rmgmt_Report_Props.thy ===== *)
theory Rmgmt_Report_Props
  imports Rmgmt_Main Rmgmt_Fpt_Props
begin

text \<open>What a log page writes: the bytes of a report, the buffer it is built in and the window of the
  host, and nothing else.\<close>

section \<open>Ranges\<close>

definition within :: "u32 \<Rightarrow> nat \<Rightarrow> u32 \<Rightarrow> bool" where
  "within a n x \<longleftrightarrow> unat (x - a) < n"

definition kept_off :: "(u32 \<Rightarrow> bool) \<Rightarrow> mem \<Rightarrow> mem \<Rightarrow> bool" where
  "kept_off P m m' \<longleftrightarrow> (\<forall>x. \<not> P x \<longrightarrow> m' x = m x)"

lemma kept_off_refl [simp]: "kept_off P m m"
  by (simp add: kept_off_def)

lemma kept_off_trans: "kept_off P m m1 \<Longrightarrow> kept_off P m1 m2 \<Longrightarrow> kept_off P m m2"
  by (simp add: kept_off_def)

lemma kept_off_mono: "kept_off P m m' \<Longrightarrow> (\<And>x. P x \<Longrightarrow> Q x) \<Longrightarrow> kept_off Q m m'"
  by (auto simp: kept_off_def)

lemma kept_off_store: "length bs \<le> n \<Longrightarrow> kept_off (within a n) m (mem_store m a bs)"
  by (auto simp: kept_off_def within_def mem_store_def)

lemma within_mono: "within a n x \<Longrightarrow> n \<le> k \<Longrightarrow> within a k x"
  by (simp add: within_def)

lemma within_offset: "within (a + of_nat i) n x \<Longrightarrow> i + n \<le> k \<Longrightarrow> k \<le> 2 ^ 32 \<Longrightarrow> within a k x"
proof -
  assume w: "within (a + of_nat i) n x" "i + n \<le> k" "k \<le> 2 ^ 32"
  then have "n \<noteq> 0" by (auto simp: within_def)
  then have i: "i < 2 ^ 32" using w by simp
  have e: "unat (x - a) < 2 ^ 32" using unat_u32_less [of "x - a"] by simp
  show ?thesis using w e unat_diff_add [OF i, of x a] by (auto simp: within_def split: if_splits)
qed

lemma memcpy_loop_outside: "n \<le> 2 ^ 32 \<Longrightarrow> kept_off (within dst n) m (memcpy_loop dst src n m)"
proof (induct n arbitrary: dst src m)
  case (Suc n)
  have 1: "kept_off (within dst (Suc n)) m (IO_SYNC_WRITE8 (IO_SYNC_READ8 src m) dst m)"
    by (auto simp: kept_off_def within_def IO_SYNC_WRITE8_def)
  have 2: "kept_off (within dst (Suc n)) m1 (memcpy_loop (dst + 1) (src + 1) n m1)" for m1
    using within_offset [of dst 1 n _ "Suc n"] Suc.prems
    by (intro kept_off_mono [OF Suc.hyps]) simp_all
  show ?case using kept_off_trans [OF 1 2] by simp
qed simp

section \<open>Lengths of the texts\<close>

lemma length_fmt_base: "2 \<le> b \<Longrightarrow> 0 < k \<Longrightarrow> n < b ^ k \<Longrightarrow> length (fmt_base b n) \<le> k"
proof (induct k arbitrary: n)
  case (Suc k)
  show ?case
  proof (cases "n < b")
    case False
    have "n div b < b ^ k" using Suc.prems by (simp add: div_less_iff_less_mult mult.commute)
    moreover have "0 < k" using False Suc.prems(3) by (cases k) auto
    ultimately have "length (fmt_base b (n div b)) \<le> k" using Suc.hyps Suc.prems(1) by simp
    then show ?thesis by (subst fmt_base.simps) simp
  qed (subst fmt_base.simps, simp)
qed simp

lemma length_fmt_hex32: "length (fmt_hex (unat (w :: u32))) \<le> 8"
  unfolding fmt_hex_def using unat_u32_less [of w] by (intro length_fmt_base) simp_all

lemma length_fmt_hex64: "length (fmt_hex (unat (w :: u64))) \<le> 16"
  unfolding fmt_hex_def using unsigned_less [where ?'a = nat, of w] by (intro length_fmt_base) simp_all

lemma length_fmt_dec32: "length (fmt_dec (sint (w :: u32))) \<le> 11"
proof -
  have r: "- (2 ^ 31) \<le> sint w" "sint w < 2 ^ 31" using sint_greater_eq [of w] sint_less [of w] by simp_all
  have "length (fmt_base 10 n) \<le> 10" if "n \<le> 2 ^ 31" for n
    using that by (intro length_fmt_base) simp_all
  moreover have "nat (sint w) \<le> 2 ^ 31" "nat (- sint w) \<le> 2 ^ 31" using r by simp_all
  ultimately have "length (fmt_base 10 (nat (sint w))) \<le> 10" "length (fmt_base 10 (nat (- sint w))) \<le> 10"
    by blast+
  then show ?thesis by (simp add: fmt_dec_def ascii_def)
qed

lemma length_hex_line: "length (hex_line name v) \<le> length name + 13"
  using length_fmt_hex32 [of v] by (simp add: hex_line_def line_def newline_def ascii_def)

section \<open>The log buffer\<close>

lemma snprintf_outside:
  "kept_off (within buf (min (unat room) (Suc (length t)))) m (snd (snprintf buf room t m))"
proof (cases "room = 0")
  case False
  then have "unat room \<noteq> 0" by (simp add: unat_eq_0)
  then show ?thesis using False by (simp add: snprintf_def kept_off_store)
qed (simp add: snprintf_def)

lemma log_add_cases:
  "log_add buf room t count s = (count + of_nat (length t), s\<lparr>cl_mem := snd (snprintf (buf + count) (room - count) t (cl_mem s))\<rparr>)"
  by (simp add: log_add_def snprintf_def)

text \<open>A text that fits is stored whole, behind what the buffer holds.\<close>

lemma log_add_fits:
  assumes "unat count + length t < unat room"
  shows "\<exists>m. log_add buf room t count s = (count + of_nat (length t), s\<lparr>cl_mem := m\<rparr>)
    \<and> unat (count + of_nat (length t)) = unat count + length t
    \<and> mem_load m buf (unat count + length t) = mem_load (cl_mem s) buf (unat count) @ t
    \<and> kept_off (within buf (unat room)) (cl_mem s) m"
proof -
  define m where "m = snd (snprintf (buf + count) (room - count) t (cl_mem s))"
  have big: "unat room < 2 ^ 32" using unat_u32_less [of room] by simp
  have cr: "unat (room - count) = unat room - unat count"
    using assms by (simp add: unat_sub word_le_nat_alt)
  then have m: "m = mem_store (cl_mem s) (buf + count) (t @ [0])"
    using assms by (auto simp: m_def snprintf_def unat_eq_0 [symmetric])
  have u: "unat (count + of_nat (length t)) = unat count + length t"
    using assms big by (intro unat_add_of_nat) simp
  have "disjoint_ranges (buf + of_nat (unat count)) (length (t @ [0])) (buf + of_nat 0) (unat count)"
    using assms big by (intro disjoint_ranges_offsets) simp
  then have "mem_load m buf (unat count) = mem_load (cl_mem s) buf (unat count)"
    unfolding m by (intro mem_load_store_disjoint) simp
  moreover have "mem_load m (buf + count) (length (t @ [0])) = t @ [0]"
    unfolding m using assms big by (intro mem_load_store_same) simp
  then have "mem_load m (buf + count) (length t) = t"
    using mem_load_append [of m "buf + count" "length t" 1] by simp
  ultimately have "mem_load m buf (unat count + length t) = mem_load (cl_mem s) buf (unat count) @ t"
    using mem_load_append [of m buf "unat count" "length t"] by simp
  moreover have "kept_off (within buf (unat room)) (cl_mem s) m"
  proof (rule kept_off_mono)
    show "kept_off (within (buf + of_nat (unat count)) (Suc (length t))) (cl_mem s) m"
      unfolding m by (simp add: kept_off_store)
    show "within buf (unat room) x" if "within (buf + of_nat (unat count)) (Suc (length t)) x" for x
      using that assms big by (intro within_offset [of buf "unat count" "Suc (length t)" x]) simp_all
  qed
  ultimately show ?thesis using u by (auto simp: log_add_cases m_def)
qed

lemma log_texts_fit:
  "unat count + length (concat ts) < unat room \<Longrightarrow>
   \<exists>m count'. log_texts buf room ts count s = (True, count', s\<lparr>cl_mem := m\<rparr>)
    \<and> unat count' = unat count + length (concat ts)
    \<and> mem_load m buf (unat count') = mem_load (cl_mem s) buf (unat count) @ concat ts
    \<and> kept_off (within buf (unat room)) (cl_mem s) m"
proof (induct ts arbitrary: count s)
  case Nil
  then show ?case by (intro exI [of _ "cl_mem s"] exI [of _ count]) simp
next
  case (Cons t ts)
  have "unat count + length t < unat room" using Cons.prems by simp
  from log_add_fits [OF this, of buf s] obtain m where m:
    "log_add buf room t count s = (count + of_nat (length t), s\<lparr>cl_mem := m\<rparr>)"
    "unat (count + of_nat (length t)) = unat count + length t"
    "mem_load m buf (unat count + length t) = mem_load (cl_mem s) buf (unat count) @ t"
    "kept_off (within buf (unat room)) (cl_mem s) m" by auto
  have "unat (count + of_nat (length t)) + length (concat ts) < unat room" using Cons.prems m(2) by simp
  from Cons.hyps [OF this, of "s\<lparr>cl_mem := m\<rparr>"] obtain m' count' where m':
    "log_texts buf room ts (count + of_nat (length t)) (s\<lparr>cl_mem := m\<rparr>) = (True, count', s\<lparr>cl_mem := m'\<rparr>)"
    "unat count' = unat count + length t + length (concat ts)"
    "mem_load m' buf (unat count') = mem_load m buf (unat count + length t) @ concat ts"
    "kept_off (within buf (unat room)) m m'"
    using m(2) by auto
  have "\<not> room < count + of_nat (length t)" using Cons.prems m(2) by (simp add: word_less_nat_alt)
  then have "log_texts buf room (t # ts) count s = (True, count', s\<lparr>cl_mem := m'\<rparr>)"
    using m(1) m'(1) by simp
  then show ?case using m m' kept_off_trans [OF m(4) m'(4)] by (intro exI [of _ m'] exI [of _ count']) simp
qed

lemma copy_log_spec:
  "cl_mem (copy_log dst buf n s) = mem_store (cl_mem s) dst (mem_load (cl_mem s) buf (unat n))"
  using unat_u32_less [of n] by (simp add: copy_log_def cl_memcpy_toio_store)

section \<open>The page of the endpoints\<close>

definition endpoint_text :: "('w, 'f) board \<Rightarrow> u8 list" where
  "endpoint_text bd = concat (map (\<lambda>(name, a). hex_line name a) (vmr_eps bd))"

lemma endpoint_text_short: "length (endpoint_text bd) \<le> 1100"
proof -
  have b: "length (concat (map (\<lambda>(name, a). hex_line name a) es)) \<le> sum_list (map (\<lambda>(name, a). length name + 13) es)" for es
  proof (induct es)
    case (Cons e es)
    then show ?case using length_hex_line [of "fst e" "snd e"] by (cases e) simp
  qed simp
  have "sum_list (map (\<lambda>(name, a). length name + 13) (vmr_eps bd)) \<le> 1100"
    by (simp add: vmr_eps_def split: option.split)
  then show ?thesis using b [of "vmr_eps bd"] by (simp add: endpoint_text_def)
qed

lemma vmr_endpoint_info_spec:
  assumes "rh_log_max_size (rm_rh s) = LOG_MSG_SIZE" "t = endpoint_text bd" "buf = rh_log (rm_rh s)"
  shows "\<exists>m. vmr_endpoint_info bd msg s =
      (if length t \<le> unat (log_size (log_payload msg))
       then (0, set_log_size (of_nat (length t)) msg, copy_log (dst_addr_of msg) buf (of_nat (length t)) (s\<lparr>cl_mem := m\<rparr>))
       else (0, set_log_size 0 msg, s\<lparr>cl_mem := m\<rparr>))
    \<and> mem_load m buf (length t) = t \<and> kept_off (within buf 4096) (cl_mem s) m"
proof -
  let ?ts = "map (\<lambda>(name, a). hex_line name a) (vmr_eps bd)"
  have l: "length t \<le> 1100" unfolding assms(2) by (rule endpoint_text_short)
  have room: "unat LOG_MSG_SIZE = 4096" by (simp add: LOG_MSG_SIZE_def)
  have "unat (0 :: u32) + length (concat ?ts) < unat LOG_MSG_SIZE" using l room by (simp add: assms(2) endpoint_text_def)
  from log_texts_fit [OF this, of buf s] obtain m count where m:
    "log_texts buf LOG_MSG_SIZE ?ts 0 s = (True, count, s\<lparr>cl_mem := m\<rparr>)" "unat count = length t"
    "mem_load m buf (length t) = t" "kept_off (within buf 4096) (cl_mem s) m"
    using room by (auto simp: assms(2) endpoint_text_def mem_load_def)
  have count: "count = of_nat (length t)" by (simp flip: m(2))
  have fits: "log_size (log_payload msg) < count \<longleftrightarrow> \<not> length t \<le> unat (log_size (log_payload msg))"
    using m(2) by (simp add: word_less_nat_alt not_le)
  have "vmr_endpoint_info bd msg s =
    (if length t \<le> unat (log_size (log_payload msg))
     then (0, set_log_size count msg, copy_log (dst_addr_of msg) buf count (s\<lparr>cl_mem := m\<rparr>))
     else (0, set_log_size 0 msg, s\<lparr>cl_mem := m\<rparr>))"
    using m(1) assms(3) by (simp add: vmr_endpoint_info_def assms(1) rmgmt_endpoints_query_def append_page_def fits Let_def)
  then show ?thesis using m(3,4) count by auto
qed

lemma cl_rmgmt_log_page_endpoint:
  "log_pid (log_payload msg) = cl_log_num CL_LOG_ENDPOINT \<Longrightarrow>
   cl_rmgmt_log_page bd msg s = Some (vmr_endpoint_info bd msg s)"
  by (simp add: cl_rmgmt_log_page_def)

text \<open>C28: The page of the endpoints is complete: when the host's window has room for the list of all
  endpoints, the page is that list, byte for byte, and the returned size is its length; otherwise
  the returned size is zero and the window is not touched.  Apart from the log buffer nothing else
  is written.\<close>

theorem endpoint_page_complete:
  assumes "log_pid (log_payload msg) = cl_log_num CL_LOG_ENDPOINT" "rh_log_max_size (rm_rh s) = LOG_MSG_SIZE"
    "disjoint_ranges (rh_log (rm_rh s)) 4096 (dst_addr_of msg) (length (endpoint_text bd))"
  shows "\<exists>s'. cl_rmgmt_log_page bd msg s = Some (0, set_log_size
        (if length (endpoint_text bd) \<le> unat (log_size (log_payload msg)) then of_nat (length (endpoint_text bd)) else 0)
        msg, s')
    \<and> (length (endpoint_text bd) \<le> unat (log_size (log_payload msg)) \<longrightarrow>
         mem_load (cl_mem s') (dst_addr_of msg) (length (endpoint_text bd)) = endpoint_text bd)
    \<and> kept_off (\<lambda>x. within (rh_log (rm_rh s)) 4096 x \<or>
         within (dst_addr_of msg) (if length (endpoint_text bd) \<le> unat (log_size (log_payload msg))
                                  then length (endpoint_text bd) else 0) x) (cl_mem s) (cl_mem s')"
proof -
  let ?t = "endpoint_text bd" and ?buf = "rh_log (rm_rh s)" and ?dst = "dst_addr_of msg"
  have t: "length ?t \<le> 1100" by (rule endpoint_text_short)
  from vmr_endpoint_info_spec [OF assms(2) refl refl, of bd msg] obtain m where e: "vmr_endpoint_info bd msg s =
      (if length ?t \<le> unat (log_size (log_payload msg))
       then (0, set_log_size (of_nat (length ?t)) msg, copy_log ?dst ?buf (of_nat (length ?t)) (s\<lparr>cl_mem := m\<rparr>))
       else (0, set_log_size 0 msg, s\<lparr>cl_mem := m\<rparr>))"
    and m: "mem_load m ?buf (length ?t) = ?t" "kept_off (within ?buf 4096) (cl_mem s) m" by blast
  show ?thesis
  proof (cases "length ?t \<le> unat (log_size (log_payload msg))")
    case True
    let ?m = "cl_mem (copy_log ?dst ?buf (of_nat (length ?t)) (s\<lparr>cl_mem := m\<rparr>))"
    have w: "?m = mem_store m ?dst ?t" using t by (simp add: copy_log_spec m(1))
    have "mem_load ?m ?dst (length ?t) = ?t" unfolding w using t by (intro mem_load_store_same) simp
    moreover have "kept_off (\<lambda>x. within ?buf 4096 x \<or> within ?dst (length ?t) x) (cl_mem s) ?m"
      unfolding w
      by (rule kept_off_trans [OF kept_off_mono [OF m(2)] kept_off_mono [OF kept_off_store]]) auto
    ultimately show ?thesis using True by (simp add: cl_rmgmt_log_page_endpoint [OF assms(1)] e)
  next
    case False
    then show ?thesis using kept_off_mono [OF m(2)]
      by (simp add: cl_rmgmt_log_page_endpoint [OF assms(1)] e)
  qed
qed

definition sim_log_state :: "mem \<Rightarrow> (unit, sim_chip ospi) rmgmt" where
  "sim_log_state m = set_rh (\<lambda>r. r\<lparr>rh_log := 0x10000000, rh_log_max_size := LOG_MSG_SIZE,
     rh_data_max_size := BITSTREAM_SIZE\<rparr>) (sim_state (\<lambda>_. 0) m)"

definition log_request :: "cl_log_type \<Rightarrow> u32 \<Rightarrow> cl_msg" where
  "log_request ty n = cl_msg_zero\<lparr>log_payload :=
     \<lparr> log_address = 0x200000, log_size = n, log_offset = 0, log_pid = cl_log_num ty \<rparr>\<rparr>"

abbreviation sim_bd :: "(unit, sim_chip ospi) board" where
  "sim_bd \<equiv> sim_board (ospi_ops sim_driver True)"

theorem endpoint_page_complete_witness:
  "\<exists>s'. cl_rmgmt_log_page sim_bd (log_request CL_LOG_ENDPOINT 0x1000) (sim_log_state (\<lambda>_. 0))
       = Some (0, set_log_size (of_nat (length (endpoint_text sim_bd))) (log_request CL_LOG_ENDPOINT 0x1000), s')
     \<and> mem_load (cl_mem s') 0x38200000 (length (endpoint_text sim_bd)) = endpoint_text sim_bd"
proof -
  have d: "dst_addr_of (log_request CL_LOG_ENDPOINT 0x1000) = 0x38200000"
    by (simp add: dst_addr_of_def log_request_def RPU_SHARED_MEMORY_ADDR_def VMR_EP_RPU_SHARED_MEMORY_START_def)
  have f: "log_pid (log_payload (log_request CL_LOG_ENDPOINT 0x1000)) = cl_log_num CL_LOG_ENDPOINT"
    "rh_log_max_size (rm_rh (sim_log_state (\<lambda>_. 0))) = LOG_MSG_SIZE"
    "rh_log (rm_rh (sim_log_state (\<lambda>_. 0))) = 0x10000000"
    "unat (log_size (log_payload (log_request CL_LOG_ENDPOINT 0x1000))) = 4096"
    by (simp_all add: log_request_def sim_log_state_def set_rh_def)
  have t: "length (endpoint_text sim_bd) \<le> 1100" by (rule endpoint_text_short)
  then have "length (endpoint_text sim_bd) \<le> 3621781504" by linarith
  then have "disjoint_ranges (rh_log (rm_rh (sim_log_state (\<lambda>_. 0)))) 4096
      (dst_addr_of (log_request CL_LOG_ENDPOINT 0x1000)) (length (endpoint_text sim_bd))"
    by (simp add: f d disjoint_ranges_def)
  from endpoint_page_complete [OF f(1,2) this] t show ?thesis
    by (simp add: f d) blast
qed

section \<open>What a page may write\<close>

text \<open>Reading registers leaves the memory and the handler as they are.\<close>

definition reads_only :: "('w, 'f) rmgmt \<Rightarrow> ('w, 'f) rmgmt \<Rightarrow> bool" where
  "reads_only s s' \<longleftrightarrow> cl_mem s' = cl_mem s \<and> rm_rh s' = rm_rh s"

lemma reads_only_refl [simp]: "reads_only s s"
  by (simp add: reads_only_def)

lemma reads_only_trans: "reads_only s s1 \<Longrightarrow> reads_only s1 s2 \<Longrightarrow> reads_only s s2"
  by (simp add: reads_only_def)

lemma reads_only_reg_read: "reg_read bd a s = (v, s') \<Longrightarrow> reads_only s s'"
  by (auto simp: reg_read_def reads_only_def split: prod.splits)

lemma reads_only_firewall: "read_firewall bd a s = (v, s') \<Longrightarrow> reads_only s s'"
  by (auto simp: read_firewall_def Let_def split: prod.splits if_splits
      dest!: reads_only_reg_read intro: reads_only_trans)

lemma reads_only_check: "check_firewall bd s = (v, s') \<Longrightarrow> reads_only s s'"
  by (auto simp: check_firewall_def vmr_afs_def split: prod.splits if_splits dest!: reads_only_firewall)

lemma length_fault_line:
  "length (line [ascii ''ARADDR 0x'', fmt_hex (unat (a :: u64)), ascii '', AWADDR 0x'', fmt_hex (unat (b :: u64)),
     ascii '', ARUSER 0x'', fmt_hex (unat (c :: u32)), ascii '', AWUSER 0x'', fmt_hex (unat (d :: u32))]) \<le> 100"
  using length_fmt_hex64 [of a] length_fmt_hex64 [of b] length_fmt_hex32 [of c] length_fmt_hex32 [of d]
  by (simp add: line_def newline_def ascii_def)

lemma reads_only_fault_text: "fault_text bd a s = (t, s') \<Longrightarrow> reads_only s s' \<and> length t \<le> 100"
  by (auto simp: fault_text_def READ_ARADDR_def READ_AWADDR_def read_64_def Let_def length_fault_line
      reads_only_def split: prod.splits dest!: reads_only_reg_read)

lemma length_firewall_text: "length (firewall_text v a) \<le> 50"
  using length_fmt_hex32 [of a] length_fmt_dec32 [of v] by (simp add: firewall_text_def ascii_def)

lemma log_add_mem:
  "log_add buf room t count s = (count', s') \<Longrightarrow>
   cl_mem s' = snd (snprintf (buf + count) (room - count) t (cl_mem s))"
  by (auto simp: log_add_cases)

text \<open>A text written to the buffer before \<open>n\<close> bytes are used; the room may already be exhausted.\<close>

lemma log_add_step:
  assumes "log_add buf room t count s = (count', s')" "unat count + length t < n" "n \<le> 4096"
  shows "unat count' = unat count + length t" "rm_rh s' = rm_rh s"
    "kept_off (within buf n) (cl_mem s) (cl_mem s')"
proof -
  show "rm_rh s' = rm_rh s" using assms(1) by (auto simp: log_add_cases)
  show "unat count' = unat count + length t"
    using assms unat_add_of_nat [of count "length t"] by (auto simp: log_add_cases)
  have "kept_off (within (buf + count) (Suc (length t))) (cl_mem s) (cl_mem s')"
    unfolding log_add_mem [OF assms(1)] by (rule kept_off_mono [OF snprintf_outside]) (simp add: within_def)
  then show "kept_off (within buf n) (cl_mem s) (cl_mem s')"
    using assms(2,3) within_offset [of buf "unat count" "Suc (length t)" _ n]
    by (auto elim: kept_off_mono)
qed

text \<open>Or within the room, when the room is not exhausted.\<close>

lemma log_add_room:
  assumes "log_add buf room t count s = (count', s')" "unat count \<le> unat room"
  shows "rm_rh s' = rm_rh s" "kept_off (within buf (unat room)) (cl_mem s) (cl_mem s')"
proof -
  show "rm_rh s' = rm_rh s" using assms(1) by (auto simp: log_add_cases)
  have r: "unat (room - count) = unat room - unat count" using assms(2) by (simp add: unat_sub word_le_nat_alt)
  have "kept_off (within (buf + count) (unat (room - count))) (cl_mem s) (cl_mem s')"
    unfolding log_add_mem [OF assms(1)] by (rule kept_off_mono [OF snprintf_outside]) (simp add: within_def)
  then show "kept_off (within buf (unat room)) (cl_mem s) (cl_mem s')"
    using r assms(2) unat_u32_less [of room] within_offset [of buf "unat count" "unat room - unat count" _ "unat room"]
    by (auto elim: kept_off_mono)
qed

text \<open>From \<open>s\<close> to \<open>s'\<close> only the log buffer and \<open>n\<close> bytes at \<open>dst\<close> have been written.\<close>

definition confined :: "u32 \<Rightarrow> u32 \<Rightarrow> nat \<Rightarrow> ('w, 'f) rmgmt \<Rightarrow> ('w, 'f) rmgmt \<Rightarrow> bool" where
  "confined buf dst n s s' \<longleftrightarrow> kept_off (\<lambda>x. within buf 4096 x \<or> within dst n x) (cl_mem s) (cl_mem s')"

lemma confined_refl [simp]: "confined buf dst n s s"
  by (simp add: confined_def)

lemma confined_trans: "confined buf dst n s s1 \<Longrightarrow> confined buf dst n s1 s2 \<Longrightarrow> confined buf dst n s s2"
  unfolding confined_def by (rule kept_off_trans)

lemma confined_reads: "reads_only s s' \<Longrightarrow> confined buf dst n s s'"
  by (simp add: confined_def reads_only_def)

lemma confined_buffer:
  "kept_off (within buf k) (cl_mem s) (cl_mem s') \<Longrightarrow> k \<le> 4096 \<Longrightarrow> confined buf dst n s s'"
  unfolding confined_def by (erule kept_off_mono) (simp add: within_mono)

lemma confined_copy_log: "unat len \<le> n \<Longrightarrow> confined buf dst n s (copy_log dst buf' len s)"
  unfolding confined_def copy_log_spec
  by (rule kept_off_mono [OF kept_off_store [of _ "unat len"]]) (simp_all add: within_mono)

lemma confined_store: "length bs \<le> n \<Longrightarrow> confined buf dst n s (store_bytes dst bs s)"
  unfolding confined_def store_bytes_def
  by (auto intro: kept_off_mono [OF kept_off_store])

lemma confined_copy_to_host:
  "unat len \<le> n \<Longrightarrow> confined buf (dst_addr_of msg) n s (copy_to_host msg src len s)"
  using unat_u32_less [of len]
  unfolding confined_def copy_to_host_def cl_memcpy_def
  by (simp, intro kept_off_mono [OF memcpy_loop_outside]) (simp_all add: within_mono)

lemma page_room_le:
  "unat (page_room msg s) \<le> unat (log_size (log_payload msg))"
  "rh_log_max_size (rm_rh s) = LOG_MSG_SIZE \<Longrightarrow> unat (page_room msg s) \<le> 4096"
  by (auto simp: page_room_def Let_def word_less_nat_alt LOG_MSG_SIZE_def)

lemma set_log_size_simps [simp]:
  "log_size (log_payload (set_log_size n msg)) = n" "dst_addr_of (set_log_size n msg) = dst_addr_of msg"
  by (simp_all add: set_log_size_def dst_addr_of_def)

subsection \<open>Health\<close>

lemma fault_loop_writes:
  assumes "fault_loop bd buf room [base] count s = (count', s')" "unat count \<le> 60"
  shows "rm_rh s' = rm_rh s \<and> kept_off (within buf 300) (cl_mem s) (cl_mem s')"
proof -
  obtain v s1 where 1: "reg_read bd (base + IP_VERSION) s = (v, s1)" by fastforce
  obtain c2 s2 where 2: "log_add buf room (firewall_text v base) count s1 = (c2, s2)" by fastforce
  obtain t s3 where 3: "fault_text bd base s2 = (t, s3)" by fastforce
  obtain c4 s4 where 4: "log_add buf room t c2 s3 = (c4, s4)" by fastforce
  have r: "cl_mem s1 = cl_mem s" "rm_rh s1 = rm_rh s" "cl_mem s3 = cl_mem s2" "rm_rh s3 = rm_rh s2" "length t \<le> 100"
    using reads_only_reg_read [OF 1] reads_only_fault_text [OF 3] by (auto simp: reads_only_def)
  have l: "unat count + length (firewall_text v base) < 300" using assms(2) length_firewall_text [of v base] by linarith
  note a = log_add_step [OF 2 l]
  have "unat c2 + length t < 300" using a(1) assms(2) r(5) length_firewall_text [of v base] by linarith
  note b = log_add_step [OF 4 this]
  have "kept_off (within buf 300) (cl_mem s) (cl_mem s2)" "kept_off (within buf 300) (cl_mem s) (cl_mem s4)"
    "rm_rh s2 = rm_rh s" "rm_rh s4 = rm_rh s"
    using a b r kept_off_trans [of "within buf 300" "cl_mem s" "cl_mem s2" "cl_mem s4"] by simp_all
  then show ?thesis using assms(1) by (auto simp: 1 2 3 4 split: if_splits)
qed

lemma firewall_page_confined:
  assumes "rmgmt_check_firewall bd msg s = (val, msg', s')" "rh_log_max_size (rm_rh s) = LOG_MSG_SIZE"
  shows "confined (rh_log (rm_rh s)) (dst_addr_of msg) (unat (log_size (log_payload msg))) s s'
    \<and> (val = 0 \<longrightarrow> msg' = msg \<and> reads_only s s')
    \<and> log_size (log_payload msg') \<le> log_size (log_payload msg)"
proof -
  obtain v s1 where 1: "check_firewall bd s = (v, s1)" by fastforce
  note r = reads_only_check [OF 1]
  show ?thesis
  proof (cases "v = 0")
    case True
    then show ?thesis using assms(1) r by (auto simp: rmgmt_check_firewall_def 1 confined_reads)
  next
    case False
    let ?buf = "rh_log (rm_rh s)" and ?room = "page_room msg s1"
    let ?t = "concat [ascii ''AXI Firewall User is tripped, status: 0x'', fmt_hex (unat v), ascii ''. '']"
    have b: "rh_log (rm_rh s1) = ?buf" using r by (simp add: reads_only_def)
    obtain c2 s2 where 2: "log_add ?buf ?room ?t 0 s1 = (c2, s2)" by fastforce
    obtain c3 s3 where 3: "fault_loop bd ?buf ?room [FIREWALL_USER bd] c2 s2 = (c3, s3)" by fastforce
    have t: "length ?t \<le> 60" using length_fmt_hex32 [of v] by (simp add: ascii_def)
    note a = log_add_step [OF 2, of 300]
    have "unat c2 \<le> 60" using a(1) t by simp
    note c = fault_loop_writes [OF 3 this, THEN conjunct2]
    have e: "val = v" "msg' = set_log_size (min c3 ?room) msg" "s' = copy_log (dst_addr_of msg) ?buf (min c3 ?room) s3"
      using assms(1) False 2 3
      by (auto simp: rmgmt_check_firewall_def 1 b vmr_afs_def Let_def simp del: fault_loop.simps)
    have m: "unat (min c3 ?room) \<le> unat (log_size (log_payload msg))"
      using page_room_le(1) [of msg s1] by (simp add: min_def word_le_nat_alt)
    have "confined ?buf (dst_addr_of msg) (unat (log_size (log_payload msg))) s s'"
      unfolding e(3) using t c a(3) r m
      by (intro confined_trans [OF confined_reads confined_trans [OF confined_buffer [of _ 300]
              confined_trans [OF confined_buffer [of _ 300] confined_copy_log]]]) simp_all
    then show ?thesis using False e m by (simp add: word_le_nat_alt)
  qed
qed

lemma room_page_confined:
  assumes "log_add (rh_log (rm_rh s)) (page_room msg s) t 0 s = (c, s1)" "rh_log_max_size (rm_rh s) = LOG_MSG_SIZE"
  shows "confined (rh_log (rm_rh s)) (dst_addr_of msg) (unat (log_size (log_payload msg))) s
    (copy_log (dst_addr_of msg) (rh_log (rm_rh s)) (page_room msg s) s1)"
  using log_add_room [OF assms(1)] page_room_le(1) [of msg s] page_room_le(2) [of s msg] assms(2)
  by (intro confined_trans [OF confined_buffer [of _ "unat (page_room msg s)"] confined_copy_log]) simp_all

lemma page_room_reads: "reads_only s s' \<Longrightarrow> page_room msg s' = page_room msg s"
  by (simp add: reads_only_def page_room_def)

lemma shutdown_page_confined:
  assumes "rmgmt_log_clock_shutdown bd msg s = (val, msg', s')" "rh_log_max_size (rm_rh s) = LOG_MSG_SIZE"
  shows "confined (rh_log (rm_rh s)) (dst_addr_of msg) (unat (log_size (log_payload msg))) s s'
    \<and> (val = 0 \<longrightarrow> msg' = msg \<and> reads_only s s')
    \<and> log_size (log_payload msg') \<le> log_size (log_payload msg)"
proof -
  obtain v s1 where 1: "reg_read bd (GAPPING_DEMAND bd + VMR_EP_UCS_CHANNEL_2) s = (v, s1)" by fastforce
  note r = reads_only_reg_read [OF 1]
  have b: "rh_log (rm_rh s1) = rh_log (rm_rh s)" "rh_log_max_size (rm_rh s1) = LOG_MSG_SIZE"
    using r assms(2) by (simp_all add: reads_only_def)
  obtain c s2 where 2:
    "log_add (rh_log (rm_rh s1)) (page_room msg s1) (shutdown_text (v AND SHUTDOWN_LATCHED_STATUS)) 0 s1 = (c, s2)"
    by fastforce
  note w = confined_trans [OF confined_reads [OF r] room_page_confined [OF 2 b(2), unfolded b(1)]]
  have m: "page_room msg s1 \<le> log_size (log_payload msg)" using page_room_le(1) by (simp add: word_le_nat_alt)
  have d: "rmgmt_log_clock_shutdown bd msg s = (let val = v AND SHUTDOWN_LATCHED_STATUS; room = page_room msg s1
    in if val = 0 then (val, msg, s1)
       else (val, set_log_size (if room > c then c else room) msg, copy_log (dst_addr_of msg) (rh_log (rm_rh s)) room s2))"
    using 2 by (simp add: rmgmt_log_clock_shutdown_def check_clock_shutdown_status_def 1 b Let_def)
  show ?thesis
  proof (cases "v AND SHUTDOWN_LATCHED_STATUS = 0")
    case True
    then show ?thesis using assms(1) r unfolding d by (auto simp: confined_reads)
  next
    case False
    then show ?thesis using assms(1) w m unfolding d by (auto simp: Let_def)
  qed
qed

lemma throttling_page_confined:
  assumes "rmgmt_log_clock_throttling_percentage bd msg s = (val, msg', s')" "rh_log_max_size (rm_rh s) = LOG_MSG_SIZE"
  shows "confined (rh_log (rm_rh s)) (dst_addr_of msg) (unat (log_size (log_payload msg))) s s'
    \<and> log_size (log_payload msg') \<le> log_size (log_payload msg)"
proof (cases "vmc_throttled (b_vmc bd) (cl_world s) = 0")
  case True
  then show ?thesis using assms(1) by (auto simp: rmgmt_log_clock_throttling_percentage_def)
next
  case False
  obtain v s1 where 1: "reg_read bd (GAPPING_DEMAND bd) s = (v, s1)" by fastforce
  note r = reads_only_reg_read [OF 1]
  have b: "rh_log (rm_rh s1) = rh_log (rm_rh s)" "rh_log_max_size (rm_rh s1) = LOG_MSG_SIZE"
    using r assms(2) by (simp_all add: reads_only_def)
  let ?t = "throttling_text (min (v AND 0xFF) MAX_GAPPING_DEMAND_RATE)"
  obtain c s2 where 2: "log_add (rh_log (rm_rh s1)) (page_room msg s1) ?t 0 s1 = (c, s2)" by fastforce
  note w = confined_trans [OF confined_reads [OF r] room_page_confined [OF 2 b(2), unfolded b(1)]]
  have m: "page_room msg s1 \<le> log_size (log_payload msg)" using page_room_le(1) by (simp add: word_le_nat_alt)
  have "msg' = set_log_size (min c (page_room msg s1)) msg"
    "s' = copy_log (dst_addr_of msg) (rh_log (rm_rh s)) (page_room msg s1) s2"
    using assms(1) False 2 by (auto simp: rmgmt_log_clock_throttling_percentage_def 1 b Let_def)
  then show ?thesis using w m by (simp add: min.coboundedI2)
qed

lemma health_page_confined:
  assumes "rmgmt_healthy_check bd msg s = (ret, msg', s')" "rh_log_max_size (rm_rh s) = LOG_MSG_SIZE"
  shows "confined (rh_log (rm_rh s)) (dst_addr_of msg) (unat (log_size (log_payload msg))) s s'
    \<and> log_size (log_payload msg') \<le> log_size (log_payload msg)"
proof -
  obtain v1 m1 s1 where 1: "rmgmt_log_clock_shutdown bd msg s = (v1, m1, s1)" by (metis prod_cases3)
  note c1 = shutdown_page_confined [OF 1 assms(2)]
  obtain v2 m2 s2 where 2: "rmgmt_check_firewall bd m1 s1 = (v2, m2, s2)" by (metis prod_cases3)
  obtain v3 m3 s3 where 3: "rmgmt_log_clock_throttling_percentage bd m2 s2 = (v3, m3, s3)" by (metis prod_cases3)
  show ?thesis
  proof (cases "v1 = 0")
    case False
    then show ?thesis using assms(1) c1 by (auto simp: rmgmt_healthy_check_def 1)
  next
    case v1: True
    then have r1: "reads_only s s1" "m1 = msg" using c1 by simp_all
    have k1: "rh_log_max_size (rm_rh s1) = LOG_MSG_SIZE" "rh_log (rm_rh s1) = rh_log (rm_rh s)"
      using r1 assms(2) by (simp_all add: reads_only_def)
    note c2 = firewall_page_confined [OF 2 k1(1), unfolded k1 r1(2)]
    show ?thesis
    proof (cases "v2 = 0")
      case False
      then show ?thesis
        using assms(1) v1 c2 confined_trans [OF confined_reads [OF r1(1)]] by (auto simp: rmgmt_healthy_check_def 1 2)
    next
      case v2: True
      then have r2: "reads_only s s2" "m2 = msg" using c2 r1 reads_only_trans by auto
      have k2: "rh_log_max_size (rm_rh s2) = LOG_MSG_SIZE" "rh_log (rm_rh s2) = rh_log (rm_rh s)"
        using r2 assms(2) by (simp_all add: reads_only_def)
      note c3 = throttling_page_confined [OF 3 k2(1), unfolded k2 r2(2)]
      have "m' = m3" "s' = s3" if "m' = msg'" for m' using that assms(1) v1 v2 by (auto simp: rmgmt_healthy_check_def 1 2 3)
      then show ?thesis using c3 confined_trans [OF confined_reads [OF r2(1)]] by auto
    qed
  qed
qed

text \<open>The claim about a page, for the window of \<open>n\<close> bytes.\<close>

definition page_claim :: "nat \<Rightarrow> cl_msg \<Rightarrow> ('w, 'f) rmgmt \<Rightarrow> int \<times> cl_msg \<times> ('w, 'f) rmgmt \<Rightarrow> bool" where
  "page_claim n msg s r \<longleftrightarrow> confined (rh_log (rm_rh s)) (dst_addr_of msg) n s (snd (snd r))
     \<and> unat (log_size (log_payload (fst (snd r)))) \<le> max n (unat (log_size (log_payload msg)))"

lemma page_claimI: "confined (rh_log (rm_rh s)) (dst_addr_of msg) n s s' \<Longrightarrow>
    unat (log_size (log_payload msg')) \<le> max n (unat (log_size (log_payload msg))) \<Longrightarrow> page_claim n msg s (ret, msg', s')"
  by (simp add: page_claim_def)

lemma health_page:
  assumes "rh_log_max_size (rm_rh s) = LOG_MSG_SIZE"
  shows "page_claim (unat (log_size (log_payload msg))) msg s (rmgmt_healthy_check bd msg s)"
proof -
  obtain ret msg' s' where 1: "rmgmt_healthy_check bd msg s = (ret, msg', s')" by (metis prod_cases3)
  show ?thesis
    unfolding 1 using health_page_confined [OF 1 assms] by (intro page_claimI) (simp_all add: word_le_nat_alt)
qed

subsection \<open>Data\<close>

lemma ext_entry_log: "log_payload (ext_entry e msg) = log_payload msg"
  by (simp add: ext_entry_def on_multiboot_def Let_def)

lemma ext_loop_log: "log_payload (ext_loop fpt sz m n i msg) = log_payload msg"
  by (induct n arbitrary: i msg) (simp_all add: ext_entry_log)

lemma extension_query_log: "log_payload (rmgmt_extension_fpt_query fpt m msg) = log_payload msg"
  by (simp add: rmgmt_extension_fpt_query_def Let_def ext_loop_log) (simp add: on_multiboot_def)

lemma get_xsabin_log: "rmgmt_fpt_get_xsabin fpt m msg = (r, msg') \<Longrightarrow> log_payload msg' = log_payload msg"
  by (auto simp: rmgmt_fpt_get_xsabin_def Let_def extension_query_log)

lemma get_systemdtb_log: "rmgmt_fpt_get_systemdtb fpt m msg = (r, msg') \<Longrightarrow> log_payload msg' = log_payload msg"
  by (auto simp: rmgmt_fpt_get_systemdtb_def Let_def extension_query_log)

lemma validate_log_size: "validate_log_payload p n = 0 \<Longrightarrow> n \<le> log_size p"
  by (auto simp: validate_log_payload_def Let_def split: if_splits)

lemma same_payload_dst: "log_payload msg' = log_payload msg \<Longrightarrow> dst_addr_of msg' = dst_addr_of msg"
  by (simp add: dst_addr_of_def)

lemma copied_page:
  assumes "log_payload msg1 = log_payload msg" "len \<le> log_size (log_payload msg)"
  shows "page_claim (unat (log_size (log_payload msg))) msg s (ret, set_log_size len msg1, copy_to_host msg1 src len s)"
proof (rule page_claimI)
  show "confined (rh_log (rm_rh s)) (dst_addr_of msg) (unat (log_size (log_payload msg))) s (copy_to_host msg1 src len s)"
    unfolding same_payload_dst [OF assms(1), symmetric]
    using assms(2) by (intro confined_copy_to_host) (simp add: word_le_nat_alt)
qed (use assms(2) in \<open>simp add: word_le_nat_alt\<close>)

lemma unchanged_page: "log_payload msg1 = log_payload msg \<Longrightarrow> page_claim n msg s (ret, msg1, s)"
  by (rule page_claimI) simp_all

lemma firmware_page: "page_claim (unat (log_size (log_payload msg))) msg s (rmgmt_load_firmware bd msg s)"
  by (auto simp: rmgmt_load_firmware_def Let_def intro!: unchanged_page copied_page
      dest!: get_xsabin_log validate_log_size split: prod.split sum.split)

lemma dtb_page: "page_claim (unat (log_size (log_payload msg))) msg s (rmgmt_load_system_dtb bd msg s)"
  by (auto simp: rmgmt_load_system_dtb_def Let_def intro!: unchanged_page copied_page
      dest!: get_systemdtb_log validate_log_size split: prod.split sum.split)

lemma plm_page: "page_claim (unat (log_size (log_payload msg))) msg s (rmgmt_sync_plm_data msg s)"
  by (auto simp: rmgmt_sync_plm_data_def Let_def intro!: unchanged_page copied_page)

lemma fdt_loop_length: "fdt_loop m v strs len n p = Some (Inr bs) \<Longrightarrow> length bs = unat len"
  by (induct n arbitrary: p)
     (auto simp: GET_CELL_def Let_def bind_eq_Some_conv split: if_splits)

lemma uuid_length: "rmgmt_fdt_get_uuids a len m = Some (Inr bs) \<Longrightarrow> length bs = unat len"
  by (auto simp: rmgmt_fdt_get_uuids_def Let_def fdt_loop_length simp del: fdt_loop.simps
      split: if_splits sum.splits prod.splits)

lemma uuid_page:
  assumes "rmgmt_load_shell_interface_uuid bd msg s = Some r" "33 \<le> unat (log_size (log_payload msg))"
  shows "page_claim (unat (log_size (log_payload msg))) msg s r"
proof -
  obtain x msg1 where 1: "rmgmt_fpt_get_xsabin (PRELOAD_FPT bd) (cl_mem s) msg = (x, msg1)" by fastforce
  note l = get_xsabin_log [OF 1]
  have n: "page_claim (unat (log_size (log_payload msg))) msg s (ret, msg1, s)" for ret
    by (rule unchanged_page [OF l])
  show ?thesis
  proof (cases "\<exists>ret. r = (ret, msg1, s)")
    case False
    then obtain off y where y: "rmgmt_fdt_get_uuids off UUID_BYTES_LEN (cl_mem s) = Some y"
      "r = (case y of Inl ret \<Rightarrow> (ret, msg1, s)
            | Inr uuid \<Rightarrow> (0, set_log_size UUID_BYTES_LEN msg1, store_bytes (dst_addr_of msg1) uuid s))"
      using assms(1) by (cases x) (auto simp: rmgmt_load_shell_interface_uuid_def 1 Let_def split: if_splits)
    from y False obtain uuid where u: "y = Inr uuid" "rmgmt_fdt_get_uuids off UUID_BYTES_LEN (cl_mem s) = Some (Inr uuid)"
      "r = (0, set_log_size UUID_BYTES_LEN msg1, store_bytes (dst_addr_of msg1) uuid s)"
      by (cases y) auto
    have "length uuid \<le> unat (log_size (log_payload msg))"
      using uuid_length [OF u(2)] assms(2) by (simp add: UUID_BYTES_LEN_def)
    then show ?thesis
      unfolding u(3) using assms(2) same_payload_dst [OF l]
      by (intro page_claimI) (simp_all add: confined_store UUID_BYTES_LEN_def)
  qed (use n in auto)
qed

lemma apu_log_page: "log_pid (log_payload msg) = cl_log_num CL_LOG_APU_LOG \<Longrightarrow> rmgmt_load_apu_log bd msg s = (- EINVAL, msg, s)"
  by (simp add: rmgmt_load_apu_log_def validate_log_payload_def Let_def)

subsection \<open>Statistics\<close>

lemma task_loop_writes:
  "task_loop buf room runtime ts count s = (count', s') \<Longrightarrow> unat count \<le> unat room \<Longrightarrow>
   kept_off (within buf (unat room)) (cl_mem s) (cl_mem s')"
proof (induct ts arbitrary: count s)
  case (Cons t ts)
  obtain c1 s1 where 1: "log_add buf room (task_text runtime t) count s = (c1, s1)" by fastforce
  note a = log_add_room [OF 1 Cons.prems(2)]
  show ?case
  proof (cases "c1 \<ge> room")
    case True
    then show ?thesis using Cons.prems(1) a by (simp add: 1)
  next
    case False
    then have "unat c1 \<le> unat room" by (simp add: word_le_nat_alt)
    moreover have "task_loop buf room runtime ts c1 s1 = (count', s')" using Cons.prems(1) False by (simp add: 1)
    ultimately show ?thesis using Cons.hyps kept_off_trans [OF a(2)] by blast
  qed
qed simp

lemma endpoint_page:
  assumes "rh_log_max_size (rm_rh s) = LOG_MSG_SIZE"
  shows "page_claim (unat (log_size (log_payload msg))) msg s (vmr_endpoint_info bd msg s)"
proof -
  let ?t = "endpoint_text bd" and ?buf = "rh_log (rm_rh s)" and ?n = "unat (log_size (log_payload msg))"
  from vmr_endpoint_info_spec [OF assms refl refl, of bd msg] obtain m where e: "vmr_endpoint_info bd msg s =
      (if length ?t \<le> ?n
       then (0, set_log_size (of_nat (length ?t)) msg, copy_log (dst_addr_of msg) ?buf (of_nat (length ?t)) (s\<lparr>cl_mem := m\<rparr>))
       else (0, set_log_size 0 msg, s\<lparr>cl_mem := m\<rparr>))"
    and m: "kept_off (within ?buf 4096) (cl_mem s) m" by blast
  have c: "confined ?buf (dst_addr_of msg) ?n s (s\<lparr>cl_mem := m\<rparr>)" using m by (intro confined_buffer [of _ 4096]) simp_all
  have "unat (of_nat (length ?t) :: u32) = length ?t" using endpoint_text_short [of bd] by simp
  then show ?thesis
    unfolding e using c confined_trans [OF c confined_copy_log] by (auto intro!: page_claimI)
qed

lemma task_page:
  assumes "rh_log_max_size (rm_rh s) = LOG_MSG_SIZE"
  shows "page_claim 4096 msg s (vmr_rtos_task_stats bd msg s)"
proof -
  let ?buf = "rh_log (rm_rh s)" and ?n = "b_task_count bd (cl_world s)"
  obtain arr w where 1: "b_malloc bd (?n * SIZEOF_TASK_STATUS bd) (cl_world s) = (arr, w)" by fastforce
  let ?s1 = "s\<lparr>cl_world := w\<rparr>"
  obtain c2 s2 where 2: "log_add ?buf LOG_MSG_SIZE stats_header 0 ?s1 = (c2, s2)" by fastforce
  obtain ts rt where t: "b_task_stats bd ?n (cl_world s2) = (ts, rt)" by fastforce
  obtain c3 s3 where 3: "task_loop ?buf LOG_MSG_SIZE (rt div 100) ts c2 s2 = (c3, s3)" by fastforce
  have room: "unat LOG_MSG_SIZE = 4096" by (simp add: LOG_MSG_SIZE_def)
  have h: "length stats_header \<le> 60" by (simp add: stats_header_def line_def newline_def tab_def ascii_def)
  have c2: "unat c2 \<le> 4096" using h log_add_step(1) [OF 2, of 4096] by simp
  have "confined ?buf (dst_addr_of msg) 4096 ?s1 s2"
    using log_add_room(2) [OF 2] room by (intro confined_buffer [of _ 4096]) simp_all
  moreover have "confined ?buf (dst_addr_of msg) 4096 s2 s3"
    using task_loop_writes [OF 3] c2 room by (intro confined_buffer [of _ 4096]) simp_all
  ultimately have w: "confined ?buf (dst_addr_of msg) 4096 s s3" by (simp add: confined_def kept_off_def)
  have m: "unat (min c3 LOG_MSG_SIZE) \<le> 4096" using room by (simp add: min_def word_le_nat_alt)
  have "confined ?buf (dst_addr_of msg) 4096 s (copy_log (dst_addr_of msg) ?buf (min c3 LOG_MSG_SIZE) (free_buffer bd arr s3))"
    using w by (intro confined_trans [OF _ confined_copy_log [OF m]]) (simp add: confined_def free_buffer_def)
  moreover have "confined ?buf (dst_addr_of msg) 4096 s ?s1" by (simp add: confined_def)
  ultimately show ?thesis
    using m 2 3 t by (auto simp: vmr_rtos_task_stats_def assms on_world_def 1 Let_def intro!: page_claimI)
qed

lemma mem_page:
  assumes "rh_log_max_size (rm_rh s) = LOG_MSG_SIZE"
  shows "page_claim 4096 msg s (vmr_rtos_mem_stats bd msg s)"
proof -
  let ?buf = "rh_log (rm_rh s)"
  obtain c s1 where 1: "log_add ?buf LOG_MSG_SIZE (heap_text (b_heap_stats bd (cl_world s))) 0 s = (c, s1)" by fastforce
  have room: "unat LOG_MSG_SIZE = 4096" by (simp add: LOG_MSG_SIZE_def)
  then have m: "unat (min c LOG_MSG_SIZE) \<le> 4096" by (simp add: min_def word_le_nat_alt)
  have "confined ?buf (dst_addr_of msg) 4096 s (copy_log (dst_addr_of msg) ?buf (min c LOG_MSG_SIZE) s1)"
    using log_add_room(2) [OF 1] room
    by (intro confined_trans [OF confined_buffer [of _ 4096] confined_copy_log [OF m]]) simp_all
  then show ?thesis using m by (simp add: vmr_rtos_mem_stats_def assms 1 Let_def page_claimI)
qed



end
