(* ===== verification/Vmc_Base.thy ===== *)
theory Vmc_Base
  imports Cl_Main Cl_Mem
begin

text \<open>What the modules of \<open>vmc/\<close> share: the platforms, the return codes, the access to bytes of an
  array.  \<open>None\<close> is an access outside an array, which C leaves undefined, or a failed
  \<open>configASSERT\<close>, which halts the firmware.\<close>

datatype ePlatformType = eVCK5000 | eV70 | eV80 | eMax_Platforms

fun ePlatformType_num :: "ePlatformType \<Rightarrow> nat" where
  "ePlatformType_num eVCK5000 = 0"
| "ePlatformType_num eV70 = 2"
| "ePlatformType_num eV80 = 3"
| "ePlatformType_num eMax_Platforms = 4"

abbreviation XST_SUCCESS :: int where "XST_SUCCESS \<equiv> 0"
abbreviation XST_FAILURE :: int where "XST_FAILURE \<equiv> 1"

type_synonym bytes = "u8 list"

definition rd :: "'a list \<Rightarrow> nat \<Rightarrow> 'a option" where
  "rd xs i = (if i < length xs then Some (xs ! i) else None)"

definition wr :: "'a list \<Rightarrow> nat \<Rightarrow> 'a \<Rightarrow> 'a list option" where
  "wr xs i v = (if i < length xs then Some (xs[i := v]) else None)"

lemma rd_Some [simp]: "i < length xs \<Longrightarrow> rd xs i = Some (xs ! i)"
  by (simp add: rd_def)

lemma wr_Some [simp]: "i < length xs \<Longrightarrow> wr xs i v = Some (xs[i := v])"
  by (simp add: wr_def)

lemma rd_None: "length xs \<le> i \<Longrightarrow> rd xs i = None"
  by (simp add: rd_def)

lemma wr_None: "length xs \<le> i \<Longrightarrow> wr xs i v = None"
  by (simp add: wr_def)

lemma wr_length: "wr xs i v = Some ys \<Longrightarrow> length ys = length xs"
  by (auto simp: wr_def split: if_splits)

text \<open>\<open>n\<close> bytes from position \<open>i\<close>, and the store of bytes there.\<close>

definition rd_bytes :: "bytes \<Rightarrow> nat \<Rightarrow> nat \<Rightarrow> bytes option" where
  "rd_bytes xs i n = (if i + n \<le> length xs then Some (take n (drop i xs)) else None)"

definition wr_bytes :: "bytes \<Rightarrow> nat \<Rightarrow> bytes \<Rightarrow> bytes option" where
  "wr_bytes xs i ys =
     (if i + length ys \<le> length xs then Some (take i xs @ ys @ drop (i + length ys) xs) else None)"

lemma wr_bytes_length: "wr_bytes xs i ys = Some zs \<Longrightarrow> length zs = length xs"
  by (auto simp: wr_bytes_def split: if_splits)

lemma rd_bytes_length: "rd_bytes xs i n = Some ys \<Longrightarrow> length ys = n"
  by (auto simp: rd_bytes_def split: if_splits)

lemma unat_byte_less: "unat (b :: u8) < 256"
  using unsigned_less [where ?'a = nat, of b] by simp

lemma unat_u16_less: "unat (w :: u16) < 65536"
  using unsigned_less [where ?'a = nat, of w] by simp

lemma unat_ucast_u8_u32 [simp]: "unat (ucast (b :: u8) :: u32) = unat b"
  using unat_byte_less [of b] by (simp add: unsigned_ucast_eq take_bit_nat_eq_self)

lemma unat_ucast_u8_u16 [simp]: "unat (ucast (b :: u8) :: u16) = unat b"
  using unat_byte_less [of b] by (simp add: unsigned_ucast_eq take_bit_nat_eq_self)

text \<open>The bytes of a string constant, without its terminator; a C string seen through its pointer;
  little-endian numbers.\<close>

definition chars :: "string \<Rightarrow> bytes" where
  "chars cs = map (\<lambda>c. of_nat (of_char c)) cs"

definition c_string :: "bytes \<Rightarrow> nat \<Rightarrow> u8" where
  "c_string bs i = (if i < length bs then bs ! i else 0)"

fun le_nat :: "bytes \<Rightarrow> nat" where
  "le_nat [] = 0"
| "le_nat (b # bs) = unat b + 256 * le_nat bs"

fun le_bytes :: "nat \<Rightarrow> nat \<Rightarrow> bytes" where
  "le_bytes 0 n = []"
| "le_bytes (Suc k) n = of_nat n # le_bytes k (n div 256)"

lemma length_le_bytes [simp]: "length (le_bytes k n) = k"
  by (induct k arbitrary: n) simp_all

lemma le_nat_le_bytes: "le_nat (le_bytes k n) = n mod 256 ^ k"
proof (induct k arbitrary: n)
  case (Suc k)
  have "le_nat (le_bytes (Suc k) n) = n mod 256 + 256 * (n div 256 mod 256 ^ k)"
    by (simp add: Suc unat_of_nat)
  also have "\<dots> = n mod (256 * 256 ^ k)" by (simp add: mod_mult2_eq)
  finally show ?case by simp
qed simp

lemma le_nat_less: "le_nat bs < 256 ^ length bs"
proof (induct bs)
  case (Cons b bs)
  have "unat b + 256 * le_nat bs < 256 * (le_nat bs + 1)" using unat_byte_less [of b] by simp
  also have "\<dots> \<le> 256 * 256 ^ length bs" using Cons by simp
  finally show ?case by simp
qed simp

text \<open>A checked copy of \<open>n\<close> bytes into an object of its own size.\<close>

definition copy_n :: "bytes \<Rightarrow> nat \<Rightarrow> bytes option" where
  "copy_n src n = (if 0 < n \<and> n \<le> length src then Some (take n src) else None)"

end
