(* ===== verification/Vmc_Throttling.thy ===== *)
theory Vmc_Throttling
  imports Vmc_Base
begin

text \<open>Model of \<open>vmc/clock_throttling.c\<close>: the algorithm that slows the kernel clocks down when the board
  uses too much power or gets too hot.  The numbers of type \<open>float\<close> are a type \<open>'f\<close> with the operations
  \<open>float_ops\<close> of the processor, rounding included; a single double subtraction rounded to \<open>float\<close> is
  the subtraction of \<open>'f\<close>.  The sensor readings of \<open>vmc_sensors.c\<close> that the algorithm uses are the
  record \<open>power_readings\<close>.\<close>

section \<open>Numbers and state\<close>

record 'f float_ops =
  fo_int :: "int \<Rightarrow> 'f"
  fo_trunc :: "'f \<Rightarrow> int"
  fo_add :: "'f \<Rightarrow> 'f \<Rightarrow> 'f"
  fo_sub :: "'f \<Rightarrow> 'f \<Rightarrow> 'f"
  fo_mul :: "'f \<Rightarrow> 'f \<Rightarrow> 'f"
  fo_div :: "'f \<Rightarrow> 'f \<Rightarrow> 'f"
  fo_less :: "'f \<Rightarrow> 'f \<Rightarrow> bool"
  fo_le :: "'f \<Rightarrow> 'f \<Rightarrow> bool"

abbreviation fo_word :: "'f float_ops \<Rightarrow> 'a::len word \<Rightarrow> 'f" where "fo_word fo x \<equiv> fo_int fo (uint x)"

abbreviation (input) ACTIVITY_MAX :: u32 where "ACTIVITY_MAX \<equiv> 128"
abbreviation (input) CLOCK_THROTTLING_AVERAGE_SIZE :: u8 where "CLOCK_THROTTLING_AVERAGE_SIZE \<equiv> 10"
abbreviation (input) FIVE_PERCENT :: u32 where "FIVE_PERCENT \<equiv> 7"

definition MASK_CLOCKTHROTTLING_ENABLE_THROTTLING :: u32 where
  "MASK_CLOCKTHROTTLING_ENABLE_THROTTLING = push_bit 20 1"
definition MASK_GAPPING_DEMAND_CONTROL :: u32 where "MASK_GAPPING_DEMAND_CONTROL = push_bit 24 1"

record rail_reading =
  rr_voltage :: u16
  rr_current :: u16
  rr_threshold_current :: u16

record 'f rail =
  VoltageSensorID :: u8
  CurrentSensorID :: u8
  PreviousReading :: rail_reading
  LatestReading :: rail_reading
  NominalVoltage :: u16
  MeasuredPower :: u32
  ThrottledThresholdPower :: u32
  RailNormalizedPower :: 'f

record 'f throttling =
  NumberOfRailsMonitored :: u8
  RailParameters :: "'f rail list"
  BoardThrottlingThresholdPower :: u32
  BoardMeasuredPower :: u32
  UserNormalizedPower :: 'f
  BoardNormalizedPower :: 'f
  KernelPower :: 'f
  KernelTarget :: 'f
  IdlePower :: 'f
  Activity :: u32
  RateCurrent :: 'f
  RateLinear :: 'f
  TempGainKpFPGA :: 'f
  TempGainKi :: 'f
  TempGainKpVCCInt :: 'f
  TempGainKaw :: 'f
  ThermalThrottlingThresholdPower :: 'f
  LastThermalThrottlingThresholdPower :: 'f
  ThermalNormalisedPower :: 'f
  FPGAMeasuredTemp :: 'f
  FPGATempThrottlingLimit :: u32
  bVccIntThermalThrottlingEnabled :: bool
  VccIntMeasuredTemp :: 'f
  VccIntTempThrottlingLimit :: u32
  ThermalThrottlingLoopJustEnabled :: bool
  IntegrataionSum :: 'f
  localVccIntThermalThrottlingThresholdPower :: 'f
  localThermalThrottlingThresholdPower_FPGA :: 'f
  ThrottlingTempLimit_FPGA :: 'f
  ThermalThrottlingThresholdPower_FPGA :: 'f
  DeltaTemp_FPGA :: 'f
  IntegrationAntiWindup_FPGA :: 'f
  FeatureEnabled :: bool
  PowerOverRideEnabled :: bool
  bUserThrottlingTempLimitEnabled :: bool
  XRTSuppliedBoardThrottlingThresholdPower :: u32
  XRTSuppliedUserThrottlingTempLimit :: u32
  PowerThrottlingLimit :: u16
  TempThrottlingLimit :: u16

record 'f throttling_profile =
  tp_NumberOfSensors :: u8
  tp_VoltageSensorID :: "u8 list"
  tp_CurrentSensorID :: "u8 list"
  tp_NominalVoltage :: "u16 list"
  tp_throttlingThresholdCurrent :: "u16 list"
  tp_IdlePower :: 'f
  tp_bVCCIntThermalThrottling :: bool
  tp_FPGATempThrottlingLimit :: u32
  tp_VccIntTempThrottlingLimit :: u32
  tp_PowerThrottlingLimit :: u16
  tp_TempThrottlingLimit :: u16
  tp_TempGainKpFPGA :: 'f
  tp_TempGainKi :: 'f
  tp_TempGainKpVCCInt :: 'f
  tp_TempGainKaw :: 'f
  tp_IntegrataionSumInitial :: 'f

record 'f power_readings =
  pr_voltage :: "'f list"
  pr_current :: "'f list"
  pr_fpga_temp :: 'f
  pr_vccint_temp :: 'f

section \<open>The moving average\<close>

record 'f moving_average =
  ma_buffer :: "'f list"
  ma_sum :: 'f
  ma_pos :: u8
  ma_length :: u8
  ma_filled :: bool

definition Moving_Average :: "'f float_ops \<Rightarrow> 'f \<Rightarrow> 'f moving_average \<Rightarrow> ('f \<times> 'f moving_average) option" where
  "Moving_Average fo x a = do {
     old \<leftarrow> rd (ma_buffer a) (unat (ma_pos a));
     let a1 = a\<lparr>ma_sum := fo_add fo (fo_sub fo (ma_sum a) old) x,
                ma_buffer := (ma_buffer a)[unat (ma_pos a) := x], ma_pos := ma_pos a + 1\<rparr>;
     let a2 = (if ma_length a1 \<le> ma_pos a1 then a1\<lparr>ma_pos := 0, ma_filled := True\<rparr> else a1);
     Some (fo_div fo (ma_sum a2) (fo_word fo (if ma_filled a2 then ma_length a2 else ma_pos a2)), a2) }"

definition Allocate_Moving_Average :: "'f float_ops \<Rightarrow> u8 \<Rightarrow> bool \<Rightarrow> 'f moving_average option" where
  "Allocate_Moving_Average fo len heap_ok =
     (if heap_ok
      then Some \<lparr>ma_buffer = replicate (unat len) (fo_int fo 0), ma_sum = fo_int fo 0, ma_pos = 0,
                 ma_length = len, ma_filled = False\<rparr>
      else None)"

section \<open>Start\<close>

definition init_rail :: "'f throttling_profile \<Rightarrow> nat \<Rightarrow> 'f rail list \<Rightarrow> 'f rail list option" where
  "init_rail p i rs = do {
     r \<leftarrow> rd rs i;
     v \<leftarrow> rd (tp_VoltageSensorID p) i; c \<leftarrow> rd (tp_CurrentSensorID p) i;
     n \<leftarrow> rd (tp_NominalVoltage p) i; t \<leftarrow> rd (tp_throttlingThresholdCurrent p) i;
     Some (rs[i := r\<lparr>VoltageSensorID := v, CurrentSensorID := c, NominalVoltage := n,
                     LatestReading := (LatestReading r)\<lparr>rr_threshold_current := t\<rparr>\<rparr>]) }"

fun init_rails :: "'f throttling_profile \<Rightarrow> nat list \<Rightarrow> 'f rail list \<Rightarrow> 'f rail list option" where
  "init_rails p [] rs = Some rs"
| "init_rails p (i # is) rs = do { rs' \<leftarrow> init_rail p i rs; init_rails p is rs' }"

definition ClockThrottling_Initialize ::
    "'f float_ops \<Rightarrow> 'f throttling_profile \<Rightarrow> bool \<Rightarrow> 'f throttling \<Rightarrow> 'f throttling option" where
  "ClockThrottling_Initialize fo p enabled c = do {
     rs \<leftarrow> init_rails p [0..<unat (tp_NumberOfSensors p)] (RailParameters c);
     let zero = fo_int fo 0;
     Some (c\<lparr>NumberOfRailsMonitored := tp_NumberOfSensors p, RailParameters := rs,
             bVccIntThermalThrottlingEnabled := tp_bVCCIntThermalThrottling p, IdlePower := tp_IdlePower p,
             IntegrataionSum := tp_IntegrataionSumInitial p,
             LastThermalThrottlingThresholdPower := tp_IntegrataionSumInitial p,
             ThermalThrottlingThresholdPower := fo_int fo 1,
             FPGAMeasuredTemp := zero, VccIntMeasuredTemp := zero, KernelPower := zero, KernelTarget := zero,
             Activity := ACTIVITY_MAX, XRTSuppliedBoardThrottlingThresholdPower := 0,
             RateCurrent := zero, RateLinear := zero, BoardNormalizedPower := zero,
             BoardThrottlingThresholdPower := 0, BoardMeasuredPower := 0, UserNormalizedPower := zero,
             TempGainKpFPGA := tp_TempGainKpFPGA p, TempGainKi := tp_TempGainKi p,
             TempGainKpVCCInt := tp_TempGainKpVCCInt p, TempGainKaw := tp_TempGainKaw p,
             PowerThrottlingLimit := tp_PowerThrottlingLimit p, TempThrottlingLimit := tp_TempThrottlingLimit p,
             FPGATempThrottlingLimit := tp_FPGATempThrottlingLimit p,
             VccIntTempThrottlingLimit := tp_VccIntTempThrottlingLimit p,
             ThermalThrottlingLoopJustEnabled := False, FeatureEnabled := enabled,
             PowerOverRideEnabled := False, bUserThrottlingTempLimitEnabled := False\<rparr>) }"

section \<open>The temperature\<close>

text \<open>\<open>MIN\<close> converts the limit of the host to the type of the other operand.\<close>

definition clock_throttling_PI_Loop_FPGA ::
    "'f float_ops \<Rightarrow> bool \<Rightarrow> bool \<Rightarrow> 'f \<Rightarrow> 'f \<Rightarrow> 'f throttling \<Rightarrow> 'f \<times> 'f throttling" where
  "clock_throttling_PI_Loop_FPGA fo user use_sum limit temp c =
     (let xrt = fo_word fo (XRTSuppliedUserThrottlingTempLimit c);
          lim = (if user then if fo_less fo limit xrt then limit else xrt else limit);
          delta = fo_sub fo lim temp;
          c1 = c\<lparr>ThrottlingTempLimit_FPGA := lim, DeltaTemp_FPGA := delta\<rparr>;
          c2 = (if use_sum
                then let w = fo_mul fo (TempGainKaw c1) (fo_sub fo (fo_word fo (BoardMeasuredPower c1))
                               (LastThermalThrottlingThresholdPower c1));
                         a = c1\<lparr>IntegrationAntiWindup_FPGA := w\<rparr>;
                         b = (if ThermalThrottlingLoopJustEnabled a
                              then a\<lparr>ThermalThrottlingLoopJustEnabled := False\<rparr>
                              else a\<lparr>IntegrataionSum := fo_add fo (fo_add fo (IntegrataionSum a)
                                       (fo_mul fo delta (TempGainKi a))) w\<rparr>);
                         t = fo_add fo (fo_mul fo delta (TempGainKpFPGA b)) (IntegrataionSum b)
                     in b\<lparr>ThermalThrottlingThresholdPower_FPGA := t, LastThermalThrottlingThresholdPower := t\<rparr>
                else c1\<lparr>ThermalThrottlingThresholdPower_FPGA := fo_mul fo delta (TempGainKpVCCInt c1)\<rparr>)
      in (ThermalThrottlingThresholdPower_FPGA c2, c2))"

text \<open>The two averages, from the first call on.\<close>

type_synonym 'f averages = "('f moving_average option \<times> 'f moving_average option) option"

definition clock_throttling_algorithm_temperature ::
    "'f float_ops \<Rightarrow> bool \<Rightarrow> 'f power_readings \<Rightarrow> 'f averages \<Rightarrow> 'f throttling \<Rightarrow> ('f averages \<times> 'f throttling) option" where
  "clock_throttling_algorithm_temperature fo heap_ok pr av c = do {
     let (fa, va) = (case av of
            None \<Rightarrow> (Allocate_Moving_Average fo CLOCK_THROTTLING_AVERAGE_SIZE heap_ok,
                     Allocate_Moving_Average fo CLOCK_THROTTLING_AVERAGE_SIZE heap_ok)
          | Some p \<Rightarrow> p);
     fa0 \<leftarrow> fa; (ft, fa1) \<leftarrow> Moving_Average fo (pr_fpga_temp pr) fa0;
     va0 \<leftarrow> va; (vt, va1) \<leftarrow> Moving_Average fo (pr_vccint_temp pr) va0;
     let (p, c1) = clock_throttling_PI_Loop_FPGA fo (bUserThrottlingTempLimitEnabled c) True
                     (fo_word fo (FPGATempThrottlingLimit c)) ft
                     (c\<lparr>FPGAMeasuredTemp := ft, VccIntMeasuredTemp := vt\<rparr>);
     let c2 = c1\<lparr>localThermalThrottlingThresholdPower_FPGA := p\<rparr>;
     let v = fo_mul fo (fo_sub fo (fo_word fo (VccIntTempThrottlingLimit c2)) vt) (TempGainKpVCCInt c2);
     let c3 = (if bVccIntThermalThrottlingEnabled c2
               then c2\<lparr>localVccIntThermalThrottlingThresholdPower := v\<rparr> else c2);
     Some (Some (Some fa1, Some va1),
           c3\<lparr>ThermalThrottlingThresholdPower :=
                (if bVccIntThermalThrottlingEnabled c2 \<and> fo_less fo v p then v else p)\<rparr>) }"

section \<open>The power\<close>

definition kernel_share :: "'f float_ops \<Rightarrow> u32 \<Rightarrow> 'f throttling \<Rightarrow> 'f throttling" where
  "kernel_share fo limit c =
     (let idle = fo_div fo (IdlePower c) (fo_word fo limit)
      in c\<lparr>KernelPower := fo_sub fo (BoardNormalizedPower c) idle,
           KernelTarget := fo_sub fo (fo_int fo 1) idle\<rparr>)"

text \<open>Fast attack, slow decay.  The result is the value written to the gapping register.\<close>

definition next_activity :: "'f float_ops \<Rightarrow> bool \<Rightarrow> 'f throttling \<Rightarrow> u32" where
  "next_activity fo changed c =
     (if fo_less fo (KernelTarget c) (fo_int fo 0) then 0
      else if fo_less fo (fo_int fo 0) (KernelPower c)
      then let current = fo_div fo (fo_word fo (Activity c)) (fo_word fo ACTIVITY_MAX);
               linear = (if changed then fo_div fo (fo_mul fo (KernelTarget c) current) (KernelPower c) else current)
           in if fo_less fo linear current
              then word_of_int (fo_trunc fo (fo_mul fo linear (fo_word fo ACTIVITY_MAX)))
              else if Activity c < ACTIVITY_MAX then Activity c + 1 else ACTIVITY_MAX
      else ACTIVITY_MAX)"

definition clock_throttling_algorithm :: "'f float_ops \<Rightarrow> bool \<Rightarrow> 'f throttling \<Rightarrow> u32 \<times> 'f throttling" where
  "clock_throttling_algorithm fo changed c =
     (let xrt = XRTSuppliedBoardThrottlingThresholdPower c;
          c1 = kernel_share fo (if PowerOverRideEnabled c \<and> xrt < BoardThrottlingThresholdPower c then xrt
                                else BoardThrottlingThresholdPower c) c;
          a = next_activity fo changed c1;
          a' = (if a < FIVE_PERCENT then FIVE_PERCENT else a)
      in (a' OR MASK_CLOCKTHROTTLING_ENABLE_THROTTLING, c1\<lparr>Activity := a'\<rparr>))"

text \<open>The first loop fetches the readings, the second adds the powers up.\<close>

definition fetch_reading :: "'f float_ops \<Rightarrow> 'f power_readings \<Rightarrow> nat \<Rightarrow> 'f throttling \<Rightarrow> 'f throttling option" where
  "fetch_reading fo pr i c = do {
     r \<leftarrow> rd (RailParameters c) i;
     v \<leftarrow> rd (pr_voltage pr) (unat (VoltageSensorID r));
     a \<leftarrow> rd (pr_current pr) (unat (CurrentSensorID r));
     Some (c\<lparr>RailParameters := (RailParameters c)[i := r\<lparr>LatestReading := (LatestReading r)\<lparr>
        rr_voltage := word_of_int (fo_trunc fo v), rr_current := word_of_int (fo_trunc fo a)\<rparr>\<rparr>]\<rparr>) }"

definition add_rail :: "'f float_ops \<Rightarrow> nat \<Rightarrow> bool \<times> 'f throttling \<Rightarrow> (bool \<times> 'f throttling) option" where
  "add_rail fo i st = (case st of (changed, c) \<Rightarrow> do {
     r \<leftarrow> rd (RailParameters c) i;
     let l = LatestReading r;
     let m = ucast (rr_current l) * ucast (rr_voltage l);
     let t = ucast (NominalVoltage r) * ucast (rr_threshold_current l);
     let r' = r\<lparr>MeasuredPower := m, ThrottledThresholdPower := t,
                RailNormalizedPower := fo_div fo (fo_word fo m) (fo_word fo t), PreviousReading := l\<rparr>;
     Some (changed \<or> rr_current l \<noteq> rr_current (PreviousReading r),
           c\<lparr>RailParameters := (RailParameters c)[i := r'],
             BoardThrottlingThresholdPower := BoardThrottlingThresholdPower c + t,
             BoardMeasuredPower := BoardMeasuredPower c + m\<rparr>) })"

fun each_rail :: "(nat \<Rightarrow> 'a \<Rightarrow> 'a option) \<Rightarrow> nat list \<Rightarrow> 'a \<Rightarrow> 'a option" where
  "each_rail f [] a = Some a"
| "each_rail f (i # is) a = do { a' \<leftarrow> f i a; each_rail f is a' }"

definition fo_max :: "'f float_ops \<Rightarrow> 'f \<Rightarrow> 'f \<Rightarrow> 'f" where
  "fo_max fo x y = (if fo_less fo x y then y else x)"

definition normalize_power :: "'f float_ops \<Rightarrow> 'f throttling \<Rightarrow> 'f throttling" where
  "normalize_power fo c =
     (let m = fo_word fo (BoardMeasuredPower c);
          th = fo_div fo m (ThermalThrottlingThresholdPower c);
          us = fo_div fo m (fo_word fo (if PowerOverRideEnabled c then XRTSuppliedBoardThrottlingThresholdPower c
                                        else BoardThrottlingThresholdPower c));
          rails = foldl (fo_max fo) (fo_int fo 0)
                    (map RailNormalizedPower (take (unat (NumberOfRailsMonitored c)) (RailParameters c)))
      in c\<lparr>ThermalNormalisedPower := th, UserNormalizedPower := us,
           BoardNormalizedPower := fo_max fo (fo_max fo rails us) th\<rparr>)"

text \<open>Without scaling the register is not written.\<close>

definition clock_throttling_algorithm_power ::
    "'f float_ops \<Rightarrow> bool \<Rightarrow> 'f power_readings \<Rightarrow> 'f throttling \<Rightarrow> (u32 option \<times> 'f throttling) option" where
  "clock_throttling_algorithm_power fo scaling pr c =
     (let c0 = c\<lparr>BoardThrottlingThresholdPower := 0, BoardMeasuredPower := 0\<rparr>;
          rails = [0..<unat (NumberOfRailsMonitored c)]
      in if \<not> scaling then Some (None, c0)
         else do {
           c1 \<leftarrow> each_rail (fetch_reading fo pr) rails c0;
           (changed, c2) \<leftarrow> each_rail (add_rail fo) rails (False, c1);
           let (v, c3) = clock_throttling_algorithm fo changed (normalize_power fo c2);
           Some (Some v, c3) })"

section \<open>The register\<close>

text \<open>The clocks never stop: at least five percent are demanded, and throttling stays enabled.\<close>

lemma throttling_demand:
  assumes "clock_throttling_algorithm fo changed c = (v, c')"
  shows "FIVE_PERCENT \<le> Activity c'" "v = Activity c' OR MASK_CLOCKTHROTTLING_ENABLE_THROTTLING" "bit v 20"
  using assms by (auto simp: clock_throttling_algorithm_def Let_def not_less bit_or_iff
      MASK_CLOCKTHROTTLING_ENABLE_THROTTLING_def bit_push_bit_iff)

lemma throttling_power_demand:
  assumes "clock_throttling_algorithm_power fo scaling pr c = Some (Some v, c')"
  shows "FIVE_PERCENT \<le> Activity c' \<and> v = Activity c' OR MASK_CLOCKTHROTTLING_ENABLE_THROTTLING \<and> scaling"
  using assms unfolding clock_throttling_algorithm_power_def Let_def
  by (auto split: if_splits bind_splits prod.splits dest: throttling_demand)

end
