(* ===== verification/Vmc_Asdm.thy ===== *)
theory Vmc_Asdm
  imports Vmc_Base
begin

text \<open>Model of \<open>vmc/vmc_asdm.c\<close>: the sensor data repositories (SDR), their construction from the
  platform's tables, the update of the readings, and the requests of the host.  A function pointer
  is a function: a monitor reads a sensor and may change the state \<open>'w\<close> of the rest of the firmware,
  a name function gives name, SC identifier and monitor of an instance of a group.  A pointer to an
  allocated block is \<open>None\<close> (NULL) or the bytes of the block.  A function result \<open>None\<close> is an access
  outside an array or a failed assertion.  The heap, the lock \<open>sdr_lock\<close> and the platform's tables
  are the environment; the code under \<open>BUILD_FOR_RMI\<close> and the display of the demo menu are left
  out.\<close>

section \<open>Records and constants\<close>

record snsr_read =
  sn_instance :: u8
  sn_msp :: u8
  sn_value :: bytes
  sn_size :: u8
  sn_status :: u8

type_synonym 'w monitor = "snsr_read \<Rightarrow> 'w \<Rightarrow> (snsr_read \<times> 'w) option"

text \<open>A name function may leave its outputs alone (inner \<open>None\<close>), or set all but the identifier.\<close>

type_synonym 'w name_fun = "nat \<Rightarrow> (bytes \<times> u8 option \<times> 'w monitor option) option option"

record sdr_header =
  repository_type :: u8
  repository_version :: u8
  no_of_records :: u8
  no_of_bytes :: u8

record 'w sensor_record =
  sr_id :: u8
  sr_name_type_length :: u8
  sr_name :: "bytes option"
  sr_value_type_length :: u8
  sr_value :: "bytes option"
  sr_unit_type_length :: u8
  sr_unit :: "bytes option"
  sr_unit_modifier :: u8
  sr_threshold_support :: u8
  sr_lower_fatal :: "bytes option"
  sr_lower_critical :: "bytes option"
  sr_lower_warning :: "bytes option"
  sr_upper_fatal :: "bytes option"
  sr_upper_critical :: "bytes option"
  sr_upper_warning :: "bytes option"
  sr_status :: u8
  sr_average :: "bytes option"
  sr_max :: "bytes option"
  sr_msp_id :: u8
  sr_sample_count :: u32
  sr_instance :: u8
  sr_read_func :: "'w monitor option"

record 'w sdr =
  sdr_head :: sdr_header
  sdr_records :: "'w sensor_record list"
  sdr_eor :: bytes

record 'w sensor_meta =
  me_repo :: u8
  me_name :: bytes
  me_value_type_length :: u8
  me_default :: "bytes option"
  me_unit_modifier :: u8
  me_threshold :: u8
  me_instances :: u8
  me_names :: "'w name_fun option"
  me_list_tbl :: u8
  me_sample_count :: u8
  me_monitor :: "'w monitor option"

record 'w asdm =
  asdm_headers :: "sdr_header list"
  sdr_info :: "'w sdr list"
  asdm_init_success :: bool
  total_sensor_count :: u8
  dynamic_sensor_count :: u8
  aw :: 'w

text \<open>The board information, and where the readings come from: the monitors, the name functions and
  the sizes of the groups.\<close>

record board_info =
  bi_product_name :: bytes
  bi_board_serial :: bytes
  bi_board_part_num :: bytes
  bi_board_rev :: bytes
  bi_board_mfg_date :: bytes
  bi_board_uuid :: bytes
  bi_board_mac :: "bytes list"
  bi_board_act_pas :: bytes
  bi_OEM_ID :: bytes

record 'w sensor_sources =
  src_Temperature_Read_Board :: "'w monitor"
  src_Temperature_Read_ACAP_Device_Sysmon :: "'w monitor"
  src_Temperature_Read_VCCINT :: "'w monitor"
  src_Asdm_Read_Power :: "'w monitor"
  src_scGetTemperatureName :: "'w name_fun"
  src_getQSFPName :: "'w name_fun"
  src_getVoltagesName :: "'w name_fun"
  src_getCurrentNames :: "'w name_fun"
  src_ucGetTemperatureSensorNum :: u8
  src_getVoltageSensorNum :: u8
  src_getCurrentSensorNum :: u8

record 'w asdm_env =
  ae_malloc :: "nat \<Rightarrow> 'w \<Rightarrow> bool \<times> 'w"
  ae_free :: "'w \<Rightarrow> 'w"
  ae_lock :: "'w \<Rightarrow> bool \<times> 'w"
  ae_unlock :: "'w \<Rightarrow> 'w"
  ae_sc_version :: "'w \<Rightarrow> bytes"
  ae_fpt_version :: "'w \<Rightarrow> bytes"
  ae_board_info :: "'w \<Rightarrow> board_info"
  ae_sources :: "'w sensor_sources"
  ae_supported :: "nat list option"
  ae_record_count :: "(sdr_header list \<Rightarrow> sdr_header list) option"
  SIZEOF_META :: nat
  SIZEOF_SDR :: nat
  SIZEOF_RECORD :: nat

abbreviation (input) BoardInfoSDR :: u8 where "BoardInfoSDR \<equiv> 0xC0"
abbreviation (input) TemperatureSDR :: u8 where "TemperatureSDR \<equiv> 0xC1"
abbreviation (input) VoltageSDR :: u8 where "VoltageSDR \<equiv> 0xC2"
abbreviation (input) CurrentSDR :: u8 where "CurrentSDR \<equiv> 0xC3"
abbreviation (input) PowerSDR :: u8 where "PowerSDR \<equiv> 0xC4"

abbreviation (input) Vmc_Snsr_State_Unavailable :: u8 where "Vmc_Snsr_State_Unavailable \<equiv> 0"
abbreviation (input) Vmc_Snsr_State_Normal :: u8 where "Vmc_Snsr_State_Normal \<equiv> 1"
abbreviation (input) Vmc_Snsr_State_Comms_failure :: u8 where "Vmc_Snsr_State_Comms_failure \<equiv> 2"
definition Sensor_Present_And_Valid :: u8 where "Sensor_Present_And_Valid = 1"

definition Upper_Warning_Threshold :: u8 where "Upper_Warning_Threshold = 0x01"
definition Upper_Critical_Threshold :: u8 where "Upper_Critical_Threshold = 0x02"
definition Upper_Fatal_Threshold :: u8 where "Upper_Fatal_Threshold = 0x04"
definition Lower_Warning_Threshold :: u8 where "Lower_Warning_Threshold = 0x08"
definition Lower_Critical_Threshold :: u8 where "Lower_Critical_Threshold = 0x10"
definition Lower_Fatal_Threshold :: u8 where "Lower_Fatal_Threshold = 0x20"
definition Sensor_Avg_Val_Support :: u8 where "Sensor_Avg_Val_Support = 0x40"
definition Sensor_Max_Val_Support :: u8 where "Sensor_Max_Val_Support = 0x80"

definition Asdm_CC_Not_Available :: u8 where "Asdm_CC_Not_Available = 0"
definition Asdm_CC_Operation_Success :: u8 where "Asdm_CC_Operation_Success = 1"
definition Asdm_CC_Operation_Failed :: u8 where "Asdm_CC_Operation_Failed = 2"
definition ASDM_CMD_GET_SIZE :: u8 where "ASDM_CMD_GET_SIZE = 1"
definition ASDM_CMD_GET_SDR :: u8 where "ASDM_CMD_GET_SDR = 2"
definition ASDM_CMD_GET_SINGLE_SENSOR_DATA :: u8 where "ASDM_CMD_GET_SINGLE_SENSOR_DATA = 3"
definition ASDM_CMD_GET_ALL_SENSOR_DATA :: u8 where "ASDM_CMD_GET_ALL_SENSOR_DATA = 4"

definition SENSOR_TYPE_ASCII :: u8 where "SENSOR_TYPE_ASCII = 0xC0"
definition LENGTH_BITMASK :: u8 where "LENGTH_BITMASK = 0x3F"
definition SENSOR_NAME_MAX :: nat where "SENSOR_NAME_MAX = 30"

definition SNSRNAME_ACTIVE_SC_VER :: bytes where "SNSRNAME_ACTIVE_SC_VER = chars ''Active SC Ver''"
definition SNSRNAME_TARGET_SC_VER :: bytes where "SNSRNAME_TARGET_SC_VER = chars ''Target SC Ver''"

definition tl_len :: "u8 \<Rightarrow> nat" where "tl_len ty = unat (ty AND LENGTH_BITMASK)"

record thresholds =
  th_name :: bytes
  lowerWarnLimit :: nat
  lowerCritLimit :: nat
  lowerFatalLimit :: nat
  upperWarnLimit :: nat
  upperCritLimit :: nat
  upperFatalLimit :: nat

definition thresholds_limit_tbl :: "thresholds list" where
  "thresholds_limit_tbl =
    [\<lparr>th_name = chars ''PCB'', lowerWarnLimit = 0, lowerCritLimit = 0, lowerFatalLimit = 0,
       upperWarnLimit = 80, upperCritLimit = 85, upperFatalLimit = 95\<rparr>,
     \<lparr>th_name = chars ''device'', lowerWarnLimit = 0, lowerCritLimit = 0, lowerFatalLimit = 0,
       upperWarnLimit = 88, upperCritLimit = 97, upperFatalLimit = 107\<rparr>,
     \<lparr>th_name = chars ''vccint'', lowerWarnLimit = 0, lowerCritLimit = 0, lowerFatalLimit = 0,
       upperWarnLimit = 100, upperCritLimit = 110, upperFatalLimit = 125\<rparr>,
     \<lparr>th_name = chars ''cage_temp_0'', lowerWarnLimit = 0, lowerCritLimit = 0, lowerFatalLimit = 0,
       upperWarnLimit = 80, upperCritLimit = 85, upperFatalLimit = 90\<rparr>,
     \<lparr>th_name = chars ''cage_temp_1'', lowerWarnLimit = 0, lowerCritLimit = 0, lowerFatalLimit = 0,
       upperWarnLimit = 80, upperCritLimit = 85, upperFatalLimit = 90\<rparr>,
     \<lparr>th_name = chars ''cage_temp_2'', lowerWarnLimit = 0, lowerCritLimit = 0, lowerFatalLimit = 0,
       upperWarnLimit = 80, upperCritLimit = 85, upperFatalLimit = 90\<rparr>,
     \<lparr>th_name = chars ''cage_temp_3'', lowerWarnLimit = 0, lowerCritLimit = 0, lowerFatalLimit = 0,
       upperWarnLimit = 80, upperCritLimit = 85, upperFatalLimit = 90\<rparr>]"

definition sensor_unit_tbl :: "u8 \<Rightarrow> (u8 \<times> bytes) option" where
  "sensor_unit_tbl t =
     (if t = BoardInfoSDR then Some (0, chars ''NA'' @ [0])
      else if t = TemperatureSDR then Some (0xC8, chars ''Celsius'' @ [0])
      else if t = VoltageSDR then Some (0xC6, chars ''Volts'' @ [0])
      else if t = CurrentSDR then Some (0xC5, chars ''Amps'' @ [0])
      else if t = PowerSDR then Some (0xC6, chars ''Watts'' @ [0])
      else if t < 0xC4 then Some (0, []) else None)"

definition asdmHeaderInfo :: "sdr_header list" where
  "asdmHeaderInfo =
    map (\<lambda>t. \<lparr>repository_type = t, repository_version = 1, no_of_records = 0, no_of_bytes = 0x7f\<rparr>)
      [BoardInfoSDR, TemperatureSDR, VoltageSDR, CurrentSDR, PowerSDR]"

definition zero_record :: "'w sensor_record" where
  "zero_record = \<lparr>sr_id = 0, sr_name_type_length = 0, sr_name = None, sr_value_type_length = 0,
     sr_value = None, sr_unit_type_length = 0, sr_unit = None, sr_unit_modifier = 0,
     sr_threshold_support = 0, sr_lower_fatal = None, sr_lower_critical = None,
     sr_lower_warning = None, sr_upper_fatal = None, sr_upper_critical = None,
     sr_upper_warning = None, sr_status = 0, sr_average = None, sr_max = None, sr_msp_id = 0,
     sr_sample_count = 0, sr_instance = 0, sr_read_func = None\<rparr>"

definition zero_sdr :: "'w sdr" where
  "zero_sdr = \<lparr>sdr_head = \<lparr>repository_type = 0, repository_version = 0, no_of_records = 0, no_of_bytes = 0\<rparr>,
     sdr_records = [], sdr_eor = replicate 4 0\<rparr>"

section \<open>Finding a repository\<close>

definition isRepoTypeSupported :: "u8 \<Rightarrow> 'w asdm \<Rightarrow> bool" where
  "isRepoTypeSupported t s \<longleftrightarrow> t \<in> set (map repository_type (asdm_headers s))"

text \<open>The last match counts, \<open>-1\<close> is no match.\<close>

fun sdr_index_loop :: "sdr_header list \<Rightarrow> u8 \<Rightarrow> nat \<Rightarrow> int \<Rightarrow> int" where
  "sdr_index_loop [] t i r = r"
| "sdr_index_loop (h # hs) t i r =
     sdr_index_loop hs t (Suc i) (if repository_type h = t then int i else r)"

definition getSDRIndex :: "u8 \<Rightarrow> 'w asdm \<Rightarrow> int" where
  "getSDRIndex t s = sdr_index_loop (asdm_headers s) t 0 (-1)"

section \<open>Construction\<close>

text \<open>The table of all sensors.  A board information has the size of its field and the field as its
  value; the other sensors start with one sample.\<close>

definition board_meta :: "string \<Rightarrow> u8 \<Rightarrow> bytes \<Rightarrow> 'w sensor_meta" where
  "board_meta name ty d =
     \<lparr>me_repo = BoardInfoSDR, me_name = chars name, me_value_type_length = ty, me_default = Some d,
      me_unit_modifier = 0, me_threshold = 0, me_instances = 0, me_names = None, me_list_tbl = 0,
      me_sample_count = 0, me_monitor = None\<rparr>"

definition HAS_UPPER_THRESHOLDS :: u8 where "HAS_UPPER_THRESHOLDS = 7"

definition sensor_meta_of :: "u8 \<Rightarrow> string \<Rightarrow> u8 \<Rightarrow> u8 \<Rightarrow> u8 \<Rightarrow> u8 \<Rightarrow> 'w monitor \<Rightarrow> 'w sensor_meta" where
  "sensor_meta_of repo name ty modifier thr tbl f =
     \<lparr>me_repo = repo, me_name = chars name, me_value_type_length = ty, me_default = None,
      me_unit_modifier = modifier, me_threshold = Sensor_Max_Val_Support OR Sensor_Avg_Val_Support OR thr,
      me_instances = 0, me_names = None, me_list_tbl = tbl, me_sample_count = 1, me_monitor = Some f\<rparr>"

definition group_meta_of :: "u8 \<Rightarrow> u8 \<Rightarrow> u8 \<Rightarrow> u8 \<Rightarrow> u8 \<Rightarrow> 'w name_fun \<Rightarrow> 'w sensor_meta" where
  "group_meta_of repo ty modifier thr n names =
     \<lparr>me_repo = repo, me_name = [], me_value_type_length = ty, me_default = None,
      me_unit_modifier = modifier, me_threshold = Sensor_Max_Val_Support OR Sensor_Avg_Val_Support OR thr,
      me_instances = n, me_names = Some names, me_list_tbl = 0, me_sample_count = 1, me_monitor = None\<rparr>"

definition snsrMetaData :: "'w asdm_env \<Rightarrow> 'w \<Rightarrow> 'w sensor_meta list" where
  "snsrMetaData e w =
     (let b = ae_board_info e w; t = ae_sources e in
      [board_meta ''Product Name'' (SENSOR_TYPE_ASCII OR 25) (bi_product_name b),
       board_meta ''Serial Num'' (SENSOR_TYPE_ASCII OR 15) (bi_board_serial b),
       board_meta ''Part Num'' (SENSOR_TYPE_ASCII OR 25) (bi_board_part_num b),
       board_meta ''Revision'' (SENSOR_TYPE_ASCII OR 9) (bi_board_rev b),
       board_meta ''MFG Date'' 4 (bi_board_mfg_date b),
       board_meta ''UUID'' 17 (bi_board_uuid b),
       board_meta ''MAC 0'' 7 (bi_board_mac b ! 0),
       board_meta ''MAC 1'' 7 (bi_board_mac b ! 1),
       board_meta ''fpga_fan_1'' (SENSOR_TYPE_ASCII OR 2) (bi_board_act_pas b),
       board_meta ''Active SC Ver'' 4 (ae_sc_version e w),
       board_meta ''Target SC Ver'' 3 (ae_fpt_version e w),
       board_meta ''OEM ID'' 5 (bi_OEM_ID b),
       sensor_meta_of TemperatureSDR ''PCB'' 2 0 HAS_UPPER_THRESHOLDS 2 (src_Temperature_Read_Board t),
       sensor_meta_of TemperatureSDR ''device'' 2 0 HAS_UPPER_THRESHOLDS 3 (src_Temperature_Read_ACAP_Device_Sysmon t),
       sensor_meta_of TemperatureSDR ''vccint'' 2 0 HAS_UPPER_THRESHOLDS 9 (src_Temperature_Read_VCCINT t),
       group_meta_of TemperatureSDR 2 0 HAS_UPPER_THRESHOLDS (src_ucGetTemperatureSensorNum t) (src_scGetTemperatureName t),
       group_meta_of TemperatureSDR 2 0 HAS_UPPER_THRESHOLDS 4 (src_getQSFPName t),
       group_meta_of VoltageSDR 2 (- 3) 0 (src_getVoltageSensorNum t) (src_getVoltagesName t),
       group_meta_of CurrentSDR 4 (- 3) 0 (src_getCurrentSensorNum t) (src_getCurrentNames t),
       sensor_meta_of PowerSDR ''Total Power'' 2 0 0 0 (src_Asdm_Read_Power t)])"

text \<open>The metadata of the sensors the platform supports: \<open>None\<close> in the result is a failed
  allocation; the count is set in any case.\<close>

definition getSDRMetaData ::
    "'w asdm_env \<Rightarrow> 'w \<Rightarrow> (('w sensor_meta list option \<times> nat) \<times> 'w) option" where
  "getSDRMetaData e w =
     (let idxs = (case ae_supported e of None \<Rightarrow> [] | Some l \<Rightarrow> l);
          (ok, w1) = ae_malloc e (SIZEOF_META e * length idxs) w;
          tbl = snsrMetaData e w
      in if \<not> ok then Some ((None, length idxs), w1)
         else if list_all (\<lambda>i. i < length tbl) idxs
         then Some ((Some (map (\<lambda>i. tbl ! i) idxs), length idxs), w1)
         else None)"

text \<open>A name is compared without its last character.\<close>

fun threshold_loop :: "thresholds list \<Rightarrow> nat \<Rightarrow> bytes \<Rightarrow> nat \<Rightarrow> nat \<Rightarrow> nat option" where
  "threshold_loop [] i name n idx = Some idx"
| "threshold_loop (t # ts) i name n idx =
     (case Cl_SecureStrncmp (c_string name) n (c_string (th_name t)) n of
        None \<Rightarrow> None
      | Some c \<Rightarrow> if c = 0 then Some i else threshold_loop ts (Suc i) name n idx)"

definition getThresholdIdx :: "nat \<Rightarrow> bytes \<Rightarrow> nat \<Rightarrow> nat option" where
  "getThresholdIdx idx name len = threshold_loop thresholds_limit_tbl 0 name (len - 2) idx"

text \<open>One sensor is initialised in steps; a step may fail for want of memory, which ends the
  construction with \<open>-1\<close>.\<close>

record 'w init_state =
  in_rec :: "'w sensor_record"
  in_bytes :: u16
  in_thresh :: nat
  in_w :: 'w

type_synonym 'w init_step = "'w init_state \<Rightarrow> (bool \<times> 'w init_state) option"

fun run_steps :: "'w init_step list \<Rightarrow> 'w init_step" where
  "run_steps [] x = Some (True, x)"
| "run_steps (f # fs) x =
     (case f x of
        None \<Rightarrow> None
      | Some (ok, y) \<Rightarrow> if ok then run_steps fs y else Some (False, y))"

definition set_field :: "('w sensor_record \<Rightarrow> 'w sensor_record) \<Rightarrow> u16 \<Rightarrow> 'w init_step" where
  "set_field f n x = Some (True, x\<lparr>in_rec := f (in_rec x), in_bytes := in_bytes x + n\<rparr>)"

definition alloc_field ::
    "'w asdm_env \<Rightarrow> bytes option \<Rightarrow> nat \<Rightarrow> (bytes option \<Rightarrow> 'w sensor_record \<Rightarrow> 'w sensor_record) \<Rightarrow> 'w init_step" where
  "alloc_field e content n f x =
     (let (ok, w) = ae_malloc e n (in_w x)
      in if \<not> ok then Some (False, x\<lparr>in_rec := f None (in_rec x), in_w := w\<rparr>)
         else case content of
                None \<Rightarrow> None
              | Some bs \<Rightarrow> Some (True, x\<lparr>in_rec := f (Some bs) (in_rec x),
                                      in_bytes := in_bytes x + of_nat n, in_w := w\<rparr>))"

definition limit_step ::
    "'w asdm_env \<Rightarrow> nat \<Rightarrow> u8 \<times> (thresholds \<Rightarrow> nat) \<times> (bytes option \<Rightarrow> 'w sensor_record \<Rightarrow> 'w sensor_record) \<Rightarrow> 'w init_step" where
  "limit_step e n = (\<lambda>(bitm, lim, f) x.
     if sr_threshold_support (in_rec x) AND bitm = 0 then Some (True, x)
     else alloc_field e (copy_n (le_bytes 2 (lim (thresholds_limit_tbl ! in_thresh x))) n) n f x)"

definition limit_fields ::
    "(u8 \<times> (thresholds \<Rightarrow> nat) \<times> (bytes option \<Rightarrow> 'w sensor_record \<Rightarrow> 'w sensor_record)) list" where
  "limit_fields =
    [(Lower_Fatal_Threshold, lowerFatalLimit, \<lambda>b r. r\<lparr>sr_lower_fatal := b\<rparr>),
     (Lower_Critical_Threshold, lowerCritLimit, \<lambda>b r. r\<lparr>sr_lower_critical := b\<rparr>),
     (Lower_Warning_Threshold, lowerWarnLimit, \<lambda>b r. r\<lparr>sr_lower_warning := b\<rparr>),
     (Upper_Fatal_Threshold, upperFatalLimit, \<lambda>b r. r\<lparr>sr_upper_fatal := b\<rparr>),
     (Upper_Critical_Threshold, upperCritLimit, \<lambda>b r. r\<lparr>sr_upper_critical := b\<rparr>),
     (Upper_Warning_Threshold, upperWarnLimit, \<lambda>b r. r\<lparr>sr_upper_warning := b\<rparr>)]"

definition limit_steps :: "'w asdm_env \<Rightarrow> u8 \<Rightarrow> bytes \<Rightarrow> nat \<Rightarrow> 'w init_step" where
  "limit_steps e repo name n x =
     (if repo = BoardInfoSDR then Some (True, x)
      else case getThresholdIdx (in_thresh x) name (length name + 1) of
             None \<Rightarrow> None
           | Some i \<Rightarrow> run_steps (map (limit_step e n) limit_fields) (x\<lparr>in_thresh := i\<rparr>))"

definition unit_step :: "'w asdm_env \<Rightarrow> u8 \<Rightarrow> 'w init_step" where
  "unit_step e repo x =
     (case sensor_unit_tbl repo of
        None \<Rightarrow> None
      | Some (ty, str) \<Rightarrow>
          run_steps
            (set_field (\<lambda>r. r\<lparr>sr_unit_type_length := ty\<rparr>) 1
             # (if ty = 0 then []
                else [alloc_field e (copy_n str (tl_len ty)) (tl_len ty) (\<lambda>b r. r\<lparr>sr_unit := b\<rparr>)])) x)"

text \<open>The default value has the size of the array it comes from.\<close>

definition default_content :: "'w sensor_meta \<Rightarrow> nat \<Rightarrow> bytes option" where
  "default_content me n = (case me_default me of None \<Rightarrow> Some (replicate n 0) | Some d \<Rightarrow> copy_n d n)"

definition max_avg_steps :: "'w asdm_env \<Rightarrow> 'w sensor_meta \<Rightarrow> nat \<Rightarrow> 'w init_step list" where
  "max_avg_steps e me n =
     (if me_sample_count me = 0 then []
      else [alloc_field e (Some (replicate n 0)) n (\<lambda>b r. r\<lparr>sr_max := b\<rparr>),
            alloc_field e (Some (replicate n 0)) n (\<lambda>b r. r\<lparr>sr_average := b\<rparr>)])"

text \<open>The supply voltage of the core is four bytes.\<close>

definition value_type :: "u8 \<Rightarrow> 'w sensor_meta \<Rightarrow> bytes \<Rightarrow> u8" where
  "value_type repo me name =
     (if repo = VoltageSDR \<and> name = chars ''vccint'' then 4 else me_value_type_length me)"

definition name_value_steps ::
    "'w asdm_env \<Rightarrow> 'w sensor_meta \<Rightarrow> nat \<Rightarrow> bytes \<Rightarrow> u8 \<Rightarrow> 'w monitor option \<Rightarrow> u8 \<Rightarrow> 'w init_step list" where
  "name_value_steps e me idx name msp func ty =
     [set_field (\<lambda>r. r\<lparr>sr_id := of_nat idx + 1, sr_msp_id := msp, sr_read_func := func\<rparr>) 1,
      set_field (\<lambda>r. r\<lparr>sr_name_type_length := SENSOR_TYPE_ASCII OR (of_nat (length name + 1) AND LENGTH_BITMASK)\<rparr>) 1,
      alloc_field e (Some (name @ [0])) (length name + 1) (\<lambda>b r. r\<lparr>sr_name := b\<rparr>),
      set_field (\<lambda>r. r\<lparr>sr_value_type_length := ty\<rparr>) 1,
      alloc_field e (default_content me (tl_len ty)) (tl_len ty) (\<lambda>b r. r\<lparr>sr_value := b\<rparr>)]"

definition sensor_steps ::
    "'w asdm_env \<Rightarrow> u8 \<Rightarrow> 'w sensor_meta \<Rightarrow> nat \<Rightarrow> nat \<Rightarrow> bytes \<Rightarrow> u8 \<Rightarrow> 'w monitor option \<Rightarrow> 'w init_step list" where
  "sensor_steps e repo me idx inst name msp func =
     (let ty = value_type repo me name in
      name_value_steps e me idx name msp func ty
      @ unit_step e repo
      # set_field (\<lambda>r. r\<lparr>sr_unit_modifier := me_unit_modifier me\<rparr>) 1
      # set_field (\<lambda>r. r\<lparr>sr_threshold_support := me_threshold me\<rparr>) 1
      # limit_steps e repo name (tl_len ty)
      # set_field (\<lambda>r. r\<lparr>sr_status := Sensor_Present_And_Valid,
                         sr_sample_count := ucast (me_sample_count me)\<rparr>) 1
      # max_avg_steps e me (tl_len ty)
      @ [set_field (\<lambda>r. r\<lparr>sr_instance := of_nat inst\<rparr>) 0])"

definition init_sensor ::
    "'w asdm_env \<Rightarrow> u8 \<Rightarrow> 'w sensor_meta \<Rightarrow> nat \<Rightarrow> nat \<Rightarrow> bytes \<times> u8 \<times> 'w monitor option \<Rightarrow> 'w init_step" where
  "init_sensor e repo me idx inst = (\<lambda>(name, msp, func) x.
     if SENSOR_NAME_MAX < length name + 1 then None
     else run_steps (sensor_steps e repo me idx inst name msp func) x)"

text \<open>Name, identifier and monitor of an instance.\<close>

definition instance_name ::
    "'w sensor_meta \<Rightarrow> nat \<Rightarrow> nat \<Rightarrow> (bytes \<times> u8 \<times> 'w monitor option) option" where
  "instance_name me inst total_inst =
     (if total_inst \<le> 1 then Some (me_name me, me_list_tbl me, me_monitor me)
      else case me_names me of
             None \<Rightarrow> None
           | Some f \<Rightarrow> (case f inst of
                 None \<Rightarrow> None
               | Some None \<Rightarrow> Some ([], 0, None)
               | Some (Some (name, msp, func)) \<Rightarrow> Some (name, case msp of None \<Rightarrow> 0 | Some k \<Rightarrow> k, func)))"

text \<open>The records of one repository under construction.\<close>

record 'w repo_state =
  rp_records :: "'w sensor_record list"
  rp_bytes :: u16
  rp_thresh :: nat
  rp_w :: 'w

definition init_instance ::
    "'w asdm_env \<Rightarrow> u8 \<Rightarrow> 'w sensor_meta \<Rightarrow> nat \<Rightarrow> nat \<Rightarrow> nat \<Rightarrow> 'w repo_state \<Rightarrow> (bool \<times> 'w repo_state) option" where
  "init_instance e repo me idx inst total_inst p = do {
     r \<leftarrow> rd (rp_records p) idx;
     nm \<leftarrow> instance_name me inst total_inst;
     (ok, x) \<leftarrow> init_sensor e repo me idx inst nm
                \<lparr>in_rec = r, in_bytes = rp_bytes p, in_thresh = rp_thresh p, in_w = rp_w p\<rparr>;
     Some (ok, \<lparr>rp_records = (rp_records p)[idx := in_rec x], rp_bytes = in_bytes x,
                rp_thresh = in_thresh x, rp_w = in_w x\<rparr>) }"

fun instances_loop ::
    "'w asdm_env \<Rightarrow> u8 \<Rightarrow> 'w sensor_meta \<Rightarrow> nat \<Rightarrow> nat list \<Rightarrow> nat \<Rightarrow> 'w repo_state \<Rightarrow> (bool \<times> nat \<times> 'w repo_state) option" where
  "instances_loop e repo me idx [] total_inst p = Some (True, idx, p)"
| "instances_loop e repo me idx (i # js) total_inst p =
     (case init_instance e repo me idx i total_inst p of
        None \<Rightarrow> None
      | Some (ok, q) \<Rightarrow> if ok then instances_loop e repo me (Suc idx) js total_inst q else Some (False, idx, q))"

text \<open>The metadata is consumed in order; it is also read past its end when the counts disagree, which
  is an access outside the block.\<close>

fun metas_loop ::
    "'w asdm_env \<Rightarrow> u8 \<Rightarrow> nat \<Rightarrow> nat \<Rightarrow> 'w sensor_meta list \<Rightarrow> 'w repo_state
      \<Rightarrow> (bool \<times> 'w sensor_meta list \<times> 'w repo_state) option" where
  "metas_loop e repo n idx [] p = (if idx < n then None else Some (True, [], p))"
| "metas_loop e repo n idx (me # ms) p =
     (if idx < n
      then let t = max 1 (unat (me_instances me))
           in case instances_loop e repo me idx [0..<t] t p of
                None \<Rightarrow> None
              | Some (ok, idx', q) \<Rightarrow> if ok then metas_loop e repo n idx' ms q else Some (False, me # ms, q)
      else Some (True, me # ms, p))"

definition pad8 :: "u16 \<Rightarrow> u16" where
  "pad8 n = (if n mod 8 \<noteq> 0 then n + (8 - n mod 8) else n)"

definition finish_repo :: "'w sdr \<Rightarrow> 'w repo_state \<Rightarrow> 'w sdr" where
  "finish_repo r p =
     r\<lparr>sdr_records := rp_records p, sdr_eor := chars ''END'' @ drop 3 (sdr_eor r),
       sdr_head := (sdr_head r)\<lparr>no_of_bytes := ucast (pad8 (rp_bytes p + 3) div 8)\<rparr>\<rparr>"

fun repos_loop ::
    "'w asdm_env \<Rightarrow> sdr_header list \<Rightarrow> nat \<Rightarrow> 'w sensor_meta list \<Rightarrow> nat \<Rightarrow> 'w asdm \<Rightarrow> (bool \<times> 'w asdm) option" where
  "repos_loop e [] i ms th s = Some (True, s)"
| "repos_loop e (h # hs) i ms th s =
     (let n = unat (no_of_records h);
          (ok, w1) = ae_malloc e (SIZEOF_RECORD e * n) (aw s);
          r0 = zero_sdr\<lparr>sdr_head := h\<rparr>
      in if \<not> ok then Some (False, s\<lparr>sdr_info := (sdr_info s)[i := r0], aw := w1\<rparr>)
         else case metas_loop e (repository_type h) n 0 ms
                     \<lparr>rp_records = replicate n zero_record, rp_bytes = 0, rp_thresh = th, rp_w = w1\<rparr> of
                None \<Rightarrow> None
              | Some (ok2, ms', p) \<Rightarrow>
                  if \<not> ok2 then Some (False, s\<lparr>sdr_info := (sdr_info s)[i := r0\<lparr>sdr_records := rp_records p\<rparr>], aw := rp_w p\<rparr>)
                  else repos_loop e hs (Suc i) ms' (rp_thresh p)
                         (s\<lparr>sdr_info := (sdr_info s)[i := finish_repo r0 p], aw := rp_w p\<rparr>))"

definition Init_Asdm :: "'w asdm_env \<Rightarrow> 'w asdm \<Rightarrow> (int \<times> 'w asdm) option" where
  "Init_Asdm e s0 = do {
     let hs = (case ae_record_count e of None \<Rightarrow> asdm_headers s0 | Some f \<Rightarrow> f (asdm_headers s0));
     let s1 = s0\<lparr>asdm_headers := hs\<rparr>;
     ((metas, n), w1) \<leftarrow> getSDRMetaData e (aw s1);
     let s2 = s1\<lparr>aw := w1,
        dynamic_sensor_count := dynamic_sensor_count s1
          + of_nat (length (filter (\<lambda>h. repository_type h \<noteq> BoardInfoSDR) hs)),
        total_sensor_count := of_nat (sum_list (map (unat \<circ> no_of_records) hs))\<rparr>;
     (case metas of
        None \<Rightarrow> Some (-1, s2)
      | Some ms \<Rightarrow>
          let (ok, w2) = ae_malloc e (length hs * SIZEOF_SDR e) w1
          in if \<not> ok then Some (-1, s2\<lparr>sdr_info := [], aw := w2\<rparr>)
             else do {
               (ok2, s3) \<leftarrow> repos_loop e hs 0 ms 0 (s2\<lparr>sdr_info := replicate (length hs) zero_sdr, aw := w2\<rparr>);
               if \<not> ok2 then Some (-1, s3)
               else Some (0, s3\<lparr>aw := ae_free e (aw s3), asdm_init_success := True\<rparr>) }) }"

section \<open>Updating the readings\<close>

text \<open>The maximum and the running average are those of the value's own width.\<close>

definition update_max_avg :: "nat \<Rightarrow> 'w sensor_record \<Rightarrow> 'w sensor_record option" where
  "update_max_avg k r = do {
     v \<leftarrow> sr_value r; m \<leftarrow> sr_max r; a \<leftarrow> sr_average r;
     vb \<leftarrow> rd_bytes v 0 k; mb \<leftarrow> rd_bytes m 0 k; ab \<leftarrow> rd_bytes a 0 k;
     m' \<leftarrow> (if le_nat mb < le_nat vb then wr_bytes m 0 vb else Some m);
     let c = unat (sr_sample_count r);
     a' \<leftarrow> wr_bytes a 0 (le_bytes k (le_nat ab - le_nat ab div c + le_nat vb div c));
     Some (r\<lparr>sr_max := Some m', sr_average := Some a'\<rparr>) }"

definition copy_reading :: "snsr_read \<Rightarrow> 'w sensor_record \<Rightarrow> 'w sensor_record option" where
  "copy_reading sn r =
     (case sr_value r of
        None \<Rightarrow> Some r
      | Some v \<Rightarrow>
          if sn_size sn = 0 then Some r
          else do { bs \<leftarrow> rd_bytes (sn_value sn) 0 (unat (sn_size sn));
                    v' \<leftarrow> wr_bytes v 0 bs;
                    Some (r\<lparr>sr_value := Some v'\<rparr>) })"

definition update_record :: "snsr_read \<Rightarrow> 'w sensor_record \<Rightarrow> 'w sensor_record option" where
  "update_record sn r = do {
     r1 \<leftarrow> copy_reading sn r;
     if sr_sample_count r1 = 0 then Some r1
     else do {
       let r2 = r1\<lparr>sr_status := sn_status sn\<rparr>;
       if sr_status r2 \<noteq> Vmc_Snsr_State_Normal then Some r2
       else do {
         r3 \<leftarrow> (if sn_size sn \<in> {4, 2, 1} then update_max_avg (unat (sn_size sn)) r2 else Some r2);
         Some (r3\<lparr>sr_sample_count := sr_sample_count r3 + 1\<rparr>) } } }"

definition Update_Sensor_Value :: "u8 \<Rightarrow> u8 \<Rightarrow> snsr_read \<Rightarrow> 'w asdm \<Rightarrow> (int \<times> 'w asdm) option" where
  "Update_Sensor_Value repoType sensorIdx sn s =
     (let ri = getSDRIndex repoType s
      in if ri = -1 then Some (-1, s)
         else if sensorIdx = 0 then None
         else do {
           d \<leftarrow> rd (sdr_info s) (nat ri);
           r \<leftarrow> rd (sdr_records d) (unat sensorIdx - 1);
           r' \<leftarrow> update_record sn r;
           Some (0, s\<lparr>sdr_info := (sdr_info s)[nat ri :=
                  d\<lparr>sdr_records := (sdr_records d)[unat sensorIdx - 1 := r']\<rparr>]\<rparr>) })"

definition run_monitor :: "'w sensor_record \<Rightarrow> 'w monitor \<Rightarrow> 'w \<Rightarrow> (snsr_read \<times> 'w) option" where
  "run_monitor r f w =
     f \<lparr>sn_instance = sr_instance r, sn_msp = sr_msp_id r, sn_value = replicate 4 0, sn_size = 0,
        sn_status = 0\<rparr> w"

text \<open>The records of a repository are visited in order; a monitor does not change the
  repositories.\<close>

fun update_records :: "nat \<Rightarrow> nat list \<Rightarrow> 'w asdm \<Rightarrow> 'w asdm option" where
  "update_records i [] s = Some s"
| "update_records i (j # js) s =
     (case rd (sdr_info s) i of
        None \<Rightarrow> None
      | Some d \<Rightarrow> (case rd (sdr_records d) j of
            None \<Rightarrow> None
          | Some r \<Rightarrow> (case sr_read_func r of
                None \<Rightarrow> update_records i js s
              | Some f \<Rightarrow> (case run_monitor r f (aw s) of
                    None \<Rightarrow> None
                  | Some (sn, w) \<Rightarrow>
                      (case Update_Sensor_Value (repository_type (sdr_head d)) (sr_id r) sn (s\<lparr>aw := w\<rparr>) of
                         None \<Rightarrow> None
                       | Some (_, s') \<Rightarrow> update_records i js s')))))"

fun update_repos :: "nat list \<Rightarrow> 'w asdm \<Rightarrow> 'w asdm option" where
  "update_repos [] s = Some s"
| "update_repos (i # js) s =
     (case rd (sdr_info s) i of
        None \<Rightarrow> None
      | Some d \<Rightarrow> (case update_records i [0..<unat (no_of_records (sdr_head d))] s of
            None \<Rightarrow> None
          | Some s' \<Rightarrow> update_repos js s'))"

text \<open>The version of the satellite controller is copied into the sensor of the given name, searched
  from the last record on; the index is a signed byte.\<close>

fun version_search :: "'w asdm_env \<Rightarrow> nat \<Rightarrow> nat \<Rightarrow> bytes \<Rightarrow> bytes \<Rightarrow> 'w asdm \<Rightarrow> 'w asdm option" where
  "version_search e i 0 name ver s = Some s"
| "version_search e i (Suc j) name ver s =
     (case rd (sdr_info s) i of
        None \<Rightarrow> None
      | Some d \<Rightarrow> (case rd (sdr_records d) j of
            None \<Rightarrow> None
          | Some r \<Rightarrow> (case sr_name r of
                None \<Rightarrow> None
              | Some nm \<Rightarrow>
                  (case Cl_SecureMemcmp (c_string nm) SENSOR_NAME_MAX (c_string name) (length name) of
                     None \<Rightarrow> None
                   | Some c \<Rightarrow>
                       if c \<noteq> 0 then version_search e i j name ver s
                       else let (ok, w) = ae_lock e (aw s)
                            in if \<not> ok then version_search e i j name ver (s\<lparr>aw := w\<rparr>)
                               else do {
                                 v \<leftarrow> sr_value r;
                                 v' \<leftarrow> wr_bytes v 0 ver;
                                 Some (s\<lparr>sdr_info := (sdr_info s)[i :=
                                          d\<lparr>sdr_records := (sdr_records d)[j := r\<lparr>sr_value := Some v'\<rparr>]\<rparr>],
                                        aw := ae_unlock e w\<rparr>) }))))"

definition update_version :: "'w asdm_env \<Rightarrow> bytes \<Rightarrow> bytes \<Rightarrow> 'w asdm \<Rightarrow> 'w asdm option" where
  "update_version e name ver s =
     (let i = getSDRIndex BoardInfoSDR s
      in if i < 0 then None
         else do { d \<leftarrow> rd (sdr_info s) (nat i);
                   let n = unat (no_of_records (sdr_head d));
                   version_search e (nat i) (if n \<le> 128 then n else 0) name ver s })"

definition Asdm_Update_Active_MSP_sensor :: "'w asdm_env \<Rightarrow> 'w asdm \<Rightarrow> 'w asdm option" where
  "Asdm_Update_Active_MSP_sensor e s = update_version e SNSRNAME_ACTIVE_SC_VER (ae_sc_version e (aw s)) s"

definition Asdm_Update_Target_MSP_sensor :: "'w asdm_env \<Rightarrow> 'w asdm \<Rightarrow> 'w asdm option" where
  "Asdm_Update_Target_MSP_sensor e s = update_version e SNSRNAME_TARGET_SC_VER (ae_fpt_version e (aw s)) s"

definition Asdm_Update_Sensors :: "'w asdm_env \<Rightarrow> 'w asdm \<Rightarrow> 'w asdm option" where
  "Asdm_Update_Sensors e s =
     (if \<not> asdm_init_success s then Some s
      else do {
        s1 \<leftarrow> Asdm_Update_Active_MSP_sensor e s;
        s2 \<leftarrow> Asdm_Update_Target_MSP_sensor e s1;
        let (ok, w) = ae_lock e (aw s2);
        if \<not> ok then Some (s2\<lparr>aw := w\<rparr>)
        else do { s3 \<leftarrow> update_repos [0..<length (asdm_headers s2)] (s2\<lparr>aw := w\<rparr>);
                  Some (s3\<lparr>aw := ae_unlock e (aw s3)\<rparr>) } })"

section \<open>Requests of the host\<close>

text \<open>A field of a record is copied with the length of its type; the response is the list of the bytes
  written to the buffer, and a response longer than the buffer is a write behind it.\<close>

definition field :: "bytes option \<Rightarrow> nat \<Rightarrow> bytes option" where
  "field p n = do { bs \<leftarrow> p; copy_n bs n }"

definition field0 :: "bytes option \<Rightarrow> nat \<Rightarrow> bytes option" where
  "field0 p n = (if n = 0 then Some [] else field p n)"

definition limit_bytes :: "'w sensor_record \<Rightarrow> u8 \<Rightarrow> bytes option \<Rightarrow> bytes option" where
  "limit_bytes r bitm p =
     (if sr_threshold_support r AND bitm = 0 then Some []
      else field p (tl_len (sr_value_type_length r)))"

definition record_bytes :: "'w sensor_record \<Rightarrow> bytes option" where
  "record_bytes r = do {
     nm \<leftarrow> field (sr_name r) (tl_len (sr_name_type_length r));
     v \<leftarrow> field0 (sr_value r) (tl_len (sr_value_type_length r));
     un \<leftarrow> field0 (sr_unit r) (tl_len (sr_unit_type_length r));
     lf \<leftarrow> limit_bytes r Lower_Fatal_Threshold (sr_lower_fatal r);
     lc \<leftarrow> limit_bytes r Lower_Critical_Threshold (sr_lower_critical r);
     lw \<leftarrow> limit_bytes r Lower_Warning_Threshold (sr_lower_warning r);
     uf \<leftarrow> limit_bytes r Upper_Fatal_Threshold (sr_upper_fatal r);
     uc \<leftarrow> limit_bytes r Upper_Critical_Threshold (sr_upper_critical r);
     uwl \<leftarrow> limit_bytes r Upper_Warning_Threshold (sr_upper_warning r);
     av \<leftarrow> limit_bytes r Sensor_Avg_Val_Support (sr_average r);
     mx \<leftarrow> limit_bytes r Sensor_Max_Val_Support (sr_max r);
     Some ([sr_id r, sr_name_type_length r] @ nm @ [sr_value_type_length r] @ v
       @ [sr_unit_type_length r] @ un @ [sr_unit_modifier r, sr_threshold_support r]
       @ lf @ lc @ lw @ uf @ uc @ uwl @ [sr_status r] @ av @ mx) }"

fun records_bytes :: "'w sensor_record list \<Rightarrow> bytes option" where
  "records_bytes [] = Some []"
| "records_bytes (r # rs) = do { a \<leftarrow> record_bytes r; b \<leftarrow> records_bytes rs; Some (a @ b) }"

definition header_bytes :: "sdr_header \<Rightarrow> bytes" where
  "header_bytes h = [repository_type h, repository_version h, no_of_records h, no_of_bytes h]"

text \<open>The result of a request: status, response buffer, response size and state.\<close>

type_synonym 'w asdm_answer = "(int \<times> bytes \<times> u16 \<times> 'w asdm) option"

definition answer :: "bytes \<Rightarrow> bytes \<Rightarrow> 'w asdm \<Rightarrow> 'w asdm_answer" where
  "answer out resp s = do { resp' \<leftarrow> wr_bytes resp 0 out; Some (0, resp', of_nat (length out), s) }"

definition Asdm_Get_SDR_Size :: "bytes \<Rightarrow> bytes \<Rightarrow> u16 \<Rightarrow> 'w asdm \<Rightarrow> 'w asdm_answer" where
  "Asdm_Get_SDR_Size req resp n s =
     (if \<not> asdm_init_success s then Some (-1, resp, n, s)
      else do {
        t \<leftarrow> rd req 1;
        let i = getSDRIndex t s;
        d \<leftarrow> (if i < 0 then None else rd (sdr_info s) (nat i));
        let sz = (4 + ucast (no_of_bytes (sdr_head d)) * 8 :: u16);
        resp' \<leftarrow> wr_bytes resp 0 ([Asdm_CC_Operation_Success, t] @ le_bytes 2 (unat sz));
        Some (0, resp', n + 4, s) })"

definition locked :: "'w asdm_env \<Rightarrow> 'w asdm \<Rightarrow> bool \<times> 'w asdm" where
  "locked e s = (let (ok, w) = ae_lock e (aw s) in (ok, s\<lparr>aw := w\<rparr>))"

definition unlocked :: "'w asdm_env \<Rightarrow> 'w asdm \<Rightarrow> 'w asdm" where
  "unlocked e s = s\<lparr>aw := ae_unlock e (aw s)\<rparr>"

definition failed_answer :: "int \<Rightarrow> bytes \<Rightarrow> 'w asdm \<Rightarrow> 'w asdm_answer" where
  "failed_answer ret resp s = do { r \<leftarrow> wr resp 0 Asdm_CC_Operation_Failed; Some (ret, r, 1, s) }"

definition Asdm_Get_Sensor_Repository ::
    "'w asdm_env \<Rightarrow> bytes \<Rightarrow> bytes \<Rightarrow> u16 \<Rightarrow> 'w asdm \<Rightarrow> 'w asdm_answer" where
  "Asdm_Get_Sensor_Repository e req resp n s = do {
     t \<leftarrow> rd req 1;
     let i = getSDRIndex t s;
     if i = -1 then Some (-1, resp, n, s)
     else do {
       let (ok, s1) = locked e s;
       if \<not> ok then failed_answer (-1) resp s1
       else do {
         d \<leftarrow> rd (sdr_info s1) (nat i);
         let k = unat (no_of_records (sdr_head d));
         body \<leftarrow> (if length (sdr_records d) < k then None else records_bytes (take k (sdr_records d)));
         answer ([Asdm_CC_Operation_Success] @ header_bytes (sdr_head d) @ body @ take 3 (sdr_eor d))
           resp (unlocked e s1) } } }"

definition sensor_data_bytes :: "'w sensor_record \<Rightarrow> bytes option" where
  "sensor_data_bytes r = do {
     let n = tl_len (sr_value_type_length r);
     v \<leftarrow> field (sr_value r) n; m \<leftarrow> field (sr_max r) n; a \<leftarrow> field (sr_average r) n;
     Some ([of_nat n] @ v @ m @ a @ [sr_status r]) }"

fun sensors_data_bytes :: "'w sensor_record list \<Rightarrow> bytes option" where
  "sensors_data_bytes [] = Some []"
| "sensors_data_bytes (r # rs) =
     do { a \<leftarrow> sensor_data_bytes r; b \<leftarrow> sensors_data_bytes rs; Some (a @ b) }"

text \<open>The payload size is a byte, and so is what is added to the header for the response size.\<close>

definition Asdm_Get_All_Sensor_Data ::
    "'w asdm_env \<Rightarrow> bytes \<Rightarrow> bytes \<Rightarrow> u16 \<Rightarrow> 'w asdm \<Rightarrow> 'w asdm_answer" where
  "Asdm_Get_All_Sensor_Data e req resp n s =
     (if \<not> asdm_init_success s then Some (-1, resp, n, s)
      else do {
        t \<leftarrow> rd req 1;
        let i = getSDRIndex t s;
        if i = -1 then Some (-1, resp, n, s)
        else do {
          d \<leftarrow> rd (sdr_info s) (nat i);
          let k = unat (no_of_records (sdr_head d));
          let (ok, s1) = locked e s;
          if \<not> ok then failed_answer 0 resp s1
          else do {
            body \<leftarrow> (if length (sdr_records d) < k then None else sensors_data_bytes (take k (sdr_records d)));
            let sz = (of_nat (length body) :: u8);
            resp' \<leftarrow> wr_bytes resp 0 ([Asdm_CC_Operation_Success, t, sz] @ body);
            Some (0, resp', 3 + ucast sz, unlocked e s1) } } })"

definition Asdm_Get_Sensor_Data ::
    "'w asdm_env \<Rightarrow> bytes \<Rightarrow> bytes \<Rightarrow> u16 \<Rightarrow> 'w asdm \<Rightarrow> 'w asdm_answer" where
  "Asdm_Get_Sensor_Data e req resp n s =
     (if \<not> asdm_init_success s then Some (-1, resp, n, s)
      else do {
        t \<leftarrow> rd req 1;
        k \<leftarrow> rd req 2;
        let i = getSDRIndex t s;
        if i = -1 then Some (-1, resp, n, s)
        else do {
          let (ok, s1) = locked e s;
          if \<not> ok then failed_answer 0 resp s1
          else do {
            d \<leftarrow> rd (sdr_info s1) (nat i);
            r \<leftarrow> rd (sdr_records d) (unat (k - 1));
            body \<leftarrow> sensor_data_bytes r;
            answer ([Asdm_CC_Operation_Success, t] @ body) resp (unlocked e s1) } } })"

definition Asdm_Process_Sensor_Request ::
    "'w asdm_env \<Rightarrow> bytes \<Rightarrow> bytes \<Rightarrow> u16 \<Rightarrow> 'w asdm \<Rightarrow> 'w asdm_answer" where
  "Asdm_Process_Sensor_Request e req resp n s =
     (if \<not> asdm_init_success s then Some (-1, resp, n, s)
      else do {
        c \<leftarrow> rd req 0;
        t \<leftarrow> rd req 1;
        if c = ASDM_CMD_GET_SIZE then Asdm_Get_SDR_Size req resp n s
        else if \<not> isRepoTypeSupported t s
        then do { r \<leftarrow> wr_bytes resp 0 [Asdm_CC_Not_Available, c]; Some (0, r, 2, s) }
        else if c = ASDM_CMD_GET_SDR then Asdm_Get_Sensor_Repository e req resp n s
        else if c = ASDM_CMD_GET_SINGLE_SENSOR_DATA then Asdm_Get_Sensor_Data e req resp n s
        else if c = ASDM_CMD_GET_ALL_SENSOR_DATA then Asdm_Get_All_Sensor_Data e req resp n s
        else Some (0, resp, n, s) })"

section \<open>The temperatures for the satellite controller\<close>

text \<open>The index into the payload is a byte.\<close>

fun i2c_payload :: "'w sensor_record list \<Rightarrow> bytes \<Rightarrow> u8 \<Rightarrow> (bytes \<times> u8) option" where
  "i2c_payload [] buf n = Some (buf, n)"
| "i2c_payload (r # rs) buf n =
     (if sr_msp_id r = 9 then i2c_payload rs buf n
      else case wr buf (unat n) (sr_msp_id r) of
             None \<Rightarrow> None
           | Some b1 \<Rightarrow>
               (let k = sr_value_type_length r AND LENGTH_BITMASK
                in case wr b1 (unat (n + 1)) k of
                     None \<Rightarrow> None
                   | Some b2 \<Rightarrow> (case field (sr_value r) (unat k) of
                         None \<Rightarrow> None
                       | Some v \<Rightarrow> (case wr_bytes b2 (unat (n + 2)) v of
                             None \<Rightarrow> None
                           | Some b3 \<Rightarrow> i2c_payload rs b3 (n + 2 + k)))))"

definition Asdm_Send_I2C_Sensors_SC :: "bytes \<Rightarrow> 'w asdm \<Rightarrow> (bytes \<times> u8) option" where
  "Asdm_Send_I2C_Sensors_SC buf s =
     (let i = getSDRIndex TemperatureSDR s
      in if i < 0 then Some (buf, 0)
         else if \<not> asdm_init_success s then Some (buf, 0)
         else do {
           d \<leftarrow> rd (sdr_info s) (nat i);
           let k = unat (no_of_records (sdr_head d));
           if length (sdr_records d) < k then None else i2c_payload (take k (sdr_records d)) buf 0 })"

definition Get_Asdm_SDR_Repo_Size :: "'w asdm \<Rightarrow> u8" where
  "Get_Asdm_SDR_Repo_Size s = of_nat (length (asdm_headers s))"

definition Get_Asdm_Total_Sensor_Count :: "'w asdm \<Rightarrow> u8" where
  "Get_Asdm_Total_Sensor_Count s = total_sensor_count s"

definition Get_Asdm_Dynamic_Sensor_Count :: "'w asdm \<Rightarrow> u8" where
  "Get_Asdm_Dynamic_Sensor_Count s = dynamic_sensor_count s"

end
