(* ===== verification/Cl_Uart.thy ===== *)
theory Cl_Uart
  imports Vmc_Base
begin

text \<open>Model of \<open>common/cl_uart_rtos.c\<close>: a UART in interrupt mode behind two mutexes and two event
  groups.  FreeRTOS and the vendor's UART driver are the environment \<open>uart_env\<close>, over a state \<open>'w\<close>.
  While a task waits for an event group the interrupts \<open>ue_irqs\<close> arrive, and the handler of this
  file runs for each.  \<open>ue_rx\<close> is what the driver has stored in the receive buffer since it was
  set; it fills the buffer in place, so the code looks at it after the wait.  Handles are words and
  the null handle is 0; the pointers the functions take are addresses of variables.  The debug build
  (\<open>VMC_DEBUG\<close>) is not modelled.\<close>

section \<open>Environment and state\<close>

datatype uart_event =
    EVENT_SENT_DATA
  | EVENT_RECV_DATA
  | EVENT_RECV_TOUT
  | EVENT_RECV_ERROR
  | EVENT_PARE_FRAME_BRKE
  | EVENT_RECV_ORERR
  | EVENT_OTHER

record 'w uart_env =
  ue_mutex_create :: "'w \<Rightarrow> u32 \<times> 'w"
  ue_mutex_delete :: "u32 \<Rightarrow> 'w \<Rightarrow> 'w"
  ue_event_create :: "'w \<Rightarrow> u32 \<times> 'w"
  ue_event_delete :: "u32 \<Rightarrow> 'w \<Rightarrow> 'w"
  ue_take :: "u32 \<Rightarrow> nat option \<Rightarrow> 'w \<Rightarrow> bool \<times> 'w"
  ue_give :: "u32 \<Rightarrow> 'w \<Rightarrow> bool \<times> 'w"
  ue_set_bits_isr :: "u32 \<Rightarrow> u32 \<Rightarrow> 'w \<Rightarrow> (bool \<times> bool) \<times> 'w"
  ue_yield_isr :: "bool \<Rightarrow> 'w \<Rightarrow> 'w"
  ue_wait_bits :: "u32 \<Rightarrow> u32 \<Rightarrow> nat option \<Rightarrow> 'w \<Rightarrow> u32 \<times> 'w"
  ue_irqs :: "'w \<Rightarrow> (uart_event \<times> u32) list \<times> 'w"
  ue_irq_enable :: "u8 \<Rightarrow> 'w \<Rightarrow> 'w"
  ue_irq_disable :: "u8 \<Rightarrow> 'w \<Rightarrow> 'w"
  ue_lookup :: "u16 \<Rightarrow> 'w \<Rightarrow> u32 option"
  ue_cfg_init :: "u32 \<Rightarrow> 'w \<Rightarrow> int \<times> 'w"
  ue_read_reg :: "u32 \<Rightarrow> u32 \<Rightarrow> 'w \<Rightarrow> u32 \<times> 'w"
  ue_write_reg :: "u32 \<Rightarrow> u32 \<Rightarrow> u32 \<Rightarrow> 'w \<Rightarrow> 'w"
  ue_set_handler :: "'w \<Rightarrow> 'w"
  ue_rx_threshold :: "u32 \<Rightarrow> 'w \<Rightarrow> 'w"
  ue_tx_threshold :: "u32 \<Rightarrow> 'w \<Rightarrow> 'w"
  ue_interrupt_mask :: "u32 \<Rightarrow> 'w \<Rightarrow> 'w"
  ue_oper_mode_normal :: "'w \<Rightarrow> 'w"
  ue_install_handler :: "u16 \<Rightarrow> 'w \<Rightarrow> 'w"
  ue_send :: "bytes \<Rightarrow> 'w \<Rightarrow> 'w"
  ue_recv :: "u32 \<Rightarrow> 'w \<Rightarrow> u32 \<times> 'w"
  ue_rx :: "'w \<Rightarrow> bytes"
  ue_delay_ms :: "nat \<Rightarrow> 'w \<Rightarrow> 'w"
  UARTPSV_DEVICE_ID :: "u16 \<times> u16"
  UARTPSV_INTR :: "u8 \<times> u8"
  UARTLCR_OFFSET :: u32
  UARTLCR_PARITY_EVEN :: u32
  UARTLCR_PARITY_MASK :: u32
  UARTIFLS_RXIFLSEL_1_2 :: u32
  UARTIFLS_TXIFLSEL_1_8 :: u32
  UARTIMSC_MASKS :: "u32 list"

record 'w uart =
  rxSem :: u32
  txSem :: u32
  rxEvent :: u32
  txEvent :: u32
  cb_received :: u32
  cb_sent :: u32
  cb_errors :: u32
  cb_event :: uart_event
  uart_IRQ_ID :: u8
  uw :: 'w

definition UART_RTOS_COMPLETE :: u32 where "UART_RTOS_COMPLETE = 1"
definition UART_RTOS_RX_ERROR :: u32 where "UART_RTOS_RX_ERROR = 2"

datatype UART_STATUS =
    UART_SUCCESS
  | UART_ERROR_INIT
  | UART_ERROR_SEMAPHORE
  | UART_ERROR_EVENT
  | UART_ERROR_TIMEOUT
  | UART_INVALID_HANDLE
  | UART_ERROR_GENERIC

fun UART_STATUS_num :: "UART_STATUS \<Rightarrow> int" where
  "UART_STATUS_num UART_SUCCESS = 0"
| "UART_STATUS_num UART_ERROR_INIT = -1"
| "UART_STATUS_num UART_ERROR_SEMAPHORE = -2"
| "UART_STATUS_num UART_ERROR_EVENT = -3"
| "UART_STATUS_num UART_ERROR_TIMEOUT = -4"
| "UART_STATUS_num UART_INVALID_HANDLE = -5"
| "UART_STATUS_num UART_ERROR_GENERIC = -100"

section \<open>The interrupt handler\<close>

definition set_bits_isr :: "'w uart_env \<Rightarrow> u32 \<Rightarrow> u32 \<Rightarrow> 'w uart \<Rightarrow> 'w uart" where
  "set_bits_isr e ev bits u =
     (let ((ok, woken), w) = ue_set_bits_isr e ev bits (uw u)
      in u\<lparr>uw := if ok then ue_yield_isr e woken w else w\<rparr>)"

fun UART_RTOS_Handler :: "'w uart_env \<Rightarrow> uart_event \<Rightarrow> u32 \<Rightarrow> 'w uart \<Rightarrow> 'w uart" where
  "UART_RTOS_Handler e EVENT_SENT_DATA n u =
     set_bits_isr e (txEvent u) UART_RTOS_COMPLETE (u\<lparr>cb_event := EVENT_SENT_DATA, cb_sent := n\<rparr>)"
| "UART_RTOS_Handler e EVENT_RECV_DATA n u =
     set_bits_isr e (rxEvent u) UART_RTOS_COMPLETE (u\<lparr>cb_event := EVENT_RECV_DATA, cb_received := n\<rparr>)"
| "UART_RTOS_Handler e EVENT_RECV_TOUT n u =
     set_bits_isr e (rxEvent u) UART_RTOS_COMPLETE (u\<lparr>cb_event := EVENT_RECV_TOUT, cb_received := n\<rparr>)"
| "UART_RTOS_Handler e EVENT_OTHER n u = u\<lparr>cb_event := EVENT_OTHER\<rparr>"
| "UART_RTOS_Handler e ev n u =
     set_bits_isr e (rxEvent u) UART_RTOS_RX_ERROR
       (u\<lparr>cb_event := ev, cb_received := n, cb_errors := cb_errors u + 1\<rparr>)"

definition wait_event :: "'w uart_env \<Rightarrow> u32 \<Rightarrow> u32 \<Rightarrow> nat option \<Rightarrow> 'w uart \<Rightarrow> u32 \<times> 'w uart" where
  "wait_event e ev bits ticks u =
     (let (irqs, w) = ue_irqs e (uw u);
          u1 = fold (\<lambda>(k, n). UART_RTOS_Handler e k n) irqs (u\<lparr>uw := w\<rparr>);
          (r, w2) = ue_wait_bits e ev bits ticks (uw u1)
      in (r, u1\<lparr>uw := w2\<rparr>))"

section \<open>Start and stop\<close>

definition even_parity_port :: "'w uart_env \<Rightarrow> u16 \<Rightarrow> ePlatformType \<Rightarrow> bool" where
  "even_parity_port e DeviceId curr_platform \<longleftrightarrow>
     (curr_platform = eVCK5000 \<and> DeviceId = fst (UARTPSV_DEVICE_ID e))
     \<or> (curr_platform = eV70 \<and> DeviceId = snd (UARTPSV_DEVICE_ID e))"

definition UART_Config :: "'w uart_env \<Rightarrow> u16 \<Rightarrow> u16 \<Rightarrow> ePlatformType \<Rightarrow> 'w uart \<Rightarrow> int \<times> 'w uart" where
  "UART_Config e DeviceId UartIntrId curr_platform u =
     (case ue_lookup e DeviceId (uw u) of
        None \<Rightarrow> (XST_FAILURE, u)
      | Some base \<Rightarrow>
          let (st, w1) = ue_cfg_init e base (uw u)
          in if st \<noteq> XST_SUCCESS then (XST_FAILURE, u\<lparr>uw := w1\<rparr>)
             else
               let w2 = (if even_parity_port e DeviceId curr_platform
                         then let (lcr, w) = ue_read_reg e base (UARTLCR_OFFSET e) w1
                              in ue_write_reg e base (UARTLCR_OFFSET e)
                                   (lcr OR UARTLCR_PARITY_EVEN e OR UARTLCR_PARITY_MASK e) w
                         else w1);
                   w3 = ue_tx_threshold e (UARTIFLS_TXIFLSEL_1_8 e)
                          (ue_rx_threshold e (UARTIFLS_RXIFLSEL_1_2 e) (ue_set_handler e w2));
                   w4 = ue_oper_mode_normal e (ue_interrupt_mask e (fold (OR) (UARTIMSC_MASKS e) 0) w3);
                   w5 = ue_irq_enable e (ucast UartIntrId) (ue_install_handler e UartIntrId w4)
               in (XST_SUCCESS, u\<lparr>uart_IRQ_ID := ucast UartIntrId, uw := w5\<rparr>))"

definition UART_RTOS_Init :: "'w uart_env \<Rightarrow> u16 \<Rightarrow> u16 \<Rightarrow> ePlatformType \<Rightarrow> 'w uart \<Rightarrow> int \<times> 'w uart" where
  "UART_RTOS_Init e DeviceId UartIntrId curr_platform u =
     (let (rx, w1) = ue_mutex_create e (uw u); u1 = u\<lparr>rxSem := rx, uw := w1\<rparr>
      in if rx = 0 then (UART_STATUS_num UART_ERROR_INIT, u1)
         else let (tx, w2) = ue_mutex_create e w1; u2 = u1\<lparr>txSem := tx, uw := w2\<rparr>
         in if tx = 0 then (UART_STATUS_num UART_ERROR_INIT, u2\<lparr>uw := ue_mutex_delete e rx w2\<rparr>)
         else let (re, w3) = ue_event_create e w2; u3 = u2\<lparr>rxEvent := re, uw := w3\<rparr>
         in if re = 0
            then (UART_STATUS_num UART_ERROR_INIT,
                  u3\<lparr>uw := ue_mutex_delete e tx (ue_mutex_delete e rx w3)\<rparr>)
         else let (te, w4) = ue_event_create e w3; u4 = u3\<lparr>txEvent := te, uw := w4\<rparr>
         in if te = 0
            then (UART_STATUS_num UART_ERROR_INIT,
                  u4\<lparr>uw := ue_event_delete e re (ue_mutex_delete e tx (ue_mutex_delete e rx w4))\<rparr>)
         else UART_Config e DeviceId UartIntrId curr_platform
                (u4\<lparr>cb_received := 0, cb_sent := 0, cb_errors := 0, cb_event := EVENT_OTHER\<rparr>))"

definition UART_RTOS_Deinit :: "'w uart_env \<Rightarrow> 'w uart \<Rightarrow> int \<times> 'w uart" where
  "UART_RTOS_Deinit e u =
     (let w1 = ue_event_delete e (txEvent u) (ue_event_delete e (rxEvent u) (uw u));
          (_, w2) = ue_give e (txSem u) w1;
          (_, w3) = ue_give e (rxSem u) w2
      in (XST_SUCCESS, u\<lparr>uw := ue_mutex_delete e (rxSem u) (ue_mutex_delete e (txSem u) w3)\<rparr>))"

definition UART_RTOS_Enable :: "'w uart_env \<Rightarrow> u16 \<Rightarrow> u8 \<Rightarrow> ePlatformType \<Rightarrow> 'w uart \<Rightarrow> int \<times> 'w uart" where
  "UART_RTOS_Enable e uart_ID irq curr_platform u =
     (let (st, u1) = UART_RTOS_Init e uart_ID (ucast irq) curr_platform u
      in if st \<noteq> XST_SUCCESS then (XST_FAILURE, u1) else (XST_SUCCESS, u1))"

definition UART_RTOS_Disable :: "'w uart_env \<Rightarrow> 'w uart \<Rightarrow> int \<times> 'w uart" where
  "UART_RTOS_Disable e u = UART_RTOS_Deinit e u"

text \<open>The board of the VCK5000 has the two ports the other way round.\<close>

definition UART_RTOS_Debug_Enable :: "'w uart_env \<Rightarrow> ePlatformType \<Rightarrow> 'w uart \<Rightarrow> (int \<times> 'w uart) option" where
  "UART_RTOS_Debug_Enable e curr_platform u =
     (let pick = (if curr_platform = eVCK5000 then snd else fst);
          pick8 = (if curr_platform = eVCK5000 then snd else fst);
          (lock, w) = ue_mutex_create e (uw u)
      in if lock = 0 then None
         else Some (UART_RTOS_Enable e (pick (UARTPSV_DEVICE_ID e)) (pick8 (UARTPSV_INTR e))
                      curr_platform (u\<lparr>uw := w\<rparr>)))"

definition UART_VMC_SC_Enable :: "'w uart_env \<Rightarrow> ePlatformType \<Rightarrow> 'w uart \<Rightarrow> int \<times> 'w uart" where
  "UART_VMC_SC_Enable e curr_platform u =
     (if curr_platform = eVCK5000
      then UART_RTOS_Enable e (fst (UARTPSV_DEVICE_ID e)) (fst (UARTPSV_INTR e)) curr_platform u
      else UART_RTOS_Enable e (snd (UARTPSV_DEVICE_ID e)) (snd (UARTPSV_INTR e)) curr_platform u)"

section \<open>Locks and interrupts\<close>

definition uart_shm_acquire :: "'w uart_env \<Rightarrow> u32 \<Rightarrow> 'w uart \<Rightarrow> bool \<times> 'w uart" where
  "uart_shm_acquire e sem u = (let (ok, w) = ue_take e sem (Some 0) (uw u) in (ok, u\<lparr>uw := w\<rparr>))"

definition uart_shm_release :: "'w uart_env \<Rightarrow> u32 \<Rightarrow> 'w uart \<Rightarrow> bool \<times> 'w uart" where
  "uart_shm_release e sem u = (let (ok, w) = ue_give e sem (uw u) in (ok, u\<lparr>uw := w\<rparr>))"

definition uart_enable_interrupt :: "'w uart_env \<Rightarrow> u8 \<Rightarrow> 'w uart \<Rightarrow> 'w uart" where
  "uart_enable_interrupt e n u = u\<lparr>uw := ue_irq_enable e n (uw u)\<rparr>"

definition uart_disable_interrupt :: "'w uart_env \<Rightarrow> u8 \<Rightarrow> 'w uart \<Rightarrow> 'w uart" where
  "uart_disable_interrupt e n u = u\<lparr>uw := ue_irq_disable e n (uw u)\<rparr>"

section \<open>Sending and receiving\<close>

text \<open>More than a threshold of bytes are waited for.\<close>

definition wait_sent :: "'w uart_env \<Rightarrow> nat \<Rightarrow> 'w uart \<Rightarrow> UART_STATUS \<times> 'w uart" where
  "wait_sent e n u =
     (if of_nat n \<ge> UARTIFLS_TXIFLSEL_1_8 e + 2
      then let (ev, u') = wait_event e (txEvent u) UART_RTOS_COMPLETE None u
           in (if ev AND UART_RTOS_COMPLETE = 0 then UART_ERROR_EVENT else UART_SUCCESS, u')
      else (UART_SUCCESS, u))"

definition UART_RTOS_Send :: "'w uart_env \<Rightarrow> bytes \<Rightarrow> 'w uart \<Rightarrow> UART_STATUS \<times> 'w uart" where
  "UART_RTOS_Send e buf u =
     (if buf = [] then (UART_ERROR_GENERIC, u)
      else let (ok, u1) = uart_shm_acquire e (txSem u) u
           in if \<not> ok then (UART_ERROR_SEMAPHORE, u1)
              else let (st, u3) = wait_sent e (length buf) (u1\<lparr>uw := ue_send e buf (uw u1)\<rparr>);
                       (rel, u4) = uart_shm_release e (txSem u3) u3
                   in if \<not> rel then (UART_ERROR_SEMAPHORE, u4) else (st, u4))"

definition UART_RTOS_Receive_Set_Buffer :: "'w uart_env \<Rightarrow> u32 \<Rightarrow> 'w uart \<Rightarrow> UART_STATUS \<times> u32 option \<times> 'w uart" where
  "UART_RTOS_Receive_Set_Buffer e n u =
     (let (ok, u1) = uart_shm_acquire e (rxSem u) u
      in if \<not> ok then (UART_ERROR_SEMAPHORE, None, u1)
         else let u2 = uart_disable_interrupt e (uart_IRQ_ID u1) u1;
                  (received, w) = ue_recv e n (uw u2)
              in (UART_SUCCESS, Some received, uart_enable_interrupt e (uart_IRQ_ID u2) (u2\<lparr>uw := w\<rparr>)))"

text \<open>The count is returned only on the paths that store it.\<close>

definition UART_RTOS_Receive_Wait :: "'w uart_env \<Rightarrow> nat \<Rightarrow> 'w uart \<Rightarrow> UART_STATUS \<times> u32 option \<times> 'w uart" where
  "UART_RTOS_Receive_Wait e timeout u =
     (let (ev, u1) = wait_event e (rxEvent u) (UART_RTOS_COMPLETE OR UART_RTOS_RX_ERROR) (Some timeout) u;
          u2 = uart_disable_interrupt e (uart_IRQ_ID u1) u1;
          (st, received) = (if ev AND UART_RTOS_COMPLETE \<noteq> 0 then (UART_SUCCESS, Some (cb_received u2))
                            else if ev AND UART_RTOS_RX_ERROR \<noteq> 0 then (UART_ERROR_EVENT, Some 0)
                            else (UART_ERROR_TIMEOUT, None));
          (rel, u3) = uart_shm_release e (rxSem u2) u2
      in if \<not> rel then (UART_ERROR_SEMAPHORE, received, u3) else (st, received, u3))"

end
