(* ===== verification/Vmc_Sc_Comms.thy ===== *)
theory Vmc_Sc_Comms
  imports Cl_Uart
begin

text \<open>Model of \<open>vmc/vmc_sc_comms.c\<close>: the exchange of framed packets with the satellite controller
  (SC) over the UART, and what its replies change.  The globals of the file are the record
  \<open>vmc_sc\<close>; the lock \<open>vmc_sc_lock\<close>, the temperatures of the sensor repository and the platform
  functions behind pointers are the environment \<open>sc_env\<close>.  \<open>None\<close> is an access outside an array or
  a failed assertion.\<close>

section \<open>State and constants\<close>

record sc_vmc_data =
  boardInfoStatus :: bool
  voltSensorLength :: u8
  powerSensorLength :: u8
  tempSensorLength :: u8
  powerMode :: u8
  configmode :: u8
  scVersion :: bytes
  VCCINT_sensor_value :: u32
  sensor_values :: "u16 list"

record 'w vmc_sc =
  sc_uart :: "'w uart"
  sc_data :: sc_vmc_data
  g_scData :: bytes
  isPacketReceived :: bool
  scPayload :: bytes
  tx_buf :: bytes
  rx_buf :: bytes
  vmc_active_resp_len :: u8
  is_SC_active :: bool
  isPowerModeActive :: bool
  getSensorRespLen :: bool
  is_boardInfo_sentTo_SC :: bool
  platform_specific_msgid_count :: u8
  msg_id_handler_ptr :: "u8 list option"

record 'w sc_env = "'w uart_env" +
  se_lock :: "'w \<Rightarrow> bool \<times> 'w"
  se_unlock :: "'w \<Rightarrow> 'w"
  se_i2c_sensors :: "bytes \<Rightarrow> 'w \<Rightarrow> ((bytes \<times> u8) \<times> 'w) option"
  se_fetch_boardinfo :: "(bytes \<Rightarrow> 'w \<Rightarrow> ((bytes \<times> int) \<times> 'w) option) option"
  se_platform :: ePlatformType
  se_sc_comms :: "('w vmc_sc \<Rightarrow> 'w vmc_sc option) option"

definition on_uart :: "('w uart \<Rightarrow> 'a \<times> 'w uart) \<Rightarrow> 'w vmc_sc \<Rightarrow> 'a \<times> 'w vmc_sc" where
  "on_uart f s = (let (r, u) = f (sc_uart s) in (r, s\<lparr>sc_uart := u\<rparr>))"

definition sc_world :: "'w vmc_sc \<Rightarrow> 'w" where "sc_world s = uw (sc_uart s)"

definition put_world :: "'w \<Rightarrow> 'w vmc_sc \<Rightarrow> 'w vmc_sc" where
  "put_world w s = s\<lparr>sc_uart := (sc_uart s)\<lparr>uw := w\<rparr>\<rparr>"

definition sc_delay_ms :: "('w, 'e) sc_env_scheme \<Rightarrow> nat \<Rightarrow> 'w vmc_sc \<Rightarrow> 'w vmc_sc" where
  "sc_delay_ms e ms s = put_world (ue_delay_ms e ms (sc_world s)) s"

abbreviation STX :: u8 where "STX \<equiv> 0x02"
abbreviation ETX :: u8 where "ETX \<equiv> 0x03"
abbreviation ESCAPE_CHAR :: u8 where "ESCAPE_CHAR \<equiv> 0x5C"

abbreviation MSP432_COMMS_NO_FLAG :: u8 where "MSP432_COMMS_NO_FLAG \<equiv> 0x00"
abbreviation SC_COMMS_RX_VOLT_SNSR :: u8 where "SC_COMMS_RX_VOLT_SNSR \<equiv> 0x06"
abbreviation SC_COMMS_RX_POWER_SNSR :: u8 where "SC_COMMS_RX_POWER_SNSR \<equiv> 0x07"
abbreviation SC_COMMS_RX_TEMP_SNSR :: u8 where "SC_COMMS_RX_TEMP_SNSR \<equiv> 0x08"
abbreviation SC_COMMS_RX_VOLT_SNSR_RESP :: u8 where "SC_COMMS_RX_VOLT_SNSR_RESP \<equiv> 0x86"
abbreviation SC_COMMS_RX_POWER_SNSR_RESP :: u8 where "SC_COMMS_RX_POWER_SNSR_RESP \<equiv> 0x87"
abbreviation SC_COMMS_RX_TEMP_SNSR_RESP :: u8 where "SC_COMMS_RX_TEMP_SNSR_RESP \<equiv> 0x88"
abbreviation MSP432_COMMS_MSG_GOOD :: u8 where "MSP432_COMMS_MSG_GOOD \<equiv> 0xFE"
abbreviation MSP432_COMMS_MSG_ERR :: u8 where "MSP432_COMMS_MSG_ERR \<equiv> 0xFF"
abbreviation MSP432_COMMS_VMC_ACTIVE_REQ :: u8 where "MSP432_COMMS_VMC_ACTIVE_REQ \<equiv> 0xF0"
abbreviation VMC_VERSION_POWERMODE_REQ :: u8 where "VMC_VERSION_POWERMODE_REQ \<equiv> 0xF1"
abbreviation VMC_VERSION_POWERMODE_RESP :: u8 where "VMC_VERSION_POWERMODE_RESP \<equiv> 0xF2"
abbreviation SC_COMMS_TX_I2C_SNSR :: u8 where "SC_COMMS_TX_I2C_SNSR \<equiv> 0xF3"
abbreviation SC_COMMS_RX_I2C_SNSR_RESP :: u8 where "SC_COMMS_RX_I2C_SNSR_RESP \<equiv> 0xF4"
abbreviation VMC_GET_RESP_SIZE_REQ :: u8 where "VMC_GET_RESP_SIZE_REQ \<equiv> 0xF5"
abbreviation VMC_GET_RESP_SIZE_RESP :: u8 where "VMC_GET_RESP_SIZE_RESP \<equiv> 0xF6"
abbreviation SC_COMMS_TX_BOARD_INFO :: u8 where "SC_COMMS_TX_BOARD_INFO \<equiv> 0xF7"
abbreviation SC_COMMS_RX_BOARD_INFO_RESP :: u8 where "SC_COMMS_RX_BOARD_INFO_RESP \<equiv> 0xF8"

definition MSP432_COMMS_GENERAL_RESP_LEN :: u8 where "MSP432_COMMS_GENERAL_RESP_LEN = 0x0B"
definition RAW_PAYLOAD_LENGTH :: u8 where "RAW_PAYLOAD_LENGTH = 9"
definition MAX_VMC_SC_UART_BUF_SIZE :: nat where "MAX_VMC_SC_UART_BUF_SIZE = 255"
definition MAX_RETRY_TO_CHK_SC_ACTIVE :: nat where "MAX_RETRY_TO_CHK_SC_ACTIVE = 10"
definition COMMS_PAYLOAD_START_INDEX :: nat where "COMMS_PAYLOAD_START_INDEX = 5"

abbreviation (input) eSC_VCCINT_I :: nat where "eSC_VCCINT_I \<equiv> 5"
abbreviation (input) eSC_VCCINT_TEMP :: nat where "eSC_VCCINT_TEMP \<equiv> 9"
abbreviation (input) eSC_BMC_VERSION :: nat where "eSC_BMC_VERSION \<equiv> 11"
abbreviation (input) eSC_POWER_MODE :: nat where "eSC_POWER_MODE \<equiv> 12"
definition eSC_SENSOR_ID_MAX :: nat where "eSC_SENSOR_ID_MAX = 14"

definition zero_buf :: bytes where "zero_buf = replicate MAX_VMC_SC_UART_BUF_SIZE 0"

section \<open>Reading numbers\<close>

definition vmcU8ToU16 :: "bytes \<Rightarrow> nat \<Rightarrow> u16 option" where
  "vmcU8ToU16 p i = do {
     a \<leftarrow> rd p i; b \<leftarrow> rd p (i + 1);
     Some (ucast a OR push_bit 8 (ucast b)) }"

definition vmcU8ToU32 :: "bytes \<Rightarrow> nat \<Rightarrow> u32 option" where
  "vmcU8ToU32 p i = do {
     a \<leftarrow> rd p i; b \<leftarrow> rd p (i + 1); c \<leftarrow> rd p (i + 2); d \<leftarrow> rd p (i + 3);
     Some (ucast a OR push_bit 8 (ucast b) OR push_bit 16 (ucast c) OR push_bit 24 (ucast d)) }"

definition vmcU8ToU64 :: "bytes \<Rightarrow> nat \<Rightarrow> u64 option" where
  "vmcU8ToU64 p i = do {
     a \<leftarrow> rd p i; b \<leftarrow> rd p (i + 1); c \<leftarrow> rd p (i + 2);
     d \<leftarrow> rd p (i + 3); f \<leftarrow> rd p (i + 4); g \<leftarrow> rd p (i + 5);
     Some (ucast g OR push_bit 8 (ucast f) OR push_bit 16 (ucast d) OR push_bit 24 (ucast c)
           OR push_bit 32 (ucast b) OR push_bit 40 (ucast a)) }"

section \<open>Checking a received packet\<close>

text \<open>The length is unsigned: below four bytes the end of the body is not below the start.\<close>

fun add_body :: "bytes \<Rightarrow> nat \<Rightarrow> u16 \<Rightarrow> u32 \<Rightarrow> u16 \<Rightarrow> u16 option" where
  "add_body buf 0 off lim csum = Some csum"
| "add_body buf (Suc n) off lim csum =
     (if ucast off < lim
      then do { b \<leftarrow> rd buf (unat off); add_body buf n (off + 1) lim (csum + ucast b) }
      else Some csum)"

definition VMC_Validate_SC_Packet :: "bytes \<Rightarrow> u32 \<Rightarrow> bool option" where
  "VMC_Validate_SC_Packet buf len = do {
     last \<leftarrow> rd buf (unat (len - 1));
     esc \<leftarrow> rd buf (unat (len - 2));
     if last = ETX \<and> esc = ESCAPE_CHAR
     then do {
       msg \<leftarrow> rd buf 2; flag \<leftarrow> rd buf 3; lo \<leftarrow> rd buf 4;
       payload_len \<leftarrow> (if flag = MSP432_COMMS_NO_FLAG then Some (ucast lo)
                      else map_option (\<lambda>hi. push_bit 8 (ucast hi) OR ucast lo) (rd buf 5));
       let start = (if flag = MSP432_COMMS_NO_FLAG then 5 else 6 :: u16);
       calc \<leftarrow> add_body buf (unat payload_len) start (len - 4) (ucast msg + ucast flag + payload_len);
       h \<leftarrow> rd buf (unat (len - 3)); l \<leftarrow> rd buf (unat (len - 4));
       Some ((push_bit 8 (ucast h) OR ucast l :: u16) = calc) }
     else Some False }"

section \<open>What a reply changes\<close>

definition VMC_Update_Sensor_Length :: "bytes \<Rightarrow> sc_vmc_data \<Rightarrow> sc_vmc_data option" where
  "VMC_Update_Sensor_Length p d = do {
     k \<leftarrow> rd p 0;
     if k = SC_COMMS_RX_VOLT_SNSR
     then do { n \<leftarrow> rd p 1; Some (d\<lparr>voltSensorLength := n + RAW_PAYLOAD_LENGTH\<rparr>) }
     else if k = SC_COMMS_RX_POWER_SNSR
     then do { n \<leftarrow> rd p 1; Some (d\<lparr>powerSensorLength := n + RAW_PAYLOAD_LENGTH\<rparr>) }
     else if k = SC_COMMS_RX_TEMP_SNSR
     then do { n \<leftarrow> rd p 1; Some (d\<lparr>tempSensorLength := n + RAW_PAYLOAD_LENGTH\<rparr>) }
     else Some d }"

text \<open>The length is a byte, so the 16-bit index of the two loops cannot wrap around.\<close>

definition version_record :: "bytes \<Rightarrow> nat \<Rightarrow> sc_vmc_data \<Rightarrow> sc_vmc_data option" where
  "version_record p i d = do {
     k \<leftarrow> rd p i;
     if unat k = eSC_BMC_VERSION
     then do { a \<leftarrow> rd p (i + 2); b \<leftarrow> rd p (i + 3); c \<leftarrow> rd p (i + 4);
               Some (d\<lparr>scVersion := (scVersion d)[0 := a, 1 := b, 2 := c]\<rparr>) }
     else if unat k = eSC_POWER_MODE
     then do { m \<leftarrow> rd p (i + 2); Some (d\<lparr>powerMode := m\<rparr>) }
     else Some d }"

function version_loop :: "bytes \<Rightarrow> nat \<Rightarrow> nat \<Rightarrow> sc_vmc_data \<Rightarrow> sc_vmc_data option" where
  "version_loop p len i d =
     (if i < len
      then case version_record p i d of
             None \<Rightarrow> None
           | Some d' \<Rightarrow> (case rd p (i + 1) of
                          None \<Rightarrow> None
                        | Some n \<Rightarrow> version_loop p len (i + 2 + unat n) d')
      else Some d)"
  by auto
termination by (relation "measure (\<lambda>(p, len, i, d). len - i)") auto

declare version_loop.simps [simp del]

definition VMC_Update_Version_PowerMode :: "u16 \<Rightarrow> bytes \<Rightarrow> sc_vmc_data \<Rightarrow> sc_vmc_data option" where
  "VMC_Update_Version_PowerMode len p d = version_loop p (unat len) 0 d"

definition store_value :: "u8 \<Rightarrow> u32 \<Rightarrow> sc_vmc_data \<Rightarrow> sc_vmc_data option" where
  "store_value k v d =
     (if unat k = eSC_VCCINT_I then Some (d\<lparr>VCCINT_sensor_value := v\<rparr>)
      else map_option (\<lambda>vs. d\<lparr>sensor_values := vs\<rparr>) (wr (sensor_values d) (unat k) (ucast v)))"

definition VMC_StoreSensor_Value ::
    "('w, 'e) sc_env_scheme \<Rightarrow> u8 \<Rightarrow> u32 \<Rightarrow> 'w vmc_sc \<Rightarrow> 'w vmc_sc option" where
  "VMC_StoreSensor_Value e k v s =
     (let (ok, w) = se_lock e (sc_world s); s1 = put_world w s
      in if ok then do { d \<leftarrow> store_value k v (sc_data s1);
                         Some (put_world (se_unlock e (sc_world s1)) (s1\<lparr>sc_data := d\<rparr>)) }
         else Some s1)"

definition sensor_number :: "bytes \<Rightarrow> nat \<Rightarrow> u8 \<Rightarrow> u32 option option" where
  "sensor_number p i n =
     (if n = 1 then map_option (\<lambda>b. Some (ucast b)) (rd p i)
      else if n = 2 then map_option (\<lambda>v. Some (ucast v)) (vmcU8ToU16 p i)
      else if n = 4 then map_option Some (vmcU8ToU32 p i)
      else Some None)"

function sensors_loop ::
    "('w, 'e) sc_env_scheme \<Rightarrow> bytes \<Rightarrow> nat \<Rightarrow> nat \<Rightarrow> 'w vmc_sc \<Rightarrow> 'w vmc_sc option" where
  "sensors_loop e p len i s =
     (if i < len
      then case rd p (i + 1) of
             None \<Rightarrow> None
           | Some n \<Rightarrow> (case sensor_number p (i + 2) n of
                 None \<Rightarrow> None
               | Some None \<Rightarrow> Some s
               | Some (Some v) \<Rightarrow> (case VMC_StoreSensor_Value e (p ! i) v s of
                     None \<Rightarrow> None
                   | Some s' \<Rightarrow> sensors_loop e p len (i + 2 + unat n) s'))
      else Some s)"
  by auto
termination by (relation "measure (\<lambda>(e, p, len, i, s). len - i)") auto

declare sensors_loop.simps [simp del]

definition VMC_Update_Sensors ::
    "('w, 'e) sc_env_scheme \<Rightarrow> u16 \<Rightarrow> bytes \<Rightarrow> 'w vmc_sc \<Rightarrow> 'w vmc_sc option" where
  "VMC_Update_Sensors e len p s = sensors_loop e p (unat len) 0 s"

definition on_data :: "(sc_vmc_data \<Rightarrow> sc_vmc_data option) \<Rightarrow> 'w vmc_sc \<Rightarrow> 'w vmc_sc option" where
  "on_data f s = map_option (\<lambda>d. s\<lparr>sc_data := d\<rparr>) (f (sc_data s))"

definition parse_body :: "('w, 'e) sc_env_scheme \<Rightarrow> u8 \<Rightarrow> u16 \<Rightarrow> bytes \<Rightarrow> 'w vmc_sc \<Rightarrow> 'w vmc_sc option" where
  "parse_body e msg n p s =
     (if msg \<in> {SC_COMMS_RX_VOLT_SNSR_RESP, SC_COMMS_RX_POWER_SNSR_RESP, SC_COMMS_RX_TEMP_SNSR_RESP}
      then VMC_Update_Sensors e n p s
      else if msg = VMC_VERSION_POWERMODE_RESP
      then map_option (\<lambda>s'. s'\<lparr>isPowerModeActive := True\<rparr>) (on_data (VMC_Update_Version_PowerMode n p) s)
      else if msg = VMC_GET_RESP_SIZE_RESP then on_data (VMC_Update_Sensor_Length p) s
      else if msg = SC_COMMS_RX_BOARD_INFO_RESP then Some (s\<lparr>is_boardInfo_sentTo_SC := True\<rparr>)
      else if msg = MSP432_COMMS_MSG_GOOD then Some (s\<lparr>is_SC_active := True\<rparr>)
      else Some s)"

definition Parse_SC_Data ::
    "('w, 'e) sc_env_scheme \<Rightarrow> bytes \<Rightarrow> u8 \<Rightarrow> 'w vmc_sc \<Rightarrow> (bool \<times> 'w vmc_sc) option" where
  "Parse_SC_Data e p expected_msgid s = do {
     b0 \<leftarrow> rd p 0; b1 \<leftarrow> rd p 1; msg \<leftarrow> rd p 2; n \<leftarrow> rd p 4;
     if b0 \<noteq> ESCAPE_CHAR \<or> b1 \<noteq> STX then Some (False, s)
     else if msg \<noteq> expected_msgid then Some (False, s)
     else do { s' \<leftarrow> parse_body e msg (ucast n) (drop COMMS_PAYLOAD_START_INDEX p) s; Some (True, s') } }"

section \<open>Framing a request\<close>

text \<open>The flags byte of the frame is the enumeration constant \<open>Flags\<close> (3), whatever flags the
  caller of the transaction passes.  The length is a byte and wraps around.\<close>

definition calculate_checksum :: "u8 \<Rightarrow> u8 \<Rightarrow> u8 \<Rightarrow> bytes \<Rightarrow> u16" where
  "calculate_checksum msg flags n payload =
     fold (\<lambda>b c. c + ucast b) (take (unat n) payload) (ucast msg + ucast flags + ucast n)"

definition put_byte :: "u8 \<Rightarrow> bytes \<times> u8 \<Rightarrow> (bytes \<times> u8) option" where
  "put_byte b = (\<lambda>(buf, len). map_option (\<lambda>buf'. (buf', len + 1)) (wr buf (unat len) b))"

definition put_escaped :: "u8 \<Rightarrow> bytes \<times> u8 \<Rightarrow> (bytes \<times> u8) option" where
  "put_escaped b x =
     (if b = ESCAPE_CHAR then do { x' \<leftarrow> put_byte ESCAPE_CHAR x; put_byte b x' } else put_byte b x)"

fun put_all :: "bytes \<Rightarrow> bytes \<times> u8 \<Rightarrow> (bytes \<times> u8) option" where
  "put_all [] x = Some x"
| "put_all (b # bs) x = do { x' \<leftarrow> put_escaped b x; put_all bs x' }"

definition frame_flags :: u8 where "frame_flags = 3"

definition VMC_Uart_Frame_Tx_packet :: "u8 \<Rightarrow> u8 \<Rightarrow> bytes \<Rightarrow> bytes \<Rightarrow> (bytes \<times> u8) option" where
  "VMC_Uart_Frame_Tx_packet msg_id payload_len tx payload = do {
     body \<leftarrow> rd_bytes payload 0 (unat payload_len);
     let checksum = calculate_checksum msg_id frame_flags payload_len body;
     tx1 \<leftarrow> wr_bytes tx 0 [ESCAPE_CHAR, STX];
     (tx2, len) \<leftarrow> put_all ([msg_id, frame_flags, payload_len] @ body
                            @ [ucast checksum, ucast (drop_bit 8 checksum)]) (tx1, 2);
     tx3 \<leftarrow> wr_bytes tx2 (unat len) [ESCAPE_CHAR, ETX];
     Some (tx3, len + 2) }"

section \<open>A transaction\<close>

text \<open>The receive buffer after a wait: what the driver stored over what it held.\<close>

definition received_into :: "bytes \<Rightarrow> 'w uart_env \<Rightarrow> 'w uart \<Rightarrow> bytes" where
  "received_into buf e u =
     (let rx = ue_rx e (uw u) in take (length buf) (rx @ drop (length rx) buf))"

definition sc_receive_set ::
    "('w, 'e) sc_env_scheme \<Rightarrow> u32 \<Rightarrow> 'w vmc_sc \<Rightarrow> (UART_STATUS \<times> u32 option) \<times> 'w vmc_sc" where
  "sc_receive_set e n =
     on_uart (\<lambda>u. let (st, c, u') = UART_RTOS_Receive_Set_Buffer (uart_env.truncate e) n u in ((st, c), u'))"

definition sc_receive_wait ::
    "('w, 'e) sc_env_scheme \<Rightarrow> nat \<Rightarrow> 'w vmc_sc \<Rightarrow> (UART_STATUS \<times> u32 option) \<times> 'w vmc_sc" where
  "sc_receive_wait e ms =
     on_uart (\<lambda>u. let (st, c, u') = UART_RTOS_Receive_Wait (uart_env.truncate e) ms u in ((st, c), u'))"

definition sc_send :: "('w, 'e) sc_env_scheme \<Rightarrow> bytes \<Rightarrow> 'w vmc_sc \<Rightarrow> UART_STATUS \<times> 'w vmc_sc" where
  "sc_send e buf = on_uart (UART_RTOS_Send (uart_env.truncate e) buf)"

definition sc_disable_irq :: "('w, 'e) sc_env_scheme \<Rightarrow> 'w vmc_sc \<Rightarrow> 'w vmc_sc" where
  "sc_disable_irq e s =
     s\<lparr>sc_uart := uart_disable_interrupt (uart_env.truncate e) (uart_IRQ_ID (sc_uart s)) (sc_uart s)\<rparr>"

definition sc_release_rx :: "('w, 'e) sc_env_scheme \<Rightarrow> 'w vmc_sc \<Rightarrow> bool \<times> 'w vmc_sc" where
  "sc_release_rx e s = on_uart (uart_shm_release (uart_env.truncate e) (rxSem (sc_uart s))) s"

definition VMC_Recover_UART :: "('w, 'e) sc_env_scheme \<Rightarrow> 'w vmc_sc \<Rightarrow> bool \<times> 'w vmc_sc" where
  "VMC_Recover_UART e s =
     (let ((st, _), s1) = sc_receive_set e (of_nat MAX_VMC_SC_UART_BUF_SIZE) s
      in if st \<noteq> UART_SUCCESS then (False, s1)
         else let (_, s2) = sc_receive_wait e 2000 s1
              in (True, s2\<lparr>rx_buf := zero_buf\<rparr>))"

definition accept_packet :: "('w, 'e) sc_env_scheme \<Rightarrow> u32 \<Rightarrow> 'w vmc_sc \<Rightarrow> 'w vmc_sc option" where
  "accept_packet e count s =
     (case VMC_Validate_SC_Packet (rx_buf s) count of
        None \<Rightarrow> None
      | Some True \<Rightarrow>
          do { body \<leftarrow> rd_bytes (rx_buf s) 0 (unat count);
               g \<leftarrow> wr_bytes (g_scData s) 0 body;
               Some (s\<lparr>g_scData := g, isPacketReceived := True\<rparr>) }
      | Some False \<Rightarrow> Some (snd (VMC_Recover_UART e s)))"

definition VMC_UART_CMD_Transaction ::
    "('w, 'e) sc_env_scheme \<Rightarrow> u8 \<Rightarrow> u8 \<Rightarrow> bytes \<Rightarrow> u8 \<Rightarrow> 'w vmc_sc \<Rightarrow> (bool \<times> 'w vmc_sc) option" where
  "VMC_UART_CMD_Transaction e msg_id payload_len payload expected s =
     (let s0 = s\<lparr>rx_buf := zero_buf, tx_buf := zero_buf\<rparr>;
          ((st, c0), s1) = sc_receive_set e (ucast expected) s0
      in if st \<noteq> UART_SUCCESS then Some (False, s1)
         else do {
           (tx, len) \<leftarrow> VMC_Uart_Frame_Tx_packet msg_id payload_len (tx_buf s1) payload;
           let s2 = s1\<lparr>tx_buf := tx\<rparr>;
           let (st2, s3) = sc_send e (take (unat len) tx) s2;
           if st2 \<noteq> UART_SUCCESS
           then Some (False, snd (sc_release_rx e (sc_disable_irq e s3)))
           else do {
             let ((st3, c), s4) = sc_receive_wait e 500 s3;
             let s5 = s4\<lparr>rx_buf := received_into (rx_buf s4) (uart_env.truncate e) (sc_uart s4)\<rparr>;
             if st3 \<noteq> UART_SUCCESS
             then do {
               let s6 = sc_disable_irq e s5;
               if st3 = UART_ERROR_GENERIC then Some (False, snd (sc_release_rx e s6)) else Some (False, s6) }
             else do {
               let count = the c;
               if of_nat MAX_VMC_SC_UART_BUF_SIZE < count then None
               else if 2 < count
               then do { s6 \<leftarrow> accept_packet e count s5; Some (ucast expected = count, s6) }
               else Some (False, s5) } } })"

section \<open>The requests\<close>

text \<open>Every request runs a transaction, parses a received packet, and clears \<open>g_scData\<close>.\<close>

definition request ::
    "('w, 'e) sc_env_scheme \<Rightarrow> u8 \<Rightarrow> u8 \<Rightarrow> bytes \<Rightarrow> u8 \<Rightarrow> u8 \<Rightarrow> 'w vmc_sc \<Rightarrow> 'w vmc_sc option" where
  "request e msg n payload expected resp s = do {
     (_, s1) \<leftarrow> VMC_UART_CMD_Transaction e msg n payload expected s;
     s2 \<leftarrow> (if isPacketReceived s1
            then do { (_, s') \<leftarrow> Parse_SC_Data e (g_scData s1) resp s1; Some (s'\<lparr>isPacketReceived := False\<rparr>) }
            else Some s1);
     Some (s2\<lparr>g_scData := zero_buf\<rparr>) }"

definition Get_Sensor_Response_Length :: "('w, 'e) sc_env_scheme \<Rightarrow> u8 \<Rightarrow> 'w vmc_sc \<Rightarrow> 'w vmc_sc option" where
  "Get_Sensor_Response_Length e k s =
     (let s1 = s\<lparr>scPayload := (scPayload s)[0 := k]\<rparr>
      in request e VMC_GET_RESP_SIZE_REQ 1 (scPayload s1) 11 VMC_GET_RESP_SIZE_RESP s1)"

definition send_i2c_sensors :: "('w, 'e) sc_env_scheme \<Rightarrow> 'w vmc_sc \<Rightarrow> 'w vmc_sc option" where
  "send_i2c_sensors e s =
     (case se_i2c_sensors e zero_buf (sc_world s) of
        None \<Rightarrow> None
      | Some ((p, n), w) \<Rightarrow>
          request e SC_COMMS_TX_I2C_SNSR n p MSP432_COMMS_GENERAL_RESP_LEN SC_COMMS_RX_I2C_SNSR_RESP
            (put_world w (s\<lparr>scPayload := p\<rparr>)))"

text \<open>The size of the board information is stored in a byte, so the test for a negative size is
  never true.\<close>

definition send_board_info :: "('w, 'e) sc_env_scheme \<Rightarrow> 'w vmc_sc \<Rightarrow> 'w vmc_sc option" where
  "send_board_info e s =
     (case se_fetch_boardinfo e of
        None \<Rightarrow> Some (s\<lparr>scPayload := zero_buf\<rparr>)
      | Some fetch \<Rightarrow> (case fetch zero_buf (sc_world s) of
            None \<Rightarrow> None
          | Some ((p, n), w) \<Rightarrow>
              request e SC_COMMS_TX_BOARD_INFO (of_int n) p MSP432_COMMS_GENERAL_RESP_LEN
                SC_COMMS_RX_BOARD_INFO_RESP (put_world w (s\<lparr>scPayload := p\<rparr>))))"

definition get_resp_sizes :: "('w, 'e) sc_env_scheme \<Rightarrow> 'w vmc_sc \<Rightarrow> 'w vmc_sc option" where
  "get_resp_sizes e s = do {
     s1 \<leftarrow> Get_Sensor_Response_Length e SC_COMMS_RX_VOLT_SNSR s;
     s2 \<leftarrow> Get_Sensor_Response_Length e SC_COMMS_RX_POWER_SNSR s1;
     s3 \<leftarrow> Get_Sensor_Response_Length e SC_COMMS_RX_TEMP_SNSR s2;
     let d = sc_data s3;
     Some (if voltSensorLength d \<noteq> 0 \<and> powerSensorLength d \<noteq> 0 \<and> tempSensorLength d \<noteq> 0
           then s3\<lparr>getSensorRespLen := True\<rparr> else s3) }"

definition VMC_SC_COMMS_Tx_Rx :: "('w, 'e) sc_env_scheme \<Rightarrow> u8 \<Rightarrow> 'w vmc_sc \<Rightarrow> 'w vmc_sc option" where
  "VMC_SC_COMMS_Tx_Rx e msg s =
     (let buf = replicate 32 0
      in if msg = SC_COMMS_RX_VOLT_SNSR
         then request e msg 0 buf (voltSensorLength (sc_data s)) SC_COMMS_RX_VOLT_SNSR_RESP s
         else if msg = SC_COMMS_RX_POWER_SNSR
         then request e msg 0 buf (powerSensorLength (sc_data s)) SC_COMMS_RX_POWER_SNSR_RESP s
         else if msg = SC_COMMS_RX_TEMP_SNSR
         then request e msg 0 buf (tempSensorLength (sc_data s)) SC_COMMS_RX_TEMP_SNSR_RESP s
         else if msg = SC_COMMS_TX_I2C_SNSR then send_i2c_sensors e s
         else if msg = SC_COMMS_TX_BOARD_INFO then send_board_info e s
         else if msg = VMC_VERSION_POWERMODE_REQ
         then request e msg 0 buf 18 VMC_VERSION_POWERMODE_RESP s
         else if msg = MSP432_COMMS_VMC_ACTIVE_REQ
         then request e msg 0 buf (vmc_active_resp_len s) MSP432_COMMS_MSG_GOOD s
         else if msg = VMC_GET_RESP_SIZE_REQ then get_resp_sizes e s
         else Some s)"

section \<open>One turn of the task\<close>

fun messages_loop :: "('w, 'e) sc_env_scheme \<Rightarrow> u8 list \<Rightarrow> 'w vmc_sc \<Rightarrow> 'w vmc_sc option" where
  "messages_loop e [] s = Some s"
| "messages_loop e (m # ms) s = do { s1 \<leftarrow> VMC_SC_COMMS_Tx_Rx e m s; messages_loop e ms (sc_delay_ms e 500 s1) }"

definition VMC_SC_UART_Messages_All :: "('w, 'e) sc_env_scheme \<Rightarrow> 'w vmc_sc \<Rightarrow> 'w vmc_sc option" where
  "VMC_SC_UART_Messages_All e s =
     (case msg_id_handler_ptr s of
        None \<Rightarrow> Some s
      | Some ids \<Rightarrow>
          if unat (platform_specific_msgid_count s) \<le> length ids
          then messages_loop e (take (unat (platform_specific_msgid_count s)) ids) s else None)"

fun active_loop :: "('w, 'e) sc_env_scheme \<Rightarrow> nat \<Rightarrow> 'w vmc_sc \<Rightarrow> 'w vmc_sc option" where
  "active_loop e 0 s = Some s"
| "active_loop e (Suc n) s =
     (if is_SC_active s then Some s
      else do { s1 \<leftarrow> VMC_SC_COMMS_Tx_Rx e MSP432_COMMS_VMC_ACTIVE_REQ
                        ((sc_delay_ms e 1000 s)\<lparr>vmc_active_resp_len := MSP432_COMMS_GENERAL_RESP_LEN\<rparr>);
                active_loop e n s1 })"

definition cl_vmc_sc_active :: "('w, 'e) sc_env_scheme \<Rightarrow> 'w vmc_sc \<Rightarrow> 'w vmc_sc option" where
  "cl_vmc_sc_active e s =
     (if se_platform e \<noteq> eV80 then active_loop e MAX_RETRY_TO_CHK_SC_ACTIVE s else Some s)"

definition VMC_Send_BoardInfo :: "('w, 'e) sc_env_scheme \<Rightarrow> 'w vmc_sc \<Rightarrow> 'w vmc_sc option" where
  "VMC_Send_BoardInfo e s =
     (if is_boardInfo_sentTo_SC s then Some s else VMC_SC_COMMS_Tx_Rx e SC_COMMS_TX_BOARD_INFO s)"

definition VMC_Get_SCVersion_PowerMode :: "('w, 'e) sc_env_scheme \<Rightarrow> 'w vmc_sc \<Rightarrow> 'w vmc_sc option" where
  "VMC_Get_SCVersion_PowerMode e s =
     (if isPowerModeActive s then Some s else VMC_SC_COMMS_Tx_Rx e VMC_VERSION_POWERMODE_REQ s)"

definition cl_vmc_sc_is_ready :: "('w, 'e) sc_env_scheme \<Rightarrow> 'w vmc_sc \<Rightarrow> (bool \<times> 'w vmc_sc) option" where
  "cl_vmc_sc_is_ready e s = do { s1 \<leftarrow> cl_vmc_sc_active e s; Some (is_SC_active s1, s1) }"

definition cl_vmc_has_sc_version :: "'w vmc_sc \<Rightarrow> bool" where
  "cl_vmc_has_sc_version s = isPowerModeActive s"

definition VMC_Poll_SC_Sensors :: "('w, 'e) sc_env_scheme \<Rightarrow> 'w vmc_sc \<Rightarrow> 'w vmc_sc option" where
  "VMC_Poll_SC_Sensors e s = (case se_sc_comms (sc_env.truncate e) of None \<Rightarrow> Some s | Some f \<Rightarrow> f s)"

definition cl_vmc_sc_tx_rx_data :: "('w, 'e) sc_env_scheme \<Rightarrow> 'w vmc_sc \<Rightarrow> 'w vmc_sc option" where
  "cl_vmc_sc_tx_rx_data e s = do {
     (ready, s1) \<leftarrow> cl_vmc_sc_is_ready e s;
     if \<not> ready then Some s1
     else do { s2 \<leftarrow> VMC_Get_SCVersion_PowerMode e s1;
               s3 \<leftarrow> VMC_Poll_SC_Sensors e s2;
               s4 \<leftarrow> VMC_Send_BoardInfo e s3;
               VMC_SC_UART_Messages_All e s4 } }"

end
