(* ===== verification/Vmc_Sensors.thy ===== *)
theory Vmc_Sensors
  imports Vmc_Throttling Vmc_Asdm Vmc_Sc_Comms Cl_Xgq_Receive
begin

text \<open>Model of \<open>vmc/vmc_sensors.c\<close>: the monitors of the sensors, the requests of the host for sensor
  data and clock scaling, and the periodic work of the sensor task.  The globals are the record
  \<open>glvr\<close>; it is the world in which the monitors of \<open>Vmc_Asdm\<close> run, and \<open>sensors\<close> adds the
  repositories and the memory shared with the host.  The drivers of the system monitor, the
  registers, which hardware may change at any access, and the platform are the environment.  The
  queue of the RMI build is not modelled.\<close>

section \<open>State and environment\<close>

record clk_params =
  is_clk_scaling_supported :: u8
  clk_scaling_mode :: u8
  clk_scaling_enable :: u8
  shutdown_limit_temp :: u8
  shutdown_limit_pwr :: u16
  throttle_limit_temp :: u8
  throttle_limit_pwr :: u16
  temp_throttling_enabled :: u8
  power_throttling_enabled :: u8
  limits_update_req :: u8

record ('w, 'f) glvr =
  g_throttling_enabled :: u8
  g_readings :: "'f power_readings"
  g_clk_params :: clk_params
  g_throttling :: "'f throttling"
  g_averages :: "'f averages"
  g_sc_data :: sc_vmc_data
  g_sysmon_ready :: int
  gw :: 'w

record ('w, 'f) sensors =
  sn_asdm :: "('w, 'f) glvr asdm"
  sn_mem :: mem

record ('w, 'f) sensors_env =
  ne_asdm :: "('w, 'f) glvr asdm_env"
  ne_float :: "'f float_ops"
  ne_read32 :: "u32 \<Rightarrow> 'w \<Rightarrow> u32 \<times> 'w"
  ne_write32 :: "u32 \<Rightarrow> u32 \<Rightarrow> 'w \<Rightarrow> 'w"
  ne_sysmon_init :: "'w \<Rightarrow> int \<times> 'w"
  ne_sysmon_temp :: "'w \<Rightarrow> (int \<times> 'f option) \<times> 'w"
  ne_sysmon_supply :: "'w \<Rightarrow> (int \<times> 'f option) \<times> 'w"
  ne_sc_lock :: "'w \<Rightarrow> bool \<times> 'w"
  ne_sc_unlock :: "'w \<Rightarrow> 'w"
  ne_heap_ok :: bool
  ne_GAPPING_DEMAND :: u32
  ne_UCS_SHUTDOWN :: u32
  ne_platform :: ePlatformType

definition BITMASK_TO_CLEAR :: u32 where "BITMASK_TO_CLEAR = 0xFFF0000F"
definition ENABLE_FORCE_SHUTDOWN :: u32 where "ENABLE_FORCE_SHUTDOWN = 0x000DB190"
definition SHUTDOWN_LATCHED_STATUS :: u32 where "SHUTDOWN_LATCHED_STATUS = 0x01"
definition SENSOR_RESP_BUFFER_SIZE :: nat where "SENSOR_RESP_BUFFER_SIZE = 512"
definition TEMP_CRITICAL :: int where "TEMP_CRITICAL = 100"
definition TEMP_VCCINT_CRITICAL :: nat where "TEMP_VCCINT_CRITICAL = 110"

definition g_read32 :: "('w, 'f) sensors_env \<Rightarrow> u32 \<Rightarrow> ('w, 'f) glvr \<Rightarrow> u32 \<times> ('w, 'f) glvr" where
  "g_read32 e a g = (let (v, w) = ne_read32 e a (gw g) in (v, g\<lparr>gw := w\<rparr>))"

definition g_write32 :: "('w, 'f) sensors_env \<Rightarrow> u32 \<Rightarrow> u32 \<Rightarrow> ('w, 'f) glvr \<Rightarrow> ('w, 'f) glvr" where
  "g_write32 e v a g = g\<lparr>gw := ne_write32 e v a (gw g)\<rparr>"

section \<open>Throttling on and off, shutdown\<close>

definition cl_vmc_clk_throttling_enable :: "('w, 'f) glvr \<Rightarrow> int \<times> ('w, 'f) glvr" where
  "cl_vmc_clk_throttling_enable g = (0, g\<lparr>g_throttling_enabled := 1\<rparr>)"

definition cl_vmc_clk_throttling_disable :: "('w, 'f) sensors_env \<Rightarrow> ('w, 'f) glvr \<Rightarrow> int \<times> ('w, 'f) glvr" where
  "cl_vmc_clk_throttling_disable e g =
     (let (v, g1) = g_read32 e (ne_GAPPING_DEMAND e) g;
          g2 = g_write32 e (v AND NOT MASK_GAPPING_DEMAND_CONTROL) (ne_GAPPING_DEMAND e) g1
      in (0, g2\<lparr>g_throttling_enabled := 0\<rparr>))"

definition ucs_clock_shutdown :: "('w, 'f) sensors_env \<Rightarrow> ('w, 'f) glvr \<Rightarrow> ('w, 'f) glvr" where
  "ucs_clock_shutdown e g =
     (let (v, g1) = g_read32 e (ne_GAPPING_DEMAND e) g;
          g2 = g_write32 e (v OR MASK_CLOCKTHROTTLING_ENABLE_THROTTLING) (ne_GAPPING_DEMAND e) g1;
          (u, g3) = g_read32 e (ne_UCS_SHUTDOWN e) g2;
          g4 = g_write32 e ((u AND BITMASK_TO_CLEAR) OR ENABLE_FORCE_SHUTDOWN) (ne_UCS_SHUTDOWN e) g3;
          g5 = g_write32 e u (ne_UCS_SHUTDOWN e) g4;
          (st, g6) = g_read32 e (ne_GAPPING_DEMAND e + 8) g5
      in if st AND SHUTDOWN_LATCHED_STATUS \<noteq> 0
         then let (d, g7) = g_read32 e (ne_GAPPING_DEMAND e) g6
              in g_write32 e ((d AND NOT 0xFF) OR FIVE_PERCENT) (ne_GAPPING_DEMAND e) g7
         else g6)"

section \<open>The monitors\<close>

definition put_value :: "bytes \<Rightarrow> snsr_read \<Rightarrow> snsr_read" where
  "put_value bs sn = sn\<lparr>sn_value := bs @ drop (length bs) (sn_value sn)\<rparr>"

definition Temperature_Read_ACAP_Device_Sysmon ::
    "('w, 'f) sensors_env \<Rightarrow> snsr_read \<Rightarrow> ('w, 'f) glvr \<Rightarrow> (int \<times> snsr_read) \<times> ('w, 'f) glvr" where
  "Temperature_Read_ACAP_Device_Sysmon e sn g =
     (let fo = ne_float e; ((st, r), w) = ne_sysmon_temp e (gw g); g1 = g\<lparr>gw := w\<rparr>;
          t = (case r of None \<Rightarrow> fo_int fo 0 | Some x \<Rightarrow> x);
          v = (if fo_less fo (fo_int fo 0) t then word_of_int (fo_trunc fo t) else 0 :: u16);
          (sn', g2) = (if st = XST_SUCCESS
             then ((put_value (le_bytes 2 (unat v)) sn)\<lparr>sn_size := 2, sn_status := Vmc_Snsr_State_Normal\<rparr>,
                   g1\<lparr>g_readings := (g_readings g1)\<lparr>pr_fpga_temp := t\<rparr>\<rparr>)
             else (sn\<lparr>sn_status := Vmc_Snsr_State_Comms_failure\<rparr>, g1));
          g3 = (if fo_le fo (fo_int fo TEMP_CRITICAL) t then ucs_clock_shutdown e g2 else g2)
      in ((st, sn'), g3))"

definition VCCINT_Read_ACAP_Device_Sysmon ::
    "('w, 'f) sensors_env \<Rightarrow> snsr_read \<Rightarrow> ('w, 'f) glvr \<Rightarrow> (int \<times> snsr_read) \<times> ('w, 'f) glvr" where
  "VCCINT_Read_ACAP_Device_Sysmon e sn g =
     (let fo = ne_float e; ((st, r), w) = ne_sysmon_supply e (gw g); g1 = g\<lparr>gw := w\<rparr>;
          t = (case r of None \<Rightarrow> fo_int fo 0 | Some x \<Rightarrow> x);
          mv = (word_of_int (fo_trunc fo (fo_mul fo t (fo_int fo 1000))) :: u32);
          g2 = g1\<lparr>g_readings := (g_readings g1)\<lparr>pr_voltage := (pr_voltage (g_readings g1))[3 := fo_word fo mv]\<rparr>\<rparr>;
          sn1 = put_value (le_bytes 4 (unat mv)) sn
      in ((st, if mv \<noteq> 0 then sn1\<lparr>sn_size := 4, sn_status := Vmc_Snsr_State_Normal\<rparr>
               else sn1\<lparr>sn_status := Vmc_Snsr_State_Comms_failure\<rparr>), g2))"

text \<open>A reading of the satellite controller; without the lock it is 0.  The status is never set.\<close>

definition sc_reading ::
    "('w, 'f) sensors_env \<Rightarrow> (sc_vmc_data \<Rightarrow> 'a::zero option) \<Rightarrow> ('w, 'f) glvr \<Rightarrow> ('a \<times> ('w, 'f) glvr) option" where
  "sc_reading e f g =
     (let (ok, w) = ne_sc_lock e (gw g)
      in if ok then do { v \<leftarrow> f (g_sc_data g); Some (v, g\<lparr>gw := ne_sc_unlock e w\<rparr>) }
         else Some (0, g\<lparr>gw := w\<rparr>))"

definition PMBUS_SC_Sensor_Read ::
    "('w, 'f) sensors_env \<Rightarrow> snsr_read \<Rightarrow> ('w, 'f) glvr \<Rightarrow> ((int \<times> snsr_read) \<times> ('w, 'f) glvr) option" where
  "PMBUS_SC_Sensor_Read e sn g = do {
     (v, g') \<leftarrow> sc_reading e (\<lambda>d. rd (sensor_values d) (unat (sn_msp sn))) g;
     let sn1 = put_value (le_bytes 2 (unat v)) sn;
     Some ((XST_FAILURE, if v \<noteq> 0 then sn1\<lparr>sn_size := 2, sn_status := Vmc_Snsr_State_Normal\<rparr>
                         else sn1\<lparr>sn_status := Vmc_Snsr_State_Comms_failure\<rparr>), g') }"

definition PMBUS_SC_Vccint_Read ::
    "('w, 'f) sensors_env \<Rightarrow> snsr_read \<Rightarrow> ('w, 'f) glvr \<Rightarrow> ((int \<times> snsr_read) \<times> ('w, 'f) glvr) option" where
  "PMBUS_SC_Vccint_Read e sn g = do {
     (v, g') \<leftarrow> sc_reading e (\<lambda>d. Some (VCCINT_sensor_value d)) g;
     let sn1 = put_value (le_bytes 4 (unat v)) sn;
     Some ((XST_FAILURE, if v \<noteq> 0 then sn1\<lparr>sn_size := 4, sn_status := Vmc_Snsr_State_Normal\<rparr>
                         else sn1\<lparr>sn_status := Vmc_Snsr_State_Comms_failure\<rparr>), g') }"

definition Monitor_Thresholds :: "('w, 'f) sensors_env \<Rightarrow> ('w, 'f) glvr \<Rightarrow> ('w, 'f) glvr option" where
  "Monitor_Thresholds e g = do {
     v \<leftarrow> rd (sensor_values (g_sc_data g)) eSC_VCCINT_TEMP;
     Some (if TEMP_VCCINT_CRITICAL \<le> unat v then ucs_clock_shutdown e g else g) }"

section \<open>Requests of the host\<close>

definition validate_sensor_payload :: "xgq_vmr_sensor_payload \<Rightarrow> int" where
  "validate_sensor_payload p =
     (if VMR_EP_RPU_SHARED_MEMORY_END \<le> RPU_SHARED_MEMORY_ADDR (sensor_address p) + of_nat SENSOR_RESP_BUFFER_SIZE
      then - EINVAL
      else if unat (sensor_size p) < SENSOR_RESP_BUFFER_SIZE then - EINVAL
      else 0)"

text \<open>The size of the answer is a 16 bit number; the answer is cut out of a buffer of 512 bytes.\<close>

definition cl_vmc_sensor_request ::
    "('w, 'f) sensors_env \<Rightarrow> cl_msg \<Rightarrow> ('w, 'f) sensors \<Rightarrow> (int \<times> ('w, 'f) sensors) option" where
  "cl_vmc_sensor_request e msg s =
     (let p = sensor_payload msg; addr = RPU_SHARED_MEMORY_ADDR (sensor_address p);
          req = [ucast (sensor_aid p), ucast (sensor_sid p), ucast (sensor_id p)];
          ret = validate_sensor_payload p
      in if ret \<noteq> 0 then Some (ret, s)
         else do {
           (st, resp, n, a) \<leftarrow> Asdm_Process_Sensor_Request (ne_asdm e) req
                                 (replicate SENSOR_RESP_BUFFER_SIZE 0) 0 (sn_asdm s);
           let s1 = s\<lparr>sn_asdm := a\<rparr>;
           if st \<noteq> 0 then Some (- EINVAL, s1)
           else if sensor_size p < ucast n then Some (- EINVAL, s1)
           else if length resp < unat n then None
           else Some (0, s1\<lparr>sn_mem := snd (cl_memcpy_toio8 addr resp (unat n) (sn_mem s1))\<rparr>) })"

definition cl_vmc_get_clk_throttling_params :: "('w, 'f) glvr \<Rightarrow> clk_params" where
  "cl_vmc_get_clk_throttling_params g = g_clk_params g"

text \<open>The enable flag is a field of one bit.\<close>

definition validate_clk_scaling_payload :: "xgq_vmr_clk_scaling_payload \<Rightarrow> ('w, 'f) glvr \<Rightarrow> int" where
  "validate_clk_scaling_payload p g =
     (if cs_aid p = 0 then - EINVAL
      else if cs_scaling_en p \<noteq> 0 \<and> cs_scaling_en p \<noteq> 1 then - EINVAL
      else if unat (PowerThrottlingLimit (g_throttling g)) < unat (cs_pwr_scaling_ovrd_limit p) then - EINVAL
      else if TEMP_CRITICAL < uint (cs_temp_scaling_ovrd_limit p) then - EINVAL
      else 0)"

definition vmc_get_clk_throttling_status :: "cl_msg \<Rightarrow> int" where
  "vmc_get_clk_throttling_status msg = 0"

definition default_limits :: "'f throttling \<Rightarrow> clk_params \<Rightarrow> clk_params" where
  "default_limits t c = c\<lparr>temp_throttling_enabled := 0, power_throttling_enabled := 0,
     throttle_limit_temp := ucast (TempThrottlingLimit t), throttle_limit_pwr := PowerThrottlingLimit t\<rparr>"

definition vmc_set_clk_throttling_override :: "cl_msg \<Rightarrow> ('w, 'f) glvr \<Rightarrow> int \<times> ('w, 'f) glvr" where
  "vmc_set_clk_throttling_override msg g =
     (let p = clk_scaling_payload msg;
          c = (g_clk_params g)\<lparr>limits_update_req := 1, clk_scaling_enable := ucast (cs_scaling_en p)\<rparr>;
          c1 = (if cs_temp_ovrd_en p \<noteq> 0 \<and> 0 < cs_temp_scaling_ovrd_limit p
                then c\<lparr>throttle_limit_temp := ucast (cs_temp_scaling_ovrd_limit p), temp_throttling_enabled := 1\<rparr> else c);
          c2 = (if cs_pwr_ovrd_en p \<noteq> 0 \<and> 0 < cs_pwr_scaling_ovrd_limit p
                then c1\<lparr>throttle_limit_pwr := ucast (cs_pwr_scaling_ovrd_limit p), power_throttling_enabled := 1\<rparr> else c1);
          c' = (if cs_reset p \<noteq> 0 then default_limits (g_throttling g) (c\<lparr>clk_scaling_enable := 0\<rparr>)
                else if clk_scaling_enable c \<noteq> 0 then c2
                else default_limits (g_throttling g) c)
      in (0, g\<lparr>g_clk_params := c'\<rparr>))"

definition cl_vmc_clk_scaling :: "cl_msg \<Rightarrow> ('w, 'f) glvr \<Rightarrow> int \<times> ('w, 'f) glvr" where
  "cl_vmc_clk_scaling msg g =
     (let p = clk_scaling_payload msg; ret = validate_clk_scaling_payload p g
      in if ret \<noteq> 0 then (ret, g)
         else if cs_aid p = cl_clk_scaling_num CL_CLK_SCALING_READ then (vmc_get_clk_throttling_status msg, g)
         else if cs_aid p = cl_clk_scaling_num CL_CLK_SCALING_SET then vmc_set_clk_throttling_override msg g
         else (- EINVAL, g))"

section \<open>The functions of the platform\<close>

text \<open>A platform without the sensor leaves the pointer null.\<close>

type_synonym ('w, 'f) monitor_fun =
  "snsr_read \<Rightarrow> ('w, 'f) glvr \<Rightarrow> ((int \<times> snsr_read) \<times> ('w, 'f) glvr) option"

record ('w, 'f) platform_functions =
  Temperature_Read_Inlet_Ptr :: "('w, 'f) monitor_fun option"
  Temperature_Read_Outlet_Ptr :: "('w, 'f) monitor_fun option"
  Temperature_Read_Board_Ptr :: "('w, 'f) monitor_fun option"
  Temperature_Read_QSFP_Ptr :: "('w, 'f) monitor_fun option"
  Temperature_Read_VCCINT_Ptr :: "('w, 'f) monitor_fun option"
  Power_Read_Ptr :: "('w, 'f) monitor_fun option"
  Temperature_Read_Ptr :: "('w, 'f) glvr name_fun option"
  Voltage_Read_Ptr :: "('w, 'f) glvr name_fun option"
  Current_Read_Ptr :: "('w, 'f) glvr name_fun option"
  QSFP_Read_Ptr :: "('w, 'f) glvr name_fun option"

definition call_monitor :: "('w, 'f) monitor_fun option \<Rightarrow> ('w, 'f) monitor_fun" where
  "call_monitor f sn g = (case f of None \<Rightarrow> Some ((XST_SUCCESS, sn), g) | Some m \<Rightarrow> m sn g)"

definition call_names :: "'w name_fun option \<Rightarrow> 'w name_fun" where
  "call_names f i = (case f of None \<Rightarrow> Some None | Some n \<Rightarrow> n i)"

definition Temperature_Read_Inlet :: "('w, 'f) platform_functions \<Rightarrow> ('w, 'f) monitor_fun" where
  "Temperature_Read_Inlet pf = call_monitor (Temperature_Read_Inlet_Ptr pf)"

definition Temperature_Read_Outlet :: "('w, 'f) platform_functions \<Rightarrow> ('w, 'f) monitor_fun" where
  "Temperature_Read_Outlet pf = call_monitor (Temperature_Read_Outlet_Ptr pf)"

definition Temperature_Read_Board :: "('w, 'f) platform_functions \<Rightarrow> ('w, 'f) monitor_fun" where
  "Temperature_Read_Board pf = call_monitor (Temperature_Read_Board_Ptr pf)"

definition Temperature_Read_QSFP :: "('w, 'f) platform_functions \<Rightarrow> ('w, 'f) monitor_fun" where
  "Temperature_Read_QSFP pf = call_monitor (Temperature_Read_QSFP_Ptr pf)"

definition Temperature_Read_VCCINT :: "('w, 'f) platform_functions \<Rightarrow> ('w, 'f) monitor_fun" where
  "Temperature_Read_VCCINT pf = call_monitor (Temperature_Read_VCCINT_Ptr pf)"

definition Asdm_Read_Power :: "('w, 'f) platform_functions \<Rightarrow> ('w, 'f) monitor_fun" where
  "Asdm_Read_Power pf = call_monitor (Power_Read_Ptr pf)"

definition getVoltagesName :: "('w, 'f) platform_functions \<Rightarrow> ('w, 'f) glvr name_fun" where
  "getVoltagesName pf = call_names (Voltage_Read_Ptr pf)"

definition getCurrentNames :: "('w, 'f) platform_functions \<Rightarrow> ('w, 'f) glvr name_fun" where
  "getCurrentNames pf = call_names (Current_Read_Ptr pf)"

definition getQSFPName :: "('w, 'f) platform_functions \<Rightarrow> ('w, 'f) glvr name_fun" where
  "getQSFPName pf = call_names (QSFP_Read_Ptr pf)"

definition scGetTemperatureName :: "('w, 'f) platform_functions \<Rightarrow> ('w, 'f) glvr name_fun" where
  "scGetTemperatureName pf = call_names (Temperature_Read_Ptr pf)"

fun getVoltageSensorNum :: "ePlatformType \<Rightarrow> u8" where
  "getVoltageSensorNum eVCK5000 = 5"
| "getVoltageSensorNum eV70 = 3"
| "getVoltageSensorNum eV80 = 10"
| "getVoltageSensorNum _ = 3"

fun ucGetTemperatureSensorNum :: "ePlatformType \<Rightarrow> u8" where
  "ucGetTemperatureSensorNum eVCK5000 = 0"
| "ucGetTemperatureSensorNum eV70 = 0"
| "ucGetTemperatureSensorNum eV80 = 3"
| "ucGetTemperatureSensorNum _ = 0"

fun getCurrentSensorNum :: "ePlatformType \<Rightarrow> u8" where
  "getCurrentSensorNum eVCK5000 = 3"
| "getCurrentSensorNum eV70 = 3"
| "getCurrentSensorNum eV80 = 10"
| "getCurrentSensorNum _ = 3"

text \<open>What \<open>Vmc_Asdm\<close> reads from: the status a monitor returns is not used there.\<close>

definition monitor_of :: "('w, 'f) monitor_fun \<Rightarrow> ('w, 'f) glvr monitor" where
  "monitor_of f sn g = do { ((st, sn'), g') \<leftarrow> f sn g; Some (sn', g') }"

definition platform_sources ::
    "('w, 'f) sensors_env \<Rightarrow> ('w, 'f) platform_functions \<Rightarrow> ('w, 'f) glvr sensor_sources" where
  "platform_sources e pf = \<lparr>
     src_Temperature_Read_Board = monitor_of (Temperature_Read_Board pf),
     src_Temperature_Read_ACAP_Device_Sysmon = monitor_of (\<lambda>sn g. Some (Temperature_Read_ACAP_Device_Sysmon e sn g)),
     src_Temperature_Read_VCCINT = monitor_of (Temperature_Read_VCCINT pf),
     src_Asdm_Read_Power = monitor_of (Asdm_Read_Power pf),
     src_scGetTemperatureName = scGetTemperatureName pf,
     src_getQSFPName = getQSFPName pf,
     src_getVoltagesName = getVoltagesName pf,
     src_getCurrentNames = getCurrentNames pf,
     src_ucGetTemperatureSensorNum = ucGetTemperatureSensorNum (ne_platform e),
     src_getVoltageSensorNum = getVoltageSensorNum (ne_platform e),
     src_getCurrentSensorNum = getCurrentSensorNum (ne_platform e)\<rparr>"

section \<open>The periodic work\<close>

text \<open>What the host has asked for is taken over before the algorithm runs.\<close>

definition take_overrides :: "('w, 'f) glvr \<Rightarrow> ('w, 'f) glvr" where
  "take_overrides g =
     (let c = g_clk_params g; t = g_throttling g
      in if limits_update_req c = 0 then g
         else g\<lparr>g_throttling := t\<lparr>FeatureEnabled := clk_scaling_enable c \<noteq> 0,
                  bUserThrottlingTempLimitEnabled := temp_throttling_enabled c \<noteq> 0,
                  PowerOverRideEnabled := power_throttling_enabled c \<noteq> 0,
                  XRTSuppliedUserThrottlingTempLimit := ucast (throttle_limit_temp c),
                  XRTSuppliedBoardThrottlingThresholdPower := ucast (throttle_limit_pwr c) * 1000000\<rparr>,
                g_clk_params := c\<lparr>limits_update_req := 0\<rparr>\<rparr>)"

definition Clock_throttling :: "('w, 'f) sensors_env \<Rightarrow> ('w, 'f) glvr \<Rightarrow> ('w, 'f) glvr option" where
  "Clock_throttling e g = do {
     let g1 = take_overrides g;
     (v, t) \<leftarrow> clock_throttling_algorithm_power (ne_float e) (clk_scaling_enable (g_clk_params g1) \<noteq> 0)
                 (g_readings g1) (g_throttling g1);
     let g2 = (case v of None \<Rightarrow> g1 | Some x \<Rightarrow> g_write32 e x (ne_GAPPING_DEMAND e) g1);
     (av, t') \<leftarrow> clock_throttling_algorithm_temperature (ne_float e) (ne_heap_ok e) (g_readings g2) (g_averages g2) t;
     Some (g2\<lparr>g_throttling := t', g_averages := av\<rparr>) }"

definition on_glvr ::
    "(('w, 'f) glvr \<Rightarrow> ('w, 'f) glvr option) \<Rightarrow> ('w, 'f) glvr asdm \<Rightarrow> ('w, 'f) glvr asdm option" where
  "on_glvr f a = do { g \<leftarrow> f (aw a); Some (a\<lparr>aw := g\<rparr>) }"

definition cl_vmc_monitor_sensors ::
    "('w, 'f) sensors_env \<Rightarrow> (('w, 'f) glvr \<Rightarrow> ('w, 'f) glvr option) option \<Rightarrow> ('w, 'f) sensors \<Rightarrow> ('w, 'f) sensors option" where
  "cl_vmc_monitor_sensors e Monitor_Sensors s = do {
     a1 \<leftarrow> (case Monitor_Sensors of None \<Rightarrow> Some (sn_asdm s) | Some f \<Rightarrow> on_glvr f (sn_asdm s));
     a2 \<leftarrow> on_glvr (Monitor_Thresholds e) a1;
     a3 \<leftarrow> Asdm_Update_Sensors (ne_asdm e) a2;
     a4 \<leftarrow> (if g_throttling_enabled (aw a3) \<noteq> 0 then on_glvr (Clock_throttling e) a3 else Some a3);
     Some (s\<lparr>sn_asdm := a4\<rparr>) }"

definition cl_vmc_sysmon_is_ready :: "('w, 'f) glvr \<Rightarrow> int" where
  "cl_vmc_sysmon_is_ready g = g_sysmon_ready g"

definition cl_vmc_sysmon_init :: "('w, 'f) sensors_env \<Rightarrow> ('w, 'f) glvr \<Rightarrow> int \<times> ('w, 'f) glvr" where
  "cl_vmc_sysmon_init e g =
     (let (st, w) = ne_sysmon_init e (gw g);
          g' = g\<lparr>gw := w, g_sysmon_ready := (if st = XST_SUCCESS then 1 else 0)\<rparr>
      in (cl_vmc_sysmon_is_ready g', g'))"

definition cl_clk_throttling_enabled_or_disabled :: "('w, 'f) glvr \<Rightarrow> u8" where
  "cl_clk_throttling_enabled_or_disabled g = clk_scaling_enable (g_clk_params g)"

end
