(* ===== verification/Vmc_Asdm_Props.thy ===== *)
theory Vmc_Asdm_Props
  imports Vmc_Asdm
begin

text \<open>What the sensor repositories of \<open>Vmc_Asdm\<close> promise: the construction gives well-formed
  records, whose memory blocks have the sizes the records announce; the update of the readings finds
  every block it writes and keeps the records well-formed, and no running average exceeds the
  maximum; the size the host is told is the size of the repository it then gets.\<close>

section \<open>Well-formed records\<close>

definition fits :: "bytes option \<Rightarrow> nat \<Rightarrow> bool" where
  "fits p n \<longleftrightarrow> (case p of None \<Rightarrow> False | Some b \<Rightarrow> length b = n)"

abbreviation value_len :: "'w sensor_record \<Rightarrow> nat" where
  "value_len r \<equiv> tl_len (sr_value_type_length r)"

text \<open>The block of a limit that is supported.\<close>

definition limit_fits :: "'w sensor_record \<Rightarrow> u8 \<Rightarrow> bytes option \<Rightarrow> bool" where
  "limit_fits r bitm p \<longleftrightarrow> (sr_threshold_support r AND bitm \<noteq> 0 \<longrightarrow> fits p (value_len r))"

definition limits_fit :: "'w sensor_record \<Rightarrow> bool" where
  "limits_fit r \<longleftrightarrow>
     limit_fits r Lower_Fatal_Threshold (sr_lower_fatal r) \<and>
     limit_fits r Lower_Critical_Threshold (sr_lower_critical r) \<and>
     limit_fits r Lower_Warning_Threshold (sr_lower_warning r) \<and>
     limit_fits r Upper_Fatal_Threshold (sr_upper_fatal r) \<and>
     limit_fits r Upper_Critical_Threshold (sr_upper_critical r) \<and>
     limit_fits r Upper_Warning_Threshold (sr_upper_warning r)"

text \<open>A sensor with samples has a maximum and an average of the size of its value, and the average is
  at most the maximum.\<close>

definition avg_le_max :: "'w sensor_record \<Rightarrow> bool" where
  "avg_le_max r \<longleftrightarrow>
     (case (sr_average r, sr_max r) of (Some a, Some m) \<Rightarrow> le_nat a \<le> le_nat m | _ \<Rightarrow> True)"

definition wf_record :: "u8 \<Rightarrow> 'w sensor_record \<Rightarrow> bool" where
  "wf_record repo r \<longleftrightarrow>
     fits (sr_name r) (tl_len (sr_name_type_length r)) \<and>
     fits (sr_value r) (value_len r) \<and>
     (tl_len (sr_unit_type_length r) \<noteq> 0 \<longrightarrow> fits (sr_unit r) (tl_len (sr_unit_type_length r))) \<and>
     (repo \<noteq> BoardInfoSDR \<longrightarrow> limits_fit r) \<and>
     (sr_sample_count r \<noteq> 0 \<longrightarrow> fits (sr_max r) (value_len r) \<and> fits (sr_average r) (value_len r)) \<and>
     avg_le_max r"

lemma fits_simps [simp]: "fits (Some b) n = (length b = n)" "\<not> fits None n"
  by (simp_all add: fits_def)

lemma fitsE: "fits p n \<Longrightarrow> (\<And>b. p = Some b \<Longrightarrow> length b = n \<Longrightarrow> thesis) \<Longrightarrow> thesis"
  by (cases p) auto

text \<open>A repository: as many records as its header says, numbered from 1.\<close>

definition wf_sdr :: "'w sdr \<Rightarrow> bool" where
  "wf_sdr d \<longleftrightarrow>
     length (sdr_records d) = unat (no_of_records (sdr_head d)) \<and>
     (\<forall>j < length (sdr_records d). wf_record (repository_type (sdr_head d)) (sdr_records d ! j) \<and>
        sr_id (sdr_records d ! j) = of_nat j + 1)"

section \<open>The construction\<close>

lemma run_steps_Cons [simp]:
  "run_steps (f # fs) x = Some (True, y) \<longleftrightarrow> (\<exists>z. f x = Some (True, z) \<and> run_steps fs z = Some (True, y))"
  by (auto split: option.splits prod.splits if_splits)

declare run_steps.simps(2) [simp del]

lemma run_steps_append [simp]:
  "run_steps (fs @ gs) x = Some (True, y) \<longleftrightarrow>
     (\<exists>z. run_steps fs x = Some (True, z) \<and> run_steps gs z = Some (True, y))"
  by (induct fs arbitrary: x) auto

lemma set_field_iff [simp]:
  "set_field f n x = Some (True, y) \<longleftrightarrow> y = x\<lparr>in_rec := f (in_rec x), in_bytes := in_bytes x + n\<rparr>"
  by (auto simp: set_field_def)

lemma alloc_field_iff [simp]:
  "alloc_field e c n f x = Some (True, y) \<longleftrightarrow>
     (\<exists>b w. c = Some b \<and> y = x\<lparr>in_rec := f (Some b) (in_rec x), in_bytes := in_bytes x + of_nat n, in_w := w\<rparr>
       \<and> ae_malloc e n (in_w x) = (True, w))"
  by (auto simp: alloc_field_def Let_def split: prod.splits option.splits)

lemma copy_n_length: "copy_n b n = Some c \<Longrightarrow> length c = n"
  by (auto simp: copy_n_def split: if_splits)

text \<open>What a supported limit contributes to the size.\<close>

definition limit_size :: "u8 \<Rightarrow> u8 \<Rightarrow> nat \<Rightarrow> nat" where
  "limit_size thr bitm n = (if thr AND bitm = 0 then 0 else n)"

lemma limit_step_done:
  assumes "limit_step e n (bitm, lim, f) x = Some (True, y)" and "\<And>r. f (g r) r = r"
  shows "\<exists>p. in_rec y = f p (in_rec x) \<and>
     in_bytes y = in_bytes x + of_nat (limit_size (sr_threshold_support (in_rec x)) bitm n) \<and>
     (sr_threshold_support (in_rec x) AND bitm \<noteq> 0 \<longrightarrow> fits p n)"
proof (cases "sr_threshold_support (in_rec x) AND bitm = 0")
  case True
  with assms show ?thesis
    by (intro exI [of _ "g (in_rec x)"]) (simp add: limit_step_def limit_size_def)
next
  case False
  with assms(1) obtain b where "fits (Some b) n" "in_rec y = f (Some b) (in_rec x)"
    "in_bytes y = in_bytes x + of_nat n"
    by (auto simp: limit_step_def dest: copy_n_length)
  with False show ?thesis by (intro exI [of _ "Some b"]) (simp add: limit_size_def)
qed

definition limits_size :: "u8 \<Rightarrow> nat \<Rightarrow> nat" where
  "limits_size thr n =
     limit_size thr Lower_Fatal_Threshold n + limit_size thr Lower_Critical_Threshold n
     + limit_size thr Lower_Warning_Threshold n + limit_size thr Upper_Fatal_Threshold n
     + limit_size thr Upper_Critical_Threshold n + limit_size thr Upper_Warning_Threshold n"

definition set_limits where
  "set_limits a b c d u v r = r\<lparr>sr_lower_fatal := a, sr_lower_critical := b, sr_lower_warning := c,
     sr_upper_fatal := d, sr_upper_critical := u, sr_upper_warning := v\<rparr>"

lemma limit_fields_done:
  assumes "run_steps (map (limit_step e n) limit_fields) x = Some (True, y)"
    "n = value_len (in_rec x)"
  shows "\<exists>a b c d u v. in_rec y = set_limits a b c d u v (in_rec x) \<and>
     in_bytes y = in_bytes x + of_nat (limits_size (sr_threshold_support (in_rec x)) n) \<and>
     limits_fit (in_rec y)"
proof -
  let ?t = "sr_threshold_support (in_rec x)"
  from assms(1) obtain x1 x2 x3 x4 x5 where
    s: "limit_step e n (Lower_Fatal_Threshold, lowerFatalLimit, \<lambda>b r. r\<lparr>sr_lower_fatal := b\<rparr>) x = Some (True, x1)"
      "limit_step e n (Lower_Critical_Threshold, lowerCritLimit, \<lambda>b r. r\<lparr>sr_lower_critical := b\<rparr>) x1 = Some (True, x2)"
      "limit_step e n (Lower_Warning_Threshold, lowerWarnLimit, \<lambda>b r. r\<lparr>sr_lower_warning := b\<rparr>) x2 = Some (True, x3)"
      "limit_step e n (Upper_Fatal_Threshold, upperFatalLimit, \<lambda>b r. r\<lparr>sr_upper_fatal := b\<rparr>) x3 = Some (True, x4)"
      "limit_step e n (Upper_Critical_Threshold, upperCritLimit, \<lambda>b r. r\<lparr>sr_upper_critical := b\<rparr>) x4 = Some (True, x5)"
      "limit_step e n (Upper_Warning_Threshold, upperWarnLimit, \<lambda>b r. r\<lparr>sr_upper_warning := b\<rparr>) x5 = Some (True, y)"
    by (auto simp: limit_fields_def)
  obtain a where 1: "in_rec x1 = (in_rec x)\<lparr>sr_lower_fatal := a\<rparr>"
    "in_bytes x1 = in_bytes x + of_nat (limit_size ?t Lower_Fatal_Threshold n)"
    "?t AND Lower_Fatal_Threshold \<noteq> 0 \<longrightarrow> fits a n"
    using limit_step_done [OF s(1), of sr_lower_fatal] by auto
  obtain b where 2: "in_rec x2 = (in_rec x1)\<lparr>sr_lower_critical := b\<rparr>"
    "in_bytes x2 = in_bytes x1 + of_nat (limit_size ?t Lower_Critical_Threshold n)"
    "?t AND Lower_Critical_Threshold \<noteq> 0 \<longrightarrow> fits b n"
    using limit_step_done [OF s(2), of sr_lower_critical] 1 by auto
  obtain c where 3: "in_rec x3 = (in_rec x2)\<lparr>sr_lower_warning := c\<rparr>"
    "in_bytes x3 = in_bytes x2 + of_nat (limit_size ?t Lower_Warning_Threshold n)"
    "?t AND Lower_Warning_Threshold \<noteq> 0 \<longrightarrow> fits c n"
    using limit_step_done [OF s(3), of sr_lower_warning] 1 2 by auto
  obtain d where 4: "in_rec x4 = (in_rec x3)\<lparr>sr_upper_fatal := d\<rparr>"
    "in_bytes x4 = in_bytes x3 + of_nat (limit_size ?t Upper_Fatal_Threshold n)"
    "?t AND Upper_Fatal_Threshold \<noteq> 0 \<longrightarrow> fits d n"
    using limit_step_done [OF s(4), of sr_upper_fatal] 1 2 3 by auto
  obtain u where 5: "in_rec x5 = (in_rec x4)\<lparr>sr_upper_critical := u\<rparr>"
    "in_bytes x5 = in_bytes x4 + of_nat (limit_size ?t Upper_Critical_Threshold n)"
    "?t AND Upper_Critical_Threshold \<noteq> 0 \<longrightarrow> fits u n"
    using limit_step_done [OF s(5), of sr_upper_critical] 1 2 3 4 by auto
  obtain v where 6: "in_rec y = (in_rec x5)\<lparr>sr_upper_warning := v\<rparr>"
    "in_bytes y = in_bytes x5 + of_nat (limit_size ?t Upper_Warning_Threshold n)"
    "?t AND Upper_Warning_Threshold \<noteq> 0 \<longrightarrow> fits v n"
    using limit_step_done [OF s(6), of sr_upper_warning] 1 2 3 4 5 by auto
  have r: "in_rec y = set_limits a b c d u v (in_rec x)"
    by (simp add: 1(1) 2(1) 3(1) 4(1) 5(1) 6(1) set_limits_def)
  moreover have "in_bytes y = in_bytes x + of_nat (limits_size ?t n)"
    by (simp add: 1(2) 2(2) 3(2) 4(2) 5(2) 6(2) limits_size_def add.assoc)
  moreover have "limits_fit (in_rec y)"
    using 1(3) 2(3) 3(3) 4(3) 5(3) 6(3) by (simp add: r limits_fit_def limit_fits_def assms(2) set_limits_def)
  ultimately show ?thesis by blast
qed

lemma limit_steps_done:
  assumes "limit_steps e repo name n x = Some (True, y)" "n = value_len (in_rec x)"
  shows "\<exists>a b c d u v. in_rec y = set_limits a b c d u v (in_rec x) \<and>
     in_bytes y = in_bytes x +
       of_nat (if repo = BoardInfoSDR then 0 else limits_size (sr_threshold_support (in_rec x)) n) \<and>
     (repo \<noteq> BoardInfoSDR \<longrightarrow> limits_fit (in_rec y))"
proof (cases "repo = BoardInfoSDR")
  case True
  with assms have "y = x" by (simp add: limit_steps_def)
  let ?r = "in_rec x"
  have "?r = set_limits (sr_lower_fatal ?r) (sr_lower_critical ?r) (sr_lower_warning ?r)
      (sr_upper_fatal ?r) (sr_upper_critical ?r) (sr_upper_warning ?r) ?r"
    by (simp add: set_limits_def)
  with True \<open>y = x\<close> show ?thesis
    by (intro exI [of _ "sr_lower_fatal ?r"] exI [of _ "sr_lower_critical ?r"]
        exI [of _ "sr_lower_warning ?r"] exI [of _ "sr_upper_fatal ?r"]
        exI [of _ "sr_upper_critical ?r"] exI [of _ "sr_upper_warning ?r"]) simp
next
  case False
  with assms(1) obtain i where
    i: "run_steps (map (limit_step e n) limit_fields) (x\<lparr>in_thresh := i\<rparr>) = Some (True, y)"
    by (auto simp: limit_steps_def split: option.splits)
  from limit_fields_done [OF i] assms(2) False show ?thesis by simp
qed

lemma unit_step_done:
  assumes "unit_step e repo x = Some (True, y)"
  shows "\<exists>ty u. in_rec y = (in_rec x)\<lparr>sr_unit_type_length := ty, sr_unit := u\<rparr> \<and>
     in_bytes y = in_bytes x + of_nat (1 + tl_len ty) \<and> (tl_len ty \<noteq> 0 \<longrightarrow> fits u (tl_len ty))"
proof -
  from assms obtain ty str where t: "sensor_unit_tbl repo = Some (ty, str)"
    by (auto simp: unit_step_def split: option.splits)
  show ?thesis
  proof (cases "ty = 0")
    case True
    with assms t show ?thesis
      by (intro exI [of _ 0] exI [of _ "sr_unit (in_rec x)"]) (auto simp: unit_step_def tl_len_def)
  next
    case False
    with assms t obtain b where "copy_n str (tl_len ty) = Some b"
      "in_rec y = (in_rec x)\<lparr>sr_unit_type_length := ty, sr_unit := Some b\<rparr>"
      "in_bytes y = in_bytes x + of_nat (1 + tl_len ty)"
      by (auto simp: unit_step_def add.assoc)
    then show ?thesis by (intro exI [of _ ty] exI [of _ "Some b"]) (simp add: copy_n_length)
  qed
qed

lemma le_nat_zeros [simp]: "le_nat (replicate n 0) = 0"
  by (induct n) simp_all

lemma max_avg_steps_done:
  assumes "run_steps (max_avg_steps e me n) x = Some (True, y)"
    "sr_max (in_rec x) = None" "sr_average (in_rec x) = None"
  shows "\<exists>a m. in_rec y = (in_rec x)\<lparr>sr_average := a, sr_max := m\<rparr> \<and>
     in_bytes y = in_bytes x + of_nat (if me_sample_count me = 0 then 0 else n + n) \<and>
     (me_sample_count me \<noteq> 0 \<longrightarrow> fits m n \<and> fits a n) \<and> avg_le_max (in_rec y)"
proof (cases "me_sample_count me = 0")
  case True
  with assms show ?thesis
    by (intro exI [of _ None]) (simp add: max_avg_steps_def avg_le_max_def)
next
  case False
  let ?z = "Some (replicate n (0 :: u8))"
  from False assms(1) have "in_rec y = (in_rec x)\<lparr>sr_average := ?z, sr_max := ?z\<rparr>"
    "in_bytes y = in_bytes x + of_nat (n + n)"
    by (auto simp: max_avg_steps_def add.assoc)
  with False show ?thesis by (intro exI [of _ ?z]) (simp add: avg_le_max_def)
qed

lemma name_type_length:
  assumes "n \<le> SENSOR_NAME_MAX"
  shows "tl_len (SENSOR_TYPE_ASCII OR (of_nat n AND LENGTH_BITMASK)) = n"
proof -
  have m: "(63 :: u8) = mask 6" by (simp add: mask_eq_exp_minus_1)
  have "(SENSOR_TYPE_ASCII OR (of_nat n AND LENGTH_BITMASK)) AND LENGTH_BITMASK = (of_nat n AND 63 :: u8)"
    by (simp add: SENSOR_TYPE_ASCII_def LENGTH_BITMASK_def bit.conj_disj_distrib2 and.assoc)
  also have "\<dots> = take_bit 6 (of_nat n)" by (simp only: m take_bit_eq_mask)
  finally show ?thesis
    using assms by (simp add: tl_len_def SENSOR_NAME_MAX_def unsigned_take_bit_eq take_bit_nat_eq_self unat_of_nat)
qed

text \<open>The bytes a record counts for.\<close>

definition init_size :: "u8 \<Rightarrow> 'w sensor_record \<Rightarrow> nat" where
  "init_size repo r =
     2 + tl_len (sr_name_type_length r) + 1 + value_len r + (1 + tl_len (sr_unit_type_length r)) + 2
     + (if repo = BoardInfoSDR then 0 else limits_size (sr_threshold_support r) (value_len r))
     + 1 + (if sr_sample_count r = 0 then 0 else value_len r + value_len r)"

lemma default_content_length: "default_content me n = Some b \<Longrightarrow> length b = n"
  by (auto simp: default_content_def copy_n_length split: option.splits)

lemma ucast_u8_u32_eq_0: "(ucast (b :: u8) :: u32) = 0 \<longleftrightarrow> b = 0"
  by (metis unat_ucast_u8_u32 unat_eq_zero)

lemma name_value_steps_done:
  assumes "run_steps (name_value_steps e me idx name msp func ty) x = Some (True, y)"
    "in_rec x = zero_record"
  shows "\<exists>v. in_rec y = zero_record\<lparr>sr_id := of_nat idx + 1, sr_msp_id := msp, sr_read_func := func,
        sr_name_type_length := SENSOR_TYPE_ASCII OR (of_nat (length name + 1) AND LENGTH_BITMASK),
        sr_name := Some (name @ [0]), sr_value_type_length := ty, sr_value := Some v\<rparr> \<and>
      in_bytes y = in_bytes x + of_nat (3 + (length name + 1) + tl_len ty) \<and> length v = tl_len ty"
  using assms by (auto simp: name_value_steps_def default_content_length)

lemma init_sensor_done:
  assumes "init_sensor e repo me idx inst (name, msp, func) x = Some (True, y)" "in_rec x = zero_record"
  shows "wf_record repo (in_rec y) \<and> sr_id (in_rec y) = of_nat idx + 1 \<and>
     in_bytes y = in_bytes x + of_nat (init_size repo (in_rec y))"
proof -
  define ty where "ty = value_type repo me name"
  define n where "n = tl_len ty"
  define l where "l = length name + 1"
  have len: "length (name @ [0]) = l" by (simp add: l_def)
  have le: "l \<le> SENSOR_NAME_MAX"
    and steps: "run_steps (sensor_steps e repo me idx inst name msp func) x = Some (True, y)"
    using assms(1) by (auto simp: init_sensor_def l_def split: if_splits)
  obtain x1 x2 x3 x4 x5 where
    x1: "run_steps (name_value_steps e me idx name msp func ty) x = Some (True, x1)" and
    x2: "unit_step e repo x1 = Some (True, x2)" and
    x3: "x3 = x2\<lparr>in_rec := (in_rec x2)\<lparr>sr_unit_modifier := me_unit_modifier me,
        sr_threshold_support := me_threshold me\<rparr>, in_bytes := in_bytes x2 + 1 + 1\<rparr>" and
    x4: "limit_steps e repo name n x3 = Some (True, x4)" and
    x5: "run_steps (max_avg_steps e me n) (x4\<lparr>in_rec := (in_rec x4)\<lparr>sr_status := Sensor_Present_And_Valid,
        sr_sample_count := ucast (me_sample_count me)\<rparr>, in_bytes := in_bytes x4 + 1\<rparr>) = Some (True, x5)" and
    y: "in_rec y = (in_rec x5)\<lparr>sr_instance := of_nat inst\<rparr>" "in_bytes y = in_bytes x5"
    using steps unfolding sensor_steps_def Let_def ty_def [symmetric] n_def [symmetric] by auto
  note name_type_length [OF le, simp]
  obtain v where 1: "in_rec x1 = zero_record\<lparr>sr_id := of_nat idx + 1, sr_msp_id := msp, sr_read_func := func,
        sr_name_type_length := SENSOR_TYPE_ASCII OR (of_nat l AND LENGTH_BITMASK),
        sr_name := Some (name @ [0]), sr_value_type_length := ty, sr_value := Some v\<rparr>"
      "in_bytes x1 = in_bytes x + of_nat (3 + l + n)" "length v = n"
    using name_value_steps_done [OF x1 assms(2)] n_def l_def by blast
  obtain ut u where 2: "in_rec x2 = (in_rec x1)\<lparr>sr_unit_type_length := ut, sr_unit := u\<rparr>"
    "in_bytes x2 = in_bytes x1 + of_nat (1 + tl_len ut)" "tl_len ut \<noteq> 0 \<longrightarrow> fits u (tl_len ut)"
    using unit_step_done [OF x2] by blast
  have "n = value_len (in_rec x3)" by (simp add: x3 2 1 n_def)
  from limit_steps_done [OF x4 this] obtain a b c d p q where
    4: "in_rec x4 = set_limits a b c d p q (in_rec x3)"
      "in_bytes x4 = in_bytes x3 +
         of_nat (if repo = BoardInfoSDR then 0 else limits_size (sr_threshold_support (in_rec x3)) n)"
      "repo \<noteq> BoardInfoSDR \<longrightarrow> limits_fit (in_rec x4)"
    by blast
  obtain av mx where 5: "in_rec x5 = (in_rec x4)\<lparr>sr_status := Sensor_Present_And_Valid,
        sr_sample_count := ucast (me_sample_count me), sr_average := av, sr_max := mx\<rparr>"
      "in_bytes x5 = in_bytes x4 + 1 + of_nat (if me_sample_count me = 0 then 0 else n + n)"
      "me_sample_count me \<noteq> 0 \<longrightarrow> fits mx n \<and> fits av n" "avg_le_max (in_rec x5)"
    using max_avg_steps_done [OF x5] by (auto simp: 4 x3 2 1 set_limits_def zero_record_def)
  have lf: "limits_fit (in_rec y) = limits_fit (in_rec x4)"
    by (simp add: y 5 limits_fit_def limit_fits_def)
  have "wf_record repo (in_rec y)"
    using 2(3) 4(3) 5(3,4) lf 1(3) len
    by (simp add: wf_record_def y 5 4 x3 2 1 set_limits_def ucast_u8_u32_eq_0 n_def avg_le_max_def)
  moreover have "in_bytes y = in_bytes x + of_nat (init_size repo (in_rec y))"
    by (simp add: init_size_def y 5 4 x3 2 1 set_limits_def ucast_u8_u32_eq_0 n_def add.assoc add.commute
        add.left_commute)
  ultimately show ?thesis by (simp add: y 5 4 x3 2 1 set_limits_def)
qed

text \<open>Instance by instance: the records before the next index are built, the others are still
  cleared, and the bytes of the built ones are counted.\<close>

definition built_to :: "u8 \<Rightarrow> nat \<Rightarrow> nat \<Rightarrow> 'w repo_state \<Rightarrow> bool" where
  "built_to repo n idx p \<longleftrightarrow>
     length (rp_records p) = n \<and> idx \<le> n \<and>
     (\<forall>j < idx. wf_record repo (rp_records p ! j) \<and> sr_id (rp_records p ! j) = of_nat j + 1) \<and>
     (\<forall>j < n. idx \<le> j \<longrightarrow> rp_records p ! j = zero_record) \<and>
     rp_bytes p = of_nat (sum_list (map (init_size repo) (take idx (rp_records p))))"

lemma init_instance_done:
  assumes "built_to repo n idx p" "init_instance e repo me idx inst t p = Some (True, q)"
  shows "built_to repo n (Suc idx) q"
proof -
  from assms(2) obtain name msp func x where
    i: "idx < length (rp_records p)" and
    x: "init_sensor e repo me idx inst (name, msp, func)
      \<lparr>in_rec = rp_records p ! idx, in_bytes = rp_bytes p, in_thresh = rp_thresh p, in_w = rp_w p\<rparr> = Some (True, x)"
    and q: "q = \<lparr>rp_records = (rp_records p)[idx := in_rec x], rp_bytes = in_bytes x,
                 rp_thresh = in_thresh x, rp_w = in_w x\<rparr>"
    by (auto simp: init_instance_def rd_def split: option.splits if_splits Option.bind_splits)
  have z: "rp_records p ! idx = zero_record" and n: "length (rp_records p) = n"
    using assms(1) i by (auto simp: built_to_def)
  have d: "wf_record repo (in_rec x)" "sr_id (in_rec x) = of_nat idx + 1"
    "in_bytes x = rp_bytes p + of_nat (init_size repo (in_rec x))"
    using init_sensor_done [OF x] z by auto
  have tk: "take (Suc idx) ((rp_records p)[idx := in_rec x]) = take idx (rp_records p) @ [in_rec x]"
    using i by (simp add: take_Suc_conv_app_nth)
  show ?thesis
    using assms(1) i n d tk by (auto simp: built_to_def q less_Suc_eq nth_list_update)
qed

lemma instances_loop_done:
  assumes "instances_loop e repo me idx js t p = Some (True, idx', q)" "built_to repo n idx p"
  shows "built_to repo n idx' q"
  using assms
  by (induct e repo me idx js t p rule: instances_loop.induct)
    (auto dest: init_instance_done split: option.splits prod.splits if_splits)

lemma metas_loop_done:
  assumes "metas_loop e repo n idx ms p = Some (True, ms', q)" "built_to repo n idx p"
  shows "built_to repo n n q"
  using assms
proof (induct e repo n idx ms p rule: metas_loop.induct)
  case (1 e repo n idx p)
  then show ?case by (auto simp: built_to_def split: if_splits)
next
  case (2 e repo n idx me ms p)
  show ?case
  proof (cases "idx < n")
    case False
    with 2(2,3) show ?thesis by (auto simp: built_to_def)
  next
    case True
    with 2(2) obtain idx' q' where
      i: "instances_loop e repo me idx [0..<max 1 (unat (me_instances me))] (max 1 (unat (me_instances me))) p
        = Some (True, idx', q')"
      and m: "metas_loop e repo n idx' ms q' = Some (True, ms', q)"
      by (auto simp: Let_def split: option.splits prod.splits if_splits)
    from 2(1) [OF True refl i] m instances_loop_done [OF i 2(3)] show ?thesis by auto
  qed
qed

text \<open>A finished repository, and the size its header announces.\<close>

definition sdr_size :: "'w sdr \<Rightarrow> nat" where
  "sdr_size d = sum_list (map (init_size (repository_type (sdr_head d))) (sdr_records d))"

definition built_sdr :: "sdr_header \<Rightarrow> 'w sdr \<Rightarrow> bool" where
  "built_sdr h d \<longleftrightarrow>
     wf_sdr d \<and> repository_type (sdr_head d) = repository_type h \<and> sdr_eor d = chars ''END'' @ [0] \<and>
     no_of_bytes (sdr_head d) = ucast (pad8 (of_nat (sdr_size d) + 3) div 8)"

lemma finish_repo_built:
  assumes "built_to (repository_type h) (unat (no_of_records h)) (unat (no_of_records h)) p"
  shows "built_sdr h (finish_repo (zero_sdr\<lparr>sdr_head := h\<rparr>) p)"
  using assms by (auto simp: built_sdr_def wf_sdr_def built_to_def finish_repo_def zero_sdr_def sdr_size_def chars_def)

lemma repos_loop_done:
  assumes "repos_loop e hs i ms th s = Some (True, s')" "i + length hs = length (sdr_info s)"
    "hs0 = pre @ hs" "length pre = i" "\<forall>j < i. built_sdr (hs0 ! j) (sdr_info s ! j)"
  shows "length (sdr_info s') = length hs0 \<and> (\<forall>j < length hs0. built_sdr (hs0 ! j) (sdr_info s' ! j)) \<and>
     asdm_headers s' = asdm_headers s"
  using assms
proof (induct hs arbitrary: pre i ms th s)
  case Nil
  then show ?case by auto
next
  case (Cons h hs)
  let ?n = "unat (no_of_records h)" and ?r0 = "zero_sdr\<lparr>sdr_head := h\<rparr>"
  from Cons(2) obtain w1 ms' p where
    w: "ae_malloc e (SIZEOF_RECORD e * ?n) (aw s) = (True, w1)" and
    p: "metas_loop e (repository_type h) ?n 0 ms
       \<lparr>rp_records = replicate ?n zero_record, rp_bytes = 0, rp_thresh = th, rp_w = w1\<rparr> = Some (True, ms', p)" and
    r: "repos_loop e hs (Suc i) ms' (rp_thresh p)
       (s\<lparr>sdr_info := (sdr_info s)[i := finish_repo ?r0 p], aw := rp_w p\<rparr>) = Some (True, s')"
    by (auto simp: Let_def split: option.splits prod.splits if_splits)
  have "built_to (repository_type h) ?n 0
      \<lparr>rp_records = replicate ?n zero_record, rp_bytes = 0, rp_thresh = th, rp_w = w1\<rparr>"
    by (simp add: built_to_def)
  from finish_repo_built [OF metas_loop_done [OF p this]]
  have b: "built_sdr h (finish_repo ?r0 p)" .
  have "\<forall>j < Suc i. built_sdr (hs0 ! j) ((sdr_info s)[i := finish_repo ?r0 p] ! j)"
    using b Cons(3-) by (auto simp: less_Suc_eq nth_append)
  with Cons(1) [OF r, of "pre @ [h]"] Cons(3-) show ?case by simp
qed

section \<open>The update of the readings\<close>

text \<open>What an update does not touch.\<close>

definition frozen :: "'w sensor_record \<Rightarrow> 'w sensor_record" where
  "frozen r = r\<lparr>sr_value := None, sr_status := 0, sr_average := None, sr_max := None, sr_sample_count := 0\<rparr>"

lemma frozenD:
  assumes "frozen r' = frozen r"
  shows "sr_id r' = sr_id r" "sr_name r' = sr_name r" "sr_name_type_length r' = sr_name_type_length r"
    "sr_value_type_length r' = sr_value_type_length r" "sr_unit r' = sr_unit r"
    "sr_unit_type_length r' = sr_unit_type_length r" "sr_threshold_support r' = sr_threshold_support r"
    "sr_lower_fatal r' = sr_lower_fatal r" "sr_lower_critical r' = sr_lower_critical r"
    "sr_lower_warning r' = sr_lower_warning r" "sr_upper_fatal r' = sr_upper_fatal r"
    "sr_upper_critical r' = sr_upper_critical r" "sr_upper_warning r' = sr_upper_warning r"
    "sr_msp_id r' = sr_msp_id r" "sr_instance r' = sr_instance r" "sr_read_func r' = sr_read_func r"
  using assms by (cases r; cases r'; simp add: frozen_def)+

lemma frozen_simps [simp]:
  "frozen (r\<lparr>sr_value := v\<rparr>) = frozen r" "frozen (r\<lparr>sr_status := st\<rparr>) = frozen r"
  "frozen (r\<lparr>sr_average := a\<rparr>) = frozen r" "frozen (r\<lparr>sr_max := m\<rparr>) = frozen r"
  "frozen (r\<lparr>sr_sample_count := c\<rparr>) = frozen r"
  by (simp_all add: frozen_def)

lemma frozen_limits:
  assumes "frozen r' = frozen r"
  shows "limits_fit r' = limits_fit r"
  by (simp add: limits_fit_def limit_fits_def frozenD [OF assms])

text \<open>A reading fits a sensor when it is not longer than the sensor's value.\<close>

definition reading_fits :: "'w sensor_record \<Rightarrow> snsr_read \<Rightarrow> bool" where
  "reading_fits r sn \<longleftrightarrow>
     unat (sn_size sn) \<le> value_len r \<and> unat (sn_size sn) \<le> length (sn_value sn)"

lemma average_step:
  fixes a m v c :: nat
  assumes "a \<le> m" "v \<le> m"
  shows "a - a div c + v div c \<le> m"
proof (cases "c = 0")
  case False
  have "m div c \<le> a div c + (m - a)"
  proof -
    have "m div c \<le> (a + c * (m - a)) div c"
      using assms(1) False by (intro div_le_mono) (cases c, auto)
    also have "\<dots> = a div c + (m - a)" using False by simp
    finally show ?thesis .
  qed
  moreover have "v div c \<le> m div c" "a div c \<le> a" using assms by (simp_all add: div_le_mono)
  ultimately show ?thesis using assms(1) by linarith
qed (use assms in simp)

lemma le_nat_append: "le_nat (xs @ ys) = le_nat xs + 256 ^ length xs * le_nat ys"
  by (induct xs) (simp_all add: algebra_simps)

lemma le_nat_split: "le_nat xs = le_nat (take k xs) + 256 ^ length (take k xs) * le_nat (drop k xs)"
  using le_nat_append [of "take k xs" "drop k xs"] by simp

text \<open>The order of two numbers of the same length is decided by their high parts, then by their low
  parts.\<close>

lemma two_part_le:
  fixes x y a b B :: nat
  assumes "x + B * a \<le> y + B * b" "x < B" "y < B"
  shows "a < b \<or> a = b \<and> x \<le> y"
proof (rule ccontr)
  assume "\<not> ?thesis"
  then consider "b < a" | "a = b" "y < x" by linarith
  then show False
  proof cases
    case 1
    then have "B * (b + 1) \<le> B * a" by (intro mult_le_mono) simp_all
    then have "B * b + B \<le> B * a" by (simp add: algebra_simps)
    then show False using assms by linarith
  qed (use assms in simp)
qed

lemma two_part_leI:
  fixes x y a b B :: nat
  assumes "a < b \<or> a = b \<and> x \<le> y" "x < B"
  shows "x + B * a \<le> y + B * b"
proof (cases "a < b")
  case True
  then have "B * (a + 1) \<le> B * b" by (intro mult_le_mono) simp_all
  then show ?thesis using assms(2) by (simp add: algebra_simps)
qed (use assms in auto)

lemma wr_bytes_front: "length ys \<le> length xs \<Longrightarrow> wr_bytes xs 0 ys = Some (ys @ drop (length ys) xs)"
  by (simp add: wr_bytes_def)

lemma rd_bytes_front: "n \<le> length xs \<Longrightarrow> rd_bytes xs 0 n = Some (take n xs)"
  by (simp add: rd_bytes_def)

lemma le_nat_bounded: "length xs = k \<Longrightarrow> le_nat xs < 256 ^ k"
  using le_nat_less by blast

lemma update_max_avg_ok:
  assumes "sr_value r = Some v" "sr_max r = Some m" "sr_average r = Some a"
    "length v = n" "length m = n" "length a = n" "k \<le> n" "le_nat a \<le> le_nat m"
  shows "\<exists>m' a'. update_max_avg k r = Some (r\<lparr>sr_max := Some m', sr_average := Some a'\<rparr>) \<and>
     length m' = n \<and> length a' = n \<and> le_nat a' \<le> le_nat m'"
proof -
  define la where "la = le_nat (take k a)"
  define lm where "lm = le_nat (take k m)"
  define lv where "lv = le_nat (take k v)"
  define c where "c = unat (sr_sample_count r)"
  define x where "x = la - la div c + lv div c"
  define m' where "m' = (if lm < lv then take k v @ drop k m else m)"
  define a' where "a' = le_bytes k x @ drop k a"
  have tk: "length (take k a) = k" "length (take k m) = k" "length (take k v) = k" using assms by simp_all
  have "la + 256 ^ k * le_nat (drop k a) \<le> lm + 256 ^ k * le_nat (drop k m)"
    using assms(8) le_nat_split [of a k] le_nat_split [of m k] tk by (simp add: la_def lm_def)
  from two_part_le [OF this] le_nat_bounded [OF tk(1)] le_nat_bounded [OF tk(2)]
  have ord: "le_nat (drop k a) < le_nat (drop k m) \<or> le_nat (drop k a) = le_nat (drop k m) \<and> la \<le> lm"
    by (simp add: la_def lm_def)
  have m'_eq: "le_nat m' = max lm lv + 256 ^ k * le_nat (drop k m)"
    using le_nat_append [of "take k v" "drop k m"] le_nat_split [of m k] tk
    by (simp add: m'_def lm_def lv_def max_def)
  have a'_eq: "le_nat a' = x mod 256 ^ k + 256 ^ k * le_nat (drop k a)"
    by (simp add: a'_def le_nat_append le_nat_le_bytes)
  have "x mod 256 ^ k + 256 ^ k * le_nat (drop k a) \<le> max lm lv + 256 ^ k * le_nat (drop k m)"
  proof (rule two_part_leI)
    show "le_nat (drop k a) < le_nat (drop k m) \<or>
      le_nat (drop k a) = le_nat (drop k m) \<and> x mod 256 ^ k \<le> max lm lv"
    proof (cases "la \<le> lm")
      case True
      then have "la \<le> max lm lv" "lv \<le> max lm lv" by simp_all
      then have "x \<le> max lm lv" unfolding x_def by (rule average_step)
      then have "x mod 256 ^ k \<le> max lm lv" using mod_less_eq_dividend le_trans by blast
      with ord show ?thesis by blast
    qed (use ord in blast)
  qed simp
  then have "le_nat a' \<le> le_nat m'" by (simp only: m'_eq a'_eq)
  moreover have "update_max_avg k r = Some (r\<lparr>sr_max := Some m', sr_average := Some a'\<rparr>)"
  proof -
    have rd: "rd_bytes v 0 k = Some (take k v)" "rd_bytes m 0 k = Some (take k m)"
      "rd_bytes a 0 k = Some (take k a)"
      using assms(4-7) by (simp_all add: rd_bytes_front)
    have wr: "wr_bytes m 0 (take k v) = Some (take k v @ drop k m)" "wr_bytes a 0 (le_bytes k x) = Some a'"
      using assms(4-7) tk by (simp_all add: wr_bytes_front a'_def)
    show ?thesis
      unfolding update_max_avg_def assms(1-3) Let_def m'_def
      using rd wr(1) wr(2) [unfolded x_def la_def lv_def c_def]
      by (simp add: lm_def lv_def)
  qed
  moreover have "length m' = n" "length a' = n" using assms(4-7) tk by (simp_all add: m'_def a'_def)
  ultimately show ?thesis by blast
qed

lemma copy_reading_ok:
  assumes "wf_record repo r" "reading_fits r sn"
  shows "\<exists>v. copy_reading sn r = Some (r\<lparr>sr_value := Some v\<rparr>) \<and> length v = value_len r"
proof -
  from assms(1) obtain v where v: "sr_value r = Some v" "length v = value_len r"
    by (auto simp: wf_record_def elim: fitsE)
  show ?thesis
  proof (cases "sn_size sn = 0")
    case True
    then have "copy_reading sn r = Some r" using v by (simp add: copy_reading_def)
    then show ?thesis using v by (intro exI [of _ v]) simp
  next
    case False
    let ?k = "unat (sn_size sn)"
    let ?v = "take ?k (sn_value sn) @ drop ?k v"
    have k: "?k \<le> value_len r" "?k \<le> length (sn_value sn)"
      using assms(2) by (simp_all add: reading_fits_def)
    then have "rd_bytes (sn_value sn) 0 ?k = Some (take ?k (sn_value sn))"
      and "length (take ?k (sn_value sn)) = ?k"
      by (simp_all add: rd_bytes_def)
    with False v k show ?thesis
      by (intro exI [of _ ?v]) (simp add: copy_reading_def wr_bytes_front)
  qed
qed

lemma update_record_ok:
  assumes "wf_record repo r" "reading_fits r sn"
  shows "\<exists>r'. update_record sn r = Some r' \<and> wf_record repo r' \<and> frozen r' = frozen r"
proof -
  obtain v where c: "copy_reading sn r = Some (r\<lparr>sr_value := Some v\<rparr>)" and v: "length v = value_len r"
    using copy_reading_ok [OF assms] by blast
  let ?r1 = "r\<lparr>sr_value := Some v\<rparr>"
  have wf1: "wf_record repo (?r1\<lparr>sr_status := st\<rparr>)" "wf_record repo ?r1" for st
    using assms(1) v by (auto simp: wf_record_def avg_le_max_def limits_fit_def limit_fits_def)
  show ?thesis
  proof (cases "sr_sample_count r = 0 \<or> sn_status sn \<noteq> Vmc_Snsr_State_Normal")
    case True
    then show ?thesis using wf1 by (auto simp: update_record_def c Let_def)
  next
    case False
    let ?r2 = "?r1\<lparr>sr_status := sn_status sn\<rparr>"
    from False assms(1) have fit: "fits (sr_max r) (value_len r)" "fits (sr_average r) (value_len r)"
      and le: "avg_le_max r"
      by (simp_all add: wf_record_def)
    obtain m a where ma: "sr_max r = Some m" "sr_average r = Some a"
      "length m = value_len r" "length a = value_len r"
      using fit by (metis fitsE)
    have le: "le_nat a \<le> le_nat m" using le ma by (simp add: avg_le_max_def)
    show ?thesis
    proof (cases "sn_size sn \<in> {4, 2, 1}")
      case True
      have k: "unat (sn_size sn) \<le> value_len r" using assms(2) by (simp add: reading_fits_def)
      obtain m' a' where u: "update_max_avg (unat (sn_size sn)) ?r2
          = Some (?r2\<lparr>sr_max := Some m', sr_average := Some a'\<rparr>)" "length m' = value_len r"
          "length a' = value_len r" "le_nat a' \<le> le_nat m'"
        using update_max_avg_ok [of ?r2 v m a "value_len r" "unat (sn_size sn)"] ma le v k by auto
      let ?r3 = "?r2\<lparr>sr_max := Some m', sr_average := Some a'\<rparr>"
      have "update_record sn r = Some (?r3\<lparr>sr_sample_count := sr_sample_count r + 1\<rparr>)"
        using False True u(1) by (simp add: update_record_def c Let_def)
      moreover have "wf_record repo (?r3\<lparr>sr_sample_count := sr_sample_count r + 1\<rparr>)"
        using assms(1) v u by (simp add: wf_record_def avg_le_max_def limits_fit_def limit_fits_def)
      ultimately show ?thesis by (simp add: frozen_def)
    next
      case F: False
      have "update_record sn r = Some (?r2\<lparr>sr_sample_count := sr_sample_count r + 1\<rparr>)"
        using False F by (simp add: update_record_def c Let_def)
      moreover have "wf_record repo (?r2\<lparr>sr_sample_count := sr_sample_count r + 1\<rparr>)"
        using assms(1) v ma le by (simp add: wf_record_def avg_le_max_def limits_fit_def limit_fits_def)
      ultimately show ?thesis by (simp add: frozen_def)
    qed
  qed
qed

text \<open>The state of the module: one well-formed repository per header, of the header's type.\<close>

definition wf_asdm :: "'w asdm \<Rightarrow> bool" where
  "wf_asdm s \<longleftrightarrow>
     length (sdr_info s) = length (asdm_headers s) \<and> distinct (map repository_type (asdm_headers s)) \<and>
     (\<forall>i < length (sdr_info s). wf_sdr (sdr_info s ! i) \<and>
        repository_type (sdr_head (sdr_info s ! i)) = repository_type (asdm_headers s ! i))"

text \<open>What the rest of the firmware owes: a monitor returns a reading that fits its sensor, and the
  versions of the satellite controller fit the sensors that show them.\<close>

definition monitor_fits :: "'w sensor_record \<Rightarrow> bool" where
  "monitor_fits r \<longleftrightarrow>
     (case sr_read_func r of
        None \<Rightarrow> True
      | Some f \<Rightarrow> \<forall>w. case run_monitor r f w of None \<Rightarrow> False | Some (sn, w') \<Rightarrow> reading_fits r sn)"

definition shows_version :: "bytes \<Rightarrow> 'w sensor_record \<Rightarrow> bool" where
  "shows_version name r \<longleftrightarrow>
     (case sr_name r of
        None \<Rightarrow> False
      | Some nm \<Rightarrow> Cl_SecureMemcmp (c_string nm) SENSOR_NAME_MAX (c_string name) (length name) = Some 0)"

definition version_fits :: "bytes \<Rightarrow> ('w \<Rightarrow> bytes) \<Rightarrow> 'w sensor_record \<Rightarrow> bool" where
  "version_fits name ver r \<longleftrightarrow> (shows_version name r \<longrightarrow> (\<forall>w. length (ver w) \<le> value_len r))"

definition record_ok :: "'w asdm_env \<Rightarrow> u8 \<Rightarrow> 'w sensor_record \<Rightarrow> bool" where
  "record_ok e repo r \<longleftrightarrow>
     wf_record repo r \<and> monitor_fits r \<and> version_fits SNSRNAME_ACTIVE_SC_VER (ae_sc_version e) r \<and>
     version_fits SNSRNAME_TARGET_SC_VER (ae_fpt_version e) r"

definition asdm_ok :: "'w asdm_env \<Rightarrow> 'w asdm \<Rightarrow> bool" where
  "asdm_ok e s \<longleftrightarrow> wf_asdm s \<and> (\<forall>d \<in> set (sdr_info s). \<forall>r \<in> set (sdr_records d).
     record_ok e (repository_type (sdr_head d)) r)"

lemma record_ok_frozen:
  assumes "record_ok e repo r" "frozen r' = frozen r" "wf_record repo r'"
  shows "record_ok e repo r'"
proof -
  note fr = frozenD [OF assms(2)]
  have "run_monitor r' = run_monitor r" by (intro ext) (simp add: run_monitor_def fr)
  moreover have "reading_fits r' = reading_fits r" by (intro ext) (simp add: reading_fits_def fr)
  ultimately have "monitor_fits r' = monitor_fits r"
    by (cases "sr_read_func r") (simp_all add: monitor_fits_def fr cong: option.case_cong)
  with assms(1,3) show ?thesis by (simp add: record_ok_def version_fits_def shows_version_def fr)
qed

definition set_record :: "nat \<Rightarrow> nat \<Rightarrow> 'w sensor_record \<Rightarrow> 'w asdm \<Rightarrow> 'w asdm" where
  "set_record i j r s =
     s\<lparr>sdr_info := (sdr_info s)[i := (sdr_info s ! i)\<lparr>sdr_records := (sdr_records (sdr_info s ! i))[j := r]\<rparr>]\<rparr>"

text \<open>The headers stay.\<close>

definition same_heads :: "'w asdm \<Rightarrow> 'w asdm \<Rightarrow> bool" where
  "same_heads s s' \<longleftrightarrow>
     asdm_headers s' = asdm_headers s \<and> map sdr_head (sdr_info s') = map sdr_head (sdr_info s) \<and>
     asdm_init_success s' = asdm_init_success s"

lemma same_heads_refl [simp]: "same_heads s s"
  by (simp add: same_heads_def)

lemma same_heads_aw [simp]: "same_heads s (s'\<lparr>aw := w\<rparr>) = same_heads s s'" "same_heads (s\<lparr>aw := w\<rparr>) s' = same_heads s s'"
  by (simp_all add: same_heads_def)

lemma same_heads_trans: "same_heads a b \<Longrightarrow> same_heads b c \<Longrightarrow> same_heads a c"
  by (simp add: same_heads_def)

lemma asdm_ok_aw [simp]: "asdm_ok e (s\<lparr>aw := w\<rparr>) = asdm_ok e s"
  by (simp add: asdm_ok_def wf_asdm_def)

lemma asdm_okD:
  assumes "asdm_ok e s" "i < length (sdr_info s)" "j < length (sdr_records (sdr_info s ! i))"
  shows "record_ok e (repository_type (sdr_head (sdr_info s ! i))) (sdr_records (sdr_info s ! i) ! j)"
    "wf_record (repository_type (sdr_head (sdr_info s ! i))) (sdr_records (sdr_info s ! i) ! j)"
    "sr_id (sdr_records (sdr_info s ! i) ! j) = of_nat j + 1"
proof -
  show ok: "record_ok e (repository_type (sdr_head (sdr_info s ! i))) (sdr_records (sdr_info s ! i) ! j)"
    using assms nth_mem [OF assms(2)] nth_mem [OF assms(3)] unfolding asdm_ok_def by blast
  then show "wf_record (repository_type (sdr_head (sdr_info s ! i))) (sdr_records (sdr_info s ! i) ! j)"
    by (simp add: record_ok_def)
  have "wf_sdr (sdr_info s ! i)" using assms by (simp add: asdm_ok_def wf_asdm_def)
  with assms(3) show "sr_id (sdr_records (sdr_info s ! i) ! j) = of_nat j + 1" by (simp add: wf_sdr_def)
qed

lemma asdm_ok_length:
  assumes "asdm_ok e s" "i < length (sdr_info s)"
  shows "length (sdr_records (sdr_info s ! i)) = unat (no_of_records (sdr_head (sdr_info s ! i)))"
  using assms by (auto simp: asdm_ok_def wf_asdm_def wf_sdr_def)

lemma set_record_ok:
  assumes s: "asdm_ok e s" "i < length (sdr_info s)" "j < length (sdr_records (sdr_info s ! i))"
    and r: "wf_record (repository_type (sdr_head (sdr_info s ! i))) r"
      "frozen r = frozen (sdr_records (sdr_info s ! i) ! j)"
  shows "asdm_ok e (set_record i j r s) \<and> same_heads s (set_record i j r s)"
proof -
  let ?d = "sdr_info s ! i"
  let ?d' = "?d\<lparr>sdr_records := (sdr_records ?d)[j := r]\<rparr>"
  have ok: "record_ok e (repository_type (sdr_head ?d)) r"
    by (rule record_ok_frozen [OF asdm_okD(1) [OF s] r(2,1)])
  have id: "sr_id r = of_nat j + 1" using frozenD(1) [OF r(2)] asdm_okD(3) [OF s] by simp
  have wd: "wf_sdr ?d" using s by (auto simp: asdm_ok_def wf_asdm_def)
  have wd': "wf_sdr ?d'"
    using wd id r(1) s(3) by (auto simp: wf_sdr_def nth_list_update)
  have "wf_asdm (set_record i j r s)"
    using s wd' by (auto simp: asdm_ok_def wf_asdm_def set_record_def nth_list_update)
  moreover have "\<forall>d \<in> set (sdr_info (set_record i j r s)). \<forall>x \<in> set (sdr_records d).
      record_ok e (repository_type (sdr_head d)) x"
  proof (intro ballI)
    fix d x
    assume d: "d \<in> set (sdr_info (set_record i j r s))" and x: "x \<in> set (sdr_records d)"
    from d have "d = ?d' \<or> d \<in> set (sdr_info s)"
      by (auto simp: set_record_def dest!: set_update_subset_insert [THEN subsetD])
    then show "record_ok e (repository_type (sdr_head d)) x"
    proof
      assume d': "d = ?d'"
      with x have "x = r \<or> x \<in> set (sdr_records ?d)"
        by (auto dest!: set_update_subset_insert [THEN subsetD])
      with ok s d' show ?thesis by (auto simp: asdm_ok_def)
    qed (use s x in \<open>auto simp: asdm_ok_def\<close>)
  qed
  moreover have "same_heads s (set_record i j r s)"
    using s(2) by (auto simp: same_heads_def set_record_def map_update list_update_same_conv)
  ultimately show ?thesis by (simp add: asdm_ok_def)
qed

lemma sdr_index_loop_eq:
  "t \<notin> set (map repository_type hs) \<Longrightarrow> sdr_index_loop hs t i r = r"
  by (induct hs arbitrary: i r) auto

lemma sdr_index_loop_nth:
  assumes "distinct (map repository_type hs)" "k < length hs" "repository_type (hs ! k) = t"
  shows "sdr_index_loop hs t i r = int (i + k)"
  using assms
proof (induct hs arbitrary: i r k)
  case (Cons h hs)
  then show ?case by (cases k) (auto simp: sdr_index_loop_eq)
qed simp

lemma getSDRIndex_nth:
  assumes "wf_asdm s" "i < length (sdr_info s)"
  shows "getSDRIndex (repository_type (sdr_head (sdr_info s ! i))) s = int i"
  using assms sdr_index_loop_nth [of "asdm_headers s" i _ 0]
  by (simp add: getSDRIndex_def wf_asdm_def)

lemma getSDRIndex_range:
  assumes "wf_asdm s" "getSDRIndex t s \<noteq> -1"
  shows "\<exists>i < length (sdr_info s). getSDRIndex t s = int i \<and> repository_type (sdr_head (sdr_info s ! i)) = t"
proof -
  have "t \<in> set (map repository_type (asdm_headers s))"
    using assms(2) sdr_index_loop_eq by (metis getSDRIndex_def)
  then obtain i where "i < length (asdm_headers s)" "repository_type (asdm_headers s ! i) = t"
    by (auto simp: in_set_conv_nth)
  with assms(1) getSDRIndex_nth [OF assms(1), of i] show ?thesis by (auto simp: wf_asdm_def)
qed

lemma Update_Sensor_Value_ok:
  assumes s: "asdm_ok e s" "i < length (sdr_info s)" "j < length (sdr_records (sdr_info s ! i))"
    and f: "reading_fits (sdr_records (sdr_info s ! i) ! j) sn"
  shows "\<exists>s'. Update_Sensor_Value (repository_type (sdr_head (sdr_info s ! i)))
      (sr_id (sdr_records (sdr_info s ! i) ! j)) sn s = Some (0, s') \<and> asdm_ok e s' \<and> same_heads s s'"
proof -
  obtain r' where r': "update_record sn (sdr_records (sdr_info s ! i) ! j) = Some r'"
    "wf_record (repository_type (sdr_head (sdr_info s ! i))) r'"
    "frozen r' = frozen (sdr_records (sdr_info s ! i) ! j)"
    using update_record_ok [OF asdm_okD(2) [OF s] f] by blast
  have j: "j < 255" using s(3) asdm_ok_length [OF s(1,2)] unat_byte_less by (metis less_Suc_eq_le numeral_nat order.strict_trans1 not_less_eq)
  then have id: "unat (sr_id (sdr_records (sdr_info s ! i) ! j)) = Suc j"
    using asdm_okD(3) [OF s] by (simp add: unat_word_ariths unat_of_nat)
  then have nz: "sr_id (sdr_records (sdr_info s ! i) ! j) \<noteq> 0" by auto
  have wf: "wf_asdm s" using s by (simp add: asdm_ok_def)
  have "Update_Sensor_Value (repository_type (sdr_head (sdr_info s ! i)))
      (sr_id (sdr_records (sdr_info s ! i) ! j)) sn s = Some (0, set_record i j r' s)"
    using s(2,3) id nz r'(1)
    by (simp add: Update_Sensor_Value_def getSDRIndex_nth [OF wf s(2)] set_record_def)
  with set_record_ok [OF s r'(2,3)] show ?thesis by blast
qed

lemma same_heads_shape:
  assumes "same_heads s s'" "asdm_ok e s" "asdm_ok e s'"
  shows "length (sdr_info s') = length (sdr_info s)"
    "i < length (sdr_info s) \<Longrightarrow> sdr_head (sdr_info s' ! i) = sdr_head (sdr_info s ! i)"
    "i < length (sdr_info s) \<Longrightarrow> length (sdr_records (sdr_info s' ! i)) = length (sdr_records (sdr_info s ! i))"
proof -
  show l: "length (sdr_info s') = length (sdr_info s)"
    using assms(1) map_eq_imp_length_eq [of sdr_head "sdr_info s'" sdr_head "sdr_info s"]
    by (simp add: same_heads_def)
  show h: "sdr_head (sdr_info s' ! i) = sdr_head (sdr_info s ! i)" if "i < length (sdr_info s)"
  proof -
    have "map sdr_head (sdr_info s') ! i = map sdr_head (sdr_info s) ! i"
      using assms(1) by (simp add: same_heads_def)
    then show ?thesis using that l by simp
  qed
  show "length (sdr_records (sdr_info s' ! i)) = length (sdr_records (sdr_info s ! i))" if "i < length (sdr_info s)"
    using asdm_ok_length [OF assms(2) that] asdm_ok_length [OF assms(3), of i] that l h by simp
qed

lemma update_records_ok:
  assumes "asdm_ok e s" "i < length (sdr_info s)" "\<forall>j \<in> set js. j < length (sdr_records (sdr_info s ! i))"
  shows "\<exists>s'. update_records i js s = Some s' \<and> asdm_ok e s' \<and> same_heads s s'"
  using assms
proof (induct js arbitrary: s)
  case (Cons j js)
  let ?r = "sdr_records (sdr_info s ! i) ! j"
  have j: "j < length (sdr_records (sdr_info s ! i))" using Cons(4) by simp
  show ?case
  proof (cases "sr_read_func ?r")
    case None
    with Cons j show ?thesis by simp
  next
    case (Some f)
    have "monitor_fits ?r" using asdm_okD(1) [OF Cons(2,3) j] by (simp add: record_ok_def)
    then obtain sn w where m: "run_monitor ?r f (aw s) = Some (sn, w)" "reading_fits ?r sn"
      using Some by (auto simp: monitor_fits_def split: option.splits)
    obtain s1 where s1: "Update_Sensor_Value (repository_type (sdr_head (sdr_info s ! i))) (sr_id ?r) sn
        (s\<lparr>aw := w\<rparr>) = Some (0, s1)" "asdm_ok e s1" "same_heads s s1"
      using Update_Sensor_Value_ok [of e "s\<lparr>aw := w\<rparr>" i j sn] Cons(2,3) j m(2) by auto
    have js: "\<forall>j \<in> set js. j < length (sdr_records (sdr_info s1 ! i))" "i < length (sdr_info s1)"
      using Cons(3,4) same_heads_shape [OF s1(3) Cons(2) s1(2)] by auto
    from Cons(1) [OF s1(2) this(2,1)] obtain s2 where
      "update_records i js s1 = Some s2" "asdm_ok e s2" "same_heads s1 s2" by blast
    with Some m(1) s1 Cons(3) j show ?thesis by (auto intro: same_heads_trans)
  qed
qed simp

lemma update_repos_ok:
  assumes "asdm_ok e s" "\<forall>i \<in> set js. i < length (sdr_info s)"
  shows "\<exists>s'. update_repos js s = Some s' \<and> asdm_ok e s' \<and> same_heads s s'"
  using assms
proof (induct js arbitrary: s)
  case (Cons i js)
  have i: "i < length (sdr_info s)" using Cons(3) by simp
  obtain s1 where s1: "update_records i [0..<unat (no_of_records (sdr_head (sdr_info s ! i)))] s = Some s1"
    "asdm_ok e s1" "same_heads s s1"
    using update_records_ok [OF Cons(2) i, of "[0..<unat (no_of_records (sdr_head (sdr_info s ! i)))]"]
      asdm_ok_length [OF Cons(2) i] by auto
  have "\<forall>i \<in> set js. i < length (sdr_info s1)"
    using Cons(3) same_heads_shape(1) [OF s1(3) Cons(2) s1(2)] by simp
  from Cons(1) [OF s1(2) this] obtain s2 where "update_repos js s1 = Some s2" "asdm_ok e s2" "same_heads s1 s2"
    by blast
  with s1 i show ?case by (auto intro: same_heads_trans)
qed simp

lemma version_search_ok:
  assumes "asdm_ok e s" "i < length (sdr_info s)" "k \<le> length (sdr_records (sdr_info s ! i))"
    and "length name \<le> SENSOR_NAME_MAX" "name \<noteq> []"
    and "\<forall>r \<in> set (sdr_records (sdr_info s ! i)). shows_version name r \<longrightarrow> length ver \<le> value_len r"
  shows "\<exists>s'. version_search e i k name ver s = Some s' \<and> asdm_ok e s' \<and> same_heads s s'"
  using assms
proof (induct k arbitrary: s)
  case (Suc j)
  let ?d = "sdr_info s ! i" and ?r = "sdr_records (sdr_info s ! i) ! j"
  have j: "j < length (sdr_records ?d)" using Suc(4) by simp
  have wf: "wf_record (repository_type (sdr_head ?d)) ?r" by (rule asdm_okD(2) [OF Suc(2,3) j])
  then obtain nm v where nm: "sr_name ?r = Some nm" and v: "sr_value ?r = Some v" "length v = value_len ?r"
    by (auto simp: wf_record_def elim!: fitsE)
  obtain c where c: "Cl_SecureMemcmp (c_string nm) SENSOR_NAME_MAX (c_string name) (length name) = Some c"
    using Suc(5,6) by (auto simp: Cl_SecureMemcmp_def sizes_ok_def SENSOR_NAME_MAX_def)
  obtain ok w where l: "ae_lock e (aw s) = (ok, w)" by (cases "ae_lock e (aw s)")
  have rec: "\<exists>s'. version_search e i j name ver (s\<lparr>aw := w\<rparr>) = Some s' \<and> asdm_ok e s' \<and> same_heads s s'" for w
    using Suc(1) [of "s\<lparr>aw := w\<rparr>"] Suc(2-7) by simp
  show ?case
  proof (cases "c = 0 \<and> ok")
    case False
    then have "version_search e i (Suc j) name ver s
        = version_search e i j name ver (if c = 0 then s\<lparr>aw := w\<rparr> else s\<lparr>aw := aw s\<rparr>)"
      using Suc(3) j nm c l by simp
    then show ?thesis using rec [of w] rec [of "aw s"] by (cases "c = 0") simp_all
  next
    case True
    with nm c have "shows_version name ?r" by (simp add: shows_version_def)
    with Suc(7) j have "length ver \<le> value_len ?r" by simp
    then have "wr_bytes v 0 ver = Some (ver @ drop (length ver) v)"
      "length (ver @ drop (length ver) v) = value_len ?r"
      using v(2) by (simp_all add: wr_bytes_def)
    then obtain v' where v': "wr_bytes v 0 ver = Some v'" "length v' = value_len ?r" by blast
    let ?r' = "?r\<lparr>sr_value := Some v'\<rparr>"
    have "wf_record (repository_type (sdr_head ?d)) ?r'"
      using wf v' by (simp add: wf_record_def avg_le_max_def limits_fit_def limit_fits_def)
    from set_record_ok [OF Suc(2,3) j this] have "asdm_ok e (set_record i j ?r' s)" "same_heads s (set_record i j ?r' s)"
      by simp_all
    moreover have "version_search e i (Suc j) name ver s = Some ((set_record i j ?r' s)\<lparr>aw := ae_unlock e w\<rparr>)"
      using True Suc(3) j nm c l v v' by (simp add: set_record_def)
    ultimately show ?thesis by auto
  qed
qed simp

lemma version_fitsD:
  assumes "asdm_ok e s" "d \<in> set (sdr_info s)" "r \<in> set (sdr_records d)"
  shows "shows_version SNSRNAME_ACTIVE_SC_VER r \<Longrightarrow> length (ae_sc_version e w) \<le> value_len r"
    "shows_version SNSRNAME_TARGET_SC_VER r \<Longrightarrow> length (ae_fpt_version e w) \<le> value_len r"
  using assms by (auto simp: asdm_ok_def record_ok_def version_fits_def)

lemma update_version_ok:
  assumes "asdm_ok e s" "BoardInfoSDR \<in> repository_type ` set (asdm_headers s)"
    and "length name \<le> SENSOR_NAME_MAX" "name \<noteq> []"
    and "\<And>d r. d \<in> set (sdr_info s) \<Longrightarrow> r \<in> set (sdr_records d) \<Longrightarrow> shows_version name r \<Longrightarrow> length ver \<le> value_len r"
  shows "\<exists>s'. update_version e name ver s = Some s' \<and> asdm_ok e s' \<and> same_heads s s'"
proof -
  have wf: "wf_asdm s" using assms(1) by (simp add: asdm_ok_def)
  obtain i where i: "i < length (sdr_info s)" "repository_type (sdr_head (sdr_info s ! i)) = BoardInfoSDR"
    using assms(2) wf by (auto simp: wf_asdm_def in_set_conv_nth)
  have "getSDRIndex BoardInfoSDR s = int i" using getSDRIndex_nth [OF wf i(1)] i(2) by simp
  then have "\<exists>k \<le> unat (no_of_records (sdr_head (sdr_info s ! i))).
      update_version e name ver s = version_search e i k name ver s"
    using i(1) by (auto simp: update_version_def Let_def)
  with version_search_ok [OF assms(1) i(1) _ assms(3,4), of _ ver] asdm_ok_length [OF assms(1) i(1)]
    assms(5) [OF nth_mem [OF i(1)]]
  show ?thesis by auto
qed

text \<open>C35: One pass of the sensor task over well-formed repositories ends normally: every block it reads or
  writes is found and large enough, the repositories stay well-formed, and every running average stays at
  most the maximum.  It needs the rest of the firmware to give readings that fit their sensors.\<close>

theorem asdm_update_keeps_records:
  assumes "asdm_ok e s" "BoardInfoSDR \<in> repository_type ` set (asdm_headers s)"
  shows "\<exists>s'. Asdm_Update_Sensors e s = Some s' \<and> asdm_ok e s' \<and> same_heads s s'"
proof (cases "asdm_init_success s")
  case False
  then show ?thesis using assms by (simp add: Asdm_Update_Sensors_def)
next
  case True
  have names: "length SNSRNAME_ACTIVE_SC_VER \<le> SENSOR_NAME_MAX" "SNSRNAME_ACTIVE_SC_VER \<noteq> []"
    "length SNSRNAME_TARGET_SC_VER \<le> SENSOR_NAME_MAX" "SNSRNAME_TARGET_SC_VER \<noteq> []"
    by (simp_all add: SNSRNAME_ACTIVE_SC_VER_def SNSRNAME_TARGET_SC_VER_def SENSOR_NAME_MAX_def chars_def)
  obtain s1 where s1: "Asdm_Update_Active_MSP_sensor e s = Some s1" "asdm_ok e s1" "same_heads s s1"
    using update_version_ok [OF assms names(1,2), of "ae_sc_version e (aw s)"] version_fitsD(1) [OF assms(1)]
    by (auto simp: Asdm_Update_Active_MSP_sensor_def)
  have "BoardInfoSDR \<in> repository_type ` set (asdm_headers s1)" using assms(2) s1(3) by (simp add: same_heads_def)
  from update_version_ok [OF s1(2) this names(3,4), of "ae_fpt_version e (aw s1)"] version_fitsD(2) [OF s1(2)]
  obtain s2 where s2: "Asdm_Update_Target_MSP_sensor e s1 = Some s2" "asdm_ok e s2" "same_heads s1 s2"
    by (auto simp: Asdm_Update_Target_MSP_sensor_def)
  obtain ok w where l: "ae_lock e (aw s2) = (ok, w)" by (cases "ae_lock e (aw s2)")
  have "length (asdm_headers s2) = length (sdr_info s2)" using s2(2) by (simp add: asdm_ok_def wf_asdm_def)
  then obtain s3 where s3: "update_repos [0..<length (asdm_headers s2)] (s2\<lparr>aw := w\<rparr>) = Some s3" "asdm_ok e s3"
    "same_heads s2 s3"
    using update_repos_ok [of e "s2\<lparr>aw := w\<rparr>" "[0..<length (asdm_headers s2)]"] s2(2) by auto
  show ?thesis
    using True s1 s2 s3 l same_heads_trans
    by (cases ok) (auto simp: Asdm_Update_Sensors_def intro: same_heads_trans)
qed

section \<open>What the construction establishes\<close>

lemma Init_Asdm_built:
  assumes "Init_Asdm e s0 = Some (0, s)"
  shows "asdm_init_success s \<and> length (sdr_info s) = length (asdm_headers s) \<and>
     (\<forall>j < length (asdm_headers s). built_sdr (asdm_headers s ! j) (sdr_info s ! j))"
proof -
  let ?hs = "case ae_record_count e of None \<Rightarrow> asdm_headers s0 | Some f \<Rightarrow> f (asdm_headers s0)"
  from assms obtain ms s2 s3 where
    r: "repos_loop e ?hs 0 ms 0 s2 = Some (True, s3)" "length (sdr_info s2) = length ?hs" "asdm_headers s2 = ?hs"
    and s: "s = s3\<lparr>aw := ae_free e (aw s3), asdm_init_success := True\<rparr>"
    by (auto simp: Init_Asdm_def Let_def split: option.splits prod.splits if_splits Option.bind_splits)
  from repos_loop_done [OF r(1), of ?hs "[]"] r(2,3) show ?thesis by (simp add: s)
qed

lemma Init_Asdm_wf:
  assumes "Init_Asdm e s0 = Some (0, s)" "distinct (map repository_type (asdm_headers s))"
  shows "asdm_init_success s \<and> wf_asdm s"
  using Init_Asdm_built [OF assms(1)] assms(2) by (simp add: wf_asdm_def built_sdr_def)

text \<open>C34: When the construction of the repositories succeeds, every repository has as many records as its
  header says, numbered from 1, and the name, value, unit, limits, maximum and average of every record
  are blocks of the sizes the record announces: the state is well-formed.\<close>

theorem asdm_init_well_formed:
  assumes "Init_Asdm e s0 = Some (0, s)" "distinct (map repository_type (asdm_headers s))"
  shows "asdm_init_success s \<and> wf_asdm s"
  by (rule Init_Asdm_wf [OF assms])

section \<open>The size of a repository\<close>

text \<open>A record whose maximum and average are supported exactly when it takes samples; a board
  information has no limits.\<close>

definition regular_record :: "u8 \<Rightarrow> 'w sensor_record \<Rightarrow> bool" where
  "regular_record repo r \<longleftrightarrow>
     0 < value_len r \<and> 0 < tl_len (sr_name_type_length r) \<and>
     (sr_threshold_support r AND Sensor_Avg_Val_Support \<noteq> 0 \<longleftrightarrow> sr_sample_count r \<noteq> 0) \<and>
     (sr_threshold_support r AND Sensor_Max_Val_Support \<noteq> 0 \<longleftrightarrow> sr_sample_count r \<noteq> 0) \<and>
     (repo = BoardInfoSDR \<longrightarrow> limits_size (sr_threshold_support r) (value_len r) = 0)"

lemma field_fits: "fits p n \<Longrightarrow> 0 < n \<Longrightarrow> \<exists>b. field p n = Some b \<and> length b = n"
  by (auto simp: field_def copy_n_def elim: fitsE)

lemma limit_bytes_fits:
  assumes "limit_fits r bitm p" "0 < value_len r"
  shows "\<exists>b. limit_bytes r bitm p = Some b \<and> length b = limit_size (sr_threshold_support r) bitm (value_len r)"
  using assms field_fits by (auto simp: limit_bytes_def limit_fits_def limit_size_def)

lemma limit_bytes_none:
  assumes "limit_size (sr_threshold_support r) bitm (value_len r) = 0" "0 < value_len r"
  shows "limit_bytes r bitm p = Some []"
  using assms by (auto simp: limit_bytes_def limit_size_def split: if_splits)

lemma limits_bytes_ok:
  assumes "wf_record repo r" "regular_record repo r"
  shows "\<exists>a b c d u v. limit_bytes r Lower_Fatal_Threshold (sr_lower_fatal r) = Some a \<and>
     limit_bytes r Lower_Critical_Threshold (sr_lower_critical r) = Some b \<and>
     limit_bytes r Lower_Warning_Threshold (sr_lower_warning r) = Some c \<and>
     limit_bytes r Upper_Fatal_Threshold (sr_upper_fatal r) = Some d \<and>
     limit_bytes r Upper_Critical_Threshold (sr_upper_critical r) = Some u \<and>
     limit_bytes r Upper_Warning_Threshold (sr_upper_warning r) = Some v \<and>
     length (a @ b @ c @ d @ u @ v) =
       (if repo = BoardInfoSDR then 0 else limits_size (sr_threshold_support r) (value_len r))"
proof (cases "repo = BoardInfoSDR")
  case True
  then have "limits_size (sr_threshold_support r) (value_len r) = 0" "0 < value_len r"
    using assms(2) by (simp_all add: regular_record_def)
  then show ?thesis using True by (simp add: limits_size_def limit_bytes_none)
next
  case False
  then have f: "limits_fit r" and p: "0 < value_len r"
    using assms by (simp_all add: wf_record_def regular_record_def)
  note l = f [unfolded limits_fit_def]
  from l limit_bytes_fits [OF _ p] obtain a b c d u v where
    "limit_bytes r Lower_Fatal_Threshold (sr_lower_fatal r) = Some a"
    "length a = limit_size (sr_threshold_support r) Lower_Fatal_Threshold (value_len r)"
    "limit_bytes r Lower_Critical_Threshold (sr_lower_critical r) = Some b"
    "length b = limit_size (sr_threshold_support r) Lower_Critical_Threshold (value_len r)"
    "limit_bytes r Lower_Warning_Threshold (sr_lower_warning r) = Some c"
    "length c = limit_size (sr_threshold_support r) Lower_Warning_Threshold (value_len r)"
    "limit_bytes r Upper_Fatal_Threshold (sr_upper_fatal r) = Some d"
    "length d = limit_size (sr_threshold_support r) Upper_Fatal_Threshold (value_len r)"
    "limit_bytes r Upper_Critical_Threshold (sr_upper_critical r) = Some u"
    "length u = limit_size (sr_threshold_support r) Upper_Critical_Threshold (value_len r)"
    "limit_bytes r Upper_Warning_Threshold (sr_upper_warning r) = Some v"
    "length v = limit_size (sr_threshold_support r) Upper_Warning_Threshold (value_len r)"
    by metis
  with False show ?thesis by (simp add: limits_size_def)
qed

lemma record_bytes_ok:
  assumes "wf_record repo r" "regular_record repo r"
  shows "\<exists>bs. record_bytes r = Some bs \<and> length bs = init_size repo r"
proof -
  let ?thr = "sr_threshold_support r"
  have p: "0 < value_len r" "0 < tl_len (sr_name_type_length r)"
    and s: "?thr AND Sensor_Avg_Val_Support \<noteq> 0 \<longleftrightarrow> sr_sample_count r \<noteq> 0"
      "?thr AND Sensor_Max_Val_Support \<noteq> 0 \<longleftrightarrow> sr_sample_count r \<noteq> 0"
    using assms(2) by (simp_all add: regular_record_def)
  obtain nm v where nm: "field (sr_name r) (tl_len (sr_name_type_length r)) = Some nm"
      "length nm = tl_len (sr_name_type_length r)"
    and v: "field0 (sr_value r) (value_len r) = Some v" "length v = value_len r"
    using assms(1) p by (auto simp: wf_record_def field0_def dest!: field_fits)
  obtain un where un: "field0 (sr_unit r) (tl_len (sr_unit_type_length r)) = Some un"
      "length un = tl_len (sr_unit_type_length r)"
    using assms(1) field_fits
    by (cases "tl_len (sr_unit_type_length r) = 0") (auto simp: wf_record_def field0_def)
  have "limit_fits r Sensor_Avg_Val_Support (sr_average r)" "limit_fits r Sensor_Max_Val_Support (sr_max r)"
    using assms(1) s by (auto simp: limit_fits_def wf_record_def)
  then obtain av mx where
    av: "limit_bytes r Sensor_Avg_Val_Support (sr_average r) = Some av"
      "length av = limit_size ?thr Sensor_Avg_Val_Support (value_len r)" and
    mx: "limit_bytes r Sensor_Max_Val_Support (sr_max r) = Some mx"
      "length mx = limit_size ?thr Sensor_Max_Val_Support (value_len r)"
    using limit_bytes_fits p(1) by blast
  have am: "length av + length mx = (if sr_sample_count r = 0 then 0 else value_len r + value_len r)"
    using s by (simp add: av mx limit_size_def)
  obtain a b c d u w where "limit_bytes r Lower_Fatal_Threshold (sr_lower_fatal r) = Some a"
    "limit_bytes r Lower_Critical_Threshold (sr_lower_critical r) = Some b"
    "limit_bytes r Lower_Warning_Threshold (sr_lower_warning r) = Some c"
    "limit_bytes r Upper_Fatal_Threshold (sr_upper_fatal r) = Some d"
    "limit_bytes r Upper_Critical_Threshold (sr_upper_critical r) = Some u"
    "limit_bytes r Upper_Warning_Threshold (sr_upper_warning r) = Some w"
    and lim: "length (a @ b @ c @ d @ u @ w) =
       (if repo = BoardInfoSDR then 0 else limits_size ?thr (value_len r))"
    using limits_bytes_ok [OF assms] by blast
  then have "record_bytes r = Some ([sr_id r, sr_name_type_length r] @ nm @ [sr_value_type_length r] @ v
       @ [sr_unit_type_length r] @ un @ [sr_unit_modifier r, ?thr]
       @ a @ b @ c @ d @ u @ w @ [sr_status r] @ av @ mx)"
    using nm v un av mx by (simp add: record_bytes_def)
  then show ?thesis using lim am nm(2) v(2) un(2) by (simp add: init_size_def del: length_0_conv)
qed

lemma records_bytes_ok:
  assumes "\<forall>r \<in> set rs. wf_record repo r \<and> regular_record repo r"
  shows "\<exists>bs. records_bytes rs = Some bs \<and> length bs = sum_list (map (init_size repo) rs)"
  using assms
proof (induct rs)
  case (Cons r rs)
  then obtain bs where "records_bytes rs = Some bs" "length bs = sum_list (map (init_size repo) rs)" by auto
  moreover obtain b where "record_bytes r = Some b" "length b = init_size repo r"
    using record_bytes_ok [of repo r] Cons(2) by auto
  ultimately show ?case by simp
qed simp

lemma unat_pad8:
  assumes "unat w < 65528"
  shows "unat (pad8 w) = (unat w + 7) div 8 * 8"
proof -
  have m: "unat (w mod 8) = unat w mod 8" by (simp add: unat_mod)
  have l: "w mod 8 \<le> 8" unfolding word_le_nat_alt m by simp
  show ?thesis
  proof (cases "w mod 8 = 0")
    case True
    with m have "unat w mod 8 = 0" by simp
    then have "(unat w + 7) div 8 * 8 = unat w" by presburger
    with True show ?thesis by (simp add: pad8_def)
  next
    case False
    then have "unat (w mod 8) \<noteq> 0" by (simp add: unat_eq_zero del: unat_mod)
    then have nz: "unat w mod 8 \<noteq> 0" unfolding m .
    have e: "(x + 7) div 8 * 8 = x + (8 - x mod 8)" if x: "x mod 8 \<noteq> 0" for x :: nat
    proof -
      have "(x mod 8 + 7) div 8 = 1" using x by (simp add: div_nat_eqI)
      moreover have "x + 7 = (x mod 8 + 7) + 8 * (x div 8)" by simp
      ultimately have "(x + 7) div 8 = x div 8 + 1" by (metis add.commute div_mult_self2 zero_neq_numeral)
      moreover have "x = 8 * (x div 8) + x mod 8" "x mod 8 < 8" by simp_all
      ultimately show ?thesis by linarith
    qed
    have d: "unat (8 - w mod 8) = 8 - unat w mod 8" using unat_sub [OF l] m by simp
    have "unat w + unat (8 - w mod 8) < 2 ^ LENGTH(16)" using assms d by simp
    then have "unat (w + (8 - w mod 8)) = unat w + (8 - unat w mod 8)"
      using d unat_add_lem [THEN iffD1] by metis
    with False e [OF nz] show ?thesis by (simp add: pad8_def)
  qed
qed

lemma announced_size:
  assumes "n \<le> 2037"
  shows "n + 3 \<le> unat (ucast (pad8 (of_nat n + 3) div 8) :: u8) * 8 \<and>
     unat (ucast (pad8 (of_nat n + 3) div 8) :: u8) * 8 < n + 11"
proof -
  have n3: "unat (of_nat n + 3 :: u16) = n + 3"
    using assms by (simp add: unat_word_ariths unat_of_nat)
  define m where "m = (n + 3 + 7) div 8"
  have "unat (pad8 (of_nat n + 3)) = m * 8"
    using unat_pad8 [of "of_nat n + 3"] n3 assms by (simp add: m_def)
  then have d: "unat (pad8 (of_nat n + 3) div 8) = m" by (simp add: unat_div)
  have "m < 256" using assms by (simp add: m_def)
  then have "unat (ucast (pad8 (of_nat n + 3) div 8) :: u8) = m"
    by (simp add: unsigned_ucast_eq d take_bit_nat_eq_self)
  then show ?thesis unfolding m_def by linarith
qed


section \<open>A small platform\<close>

text \<open>A platform with the version of the satellite controller and one temperature; the state of the
  firmware is a clock, which is also what the monitor reads.\<close>

definition sim_monitor :: "nat monitor" where
  "sim_monitor sn w = Some (sn\<lparr>sn_value := [of_nat w, 0, 0, 0], sn_size := 2, sn_status := 1\<rparr>, w + 1)"

definition sim_names :: "nat name_fun" where
  "sim_names i = None"

definition sim_sources :: "nat sensor_sources" where
  "sim_sources = \<lparr>src_Temperature_Read_Board = sim_monitor, src_Temperature_Read_ACAP_Device_Sysmon = sim_monitor,
     src_Temperature_Read_VCCINT = sim_monitor, src_Asdm_Read_Power = sim_monitor, src_scGetTemperatureName = sim_names,
     src_getQSFPName = sim_names, src_getVoltagesName = sim_names, src_getCurrentNames = sim_names,
     src_ucGetTemperatureSensorNum = 0, src_getVoltageSensorNum = 3, src_getCurrentSensorNum = 3\<rparr>"

definition sim_board_info :: board_info where
  "sim_board_info = \<lparr>bi_product_name = replicate 25 65, bi_board_serial = replicate 15 66,
     bi_board_part_num = replicate 25 67, bi_board_rev = replicate 9 68, bi_board_mfg_date = replicate 4 1,
     bi_board_uuid = replicate 17 2, bi_board_mac = replicate 2 (replicate 7 3), bi_board_act_pas = [65, 0],
     bi_OEM_ID = replicate 5 0\<rparr>"

definition sim_asdm_env :: "nat asdm_env" where
  "sim_asdm_env = \<lparr>ae_malloc = (\<lambda>n w. (True, w)), ae_free = (\<lambda>w. w), ae_lock = (\<lambda>w. (True, w)),
     ae_unlock = (\<lambda>w. w), ae_sc_version = (\<lambda>w. [4, 4, 32, 0]), ae_fpt_version = (\<lambda>w. [4, 4, 33]),
     ae_board_info = (\<lambda>w. sim_board_info), ae_sources = sim_sources, ae_supported = Some [9, 12],
     ae_record_count = Some (\<lambda>hs. map2 (\<lambda>h n. h\<lparr>no_of_records := n\<rparr>) hs [1, 1, 0, 0, 0]),
     SIZEOF_META = 32, SIZEOF_SDR = 16, SIZEOF_RECORD = 96\<rparr>"

definition sim_asdm0 :: "nat asdm" where
  "sim_asdm0 = \<lparr>asdm_headers = asdmHeaderInfo, sdr_info = [], asdm_init_success = False,
     total_sensor_count = 0, dynamic_sensor_count = 0, aw = 0\<rparr>"

text \<open>The two records, and the state the construction ends in.\<close>

definition sim_version_record :: "nat sensor_record" where
  "sim_version_record = zero_record
     \<lparr>sr_id := 1, sr_msp_id := 0, sr_read_func := None, sr_name_type_length := 206,
      sr_name := Some [65, 99, 116, 105, 118, 101, 32, 83, 67, 32, 86, 101, 114, 0],
      sr_value_type_length := 4, sr_value := Some [4, 4, 32, 0], sr_unit_type_length := 0,
      sr_unit_modifier := 0, sr_threshold_support := 0, sr_status := Sensor_Present_And_Valid,
      sr_sample_count := 0, sr_instance := 0\<rparr>"

definition sim_pcb_record :: "nat sensor_record" where
  "sim_pcb_record = zero_record
     \<lparr>sr_id := 1, sr_msp_id := 2, sr_read_func := Some sim_monitor, sr_name_type_length := 0xC4,
      sr_name := Some [80, 67, 66, 0], sr_value_type_length := 2, sr_value := Some [0, 0],
      sr_unit_type_length := 0xC8, sr_unit := Some [67, 101, 108, 115, 105, 117, 115, 0],
      sr_unit_modifier := 0, sr_threshold_support := 0xC7, sr_upper_fatal := Some [95, 0],
      sr_upper_critical := Some [85, 0], sr_upper_warning := Some [80, 0],
      sr_status := Sensor_Present_And_Valid, sr_sample_count := 1, sr_max := Some [0, 0],
      sr_average := Some [0, 0], sr_instance := 0\<rparr>"

definition sim_head :: "u8 \<Rightarrow> u8 \<Rightarrow> u8 \<Rightarrow> sdr_header" where
  "sim_head t n b = \<lparr>repository_type = t, repository_version = 1, no_of_records = n, no_of_bytes = b\<rparr>"

definition sim_sdr :: "u8 \<Rightarrow> u8 \<Rightarrow> u8 \<Rightarrow> nat sensor_record list \<Rightarrow> nat sdr" where
  "sim_sdr t n b rs = \<lparr>sdr_head = sim_head t n b, sdr_records = rs, sdr_eor = [69, 78, 68, 0]\<rparr>"

definition sim_asdm :: "nat asdm" where
  "sim_asdm = \<lparr>asdm_headers = map2 (\<lambda>h n. h\<lparr>no_of_records := n\<rparr>) asdmHeaderInfo [1, 1, 0, 0, 0],
     sdr_info =
       [sim_sdr 0xC0 1 4 [sim_version_record], sim_sdr 0xC1 1 5 [sim_pcb_record],
        sim_sdr 0xC2 0 1 [], sim_sdr 0xC3 0 1 [], sim_sdr 0xC4 0 1 []],
     asdm_init_success = True, total_sensor_count = 2, dynamic_sensor_count = 4, aw = 0\<rparr>"

definition sim_metas :: "nat sensor_meta list" where
  "sim_metas = [board_meta ''Active SC Ver'' 4 [4, 4, 32, 0],
     sensor_meta_of TemperatureSDR ''PCB'' 2 0 HAS_UPPER_THRESHOLDS 2 sim_monitor]"

lemma sim_thresholds: "getThresholdIdx i [80, 67, 66] 4 = Some 0"
  by (simp add: getThresholdIdx_def thresholds_limit_tbl_def Cl_SecureStrncmp_def sizes_ok_def chars_def
      c_string_def numeral_2_eq_2)

lemma sim_thresholds_Suc: "getThresholdIdx i [80, 67, 66] (Suc (Suc (Suc (Suc 0)))) = Some 0"
  using sim_thresholds by (simp add: eval_nat_numeral)

lemma small_blocks:
  "replicate 2 x = [x, x]" "le_bytes 2 n = [of_nat n, of_nat (n div 256)]"
  by (simp_all add: numeral_2_eq_2)

lemmas init_sensor_eval = sim_metas_def board_meta_def sensor_meta_of_def HAS_UPPER_THRESHOLDS_def
  Sensor_Max_Val_Support_def Sensor_Avg_Val_Support_def init_sensor_def SENSOR_NAME_MAX_def sensor_steps_def name_value_steps_def
  unit_step_def sensor_unit_tbl_def limit_steps_def limit_fields_def limit_step_def max_avg_steps_def
  default_content_def value_type_def SENSOR_TYPE_ASCII_def LENGTH_BITMASK_def chars_def copy_n_def
  Upper_Warning_Threshold_def Upper_Critical_Threshold_def Upper_Fatal_Threshold_def
  Lower_Warning_Threshold_def Lower_Critical_Threshold_def Lower_Fatal_Threshold_def
  thresholds_limit_tbl_def tl_len_def

lemma sim_init_pcb:
  "init_sensor sim_asdm_env 0xC1 (sim_metas ! Suc 0) 0 0 ([80, 67, 66], 2, Some sim_monitor)
     \<lparr>in_rec = zero_record, in_bytes = b, in_thresh = 0, in_w = 0\<rparr>
   = Some (True, \<lparr>in_rec = sim_pcb_record, in_bytes = 31 + b, in_thresh = 0, in_w = 0\<rparr>)"
  by (simp add: init_sensor_eval sim_asdm_env_def sim_thresholds sim_thresholds_Suc
      sim_pcb_record_def small_blocks)

lemma sim_init_version:
  "init_sensor sim_asdm_env 0xC0 (sim_metas ! 0) 0 0 (SNSRNAME_ACTIVE_SC_VER, 0, None)
     \<lparr>in_rec = zero_record, in_bytes = b, in_thresh = 0, in_w = 0\<rparr>
   = Some (True, \<lparr>in_rec = sim_version_record, in_bytes = 25 + b, in_thresh = 0, in_w = 0\<rparr>)"
  by (simp add: init_sensor_eval sim_asdm_env_def SNSRNAME_ACTIVE_SC_VER_def
      sim_version_record_def small_blocks)

lemma sim_instance:
  "init_instance sim_asdm_env 0xC0 (sim_metas ! 0) 0 0 (Suc 0)
     \<lparr>rp_records = [zero_record], rp_bytes = 0, rp_thresh = 0, rp_w = 0\<rparr>
   = Some (True, \<lparr>rp_records = [sim_version_record], rp_bytes = 25, rp_thresh = 0, rp_w = 0\<rparr>)"
  "init_instance sim_asdm_env 0xC1 (sim_metas ! Suc 0) 0 0 (Suc 0)
     \<lparr>rp_records = [zero_record], rp_bytes = 0, rp_thresh = 0, rp_w = 0\<rparr>
   = Some (True, \<lparr>rp_records = [sim_pcb_record], rp_bytes = 31, rp_thresh = 0, rp_w = 0\<rparr>)"
proof -
  have "instance_name (sim_metas ! 0) 0 (Suc 0) = Some (SNSRNAME_ACTIVE_SC_VER, 0, None)"
    "instance_name (sim_metas ! Suc 0) 0 (Suc 0) = Some ([80, 67, 66], 2, Some sim_monitor)"
    by (simp_all add: sim_metas_def board_meta_def sensor_meta_of_def instance_name_def
        SNSRNAME_ACTIVE_SC_VER_def chars_def)
  then show
    "init_instance sim_asdm_env 0xC0 (sim_metas ! 0) 0 0 (Suc 0)
       \<lparr>rp_records = [zero_record], rp_bytes = 0, rp_thresh = 0, rp_w = 0\<rparr>
     = Some (True, \<lparr>rp_records = [sim_version_record], rp_bytes = 25, rp_thresh = 0, rp_w = 0\<rparr>)"
    "init_instance sim_asdm_env 0xC1 (sim_metas ! Suc 0) 0 0 (Suc 0)
       \<lparr>rp_records = [zero_record], rp_bytes = 0, rp_thresh = 0, rp_w = 0\<rparr>
     = Some (True, \<lparr>rp_records = [sim_pcb_record], rp_bytes = 31, rp_thresh = 0, rp_w = 0\<rparr>)"
    by (simp_all add: init_instance_def sim_init_pcb sim_init_version)
qed

lemma sim_metas_loop:
  "metas_loop sim_asdm_env 0xC0 (Suc 0) 0 [sim_metas ! 0, sim_metas ! Suc 0]
     \<lparr>rp_records = [zero_record], rp_bytes = 0, rp_thresh = 0, rp_w = 0\<rparr>
   = Some (True, [sim_metas ! Suc 0], \<lparr>rp_records = [sim_version_record], rp_bytes = 25, rp_thresh = 0, rp_w = 0\<rparr>)"
  "metas_loop sim_asdm_env 0xC1 (Suc 0) 0 [sim_metas ! Suc 0]
     \<lparr>rp_records = [zero_record], rp_bytes = 0, rp_thresh = 0, rp_w = 0\<rparr>
   = Some (True, [], \<lparr>rp_records = [sim_pcb_record], rp_bytes = 31, rp_thresh = 0, rp_w = 0\<rparr>)"
proof -
  have "me_instances (sim_metas ! 0) = 0" "me_instances (sim_metas ! Suc 0) = 0"
    by (simp_all add: sim_metas_def board_meta_def sensor_meta_of_def)
  then show
    "metas_loop sim_asdm_env 0xC0 (Suc 0) 0 [sim_metas ! 0, sim_metas ! Suc 0]
       \<lparr>rp_records = [zero_record], rp_bytes = 0, rp_thresh = 0, rp_w = 0\<rparr>
     = Some (True, [sim_metas ! Suc 0], \<lparr>rp_records = [sim_version_record], rp_bytes = 25, rp_thresh = 0, rp_w = 0\<rparr>)"
    "metas_loop sim_asdm_env 0xC1 (Suc 0) 0 [sim_metas ! Suc 0]
       \<lparr>rp_records = [zero_record], rp_bytes = 0, rp_thresh = 0, rp_w = 0\<rparr>
     = Some (True, [], \<lparr>rp_records = [sim_pcb_record], rp_bytes = 31, rp_thresh = 0, rp_w = 0\<rparr>)"
    by (simp_all add: sim_instance Let_def)
qed

lemma sim_repos:
  assumes "aw s = 0"
  shows "repos_loop sim_asdm_env (sim_head 0xC0 1 b # hs) i [sim_metas ! 0, sim_metas ! Suc 0] 0 s
     = repos_loop sim_asdm_env hs (Suc i) [sim_metas ! Suc 0] 0
         (s\<lparr>sdr_info := (sdr_info s)[i := sim_sdr 0xC0 1 4 [sim_version_record]]\<rparr>)"
    and "repos_loop sim_asdm_env (sim_head 0xC1 1 b # hs) i [sim_metas ! Suc 0] 0 s
     = repos_loop sim_asdm_env hs (Suc i) [] 0
         (s\<lparr>sdr_info := (sdr_info s)[i := sim_sdr 0xC1 1 5 [sim_pcb_record]]\<rparr>)"
    and "repos_loop sim_asdm_env (sim_head t 0 b # hs) i [] 0 s
     = repos_loop sim_asdm_env hs (Suc i) [] 0 (s\<lparr>sdr_info := (sdr_info s)[i := sim_sdr t 0 1 []]\<rparr>)"
proof -
  have m: "ae_malloc sim_asdm_env n w = (True, w)" for n w by (simp add: sim_asdm_env_def)
  note evs = m assms sim_head_def sim_metas_loop sim_sdr_def finish_repo_def zero_sdr_def chars_def pad8_def
  show "repos_loop sim_asdm_env (sim_head 0xC0 1 b # hs) i [sim_metas ! 0, sim_metas ! Suc 0] 0 s
     = repos_loop sim_asdm_env hs (Suc i) [sim_metas ! Suc 0] 0
         (s\<lparr>sdr_info := (sdr_info s)[i := sim_sdr 0xC0 1 4 [sim_version_record]]\<rparr>)"
    using assms by (cases s) (simp add: evs Let_def numeral_3_eq_3 del: metas_loop.simps)
  show "repos_loop sim_asdm_env (sim_head 0xC1 1 b # hs) i [sim_metas ! Suc 0] 0 s
     = repos_loop sim_asdm_env hs (Suc i) [] 0
         (s\<lparr>sdr_info := (sdr_info s)[i := sim_sdr 0xC1 1 5 [sim_pcb_record]]\<rparr>)"
    using assms by (cases s) (simp add: evs Let_def numeral_3_eq_3 del: metas_loop.simps)
  show "repos_loop sim_asdm_env (sim_head t 0 b # hs) i [] 0 s
     = repos_loop sim_asdm_env hs (Suc i) [] 0 (s\<lparr>sdr_info := (sdr_info s)[i := sim_sdr t 0 1 []]\<rparr>)"
    using assms by (cases s) (simp add: evs Let_def numeral_3_eq_3)
qed

lemma sim_asdm_init: "Init_Asdm sim_asdm_env sim_asdm0 = Some (0, sim_asdm)"
proof -
  have env: "ae_supported sim_asdm_env = Some [9, 12]" "ae_malloc sim_asdm_env n w = (True, w)"
    "ae_free sim_asdm_env w = w"
    "ae_record_count sim_asdm_env = Some (\<lambda>hs. map2 (\<lambda>h n. h\<lparr>no_of_records := n\<rparr>) hs [1, 1, 0, 0, 0])" for n w
    by (simp_all add: sim_asdm_env_def)
  have metas: "length (snsrMetaData sim_asdm_env w) = 20" "snsrMetaData sim_asdm_env w ! 9 = sim_metas ! 0"
    "snsrMetaData sim_asdm_env w ! 12 = sim_metas ! Suc 0" for w
    by (simp_all add: snsrMetaData_def Let_def sim_metas_def sim_asdm_env_def sim_sources_def eval_nat_numeral)
  have heads: "map2 (\<lambda>h n. h\<lparr>no_of_records := n\<rparr>) asdmHeaderInfo [1, 1, 0, 0, 0]
     = [sim_head 0xC0 1 0x7f, sim_head 0xC1 1 0x7f, sim_head 0xC2 0 0x7f, sim_head 0xC3 0 0x7f, sim_head 0xC4 0 0x7f]"
    by (simp add: asdmHeaderInfo_def sim_head_def)
  have sel: "repository_type (sim_head t n b) = t" "no_of_records (sim_head t n b) = n" for t n b
    by (simp_all add: sim_head_def)
  show ?thesis
    by (simp add: Init_Asdm_def getSDRMetaData_def env metas sim_asdm0_def heads sim_repos sel Let_def sim_asdm_def
        del: repos_loop.simps(2))
qed

lemma sim_asdm_distinct: "distinct (map repository_type (asdm_headers sim_asdm))"
  by (simp add: sim_asdm_def asdmHeaderInfo_def)

lemma asdm_init_well_formed_witness: "asdm_init_success sim_asdm \<and> wf_asdm sim_asdm"
  by (rule asdm_init_well_formed [OF sim_asdm_init sim_asdm_distinct])

lemma sim_asdm_temperature:
  "sdr_info sim_asdm ! Suc 0 = sim_sdr 0xC1 1 5 [sim_pcb_record]" "length (sdr_info sim_asdm) = 5"
  by (simp_all add: sim_asdm_def)

lemma sim_pcb_regular: "regular_record 0xC1 sim_pcb_record" "init_size 0xC1 sim_pcb_record = 31"
  by (simp_all add: regular_record_def init_size_def sim_pcb_record_def tl_len_def LENGTH_BITMASK_def
      limits_size_def limit_size_def Sensor_Avg_Val_Support_def Sensor_Max_Val_Support_def
      Upper_Warning_Threshold_def Upper_Critical_Threshold_def Upper_Fatal_Threshold_def
      Lower_Warning_Threshold_def Lower_Critical_Threshold_def Lower_Fatal_Threshold_def)


lemma sim_asdm_ok: "asdm_ok sim_asdm_env sim_asdm"
proof -
  have mon: "monitor_fits sim_pcb_record" "monitor_fits sim_version_record"
    by (simp_all add: monitor_fits_def sim_pcb_record_def sim_version_record_def run_monitor_def
        sim_monitor_def reading_fits_def tl_len_def LENGTH_BITMASK_def zero_record_def)
  have ver: "value_len sim_version_record = 4"
    by (simp add: sim_version_record_def tl_len_def LENGTH_BITMASK_def)
  have pcb: "\<not> shows_version SNSRNAME_ACTIVE_SC_VER sim_pcb_record"
    "\<not> shows_version SNSRNAME_TARGET_SC_VER sim_pcb_record"
    by (simp_all add: shows_version_def sim_pcb_record_def SNSRNAME_ACTIVE_SC_VER_def
        SNSRNAME_TARGET_SC_VER_def chars_def Cl_SecureMemcmp_def c_string_def)
  have wf: "wf_asdm sim_asdm" using Init_Asdm_wf [OF sim_asdm_init sim_asdm_distinct] by simp
  then have "wf_sdr (sdr_info sim_asdm ! 0)" "wf_sdr (sdr_info sim_asdm ! Suc 0)"
    using sim_asdm_temperature(2) by (simp_all add: wf_asdm_def)
  then have "wf_record 0xC0 sim_version_record" "wf_record 0xC1 sim_pcb_record"
    by (simp_all add: wf_sdr_def sim_asdm_def sim_sdr_def sim_head_def)
  with mon ver pcb have "record_ok sim_asdm_env 0xC0 sim_version_record" "record_ok sim_asdm_env 0xC1 sim_pcb_record"
    by (simp_all add: record_ok_def version_fits_def sim_asdm_env_def)
  with wf show ?thesis by (simp add: asdm_ok_def sim_asdm_def sim_sdr_def sim_head_def)
qed

lemma asdm_update_keeps_records_witness:
  "\<exists>s'. Asdm_Update_Sensors sim_asdm_env sim_asdm = Some s' \<and> asdm_ok sim_asdm_env s' \<and> same_heads sim_asdm s'"
  by (rule asdm_update_keeps_records [OF sim_asdm_ok]) (simp add: sim_asdm_def asdmHeaderInfo_def)

end
