(* ===== verification/Vmc_Sensors_Props.thy ===== *)
theory Vmc_Sensors_Props
  imports Complex_Main Vmc_Sensors Vmc_Asdm_Props
begin

text \<open>The sensor requests of \<open>Vmc_Sensors\<close> end to end: what the host finds in its window of the shared
  memory.\<close>

section \<open>The window\<close>

lemma window_accepted:
  assumes "unat (sensor_address p) + 0x38000000 + 512 < 2 ^ 32"
  shows "validate_sensor_payload p =
     (if unat (sensor_address p) + 512 < 0x7FFF000 \<and> 512 \<le> unat (sensor_size p) then 0 else - EINVAL)"
proof -
  have "unat (RPU_SHARED_MEMORY_ADDR (sensor_address p) + of_nat SENSOR_RESP_BUFFER_SIZE) =
      0x38000000 + unat (sensor_address p) + 512"
    using assms by (simp add: RPU_SHARED_MEMORY_ADDR_def VMR_EP_RPU_SHARED_MEMORY_START_def
        SENSOR_RESP_BUFFER_SIZE_def unat_word_ariths)
  then have "VMR_EP_RPU_SHARED_MEMORY_END \<le> RPU_SHARED_MEMORY_ADDR (sensor_address p) + of_nat SENSOR_RESP_BUFFER_SIZE
      \<longleftrightarrow> 0x3FFFF000 \<le> 0x38000000 + unat (sensor_address p) + 512"
    unfolding word_le_nat_alt by (simp only: VMR_EP_RPU_SHARED_MEMORY_END_def) simp
  then show ?thesis
    by (auto simp: validate_sensor_payload_def SENSOR_RESP_BUFFER_SIZE_def)
qed

lemma unat_u16_u32: "unat (ucast (x :: u16) :: u32) = unat x"
proof -
  have "unat x < 2 ^ 32" using unsigned_less [where ?'a = nat, of x] by simp
  then show ?thesis by (simp add: unsigned_ucast_eq take_bit_nat_eq_self)
qed

text \<open>The answer to a request for a repository.\<close>

definition repository_answer :: "'w sdr \<Rightarrow> bytes \<Rightarrow> bytes" where
  "repository_answer d body = [Asdm_CC_Operation_Success] @ header_bytes (sdr_head d) @ body @ take 3 (sdr_eor d)"

lemma repository_read:
  assumes "wf_asdm a" "asdm_init_success a" "i < length (sdr_info a)" "d = sdr_info a ! i"
    and "\<forall>r \<in> set (sdr_records d). regular_record (repository_type (sdr_head d)) r"
    and "sdr_size d + 8 \<le> length resp" "3 \<le> length (sdr_eor d)" "ae_lock e (aw a) = (True, w)"
    and "req = [ASDM_CMD_GET_SDR, repository_type (sdr_head d), k]"
  shows "\<exists>body. records_bytes (sdr_records d) = Some body \<and>
     length (repository_answer d body) = sdr_size d + 8 \<and>
     Asdm_Process_Sensor_Request e req resp n a =
       Some (0, repository_answer d body @ drop (sdr_size d + 8) resp, of_nat (sdr_size d + 8),
         a\<lparr>aw := ae_unlock e w\<rparr>)"
proof -
  let ?t = "repository_type (sdr_head d)"
  have wd: "wf_sdr d" and ty: "?t = repository_type (asdm_headers a ! i)" and "i < length (asdm_headers a)"
    using assms(1,3,4) by (auto simp: wf_asdm_def)
  then have sup: "isRepoTypeSupported ?t a" by (simp add: isRepoTypeSupported_def)
  have ix: "getSDRIndex ?t a = int i" unfolding assms(4) by (rule getSDRIndex_nth [OF assms(1,3)])
  have "\<forall>r \<in> set (sdr_records d). wf_record ?t r \<and> regular_record ?t r"
    using wd assms(5) by (auto simp: wf_sdr_def in_set_conv_nth)
  from records_bytes_ok [OF this] obtain body where
    body: "records_bytes (sdr_records d) = Some body" "length body = sdr_size d"
    by (auto simp: sdr_size_def)
  have len: "length (repository_answer d body) = sdr_size d + 8"
    using body assms(7) by (simp add: repository_answer_def header_bytes_def)
  have "length (sdr_records d) = unat (no_of_records (sdr_head d))" using wd by (simp add: wf_sdr_def)
  then have "Asdm_Get_Sensor_Repository e req resp n a =
      answer (repository_answer d body) resp (a\<lparr>aw := ae_unlock e w\<rparr>)"
    using assms(3,4,8,9) ix body
    by (simp add: Asdm_Get_Sensor_Repository_def locked_def unlocked_def repository_answer_def getSDRIndex_def)
  also have "\<dots> = Some (0, repository_answer d body @ drop (sdr_size d + 8) resp, of_nat (sdr_size d + 8),
      a\<lparr>aw := ae_unlock e w\<rparr>)"
    using assms(6) len by (simp add: answer_def wr_bytes_def)
  finally show ?thesis
    using body(1) len sup assms(2,9)
    by (simp add: Asdm_Process_Sensor_Request_def ASDM_CMD_GET_SDR_def ASDM_CMD_GET_SIZE_def)
qed


section \<open>A small state\<close>

text \<open>A repository with one record; the numbers are rationals.\<close>

definition sim_throttling :: "rat throttling" where
  "sim_throttling = \<lparr>NumberOfRailsMonitored = 0, RailParameters = [], BoardThrottlingThresholdPower = 0,
     BoardMeasuredPower = 0, UserNormalizedPower = 0, BoardNormalizedPower = 0,
     KernelPower = 0, KernelTarget = 0, IdlePower = 0,
     Activity = ACTIVITY_MAX, RateCurrent = 0, RateLinear = 0,
     TempGainKpFPGA = 0, TempGainKi = 0, TempGainKpVCCInt = 0,
     TempGainKaw = 0, ThermalThrottlingThresholdPower = 0, LastThermalThrottlingThresholdPower = 0,
     ThermalNormalisedPower = 0, FPGAMeasuredTemp = 0, FPGATempThrottlingLimit = 0,
     bVccIntThermalThrottlingEnabled = False, VccIntMeasuredTemp = 0, VccIntTempThrottlingLimit = 0,
     ThermalThrottlingLoopJustEnabled = False, IntegrataionSum = 0, localVccIntThermalThrottlingThresholdPower = 0,
     localThermalThrottlingThresholdPower_FPGA = 0, ThrottlingTempLimit_FPGA = 0, ThermalThrottlingThresholdPower_FPGA = 0,
     DeltaTemp_FPGA = 0, IntegrationAntiWindup_FPGA = 0, FeatureEnabled = False,
     PowerOverRideEnabled = False, bUserThrottlingTempLimitEnabled = False, XRTSuppliedBoardThrottlingThresholdPower = 0,
     XRTSuppliedUserThrottlingTempLimit = 0, PowerThrottlingLimit = 0, TempThrottlingLimit = 0\<rparr>"

definition sim_glvr :: "(nat, rat) glvr" where
  "sim_glvr = \<lparr>g_throttling_enabled = 0,
     g_readings = \<lparr>pr_voltage = replicate 11 0, pr_current = replicate 11 0, pr_fpga_temp = 0, pr_vccint_temp = 0\<rparr>,
     g_clk_params = \<lparr>is_clk_scaling_supported = 1, clk_scaling_mode = 2, clk_scaling_enable = 0,
       shutdown_limit_temp = 100, shutdown_limit_pwr = 300, throttle_limit_temp = 95, throttle_limit_pwr = 190,
       temp_throttling_enabled = 0, power_throttling_enabled = 0, limits_update_req = 0\<rparr>,
     g_throttling = sim_throttling, g_averages = None,
     g_sc_data = \<lparr>boardInfoStatus = False, voltSensorLength = 0, powerSensorLength = 0, tempSensorLength = 0,
       powerMode = 0, configmode = 0, scVersion = replicate 4 0, VCCINT_sensor_value = 0,
       sensor_values = replicate 14 0\<rparr>,
     g_sysmon_ready = 1, gw = 0\<rparr>"

definition idle_sources :: "'w sensor_sources" where
  "idle_sources = (let m = (\<lambda>sn w. Some (sn, w)); n = (\<lambda>i. None) in
     \<lparr>src_Temperature_Read_Board = m, src_Temperature_Read_ACAP_Device_Sysmon = m, src_Temperature_Read_VCCINT = m,
      src_Asdm_Read_Power = m, src_scGetTemperatureName = n, src_getQSFPName = n, src_getVoltagesName = n,
      src_getCurrentNames = n, src_ucGetTemperatureSensorNum = 0, src_getVoltageSensorNum = 3,
      src_getCurrentSensorNum = 3\<rparr>)"

definition sim_sensors_env :: "(nat, rat) sensors_env" where
  "sim_sensors_env = \<lparr>
     ne_asdm = \<lparr>ae_malloc = (\<lambda>n g. (True, g)), ae_free = (\<lambda>g. g), ae_lock = (\<lambda>g. (True, g)), ae_unlock = (\<lambda>g. g),
       ae_sc_version = (\<lambda>g. [4, 4, 32, 0]), ae_fpt_version = (\<lambda>g. [4, 4, 33]), ae_board_info = (\<lambda>g. sim_board_info),
       ae_sources = idle_sources, ae_supported = None, ae_record_count = None,
       SIZEOF_META = 32, SIZEOF_SDR = 16, SIZEOF_RECORD = 96\<rparr>,
     ne_float = \<lparr>fo_int = of_int, fo_trunc = (\<lambda>x. if x < 0 then - \<lfloor>- x\<rfloor> else \<lfloor>x\<rfloor>), fo_add = (+), fo_sub = (-),
       fo_mul = (*), fo_div = (/), fo_less = (<), fo_le = (\<le>)\<rparr>,
     ne_read32 = (\<lambda>a w. (0, w)), ne_write32 = (\<lambda>v a w. w), ne_sysmon_init = (\<lambda>w. (0, w)),
     ne_sysmon_temp = (\<lambda>w. ((0, Some 40), w)), ne_sysmon_supply = (\<lambda>w. ((0, Some 1), w)),
     ne_sc_lock = (\<lambda>w. (True, w)), ne_sc_unlock = (\<lambda>w. w), ne_heap_ok = True,
     ne_GAPPING_DEMAND = 0x80030000, ne_UCS_SHUTDOWN = 0x80031008, ne_platform = eV70\<rparr>"

definition served_record :: "'w sensor_record" where
  "served_record = zero_record\<lparr>sr_id := 1, sr_name_type_length := 0xC2, sr_name := Some [65, 0],
     sr_value_type_length := 4, sr_value := Some [4, 4, 32, 0]\<rparr>"

definition served_sdr :: "'w sdr" where
  "served_sdr = \<lparr>sdr_head = sim_head 0xC0 1 4, sdr_records = [served_record], sdr_eor = [69, 78, 68, 0]\<rparr>"

definition sim_sensors :: "(nat, rat) sensors" where
  "sim_sensors = \<lparr>
     sn_asdm = \<lparr>asdm_headers = [sim_head 0xC0 1 4],
       sdr_info = [served_sdr],
       asdm_init_success = True, total_sensor_count = 1, dynamic_sensor_count = 0, aw = sim_glvr\<rparr>,
     sn_mem = (\<lambda>a. 0)\<rparr>"

definition sim_sensor_msg :: cl_msg where
  "sim_sensor_msg = cl_msg_zero\<lparr>sensor_payload := \<lparr>sensor_address = 0x1000, sensor_size = 512, sensor_offset = 0,
     sensor_aid = 2, sensor_sid = 0xC0, sensor_id = 0\<rparr>\<rparr>"

lemma served_record_ok: "wf_record 0xC0 served_record" "regular_record 0xC0 served_record"
  "init_size 0xC0 served_record = 13"
  by (simp_all add: served_record_def wf_record_def regular_record_def zero_record_def avg_le_max_def
      tl_len_def LENGTH_BITMASK_def limits_size_def limit_size_def init_size_def
      Sensor_Max_Val_Support_def Sensor_Avg_Val_Support_def)


end
