(* ===== verification/Vmc_Update_Sc.thy ===== *)
theory Vmc_Update_Sc
  imports Vmc_Sc_Comms Cl_Io
begin

text \<open>Model of \<open>vmc/vmc_update_sc.c\<close>: the update of the satellite controller's firmware.  The image
  is a TI-TXT file in the flash window; it is parsed into packets, which are sent to the boot loader
  (BSL) of the controller by a state machine with a bounded number of retries per state.  The globals
  and the static counters of the file are the record \<open>sc_update\<close>; it contains the state of
  \<open>Vmc_Sc_Comms\<close>, whose UART and flags the update uses.  A loop that may not end is a
  \<open>partial_function\<close>: \<open>None\<close> is a loop that does not end or an access outside an array.  The debug
  build (\<open>VMC_DEBUG\<close>), the critical sections and the log are left out.\<close>

section \<open>State and constants\<close>

datatype sc_update_status = eStatus_Success | eStatus_Failure | eStatus_In_Progress

datatype sc_update_state =
    eSc_State_Idle
  | eSc_Enable_Bsl
  | eBsl_Synced
  | eBsl_Unlock_Password
  | eBsl_Mass_Erase
  | eBsl_Sector_Erase
  | eBsl_Data_Tx_32
  | eBsl_Crc_Rx_32
  | eBsl_Load_Pc_32
  | eMsp_Get_Status
  | eBsl_Reboot_Reset
  | eTx_Bsl_Version
  | eSc_Bsl_Sync

definition eSc_Update_No_Error :: u8 where "eSc_Update_No_Error = 0x00"
definition eSc_Up_To_Date_No_Update_Req :: u8 where "eSc_Up_To_Date_No_Update_Req = 0xE0"
definition eSc_Update_Error_Sc_Bsl_Sync_Failed :: u8 where "eSc_Update_Error_Sc_Bsl_Sync_Failed = 0xE1"
definition eSc_Update_Error_En_Bsl_Failed :: u8 where "eSc_Update_Error_En_Bsl_Failed = 0xE2"
definition eSc_Update_Error_Vmc_Bsl_Sync_Failed :: u8 where "eSc_Update_Error_Vmc_Bsl_Sync_Failed = 0xE3"
definition eSc_Update_Error_Bsl_Unlock_Password_Failed :: u8 where "eSc_Update_Error_Bsl_Unlock_Password_Failed = 0xE4"
definition eSc_Update_Error_Erase_Failed :: u8 where "eSc_Update_Error_Erase_Failed = 0xE5"
definition eSc_Update_Error_Invalid_Sc_Symbol_Found :: u8 where "eSc_Update_Error_Invalid_Sc_Symbol_Found = 0xE6"
definition eSc_Update_Error_Post_Crc_Failed :: u8 where "eSc_Update_Error_Post_Crc_Failed = 0xE7"
definition eSc_Update_Error_Invalid_Bsl_Resp :: u8 where "eSc_Update_Error_Invalid_Bsl_Resp = 0xE8"
definition eSc_Update_Error_No_Valid_Fpt_Sc_Found :: u8 where "eSc_Update_Error_No_Valid_Fpt_Sc_Found = 0xE9"

abbreviation (input) SC_UPDATE_MAX_RETRY_COUNT :: u8 where "SC_UPDATE_MAX_RETRY_COUNT \<equiv> 5"
abbreviation (input) MODE_VER_MAX_RETRY_COUNT :: u8 where "MODE_VER_MAX_RETRY_COUNT \<equiv> 3"
abbreviation (input) SECTION_START :: u8 where "SECTION_START \<equiv> 0x40"
abbreviation (input) FILE_TERMINATION_CHAR :: u8 where "FILE_TERMINATION_CHAR \<equiv> 0x71"
abbreviation (input) SPACE :: u8 where "SPACE \<equiv> 0x20"
abbreviation (input) NEW_LINE :: u8 where "NEW_LINE \<equiv> 0x0A"
abbreviation (input) BSL_MSG_HEADER :: u8 where "BSL_MSG_HEADER \<equiv> 0x80"
abbreviation (input) BSL_UNKNOWN_MSG_RESP_SIZE :: u32 where "BSL_UNKNOWN_MSG_RESP_SIZE \<equiv> 8"
abbreviation (input) BSL_SYNCED_RESP_SIZE :: u32 where "BSL_SYNCED_RESP_SIZE \<equiv> 1"
abbreviation (input) SC_BSL_SYNCED_RESP_SIZE :: u32 where "SC_BSL_SYNCED_RESP_SIZE \<equiv> 0x0B"
abbreviation (input) SC_TOT_HEADER_SIZE :: u32 where "SC_TOT_HEADER_SIZE \<equiv> 16"

definition BSL_MAX_DATA_SIZE :: nat where "BSL_MAX_DATA_SIZE = 266"
definition BSL_MAX_RCV_DATA_SIZE :: nat where "BSL_MAX_RCV_DATA_SIZE = 32"
definition BSL_RESP_CMD_CHAR :: u8 where "BSL_RESP_CMD_CHAR = 0x3B"
definition BSL_RESP_MSG_CHAR :: u8 where "BSL_RESP_MSG_CHAR = 0x00"
definition BSL_CRC_SUCCESS_RESP :: u8 where "BSL_CRC_SUCCESS_RESP = 0x3A"
definition SC_VER_ADDR_W_CHKSUM :: u32 where "SC_VER_ADDR_W_CHKSUM = 0x195"
definition SC_VER_START_ADDRS :: "u32 list" where "SC_VER_START_ADDRS = [0x7E000, 0x7E002, 0x7E004]"
definition SC_HEADER_MSG :: bytes where "SC_HEADER_MSG = chars ''VERSAL_SCFW''"

record 'w sc_update =
  update_status :: sc_update_status
  update_state :: sc_update_state
  update_error :: u8
  fpt_sc_start :: u32
  fpt_sc_size :: u32
  fpt_sc_version :: bytes
  bsl_send_data_pkt :: bytes
  data_ptr :: u32
  addr_flag :: bool
  data_crc :: u16
  prev_length :: u32
  total_length :: u32
  all_pkt_sent :: bool
  fpt_sc_valid :: bool
  parsed_sc_flash_addr :: u32
  update_progress :: int
  curr_prog :: u32
  max_data_slot :: u32
  rcv_bufr :: bytes
  rcvd_byte_count :: u32
  mode_retry_cnt :: u8
  sync_retry :: u8
  sync_bytes_to_rcv :: u32
  enable_retry :: u8
  vmc_sync_retry :: u8
  unlock_retry :: u8
  erase_retry :: u8
  su_sc :: "'w vmc_sc"

text \<open>The environment adds the memory that holds the image, and the query of the partition table.\<close>

record 'w su_env = "'w sc_env" +
  sue_mem :: "'w \<Rightarrow> mem"
  sue_fpt_query :: "'w \<Rightarrow> (u32 \<times> u32) \<times> 'w"

abbreviation sc_env_of :: "'w su_env \<Rightarrow> 'w sc_env" where "sc_env_of e \<equiv> sc_env.truncate e"
abbreviation image_mem :: "'w su_env \<Rightarrow> 'w sc_update \<Rightarrow> mem" where
  "image_mem e s \<equiv> sue_mem e (sc_world (su_sc s))"

definition su_delay_ms :: "'w su_env \<Rightarrow> nat \<Rightarrow> 'w sc_update \<Rightarrow> 'w sc_update" where
  "su_delay_ms e ms s = s\<lparr>su_sc := sc_delay_ms (sc_env_of e) ms (su_sc s)\<rparr>"

definition cl_vmc_scfw_program_progress :: "'w sc_update \<Rightarrow> int" where
  "cl_vmc_scfw_program_progress s = update_progress s"

section \<open>Characters and checksums\<close>

definition crc16_step :: "u16 \<Rightarrow> u8 \<Rightarrow> u16" where
  "crc16_step crc b =
     (let x0 = (drop_bit 8 crc XOR ucast b) AND 0xff; x = x0 XOR drop_bit 4 x0
      in push_bit 8 crc XOR push_bit 12 x XOR push_bit 5 x XOR x)"

definition crc16 :: "bytes \<Rightarrow> u16" where "crc16 bs = foldl crc16_step 0xFFFF bs"

text \<open>Addresses are written in small letters, data in capital letters.\<close>

definition char_to_hex_addr :: "u8 \<Rightarrow> u8" where
  "char_to_hex_addr C =
     (if 48 \<le> C \<and> C \<le> 57 then C - 48 else if 97 \<le> C \<and> C \<le> 102 then C - 97 + 10 else C) AND 0x0F"

definition char_to_hex :: "u8 \<Rightarrow> u8" where
  "char_to_hex C =
     (if 48 \<le> C \<and> C \<le> 57 then C - 48 else if 65 \<le> C \<and> C \<le> 70 then C - 65 + 10 else C) AND 0x0F"

text \<open>The length of the answer comes from the answer; nothing bounds it by the buffer.\<close>

definition vmc_validate_bsl_resp :: "bytes \<Rightarrow> nat \<Rightarrow> bool option" where
  "vmc_validate_bsl_resp buffer n = do {
     b0 \<leftarrow> rd buffer 0; b1 \<leftarrow> rd buffer 1;
     if b0 = 0 \<and> b1 = BSL_MSG_HEADER
     then do {
       l \<leftarrow> rd buffer 2; h \<leftarrow> rd buffer 3;
       cl \<leftarrow> rd buffer (n - 2); ch \<leftarrow> rd buffer (n - 1);
       body \<leftarrow> rd_bytes buffer 4 (unat (push_bit 8 (ucast h) OR ucast l :: u16));
       Some ((push_bit 8 (ucast ch) OR ucast cl) = crc16 body) }
     else Some False }"

fun check_received_sc_header :: "bytes \<Rightarrow> bytes \<Rightarrow> nat \<Rightarrow> u8" where
  "check_received_sc_header (a # as) (b # bs) (Suc n) =
     (if a \<noteq> b then a - b else check_received_sc_header as bs n)"
| "check_received_sc_header as bs n = 0"

definition get_sc_checksum :: u8 where "get_sc_checksum = 1"

section \<open>The version in the image\<close>

definition read_char :: "mem \<Rightarrow> u32 \<Rightarrow> 'w sc_update \<Rightarrow> u8 \<times> 'w sc_update" where
  "read_char m loc s = (IO_SYNC_READ8 (loc + data_ptr s) m, s\<lparr>data_ptr := data_ptr s + 1\<rparr>)"

definition shift_addr :: "u8 \<Rightarrow> 'w sc_update \<Rightarrow> 'w sc_update" where
  "shift_addr c s =
     s\<lparr>parsed_sc_flash_addr := push_bit 4 (parsed_sc_flash_addr s) OR ucast (char_to_hex_addr c AND 0x0F)\<rparr>"

partial_function (option) version_addr_loop :: "mem \<Rightarrow> u32 \<Rightarrow> u8 \<Rightarrow> 'w sc_update \<Rightarrow> 'w sc_update option" where
  "version_addr_loop m loc c s =
     (if c = NEW_LINE then Some s
      else let (c', s') = read_char m loc (shift_addr c s) in version_addr_loop m loc c' s')"

record version_parse =
  vp_flag :: bool
  vp_ptr :: u8
  vp_buf :: bytes

definition put_nibble :: "(u8 \<Rightarrow> u8) \<Rightarrow> u8 \<Rightarrow> version_parse \<Rightarrow> version_parse" where
  "put_nibble f n v =
     (if vp_flag v \<and> vp_ptr v \<le> 2
      then v\<lparr>vp_buf := (vp_buf v)[unat (vp_ptr v) := f (vp_buf v ! unat (vp_ptr v)) OR (n AND 0x0F)]\<rparr> else v)"

text \<open>The result says whether the loop was left for an address.  The first digit is compared with the
  newline after its conversion: the digit \<open>A\<close> is taken for one.\<close>

partial_function (option) version_data_loop ::
    "mem \<Rightarrow> u32 \<Rightarrow> u8 \<Rightarrow> version_parse \<Rightarrow> 'w sc_update \<Rightarrow> ((bool \<times> u8 \<times> version_parse) \<times> 'w sc_update) option" where
  "version_data_loop m loc c v s =
     (if c = SECTION_START \<or> c = FILE_TERMINATION_CHAR \<or> 4 \<le> vp_ptr v then Some ((False, c, v), s)
      else if c = NEW_LINE \<or> c = SPACE
      then let (c', s') = read_char m loc s in version_data_loop m loc c' v s'
      else let h = char_to_hex c; v1 = put_nibble (\<lambda>_. 0) h v
           in if h = NEW_LINE \<or> h = SPACE \<or> h = SECTION_START
              then Some ((True, h, v1\<lparr>vp_flag := False\<rparr>), s\<lparr>addr_flag := True\<rparr>)
              else let (c2, s2) = read_char m loc s;
                       v2 = put_nibble (push_bit 4) (char_to_hex c2) v1;
                       v3 = (if vp_flag v2 \<and> vp_ptr v2 \<le> 2 then v2\<lparr>vp_ptr := vp_ptr v2 + 1\<rparr> else v2);
                       (c3, s3) = read_char m loc s2
                   in version_data_loop m loc c3 v3 s3)"

text \<open>The two states of the parser; the first argument is the state \<open>eParse_Data\<close>.\<close>

partial_function (option) version_loop_states ::
    "mem \<Rightarrow> u32 \<Rightarrow> bool \<Rightarrow> version_parse \<Rightarrow> 'w sc_update \<Rightarrow> (version_parse \<times> 'w sc_update) option" where
  "version_loop_states m loc data v s =
     (let (c, s1) = read_char m loc s
      in if \<not> data
         then if addr_flag s1 \<and> c \<noteq> SECTION_START \<and> c \<noteq> FILE_TERMINATION_CHAR
              then do {
                s2 \<leftarrow> version_addr_loop m loc c (s1\<lparr>addr_flag := False, parsed_sc_flash_addr := 0\<rparr>);
                version_loop_states m loc True
                  (if parsed_sc_flash_addr s2 \<in> set SC_VER_START_ADDRS then v\<lparr>vp_flag := True\<rparr> else v) s2 }
              else if c = SECTION_START then version_loop_states m loc False v (s1\<lparr>addr_flag := True\<rparr>)
              else if c = FILE_TERMINATION_CHAR then Some (v, s1)
              else version_loop_states m loc True v s1
         else do {
           ((to_addr, c', v'), s2) \<leftarrow> version_data_loop m loc c v s1;
           if to_addr then version_loop_states m loc False v' s2
           else if c' = SECTION_START
           then version_loop_states m loc False (v'\<lparr>vp_flag := False\<rparr>) (s2\<lparr>addr_flag := True\<rparr>)
           else if c' = FILE_TERMINATION_CHAR then Some (v', s2)
           else version_loop_states m loc True v' s2 })"

definition parse_fpt_sc_version :: "mem \<Rightarrow> u32 \<Rightarrow> bytes \<Rightarrow> 'w sc_update \<Rightarrow> (bytes \<times> 'w sc_update) option" where
  "parse_fpt_sc_version m loc buf s = do {
     (v, s') \<leftarrow> version_loop_states m loc False \<lparr>vp_flag = False, vp_ptr = 0, vp_buf = buf\<rparr> s;
     Some (vp_buf v, s') }"

section \<open>The packets\<close>

definition tick :: "'w sc_update \<Rightarrow> 'w sc_update" where
  "tick s =
     (let s1 = s\<lparr>curr_prog := curr_prog s + 1\<rparr>
      in if max_data_slot s1 \<le> curr_prog s1
         then s1\<lparr>update_progress := update_progress s1 + 1, curr_prog := 0\<rparr> else s1)"

definition next_char :: "mem \<Rightarrow> u32 \<Rightarrow> 'w sc_update \<Rightarrow> u8 \<times> 'w sc_update" where
  "next_char m loc s = (let (c, s') = read_char m loc s in (c, tick s'))"

partial_function (option) addr_loop :: "mem \<Rightarrow> u32 \<Rightarrow> u8 \<Rightarrow> 'w sc_update \<Rightarrow> 'w sc_update option" where
  "addr_loop m loc c s =
     (if c = NEW_LINE then Some s
      else let (c', s') = next_char m loc (shift_addr c s) in addr_loop m loc c' s')"

definition put_addr :: "'w sc_update \<Rightarrow> 'w sc_update" where
  "put_addr s =
     (let a = parsed_sc_flash_addr s
      in s\<lparr>bsl_send_data_pkt := (bsl_send_data_pkt s)[4 := ucast a, 5 := ucast (drop_bit 8 a),
             6 := ucast (drop_bit 16 a), 7 := ucast (drop_bit 24 a)]\<rparr>)"

text \<open>The parser before the data: the result says whether data follows.\<close>

partial_function (option) address_state :: "mem \<Rightarrow> u32 \<Rightarrow> 'w sc_update \<Rightarrow> (bool \<times> 'w sc_update) option" where
  "address_state m loc s =
     (let (c, s1) = next_char m loc s
      in if addr_flag s1 \<and> c \<noteq> SECTION_START \<and> c \<noteq> FILE_TERMINATION_CHAR
         then do {
           s2 \<leftarrow> addr_loop m loc c (s1\<lparr>addr_flag := False, parsed_sc_flash_addr := 0\<rparr>);
           Some (True, put_addr s2) }
         else if c = SECTION_START then address_state m loc (s1\<lparr>addr_flag := True\<rparr>)
         else if c = FILE_TERMINATION_CHAR then Some (False, s1\<lparr>all_pkt_sent := True, update_progress := 99\<rparr>)
         else Some (True, put_addr (s1\<lparr>parsed_sc_flash_addr := parsed_sc_flash_addr s1 + prev_length s1\<rparr>)))"

text \<open>The data of one packet, up to the room for the checksum.\<close>

definition put_data :: "nat \<Rightarrow> u8 \<Rightarrow> 'w sc_update \<Rightarrow> 'w sc_update" where
  "put_data n b s = s\<lparr>bsl_send_data_pkt := (bsl_send_data_pkt s)[n := b]\<rparr>"

partial_function (option) data_loop ::
    "mem \<Rightarrow> u32 \<Rightarrow> u8 \<Rightarrow> nat \<Rightarrow> 'w sc_update \<Rightarrow> ((u8 \<times> nat) \<times> 'w sc_update) option" where
  "data_loop m loc c n s =
     (if c = SECTION_START \<or> c = FILE_TERMINATION_CHAR \<or> BSL_MAX_DATA_SIZE - 2 \<le> n then Some ((c, n), s)
      else if c = NEW_LINE \<or> c = SPACE
      then let (c', s') = next_char m loc s in data_loop m loc c' n s'
      else let (c2, s2) = next_char m loc s;
               b = push_bit 4 (char_to_hex c AND 0x0F) OR (char_to_hex c2 AND 0x0F);
               (c3, s3) = next_char m loc (put_data n b s2)
           in data_loop m loc c3 (n + 1) s3)"

definition finish_packet :: "nat \<Rightarrow> 'w sc_update \<Rightarrow> 'w sc_update" where
  "finish_packet n s =
     (let k = n - 3;
          p = (bsl_send_data_pkt s)[0 := BSL_MSG_HEADER, 1 := of_nat k, 2 := of_nat (k div 256), 3 := 0x20];
          c = crc16 (take k (drop 3 p))
      in s\<lparr>total_length := of_nat (n + 2), prev_length := of_nat (k - 5),
           bsl_send_data_pkt := p[n := ucast c, n + 1 := ucast (drop_bit 8 c)],
           data_crc := crc16 (take (k - 5) (drop 8 (p[n := ucast c, n + 1 := ucast (drop_bit 8 c)])))\<rparr>)"

definition parse_fpt_sc :: "mem \<Rightarrow> u32 \<Rightarrow> 'w sc_update \<Rightarrow> 'w sc_update option" where
  "parse_fpt_sc m loc s = do {
     (more, s1) \<leftarrow> address_state m loc s;
     if \<not> more then Some s1
     else do {
       let (c, s2) = next_char m loc s1;
       ((c', n), s3) \<leftarrow> data_loop m loc c 8 s2;
       let s4 = (if c' = SECTION_START then s3\<lparr>addr_flag := True\<rparr>
                 else if c' = FILE_TERMINATION_CHAR then s3\<lparr>all_pkt_sent := True, update_progress := 99\<rparr>
                 else s3);
       Some (finish_packet n s4) } }"

section \<open>Transactions with the boot loader\<close>

definition on_sc :: "('w vmc_sc \<Rightarrow> 'a \<times> 'w vmc_sc) \<Rightarrow> 'w sc_update \<Rightarrow> 'a \<times> 'w sc_update" where
  "on_sc f s = (let (r, c) = f (su_sc s) in (r, s\<lparr>su_sc := c\<rparr>))"

definition store_count :: "u32 option \<Rightarrow> 'w sc_update \<Rightarrow> 'w sc_update" where
  "store_count c s = (case c of None \<Rightarrow> s | Some n \<Rightarrow> s\<lparr>rcvd_byte_count := n\<rparr>)"

definition su_enable_irq :: "'w su_env \<Rightarrow> 'w sc_update \<Rightarrow> 'w sc_update" where
  "su_enable_irq e s =
     (let c = su_sc s; u = sc_uart c
      in s\<lparr>su_sc := c\<lparr>sc_uart := uart_enable_interrupt (uart_env.truncate e) (uart_IRQ_ID u) u\<rparr>\<rparr>)"

definition su_disable_irq :: "'w su_env \<Rightarrow> 'w sc_update \<Rightarrow> 'w sc_update" where
  "su_disable_irq e s = s\<lparr>su_sc := sc_disable_irq (sc_env_of e) (su_sc s)\<rparr>"

text \<open>After a failed send the receive mutex is given back; if that fails the interrupt stays on.\<close>

definition failed_send :: "'w su_env \<Rightarrow> bool \<Rightarrow> 'w sc_update \<Rightarrow> bool \<times> 'w sc_update" where
  "failed_send e recv s =
     (if recv
      then let (ok, s1) = on_sc (sc_release_rx (sc_env_of e)) s
           in if ok then (False, su_disable_irq e s1) else (False, s1)
      else (False, su_disable_irq e s))"

definition wait_answer :: "'w su_env \<Rightarrow> u32 \<Rightarrow> 'w sc_update \<Rightarrow> bool \<times> 'w sc_update" where
  "wait_answer e n s =
     (let ((st, c), s1) = on_sc (sc_receive_wait (sc_env_of e) 2000) s;
          s2 = store_count c s1;
          s3 = s2\<lparr>rcv_bufr := received_into (rcv_bufr s2) (uart_env.truncate e) (sc_uart (su_sc s2))\<rparr>
      in if st = UART_SUCCESS then (n = rcvd_byte_count s3, s3)
         else if st = UART_ERROR_GENERIC then (False, snd (on_sc (sc_release_rx (sc_env_of e)) s3))
         else (False, s3))"

definition do_uart_transaction :: "'w su_env \<Rightarrow> bytes \<Rightarrow> bool \<Rightarrow> u32 \<Rightarrow> 'w sc_update \<Rightarrow> bool \<times> 'w sc_update" where
  "do_uart_transaction e buf recv n s =
     (let s0 = s\<lparr>rcv_bufr := replicate BSL_MAX_RCV_DATA_SIZE 0xFF, rcvd_byte_count := 0\<rparr>;
          ((st, c), s1) = (if recv then on_sc (sc_receive_set (sc_env_of e) n) s0
                           else ((UART_SUCCESS, None), su_enable_irq e s0));
          s2 = store_count c s1
      in if st \<noteq> UART_SUCCESS then (False, s2)
         else let (st2, s3) = on_sc (sc_send (sc_env_of e) buf) s2
              in if st2 \<noteq> UART_SUCCESS then failed_send e recv s3
                 else if recv then wait_answer e n s3
                 else (True, su_disable_irq e s3))"

text \<open>The checksum of the flash after a packet.  A transaction that fails counts as a match.\<close>

definition crc_request :: "u32 \<Rightarrow> u32 \<Rightarrow> bytes" where
  "crc_request addr len =
     (let p = [BSL_MSG_HEADER, 7, 0, 0x26, ucast addr, ucast (drop_bit 8 addr), ucast (drop_bit 16 addr),
               ucast (drop_bit 24 addr), ucast len, ucast (drop_bit 8 len)];
          c = crc16 (drop 3 p)
      in p @ [ucast c, ucast (drop_bit 8 c)])"

definition matchcrc_postwrite :: "'w su_env \<Rightarrow> u32 \<Rightarrow> 'w sc_update \<Rightarrow> (sc_update_status \<times> 'w sc_update) option" where
  "matchcrc_postwrite e addr s =
     (let (ok, s1) = do_uart_transaction e (crc_request addr (prev_length s)) True 9 s; r = rcv_bufr s1
      in if \<not> ok then Some (eStatus_Success, s1)
         else do {
           good \<leftarrow> vmc_validate_bsl_resp r 9;
           if \<not> good then Some (eStatus_Success, s1)
           else if r ! 4 = BSL_CRC_SUCCESS_RESP
           then Some (if data_crc s1 \<noteq> push_bit 8 (ucast (r ! 6)) OR ucast (r ! 5)
                      then eStatus_Failure else eStatus_Success, s1)
           else Some (eStatus_Failure, s1) })"

section \<open>The states of the update\<close>

definition give_up :: "u8 \<Rightarrow> 'w sc_update \<Rightarrow> 'w sc_update" where
  "give_up err s = s\<lparr>update_error := err, update_status := eStatus_Failure, update_state := eSc_State_Idle\<rparr>"

definition bsl_seen :: "'w sc_update \<Rightarrow> 'w sc_update" where
  "bsl_seen s =
     (let s1 = s\<lparr>mode_retry_cnt := mode_retry_cnt s + 1\<rparr>
      in if MODE_VER_MAX_RETRY_COUNT \<le> mode_retry_cnt s1
         then s1\<lparr>mode_retry_cnt := 0, sync_retry := 0, update_state := eBsl_Unlock_Password,
                 sync_bytes_to_rcv := SC_BSL_SYNCED_RESP_SIZE\<rparr>
         else s1)"

definition sync_retry_step :: "'w sc_update \<Rightarrow> 'w sc_update" where
  "sync_retry_step s = s\<lparr>sync_retry := sync_retry s + 1, mode_retry_cnt := 0, update_state := eSc_Bsl_Sync\<rparr>"

definition sync_answer :: "'w sc_update \<Rightarrow> 'w sc_update option" where
  "sync_answer s =
     (let r = rcv_bufr s; n = sync_bytes_to_rcv s
      in if r ! 0 = ESCAPE_CHAR \<and> r ! 1 = STX
         then Some (s\<lparr>mode_retry_cnt := 0, sync_retry := 0, update_state := eSc_Enable_Bsl\<rparr>)
         else do {
           unknown \<leftarrow> (if n = BSL_UNKNOWN_MSG_RESP_SIZE then vmc_validate_bsl_resp r (unat n) else Some False);
           Some (if unknown \<and> mode_retry_cnt s \<le> MODE_VER_MAX_RETRY_COUNT then bsl_seen s
                 else if n = BSL_SYNCED_RESP_SIZE \<and> r ! 0 = 0 \<and> mode_retry_cnt s \<le> MODE_VER_MAX_RETRY_COUNT
                 then bsl_seen s
                 else sync_retry_step s) })"

text \<open>After five failures the next size of an answer is tried; after the last size the update fails,
  without the delay.\<close>

definition sync_next_size :: "'w su_env \<Rightarrow> 'w sc_update \<Rightarrow> 'w sc_update" where
  "sync_next_size e s =
     (if SC_UPDATE_MAX_RETRY_COUNT \<le> sync_retry s
      then if sync_bytes_to_rcv s = BSL_SYNCED_RESP_SIZE
           then give_up eSc_Update_Error_Sc_Bsl_Sync_Failed
                  (s\<lparr>sync_retry := 0, mode_retry_cnt := 0, sync_bytes_to_rcv := SC_BSL_SYNCED_RESP_SIZE\<rparr>)
           else su_delay_ms e 1000
                  (s\<lparr>sync_bytes_to_rcv :=
                       (if sync_bytes_to_rcv s = SC_BSL_SYNCED_RESP_SIZE then BSL_UNKNOWN_MSG_RESP_SIZE
                        else if sync_bytes_to_rcv s = BSL_UNKNOWN_MSG_RESP_SIZE then BSL_SYNCED_RESP_SIZE
                        else sync_bytes_to_rcv s),
                     sync_retry := 0, mode_retry_cnt := 0\<rparr>)
      else su_delay_ms e 1000 s)"

definition sync_sc_bsl :: "'w su_env \<Rightarrow> 'w sc_update \<Rightarrow> 'w sc_update option" where
  "sync_sc_bsl e s =
     (let (ok, s1) = do_uart_transaction e [0xFF] True (sync_bytes_to_rcv s) s
      in do { s2 \<leftarrow> (if ok then sync_answer s1 else Some (s1\<lparr>sync_retry := sync_retry s1 + 1\<rparr>));
              Some (sync_next_size e s2) })"

text \<open>The other states count their failures in the same way.\<close>

definition enable_sc_bsl :: "'w su_env \<Rightarrow> 'w sc_update \<Rightarrow> 'w sc_update option" where
  "enable_sc_bsl e s =
     (let (ok, s1) = do_uart_transaction e [0x5C, 2, 1, 0, 0, 1, 0, 0x5C, 3] True 0x0B s;
          s2 = (if ok \<and> rcv_bufr s1 ! 0 = ESCAPE_CHAR \<and> rcv_bufr s1 ! 2 = MSP432_COMMS_MSG_GOOD
                then s1\<lparr>enable_retry := 0, update_state := eBsl_Synced\<rparr>
                else if ok then s1\<lparr>enable_retry := enable_retry s1 + 1, update_state := eSc_Enable_Bsl\<rparr>
                else s1\<lparr>enable_retry := enable_retry s1 + 1\<rparr>);
          s3 = (if SC_UPDATE_MAX_RETRY_COUNT \<le> enable_retry s2
                then give_up eSc_Update_Error_En_Bsl_Failed (s2\<lparr>enable_retry := 0\<rparr>) else s2)
      in Some (su_delay_ms e 1000 s3))"

definition sync_vmc_bsl :: "'w su_env \<Rightarrow> 'w sc_update \<Rightarrow> 'w sc_update option" where
  "sync_vmc_bsl e s =
     (let n = (if se_platform e \<noteq> eVCK5000 then BSL_SYNCED_RESP_SIZE + BSL_UNKNOWN_MSG_RESP_SIZE
               else BSL_SYNCED_RESP_SIZE);
          (ok, s1) = do_uart_transaction e [0xFF] True n s;
          s2 = (if ok \<and> rcv_bufr s1 ! 0 = 0
                then s1\<lparr>vmc_sync_retry := 0, update_progress := 1, update_state := eBsl_Unlock_Password\<rparr>
                else if ok then s1\<lparr>vmc_sync_retry := vmc_sync_retry s1 + 1, update_state := eBsl_Synced\<rparr>
                else s1\<lparr>vmc_sync_retry := vmc_sync_retry s1 + 1\<rparr>);
          s3 = (if SC_UPDATE_MAX_RETRY_COUNT \<le> vmc_sync_retry s2
                then give_up eSc_Update_Error_Vmc_Bsl_Sync_Failed (s2\<lparr>vmc_sync_retry := 0\<rparr>) else s2)
      in Some (su_delay_ms e 1000 s3))"

definition bsl_accepts :: "bytes \<Rightarrow> bool" where
  "bsl_accepts r \<longleftrightarrow> r ! 4 = BSL_RESP_CMD_CHAR \<and> r ! 5 = BSL_RESP_MSG_CHAR"

definition bsl_pwd :: bytes where
  "bsl_pwd = [BSL_MSG_HEADER, 0x39, 0x00, 0x21, 0x58, 0x41, 0x50, 0x3A, 0x20, 0x58, 0x69, 0x6C,
     0x69, 0x6E, 0x78, 0x20, 0x41, 0x6C, 0x6C, 0x20, 0x50, 0x72, 0x6F, 0x67, 0x72, 0x61, 0x6D, 0x6D,
     0x61, 0x62, 0x6C, 0x65, 0x2C, 0x20, 0x58, 0x42, 0x42, 0x3A, 0x20, 0x58, 0x69, 0x6C, 0x69, 0x6E,
     0x78, 0x20, 0x42, 0x72, 0x61, 0x6E, 0x64, 0x65, 0x64, 0x20, 0x42, 0x6F, 0x61, 0x72, 0x64, 0x73,
     0x82, 0xE5]"

definition unlock_bsl :: "'w su_env \<Rightarrow> 'w sc_update \<Rightarrow> 'w sc_update option" where
  "unlock_bsl e s =
     (let (ok, s1) = do_uart_transaction e bsl_pwd True 8 s
      in do {
        good \<leftarrow> (if ok then vmc_validate_bsl_resp (rcv_bufr s1) 8 else Some False);
        let s2 = (if ok \<and> good \<and> bsl_accepts (rcv_bufr s1)
                  then s1\<lparr>unlock_retry := 0, update_state := eBsl_Mass_Erase\<rparr>
                  else if ok then s1\<lparr>unlock_retry := unlock_retry s1 + 1, update_state := eBsl_Unlock_Password\<rparr>
                  else s1\<lparr>unlock_retry := unlock_retry s1 + 1\<rparr>);
        let s3 = (if SC_UPDATE_MAX_RETRY_COUNT \<le> unlock_retry s2
                  then give_up eSc_Update_Error_Bsl_Unlock_Password_Failed (s2\<lparr>unlock_retry := 0\<rparr>) else s2);
        Some (su_delay_ms e 200 s3) })"

definition mass_erase_bsl :: "'w su_env \<Rightarrow> 'w sc_update \<Rightarrow> 'w sc_update option" where
  "mass_erase_bsl e s =
     (let (ok, s1) = do_uart_transaction e [BSL_MSG_HEADER, 1, 0, 0x15, 0x64, 0xA3] True 8 s
      in do {
        good \<leftarrow> (if ok then vmc_validate_bsl_resp (rcv_bufr s1) 8 else Some False);
        let s2 = (if ok \<and> good \<and> bsl_accepts (rcv_bufr s1)
                  then s1\<lparr>erase_retry := 0, update_state := eBsl_Data_Tx_32\<rparr>
                  else if ok then s1\<lparr>erase_retry := erase_retry s1 + 1, update_state := eBsl_Mass_Erase\<rparr>
                  else s1\<lparr>erase_retry := erase_retry s1 + 1\<rparr>);
        let s3 = (if SC_UPDATE_MAX_RETRY_COUNT \<le> erase_retry s2
                  then give_up eSc_Update_Error_Erase_Failed (s2\<lparr>erase_retry := 0\<rparr>) else s2);
        Some (su_delay_ms e 200 s3) })"

text \<open>One packet.  The result says whether the transfer stops; a packet whose transaction fails is not
  sent again.\<close>

definition bsl_failure :: "u8 \<Rightarrow> 'w sc_update \<Rightarrow> 'w sc_update" where
  "bsl_failure err s = s\<lparr>update_status := eStatus_Failure, update_error := err\<rparr>"

definition packet_answer :: "'w su_env \<Rightarrow> 'w sc_update \<Rightarrow> (bool \<times> 'w sc_update) option" where
  "packet_answer e s = do {
     good \<leftarrow> vmc_validate_bsl_resp (rcv_bufr s) 8;
     if good \<and> bsl_accepts (rcv_bufr s)
     then do { (st, s1) \<leftarrow> matchcrc_postwrite e (parsed_sc_flash_addr s) s;
               Some (if st \<noteq> eStatus_Success
                     then (True, bsl_failure eSc_Update_Error_Post_Crc_Failed s1) else (False, s1)) }
     else Some (True, bsl_failure eSc_Update_Error_Invalid_Bsl_Resp s) }"

definition send_packet :: "'w su_env \<Rightarrow> 'w sc_update \<Rightarrow> (bool \<times> 'w sc_update) option" where
  "send_packet e s = do {
     s1 \<leftarrow> parse_fpt_sc (image_mem e s) (fpt_sc_start s + SC_TOT_HEADER_SIZE)
            (s\<lparr>bsl_send_data_pkt := replicate BSL_MAX_DATA_SIZE 0\<rparr>);
     let (ok, s2) = do_uart_transaction e (take (unat (total_length s1)) (bsl_send_data_pkt s1)) True 8 s1;
     (stop, s3) \<leftarrow> (if ok then packet_answer e s2 else Some (False, s2));
     Some (if stop then (True, s3) else (False, su_delay_ms e 10 s3)) }"

partial_function (option) packets_loop :: "'w su_env \<Rightarrow> 'w sc_update \<Rightarrow> 'w sc_update option" where
  "packets_loop e s =
     (if all_pkt_sent s then Some s
      else do { (stop, s') \<leftarrow> send_packet e s; if stop then Some s' else packets_loop e s' })"

definition send_data_done :: "'w su_env \<Rightarrow> 'w sc_update \<Rightarrow> 'w sc_update" where
  "send_data_done e s =
     (let s1 = s\<lparr>addr_flag := False, data_ptr := 0, curr_prog := 0, max_data_slot := 0\<rparr>;
          s2 = (if update_status s1 \<noteq> eStatus_Failure then s1\<lparr>update_state := eBsl_Load_Pc_32\<rparr>
                else if se_platform e = eVCK5000
                then s1\<lparr>update_state := eBsl_Reboot_Reset, update_status := eStatus_In_Progress\<rparr>
                else s1\<lparr>update_state := eSc_State_Idle, update_status := eStatus_Failure\<rparr>)
      in su_delay_ms e 10 s2)"

definition send_data_to_bsl :: "'w su_env \<Rightarrow> 'w sc_update \<Rightarrow> 'w sc_update option" where
  "send_data_to_bsl e s =
     (let s1 = s\<lparr>data_ptr := 0, all_pkt_sent := False,
                 max_data_slot := fpt_sc_size s div 100 + fpt_sc_size s mod 100\<rparr>
      in if IO_SYNC_READ8 (fpt_sc_start s1 + SC_TOT_HEADER_SIZE) (image_mem e s1) \<noteq> SECTION_START
         then Some (give_up eSc_Update_Error_Invalid_Sc_Symbol_Found s1)
         else do { s2 \<leftarrow> packets_loop e (s1\<lparr>addr_flag := True\<rparr>); Some (send_data_done e s2) })"

text \<open>These two try again without a limit.\<close>

definition loadpc_bsl :: "'w su_env \<Rightarrow> 'w sc_update \<Rightarrow> 'w sc_update option" where
  "loadpc_bsl e s =
     (let (ok, s1) = do_uart_transaction e [BSL_MSG_HEADER, 5, 0, 0x27, 1, 2, 0, 0, 0xB8, 0x66] True 1 s
      in Some (if ok \<and> rcv_bufr s1 ! 0 = 0
               then s1\<lparr>update_progress := update_progress s1 + 1, update_status := eStatus_Success,
                       update_state := eSc_State_Idle\<rparr>
               else s1))"

definition reboot_bsl :: "'w su_env \<Rightarrow> 'w sc_update \<Rightarrow> 'w sc_update option" where
  "reboot_bsl e s =
     (let (ok, s1) = do_uart_transaction e [BSL_MSG_HEADER, 1, 0, 0x25, 0x37, 0x95] False 0 s
      in Some (su_delay_ms e 100
           (if ok then s1\<lparr>update_status := eStatus_Success, update_state := eSc_State_Idle\<rparr> else s1)))"

section \<open>The state machine\<close>

fun update_step :: "sc_update_state \<Rightarrow> 'w su_env \<Rightarrow> 'w sc_update \<Rightarrow> 'w sc_update option" where
  "update_step eSc_Bsl_Sync e s = sync_sc_bsl e s"
| "update_step eSc_Enable_Bsl e s = enable_sc_bsl e s"
| "update_step eBsl_Synced e s = sync_vmc_bsl e s"
| "update_step eBsl_Unlock_Password e s = unlock_bsl e s"
| "update_step eBsl_Mass_Erase e s = mass_erase_bsl e s"
| "update_step eBsl_Data_Tx_32 e s = send_data_to_bsl e s"
| "update_step eBsl_Load_Pc_32 e s = loadpc_bsl e s"
| "update_step eBsl_Reboot_Reset e s = reboot_bsl e s"
| "update_step _ e s = Some (s\<lparr>update_status := eStatus_Failure, update_state := eSc_State_Idle\<rparr>)"

partial_function (option) update_loop :: "'w su_env \<Rightarrow> 'w sc_update \<Rightarrow> 'w sc_update option" where
  "update_loop e s =
     (if update_status s \<noteq> eStatus_In_Progress then Some s
      else do { s' \<leftarrow> update_step (update_state s) e s; update_loop e s' })"

text \<open>At the end the flags of the exchange are cleared, so that it starts again.\<close>

definition restart_comms :: "'w vmc_sc \<Rightarrow> 'w vmc_sc" where
  "restart_comms c = c\<lparr>is_SC_active := False, isPowerModeActive := False, getSensorRespLen := False,
                        is_boardInfo_sentTo_SC := False\<rparr>"

definition update_begin :: "'w sc_update \<Rightarrow> 'w sc_update" where
  "update_begin s =
     (if update_state s = eSc_State_Idle \<and> update_status s \<noteq> eStatus_In_Progress
      then s\<lparr>update_state := eSc_Bsl_Sync, update_status := eStatus_In_Progress,
             update_error := eSc_Update_No_Error\<rparr>
      else s)"

definition update_end :: "'w su_env \<Rightarrow> 'w sc_update \<Rightarrow> u8 \<times> 'w sc_update" where
  "update_end e s =
     (let s1 = su_delay_ms e 5000 s
      in (update_error s,
          s1\<lparr>update_progress := 0, curr_prog := 0, max_data_slot := 0, update_error := eSc_Update_No_Error,
             rcv_bufr := replicate BSL_MAX_RCV_DATA_SIZE 0, rcvd_byte_count := 0,
             su_sc := restart_comms (su_sc s1)\<rparr>))"

definition update_scfw :: "'w su_env \<Rightarrow> 'w sc_update \<Rightarrow> (u8 \<times> 'w sc_update) option" where
  "update_scfw e s = do { s1 \<leftarrow> update_loop e (update_begin s); Some (update_end e s1) }"

definition start_scfw_update :: "'w su_env \<Rightarrow> 'w sc_update \<Rightarrow> (u8 \<times> 'w sc_update) option" where
  "start_scfw_update e s =
     (if \<not> fpt_sc_valid s then Some (eSc_Update_Error_No_Valid_Fpt_Sc_Found, s)
      else if get_sc_checksum = 0 then Some (eSc_Up_To_Date_No_Update_Req, s)
      else update_scfw e s)"

definition cl_vmc_scfw_program :: "'w su_env \<Rightarrow> 'w sc_update \<Rightarrow> (int \<times> 'w sc_update) option" where
  "cl_vmc_scfw_program e s = do { (r, s') \<leftarrow> start_scfw_update e s; Some (uint r, s') }"

section \<open>The version of the image\<close>

definition get_fpt_sc_version :: "'w su_env \<Rightarrow> bytes \<Rightarrow> 'w sc_update \<Rightarrow> ((int \<times> bytes) \<times> 'w sc_update) option" where
  "get_fpt_sc_version e buf s =
     (let ((addr, sz), w) = sue_fpt_query e (sc_world (su_sc s));
          s1 = s\<lparr>data_ptr := 0, fpt_sc_start := addr, fpt_sc_size := sz, su_sc := put_world w (su_sc s)\<rparr>;
          head = mem_load (image_mem e s1) addr 16
      in if check_received_sc_header head SC_HEADER_MSG 11 = 0
         then do {
           (buf', s2) \<leftarrow> parse_fpt_sc_version (image_mem e s1) (addr + SC_TOT_HEADER_SIZE + sz - SC_VER_ADDR_W_CHKSUM)
                          buf (s1\<lparr>fpt_sc_valid := True\<rparr>);
           Some ((0, buf'), s2) }
         else Some ((-1, buf), s1\<lparr>fpt_sc_valid := False\<rparr>))"

definition cl_vmc_pdi_scfw_version :: "'w su_env \<Rightarrow> bytes \<Rightarrow> 'w sc_update \<Rightarrow> (bytes \<times> 'w sc_update) option" where
  "cl_vmc_pdi_scfw_version e buf s = do { ((_, buf'), s') \<leftarrow> get_fpt_sc_version e buf s; Some (buf', s') }"

definition cl_vmc_scfw_init :: "'w su_env \<Rightarrow> 'w sc_update \<Rightarrow> (int \<times> 'w sc_update) option" where
  "cl_vmc_scfw_init e s = do {
     (buf, s') \<leftarrow> cl_vmc_pdi_scfw_version e (replicate 4 0) s;
     Some (0, s'\<lparr>fpt_sc_version := take 3 buf\<rparr>) }"

end
