(* ===== verification/Vmc_Sc_Comms_Props.thy ===== *)
theory Vmc_Sc_Comms_Props
  imports Vmc_Sc_Comms
begin

text \<open>What the packets of \<open>Vmc_Sc_Comms\<close> promise: the frame of a request against a reference
  encoding and a receiver that undoes it, the checksum of a reply, the readings a reply stores, and
  the mutexes of the UART across a transaction.\<close>

section \<open>The frame of a request\<close>

definition escape :: "bytes \<Rightarrow> bytes" where
  "escape bs = concat (map (\<lambda>b. if b = ESCAPE_CHAR then [b, b] else [b]) bs)"

definition frame_body :: "u8 \<Rightarrow> bytes \<Rightarrow> bytes" where
  "frame_body msg payload =
     (let n = of_nat (length payload); c = calculate_checksum msg frame_flags n payload
      in [msg, frame_flags, n] @ payload @ [ucast c, ucast (drop_bit 8 c)])"

definition sc_frame :: "u8 \<Rightarrow> bytes \<Rightarrow> bytes" where
  "sc_frame msg payload = [ESCAPE_CHAR, STX] @ escape (frame_body msg payload) @ [ESCAPE_CHAR, ETX]"

text \<open>A receiver: it drops the first of two escape characters and stops at the end marker.\<close>

fun unescape :: "bytes \<Rightarrow> bytes option" where
  "unescape (x # y # r) =
     (if x \<noteq> ESCAPE_CHAR then map_option ((#) x) (unescape (y # r))
      else if y = ESCAPE_CHAR then map_option ((#) x) (unescape r)
      else if y = ETX \<and> r = [] then Some [] else None)"
| "unescape _ = None"

definition sc_decode :: "bytes \<Rightarrow> (u8 \<times> u8 \<times> bytes) option" where
  "sc_decode bs =
     (case bs of
        a # b # r \<Rightarrow>
          if a = ESCAPE_CHAR \<and> b = STX
          then case unescape r of
                 Some (msg # flags # n # rest) \<Rightarrow>
                   (let payload = take (unat n) rest; c = calculate_checksum msg flags n payload
                    in if rest = payload @ [ucast c, ucast (drop_bit 8 c)] \<and> length payload = unat n
                       then Some (msg, flags, payload) else None)
               | _ \<Rightarrow> None
          else None
      | _ \<Rightarrow> None)"

lemma escape_simps [simp]:
  "escape [] = []"
  "escape (b # bs) = (if b = ESCAPE_CHAR then b # b # escape bs else b # escape bs)"
  "escape (xs @ ys) = escape xs @ escape ys"
  by (simp_all add: escape_def)

lemma unescape_escape: "unescape (escape bs @ [ESCAPE_CHAR, ETX]) = Some bs"
proof (induct bs)
  case (Cons b bs)
  then show ?case by (cases "escape bs") auto
qed simp

lemma put_byte_fits:
  assumes "unat len < length buf" "unat len < 255"
  shows "put_byte b (buf, len) = Some (buf[unat len := b], len + 1) \<and> unat (len + 1) = unat len + 1"
  using assms by (simp add: put_byte_def unat_word_ariths)

lemma put_all_fits:
  assumes "unat len + length (escape bs) \<le> length buf" "unat len + length (escape bs) \<le> 255"
  shows "put_all bs (buf, len) =
    Some (take (unat len) buf @ escape bs @ drop (unat len + length (escape bs)) buf,
          len + of_nat (length (escape bs)))"
  using assms
proof (induct bs arbitrary: buf len)
  case (Cons b bs)
  show ?case
  proof (cases "b = ESCAPE_CHAR")
    case True
    have l: "unat len < length buf" "unat len < 255" using Cons.prems True by auto
    have l1: "unat (len + 1) = unat len + 1" using put_byte_fits [OF l] by blast
    have l2: "unat (len + 2) = unat len + 2"
      using put_byte_fits [of "len + 1" buf] Cons.prems True l1 by (simp add: add.assoc)
    have "put_all bs (buf[unat len := b, Suc (unat len) := b], len + 2) =
      Some (take (unat (len + 2)) (buf[unat len := b, Suc (unat len) := b]) @ escape bs
        @ drop (unat (len + 2) + length (escape bs)) (buf[unat len := b, Suc (unat len) := b]),
        len + 2 + of_nat (length (escape bs)))"
      by (rule Cons.hyps) (use Cons.prems True l2 in auto)
    moreover have "take (Suc (Suc (unat len))) (buf[unat len := b, Suc (unat len) := b]) = take (unat len) buf @ [b, b]"
      using Cons.prems True by (simp add: take_Suc_conv_app_nth)
    moreover have "put_escaped b (buf, len) = Some (buf[unat len := b, Suc (unat len) := b], len + 2)"
      using True l put_byte_fits [OF l] put_byte_fits [of "len + 1" "buf[unat len := b]"] Cons.prems l1
      by (simp add: put_escaped_def add.assoc)
    ultimately show ?thesis using True l2 Cons.prems by (simp add: add.assoc)
  next
    case False
    have l: "unat len < length buf" "unat len < 255" using Cons.prems False by auto
    have l1: "unat (len + 1) = unat len + 1" using put_byte_fits [OF l] by blast
    have "put_all bs (buf[unat len := b], len + 1) =
      Some (take (unat (len + 1)) (buf[unat len := b]) @ escape bs
        @ drop (unat (len + 1) + length (escape bs)) (buf[unat len := b]), len + 1 + of_nat (length (escape bs)))"
      by (rule Cons.hyps) (use Cons.prems False l1 in auto)
    moreover have "take (Suc (unat len)) (buf[unat len := b]) = take (unat len) buf @ [b]"
      using l by (simp add: take_Suc_conv_app_nth)
    ultimately show ?thesis using False l1 put_byte_fits [OF l, of b] Cons.prems
      by (simp add: put_escaped_def add.assoc)
  qed
qed simp

lemma put_byte_grows: "put_byte b (buf, len) = Some (buf', len') \<Longrightarrow> length buf' = length buf \<and> len' = len + 1"
  by (auto simp: put_byte_def wr_def split: if_splits)

lemma frame_is_reference:
  assumes "length (sc_frame msg payload) \<le> 255" "length (sc_frame msg payload) \<le> length tx" "length payload \<le> 255"
  shows "VMC_Uart_Frame_Tx_packet msg (of_nat (length payload)) tx payload =
    Some (sc_frame msg payload @ drop (length (sc_frame msg payload)) tx,
          of_nat (length (sc_frame msg payload)))"
proof -
  let ?n = "of_nat (length payload) :: u8"
  have n: "unat ?n = length payload" using assms(3) by (simp add: unat_of_nat)
  define c where "c = calculate_checksum msg frame_flags ?n payload"
  define body where "body = [msg, frame_flags, ?n] @ payload @ [ucast c, ucast (drop_bit 8 c)]"
  let ?k = "length (escape body)"
  have b: "frame_body msg payload = body" by (simp add: frame_body_def body_def c_def Let_def)
  have k: "length (sc_frame msg payload) = ?k + 4" by (simp add: sc_frame_def b)
  have tx1: "wr_bytes tx 0 [ESCAPE_CHAR, STX] = Some ([ESCAPE_CHAR, STX] @ drop 2 tx)"
    using assms(2) k by (simp add: wr_bytes_def numeral_2_eq_2)
  have p: "put_all body ([ESCAPE_CHAR, STX] @ drop 2 tx, 2) =
     Some ([ESCAPE_CHAR, STX] @ escape body @ drop (?k + 2) tx, 2 + of_nat ?k)"
    using assms(1,2) k by (subst put_all_fits) (auto simp: add.commute)
  have u: "unat (2 + of_nat ?k :: u8) = ?k + 2"
    using assms(1) k by (simp add: unat_word_ariths unat_of_nat)
  have e: "wr_bytes ([ESCAPE_CHAR, STX] @ escape body @ drop (?k + 2) tx) (?k + 2) [ESCAPE_CHAR, ETX]
      = Some ([ESCAPE_CHAR, STX] @ escape body @ [ESCAPE_CHAR, ETX] @ drop (?k + 4) tx)"
    using assms(2) k by (auto simp: wr_bytes_def eval_nat_numeral)
  have rd: "rd_bytes payload 0 (unat ?n) = Some payload" using n by (simp add: rd_bytes_def)
  have body': "[msg, frame_flags, ?n] @ payload @ [ucast c, ucast (drop_bit 8 c)] = body" by (simp add: body_def)
  have "VMC_Uart_Frame_Tx_packet msg ?n tx payload
      = Some ([ESCAPE_CHAR, STX] @ escape body @ [ESCAPE_CHAR, ETX] @ drop (?k + 4) tx, 2 + of_nat ?k + 2)"
    by (simp only: VMC_Uart_Frame_Tx_packet_def rd tx1 Let_def bind.bind_lunit c_def [symmetric] body' p u
        add.commute [of 2 ?k] prod.case e)
  then show ?thesis by (simp add: k) (simp add: sc_frame_def b add.commute)
qed

lemma sc_decode_frame:
  assumes "length payload \<le> 255"
  shows "sc_decode (sc_frame msg payload) = Some (msg, frame_flags, payload)"
proof -
  have n: "unat (of_nat (length payload) :: u8) = length payload" using assms by (simp add: unat_of_nat)
  show ?thesis
    by (simp add: sc_decode_def sc_frame_def unescape_escape del: escape_simps)
       (simp add: frame_body_def n Let_def)
qed


section \<open>The checksum of a reply\<close>

definition byte_sum :: "bytes \<Rightarrow> u16" where "byte_sum bs = sum_list (map ucast bs)"

definition sc_reply :: "u8 \<Rightarrow> bytes \<Rightarrow> bytes" where
  "sc_reply msg payload =
     (let n = of_nat (length payload); c = calculate_checksum msg 0 n payload
      in [ESCAPE_CHAR, STX, msg, 0, n] @ payload @ [ucast c, ucast (drop_bit 8 c), ESCAPE_CHAR, ETX])"

lemma fold_add_ucast: "fold (\<lambda>b c. c + ucast b) bs (c :: u16) = c + byte_sum bs"
  by (induct bs arbitrary: c) (simp_all add: byte_sum_def add.assoc)

lemma add_body_sum:
  assumes "unat off + n \<le> unat lim" "unat lim \<le> length buf" "length buf < 65536"
  shows "add_body buf n off lim c = Some (c + byte_sum (take n (drop (unat off) buf)))"
  using assms(1)
proof (induct n arbitrary: off c)
  case (Suc n)
  have l: "unat off < length buf" "unat off < unat lim" using Suc.prems assms by auto
  have o: "unat (off + 1) = unat off + 1" using l assms by (simp add: unat_word_ariths)
  have lt: "ucast off < lim"
    using l unat_u16_less [of off] by (simp add: word_less_nat_alt unsigned_ucast_eq take_bit_nat_eq_self)
  have "drop (unat off) buf = buf ! unat off # drop (Suc (unat off)) buf"
    by (rule Cons_nth_drop_Suc [OF l(1), symmetric])
  then show ?case using Suc.hyps [of "off + 1"] Suc.prems o lt l
    by (simp add: byte_sum_def add.assoc)
qed (simp add: byte_sum_def)

lemma join_bytes_u16: "push_bit 8 (ucast (h :: u8)) OR ucast (l :: u8) = (c :: u16) \<longleftrightarrow> l = ucast c \<and> h = ucast (drop_bit 8 c)"
proof
  assume c: "push_bit 8 (ucast h) OR ucast l = c"
  have "l = ucast c" by (rule bit_word_eqI) (simp add: c [symmetric] bit_simps)
  moreover have "h = ucast (drop_bit 8 c)"
  proof (rule bit_word_eqI)
    fix n assume n: "n < LENGTH(8)"
    have "\<not> bit l (8 + n)" using bit_imp_le_length by fastforce
    then show "bit h n = bit (ucast (drop_bit 8 c) :: u8) n" using n by (simp add: c [symmetric] bit_simps)
  qed
  ultimately show "l = ucast c \<and> h = ucast (drop_bit 8 c)" by simp
next
  assume "l = ucast c \<and> h = ucast (drop_bit 8 c)"
  then show "push_bit 8 (ucast h) OR ucast l = c"
    by (intro bit_word_eqI) (auto simp: bit_simps)
qed

text \<open>A packet of the shape of a reply without flags is accepted exactly when its checksum bytes are
  those of its body.\<close>

lemma validate_iff:
  assumes "length payload + 9 \<le> length buf" "length buf \<le> 255"
    and "take (length payload + 9) buf
      = [s0, s1, msg, 0, of_nat (length payload)] @ payload @ [lo, hi, ESCAPE_CHAR, ETX]"
  shows "VMC_Validate_SC_Packet buf (of_nat (length payload + 9)) =
    Some (lo = ucast (ucast msg + of_nat (length payload) + byte_sum payload)
        \<and> hi = ucast (drop_bit 8 (ucast msg + of_nat (length payload) + byte_sum payload)))"
proof -
  let ?n = "length payload" let ?pkt = "[s0, s1, msg, 0, of_nat ?n] @ payload @ [lo, hi, ESCAPE_CHAR, ETX]"
  have n: "?n < 256" using assms by simp
  have nth: "buf ! i = ?pkt ! i" if "i < ?n + 9" for i
    using that assms(3) by (metis nth_take)
  have sub: "unat (of_nat (?n + 9) - k :: u32) = ?n + 9 - unat k" if "unat k \<le> ?n + 9" for k
  proof -
    have u: "unat (of_nat (?n + 9) :: u32) = ?n + 9" by (rule unat_of_nat_u32) (use n in simp)
    then have "k \<le> of_nat (?n + 9)" using that by (simp add: word_le_nat_alt del: of_nat_add)
    then show ?thesis using u by (simp add: unat_sub del: of_nat_add)
  qed
  have len8: "unat (of_nat ?n :: u8) = ?n" using n by (simp add: unat_of_nat)
  have len16: "unat (ucast (of_nat ?n :: u8) :: u16) = ?n" using len8 by simp
  have n16: "(ucast (of_nat ?n :: u8) :: u16) = of_nat ?n" 
    using n len16 by (simp add: word_unat_eq_iff unat_of_nat)
  have hd: "buf ! 0 = s0" "buf ! 1 = s1" "buf ! 2 = msg" "buf ! 3 = 0" "buf ! 4 = of_nat ?n"
    using nth [of 0] nth [of 1] nth [of 2] nth [of 3] nth [of 4] by simp_all
  have tl: "buf ! (?n + 8) = ETX" "buf ! (?n + 7) = ESCAPE_CHAR" "buf ! (?n + 6) = hi" "buf ! (?n + 5) = lo"
    using nth [of "?n + 8"] nth [of "?n + 7"] nth [of "?n + 6"] nth [of "?n + 5"]
    by (simp_all add: nth_append)
  note tl' = tl [unfolded add.commute [of ?n]]
  have body: "take ?n (drop 5 buf) = payload"
  proof -
    have "take ?n (drop 5 buf) = take ?n (drop 5 (take (?n + 9) buf))" by (simp add: drop_take)
    also have "\<dots> = payload" unfolding assms(3) by simp
    finally show ?thesis .
  qed
  have ab: "add_body buf (unat (of_nat ?n :: u16)) 5 (of_nat (?n + 9) - 4) c = Some (c + byte_sum payload)" for c
    using sub [of 4] assms(1,2) n16 len16 body by (subst add_body_sum) simp_all
  show ?thesis
    unfolding VMC_Validate_SC_Packet_def
    using sub [of 1] sub [of 2] sub [of 3] sub [of 4] assms(1)
    by (simp add: hd tl' n16 ab Let_def join_bytes_u16 flip: of_nat_add)
qed


lemma sum_bytes_eq:
  "ucast c = (ucast d :: u8) \<and> ucast (drop_bit 8 c) = (ucast (drop_bit 8 d) :: u8) \<longleftrightarrow> c = (d :: u16)"
  by (metis join_bytes_u16)

lemma ucast_u8_u16_inj: "(ucast (a :: u8) :: u16) = ucast b \<longleftrightarrow> a = b"
  by (metis unat_ucast_u8_u16 word_unat_eq_iff)

lemma byte_sum_update:
  "k < length p \<Longrightarrow> byte_sum (p[k := b]) = byte_sum p - ucast (p ! k) + ucast b"
  by (induct p arbitrary: k) (auto simp: byte_sum_def split: nat.splits)

lemma of_nat_unat_u16_u8: "(ucast (b :: u8) :: u16) = of_nat (unat b)"
  by (simp add: word_unat_eq_iff unat_of_nat unat_byte_less less_trans [OF unat_byte_less])

lemma checksum_no_flag:
  "length payload < 256 \<Longrightarrow>
    calculate_checksum msg 0 (of_nat (length payload)) payload = ucast msg + of_nat (length payload) + byte_sum payload"
proof -
  assume n: "length payload < 256"
  then have u: "unat (of_nat (length payload) :: u8) = length payload" by (simp add: unat_of_nat)
  then have "(ucast (of_nat (length payload) :: u8) :: u16) = of_nat (length payload)"
    by (simp add: of_nat_unat_u16_u8)
  then show ?thesis using u by (simp add: calculate_checksum_def fold_add_ucast)
qed


lemma sc_reply_shape:
  assumes "length payload \<le> 246"
  shows "sc_reply msg payload = [ESCAPE_CHAR, STX, msg, 0, of_nat (length payload)] @ payload
     @ [ucast (ucast msg + of_nat (length payload) + byte_sum payload),
        ucast (drop_bit 8 (ucast msg + of_nat (length payload) + byte_sum payload)), ESCAPE_CHAR, ETX]"
  using assms by (simp add: sc_reply_def checksum_no_flag Let_def)

lemma length_sc_reply [simp]: "length (sc_reply msg payload) = length payload + 9"
  by (simp add: sc_reply_def Let_def)

lemma sc_reply_valid:
  assumes "length payload \<le> 246" "length (sc_reply msg payload @ rest) \<le> 255"
  shows "VMC_Validate_SC_Packet (sc_reply msg payload @ rest) (of_nat (length payload + 9)) = Some True"
proof -
  have "take (length payload + 9) (sc_reply msg payload @ rest) = sc_reply msg payload" by simp
  from validate_iff [OF _ _ this [unfolded sc_reply_shape [OF assms(1)]]] assms(2)
  show ?thesis by (simp add: sc_reply_shape [OF assms(1)])
qed

lemma update_middle: "k < length ys \<Longrightarrow> (xs @ ys @ zs)[length xs + k := b] = xs @ ys[k := b] @ zs"
  by (simp add: list_update_append)

lemma sc_reply_corrupted:
  assumes p: "length payload \<le> 246" and r: "length (sc_reply msg payload @ rest) \<le> 255"
    and i: "i = 2 \<or> 5 \<le> i \<and> i < length payload + 7" and b: "b \<noteq> sc_reply msg payload ! i"
  shows "VMC_Validate_SC_Packet ((sc_reply msg payload @ rest)[i := b]) (of_nat (length payload + 9)) = Some False"
proof -
  let ?n = "length payload" let ?c = "ucast msg + of_nat ?n + byte_sum payload :: u16"
  let ?buf = "(sc_reply msg payload @ rest)[i := b]"
  let ?pkt = "[ESCAPE_CHAR, STX, msg, 0, of_nat ?n] @ payload @ [ucast ?c, ucast (drop_bit 8 ?c), ESCAPE_CHAR, ETX]"
  have len: "?n + 9 \<le> length ?buf" "length ?buf \<le> 255" using r by simp_all
  have "take (?n + 9) ?buf = (sc_reply msg payload)[i := b]" by (simp add: take_update_swap)
  then have t: "take (?n + 9) ?buf = ?pkt[i := b]" by (simp only: sc_reply_shape [OF p])
  have b': "b \<noteq> ?pkt ! i" using b by (simp only: sc_reply_shape [OF p] not_False_eq_True simp_thms)
  consider (msg) "i = 2" | (body) "5 \<le> i" "i < ?n + 5" | (lo) "i = ?n + 5" | (hi) "i = ?n + 6"
    using i by linarith
  then show ?thesis
  proof cases
    case msg
    have "take (?n + 9) ?buf = [ESCAPE_CHAR, STX, b, 0, of_nat ?n] @ payload
        @ [ucast ?c, ucast (drop_bit 8 ?c), ESCAPE_CHAR, ETX]"
      unfolding t using msg by (simp add: eval_nat_numeral)
    from validate_iff [OF len this] show ?thesis
      using b' msg by (simp add: sum_bytes_eq ucast_u8_u16_inj)
  next
    case body
    let ?k = "i - 5" let ?p = "payload[?k := b]"
    have k: "?k < ?n" "i = ?k + 5" using body by auto
    have bk: "b \<noteq> payload ! ?k" using b' body k(1) by (simp add: nth_append eval_nat_numeral)
    have h: "length [ESCAPE_CHAR, STX, msg, 0, of_nat ?n] + ?k = i" using body by simp
    have "?pkt[i := b] = [ESCAPE_CHAR, STX, msg, 0, of_nat (length ?p)] @ ?p
        @ [ucast ?c, ucast (drop_bit 8 ?c), ESCAPE_CHAR, ETX]"
      using update_middle [OF k(1), of "[ESCAPE_CHAR, STX, msg, 0, of_nat ?n]"
          "[ucast ?c, ucast (drop_bit 8 ?c), ESCAPE_CHAR, ETX]" b, unfolded h]
      by (simp only: length_list_update)
    with t have "take (length ?p + 9) ?buf = [ESCAPE_CHAR, STX, msg, 0, of_nat (length ?p)] @ ?p
        @ [ucast ?c, ucast (drop_bit 8 ?c), ESCAPE_CHAR, ETX]" by simp
    from validate_iff [OF _ len(2) this] len(1) show ?thesis
      using bk k by (simp add: sum_bytes_eq byte_sum_update ucast_u8_u16_inj)
  next
    case lo
    have "take (?n + 9) ?buf = [ESCAPE_CHAR, STX, msg, 0, of_nat ?n] @ payload
        @ [b, ucast (drop_bit 8 ?c), ESCAPE_CHAR, ETX]"
      unfolding t unfolding lo by (simp add: list_update_append eval_nat_numeral)
    from validate_iff [OF len this] show ?thesis using b' lo by (simp add: nth_append)
  next
    case hi
    have "take (?n + 9) ?buf = [ESCAPE_CHAR, STX, msg, 0, of_nat ?n] @ payload
        @ [ucast ?c, b, ESCAPE_CHAR, ETX]"
      unfolding t unfolding hi by (simp add: list_update_append eval_nat_numeral)
    from validate_iff [OF len this] show ?thesis using b' hi by (simp add: nth_append)
  qed
qed


section \<open>The readings of a reply\<close>

text \<open>A reading is a sensor, a size and a value of that size; only the current of VCCINT has a
  place for 32 bits.\<close>

datatype reading = Byte u8 u8 | Half u8 u16 | Word u8 u32

fun reading_bytes :: "reading \<Rightarrow> bytes" where
  "reading_bytes (Byte k v) = [k, 1, v]"
| "reading_bytes (Half k v) = [k, 2, ucast v, ucast (drop_bit 8 v)]"
| "reading_bytes (Word k v) =
     [k, 4, ucast v, ucast (drop_bit 8 v), ucast (drop_bit 16 v), ucast (drop_bit 24 v)]"

fun reading_id :: "reading \<Rightarrow> nat" where
  "reading_id (Byte k v) = unat k"
| "reading_id (Half k v) = unat k"
| "reading_id (Word k v) = unat k"

fun reading_value :: "reading \<Rightarrow> u32" where
  "reading_value (Byte k v) = ucast v"
| "reading_value (Half k v) = ucast v"
| "reading_value (Word k v) = v"

definition record_reading :: "reading \<Rightarrow> sc_vmc_data \<Rightarrow> sc_vmc_data" where
  "record_reading r d =
     (if reading_id r = 5 then d\<lparr>VCCINT_sensor_value := reading_value r\<rparr>
      else d\<lparr>sensor_values := (sensor_values d)[reading_id r := ucast (reading_value r)]\<rparr>)"

definition readings_bytes :: "reading list \<Rightarrow> bytes" where
  "readings_bytes rs = concat (map reading_bytes rs)"

lemma join4_u32:
  "ucast (ucast v :: u8) OR push_bit 8 (ucast (ucast (drop_bit 8 v) :: u8))
    OR push_bit 16 (ucast (ucast (drop_bit 16 v) :: u8)) OR push_bit 24 (ucast (ucast (drop_bit 24 v) :: u8))
    = (v :: u32)"
proof (rule bit_word_eqI)
  fix n assume "n < LENGTH(32)"
  then consider "n < 8" | "8 \<le> n" "n < 16" | "16 \<le> n" "n < 24" | "24 \<le> n" "n < 32" by fastforce
  then show "bit (ucast (ucast v :: u8) OR push_bit 8 (ucast (ucast (drop_bit 8 v) :: u8))
    OR push_bit 16 (ucast (ucast (drop_bit 16 v) :: u8)) OR push_bit 24 (ucast (ucast (drop_bit 24 v) :: u8)) :: u32) n
    = bit v n"
    by cases (auto simp: bit_simps)
qed

lemma join2_u16: "ucast (ucast v :: u8) OR push_bit 8 (ucast (ucast (drop_bit 8 v) :: u8)) = (v :: u16)"
  by (rule bit_word_eqI) (auto simp: bit_simps)

lemma nth_of_drop: "drop i p = xs @ ys \<Longrightarrow> j < length xs \<Longrightarrow> i + j < length p \<and> p ! (i + j) = xs ! j"
proof -
  assume d: "drop i p = xs @ ys" and j: "j < length xs"
  have "j < length (drop i p)" using d j by simp
  then have l: "i + j < length p" by simp
  then have "p ! (i + j) = drop i p ! j" by simp
  then show ?thesis using l d j by (simp add: nth_append)
qed

lemma reading_header:
  assumes "drop i p = reading_bytes r @ ys"
  shows "rd p (i + 1) = Some (of_nat (length (reading_bytes r) - 2))"
    and "unat (p ! i) = reading_id r"
    and "sensor_number p (i + 2) (of_nat (length (reading_bytes r) - 2)) = Some (Some (reading_value r))"
proof -
  note n = nth_of_drop [OF assms]
  show "rd p (i + 1) = Some (of_nat (length (reading_bytes r) - 2))"
    using n [of 1] by (cases r) (auto simp: rd_def)
  show "unat (p ! i) = reading_id r" using n [of 0] by (cases r) auto
  show "sensor_number p (i + 2) (of_nat (length (reading_bytes r) - 2)) = Some (Some (reading_value r))"
    using n [of 2] n [of 3] n [of 4] n [of 5]
    by (cases r) (auto simp: sensor_number_def vmcU8ToU16_def vmcU8ToU32_def add.assoc join2_u16 join4_u32 rd_def
        simp del: add_2_eq_Suc add_2_eq_Suc' One_nat_def)
qed

definition lock_granted :: "('w, 'e) sc_env_scheme \<Rightarrow> bool" where
  "lock_granted e \<longleftrightarrow> (\<forall>w. fst (se_lock e w))"

lemma store_reading:
  assumes "lock_granted e" "reading_id r < length (sensor_values (sc_data s))" "unat k = reading_id r"
  shows "\<exists>s'. VMC_StoreSensor_Value e k (reading_value r) s = Some s'
    \<and> sc_data s' = record_reading r (sc_data s)"
proof -
  obtain w where "se_lock e (sc_world s) = (True, w)"
    using assms(1) by (metis lock_granted_def prod.collapse)
  then show ?thesis using assms(2,3)
    by (auto simp: VMC_StoreSensor_Value_def store_value_def record_reading_def put_world_def Let_def)
qed

lemma sensor_values_record: "length (sensor_values (record_reading r d)) = length (sensor_values d)"
  by (simp add: record_reading_def)

lemma sensors_loop_stores:
  assumes "lock_granted e" "drop i p = readings_bytes rs @ ys" "len = i + length (readings_bytes rs)"
    and "\<forall>r \<in> set rs. reading_id r < length (sensor_values (sc_data s))"
  shows "\<exists>s'. sensors_loop e p len i s = Some s' \<and> sc_data s' = fold record_reading rs (sc_data s)"
  using assms
proof (induct rs arbitrary: i s)
  case Nil
  then show ?case by (simp add: sensors_loop.simps readings_bytes_def)
next
  case (Cons r rs)
  let ?m = "length (reading_bytes r)"
  have d: "drop i p = reading_bytes r @ (readings_bytes rs @ ys)"
    using Cons.prems(2) by (simp add: readings_bytes_def)
  note h = reading_header [OF d]
  have m: "2 < ?m" "?m \<le> 6" by (cases r; simp)+
  obtain s' where s': "VMC_StoreSensor_Value e (p ! i) (reading_value r) s = Some s'"
      "sc_data s' = record_reading r (sc_data s)"
    using store_reading [OF Cons.prems(1)] Cons.prems(4) h(2) by force
  have "drop (i + ?m) p = readings_bytes rs @ ys" using d by (metis append_eq_conv_conj drop_drop add.commute)
  moreover have "len = i + ?m + length (readings_bytes rs)" using Cons.prems(3) by (simp add: readings_bytes_def)
  ultimately obtain s'' where "sensors_loop e p len (i + ?m) s' = Some s''"
      "sc_data s'' = fold record_reading rs (record_reading r (sc_data s))"
    using Cons.hyps [of "i + ?m" s'] Cons.prems(1,4) s'(2) by (auto simp: sensor_values_record)
  moreover have step: "i + 2 + unat (of_nat (?m - 2) :: u8) = i + ?m"
    using m by (simp add: unat_of_nat del: of_nat_diff)
  moreover have "i < len" using Cons.prems(3) m by (cases "reading_bytes r") (auto simp: readings_bytes_def)
  ultimately show ?case
    by (subst sensors_loop.simps)
       (simp add: h(1) h(3) s'(1) step del: of_nat_diff add_2_eq_Suc add_2_eq_Suc' One_nat_def)
qed


lemma parse_reply:
  assumes "length payload \<le> 246"
  shows "Parse_SC_Data e (sc_reply msg payload @ rest) msg s =
    map_option (Pair True) (parse_body e msg (of_nat (length payload))
      (payload @ drop (length payload + 5) (sc_reply msg payload) @ rest) s)"
proof -
  have r: "sc_reply msg payload @ rest = ESCAPE_CHAR # STX # msg # 0 # of_nat (length payload) # payload
      @ drop (length payload + 5) (sc_reply msg payload) @ rest"
    by (simp add: sc_reply_shape [OF assms] eval_nat_numeral)
  have n: "ucast (of_nat (length payload) :: u8) = (of_nat (length payload) :: u16)"
    using assms by (simp add: of_nat_unat_u16_u8 unat_of_nat)
  show ?thesis
    unfolding Parse_SC_Data_def
    by (subst r)+ (simp add: rd_def COMMS_PAYLOAD_START_INDEX_def n, cases "parse_body e msg (of_nat (length payload))
      (payload @ drop (length payload + 5) (sc_reply msg payload) @ rest) s", simp_all)
qed

lemma reply_stored:
  assumes "lock_granted e" "length (readings_bytes rs) \<le> 246"
    and "msg \<in> {SC_COMMS_RX_VOLT_SNSR_RESP, SC_COMMS_RX_POWER_SNSR_RESP, SC_COMMS_RX_TEMP_SNSR_RESP}"
    and "\<forall>r \<in> set rs. reading_id r < length (sensor_values (sc_data s))"
  shows "\<exists>s'. Parse_SC_Data e (sc_reply msg (readings_bytes rs) @ rest) msg s = Some (True, s')
    \<and> sc_data s' = fold record_reading rs (sc_data s)"
proof -
  let ?p = "readings_bytes rs" let ?q = "drop (length ?p + 5) (sc_reply msg ?p) @ rest"
  have n: "unat (of_nat (length ?p) :: u16) = length ?p" using assms(2) by (simp add: unat_of_nat)
  have "\<exists>s'. sensors_loop e (?p @ ?q) (length ?p) 0 s = Some s' \<and> sc_data s' = fold record_reading rs (sc_data s)"
    by (rule sensors_loop_stores [OF assms(1) _ _ assms(4)]) simp_all
  then show ?thesis
    by (simp only: parse_reply [OF assms(2)] parse_body_def assms(3) if_True VMC_Update_Sensors_def n) auto
qed

text \<open>An identifier past the table makes the store leave the array.\<close>

lemma sensor_id_out_of_range:
  assumes "lock_granted e" "length (readings_bytes (r # rs)) \<le> 246"
    and "msg \<in> {SC_COMMS_RX_VOLT_SNSR_RESP, SC_COMMS_RX_POWER_SNSR_RESP, SC_COMMS_RX_TEMP_SNSR_RESP}"
    and "length (sensor_values (sc_data s)) \<le> reading_id r" "reading_id r \<noteq> 5"
  shows "Parse_SC_Data e (sc_reply msg (readings_bytes (r # rs)) @ rest) msg s = None"
proof -
  let ?p = "readings_bytes (r # rs)" let ?q = "drop (length ?p + 5) (sc_reply msg ?p) @ rest"
  have n: "unat (of_nat (length ?p) :: u16) = length ?p" using assms(2) by (simp add: unat_of_nat)
  have d: "drop 0 (?p @ ?q) = reading_bytes r @ (readings_bytes rs @ ?q)" by (simp add: readings_bytes_def)
  note h = reading_header [OF d]
  obtain w where "se_lock e (sc_world s) = (True, w)"
    using assms(1) by (metis lock_granted_def prod.collapse)
  then have "VMC_StoreSensor_Value e ((?p @ ?q) ! 0) (reading_value r) s = None"
    using h(2) assms(4,5) by (simp add: VMC_StoreSensor_Value_def store_value_def put_world_def wr_None Let_def)
  moreover have "0 < length ?p" by (cases r) (simp_all add: readings_bytes_def)
  ultimately have "sensors_loop e (?p @ ?q) (length ?p) 0 s = None"
    using h(1,3) by (subst sensors_loop.simps) (simp del: of_nat_diff)
  then show ?thesis
    by (simp only: parse_reply [OF assms(2)] parse_body_def assms(3) if_True VMC_Update_Sensors_def n) simp
qed

section \<open>The mutexes of the UART\<close>

text \<open>\<open>held\<close> is the set of mutexes taken.  A mutex is taken when it is free and given when it is
  held, and nothing else changes the set.\<close>

definition mutex_laws :: "'w uart_env \<Rightarrow> ('w \<Rightarrow> u32 set) \<Rightarrow> bool" where
  "mutex_laws e held \<longleftrightarrow>
     (\<forall>m t w. fst (ue_take e m t w) = (m \<notin> held w) \<and> held (snd (ue_take e m t w)) = insert m (held w))
     \<and> (\<forall>m w. fst (ue_give e m w) = (m \<in> held w) \<and> held (snd (ue_give e m w)) = held w - {m})
     \<and> (\<forall>g b w. held (snd (ue_set_bits_isr e g b w)) = held w)
     \<and> (\<forall>b w. held (ue_yield_isr e b w) = held w)
     \<and> (\<forall>g b t w. held (snd (ue_wait_bits e g b t w)) = held w)
     \<and> (\<forall>w. held (snd (ue_irqs e w)) = held w)
     \<and> (\<forall>n w. held (ue_irq_enable e n w) = held w \<and> held (ue_irq_disable e n w) = held w)
     \<and> (\<forall>b w. held (ue_send e b w) = held w)
     \<and> (\<forall>n w. held (snd (ue_recv e n w)) = held w)"

lemma mutexD:
  assumes "mutex_laws e held"
  shows "fst (ue_take e m t w) = (m \<notin> held w)" "held (snd (ue_take e m t w)) = insert m (held w)"
    and "fst (ue_give e m w) = (m \<in> held w)" "held (snd (ue_give e m w)) = held w - {m}"
    and "held (snd (ue_set_bits_isr e g b w)) = held w" "held (ue_yield_isr e y w) = held w"
    and "held (snd (ue_wait_bits e g b t w)) = held w" "held (snd (ue_irqs e w)) = held w"
    and "held (ue_irq_enable e i w) = held w" "held (ue_irq_disable e i w) = held w"
    and "held (ue_send e bs w) = held w" "held (snd (ue_recv e n w)) = held w"
  using assms unfolding mutex_laws_def by simp_all

definition same_locks :: "('w \<Rightarrow> u32 set) \<Rightarrow> 'w uart \<Rightarrow> 'w uart \<Rightarrow> bool" where
  "same_locks held u u' \<longleftrightarrow> held (uw u') = held (uw u) \<and> rxSem u' = rxSem u \<and> txSem u' = txSem u"

lemma same_locks_refl [simp]: "same_locks held u u"
  by (simp add: same_locks_def)

lemma same_locks_trans: "same_locks held a b \<Longrightarrow> same_locks held b c \<Longrightarrow> same_locks held a c"
  by (simp add: same_locks_def)

lemma same_locks_uw: "held w = held (uw u) \<Longrightarrow> same_locks held u (u\<lparr>uw := w\<rparr>)"
  by (simp add: same_locks_def)

lemma set_bits_isr_locks:
  assumes "mutex_laws e held"
  shows "same_locks held u (set_bits_isr e g b u)"
proof -
  obtain ok woken w where s: "ue_set_bits_isr e g b (uw u) = ((ok, woken), w)" by (metis surj_pair)
  then have "held w = held (uw u)" using mutexD(5) [OF assms, of g b "uw u"] by simp
  then show ?thesis
    by (simp add: set_bits_isr_def s same_locks_def mutexD(6) [OF assms])
qed

lemma handler_locks:
  assumes "mutex_laws e held"
  shows "same_locks held u (UART_RTOS_Handler e k n u)"
proof -
  have h: "same_locks held u v \<Longrightarrow> same_locks held u (set_bits_isr e g b v)" for g b v
    using set_bits_isr_locks [OF assms] same_locks_trans by blast
  show ?thesis by (cases k; simp; (rule h)?; simp add: same_locks_def)
qed

lemma handlers_locks:
  assumes "mutex_laws e held"
  shows "same_locks held u (fold (\<lambda>(k, n). UART_RTOS_Handler e k n) irqs u)"
proof (induct irqs arbitrary: u)
  case (Cons i irqs)
  obtain k n where i: "i = (k, n)" by fastforce
  show ?case unfolding i fold_Cons comp_def prod.case
    by (rule same_locks_trans [OF handler_locks [OF assms] Cons.hyps])
qed simp

lemma wait_event_locks:
  assumes "mutex_laws e held" "wait_event e g b t u = (r, u')"
  shows "same_locks held u u'"
proof -
  obtain irqs w where i: "ue_irqs e (uw u) = (irqs, w)" by fastforce
  define u1 where "u1 = fold (\<lambda>(k, n). UART_RTOS_Handler e k n) irqs (u\<lparr>uw := w\<rparr>)"
  obtain r2 w2 where w2: "ue_wait_bits e g b t (uw u1) = (r2, w2)" by fastforce
  have "same_locks held u (u\<lparr>uw := w\<rparr>)"
    by (rule same_locks_uw) (use mutexD(8) [OF assms(1), of "uw u"] i in simp)
  then have "same_locks held u u1" unfolding u1_def by (rule same_locks_trans) (rule handlers_locks [OF assms(1)])
  moreover have "same_locks held u1 (u1\<lparr>uw := w2\<rparr>)"
    by (rule same_locks_uw) (use mutexD(7) [OF assms(1), of g b t "uw u1"] w2 in simp)
  moreover have "u' = u1\<lparr>uw := w2\<rparr>"
    using assms(2) by (simp add: wait_event_def i u1_def [symmetric] w2 Let_def)
  ultimately show ?thesis by (metis same_locks_trans)
qed

lemma acquire_locks:
  assumes "mutex_laws e held"
  obtains w where "uart_shm_acquire e m u = (m \<notin> held (uw u), u\<lparr>uw := w\<rparr>)" "held w = insert m (held (uw u))"
proof -
  obtain ok w where t: "ue_take e m (Some 0) (uw u) = (ok, w)" by fastforce
  show ?thesis
    by (rule that [of w]) (use t mutexD(1,2) [OF assms, of m "Some 0" "uw u"] in \<open>simp_all add: uart_shm_acquire_def\<close>)
qed

lemma release_locks:
  assumes "mutex_laws e held"
  obtains w where "uart_shm_release e m u = (m \<in> held (uw u), u\<lparr>uw := w\<rparr>)" "held w = held (uw u) - {m}"
proof -
  obtain ok w where t: "ue_give e m (uw u) = (ok, w)" by fastforce
  show ?thesis
    by (rule that [of w]) (use t mutexD(3,4) [OF assms, of m "uw u"] in \<open>simp_all add: uart_shm_release_def\<close>)
qed

lemma irq_locks:
  assumes "mutex_laws e held"
  shows "same_locks held u (uart_disable_interrupt e n u)" "same_locks held u (uart_enable_interrupt e n u)"
  by (simp_all add: uart_disable_interrupt_def uart_enable_interrupt_def same_locks_def mutexD [OF assms])

text \<open>Sending gives back the mutex it takes.\<close>

lemma send_locks:
  assumes "mutex_laws e held" "UART_RTOS_Send e buf u = (st, u')"
  shows "same_locks held u u'"
proof (cases "buf = []")
  case False
  let ?m = "txSem u"
  obtain w where a: "uart_shm_acquire e ?m u = (?m \<notin> held (uw u), u\<lparr>uw := w\<rparr>)" "held w = insert ?m (held (uw u))"
    using acquire_locks [OF assms(1)] by blast
  show ?thesis
  proof (cases "?m \<in> held (uw u)")
    case True
    then show ?thesis using assms(2) False a by (auto simp: UART_RTOS_Send_def same_locks_def)
  next
    case free: False
    let ?u2 = "u\<lparr>uw := ue_send e buf w\<rparr>"
    obtain st3 u3 where x: "wait_sent e (length buf) ?u2 = (st3, u3)" by fastforce
    then have "same_locks held ?u2 u3"
      using wait_event_locks [OF assms(1)] by (auto simp: wait_sent_def split: if_splits prod.splits)
    then have u3: "held (uw u3) = insert ?m (held (uw u))" "rxSem u3 = rxSem u" "txSem u3 = ?m"
      using a(2) by (simp_all add: same_locks_def mutexD [OF assms(1)])
    obtain w4 where r: "uart_shm_release e ?m u3 = (?m \<in> held (uw u3), u3\<lparr>uw := w4\<rparr>)" "held w4 = held (uw u3) - {?m}"
      using release_locks [OF assms(1)] by blast
    have "u' = u3\<lparr>uw := w4\<rparr>"
      using assms(2) False free a(1) x r(1) u3
      by (simp add: UART_RTOS_Send_def)
    then show ?thesis using u3 r(2) free by (auto simp: same_locks_def)
  qed
qed (use assms(2) in \<open>simp add: UART_RTOS_Send_def\<close>)


lemma receive_set_locks:
  assumes "mutex_laws e held" "UART_RTOS_Receive_Set_Buffer e n u = (st, c, u')"
  shows "rxSem u' = rxSem u" "txSem u' = txSem u"
    and "if st = UART_SUCCESS then rxSem u \<notin> held (uw u) \<and> held (uw u') = insert (rxSem u) (held (uw u))
         else held (uw u') = held (uw u)"
proof -
  let ?m = "rxSem u"
  obtain w where a: "uart_shm_acquire e ?m u = (?m \<notin> held (uw u), u\<lparr>uw := w\<rparr>)" "held w = insert ?m (held (uw u))"
    using acquire_locks [OF assms(1)] by blast
  obtain k w2 where k: "ue_recv e n (ue_irq_disable e (uart_IRQ_ID u) w) = (k, w2)" by fastforce
  have w2: "held w2 = held w" using mutexD(10,12) [OF assms(1)] k by (metis snd_conv)
  have "rxSem u' = rxSem u \<and> txSem u' = txSem u \<and>
      (if st = UART_SUCCESS then rxSem u \<notin> held (uw u) \<and> held (uw u') = insert (rxSem u) (held (uw u))
       else held (uw u') = held (uw u))"
  proof (cases "?m \<in> held (uw u)")
    case True
    then have "st = UART_ERROR_SEMAPHORE" "u' = u\<lparr>uw := w\<rparr>"
      using assms(2) a(1) by (simp_all add: UART_RTOS_Receive_Set_Buffer_def)
    then show ?thesis using True a(2) by auto
  next
    case False
    then have "st = UART_SUCCESS" "u' = u\<lparr>uw := ue_irq_enable e (uart_IRQ_ID u) w2\<rparr>"
      using assms(2) a(1) k
      by (simp_all add: UART_RTOS_Receive_Set_Buffer_def uart_disable_interrupt_def uart_enable_interrupt_def)
    then show ?thesis using False a(2) w2 by (simp add: mutexD(9) [OF assms(1)])
  qed
  then show "rxSem u' = rxSem u" "txSem u' = txSem u"
    and "if st = UART_SUCCESS then rxSem u \<notin> held (uw u) \<and> held (uw u') = insert (rxSem u) (held (uw u))
         else held (uw u') = held (uw u)" by blast+
qed

lemma receive_wait_locks:
  assumes "mutex_laws e held" "UART_RTOS_Receive_Wait e t u = (st, c, u')"
  shows "rxSem u' = rxSem u" "txSem u' = txSem u" "held (uw u') = held (uw u) - {rxSem u}"
    and "st \<noteq> UART_ERROR_GENERIC"
proof -
  obtain ev u1 where w: "wait_event e (rxEvent u) (UART_RTOS_COMPLETE OR UART_RTOS_RX_ERROR) (Some t) u = (ev, u1)"
    by fastforce
  define u2 where "u2 = uart_disable_interrupt e (uart_IRQ_ID u1) u1"
  have u2: "same_locks held u u2"
    unfolding u2_def by (rule same_locks_trans [OF wait_event_locks [OF assms(1) w] irq_locks(1) [OF assms(1)]])
  obtain w3 where r: "uart_shm_release e (rxSem u2) u2 = (rxSem u2 \<in> held (uw u2), u2\<lparr>uw := w3\<rparr>)"
      "held w3 = held (uw u2) - {rxSem u2}"
    using release_locks [OF assms(1)] by blast
  have "u' = u2\<lparr>uw := w3\<rparr>" "st \<noteq> UART_ERROR_GENERIC"
    using assms(2) r(1) by (auto simp: UART_RTOS_Receive_Wait_def w Let_def u2_def [symmetric] split: if_splits)
  then show "rxSem u' = rxSem u" "txSem u' = txSem u" "held (uw u') = held (uw u) - {rxSem u}"
    "st \<noteq> UART_ERROR_GENERIC" using u2 r(2) by (simp_all add: same_locks_def)
qed


lemma on_uartD: "on_uart f s = (r, s') \<Longrightarrow> \<exists>u. f (sc_uart s) = (r, u) \<and> s' = s\<lparr>sc_uart := u\<rparr>"
  by (auto simp: on_uart_def split: prod.splits)

lemma sc_set_locks:
  assumes "mutex_laws (uart_env.truncate e) held" "sc_receive_set e n s = ((st, c), s')"
  shows "rxSem (sc_uart s') = rxSem (sc_uart s)"
    and "if st = UART_SUCCESS then rxSem (sc_uart s) \<notin> held (sc_world s)
           \<and> held (sc_world s') = insert (rxSem (sc_uart s)) (held (sc_world s))
         else held (sc_world s') = held (sc_world s)"
proof -
  obtain u where "UART_RTOS_Receive_Set_Buffer (uart_env.truncate e) n (sc_uart s) = (st, c, u)"
      "s' = s\<lparr>sc_uart := u\<rparr>"
    using on_uartD [OF assms(2) [unfolded sc_receive_set_def]] by (auto split: prod.splits)
  with receive_set_locks [OF assms(1) this(1)]
  show "rxSem (sc_uart s') = rxSem (sc_uart s)"
    and "if st = UART_SUCCESS then rxSem (sc_uart s) \<notin> held (sc_world s)
           \<and> held (sc_world s') = insert (rxSem (sc_uart s)) (held (sc_world s))
         else held (sc_world s') = held (sc_world s)"
    by (simp_all add: sc_world_def)
qed

lemma sc_wait_locks:
  assumes "mutex_laws (uart_env.truncate e) held" "sc_receive_wait e t s = ((st, c), s')"
  shows "rxSem (sc_uart s') = rxSem (sc_uart s)" "held (sc_world s') = held (sc_world s) - {rxSem (sc_uart s)}"
    and "st \<noteq> UART_ERROR_GENERIC"
proof -
  obtain u where "UART_RTOS_Receive_Wait (uart_env.truncate e) t (sc_uart s) = (st, c, u)"
      "s' = s\<lparr>sc_uart := u\<rparr>"
    using on_uartD [OF assms(2) [unfolded sc_receive_wait_def]] by (auto split: prod.splits)
  with receive_wait_locks [OF assms(1) this(1)]
  show "rxSem (sc_uart s') = rxSem (sc_uart s)" "held (sc_world s') = held (sc_world s) - {rxSem (sc_uart s)}"
    and "st \<noteq> UART_ERROR_GENERIC" by (simp_all add: sc_world_def)
qed

lemma sc_send_locks:
  assumes "mutex_laws (uart_env.truncate e) held" "sc_send e buf s = (st, s')"
  shows "rxSem (sc_uart s') = rxSem (sc_uart s)" "held (sc_world s') = held (sc_world s)"
  using send_locks [OF assms(1)] on_uartD [OF assms(2) [unfolded sc_send_def]]
  by (auto simp: same_locks_def sc_world_def)

lemma sc_disable_locks:
  assumes "mutex_laws (uart_env.truncate e) held"
  shows "rxSem (sc_uart (sc_disable_irq e s)) = rxSem (sc_uart s)"
    "held (sc_world (sc_disable_irq e s)) = held (sc_world s)"
  using irq_locks(1) [OF assms, of "sc_uart s"] by (simp_all add: sc_disable_irq_def sc_world_def same_locks_def)

lemma sc_release_locks:
  assumes "mutex_laws (uart_env.truncate e) held"
  shows "held (sc_world (snd (sc_release_rx e s))) = held (sc_world s) - {rxSem (sc_uart s)}"
proof -
  obtain w where "uart_shm_release (uart_env.truncate e) (rxSem (sc_uart s)) (sc_uart s)
      = (rxSem (sc_uart s) \<in> held (uw (sc_uart s)), sc_uart s\<lparr>uw := w\<rparr>)"
      "held w = held (uw (sc_uart s)) - {rxSem (sc_uart s)}"
    using release_locks [OF assms] by blast
  then show ?thesis by (simp add: sc_release_rx_def on_uart_def sc_world_def)
qed

lemma recover_locks:
  assumes "mutex_laws (uart_env.truncate e) held" "VMC_Recover_UART e s = (r, s')"
  shows "held (sc_world s') = held (sc_world s)"
proof -
  obtain st c s1 where set: "sc_receive_set e (of_nat MAX_VMC_SC_UART_BUF_SIZE) s = ((st, c), s1)"
    by (metis surj_pair)
  obtain x s2 where wait: "sc_receive_wait e 2000 s1 = (x, s2)" by fastforce
  note l = sc_set_locks [OF assms(1) set]
  show ?thesis
  proof (cases "st = UART_SUCCESS")
    case True
    then have "s' = s2\<lparr>rx_buf := zero_buf\<rparr>"
      using assms(2) by (simp add: VMC_Recover_UART_def set wait)
    then show ?thesis
      using True l sc_wait_locks(2) [OF assms(1), of 2000 s1 "fst x" "snd x" s2] wait
      by (auto simp: sc_world_def)
  next
    case False
    then show ?thesis using assms(2) l by (simp add: VMC_Recover_UART_def set)
  qed
qed

lemma accept_locks:
  assumes "mutex_laws (uart_env.truncate e) held" "accept_packet e n s = Some s'"
  shows "held (sc_world s') = held (sc_world s)"
proof -
  obtain v where v: "VMC_Validate_SC_Packet (rx_buf s) n = Some v"
    using assms(2) by (cases "VMC_Validate_SC_Packet (rx_buf s) n") (simp_all add: accept_packet_def)
  show ?thesis
  proof (cases v)
    case True
    then show ?thesis using assms(2) v
      by (auto simp: accept_packet_def sc_world_def split: Option.bind_splits)
  next
    case False
    obtain r s1 where "VMC_Recover_UART e s = (r, s1)" by fastforce
    then show ?thesis using assms(2) v False recover_locks [OF assms(1)] by (auto simp: accept_packet_def)
  qed
qed


lemma transaction_locks:
  assumes laws: "mutex_laws (uart_env.truncate e) held"
    and t: "VMC_UART_CMD_Transaction e msg n payload expected s = Some (r, s')"
  shows "held (sc_world s') = held (sc_world s)"
proof -
  let ?s0 = "s\<lparr>rx_buf := zero_buf, tx_buf := zero_buf\<rparr>" let ?m = "rxSem (sc_uart s)"
  have s0: "rxSem (sc_uart ?s0) = ?m" "sc_world ?s0 = sc_world s" by (simp_all add: sc_world_def)
  obtain st c0 s1 where set: "sc_receive_set e (ucast expected) ?s0 = ((st, c0), s1)" by (metis surj_pair)
  note l1 = sc_set_locks [OF laws set, unfolded s0]
  show ?thesis
  proof (cases "st = UART_SUCCESS")
    case False
    then show ?thesis using t l1 by (simp add: VMC_UART_CMD_Transaction_def set)
  next
    case True
    note t1 = t [unfolded VMC_UART_CMD_Transaction_def Let_def set prod.case True, simplified]
    then obtain tx len where f: "VMC_Uart_Frame_Tx_packet msg n (tx_buf s1) payload = Some (tx, len)"
      by (auto split: Option.bind_splits)
    obtain st2 s3 where send: "sc_send e (take (unat len) tx) (s1\<lparr>tx_buf := tx\<rparr>) = (st2, s3)" by fastforce
    note l3 = sc_send_locks [OF laws send]
    have m3: "rxSem (sc_uart s3) = ?m" "held (sc_world s3) = insert ?m (held (sc_world s))"
        "?m \<notin> held (sc_world s)"
      using l1 l3 True by (simp_all add: sc_world_def)
    show ?thesis
    proof (cases "st2 = UART_SUCCESS")
      case False
      then have "s' = snd (sc_release_rx e (sc_disable_irq e s3))" using t1 f send by simp
      then show ?thesis using m3 by (simp add: sc_release_locks [OF laws] sc_disable_locks [OF laws])
    next
      case sent: True
      obtain st3 c s4 where wait: "sc_receive_wait e 500 s3 = ((st3, c), s4)" by (metis surj_pair)
      note l4 = sc_wait_locks [OF laws wait]
      have w4: "held (sc_world s4) = held (sc_world s)" using l4(2) m3 by auto
      define s5 where "s5 = s4\<lparr>rx_buf := received_into (rx_buf s4) (uart_env.truncate e) (sc_uart s4)\<rparr>"
      have w5: "held (sc_world s5) = held (sc_world s)" using w4 by (simp add: s5_def sc_world_def)
      have t2: "(if st3 \<noteq> UART_SUCCESS
             then Some (False, sc_disable_irq e s5)
             else if of_nat MAX_VMC_SC_UART_BUF_SIZE < the c then None
             else if 2 < the c
             then do { s6 \<leftarrow> accept_packet e (the c) s5; Some (ucast expected = the c, s6) }
             else Some (False, s5)) = Some (r, s')"
        unfolding s5_def using t1 f send sent wait l4(3)
        by (cases "st3 = UART_SUCCESS"; cases "2 < the c"; simp)
      then consider "s' = sc_disable_irq e s5" | "accept_packet e (the c) s5 = Some s'" | "s' = s5"
        by (cases "accept_packet e (the c) s5") (auto split: if_splits)
      then show ?thesis by cases (simp_all add: w5 sc_disable_locks [OF laws] accept_locks [OF laws])
    qed
  qed
qed


section \<open>A simulated UART\<close>

text \<open>For the witnesses: the state is the mutexes held, every send succeeds, and the bytes given are
  received.\<close>

definition sim_uart_env :: "bytes \<Rightarrow> u32 list sc_env" where
  "sim_uart_env rx = \<lparr>
     ue_mutex_create = \<lambda>w. (1, w), ue_mutex_delete = \<lambda>m w. w,
     ue_event_create = \<lambda>w. (1, w), ue_event_delete = \<lambda>g w. w,
     ue_take = \<lambda>m t w. (m \<notin> set w, m # w), ue_give = \<lambda>m w. (m \<in> set w, removeAll m w),
     ue_set_bits_isr = \<lambda>g b w. ((True, False), w), ue_yield_isr = \<lambda>b w. w,
     ue_wait_bits = \<lambda>g b t w. (UART_RTOS_COMPLETE, w),
     ue_irqs = \<lambda>w. ([(EVENT_RECV_DATA, of_nat (length rx))], w),
     ue_irq_enable = \<lambda>n w. w, ue_irq_disable = \<lambda>n w. w,
     ue_lookup = \<lambda>d w. Some 0, ue_cfg_init = \<lambda>b w. (0, w),
     ue_read_reg = \<lambda>b r w. (0, w), ue_write_reg = \<lambda>b r v w. w, ue_set_handler = \<lambda>w. w,
     ue_rx_threshold = \<lambda>n w. w, ue_tx_threshold = \<lambda>n w. w, ue_interrupt_mask = \<lambda>n w. w,
     ue_oper_mode_normal = \<lambda>w. w, ue_install_handler = \<lambda>n w. w,
     ue_send = \<lambda>b w. w, ue_recv = \<lambda>n w. (0, w), ue_rx = \<lambda>w. rx, ue_delay_ms = \<lambda>n w. w,
     UARTPSV_DEVICE_ID = (0, 1), UARTPSV_INTR = (50, 51), UARTLCR_OFFSET = 0x2C,
     UARTLCR_PARITY_EVEN = 4, UARTLCR_PARITY_MASK = 2, UARTIFLS_RXIFLSEL_1_2 = 0x10,
     UARTIFLS_TXIFLSEL_1_8 = 0, UARTIMSC_MASKS = [],
     se_lock = \<lambda>w. (True, w), se_unlock = \<lambda>w. w, se_i2c_sensors = \<lambda>b w. Some ((b, 0), w),
     se_fetch_boardinfo = None, se_platform = eV70, se_sc_comms = None \<rparr>"

definition sim_sc :: "u32 list vmc_sc" where
  "sim_sc = \<lparr> sc_uart = \<lparr> rxSem = 1, txSem = 2, rxEvent = 3, txEvent = 4, cb_received = 0, cb_sent = 0,
       cb_errors = 0, cb_event = EVENT_OTHER, uart_IRQ_ID = 50, uw = [] \<rparr>,
     sc_data = \<lparr> boardInfoStatus = False, voltSensorLength = 0, powerSensorLength = 0,
       tempSensorLength = 0, powerMode = 0, configmode = 0, scVersion = replicate 4 0,
       VCCINT_sensor_value = 0, sensor_values = replicate 14 0 \<rparr>,
     g_scData = zero_buf, isPacketReceived = False, scPayload = zero_buf, tx_buf = zero_buf,
     rx_buf = zero_buf, vmc_active_resp_len = 11, is_SC_active = False, isPowerModeActive = False,
     getSensorRespLen = False, is_boardInfo_sentTo_SC = False, platform_specific_msgid_count = 0,
     msg_id_handler_ptr = None \<rparr>"

lemma sim_mutex_laws: "mutex_laws (uart_env.truncate (sim_uart_env rx)) set"
  by (simp add: mutex_laws_def sim_uart_env_def uart_env.defs)

section \<open>Properties\<close>

text \<open>C30: Whenever the escaped frame of a request fits into the transmit buffer, framing returns
  exactly that frame in front of the old contents and its length, and a receiver that removes the
  escapes and checks the checksum gets back the message id, the flags byte 3 and the payload.\<close>

theorem sc_frame_decodes:
  assumes "length (sc_frame msg payload) \<le> 255" "length payload \<le> 255" "length tx = 255"
  shows "\<exists>tx' len. VMC_Uart_Frame_Tx_packet msg (of_nat (length payload)) tx payload = Some (tx', len)
    \<and> drop (unat len) tx' = drop (unat len) tx
    \<and> take (unat len) tx' = sc_frame msg payload
    \<and> sc_decode (take (unat len) tx') = Some (msg, frame_flags, payload)"
proof -
  let ?f = "sc_frame msg payload"
  have "unat (of_nat (length ?f) :: u8) = length ?f" using assms(1) by (simp add: unat_of_nat)
  then show ?thesis
    using frame_is_reference [OF assms(1) _ assms(2), of tx] sc_decode_frame [OF assms(2)] assms(1,3) by simp
qed

theorem sc_frame_decodes_witness:
  "\<exists>tx' len. VMC_Uart_Frame_Tx_packet 0xF7 3 (replicate 255 0) [0x5C, 1, 0x5C] = Some (tx', len)
    \<and> drop (unat len) tx' = drop (unat len) (replicate 255 0)
    \<and> take (unat len) tx' = sc_frame 0xF7 [0x5C, 1, 0x5C]
    \<and> sc_decode (take (unat len) tx') = Some (0xF7, frame_flags, [0x5C, 1, 0x5C])"
proof -
  have "length (sc_frame 0xF7 [0x5C, 1, 0x5C]) \<le> 255" by code_simp
  from sc_frame_decodes [OF this, of "replicate 255 0"] show ?thesis by simp
qed

text \<open>C31: A reply without flags whose checksum is that of its message id, length and payload is
  accepted, and the same packet with any one byte of message id, payload or checksum changed is
  rejected.\<close>

theorem sc_reply_checked:
  assumes "length payload + 9 + length rest \<le> 255"
    and "i = 2 \<or> 5 \<le> i \<and> i < length payload + 7" "b \<noteq> sc_reply msg payload ! i"
  shows "VMC_Validate_SC_Packet (sc_reply msg payload @ rest) (of_nat (length payload + 9)) = Some True
    \<and> VMC_Validate_SC_Packet ((sc_reply msg payload @ rest)[i := b]) (of_nat (length payload + 9)) = Some False"
proof -
  have p: "length payload \<le> 246" "length (sc_reply msg payload @ rest) \<le> 255" using assms(1) by simp_all
  show ?thesis using sc_reply_valid [OF p] sc_reply_corrupted [OF p assms(2,3)] by simp
qed

theorem sc_reply_checked_witness:
  "VMC_Validate_SC_Packet (sc_reply 0xFE [7, 9]) 11 = Some True
   \<and> VMC_Validate_SC_Packet ((sc_reply 0xFE [7, 9])[6 := 8]) 11 = Some False"
proof -
  have b: "(8 :: u8) \<noteq> sc_reply 0xFE [7, 9] ! 6" by code_simp
  show ?thesis
    using sc_reply_checked [of "[7, 9]" "[]" 6, OF _ _ b] by simp
qed

text \<open>C32: A sensor reply whose identifiers are inside the table is parsed to its end: each reading is
  stored in order under its identifier, the current of VCCINT with 32 bits and every other value
  with its low 16 bits, and nothing else of the SC data changes.\<close>

theorem sc_reply_readings:
  assumes "lock_granted e" "length (readings_bytes rs) \<le> 246"
    and "msg \<in> {SC_COMMS_RX_VOLT_SNSR_RESP, SC_COMMS_RX_POWER_SNSR_RESP, SC_COMMS_RX_TEMP_SNSR_RESP}"
    and "length (sensor_values (sc_data s)) = eSC_SENSOR_ID_MAX"
    and "\<forall>r \<in> set rs. reading_id r < eSC_SENSOR_ID_MAX"
  shows "\<exists>s'. Parse_SC_Data e (sc_reply msg (readings_bytes rs) @ rest) msg s = Some (True, s')
    \<and> sc_data s' = fold record_reading rs (sc_data s)"
  using reply_stored [OF assms(1-3)] assms(4,5) by simp

theorem sc_reply_readings_witness:
  "\<exists>s'. Parse_SC_Data (sim_uart_env []) (sc_reply SC_COMMS_RX_POWER_SNSR_RESP
        (readings_bytes [Half 6 5500, Word 5 70000])) SC_COMMS_RX_POWER_SNSR_RESP sim_sc = Some (True, s')
    \<and> sc_data s' = fold record_reading [Half 6 5500, Word 5 70000] (sc_data sim_sc)"
proof -
  have "lock_granted (sim_uart_env [])" by (simp add: lock_granted_def sim_uart_env_def)
  from sc_reply_readings [OF this, of "[Half 6 5500, Word 5 70000]" SC_COMMS_RX_POWER_SNSR_RESP sim_sc "[]"]
  show ?thesis by (simp add: readings_bytes_def sim_sc_def eSC_SENSOR_ID_MAX_def)
qed

text \<open>C33: A transaction leaves the mutexes of the UART as it found them: whatever the driver and the
  other side do, an attempt to take a mutex that is held fails, and on every path, a failed send or
  receive and the flush after an invalid packet included, what was taken is given back.\<close>

theorem uart_mutexes_balanced:
  assumes "mutex_laws (uart_env.truncate e) held"
    and "VMC_UART_CMD_Transaction e msg n payload expected s = Some (r, s')"
  shows "held (sc_world s') = held (sc_world s)"
  by (rule transaction_locks [OF assms])

theorem uart_mutexes_balanced_witness:
  "\<exists>r s'. VMC_UART_CMD_Transaction (sim_uart_env (sc_reply 0xFE [1, 2])) 0xF0 0 [] 11 sim_sc = Some (r, s')
    \<and> set (sc_world s') = set (sc_world sim_sc) \<and> isPacketReceived s'"
proof -
  let ?t = "VMC_UART_CMD_Transaction (sim_uart_env (sc_reply 0xFE [1, 2])) 0xF0 0 [] 11 sim_sc"
  have "map_option (isPacketReceived \<circ> snd) ?t = Some True" by code_simp
  then obtain r s' where t: "?t = Some (r, s')" "isPacketReceived s'" by auto
  from uart_mutexes_balanced [OF sim_mutex_laws t(1)] show ?thesis using t by blast
qed

end
