(* ===== verification/Vmc_Sc_Handshake.thy ===== *)
theory Vmc_Sc_Handshake
  imports Vmc_Update_Sc Vmc_Sc_Comms_Props
begin

text \<open>The part of the update before the first packet: the states of \<open>Vmc_Update_Sc\<close> that bring the
  controller into its boot loader, unlock it and erase the flash.  Every state has a bounded number
  of retries, so the handshake ends after a bounded number of transactions, whatever the other side
  answers.\<close>

section \<open>What a transaction changes\<close>

definition su_control ::
    "'w sc_update \<Rightarrow> (sc_update_status \<times> sc_update_state \<times> u8) \<times> (u8 \<times> u8 \<times> u32) \<times> u8 \<times> u8 \<times> u8 \<times> u8" where
  "su_control s = ((update_status s, update_state s, update_error s),
     (mode_retry_cnt s, sync_retry s, sync_bytes_to_rcv s),
     enable_retry s, vmc_sync_retry s, unlock_retry s, erase_retry s)"

lemma su_control_frames [simp]:
  "su_control (s\<lparr>su_sc := c\<rparr>) = su_control s"
  "su_control (s\<lparr>rcv_bufr := b\<rparr>) = su_control s"
  "su_control (s\<lparr>rcvd_byte_count := n\<rparr>) = su_control s"
  "su_control (store_count k s) = su_control s"
  "su_control (su_enable_irq e s) = su_control s"
  "su_control (su_disable_irq e s) = su_control s"
  "su_control (snd (on_sc f s)) = su_control s"
  by (simp_all add: su_control_def store_count_def su_enable_irq_def su_disable_irq_def on_sc_def Let_def
      case_prod_unfold split: option.splits)

lemma on_sc_control: "on_sc f s = (r, s') \<Longrightarrow> su_control s' = su_control s"
  using su_control_frames(7) [of f s] by simp

lemma wait_answer_control: "wait_answer e n s = (r, s') \<Longrightarrow> su_control s' = su_control s"
  by (auto simp: wait_answer_def Let_def split: prod.splits if_splits dest!: on_sc_control)

lemma failed_send_control: "failed_send e recv s = (r, s') \<Longrightarrow> su_control s' = su_control s"
  by (auto simp: failed_send_def Let_def split: prod.splits if_splits dest!: on_sc_control)

lemma transaction_control:
  "do_uart_transaction e buf recv n s = (r, s') \<Longrightarrow> su_control s' = su_control s"
  by (auto simp: do_uart_transaction_def Let_def split: prod.splits if_splits
      dest!: on_sc_control wait_answer_control failed_send_control)

text \<open>What the other side sends has to fit when it looks like an answer of the boot loader; the
  code relies on it, see \<open>vmc_validate_bsl_resp\<close>.\<close>

definition short_answers :: "('w, 'e) uart_env_scheme \<Rightarrow> bool" where
  "short_answers e \<longleftrightarrow> (\<forall>w. let rx = ue_rx e w in
     2 \<le> length rx \<and> rx ! 0 = 0 \<and> rx ! 1 = BSL_MSG_HEADER \<longrightarrow> 4 \<le> length rx \<and> rx ! 3 = 0 \<and> rx ! 2 \<le> 28)"

lemma transaction_buffer:
  assumes "do_uart_transaction e buf True n s = (True, s')"
  shows "\<exists>u. rcv_bufr s' = received_into (replicate BSL_MAX_RCV_DATA_SIZE 0xFF) (uart_env.truncate e) u"
proof -
  have on_sc_buf: "rcv_bufr (snd (on_sc f t)) = rcv_bufr t" for f and t :: "'a sc_update"
    by (simp add: on_sc_def Let_def case_prod_unfold)
  have store_buf: "rcv_bufr (store_count c t) = rcv_bufr t" for c and t :: "'a sc_update"
    by (simp add: store_count_def split: option.splits)
  let ?s0 = "s\<lparr>rcv_bufr := replicate BSL_MAX_RCV_DATA_SIZE 0xFF, rcvd_byte_count := 0\<rparr>"
  obtain st c s1 where s1: "on_sc (sc_receive_set (sc_env_of e) n) ?s0 = ((st, c), s1)"
    by (metis prod.exhaust)
  obtain st2 s3 where s3: "on_sc (sc_send (sc_env_of e) buf) (store_count c s1) = (st2, s3)"
    by (metis prod.exhaust)
  have w: "wait_answer e n s3 = (True, s')"
    using assms s1 s3 by (auto simp: do_uart_transaction_def Let_def failed_send_def
        split: if_splits prod.splits)
  have "rcv_bufr s3 = replicate BSL_MAX_RCV_DATA_SIZE 0xFF"
    using on_sc_buf [of "sc_receive_set (sc_env_of e) n" ?s0] on_sc_buf [of "sc_send (sc_env_of e) buf" "store_count c s1"]
      s1 s3 by (simp add: store_buf)
  moreover obtain st4 c4 s4 where s4: "on_sc (sc_receive_wait (sc_env_of e) 2000) s3 = ((st4, c4), s4)"
    by (metis prod.exhaust)
  moreover have "rcv_bufr s4 = rcv_bufr s3"
    using on_sc_buf [of "sc_receive_wait (sc_env_of e) 2000" s3] s4 by simp
  ultimately show ?thesis
    using w by (auto simp: wait_answer_def Let_def store_buf split: if_splits)
qed

lemma answer_fits:
  assumes "short_answers e" "2 \<le> k" "k \<le> BSL_MAX_RCV_DATA_SIZE"
  shows "\<exists>b. vmc_validate_bsl_resp
           (received_into (replicate BSL_MAX_RCV_DATA_SIZE 0xFF) (uart_env.truncate e) u) k = Some b"
proof -
  let ?rx = "ue_rx e (uw u)"
  define buf where "buf = received_into (replicate BSL_MAX_RCV_DATA_SIZE 0xFF) (uart_env.truncate e) u"
  have len: "length buf = 32" by (simp add: buf_def received_into_def BSL_MAX_RCV_DATA_SIZE_def Let_def)
  have nth: "buf ! i = (if i < length ?rx then ?rx ! i else 0xFF)" if "i < 32" for i
    using that by (auto simp: buf_def received_into_def BSL_MAX_RCV_DATA_SIZE_def Let_def nth_append
        uart_env.defs)
  have "\<exists>b. vmc_validate_bsl_resp buf k = Some b"
  proof (cases "buf ! 0 = 0 \<and> buf ! 1 = BSL_MSG_HEADER")
    case True
    then have "2 \<le> length ?rx" "?rx ! 0 = 0" "?rx ! 1 = BSL_MSG_HEADER"
      using nth [of 0] nth [of 1] by (auto split: if_splits)
    then have "4 \<le> length ?rx" "?rx ! 3 = 0" "?rx ! 2 \<le> 28"
      using assms(1) unfolding short_answers_def Let_def by blast+
    then have "buf ! 3 = 0" "buf ! 2 \<le> 28" using nth [of 2] nth [of 3] by auto
    then have "unat (push_bit 8 (ucast (buf ! 3)) OR ucast (buf ! 2) :: u16) \<le> 28"
      by (simp add: word_le_nat_alt unsigned_ucast_eq take_bit_word_eq_self)
    then show ?thesis
      using True len assms(2,3) by (simp add: vmc_validate_bsl_resp_def rd_bytes_def BSL_MAX_RCV_DATA_SIZE_def)
  next
    case False
    then show ?thesis using len by (auto simp: vmc_validate_bsl_resp_def)
  qed
  then show ?thesis by (simp add: buf_def)
qed

lemma answer_checked:
  assumes "short_answers e" "do_uart_transaction e buf True n s = (True, s')" "2 \<le> k" "k \<le> BSL_MAX_RCV_DATA_SIZE"
  shows "\<exists>b. vmc_validate_bsl_resp (rcv_bufr s') k = Some b"
  using transaction_buffer [OF assms(2)] answer_fits [OF assms(1,3,4)] by metis

section \<open>The handshake\<close>

definition handshaking :: "'w sc_update \<Rightarrow> bool" where
  "handshaking s \<longleftrightarrow> update_status s = eStatus_In_Progress \<and>
     update_state s \<in> {eSc_Bsl_Sync, eSc_Enable_Bsl, eBsl_Synced, eBsl_Unlock_Password, eBsl_Mass_Erase}"

text \<open>Given up with an error of its own, or ready for the packets.\<close>

definition handshake_over :: "'w sc_update \<Rightarrow> bool" where
  "handshake_over s \<longleftrightarrow>
     (update_status s = eStatus_Failure \<and> update_state s = eSc_State_Idle \<and>
      update_error s \<in> {eSc_Update_Error_Sc_Bsl_Sync_Failed, eSc_Update_Error_En_Bsl_Failed,
        eSc_Update_Error_Vmc_Bsl_Sync_Failed, eSc_Update_Error_Bsl_Unlock_Password_Failed,
        eSc_Update_Error_Erase_Failed})
     \<or> (update_status s = eStatus_In_Progress \<and> update_state s = eBsl_Data_Tx_32)"

definition retries_ok :: "'w sc_update \<Rightarrow> bool" where
  "retries_ok s \<longleftrightarrow> mode_retry_cnt s \<le> 2 \<and> sync_retry s \<le> 4 \<and> enable_retry s \<le> 4 \<and> vmc_sync_retry s \<le> 4 \<and>
     unlock_retry s \<le> 4 \<and> erase_retry s \<le> 4 \<and>
     sync_bytes_to_rcv s \<in> {SC_BSL_SYNCED_RESP_SIZE, BSL_UNKNOWN_MSG_RESP_SIZE, BSL_SYNCED_RESP_SIZE}"

definition sync_phase :: "u32 \<Rightarrow> nat" where
  "sync_phase n = (if n = SC_BSL_SYNCED_RESP_SIZE then 2 else if n = BSL_UNKNOWN_MSG_RESP_SIZE then 1 else 0)"

text \<open>How many steps are left at most.\<close>

definition steps_left :: "'w sc_update \<Rightarrow> nat" where
  "steps_left s =
     (case update_state s of
        eSc_Bsl_Sync \<Rightarrow> 20 + 15 * sync_phase (sync_bytes_to_rcv s) + 3 * (5 - unat (sync_retry s)) - unat (mode_retry_cnt s)
      | eSc_Enable_Bsl \<Rightarrow> 15 + (5 - unat (enable_retry s))
      | eBsl_Synced \<Rightarrow> 10 + (5 - unat (vmc_sync_retry s))
      | eBsl_Unlock_Password \<Rightarrow> 5 + (5 - unat (unlock_retry s))
      | eBsl_Mass_Erase \<Rightarrow> 5 - unat (erase_retry s)
      | _ \<Rightarrow> 0)"

definition progressed :: "'w sc_update \<Rightarrow> 'w sc_update \<Rightarrow> bool" where
  "progressed s s' \<longleftrightarrow> retries_ok s' \<and> (handshake_over s' \<or> handshaking s' \<and> steps_left s' < steps_left s)"

lemma su_delay_control [simp]: "su_control (su_delay_ms e ms s) = su_control s"
  by (simp add: su_delay_ms_def su_control_def)

text \<open>All of this depends on the control fields only.\<close>

lemma control_determines:
  assumes "su_control s = su_control t"
  shows "handshaking s = handshaking t" "handshake_over s = handshake_over t"
    "retries_ok s = retries_ok t" "steps_left s = steps_left t" "progressed r s = progressed r t"
    "progressed s r = progressed t r"
proof -
  have f: "update_status s = update_status t" "update_state s = update_state t" "update_error s = update_error t"
      "mode_retry_cnt s = mode_retry_cnt t" "sync_retry s = sync_retry t"
      "sync_bytes_to_rcv s = sync_bytes_to_rcv t" "enable_retry s = enable_retry t"
      "vmc_sync_retry s = vmc_sync_retry t" "unlock_retry s = unlock_retry t" "erase_retry s = erase_retry t"
    using assms by (simp_all add: su_control_def)
  show e: "handshaking s = handshaking t" "handshake_over s = handshake_over t"
      "retries_ok s = retries_ok t" "steps_left s = steps_left t"
    by (simp_all only: handshaking_def handshake_over_def retries_ok_def steps_left_def f)
  show "progressed r s = progressed r t" "progressed s r = progressed t r"
    by (simp_all only: progressed_def e)
qed

lemma progressed_delay [simp]: "progressed s (su_delay_ms e ms s') = progressed s s'"
  by (rule control_determines) simp

text \<open>A counter below the limit counts without a wrap.\<close>

lemma retry_counts:
  fixes r :: u8
  assumes "r \<le> 4"
  shows "5 \<le> r + 1 \<longleftrightarrow> r = 4" "r \<noteq> 4 \<Longrightarrow> r + 1 \<le> 4" "unat (r + 1) = unat r + 1" "unat r \<le> 4"
proof -
  have r: "unat r \<le> 4" using assms by (simp add: word_le_nat_alt)
  then have s: "unat (r + 1) = unat r + 1" by (simp add: unat_word_ariths)
  show "unat r \<le> 4" "unat (r + 1) = unat r + 1" by (fact r, fact s)
  have four: "r = 4 \<longleftrightarrow> unat r = 4" by (simp add: word_unat_eq_iff)
  show "5 \<le> r + 1 \<longleftrightarrow> r = 4" "r \<noteq> 4 \<Longrightarrow> r + 1 \<le> 4" using r s four by (simp_all add: word_le_nat_alt)
qed

section \<open>The states one by one\<close>

lemma transaction_fields:
  assumes "do_uart_transaction e buf recv n s = (r, s')"
  shows "update_status s' = update_status s" "update_state s' = update_state s" "update_error s' = update_error s"
    "mode_retry_cnt s' = mode_retry_cnt s" "sync_retry s' = sync_retry s"
    "sync_bytes_to_rcv s' = sync_bytes_to_rcv s" "enable_retry s' = enable_retry s"
    "vmc_sync_retry s' = vmc_sync_retry s" "unlock_retry s' = unlock_retry s" "erase_retry s' = erase_retry s"
  using transaction_control [OF assms] by (simp_all add: su_control_def)

lemmas progress_defs = progressed_def handshaking_def handshake_over_def retries_ok_def steps_left_def

text \<open>A state that gives up.\<close>

lemma gave_up:
  "retries_ok t \<Longrightarrow> err \<in> {eSc_Update_Error_Sc_Bsl_Sync_Failed, eSc_Update_Error_En_Bsl_Failed,
     eSc_Update_Error_Vmc_Bsl_Sync_Failed, eSc_Update_Error_Bsl_Unlock_Password_Failed,
     eSc_Update_Error_Erase_Failed} \<Longrightarrow> progressed s (give_up err t)"
  by (simp add: progressed_def handshake_over_def retries_ok_def give_up_def)

lemma transaction_keeps:
  assumes "do_uart_transaction e buf recv n s = (r, s')"
  shows "retries_ok s' = retries_ok s" "handshaking s' = handshaking s" "steps_left s' = steps_left s"
  using control_determines [OF transaction_control [OF assms]] by auto

lemma enable_bsl_step:
  assumes "handshaking s" "retries_ok s" "update_state s = eSc_Enable_Bsl"
  shows "\<exists>s'. enable_sc_bsl e s = Some s' \<and> progressed s s'"
proof -
  obtain ok s1 where t: "do_uart_transaction e [0x5C, 2, 1, 0, 0, 1, 0, 0x5C, 3] True 0x0B s = (ok, s1)"
    by (metis prod.exhaust)
  note f = transaction_fields [OF t] and ok = assms(1,2) [folded transaction_keeps [OF t]]
  have r: "enable_retry s \<le> 4" using assms(2) by (simp add: retries_ok_def)
  have good: "progressed s (s1\<lparr>enable_retry := 0, update_state := eBsl_Synced\<rparr>)"
    using ok assms(3) retry_counts(4) [OF r] by (simp add: progress_defs f)
  have again: "progressed s (s1\<lparr>enable_retry := enable_retry s + 1\<rparr>)"
      "progressed s (s1\<lparr>enable_retry := enable_retry s + 1, update_state := eSc_Enable_Bsl\<rparr>)" if "enable_retry s \<noteq> 4"
    using ok assms(3) retry_counts [OF r] that by (simp_all add: progress_defs f)
  have over: "progressed s (give_up eSc_Update_Error_En_Bsl_Failed (s1\<lparr>enable_retry := 0\<rparr>))"
      "progressed s (give_up eSc_Update_Error_En_Bsl_Failed (s1\<lparr>update_state := eSc_Enable_Bsl, enable_retry := 0\<rparr>))"
    using ok by (auto intro!: gave_up simp: retries_ok_def)
  show ?thesis
    using good again over retry_counts(1) [OF r] unfolding enable_sc_bsl_def t Let_def prod.case
    by (cases "enable_retry s = 4") (simp_all add: f)
qed

lemma synced_step:
  assumes "handshaking s" "retries_ok s" "update_state s = eBsl_Synced"
  shows "\<exists>s'. sync_vmc_bsl e s = Some s' \<and> progressed s s'"
proof -
  obtain ok s1 where t: "do_uart_transaction e [0xFF] True (if se_platform e \<noteq> eVCK5000 then BSL_SYNCED_RESP_SIZE + BSL_UNKNOWN_MSG_RESP_SIZE
       else BSL_SYNCED_RESP_SIZE) s = (ok, s1)"
    by (metis prod.exhaust)
  note f = transaction_fields [OF t] and ok = assms(1,2) [folded transaction_keeps [OF t]]
  have r: "vmc_sync_retry s \<le> 4" using assms(2) by (simp add: retries_ok_def)
  have good: "progressed s (s1\<lparr>vmc_sync_retry := 0, update_progress := 1, update_state := eBsl_Unlock_Password\<rparr>)"
    using ok assms(3) retry_counts(4) [OF r] by (simp add: progress_defs f)
  have again: "progressed s (s1\<lparr>vmc_sync_retry := vmc_sync_retry s + 1\<rparr>)"
      "progressed s (s1\<lparr>vmc_sync_retry := vmc_sync_retry s + 1, update_state := eBsl_Synced\<rparr>)" if "vmc_sync_retry s \<noteq> 4"
    using ok assms(3) retry_counts [OF r] that by (simp_all add: progress_defs f)
  have over: "progressed s (give_up eSc_Update_Error_Vmc_Bsl_Sync_Failed (s1\<lparr>vmc_sync_retry := 0\<rparr>))"
      "progressed s (give_up eSc_Update_Error_Vmc_Bsl_Sync_Failed (s1\<lparr>update_state := eBsl_Synced, vmc_sync_retry := 0\<rparr>))"
    using ok by (auto intro!: gave_up simp: retries_ok_def)
  show ?thesis
    using good again over retry_counts(1) [OF r] unfolding sync_vmc_bsl_def t Let_def prod.case
    by (cases "vmc_sync_retry s = 4") (simp_all add: f)
qed

lemma unlock_step:
  assumes "short_answers e" "handshaking s" "retries_ok s" "update_state s = eBsl_Unlock_Password"
  shows "\<exists>s'. unlock_bsl e s = Some s' \<and> progressed s s'"
proof -
  obtain ok s1 where t: "do_uart_transaction e bsl_pwd True 8 s = (ok, s1)"
    by (metis prod.exhaust)
  note f = transaction_fields [OF t] and ok = assms(2,3) [folded transaction_keeps [OF t]]
  have r: "unlock_retry s \<le> 4" using assms(3) by (simp add: retries_ok_def)
  have good: "progressed s (s1\<lparr>unlock_retry := 0, update_state := eBsl_Mass_Erase\<rparr>)"
    using ok assms(4) retry_counts(4) [OF r] by (simp add: progress_defs f)
  have again: "progressed s (s1\<lparr>unlock_retry := unlock_retry s + 1\<rparr>)"
      "progressed s (s1\<lparr>unlock_retry := unlock_retry s + 1, update_state := eBsl_Unlock_Password\<rparr>)" if "unlock_retry s \<noteq> 4"
    using ok assms(4) retry_counts [OF r] that by (simp_all add: progress_defs f)
  have over: "progressed s (give_up eSc_Update_Error_Bsl_Unlock_Password_Failed (s1\<lparr>unlock_retry := 0\<rparr>))"
      "progressed s (give_up eSc_Update_Error_Bsl_Unlock_Password_Failed (s1\<lparr>update_state := eBsl_Unlock_Password, unlock_retry := 0\<rparr>))"
    using ok by (auto intro!: gave_up simp: retries_ok_def)
  obtain g where g: "(if ok then vmc_validate_bsl_resp (rcv_bufr s1) 8 else Some False) = Some g"
    using answer_checked [OF assms(1), of bsl_pwd 8 s s1 8] t by (cases ok) (auto simp: BSL_MAX_RCV_DATA_SIZE_def)
  show ?thesis
    using good again over retry_counts(1) [OF r] unfolding unlock_bsl_def t Let_def prod.case g
    by (cases "unlock_retry s = 4") (simp_all add: f)
qed

lemma erase_step:
  assumes "short_answers e" "handshaking s" "retries_ok s" "update_state s = eBsl_Mass_Erase"
  shows "\<exists>s'. mass_erase_bsl e s = Some s' \<and> progressed s s'"
proof -
  obtain ok s1 where t: "do_uart_transaction e [BSL_MSG_HEADER, 1, 0, 0x15, 0x64, 0xA3] True 8 s = (ok, s1)"
    by (metis prod.exhaust)
  note f = transaction_fields [OF t] and ok = assms(2,3) [folded transaction_keeps [OF t]]
  have r: "erase_retry s \<le> 4" using assms(3) by (simp add: retries_ok_def)
  have good: "progressed s (s1\<lparr>erase_retry := 0, update_state := eBsl_Data_Tx_32\<rparr>)"
    using ok assms(4) retry_counts(4) [OF r] by (simp add: progress_defs f)
  have again: "progressed s (s1\<lparr>erase_retry := erase_retry s + 1\<rparr>)"
      "progressed s (s1\<lparr>erase_retry := erase_retry s + 1, update_state := eBsl_Mass_Erase\<rparr>)" if "erase_retry s \<noteq> 4"
    using ok assms(4) retry_counts [OF r] that by (simp_all add: progress_defs f)
  have over: "progressed s (give_up eSc_Update_Error_Erase_Failed (s1\<lparr>erase_retry := 0\<rparr>))"
      "progressed s (give_up eSc_Update_Error_Erase_Failed (s1\<lparr>update_state := eBsl_Mass_Erase, erase_retry := 0\<rparr>))"
    using ok by (auto intro!: gave_up simp: retries_ok_def)
  obtain g where g: "(if ok then vmc_validate_bsl_resp (rcv_bufr s1) 8 else Some False) = Some g"
    using answer_checked [OF assms(1), of _ 8 s s1 8] t by (cases ok) (auto simp: BSL_MAX_RCV_DATA_SIZE_def)
  show ?thesis
    using good again over retry_counts(1) [OF r] unfolding mass_erase_bsl_def t Let_def prod.case g
    by (cases "erase_retry s = 4") (simp_all add: f)
qed

text \<open>The first state: an answer of the application, of the boot loader, or none.\<close>

lemma mode_counts:
  fixes k :: u8
  assumes "k \<le> 2"
  shows "k \<le> 3" "3 \<le> k + 1 \<longleftrightarrow> k = 2" "k \<noteq> 2 \<Longrightarrow> k + 1 \<le> 2" "unat (k + 1) = unat k + 1" "unat k \<le> 2"
proof -
  have k: "unat k \<le> 2" using assms by (simp add: word_le_nat_alt)
  then have s: "unat (k + 1) = unat k + 1" by (simp add: unat_word_ariths)
  show "unat k \<le> 2" "unat (k + 1) = unat k + 1" by (fact k, fact s)
  have two: "k = 2 \<longleftrightarrow> unat k = 2" by (simp add: word_unat_eq_iff)
  show "k \<le> 3" "3 \<le> k + 1 \<longleftrightarrow> k = 2" "k \<noteq> 2 \<Longrightarrow> k + 1 \<le> 2"
    using k s two by (simp_all add: word_le_nat_alt)
qed

lemma seen_progress:
  assumes "handshaking s" "retries_ok s" "update_state s = eSc_Bsl_Sync"
  shows "progressed s (sync_next_size e (bsl_seen s))"
proof -
  have m: "mode_retry_cnt s \<le> 2" and r: "sync_retry s \<le> 4" "unlock_retry s \<le> 4" using assms(2) by (auto simp: retries_ok_def)
  have n: "\<not> 5 \<le> sync_retry s" using r(1) by (simp add: word_le_nat_alt)
  show ?thesis
  proof (cases "mode_retry_cnt s = 2")
    case True
    have "progressed s (s\<lparr>mode_retry_cnt := 0, sync_retry := 0, update_state := eBsl_Unlock_Password,
        sync_bytes_to_rcv := SC_BSL_SYNCED_RESP_SIZE\<rparr>)"
      using assms mode_counts(5) [OF m] retry_counts(4) [OF r(1)] by (simp add: progress_defs)
    then show ?thesis using True by (simp add: bsl_seen_def sync_next_size_def)
  next
    case False
    have "progressed s (s\<lparr>mode_retry_cnt := mode_retry_cnt s + 1\<rparr>)"
      using assms mode_counts [OF m] retry_counts(4) [OF r(1)] False by (simp add: progress_defs)
    then show ?thesis using False mode_counts(2) [OF m] n by (simp add: bsl_seen_def sync_next_size_def)
  qed
qed

lemma application_progress:
  assumes "handshaking s" "retries_ok s" "update_state s = eSc_Bsl_Sync"
  shows "progressed s (sync_next_size e (s\<lparr>mode_retry_cnt := 0, sync_retry := 0, update_state := eSc_Enable_Bsl\<rparr>))"
proof -
  have m: "unat (mode_retry_cnt s) \<le> 2" and r: "unat (sync_retry s) \<le> 4"
    using assms(2) by (auto simp: retries_ok_def word_le_nat_alt)
  then have "progressed s (s\<lparr>mode_retry_cnt := 0, sync_retry := 0, update_state := eSc_Enable_Bsl\<rparr>)"
    using assms by (simp add: progress_defs)
  then show ?thesis by (simp add: sync_next_size_def)
qed

lemma retry_progress:
  assumes "handshaking s" "retries_ok s" "update_state s = eSc_Bsl_Sync" "k \<in> {0, mode_retry_cnt s}"
  shows "progressed s (sync_next_size e (s\<lparr>sync_retry := sync_retry s + 1, mode_retry_cnt := k\<rparr>))"
proof -
  have m: "mode_retry_cnt s \<le> 2" and r: "sync_retry s \<le> 4" using assms(2) by (auto simp: retries_ok_def)
  have k: "k \<le> 2" using assms(4) m by auto
  note c = retry_counts [OF r] mode_counts(5) [OF m] mode_counts(5) [OF k]
  show ?thesis
  proof (cases "sync_retry s = 4")
    case False
    then have "progressed s (s\<lparr>sync_retry := sync_retry s + 1, mode_retry_cnt := k\<rparr>)"
      using assms(1-3) c k by (simp add: progress_defs)
    then show ?thesis using False c(1) by (simp add: sync_next_size_def)
  next
    case r4: True
    show ?thesis
    proof (cases "sync_bytes_to_rcv s = BSL_SYNCED_RESP_SIZE")
      case True
      have "retries_ok (s\<lparr>sync_retry := 0, mode_retry_cnt := 0, sync_bytes_to_rcv := SC_BSL_SYNCED_RESP_SIZE\<rparr>)"
        using assms(2) by (simp add: retries_ok_def)
      then have "progressed s (give_up eSc_Update_Error_Sc_Bsl_Sync_Failed
          (s\<lparr>sync_retry := 0, mode_retry_cnt := 0, sync_bytes_to_rcv := SC_BSL_SYNCED_RESP_SIZE\<rparr>))"
        by (rule gave_up) simp
      then show ?thesis using True r4 by (simp add: sync_next_size_def)
    next
      case False
      then have "sync_bytes_to_rcv s = SC_BSL_SYNCED_RESP_SIZE \<or> sync_bytes_to_rcv s = BSL_UNKNOWN_MSG_RESP_SIZE"
        using assms(2) by (auto simp: retries_ok_def)
      then show ?thesis
      proof
        assume b: "sync_bytes_to_rcv s = SC_BSL_SYNCED_RESP_SIZE"
        have "progressed s (s\<lparr>sync_bytes_to_rcv := BSL_UNKNOWN_MSG_RESP_SIZE, sync_retry := 0, mode_retry_cnt := 0\<rparr>)"
          using assms(1-3) b c by (simp add: progress_defs sync_phase_def)
        then show ?thesis using b r4 by (simp add: sync_next_size_def)
      next
        assume b: "sync_bytes_to_rcv s = BSL_UNKNOWN_MSG_RESP_SIZE"
        have "progressed s (s\<lparr>sync_bytes_to_rcv := BSL_SYNCED_RESP_SIZE, sync_retry := 0, mode_retry_cnt := 0\<rparr>)"
          using assms(1-3) b c by (simp add: progress_defs sync_phase_def)
        then show ?thesis using b r4 by (simp add: sync_next_size_def)
      qed
    qed
  qed
qed

lemma progressed_from:
  "su_control s = su_control t \<Longrightarrow> progressed t s' \<Longrightarrow> progressed s s'"
  using control_determines(6) by blast

lemma sync_step:
  assumes "short_answers e" "handshaking s" "retries_ok s" "update_state s = eSc_Bsl_Sync"
  shows "\<exists>s'. sync_sc_bsl e s = Some s' \<and> progressed s s'"
proof -
  let ?n = "sync_bytes_to_rcv s"
  obtain ok s1 where t: "do_uart_transaction e [0xFF] True ?n s = (ok, s1)" by (metis prod.exhaust)
  note f = transaction_fields [OF t] and h = assms(2,3) [folded transaction_keeps [OF t]]
  have st: "update_state s1 = eSc_Bsl_Sync" using f assms(4) by simp
  have id: "sync_retry_step s1 = s1\<lparr>sync_retry := sync_retry s1 + 1, mode_retry_cnt := 0\<rparr>"
    unfolding sync_retry_step_def using st by (intro sc_update.equality) simp_all
  have retry: "progressed s1 (sync_next_size e (sync_retry_step s1))"
      "progressed s1 (sync_next_size e (s1\<lparr>sync_retry := sync_retry s1 + 1\<rparr>))"
    using retry_progress [OF h st, of 0] retry_progress [OF h st, of "mode_retry_cnt s1"] id by simp_all
  note app = application_progress [OF h st] and seen = seen_progress [OF h st]
  have "\<exists>s2. (if ok then sync_answer s1 else Some (s1\<lparr>sync_retry := sync_retry s1 + 1\<rparr>)) = Some s2 \<and>
      progressed s1 (sync_next_size e s2)"
  proof (cases ok)
    case True
    obtain b where "vmc_validate_bsl_resp (rcv_bufr s1) 8 = Some b"
      using answer_checked [OF assms(1), of _ ?n s s1 8] t True by (auto simp: BSL_MAX_RCV_DATA_SIZE_def)
    then have "\<exists>u. (if sync_bytes_to_rcv s1 = BSL_UNKNOWN_MSG_RESP_SIZE
        then vmc_validate_bsl_resp (rcv_bufr s1) (unat (sync_bytes_to_rcv s1)) else Some False) = Some u" by auto
    then show ?thesis using True retry(1) app seen by (auto simp: sync_answer_def Let_def)
  qed (use retry(2) in auto)
  then show ?thesis
    using progressed_from [OF transaction_control [OF t, symmetric]] by (auto simp: sync_sc_bsl_def t)
qed

section \<open>The whole handshake\<close>

fun run_steps :: "nat \<Rightarrow> 'w su_env \<Rightarrow> 'w sc_update \<Rightarrow> 'w sc_update option" where
  "run_steps 0 e s = Some s"
| "run_steps (Suc k) e s = do { s' \<leftarrow> update_step (update_state s) e s; run_steps k e s' }"

lemma handshake_step:
  assumes "short_answers e" "handshaking s" "retries_ok s"
  shows "\<exists>s'. update_step (update_state s) e s = Some s' \<and> progressed s s'"
proof -
  have "update_state s \<in> {eSc_Bsl_Sync, eSc_Enable_Bsl, eBsl_Synced, eBsl_Unlock_Password, eBsl_Mass_Erase}"
    using assms(2) by (simp add: handshaking_def)
  then show ?thesis
    using assms sync_step [OF assms(1)] enable_bsl_step synced_step unlock_step erase_step by auto
qed

lemma steps_left_bound: "retries_ok s \<Longrightarrow> steps_left s \<le> 65"
  by (auto simp: steps_left_def sync_phase_def split: sc_update_state.split)

lemma handshake_runs:
  assumes "short_answers e" "handshaking s" "retries_ok s"
  shows "\<exists>k s'. k \<le> steps_left s \<and> run_steps k e s = Some s' \<and> handshake_over s' \<and> retries_ok s' \<and>
           update_loop e s = update_loop e s'"
  using assms(2,3)
proof (induction "steps_left s" arbitrary: s rule: less_induct)
  case less
  obtain s1 where s1: "update_step (update_state s) e s = Some s1" "progressed s s1"
    using handshake_step [OF assms(1) less.prems] by blast
  have loop: "update_loop e s = update_loop e s1"
    using s1(1) less.prems(1) by (subst update_loop.simps) (simp add: handshaking_def)
  show ?case
  proof (cases "handshake_over s1")
    case True
    have "0 < steps_left s"
      using less.prems by (auto simp: handshaking_def retries_ok_def steps_left_def word_le_nat_alt)
    then show ?thesis
      using True s1 loop by (intro exI [of _ 1] exI [of _ s1]) (simp add: progressed_def)
  next
    case False
    then have p: "handshaking s1" "retries_ok s1" "steps_left s1 < steps_left s"
      using s1(2) by (simp_all add: progressed_def)
    obtain k s' where "k \<le> steps_left s1" "run_steps k e s1 = Some s'" "handshake_over s'" "retries_ok s'"
        "update_loop e s1 = update_loop e s'"
      using less.hyps [OF p(3) p(1,2)] by blast
    then show ?thesis
      using s1(1) p(3) loop by (intro exI [of _ "Suc k"] exI [of _ s']) simp
  qed
qed


section \<open>A simulated controller\<close>

definition sim_update_env :: "bytes \<Rightarrow> mem \<Rightarrow> u32 list su_env" where
  "sim_update_env rx m =
     sc_env.extend (sim_uart_env rx) \<lparr>sue_mem = \<lambda>w. m, sue_fpt_query = \<lambda>w. ((0, 0x1000), w)\<rparr>"

definition sim_update :: "u32 list sc_update" where
  "sim_update = \<lparr>update_status = eStatus_Success, update_state = eSc_State_Idle, update_error = 0,
     fpt_sc_start = 0, fpt_sc_size = 0x1000, fpt_sc_version = [1, 2, 3],
     bsl_send_data_pkt = replicate BSL_MAX_DATA_SIZE 0, data_ptr = 0, addr_flag = False, data_crc = 0,
     prev_length = 0, total_length = 0, all_pkt_sent = False, fpt_sc_valid = True, parsed_sc_flash_addr = 0,
     update_progress = 0, curr_prog = 0, max_data_slot = 0, rcv_bufr = replicate BSL_MAX_RCV_DATA_SIZE 0,
     rcvd_byte_count = 0, mode_retry_cnt = 0, sync_retry = 0, sync_bytes_to_rcv = 11, enable_retry = 0,
     vmc_sync_retry = 0, unlock_retry = 0, erase_retry = 0, su_sc = sim_sc\<rparr>"


end
