(* ===== verification/Vmc_Update_Sc_Props.thy ===== *)
theory Vmc_Update_Sc_Props
  imports Vmc_Sc_Handshake
begin

text \<open>The image and the packets of the update in \<open>Vmc_Update_Sc\<close>: for every image in the documented
  format the parser makes the packets that program its sections.  The characters are read one after
  the other; \<open>took\<close> says how many, \<open>data_from\<close> and \<open>addr_from\<close> are the two loops of the parser
  before their first character.\<close>

section \<open>The text of a section\<close>

definition hex_upper :: "u8 \<Rightarrow> u8" where "hex_upper n = (if n < 10 then n + 48 else n + 55)"
definition hex_lower :: "u8 \<Rightarrow> u8" where "hex_lower n = (if n < 10 then n + 48 else n + 87)"

text \<open>Bytes in capital letters, each followed by spaces and newlines as the writer likes.\<close>

definition item_text :: "u8 \<times> bytes \<Rightarrow> bytes" where
  "item_text it = [hex_upper (drop_bit 4 (fst it)), hex_upper (fst it AND 0x0F)] @ snd it"

definition data_text :: "(u8 \<times> bytes) list \<Rightarrow> bytes" where
  "data_text its = concat (map item_text its)"

definition separated :: "(u8 \<times> bytes) list \<Rightarrow> bool" where
  "separated its \<longleftrightarrow> (\<forall>it \<in> set its. set (snd it) \<subseteq> {SPACE, NEW_LINE})"

definition digits_value :: "u8 list \<Rightarrow> u32" where
  "digits_value ds = foldl (\<lambda>a d. push_bit 4 a OR ucast d) 0 ds"

text \<open>A packet of the boot loader: header, length, command, address, data, checksum.\<close>

definition bsl_packet :: "u32 \<Rightarrow> bytes \<Rightarrow> bytes" where
  "bsl_packet addr data =
     (let body = [0x20, ucast addr, ucast (drop_bit 8 addr), ucast (drop_bit 16 addr), ucast (drop_bit 24 addr)] @ data;
          c = crc16 body
      in [BSL_MSG_HEADER, of_nat (length body), of_nat (length body div 256)] @ body
         @ [ucast c, ucast (drop_bit 8 c)])"

definition holds_text :: "mem \<Rightarrow> u32 \<Rightarrow> bytes \<Rightarrow> bool" where
  "holds_text m a bs \<longleftrightarrow> (\<forall>i < length bs. m (a + of_nat i) = bs ! i)"

lemma holds_text_Nil [simp]: "holds_text m a []"
  by (simp add: holds_text_def)

lemma holds_text_Cons [simp]: "holds_text m a (b # bs) \<longleftrightarrow> m a = b \<and> holds_text m (a + 1) bs"
proof
  assume h: "holds_text m a (b # bs)"
  have "m (a + 1 + of_nat i) = bs ! i" if "i < length bs" for i
    using h that unfolding holds_text_def by (auto dest!: spec [of _ "Suc i"] simp: add.assoc)
  moreover have "m a = b" using h unfolding holds_text_def by (auto dest!: spec [of _ 0])
  ultimately show "m a = b \<and> holds_text m (a + 1) bs" unfolding holds_text_def by blast
next
  assume h: "m a = b \<and> holds_text m (a + 1) bs"
  have "m (a + of_nat i) = (b # bs) ! i" if "i < length (b # bs)" for i
    using h that unfolding holds_text_def by (cases i) (auto simp: add.assoc)
  then show "holds_text m a (b # bs)" unfolding holds_text_def by blast
qed

lemma holds_text_append [simp]:
  "holds_text m a (xs @ ys) \<longleftrightarrow> holds_text m a xs \<and> holds_text m (a + of_nat (length xs)) ys"
  by (induction xs arbitrary: a) (auto simp: add.assoc add.commute [of 1])

text \<open>The characters of the two alphabets: none of them is a separator or ends the data.\<close>

lemma nibble_cases:
  assumes "n < 16"
  shows "n \<in> {0, 1, 2, 3, 4, 5, 6, 7, 8, 9, 10, 11, 12, 13, 14, 15 :: u8}"
proof -
  obtain k where n: "n = word_of_nat k" and k: "k < 16"
  proof
    show "n = word_of_nat (unat n)" by simp
    show "unat n < 16" using assms by (simp add: word_less_nat_alt)
  qed
  have "k \<in> {0, 1, 2, 3, 4, 5, 6, 7, 8, 9, 10, 11, 12, 13, 14, 15}" using k by simp presburger
  then show ?thesis unfolding n by auto
qed

lemma hex_upper_char:
  assumes "n < 16"
  shows "hex_upper n \<notin> {SECTION_START, FILE_TERMINATION_CHAR, NEW_LINE, SPACE}"
    and "char_to_hex (hex_upper n) = n" and "n AND 0x0F = n"
  using nibble_cases [OF assms] by (auto simp: hex_upper_def char_to_hex_def)

lemma hex_lower_char:
  assumes "n < 16"
  shows "hex_lower n \<notin> {SECTION_START, FILE_TERMINATION_CHAR, NEW_LINE}"
    and "char_to_hex_addr (hex_lower n) = n"
  using nibble_cases [OF assms] by (auto simp: hex_lower_def char_to_hex_addr_def)

lemma byte_nibbles: "push_bit 4 (drop_bit 4 b AND 0x0F) OR (b AND 0x0F) = (b :: u8)"
proof -
  have m: "(0x0F :: u8) = mask 4" by (simp add: mask_eq_exp_minus_1)
  show ?thesis unfolding m by (rule bit_word_eqI) (auto simp: bit_simps)
qed

lemma nibble_bounds: "drop_bit 4 b < (16 :: u8)" "b AND 0x0F < (16 :: u8)"
proof -
  have "unat b < 2 ^ 8" using unsigned_less [of b] by simp
  then show "drop_bit 4 b < (16 :: u8)"
    by (simp add: word_less_nat_alt drop_bit_eq_div unat_div div_less_iff_less_mult)
  have m: "(0x0F :: u8) = mask 4" by (simp add: mask_eq_exp_minus_1)
  have "take_bit 4 (unat b) < 2 ^ 4" by (rule take_bit_nat_less_exp)
  then show "b AND 0x0F < (16 :: u8)"
    unfolding m by (simp add: word_less_nat_alt take_bit_eq_mask [symmetric] unsigned_take_bit_eq)
qed

section \<open>Reading characters\<close>

definition advance :: "'w sc_update \<Rightarrow> 'w sc_update" where
  "advance s = tick (s\<lparr>data_ptr := data_ptr s + 1\<rparr>)"

lemma next_char_advance: "next_char m loc s = (m (loc + data_ptr s), advance s)"
  by (simp add: next_char_def read_char_def advance_def IO_SYNC_READ8_def)

lemma advance_simps [simp]:
  "bsl_send_data_pkt (advance s) = bsl_send_data_pkt s" "data_ptr (advance s) = data_ptr s + 1"
  "addr_flag (advance s) = addr_flag s" "all_pkt_sent (advance s) = all_pkt_sent s"
  "parsed_sc_flash_addr (advance s) = parsed_sc_flash_addr s" "prev_length (advance s) = prev_length s"
  by (simp_all add: advance_def tick_def Let_def)

definition data_from :: "mem \<Rightarrow> u32 \<Rightarrow> nat \<Rightarrow> 'w sc_update \<Rightarrow> ((u8 \<times> nat) \<times> 'w sc_update) option" where
  "data_from m loc n s = data_loop m loc (m (loc + data_ptr s)) n (advance s)"

definition addr_from :: "mem \<Rightarrow> u32 \<Rightarrow> 'w sc_update \<Rightarrow> 'w sc_update option" where
  "addr_from m loc s = addr_loop m loc (m (loc + data_ptr s)) (advance s)"

lemma data_from_stop:
  "m (loc + data_ptr s) = t \<Longrightarrow> t = SECTION_START \<or> t = FILE_TERMINATION_CHAR \<or> 264 \<le> n \<Longrightarrow>
   data_from m loc n s = Some ((t, n), advance s)"
  unfolding data_from_def by (subst data_loop.simps) (auto simp: BSL_MAX_DATA_SIZE_def)

lemma data_from_sep:
  "m (loc + data_ptr s) \<in> {SPACE, NEW_LINE} \<Longrightarrow> n < 264 \<Longrightarrow>
   data_from m loc n s = data_from m loc n (advance s)"
  unfolding data_from_def
  by (subst data_loop.simps) (auto simp: BSL_MAX_DATA_SIZE_def next_char_advance)

lemma data_from_byte:
  assumes "m (loc + data_ptr s) = hex_upper (drop_bit 4 b)" "m (loc + data_ptr s + 1) = hex_upper (b AND 0x0F)"
    and n: "n < 264"
  shows "data_from m loc n s = data_from m loc (n + 1) (put_data n b (advance (advance s)))"
  unfolding data_from_def
  by (subst data_loop.simps)
    (use assms hex_upper_char [OF nibble_bounds(1) [of b]] hex_upper_char [OF nibble_bounds(2) [of b]]
         byte_nibbles [of b] in \<open>auto simp: BSL_MAX_DATA_SIZE_def next_char_advance put_data_def add.assoc\<close>)

text \<open>\<open>took k s s'\<close>: \<open>k\<close> characters are consumed and nothing but the packet and the progress changes.\<close>

definition took :: "nat \<Rightarrow> 'w sc_update \<Rightarrow> 'w sc_update \<Rightarrow> bool" where
  "took k s s' \<longleftrightarrow> data_ptr s' = data_ptr s + of_nat k \<and> addr_flag s' = addr_flag s \<and>
     all_pkt_sent s' = all_pkt_sent s \<and> parsed_sc_flash_addr s' = parsed_sc_flash_addr s \<and>
     prev_length s' = prev_length s"

lemma tookI:
  "data_ptr s' = data_ptr s + of_nat k \<Longrightarrow> addr_flag s' = addr_flag s \<Longrightarrow> all_pkt_sent s' = all_pkt_sent s \<Longrightarrow>
   parsed_sc_flash_addr s' = parsed_sc_flash_addr s \<Longrightarrow> prev_length s' = prev_length s \<Longrightarrow> took k s s'"
  by (simp add: took_def)

lemma took_trans: "took j s t \<Longrightarrow> took k t u \<Longrightarrow> took (j + k) s u"
  by (simp add: took_def add.assoc)

lemma took_refl [simp]: "took 0 s s" by (simp add: took_def)
lemma took_advance [simp]: "took (Suc 0) s (advance s)" by (simp add: took_def)

lemma took_put_data [simp]: "took k s (put_data n b t) \<longleftrightarrow> took k s t"
  by (simp add: took_def put_data_def)

lemma took_two: "took 2 s (advance (advance s))"
  by (simp add: took_def add.assoc)

lemma put_data_pkt [simp]: "bsl_send_data_pkt (put_data n b s) = (bsl_send_data_pkt s)[n := b]"
  by (simp add: put_data_def)

lemma data_from_seps:
  assumes "set seps \<subseteq> {SPACE, NEW_LINE}" "holds_text m (loc + data_ptr s) seps" "n < 264"
  shows "\<exists>s'. data_from m loc n s = data_from m loc n s' \<and> took (length seps) s s' \<and>
           bsl_send_data_pkt s' = bsl_send_data_pkt s"
  using assms
proof (induction seps arbitrary: s)
  case (Cons c seps)
  have "holds_text m (loc + data_ptr (advance s)) seps" using Cons.prems(2) by (simp add: add.assoc)
  then obtain s' where "data_from m loc n (advance s) = data_from m loc n s'"
      "took (length seps) (advance s) s'" "bsl_send_data_pkt s' = bsl_send_data_pkt (advance s)"
    using Cons.IH [of "advance s"] Cons.prems by auto
  moreover have "data_from m loc n s = data_from m loc n (advance s)"
    using Cons.prems by (intro data_from_sep) auto
  ultimately show ?case using took_trans [OF took_advance] by auto
qed auto

lemma data_from_item:
  assumes "set (snd it) \<subseteq> {SPACE, NEW_LINE}" "holds_text m (loc + data_ptr s) (item_text it)" "n + 1 < 264"
  shows "\<exists>s'. data_from m loc n s = data_from m loc (n + 1) s' \<and> took (length (item_text it)) s s' \<and>
           bsl_send_data_pkt s' = (bsl_send_data_pkt s)[n := fst it]"
proof -
  let ?t = "put_data n (fst it) (advance (advance s))"
  have b: "data_from m loc n s = data_from m loc (n + 1) ?t"
    using assms(2,3) by (intro data_from_byte) (auto simp: item_text_def)
  have t: "took 2 s ?t" using took_two by simp
  have "holds_text m (loc + data_ptr ?t) (snd it)"
    using assms(2) t by (simp add: item_text_def took_def add.assoc)
  then obtain s' where "data_from m loc (n + 1) ?t = data_from m loc (n + 1) s'"
      "took (length (snd it)) ?t s'" "bsl_send_data_pkt s' = bsl_send_data_pkt ?t"
    using data_from_seps [OF assms(1) _ assms(3)] by blast
  then show ?thesis using b took_trans [OF t] by (auto simp: item_text_def)
qed

lemma data_from_items:
  assumes "separated its" "holds_text m (loc + data_ptr s) (data_text its)" "n + length its < 264"
    and "length (bsl_send_data_pkt s) = BSL_MAX_DATA_SIZE"
  shows "\<exists>s'. data_from m loc n s = data_from m loc (n + length its) s' \<and>
           took (length (data_text its)) s s' \<and>
           bsl_send_data_pkt s' =
             take n (bsl_send_data_pkt s) @ map fst its @ drop (n + length its) (bsl_send_data_pkt s)"
  using assms
proof (induction its arbitrary: n s)
  case Nil
  then show ?case by (intro exI [of _ s]) (simp add: data_text_def)
next
  case (Cons it its)
  let ?p = "bsl_send_data_pkt s"
  have len: "length ?p = 266" using Cons.prems(4) by (simp add: BSL_MAX_DATA_SIZE_def)
  obtain t where t: "data_from m loc n s = data_from m loc (n + 1) t" "took (length (item_text it)) s t"
      "bsl_send_data_pkt t = ?p[n := fst it]"
    using data_from_item [of it m loc s n] Cons.prems by (auto simp: separated_def data_text_def)
  have "holds_text m (loc + data_ptr t) (data_text its)"
    using Cons.prems(2) t(2) by (simp add: data_text_def took_def add.assoc)
  then obtain s' where s': "data_from m loc (n + 1) t = data_from m loc (n + 1 + length its) s'"
      "took (length (data_text its)) t s'"
      "bsl_send_data_pkt s' = take (n + 1) (bsl_send_data_pkt t) @ map fst its
         @ drop (n + 1 + length its) (bsl_send_data_pkt t)"
    using Cons.IH [of t "n + 1"] Cons.prems t(3) by (auto simp: separated_def)
  have "take (n + 1) (?p[n := fst it]) = take n ?p @ [fst it]"
    using len Cons.prems(3) by (simp add: take_Suc_conv_app_nth)
  then have "bsl_send_data_pkt s' = take n ?p @ map fst (it # its) @ drop (n + length (it # its)) ?p"
    using s'(3) t(3) by simp
  then show ?case
    using t(1) s'(1) took_trans [OF t(2) s'(2)] by (intro exI [of _ s']) (simp add: data_text_def)
qed

text \<open>The data of a packet ends at the next section, at the end of the file, or when it is full.\<close>

lemma data_part_ends:
  assumes "separated its" "holds_text m (loc + data_ptr s) (data_text its @ [t])" "length its < 256"
    and "length (bsl_send_data_pkt s) = BSL_MAX_DATA_SIZE" "t \<in> {SECTION_START, FILE_TERMINATION_CHAR}"
  shows "\<exists>s'. data_from m loc 8 s = Some ((t, 8 + length its), s') \<and> took (length (data_text its @ [t])) s s' \<and>
           bsl_send_data_pkt s' =
             take 8 (bsl_send_data_pkt s) @ map fst its @ drop (8 + length its) (bsl_send_data_pkt s)"
proof -
  obtain u where u: "data_from m loc 8 s = data_from m loc (8 + length its) u"
      "took (length (data_text its)) s u"
      "bsl_send_data_pkt u =
         take 8 (bsl_send_data_pkt s) @ map fst its @ drop (8 + length its) (bsl_send_data_pkt s)"
    using data_from_items [of its m loc s 8] assms by auto
  have "data_from m loc (8 + length its) u = Some ((t, 8 + length its), advance u)"
    using assms(2,5) u(2) by (intro data_from_stop) (auto simp: took_def add.assoc)
  then show ?thesis using u took_trans [OF u(2) took_advance] by (intro exI [of _ "advance u"]) simp
qed

lemma data_part_full:
  assumes "separated its" "length its = 255" "length (bsl_send_data_pkt s) = BSL_MAX_DATA_SIZE"
    and h: "holds_text m (loc + data_ptr s) (data_text its @ item_text (b, [c]))"
  shows "\<exists>s'. data_from m loc 8 s = Some ((c, 264), s') \<and>
           took (length (data_text its @ item_text (b, [c]))) s s' \<and>
           bsl_send_data_pkt s' = take 8 (bsl_send_data_pkt s) @ map fst its @ [b] @ drop 264 (bsl_send_data_pkt s)"
proof -
  let ?p = "bsl_send_data_pkt s"
  obtain u where u: "data_from m loc 8 s = data_from m loc 263 u" "took (length (data_text its)) s u"
      "bsl_send_data_pkt u = take 8 ?p @ map fst its @ drop 263 ?p"
    using data_from_items [of its m loc s 8] assms by auto
  let ?v = "put_data 263 b (advance (advance u))"
  have v: "data_from m loc 263 u = data_from m loc 264 ?v"
    using h u(2) data_from_byte [of m loc u b 263] by (auto simp: item_text_def took_def add.assoc)
  have v': "took 2 u ?v" using took_two by simp
  have "data_from m loc 264 ?v = Some ((c, 264), advance ?v)"
    using h u(2) v' by (intro data_from_stop) (auto simp: item_text_def took_def add.assoc)
  moreover have "bsl_send_data_pkt (advance ?v) = take 8 ?p @ map fst its @ [b] @ drop 264 ?p"
    using assms(2,3) u(3) by (simp add: BSL_MAX_DATA_SIZE_def list_update_append Cons_nth_drop_Suc [symmetric])
  ultimately show ?thesis
    using u(1) v took_trans [OF u(2) took_trans [OF v' took_advance]]
    by (intro exI [of _ "advance ?v"]) (simp add: item_text_def numeral_3_eq_3)
qed

section \<open>The address of a packet\<close>

lemma shift_addr_simps [simp]:
  "bsl_send_data_pkt (shift_addr c s) = bsl_send_data_pkt s" "data_ptr (shift_addr c s) = data_ptr s"
  "addr_flag (shift_addr c s) = addr_flag s" "all_pkt_sent (shift_addr c s) = all_pkt_sent s"
  "prev_length (shift_addr c s) = prev_length s"
  by (simp_all add: shift_addr_def)

lemma shift_addr_digit:
  "d < 16 \<Longrightarrow> parsed_sc_flash_addr (shift_addr (hex_lower d) s) =
     push_bit 4 (parsed_sc_flash_addr s) OR ucast d"
  by (simp add: shift_addr_def hex_lower_char hex_upper_char)

text \<open>The digits up to the newline.\<close>

lemma addr_from_digits:
  assumes "\<forall>d \<in> set ds. d < 16" "holds_text m (loc + data_ptr s) (map hex_lower ds @ [NEW_LINE])"
  shows "\<exists>s'. addr_from m loc s = Some s' \<and> data_ptr s' = data_ptr s + of_nat (length ds + 1) \<and>
           addr_flag s' = addr_flag s \<and> all_pkt_sent s' = all_pkt_sent s \<and> prev_length s' = prev_length s \<and>
           bsl_send_data_pkt s' = bsl_send_data_pkt s \<and>
           parsed_sc_flash_addr s' = foldl (\<lambda>a d. push_bit 4 a OR ucast d) (parsed_sc_flash_addr s) ds"
  using assms
proof (induction ds arbitrary: s)
  case Nil
  have "addr_from m loc s = Some (advance s)"
    using Nil unfolding addr_from_def by (subst addr_loop.simps) simp
  then show ?case by simp
next
  case (Cons d ds)
  let ?t = "shift_addr (hex_lower d) (advance s)"
  have "addr_from m loc s = addr_from m loc ?t"
    using Cons.prems hex_lower_char(1) [of d] unfolding addr_from_def
    by (subst addr_loop.simps) (auto simp: next_char_advance)
  moreover have "holds_text m (loc + data_ptr ?t) (map hex_lower ds @ [NEW_LINE])"
    using Cons.prems(2) by (simp add: add.assoc)
  ultimately show ?case
    using Cons.IH [of ?t] Cons.prems(1) by (auto simp: shift_addr_digit add.assoc)
qed

lemma advance_commute:
  "(advance s)\<lparr>addr_flag := False, parsed_sc_flash_addr := 0\<rparr> =
     advance (s\<lparr>addr_flag := False, parsed_sc_flash_addr := 0\<rparr>)"
  by (simp add: advance_def tick_def Let_def)

lemma address_state_section:
  "m (loc + data_ptr s) = SECTION_START \<Longrightarrow>
   address_state m loc s = address_state m loc ((advance s)\<lparr>addr_flag := True\<rparr>)"
  by (subst address_state.simps) (simp add: next_char_advance)

lemma address_state_line:
  assumes ds: "\<forall>d \<in> set ds. d < 16" "ds \<noteq> []" and flag: "addr_flag s"
    and h: "holds_text m (loc + data_ptr s) (map hex_lower ds @ [NEW_LINE])"
  shows "\<exists>s'. address_state m loc s = Some (True, put_addr s') \<and>
           data_ptr s' = data_ptr s + of_nat (length ds + 1) \<and> \<not> addr_flag s' \<and>
           all_pkt_sent s' = all_pkt_sent s \<and> bsl_send_data_pkt s' = bsl_send_data_pkt s \<and>
           parsed_sc_flash_addr s' = digits_value ds"
proof -
  obtain d ds' where d: "ds = d # ds'" "d < 16" using ds by (cases ds) auto
  let ?t = "s\<lparr>addr_flag := False, parsed_sc_flash_addr := 0\<rparr>"
  obtain s' where s': "addr_from m loc ?t = Some s'" "data_ptr s' = data_ptr s + of_nat (length ds + 1)"
      "\<not> addr_flag s'" "all_pkt_sent s' = all_pkt_sent s" "bsl_send_data_pkt s' = bsl_send_data_pkt s"
      "parsed_sc_flash_addr s' = digits_value ds"
    using addr_from_digits [OF ds(1), of m loc ?t] h by (auto simp: digits_value_def)
  have "address_state m loc s = Some (True, put_addr s')"
    using s'(1) flag h d hex_lower_char(1) [OF d(2)]
    by (subst address_state.simps) (auto simp: next_char_advance advance_commute addr_from_def)
  then show ?thesis using s' by blast
qed

text \<open>A section may begin with its mark or behind it.\<close>

lemma address_state_begin:
  assumes ds: "\<forall>d \<in> set ds. d < 16" "ds \<noteq> []"
    and mark: "mark = [SECTION_START] \<or> (mark = [] \<and> addr_flag s)"
    and h: "holds_text m (loc + data_ptr s) (mark @ map hex_lower ds @ [NEW_LINE])"
  shows "\<exists>s'. address_state m loc s = Some (True, put_addr s') \<and>
           data_ptr s' = data_ptr s + of_nat (length mark + length ds + 1) \<and> \<not> addr_flag s' \<and>
           all_pkt_sent s' = all_pkt_sent s \<and> bsl_send_data_pkt s' = bsl_send_data_pkt s \<and>
           parsed_sc_flash_addr s' = digits_value ds"
proof (cases "mark = []")
  case True
  then show ?thesis using address_state_line [OF ds, of s m loc] mark h by auto
next
  case False
  let ?t = "(advance s)\<lparr>addr_flag := True\<rparr>"
  have "address_state m loc s = address_state m loc ?t"
    using False mark h by (intro address_state_section) auto
  then show ?thesis
    using address_state_line [OF ds, of ?t m loc] False mark h by (auto simp: add.assoc)
qed

text \<open>A packet that continues a section swallows one character.\<close>

lemma address_state_continue:
  assumes "\<not> addr_flag s" "m (loc + data_ptr s) \<notin> {SECTION_START, FILE_TERMINATION_CHAR}"
  shows "address_state m loc s = Some (True, put_addr ((advance s)\<lparr>parsed_sc_flash_addr :=
           parsed_sc_flash_addr s + prev_length s\<rparr>))"
  using assms by (subst address_state.simps) (auto simp: next_char_advance)

section \<open>One packet\<close>

definition addr_bytes :: "u32 \<Rightarrow> bytes" where
  "addr_bytes a = [ucast a, ucast (drop_bit 8 a), ucast (drop_bit 16 a), ucast (drop_bit 24 a)]"

lemma length_addr_bytes [simp]: "length (addr_bytes a) = 4" by (simp add: addr_bytes_def)

definition packet_made :: "u32 \<Rightarrow> bytes \<Rightarrow> 'w sc_update \<Rightarrow> bool" where
  "packet_made a d s \<longleftrightarrow> take (unat (total_length s)) (bsl_send_data_pkt s) = bsl_packet a d \<and>
     data_crc s = crc16 d \<and> prev_length s = of_nat (length d) \<and> parsed_sc_flash_addr s = a"

lemma finish_packet_keeps [simp]:
  "data_ptr (finish_packet n s) = data_ptr s" "addr_flag (finish_packet n s) = addr_flag s"
  "all_pkt_sent (finish_packet n s) = all_pkt_sent s"
  "parsed_sc_flash_addr (finish_packet n s) = parsed_sc_flash_addr s"
  by (simp_all add: finish_packet_def Let_def)

lemma set_head: "([a, b, c, d] @ t)[0 := p, 1 := q, 2 := r, 3 := v] = [p, q, r, v] @ t"
  by (simp add: numeral_eq_Suc)

lemma packet_body: "take (5 + length d) (drop 3 ([p, q, r, v] @ addr_bytes a @ d @ z)) = v # addr_bytes a @ d"
  by (simp add: addr_bytes_def take_Cons')

lemma packet_data: "take (length d) (drop 8 ([p, q, r, v] @ addr_bytes a @ d @ z)) = d"
  by (simp add: addr_bytes_def)

lemma packet_whole:
  "take (10 + length d) ([p, q, r, v] @ addr_bytes a @ d @ x # y # z) = [p, q, r, v] @ addr_bytes a @ d @ [x, y]"
  by (simp add: addr_bytes_def take_Cons')

lemma packet_tail:
  "([p, q, r, v] @ addr_bytes a @ d @ x # y # z)[8 + length d := c0, 8 + length d + 1 := c1] =
   [p, q, r, v] @ addr_bytes a @ d @ c0 # c1 # z"
  by (simp add: list_update_append addr_bytes_def)

lemma finish_packet_made:
  assumes p: "bsl_send_data_pkt s = h @ addr_bytes (parsed_sc_flash_addr s) @ d @ r"
    and len: "length h = 4" "length d \<le> 256" "2 \<le> length r"
  shows "packet_made (parsed_sc_flash_addr s) d (finish_packet (8 + length d) s)"
proof -
  obtain x y r' where r: "r = x # y # r'" using len(3) by (cases r; cases "tl r") auto
  obtain h0 h1 h2 h3 where h: "h = [h0, h1, h2, h3]"
    using len(1) by (auto simp: length_Suc_conv numeral_eq_Suc)
  let ?a = "parsed_sc_flash_addr s" and ?k = "5 + length d"
  let ?head = "[BSL_MSG_HEADER, of_nat ?k, of_nat (?k div 256), 0x20]"
  let ?q = "?head @ addr_bytes ?a @ d" and ?c = "crc16 (0x20 # addr_bytes ?a @ d)"
  have p1: "(bsl_send_data_pkt s)[0 := BSL_MSG_HEADER, 1 := of_nat ?k, 2 := of_nat (?k div 256), 3 := 0x20]
      = ?head @ addr_bytes ?a @ d @ x # y # r'"
    unfolding p h r by (rule set_head)
  have k: "8 + length d - 3 = ?k" by simp
  have fin: "bsl_send_data_pkt (finish_packet (8 + length d) s) = ?q @ ucast ?c # ucast (drop_bit 8 ?c) # r'"
    "total_length (finish_packet (8 + length d) s) = of_nat (10 + length d)"
    "prev_length (finish_packet (8 + length d) s) = of_nat (length d)"
    "data_crc (finish_packet (8 + length d) s) = crc16 d"
    unfolding finish_packet_def Let_def k p1 packet_body packet_tail by (simp_all add: packet_data)
  have "unat (word_of_nat (10 + length d) :: u32) = 10 + length d"
    using len(2) unfolding unsigned_of_nat of_nat_id by (intro take_bit_nat_eq_self) simp
  then have "take (unat (total_length (finish_packet (8 + length d) s)))
      (bsl_send_data_pkt (finish_packet (8 + length d) s)) = ?q @ [ucast ?c, ucast (drop_bit 8 ?c)]"
    unfolding fin(1,2) by (simp only: append_assoc packet_whole)
  also have "\<dots> = bsl_packet ?a d"
    by (simp add: bsl_packet_def addr_bytes_def Let_def)
  finally show ?thesis using fin(3,4) by (simp add: packet_made_def)
qed

lemma put_addr_simps [simp]:
  "data_ptr (put_addr s) = data_ptr s" "addr_flag (put_addr s) = addr_flag s"
  "all_pkt_sent (put_addr s) = all_pkt_sent s" "parsed_sc_flash_addr (put_addr s) = parsed_sc_flash_addr s"
  by (simp_all add: put_addr_def Let_def)

lemma put_addr_packet:
  "bsl_send_data_pkt s = replicate BSL_MAX_DATA_SIZE 0 \<Longrightarrow>
   bsl_send_data_pkt (put_addr s) = replicate 4 0 @ addr_bytes (parsed_sc_flash_addr s) @ replicate 258 0"
  by (simp add: put_addr_def Let_def BSL_MAX_DATA_SIZE_def addr_bytes_def numeral_eq_Suc)

lemma parse_fpt_sc_packet:
  assumes addr: "address_state m loc s0 = Some (True, put_addr s1)"
      "bsl_send_data_pkt s1 = replicate BSL_MAX_DATA_SIZE 0"
    and data: "data_from m loc 8 (put_addr s1) = Some ((t, 8 + length d), s2)" "took k (put_addr s1) s2"
      "bsl_send_data_pkt s2 = take 8 (bsl_send_data_pkt (put_addr s1)) @ d
         @ drop (8 + length d) (bsl_send_data_pkt (put_addr s1))"
    and d: "length d \<le> 256"
  shows "\<exists>s'. parse_fpt_sc m loc s0 = Some s' \<and> packet_made (parsed_sc_flash_addr s1) d s' \<and>
           data_ptr s' = data_ptr s1 + of_nat k \<and> addr_flag s' = (addr_flag s1 \<or> t = SECTION_START) \<and>
           all_pkt_sent s' = (all_pkt_sent s1 \<or> t = FILE_TERMINATION_CHAR)"
proof -
  define u where "u = (if t = SECTION_START then s2\<lparr>addr_flag := True\<rparr>
            else if t = FILE_TERMINATION_CHAR then s2\<lparr>all_pkt_sent := True, update_progress := 99\<rparr> else s2)"
  have u: "took k (put_addr s1) (u\<lparr>addr_flag := addr_flag s2, all_pkt_sent := all_pkt_sent s2\<rparr>)"
    "bsl_send_data_pkt u = bsl_send_data_pkt s2" "addr_flag u = (addr_flag s1 \<or> t = SECTION_START)"
    "all_pkt_sent u = (all_pkt_sent s1 \<or> t = FILE_TERMINATION_CHAR)"
    using data(2) by (auto simp: u_def took_def)
  have "parse_fpt_sc m loc s0 = Some (finish_packet (8 + length d) u)"
    using addr(1) data(1) unfolding u_def by (simp add: parse_fpt_sc_def next_char_advance data_from_def)
  moreover have "packet_made (parsed_sc_flash_addr u) d (finish_packet (8 + length d) u)"
  proof (rule finish_packet_made)
    show "bsl_send_data_pkt u = replicate 4 0 @ addr_bytes (parsed_sc_flash_addr u) @ d @ replicate (258 - length d) 0"
      using u(1,2) data(3) put_addr_packet [OF addr(2)] by (simp add: took_def)
  qed (use d in auto)
  ultimately show ?thesis using u(1,3,4) by (intro exI) (auto simp: took_def)
qed

section \<open>The packets of an image\<close>

text \<open>The image as the comment of \<open>parse_fpt_sc\<close> describes it: sixteen bytes in a line, a space behind each.\<close>

fun tx_items :: "nat \<Rightarrow> bytes \<Rightarrow> (u8 \<times> bytes) list" where
  "tx_items i [] = []"
| "tx_items i (b # bs) =
     (b, if i mod 16 = 15 \<or> bs = [] then [SPACE, NEW_LINE] else [SPACE]) # tx_items (i + 1) bs"

definition tx_section :: "u8 list \<times> bytes \<Rightarrow> bytes" where
  "tx_section sec = SECTION_START # map hex_lower (fst sec) @ [NEW_LINE] @ data_text (tx_items 0 (snd sec))"

definition tx_image :: "(u8 list \<times> bytes) list \<Rightarrow> bytes" where
  "tx_image secs = concat (map tx_section secs) @ [FILE_TERMINATION_CHAR]"

fun section_packets :: "u32 \<Rightarrow> bytes \<Rightarrow> bytes list" where
  "section_packets a bs =
     (if length bs < 256 then [bsl_packet a bs]
      else bsl_packet a (take 256 bs) # section_packets (a + 256) (drop 256 bs))"

declare section_packets.simps [simp del]

definition packet_data :: "bytes \<Rightarrow> bytes" where "packet_data p = butlast (butlast (drop 8 p))"

lemma packet_data_of [simp]: "packet_data (bsl_packet a d) = d"
  by (simp add: packet_data_def bsl_packet_def Let_def butlast_append)

lemma section_packets_data: "concat (map packet_data (section_packets a bs)) = bs"
  by (induction a bs rule: section_packets.induct) (subst section_packets.simps, simp)

text \<open>The loop over the packets without the transactions.\<close>

partial_function (option) packets_of :: "mem \<Rightarrow> u32 \<Rightarrow> 'w sc_update \<Rightarrow> bytes list option" where
  "packets_of m loc s =
     (if all_pkt_sent s then Some []
      else do {
        s' \<leftarrow> parse_fpt_sc m loc (s\<lparr>bsl_send_data_pkt := replicate BSL_MAX_DATA_SIZE 0\<rparr>);
        ps \<leftarrow> packets_of m loc s';
        Some (take (unat (total_length s')) (bsl_send_data_pkt s') # ps) })"

lemma tx_items_length [simp]: "length (tx_items i bs) = length bs"
  by (induction bs arbitrary: i) auto

lemma tx_items_fst [simp]: "map fst (tx_items i bs) = bs"
  by (induction bs arbitrary: i) auto

lemma tx_items_separated [simp]: "separated (tx_items i bs)"
  by (induction bs arbitrary: i) (auto simp: separated_def)

lemma separated_take: "separated its \<Longrightarrow> separated (take k its)"
  by (auto simp: separated_def dest: in_set_takeD)

lemma tx_items_nth:
  "k < length bs \<Longrightarrow> tx_items i bs ! k =
     (bs ! k, if (i + k) mod 16 = 15 \<or> Suc k = length bs then [SPACE, NEW_LINE] else [SPACE])"
proof (induction bs arbitrary: i k)
  case (Cons b bs)
  then show ?case by (cases k) auto
qed simp

lemma tx_items_drop: "drop k (tx_items i bs) = tx_items (i + k) (drop k bs)"
proof (induction bs arbitrary: i k)
  case (Cons b bs)
  then show ?case by (cases k) auto
qed simp

lemma tx_items_period: "i mod 16 = j mod 16 \<Longrightarrow> tx_items i bs = tx_items j bs"
proof (induction bs arbitrary: i j)
  case (Cons b bs)
  have "(i + 1) mod 16 = (j + 1) mod 16" using Cons.prems by (rule mod_add_cong) (rule refl)
  then have "tx_items (i + 1) bs = tx_items (j + 1) bs" by (rule Cons.IH)
  then show ?case by (simp only: tx_items.simps Cons.prems)
qed simp

text \<open>A long section, cut behind its first 256 bytes.\<close>

lemma tx_items_cut:
  assumes "256 \<le> length bs"
  shows "data_text (tx_items 0 bs) = (data_text (take 255 (tx_items 0 bs)) @ item_text (bs ! 255, [SPACE]))
           @ [NEW_LINE] @ data_text (tx_items 0 (drop 256 bs))"
proof -
  let ?its = "tx_items 0 bs"
  have "?its = take 255 ?its @ (?its ! 255) # drop 256 ?its"
    using assms id_take_nth_drop [of 255 ?its] by simp
  moreover have "?its ! 255 = (bs ! 255, [SPACE, NEW_LINE])" using assms by (simp add: tx_items_nth)
  moreover have "drop 256 ?its = tx_items 0 (drop 256 bs)"
    using tx_items_period [of 256 0] by (simp add: tx_items_drop)
  ultimately have "data_text ?its = data_text (take 255 ?its @ (bs ! 255, [SPACE, NEW_LINE]) # tx_items 0 (drop 256 bs))"
    by metis
  then show ?thesis by (simp add: data_text_def item_text_def)
qed

lemma take_256: "256 \<le> length bs \<Longrightarrow> take 256 bs = take 255 bs @ [bs ! 255]"
  using take_Suc_conv_app_nth [of 255 bs] by simp

abbreviation (input) clean :: "'w sc_update \<Rightarrow> 'w sc_update" where
  "clean s \<equiv> s\<lparr>bsl_send_data_pkt := replicate BSL_MAX_DATA_SIZE 0\<rparr>"

lemma packets_of_step:
  assumes "\<not> all_pkt_sent s" "parse_fpt_sc m loc (clean s) = Some s'" "packet_made a d s'"
  shows "packets_of m loc s = map_option (Cons (bsl_packet a d)) (packets_of m loc s')"
  using assms by (subst packets_of.simps) (simp add: packet_made_def map_option_case bind_eq_None_conv
      split: option.split)

lemma section_run:
  fixes s s1 :: "'w sc_update"
  assumes "address_state m loc (clean s) = Some (True, put_addr s1)" "\<not> all_pkt_sent s"
    and "bsl_send_data_pkt s1 = replicate BSL_MAX_DATA_SIZE 0" "\<not> addr_flag s1" "\<not> all_pkt_sent s1"
    and "holds_text m (loc + data_ptr s1) (data_text (tx_items 0 bs) @ [t])"
    and t: "t \<in> {SECTION_START, FILE_TERMINATION_CHAR}"
  shows "\<exists>s' :: 'w sc_update. packets_of m loc s =
             map_option ((@) (section_packets (parsed_sc_flash_addr s1) bs)) (packets_of m loc s') \<and>
           data_ptr s' = data_ptr s1 + of_nat (length (data_text (tx_items 0 bs)) + 1) \<and>
           addr_flag s' = (t = SECTION_START) \<and> all_pkt_sent s' = (t = FILE_TERMINATION_CHAR)"
  using assms(1-6)
proof (induction bs arbitrary: s s1 rule: length_induct)
  case (1 bs)
  note addr = "1.prems"(1,3) and fl = "1.prems"(2,4,5) and h = "1.prems"(6)
  let ?a = "parsed_sc_flash_addr s1" and ?its = "tx_items 0 bs"
  have len: "length (bsl_send_data_pkt (put_addr s1)) = BSL_MAX_DATA_SIZE"
    using put_addr_packet [OF addr(2)] by (simp add: BSL_MAX_DATA_SIZE_def)
  show ?case
  proof (cases "length bs < 256")
    case True
    obtain s2 where s2: "data_from m loc 8 (put_addr s1) = Some ((t, 8 + length bs), s2)"
        "took (length (data_text ?its @ [t])) (put_addr s1) s2"
        "bsl_send_data_pkt s2 = take 8 (bsl_send_data_pkt (put_addr s1)) @ bs
           @ drop (8 + length bs) (bsl_send_data_pkt (put_addr s1))"
      using data_part_ends [of ?its m loc "put_addr s1" t] h t True len by auto
    obtain s' where s': "parse_fpt_sc m loc (clean s) = Some s'" "packet_made ?a bs s'"
        "data_ptr s' = data_ptr s1 + of_nat (length (data_text ?its @ [t]))"
        "addr_flag s' = (addr_flag s1 \<or> t = SECTION_START)"
        "all_pkt_sent s' = (all_pkt_sent s1 \<or> t = FILE_TERMINATION_CHAR)"
      using parse_fpt_sc_packet [OF addr s2] True by auto
    have "section_packets ?a bs = [bsl_packet ?a bs]" using True by (simp add: section_packets.simps)
    then show ?thesis
      using packets_of_step [OF fl(1) s'(1,2)] s'(3-5) fl by (intro exI [of _ s']) auto
  next
    case False
    let ?b = "bs ! 255" and ?ds = "drop 256 bs" and ?its1 = "take 255 ?its"
    let ?n = "length (data_text ?its1 @ item_text (?b, [SPACE]))"
    have cut: "data_text ?its = (data_text ?its1 @ item_text (?b, [SPACE])) @ [NEW_LINE] @ data_text (tx_items 0 ?ds)"
      using False by (intro tx_items_cut) simp
    have d: "map fst ?its1 @ [?b] = take 256 bs" using False by (simp add: take_map [symmetric] take_256)
    obtain s2 where s2: "data_from m loc 8 (put_addr s1) = Some ((SPACE, 8 + length (take 256 bs)), s2)"
        "took ?n (put_addr s1) s2"
        "bsl_send_data_pkt s2 = take 8 (bsl_send_data_pkt (put_addr s1)) @ take 256 bs
           @ drop (8 + length (take 256 bs)) (bsl_send_data_pkt (put_addr s1))"
      using data_part_full [of ?its1 "put_addr s1" m loc ?b SPACE] h len False d
      by (auto simp: cut separated_take)
    obtain s3 where s3: "parse_fpt_sc m loc (clean s) = Some s3" "packet_made ?a (take 256 bs) s3"
        "data_ptr s3 = data_ptr s1 + of_nat ?n" "\<not> addr_flag s3" "\<not> all_pkt_sent s3"
      using parse_fpt_sc_packet [OF addr s2] fl by auto
    define s4 where "s4 = (advance (clean s3))\<lparr>parsed_sc_flash_addr := parsed_sc_flash_addr s3 + prev_length s3\<rparr>"
    have a4: "parsed_sc_flash_addr s4 = ?a + 256"
      using s3(2) False by (simp add: packet_made_def s4_def)
    have s4: "address_state m loc (clean s3) = Some (True, put_addr s4)"
      using address_state_continue [of "clean s3" m loc] s3(3,4) h by (auto simp: cut add.assoc s4_def)
    have h4: "holds_text m (loc + data_ptr s4) (data_text (tx_items 0 ?ds) @ [t])"
      using s3(3) h by (simp add: cut add.assoc s4_def)
    have "length ?ds < length bs" "bsl_send_data_pkt s4 = replicate BSL_MAX_DATA_SIZE 0"
        "\<not> addr_flag s4" "\<not> all_pkt_sent s4"
      using False s3(4,5) by (auto simp: s4_def)
    then obtain s' :: "'w sc_update" where s': "packets_of m loc s3 =
          map_option ((@) (section_packets (?a + 256) ?ds)) (packets_of m loc s')"
        "data_ptr s' = data_ptr s4 + of_nat (length (data_text (tx_items 0 ?ds)) + 1)"
        "addr_flag s' = (t = SECTION_START)" "all_pkt_sent s' = (t = FILE_TERMINATION_CHAR)"
      using "1.IH" [rule_format, OF _ s4 s3(5) _ _ _ h4] a4 by metis
    have "section_packets ?a bs = bsl_packet ?a (take 256 bs) # section_packets (?a + 256) ?ds"
      using False by (subst section_packets.simps) simp
    then have "packets_of m loc s = map_option ((@) (section_packets ?a bs)) (packets_of m loc s')"
      using packets_of_step [OF fl(1) s3(1,2)] s'(1) by (cases "packets_of m loc s'") simp_all
    moreover have "data_ptr s' = data_ptr s1 + of_nat (length (data_text ?its) + 1)"
      using s'(2) s3(3) by (simp add: cut add.assoc s4_def)
    ultimately show ?thesis using s'(3,4) by blast
  qed
qed

definition image_packets :: "(u8 list \<times> bytes) list \<Rightarrow> bytes list" where
  "image_packets secs = concat (map (\<lambda>sec. section_packets (digits_value (fst sec)) (snd sec)) secs)"

definition proper_sections :: "(u8 list \<times> bytes) list \<Rightarrow> bool" where
  "proper_sections secs \<longleftrightarrow> (\<forall>sec \<in> set secs. fst sec \<noteq> [] \<and> (\<forall>d \<in> set (fst sec). d < 16))"

lemma image_run:
  fixes s :: "'w sc_update"
  assumes "proper_sections secs" "secs \<noteq> []" "\<not> all_pkt_sent s"
    and "mark = [SECTION_START] \<or> (mark = [] \<and> addr_flag s)"
    and "holds_text m (loc + data_ptr s) (mark @ drop 1 (tx_image secs))"
  shows "packets_of m loc s = Some (image_packets secs)"
  using assms
proof (induction secs arbitrary: s mark)
  case (Cons sec secs)
  obtain ds bs where sec: "sec = (ds, bs)" by (cases sec)
  define t where "t = (if secs = [] then FILE_TERMINATION_CHAR else SECTION_START)"
  define rest where "rest = drop 1 (tx_image secs)"
  have im: "tx_image secs = t # rest" unfolding t_def rest_def
    by (cases secs) (auto simp: tx_image_def tx_section_def)
  have shape: "mark @ drop 1 (tx_image (sec # secs)) =
      (mark @ map hex_lower ds @ [NEW_LINE]) @ (data_text (tx_items 0 bs) @ [t]) @ rest"
    using im by (simp add: tx_image_def tx_section_def sec)
  have h: "holds_text m (loc + data_ptr s) (mark @ map hex_lower ds @ [NEW_LINE])"
      "holds_text m (loc + data_ptr s + of_nat (length mark + length ds + 1)) (data_text (tx_items 0 bs) @ [t])"
      "holds_text m (loc + data_ptr s + of_nat (length mark + length ds + 1) +
         of_nat (length (data_text (tx_items 0 bs)) + 1)) rest"
    using Cons.prems(5) unfolding shape by (simp_all add: add_ac)
  have ds: "\<forall>d \<in> set ds. d < 16" "ds \<noteq> []" using Cons.prems(1) by (auto simp: sec proper_sections_def)
  obtain s1 where s1: "address_state m loc (clean s) = Some (True, put_addr s1)"
      "data_ptr s1 = data_ptr s + of_nat (length mark + length ds + 1)" "\<not> addr_flag s1"
      "\<not> all_pkt_sent s1" "bsl_send_data_pkt s1 = replicate BSL_MAX_DATA_SIZE 0"
      "parsed_sc_flash_addr s1 = digits_value ds"
    using address_state_begin [OF ds, of mark "clean s" m loc] Cons.prems(3,4) h(1) by auto
  have h1: "holds_text m (loc + data_ptr s1) (data_text (tx_items 0 bs) @ [t])"
    using h(2) s1(2) by (simp add: add.assoc)
  have t: "t \<in> {SECTION_START, FILE_TERMINATION_CHAR}" by (simp add: t_def)
  obtain s2 :: "'w sc_update" where s2: "packets_of m loc s =
        map_option ((@) (section_packets (digits_value ds) bs)) (packets_of m loc s2)"
      "data_ptr s2 = data_ptr s1 + of_nat (length (data_text (tx_items 0 bs)) + 1)"
      "addr_flag s2 = (t = SECTION_START)" "all_pkt_sent s2 = (t = FILE_TERMINATION_CHAR)"
    using section_run [OF s1(1) Cons.prems(3) s1(5,3,4) h1 t] s1(6) by auto
  have "packets_of m loc s2 = Some (image_packets secs)"
  proof (cases "secs = []")
    case True
    then show ?thesis using s2(4) by (subst packets_of.simps) (simp add: t_def image_packets_def)
  next
    case False
    have "holds_text m (loc + data_ptr s2) ([] @ drop 1 (tx_image secs))"
      using h(3) s1(2) s2(2) unfolding append_Nil rest_def [symmetric] by (simp add: add_ac)
    then show ?thesis
      using Cons.IH [of s2 "[]"] Cons.prems(1) False s2(3,4) by (auto simp: t_def proper_sections_def)
  qed
  then show ?case using s2(1) by (simp add: image_packets_def sec)
qed simp

lemma image_packets_data: "concat (map packet_data (image_packets secs)) = concat (map snd secs)"
  by (induction secs) (simp_all add: image_packets_def section_packets_data)

text \<open>C37: For every image in the documented format, with any number of sections of any length, the loop over
  the packets ends and the packets it makes are exactly those that program the sections: each with the
  header, the length, the address and the checksum of the boot loader's protocol, with at most 256
  bytes, and their data together are the bytes of the image in order, each once.\<close>

theorem sc_image_packets:
  assumes "holds_text m (loc + data_ptr s) (tx_image secs)" "proper_sections secs" "secs \<noteq> []"
    and "\<not> all_pkt_sent s"
  shows "\<exists>ps. packets_of m loc s = Some ps \<and>
           ps = concat (map (\<lambda>(ds, bs). section_packets (digits_value ds) bs) secs) \<and>
           concat (map packet_data ps) = concat (map snd secs)"
proof -
  have "[SECTION_START] @ drop 1 (tx_image secs) = tx_image secs"
    using assms(3) by (cases secs) (simp_all add: tx_image_def tx_section_def)
  then have "packets_of m loc s = Some (image_packets secs)"
    using image_run [OF assms(2,3,4), of "[SECTION_START]" m loc] assms(1) by simp
  then show ?thesis
    using image_packets_data [of secs] by (simp add: image_packets_def case_prod_unfold)
qed

definition two_sections :: "(u8 list \<times> bytes) list" where
  "two_sections = [([2, 0, 0], [0x0C, 0x48]), ([7, 0xF, 0, 0, 0], [0x38])]"

lemma holds_itself: "length bs < 2 ^ 32 \<Longrightarrow> holds_text (\<lambda>a. bs ! unat a) 0 bs"
  unfolding holds_text_def by (simp add: unsigned_of_nat take_bit_nat_eq_self)

theorem sc_image_packets_witness:
  "packets_of (\<lambda>a. tx_image two_sections ! unat a) 0 sim_update =
     Some [bsl_packet 0x200 [0x0C, 0x48], bsl_packet 0x7F000 [0x38]]"
proof -
  have "holds_text (\<lambda>a. tx_image two_sections ! unat a) (0 + data_ptr sim_update) (tx_image two_sections)"
    using holds_itself [of "tx_image two_sections"]
    by (simp add: sim_update_def two_sections_def tx_image_def tx_section_def data_text_def item_text_def)
  moreover have "proper_sections two_sections" by (simp add: two_sections_def proper_sections_def)
  moreover have "digits_value [2, 0, 0] = 0x200" "digits_value [7, 0xF, 0, 0, 0] = 0x7F000"
    by (simp_all add: digits_value_def)
  ultimately show ?thesis
    using sc_image_packets [of "\<lambda>a. tx_image two_sections ! unat a" 0 sim_update two_sections]
    by (simp add: sim_update_def two_sections_def section_packets.simps)
qed

end
