(* ===== verification/Vmc_I2c.thy ===== *)
theory Vmc_I2c
  imports Vmc_Throttling "HOL-Library.Signed_Division"
begin

unbundle bit_operations_syntax

text \<open>Model of \<open>common/cl_i2c.c\<close> and of the chips on the I2C buses, \<open>vmc/sensors/src\<close>.  The driver of
  the I2C engines (\<open>XIicPs_*\<close>) is the record \<open>i2c_ops\<close> over the state \<open>'b\<close> of the buses and of the
  devices on them.  A chip function returns its status and what it stores through its pointer,
  \<open>None\<close> where it stores nothing; the pointers themselves are never null in the firmware.  The whole
  result is \<open>None\<close> when a bus never becomes idle.\<close>

section \<open>The engines\<close>

record 'b i2c_ops =
  ii_init :: "nat \<Rightarrow> 'b \<Rightarrow> 'b"
  ii_sclk :: "nat \<Rightarrow> u32 \<Rightarrow> 'b \<Rightarrow> int \<times> 'b"
  ii_rep_start :: "nat \<Rightarrow> bool \<Rightarrow> 'b \<Rightarrow> 'b"
  ii_send :: "nat \<Rightarrow> u8 \<Rightarrow> bytes \<Rightarrow> 'b \<Rightarrow> int \<times> 'b"
  ii_recv :: "nat \<Rightarrow> u8 \<Rightarrow> nat \<Rightarrow> 'b \<Rightarrow> (int \<times> bytes) \<times> 'b"
  ii_busy :: "nat \<Rightarrow> 'b \<Rightarrow> bool \<times> 'b"

abbreviation (input) IIC_SCLK_RATE :: u32 where "IIC_SCLK_RATE \<equiv> 100000"
abbreviation (input) LPD_I2C_0 :: nat where "LPD_I2C_0 \<equiv> 1"

definition cl_I2CInit :: "'b i2c_ops \<Rightarrow> 'b \<Rightarrow> int \<times> 'b" where
  "cl_I2CInit io b = (1, fold (\<lambda>i b. snd (ii_sclk io i IIC_SCLK_RATE (ii_init io i b))) [0, 1, 2] b)"

partial_function (option) wait_idle :: "'b i2c_ops \<Rightarrow> nat \<Rightarrow> 'b \<Rightarrow> 'b option" where
  "wait_idle io n b = (let (busy, b') = ii_busy io n b in if busy then wait_idle io n b' else Some b')"

definition i2c_send :: "'b i2c_ops \<Rightarrow> nat \<Rightarrow> u8 \<Rightarrow> bytes \<Rightarrow> 'b \<Rightarrow> (int \<times> 'b) option" where
  "i2c_send io n a xs b =
     (let (st, b1) = ii_send io n a xs b
      in if st \<noteq> XST_SUCCESS then Some (XST_FAILURE, b1)
         else do { b2 \<leftarrow> wait_idle io n b1; Some (XST_SUCCESS, b2) })"

text \<open>A receive that fails may have stored some of the bytes.\<close>

definition i2c_recv :: "'b i2c_ops \<Rightarrow> nat \<Rightarrow> u8 \<Rightarrow> nat \<Rightarrow> 'b \<Rightarrow> ((int \<times> bytes) \<times> 'b) option" where
  "i2c_recv io n a len b =
     (let ((st, xs), b1) = ii_recv io n a len b
      in if st \<noteq> XST_SUCCESS then Some ((XST_FAILURE, take len xs), b1)
         else do { b2 \<leftarrow> wait_idle io n b1; Some ((XST_SUCCESS, take len xs), b2) })"

text \<open>The repeated start stays switched on when the send fails.\<close>

definition i2c_send_rs_recv ::
    "'b i2c_ops \<Rightarrow> nat \<Rightarrow> u8 \<Rightarrow> bytes \<Rightarrow> nat \<Rightarrow> 'b \<Rightarrow> ((int \<times> bytes) \<times> 'b) option" where
  "i2c_send_rs_recv io n a xs len b =
     (let b0 = ii_rep_start io n True b; (st, b1) = ii_send io n a xs b0
      in if st \<noteq> XST_SUCCESS then Some ((XST_FAILURE, []), b1)
         else i2c_recv io n a len (ii_rep_start io n False b1))"

definition stored :: "bytes \<Rightarrow> bytes \<Rightarrow> bytes" where
  "stored xs buf = xs @ drop (length xs) buf"

lemma i2c_send_rs_recv_length:
  "i2c_send_rs_recv io n a xs len b = Some ((st, ys), b') \<Longrightarrow> length ys \<le> len"
  by (auto simp: i2c_send_rs_recv_def i2c_recv_def Let_def split: prod.splits if_splits bind_splits)

lemma i2c_send_rs_recv_status:
  "i2c_send_rs_recv io n a xs len b = Some ((st, ys), b') \<Longrightarrow> st = XST_SUCCESS \<or> st = XST_FAILURE"
  by (auto simp: i2c_send_rs_recv_def i2c_recv_def Let_def split: prod.splits if_splits bind_splits)

text \<open>The value of a register that a chip sends back, over what its variable held before.\<close>

definition reg_read :: "'b i2c_ops \<Rightarrow> nat \<Rightarrow> u8 \<Rightarrow> bytes \<Rightarrow> bytes \<Rightarrow> 'b \<Rightarrow> ((int \<times> bytes) \<times> 'b) option" where
  "reg_read io n a xs buf b = do {
     ((st, ys), b') \<leftarrow> i2c_send_rs_recv io n a xs (length buf) b;
     Some ((st, stored ys buf), b') }"

lemma reg_read_length:
  assumes "reg_read io n a xs buf b = Some ((st, ys), b')"
  shows "length ys = length buf"
  using assms i2c_send_rs_recv_length
  by (fastforce simp: reg_read_def stored_def split: bind_splits)

section \<open>EEPROMs: M24C128, and the one in CAT34TS02\<close>

abbreviation (input) SLAVE_ADDRESS_M24C128 :: u8 where "SLAVE_ADDRESS_M24C128 \<equiv> 0x52"
abbreviation (input) EEPROM_ADDRESS_SIZE :: nat where "EEPROM_ADDRESS_SIZE \<equiv> 2"

text \<open>The offset is sent as the two bytes it has in memory.\<close>

definition M24C128_ReadByte ::
    "'b i2c_ops \<Rightarrow> nat \<Rightarrow> u8 \<Rightarrow> u16 \<Rightarrow> u8 \<Rightarrow> 'b \<Rightarrow> ((int \<times> u8) \<times> 'b) option" where
  "M24C128_ReadByte io n a off v b = do {
     ((st, ys), b') \<leftarrow> reg_read io n a (le_bytes EEPROM_ADDRESS_SIZE (unat off)) [v] b;
     Some ((st, hd ys), b') }"

definition M24C128_ReadMultiBytes ::
    "'b i2c_ops \<Rightarrow> nat \<Rightarrow> u8 \<Rightarrow> u16 \<Rightarrow> bytes \<Rightarrow> 'b \<Rightarrow> ((int \<times> bytes) \<times> 'b) option" where
  "M24C128_ReadMultiBytes io n a off buf b = reg_read io n a (le_bytes EEPROM_ADDRESS_SIZE (unat off)) buf b"

definition ucCAT34TS02ReadByte ::
    "'b i2c_ops \<Rightarrow> nat \<Rightarrow> u8 \<Rightarrow> u16 \<Rightarrow> u8 \<Rightarrow> 'b \<Rightarrow> ((int \<times> u8) \<times> 'b) option" where
  "ucCAT34TS02ReadByte io n a off v b = do {
     ((st, ys), b') \<leftarrow> reg_read io n a (le_bytes 2 (unat off)) [v] b; Some ((st, hd ys), b') }"

definition ucCAT34TS02ReadMultiBytes ::
    "'b i2c_ops \<Rightarrow> nat \<Rightarrow> u8 \<Rightarrow> u16 \<Rightarrow> bytes \<Rightarrow> 'b \<Rightarrow> ((int \<times> bytes) \<times> 'b) option" where
  "ucCAT34TS02ReadMultiBytes io n a off buf b = reg_read io n a (le_bytes 2 (unat off)) buf b"

section \<open>Thermometers: LM75, CAT34TS02, SE98A\<close>

definition be_u16 :: "u8 \<Rightarrow> u8 \<Rightarrow> u16" where
  "be_u16 hi lo = ucast lo OR push_bit 8 (ucast hi)"

text \<open>The quotient of a signed 16 bit number, towards zero.\<close>

definition s16_div :: "u16 \<Rightarrow> int \<Rightarrow> u16" where
  "s16_div v k = word_of_int (sint v sdiv k)"

definition LM75_temperature :: "u8 \<Rightarrow> u8 \<Rightarrow> u16" where
  "LM75_temperature hi lo =
     (let t = drop_bit 7 (be_u16 hi lo); neg = t AND push_bit 8 1 \<noteq> 0; t1 = t AND 0xFF
      in if neg then s16_div (t1 OR NOT (push_bit 8 1 - 1)) 2 else s16_div t1 2)"

definition LM75_ReadTemperature :: "'b i2c_ops \<Rightarrow> nat \<Rightarrow> u8 \<Rightarrow> 'b \<Rightarrow> ((int \<times> u16 option) \<times> 'b) option" where
  "LM75_ReadTemperature io n a b = do {
     ((st, ys), b') \<leftarrow> reg_read io n a [0x00] [0, 0] b;
     Some ((st, if st = 0 then Some (LM75_temperature (ys ! 0) (ys ! 1)) else None), b') }"

abbreviation (input) CAT34TS02_TEMPERATURE_REGISTER :: u8 where "CAT34TS02_TEMPERATURE_REGISTER \<equiv> 0x05"
abbreviation (input) CAT34TS02_TEMPERATURE_SIGN_BIT :: nat where "CAT34TS02_TEMPERATURE_SIGN_BIT \<equiv> 12"
abbreviation (input) CAT34TS02_TEMP_NON_WHOLE_BITS :: nat where "CAT34TS02_TEMP_NON_WHOLE_BITS \<equiv> 4"
abbreviation (input) CAT34TS02_SLAVE_ADDRESS_TEMPERATURE :: u8 where "CAT34TS02_SLAVE_ADDRESS_TEMPERATURE \<equiv> 0x1A"

definition CAT34TS02_temperature :: "u8 \<Rightarrow> u8 \<Rightarrow> u16" where
  "CAT34TS02_temperature hi lo =
     (let t = be_u16 hi lo; neg = t AND push_bit CAT34TS02_TEMPERATURE_SIGN_BIT 1 \<noteq> 0; t1 = t AND 0xFFF;
          d = push_bit CAT34TS02_TEMP_NON_WHOLE_BITS (1 :: int)
      in if neg then s16_div (t1 OR NOT (push_bit CAT34TS02_TEMPERATURE_SIGN_BIT 1 - 1)) d else s16_div t1 d)"

definition ucCAT34TS02ReadTemperature :: "'b i2c_ops \<Rightarrow> nat \<Rightarrow> u8 \<Rightarrow> 'b \<Rightarrow> ((int \<times> u16 option) \<times> 'b) option" where
  "ucCAT34TS02ReadTemperature io n a b = do {
     ((st, ys), b') \<leftarrow> reg_read io n a [CAT34TS02_TEMPERATURE_REGISTER] [0, 0] b;
     Some ((st, if st = 0 then Some (CAT34TS02_temperature (ys ! 0) (ys ! 1)) else None), b') }"

text \<open>The processor computes in single and in double precision.\<close>

record ('f, 'd) fpu =
  fp_f :: "'f float_ops"
  fp_d :: "'d float_ops"
  fp_widen :: "'f \<Rightarrow> 'd"
  fp_narrow :: "'d \<Rightarrow> 'f"

definition quotient :: "'x float_ops \<Rightarrow> int \<Rightarrow> int \<Rightarrow> 'x" where
  "quotient fo a b = fo_div fo (fo_int fo a) (fo_int fo b)"

definition SE98A_temperature :: "('f, 'd) fpu \<Rightarrow> u8 \<Rightarrow> u8 \<Rightarrow> u16" where
  "SE98A_temperature fp hi lo =
     (let D = fp_d fp; t = be_u16 hi lo AND 0x1FFF; t1 = t AND 0xFFF
      in word_of_int (fo_trunc D
           (if t < 0xFFF then fo_mul D (fo_int D (uint t)) (quotient D 1 16)
            else fo_mul D (fo_mul D (fo_int D (0x1000 - uint t1)) (quotient D 1 16)) (fo_int D (-1)))))"

definition SE98A_ReadTemperature ::
    "('f, 'd) fpu \<Rightarrow> 'b i2c_ops \<Rightarrow> nat \<Rightarrow> u8 \<Rightarrow> 'b \<Rightarrow> ((int \<times> u16 option) \<times> 'b) option" where
  "SE98A_ReadTemperature fp io n a b = do {
     ((st, ys), b') \<leftarrow> reg_read io n a [0x05] [0, 0] b;
     Some ((st, if st = 0 then Some (SE98A_temperature fp (ys ! 0) (ys ! 1)) else None), b') }"

section \<open>Power monitors: INA3221, ISL68221\<close>

fun INA3221_bus_register :: "nat \<Rightarrow> u8" where
  "INA3221_bus_register ch = (if ch = 2 then 0x06 else if ch = 1 then 0x04 else 0x02)"

fun INA3221_shunt_register :: "nat \<Rightarrow> u8" where
  "INA3221_shunt_register ch = (if ch = 2 then 0x05 else if ch = 1 then 0x03 else 0x01)"

definition INA3221_ReadVoltage ::
    "('f, 'd) fpu \<Rightarrow> 'b i2c_ops \<Rightarrow> nat \<Rightarrow> u8 \<Rightarrow> nat \<Rightarrow> 'b \<Rightarrow> ((int \<times> 'f option) \<times> 'b) option" where
  "INA3221_ReadVoltage fp io n a ch b = do {
     ((st, ys), b') \<leftarrow> reg_read io n a [INA3221_bus_register ch] [0, 0] b;
     Some ((st, if st = 0 then Some (fo_word (fp_f fp) (be_u16 (ys ! 0) (ys ! 1 AND NOT 0x7))) else None), b') }"

definition INA3221_current :: "('f, 'd) fpu \<Rightarrow> u8 \<Rightarrow> u8 \<Rightarrow> 'f" where
  "INA3221_current fp hi lo =
     (let F = fp_f fp; v = fo_word F (drop_bit 3 (be_u16 hi (lo AND NOT 0x7)))
      in fo_div F (fo_mul F (fo_mul F v (quotient F 4 100000)) (fo_int F 1000)) (quotient F 2 1000))"

definition INA3221_ReadCurrent ::
    "('f, 'd) fpu \<Rightarrow> 'b i2c_ops \<Rightarrow> nat \<Rightarrow> u8 \<Rightarrow> nat \<Rightarrow> 'b \<Rightarrow> ((int \<times> 'f option) \<times> 'b) option" where
  "INA3221_ReadCurrent fp io n a ch b = do {
     ((st, ys), b') \<leftarrow> reg_read io n a [INA3221_shunt_register ch] [0, 0] b;
     Some ((st, if st = 0 then Some (INA3221_current fp (ys ! 0) (ys ! 1)) else None), b') }"

definition INA3221_ReadPower ::
    "('f, 'd) fpu \<Rightarrow> 'b i2c_ops \<Rightarrow> nat \<Rightarrow> u8 \<Rightarrow> nat \<Rightarrow> 'b \<Rightarrow> ((int \<times> 'f option) \<times> 'b) option" where
  "INA3221_ReadPower fp io n a ch b = do {
     ((st, i), b1) \<leftarrow> INA3221_ReadCurrent fp io n a ch b;
     (case i of
        None \<Rightarrow> Some ((st, None), b1)
      | Some mA \<Rightarrow> do {
          ((st', v), b2) \<leftarrow> INA3221_ReadVoltage fp io n a ch b1;
          let D = fp_d fp;
          Some ((st', map_option (\<lambda>mV. fp_narrow fp (fo_div D (fo_mul D (fp_widen fp mV) (fp_widen fp mA))
                        (fo_int D 1000))) v), b2) }) }"

definition ucISL68221WriteRegister :: "'b i2c_ops \<Rightarrow> nat \<Rightarrow> u8 \<Rightarrow> u8 \<Rightarrow> u8 \<Rightarrow> 'b \<Rightarrow> (int \<times> 'b) option" where
  "ucISL68221WriteRegister io n a reg v b = i2c_send io n a [reg, v] b"

definition ucISL68221ReadRegister ::
    "'b i2c_ops \<Rightarrow> nat \<Rightarrow> u8 \<Rightarrow> u8 \<Rightarrow> bytes \<Rightarrow> 'b \<Rightarrow> ((int \<times> bytes) \<times> 'b) option" where
  "ucISL68221ReadRegister io n a reg buf b = reg_read io n a [reg] buf b"

abbreviation (input) ISL68221_PAGE_REGISTER :: u8 where "ISL68221_PAGE_REGISTER \<equiv> 0x00"
abbreviation (input) ISL68221_SELECT_PAGE_RAIL_0 :: u8 where "ISL68221_SELECT_PAGE_RAIL_0 \<equiv> 0x00"
abbreviation (input) ISL68221_SELECT_PAGE_RAIL_1 :: u8 where "ISL68221_SELECT_PAGE_RAIL_1 \<equiv> 0x01"
abbreviation (input) ISL68221_SELECT_PAGE_RAIL_2 :: u8 where "ISL68221_SELECT_PAGE_RAIL_2 \<equiv> 0x01"
abbreviation (input) ISL68221_OUTPUT_VOLTAGE_REGISTER :: u8 where "ISL68221_OUTPUT_VOLTAGE_REGISTER \<equiv> 0x8B"
abbreviation (input) ISL68221_OUTPUT_CURRENT_REGISTER :: u8 where "ISL68221_OUTPUT_CURRENT_REGISTER \<equiv> 0x8C"

text \<open>All nine readings select a page and read a register; \<open>ISL68221_read\<close> is what they share.\<close>

definition ISL68221_read ::
    "(u16 \<Rightarrow> 'f) \<Rightarrow> u8 \<Rightarrow> u8 \<Rightarrow> 'b i2c_ops \<Rightarrow> nat \<Rightarrow> u8 \<Rightarrow> 'b \<Rightarrow> ((int \<times> 'f option) \<times> 'b) option" where
  "ISL68221_read f page reg io n a b = do {
     (st, b1) \<leftarrow> ucISL68221WriteRegister io n a ISL68221_PAGE_REGISTER page b;
     if st = XST_FAILURE then Some ((st, None), b1)
     else do {
       ((st', ys), b2) \<leftarrow> ucISL68221ReadRegister io n a reg [0, 0] b1;
       Some ((st', if st' = XST_FAILURE then None else Some (f (be_u16 (ys ! 1) (ys ! 0)))), b2) } }"

definition ucISL68221ReadVoltage0 ::
    "('f, 'd) fpu \<Rightarrow> 'b i2c_ops \<Rightarrow> nat \<Rightarrow> u8 \<Rightarrow> 'b \<Rightarrow> ((int \<times> 'f option) \<times> 'b) option" where
  "ucISL68221ReadVoltage0 fp =
     ISL68221_read (fo_word (fp_f fp)) ISL68221_SELECT_PAGE_RAIL_0 ISL68221_OUTPUT_VOLTAGE_REGISTER"

definition ucISL68221ReadVoltage1 ::
    "('f, 'd) fpu \<Rightarrow> 'b i2c_ops \<Rightarrow> nat \<Rightarrow> u8 \<Rightarrow> 'b \<Rightarrow> ((int \<times> 'f option) \<times> 'b) option" where
  "ucISL68221ReadVoltage1 fp =
     ISL68221_read (fo_word (fp_f fp)) ISL68221_SELECT_PAGE_RAIL_1 ISL68221_OUTPUT_VOLTAGE_REGISTER"

definition ucISL68221ReadVoltage2 ::
    "('f, 'd) fpu \<Rightarrow> 'b i2c_ops \<Rightarrow> nat \<Rightarrow> u8 \<Rightarrow> 'b \<Rightarrow> ((int \<times> 'f option) \<times> 'b) option" where
  "ucISL68221ReadVoltage2 fp =
     ISL68221_read (fo_word (fp_f fp)) ISL68221_SELECT_PAGE_RAIL_2 ISL68221_OUTPUT_VOLTAGE_REGISTER"

definition tenth :: "('f, 'd) fpu \<Rightarrow> u16 \<Rightarrow> 'f" where
  "tenth fp v = fo_div (fp_f fp) (fo_word (fp_f fp) v) (fo_int (fp_f fp) 10)"

definition ucISL68221ReadCurrent0 ::
    "('f, 'd) fpu \<Rightarrow> 'b i2c_ops \<Rightarrow> nat \<Rightarrow> u8 \<Rightarrow> 'b \<Rightarrow> ((int \<times> 'f option) \<times> 'b) option" where
  "ucISL68221ReadCurrent0 fp =
     ISL68221_read (tenth fp) ISL68221_SELECT_PAGE_RAIL_0 ISL68221_OUTPUT_CURRENT_REGISTER"

definition ucISL68221ReadCurrent1 ::
    "('f, 'd) fpu \<Rightarrow> 'b i2c_ops \<Rightarrow> nat \<Rightarrow> u8 \<Rightarrow> 'b \<Rightarrow> ((int \<times> 'f option) \<times> 'b) option" where
  "ucISL68221ReadCurrent1 fp =
     ISL68221_read (tenth fp) ISL68221_SELECT_PAGE_RAIL_1 ISL68221_OUTPUT_CURRENT_REGISTER"

definition ucISL68221ReadCurrent2 ::
    "('f, 'd) fpu \<Rightarrow> 'b i2c_ops \<Rightarrow> nat \<Rightarrow> u8 \<Rightarrow> 'b \<Rightarrow> ((int \<times> 'f option) \<times> 'b) option" where
  "ucISL68221ReadCurrent2 fp =
     ISL68221_read (tenth fp) ISL68221_SELECT_PAGE_RAIL_2 ISL68221_OUTPUT_CURRENT_REGISTER"

definition ucISL68221ReadTemperature0 ::
    "('f, 'd) fpu \<Rightarrow> 'b i2c_ops \<Rightarrow> nat \<Rightarrow> u8 \<Rightarrow> 'b \<Rightarrow> ((int \<times> 'f option) \<times> 'b) option" where
  "ucISL68221ReadTemperature0 fp = ISL68221_read (fo_word (fp_f fp)) ISL68221_SELECT_PAGE_RAIL_0 0x8D"

definition ucISL68221ReadTemperature1 ::
    "('f, 'd) fpu \<Rightarrow> 'b i2c_ops \<Rightarrow> nat \<Rightarrow> u8 \<Rightarrow> 'b \<Rightarrow> ((int \<times> 'f option) \<times> 'b) option" where
  "ucISL68221ReadTemperature1 fp = ISL68221_read (fo_word (fp_f fp)) ISL68221_SELECT_PAGE_RAIL_0 0x8E"

definition ucISL68221ReadTemperature2 ::
    "('f, 'd) fpu \<Rightarrow> 'b i2c_ops \<Rightarrow> nat \<Rightarrow> u8 \<Rightarrow> 'b \<Rightarrow> ((int \<times> 'f option) \<times> 'b) option" where
  "ucISL68221ReadTemperature2 fp = ISL68221_read (fo_word (fp_f fp)) ISL68221_SELECT_PAGE_RAIL_0 0x8F"

section \<open>The I/O expander TCA6416A\<close>

abbreviation (input) TCA6416AR_ADDRESS :: u8 where "TCA6416AR_ADDRESS \<equiv> 0x20"
abbreviation (input) TCA6416AR_CONFIGURATION_0 :: u8 where "TCA6416AR_CONFIGURATION_0 \<equiv> 0x06"
abbreviation (input) TCA6416AR_OUTPUT_PORT_0 :: u8 where "TCA6416AR_OUTPUT_PORT_0 \<equiv> 0x02"
abbreviation (input) TCA6416AR_BIT_6 :: u8 where "TCA6416AR_BIT_6 \<equiv> push_bit 6 1"

definition ucTca6416aRegisterRead :: "'b i2c_ops \<Rightarrow> nat \<Rightarrow> u8 \<Rightarrow> u8 \<Rightarrow> u8 \<Rightarrow> 'b \<Rightarrow> ((int \<times> u8) \<times> 'b) option" where
  "ucTca6416aRegisterRead io n a reg v b = do {
     ((st, ys), b') \<leftarrow> reg_read io n a [reg] [v] b; Some ((st, hd ys), b') }"

definition ucTca6416aRegisterWrite :: "'b i2c_ops \<Rightarrow> nat \<Rightarrow> u8 \<Rightarrow> u8 \<Rightarrow> u8 \<Rightarrow> 'b \<Rightarrow> (int \<times> 'b) option" where
  "ucTca6416aRegisterWrite io n a reg v b = i2c_send io n a [reg, v] b"

definition ucEnableDDRDIMM :: "'b i2c_ops \<Rightarrow> 'b \<Rightarrow> (int \<times> 'b) option" where
  "ucEnableDDRDIMM io b = do {
     ((st, v), b1) \<leftarrow> ucTca6416aRegisterRead io 1 TCA6416AR_ADDRESS TCA6416AR_CONFIGURATION_0 0 b;
     if st \<noteq> XST_SUCCESS then Some (st, b1)
     else do {
       let v1 = v AND NOT TCA6416AR_BIT_6;
       (st1, b2) \<leftarrow> ucTca6416aRegisterWrite io 1 TCA6416AR_ADDRESS TCA6416AR_CONFIGURATION_0 v1 b1;
       if st1 \<noteq> XST_SUCCESS then Some (st1, b2)
       else do {
         ((st2, v2), b3) \<leftarrow> ucTca6416aRegisterRead io 1 TCA6416AR_ADDRESS TCA6416AR_OUTPUT_PORT_0 v1 b2;
         if st2 \<noteq> XST_SUCCESS then Some (st2, b3)
         else ucTca6416aRegisterWrite io 1 TCA6416AR_ADDRESS TCA6416AR_OUTPUT_PORT_0 (v2 OR TCA6416AR_BIT_6) b3 } } }"

section \<open>The fan controller MAX6639\<close>

definition max6639_write_register :: "'b i2c_ops \<Rightarrow> nat \<Rightarrow> u8 \<Rightarrow> u8 \<Rightarrow> u8 \<Rightarrow> 'b \<Rightarrow> (int \<times> 'b) option" where
  "max6639_write_register io n a reg v b = i2c_send io n a [reg, v] b"

definition max6639_read_register :: "'b i2c_ops \<Rightarrow> nat \<Rightarrow> u8 \<Rightarrow> u8 \<Rightarrow> u8 \<Rightarrow> 'b \<Rightarrow> ((int \<times> u8) \<times> 'b) option" where
  "max6639_read_register io n a reg v b = do {
     ((st, ys), b') \<leftarrow> reg_read io n a [reg] [v] b; Some ((st, hd ys), b') }"

text \<open>The registers are programmed in this order, up to the first failure.\<close>

fun max6639_writes :: "'b i2c_ops \<Rightarrow> nat \<Rightarrow> u8 \<Rightarrow> (u8 \<times> u8) list \<Rightarrow> 'b \<Rightarrow> (int \<times> 'b) option" where
  "max6639_writes io n a [] b = Some (XST_SUCCESS, b)"
| "max6639_writes io n a ((reg, v) # rs) b = do {
     (st, b') \<leftarrow> max6639_write_register io n a reg v b;
     if st = XST_FAILURE then Some (XST_FAILURE, b') else max6639_writes io n a rs b' }"

definition max6639_settings :: "(u8 \<times> u8) list" where
  "max6639_settings =
    [(0x11, 0x49), (0x15, 0x49), (0x13, 0x63), (0x17, 0x63), (0x12, 0xF8), (0x16, 0xF8), (0x22, 0x34), (0x23, 0x34),
     (0x24, 0x58), (0x25, 0x58), (0x28, 0x28), (0x29, 0x19), (0x10, 0x1B), (0x14, 0x17)]"

definition max6639_init :: "'b i2c_ops \<Rightarrow> nat \<Rightarrow> u8 \<Rightarrow> 'b \<Rightarrow> (int \<times> 'b) option" where
  "max6639_init io n a b = max6639_writes io n a max6639_settings b"

text \<open>Whole degrees in one register, halves, quarters and eighths in the three top bits of another.\<close>

definition max6639_degrees :: "('f, 'd) fpu \<Rightarrow> u8 \<Rightarrow> u8 \<Rightarrow> 'f" where
  "max6639_degrees fp msb lsb =
     (let D = fp_d fp; part = (\<lambda>k d. fo_mul D (fo_word D (drop_bit k (lsb AND push_bit k 1))) (quotient D 1 d))
      in fp_narrow fp (fo_add D (fo_add D (fo_add D (fp_widen fp (fo_word (fp_f fp) msb)) (part 7 2)) (part 6 4)) (part 5 8)))"

definition max6639_temperature ::
    "('f, 'd) fpu \<Rightarrow> 'b i2c_ops \<Rightarrow> nat \<Rightarrow> u8 \<Rightarrow> u8 \<Rightarrow> u8 \<Rightarrow> 'b \<Rightarrow> ((int \<times> 'f option) \<times> 'b) option" where
  "max6639_temperature fp io n a reg ext b = do {
     ((st, m), b1) \<leftarrow> max6639_read_register io n a reg 0 b;
     if st \<noteq> XST_SUCCESS then Some ((st, None), b1)
     else do {
       ((st', l), b2) \<leftarrow> max6639_read_register io n a ext 0 b1;
       Some ((st', if st' = XST_SUCCESS then Some (max6639_degrees fp m l) else None), b2) } }"

definition max6639_ReadFPGATemperature ::
    "('f, 'd) fpu \<Rightarrow> 'b i2c_ops \<Rightarrow> nat \<Rightarrow> u8 \<Rightarrow> 'b \<Rightarrow> ((int \<times> 'f option) \<times> 'b) option" where
  "max6639_ReadFPGATemperature fp io n a = max6639_temperature fp io n a 0x00 0x05"

definition max6639_ReadDDRTemperature ::
    "('f, 'd) fpu \<Rightarrow> 'b i2c_ops \<Rightarrow> nat \<Rightarrow> u8 \<Rightarrow> 'b \<Rightarrow> ((int \<times> 'f option) \<times> 'b) option" where
  "max6639_ReadDDRTemperature fp io n a = max6639_temperature fp io n a 0x01 0x06"

text \<open>Fan 0 is not refused; it is read as fan 2.\<close>

definition max6639_ReadFanTach ::
    "'b i2c_ops \<Rightarrow> nat \<Rightarrow> u8 \<Rightarrow> nat \<Rightarrow> u8 \<Rightarrow> 'b \<Rightarrow> ((int \<times> u8) \<times> 'b) option" where
  "max6639_ReadFanTach io n a fan v b =
     (if fan \<noteq> 0 \<and> 2 < fan then Some ((XST_FAILURE, v), b)
      else max6639_read_register io n a (if fan = 1 then 0x20 else 0x21) v b)"

section \<open>The QSFP cages\<close>

abbreviation XST_DEVICE_NOT_FOUND :: int where "XST_DEVICE_NOT_FOUND \<equiv> 2"

record 'b pins =
  pi_in32 :: "u32 \<Rightarrow> 'b \<Rightarrow> u32 \<times> 'b"
  pi_out32 :: "u32 \<Rightarrow> u32 \<Rightarrow> 'b \<Rightarrow> 'b"
  pi_delay_ms :: "nat \<Rightarrow> 'b \<Rightarrow> 'b"

abbreviation (input) I2CNumPmc :: nat where "I2CNumPmc \<equiv> 0"
abbreviation (input) QSFP_SLAVE_ADDRESS :: u8 where "QSFP_SLAVE_ADDRESS \<equiv> 0x50"
abbreviation (input) QSFP_IO_EXPANDER_ADDRESS :: u8 where "QSFP_IO_EXPANDER_ADDRESS \<equiv> 0x20"
abbreviation (input) QSFP_LOW_SPEED_IO_READ_OFFSET :: u32 where "QSFP_LOW_SPEED_IO_READ_OFFSET \<equiv> 0xF1020064"
abbreviation (input) QSFP_LOW_SPPED_IO_WRITE_OFFSET :: u32 where "QSFP_LOW_SPPED_IO_WRITE_OFFSET \<equiv> 0xF1020044"
abbreviation (input) QSFP_MODPRES_L_BIT :: u8 where "QSFP_MODPRES_L_BIT \<equiv> 0x8"

definition QSFP_degrees :: "('f, 'd) fpu \<Rightarrow> u16 \<Rightarrow> 'f" where
  "QSFP_degrees fp t =
     (let D = fp_d fp; res = quotient D 1 256
      in fp_narrow fp
           (if t \<le> 0x7FFF then fo_mul D (fo_word D t) res
            else fo_mul D (fo_mul D (fo_int D (0x8000 - uint (t AND 0x7FFF))) res) (fo_int D (-1))))"

text \<open>The two temperature registers; the module answers for one byte at a time.\<close>

definition QSFP_registers ::
    "('f, 'd) fpu \<Rightarrow> 'b i2c_ops \<Rightarrow> 'b \<Rightarrow> ((int \<times> 'f option) \<times> 'b) option" where
  "QSFP_registers fp io b = do {
     ((st, l), b1) \<leftarrow> reg_read io I2CNumPmc QSFP_SLAVE_ADDRESS [23] [0] b;
     if st = XST_FAILURE then Some ((st, None), b1)
     else do {
       ((st', m), b2) \<leftarrow> reg_read io I2CNumPmc QSFP_SLAVE_ADDRESS [22] [0] b1;
       Some ((st', if st' = XST_FAILURE then None else Some (QSFP_degrees fp (be_u16 (hd m) (hd l)))), b2) } }"

text \<open>When a register cannot be read, the module stays selected.  A shift by 32 or more is undefined.\<close>

definition ucQSFPReadTemperature ::
    "('f, 'd) fpu \<Rightarrow> 'b pins \<Rightarrow> 'b i2c_ops \<Rightarrow> nat \<Rightarrow> 'b \<Rightarrow> ((int \<times> 'f option) \<times> 'b) option" where
  "ucQSFPReadTemperature fp pi io inst b =
     (let sh = 14 + inst * 5
      in if 31 < sh then None
         else let (mio, b1) = pi_in32 pi QSFP_LOW_SPEED_IO_READ_OFFSET b; bits = drop_bit sh mio AND 0x1F
              in if drop_bit 2 (bits AND 0x4) \<noteq> 0 then Some ((XST_DEVICE_NOT_FOUND, None), b1)
                 else let sel = mio AND NOT (push_bit sh 1)
                      in do {
                        ((st, t), b2) \<leftarrow> QSFP_registers fp io
                           (pi_delay_ms pi 10 (pi_out32 pi QSFP_LOW_SPPED_IO_WRITE_OFFSET sel b1));
                        if st = XST_FAILURE then Some ((st, None), b2)
                        else Some ((st, t), pi_out32 pi QSFP_LOW_SPPED_IO_WRITE_OFFSET (sel OR push_bit sh 1) b2) })"

fun QSFP_mux :: "nat \<Rightarrow> (u8 \<times> u8 \<times> u8) option" where
  "QSFP_mux i = (if i = 0 then Some (0x70, push_bit 0 1, push_bit 1 1)
                 else if i = 1 then Some (0x70, push_bit 2 1, push_bit 3 1)
                 else if i = 2 then Some (0x71, push_bit 0 1, push_bit 1 1)
                 else if i = 3 then Some (0x71, push_bit 2 1, push_bit 3 1)
                 else None)"

definition ucQSFPI2CMuxReadTemperature ::
    "('f, 'd) fpu \<Rightarrow> 'b i2c_ops \<Rightarrow> nat \<Rightarrow> 'b \<Rightarrow> ((int \<times> 'f option) \<times> 'b) option" where
  "ucQSFPI2CMuxReadTemperature fp io inst b =
     (case QSFP_mux inst of
        None \<Rightarrow> Some ((XST_FAILURE, None), b)
      | Some (mux, expander, qsfp) \<Rightarrow> do {
          (st, b1) \<leftarrow> i2c_send io I2CNumPmc mux [expander] b;
          if st = XST_FAILURE then Some ((st, None), b1)
          else do {
            ((st1, ys), b2) \<leftarrow> reg_read io I2CNumPmc QSFP_IO_EXPANDER_ADDRESS [0] [0] b1;
            if st1 = XST_FAILURE then Some ((st1, None), b2)
            else if hd ys AND QSFP_MODPRES_L_BIT \<noteq> 0 then Some ((XST_DEVICE_NOT_FOUND, None), b2)
            else do {
              (st2, b3) \<leftarrow> i2c_send io I2CNumPmc mux [qsfp] b2;
              if st2 = XST_FAILURE then Some ((st2, None), b3)
              else QSFP_registers fp io b3 } } })"

end
