(* ===== verification/Vmc_Board.thy ===== *)
theory Vmc_Board
  imports Vmc_I2c
begin

unbundle bit_operations_syntax

text \<open>Model of the board information in \<open>vmc/vmc_api.c\<close>: what \<open>Versal_EEPROM_ReadBoardInfo\<close> reads
  from the EEPROM of the board into \<open>board_info\<close>, and the log level.  The struct \<open>Versal_BoardInfo\<close>
  consists of bytes only and has no padding: it is the list of its 161 bytes, and a field is its
  position there.  So a store behind the end of a field goes to the next one, as it does in the
  firmware, and one behind the end of the struct is \<open>None\<close>.  The printing is not modelled.\<close>

section \<open>The struct and the tables\<close>

abbreviation (input) eeprom_version_at :: nat where "eeprom_version_at \<equiv> 0"
abbreviation (input) product_name_at :: nat where "product_name_at \<equiv> 4"
abbreviation (input) board_rev_at :: nat where "board_rev_at \<equiv> 29"
abbreviation (input) board_serial_at :: nat where "board_serial_at \<equiv> 38"
abbreviation (input) Num_MAC_IDS_at :: nat where "Num_MAC_IDS_at \<equiv> 53"
abbreviation (input) board_mac_at :: nat where "board_mac_at \<equiv> 54"
abbreviation (input) board_act_pas_at :: nat where "board_act_pas_at \<equiv> 82"
abbreviation (input) board_config_mode_at :: nat where "board_config_mode_at \<equiv> 84"
abbreviation (input) board_mfg_date_at :: nat where "board_mfg_date_at \<equiv> 86"
abbreviation (input) board_part_num_at :: nat where "board_part_num_at \<equiv> 90"
abbreviation (input) board_uuid_at :: nat where "board_uuid_at \<equiv> 115"
abbreviation (input) board_pcie_info_at :: nat where "board_pcie_info_at \<equiv> 132"
abbreviation (input) board_max_power_mode_at :: nat where "board_max_power_mode_at \<equiv> 141"
abbreviation (input) Memory_size_at :: nat where "Memory_size_at \<equiv> 143"
abbreviation (input) OEM_ID_at :: nat where "OEM_ID_at \<equiv> 148"
abbreviation (input) DIMM_size_at :: nat where "DIMM_size_at \<equiv> 153"
abbreviation (input) capability_at :: nat where "capability_at \<equiv> 158"

definition SIZEOF_BOARD_INFO :: nat where "SIZEOF_BOARD_INFO = 161"

record 'b board =
  bd_info :: bytes
  bd_bus :: 'b

datatype eEEPROM_Offsets_t =
    eEeprom_Product_Name | eEeprom_Board_Rev | eEeprom_Board_Serial | eEeprom_Board_Tot_Mac_Id | eEeprom_Board_Mac
  | eEeprom_Board_Act_Pas | eEeprom_Board_config_Mode | eEeprom_Mfg_Date | eEeprom_Part_Num | eEeprom_Uuid
  | eEeprom_Pcie_Info | eEeprom_Max_Power_Mode | eEeprom_mem_Size | eEeprom_Oemid_Size | eEeprom_Capability_Word

type_synonym eeprom_table = "eEEPROM_Offsets_t \<Rightarrow> u16 \<times> nat"

fun Ver_3_0_Offset_Size :: eeprom_table where
  "Ver_3_0_Offset_Size eEeprom_Product_Name = (0x0800, 24)"
| "Ver_3_0_Offset_Size eEeprom_Board_Rev = (0x2000, 8)"
| "Ver_3_0_Offset_Size eEeprom_Board_Serial = (0x2800, 14)"
| "Ver_3_0_Offset_Size eEeprom_Board_Tot_Mac_Id = (0x3600, 1)"
| "Ver_3_0_Offset_Size eEeprom_Board_Mac = (0x3700, 6)"
| "Ver_3_0_Offset_Size eEeprom_Board_Act_Pas = (0x3D00, 1)"
| "Ver_3_0_Offset_Size eEeprom_Board_config_Mode = (0x3E00, 1)"
| "Ver_3_0_Offset_Size eEeprom_Mfg_Date = (0x3F00, 3)"
| "Ver_3_0_Offset_Size eEeprom_Part_Num = (0x4200, 24)"
| "Ver_3_0_Offset_Size eEeprom_Uuid = (0x5A00, 16)"
| "Ver_3_0_Offset_Size eEeprom_Pcie_Info = (0x6A00, 8)"
| "Ver_3_0_Offset_Size eEeprom_Max_Power_Mode = (0x7200, 1)"
| "Ver_3_0_Offset_Size eEeprom_mem_Size = (0x7300, 4)"
| "Ver_3_0_Offset_Size eEeprom_Oemid_Size = (0x7700, 4)"
| "Ver_3_0_Offset_Size eEeprom_Capability_Word = (0x7B00, 2)"

abbreviation (input) EEPROM_V2_0_BOARD_TOT_MAC_ID_OFFSET :: u16 where "EEPROM_V2_0_BOARD_TOT_MAC_ID_OFFSET \<equiv> 0xFFFF"
abbreviation (input) EEPROM_V2_0_CAPABILITY_OFFSET :: u16 where "EEPROM_V2_0_CAPABILITY_OFFSET \<equiv> 0xFFFF"

fun Ver_2_0_Offset_Size :: eeprom_table where
  "Ver_2_0_Offset_Size eEeprom_Product_Name = (0x0300, 16)"
| "Ver_2_0_Offset_Size eEeprom_Board_Rev = (0x1300, 8)"
| "Ver_2_0_Offset_Size eEeprom_Board_Serial = (0x1B00, 14)"
| "Ver_2_0_Offset_Size eEeprom_Board_Tot_Mac_Id = (EEPROM_V2_0_BOARD_TOT_MAC_ID_OFFSET, 2)"
| "Ver_2_0_Offset_Size eEeprom_Board_Mac = (0x2900, 6)"
| "Ver_2_0_Offset_Size eEeprom_Board_Act_Pas = (0x4100, 1)"
| "Ver_2_0_Offset_Size eEeprom_Board_config_Mode = (0x4200, 1)"
| "Ver_2_0_Offset_Size eEeprom_Mfg_Date = (0x4300, 3)"
| "Ver_2_0_Offset_Size eEeprom_Part_Num = (0x4600, 9)"
| "Ver_2_0_Offset_Size eEeprom_Uuid = (0x4F00, 16)"
| "Ver_2_0_Offset_Size eEeprom_Pcie_Info = (0x5F00, 8)"
| "Ver_2_0_Offset_Size eEeprom_Max_Power_Mode = (0x6700, 1)"
| "Ver_2_0_Offset_Size eEeprom_mem_Size = (0x6800, 4)"
| "Ver_2_0_Offset_Size eEeprom_Oemid_Size = (0x6C00, 4)"
| "Ver_2_0_Offset_Size eEeprom_Capability_Word = (EEPROM_V2_0_CAPABILITY_OFFSET, 0)"

section \<open>Reading\<close>

text \<open>An EEPROM that has never been programmed holds \<open>0xFF\<close>.\<close>

abbreviation (input) EEPROM_DEFAULT_VAL :: u8 where "EEPROM_DEFAULT_VAL \<equiv> 0xFF"

definition blank :: "u8 \<Rightarrow> u8" where
  "blank x = (if x = EEPROM_DEFAULT_VAL then 0 else x)"

fun read_eeprom ::
    "'b i2c_ops \<Rightarrow> nat \<Rightarrow> (u8 \<Rightarrow> u8) \<Rightarrow> nat \<Rightarrow> nat \<Rightarrow> u16 \<Rightarrow> int \<Rightarrow> 'b board \<Rightarrow> (int \<times> 'b board) option" where
  "read_eeprom io n f 0 p off st bd = Some (st, bd)"
| "read_eeprom io n f (Suc k) p off st bd = do {
     v \<leftarrow> rd (bd_info bd) p;
     ((st', x), b) \<leftarrow> M24C128_ReadByte io n SLAVE_ADDRESS_M24C128 off v (bd_bus bd);
     info \<leftarrow> wr (bd_info bd) p (f x);
     read_eeprom io n f k (p + 1) (off + 0x0100) st' (bd\<lparr>bd_info := info, bd_bus := b\<rparr>) }"

text \<open>The status is the one of the last byte.\<close>

definition Update_BoardInfo_Data ::
    "'b i2c_ops \<Rightarrow> nat \<Rightarrow> nat \<Rightarrow> u16 \<Rightarrow> nat \<Rightarrow> 'b board \<Rightarrow> (int \<times> 'b board) option" where
  "Update_BoardInfo_Data io n p off len bd = do {
     (st, bd1) \<leftarrow> read_eeprom io n blank len p off 0 bd;
     info \<leftarrow> wr (bd_info bd1) (p + len) 0;
     Some (st, bd1\<lparr>bd_info := info\<rparr>) }"

abbreviation (input) EEPROM_BUF_SIZE :: nat where "EEPROM_BUF_SIZE \<equiv> 128"
abbreviation (input) EEPROM_V3_0_CHECKSUM_LSB_OFFSET :: nat where "EEPROM_V3_0_CHECKSUM_LSB_OFFSET \<equiv> 0x06"
abbreviation (input) EEPROM_V3_0_CHECKSUM_MSB_OFFSET :: nat where "EEPROM_V3_0_CHECKSUM_MSB_OFFSET \<equiv> 0x07"
abbreviation (input) EEPROM_V3_0_CHECKSUM_START :: nat where "EEPROM_V3_0_CHECKSUM_START \<equiv> 8"
abbreviation (input) EEPROM_V3_0_CHECKSUM_END :: nat where "EEPROM_V3_0_CHECKSUM_END \<equiv> 124"

definition Verify_Checksum :: "'b i2c_ops \<Rightarrow> 'b \<Rightarrow> (bool \<times> 'b) option" where
  "Verify_Checksum io b = do {
     ((st, buf), b') \<leftarrow> M24C128_ReadMultiBytes io LPD_I2C_0 SLAVE_ADDRESS_M24C128 0 (replicate EEPROM_BUF_SIZE 0) b;
     let expected = be_u16 (buf ! EEPROM_V3_0_CHECKSUM_MSB_OFFSET) (buf ! EEPROM_V3_0_CHECKSUM_LSB_OFFSET);
     let checksum = (sum_list (map (\<lambda>i. ucast (buf ! i)) [EEPROM_V3_0_CHECKSUM_START ..< EEPROM_V3_0_CHECKSUM_END + 1]) :: u16);
     Some (0 - checksum = expected, b') }"

text \<open>The carry runs from the last byte of an address to the first.\<close>

fun inc_mac :: "nat \<Rightarrow> bytes \<Rightarrow> bytes" where
  "inc_mac 0 m = m"
| "inc_mac (Suc i) m =
     (let v = ucast (m ! i) + 1 :: u16
      in if 255 < v then inc_mac i (m[i := 0]) else m[i := ucast v])"

fun mac_loop :: "nat \<Rightarrow> nat \<Rightarrow> bytes \<Rightarrow> bytes \<Rightarrow> bytes option" where
  "mac_loop 0 j mac info = Some info"
| "mac_loop (Suc k) j mac info = do {
     let mac' = inc_mac (length mac) mac;
     info' \<leftarrow> wr_bytes info (board_mac_at + 7 * j) (mac' @ [0]);
     mac_loop k (j + 1) mac' info' }"

text \<open>The first address is read, the others are counted up.  The stores are behind the number of
  addresses, which so stays as it is during the loop.\<close>

definition read_macs :: "'b i2c_ops \<Rightarrow> nat \<Rightarrow> eeprom_table \<Rightarrow> 'b board \<Rightarrow> 'b board option" where
  "read_macs io n t bd = do {
     let (off, len) = t eEeprom_Board_Mac;
     (st, bd1) \<leftarrow> read_eeprom io n id len board_mac_at off 0 bd;
     info \<leftarrow> wr (bd_info bd1) (board_mac_at + len) 0;
     mac \<leftarrow> rd_bytes info board_mac_at len;
     num \<leftarrow> rd info Num_MAC_IDS_at;
     info' \<leftarrow> mac_loop (unat num - 1) 1 mac info;
     Some (bd1\<lparr>bd_info := info'\<rparr>) }"

definition update_field ::
    "'b i2c_ops \<Rightarrow> nat \<Rightarrow> eeprom_table \<Rightarrow> nat \<Rightarrow> eEEPROM_Offsets_t \<Rightarrow> 'b board \<Rightarrow> (int \<times> 'b board) option" where
  "update_field io n t p e bd = Update_BoardInfo_Data io n p (fst (t e)) (snd (t e)) bd"

fun update_fields ::
    "'b i2c_ops \<Rightarrow> nat \<Rightarrow> eeprom_table \<Rightarrow> (nat \<times> eEEPROM_Offsets_t) list \<Rightarrow> int \<times> 'b board \<Rightarrow> (int \<times> 'b board) option" where
  "update_fields io n t [] r = Some r"
| "update_fields io n t ((p, e) # fs) r = do { r' \<leftarrow> update_field io n t p e (snd r); update_fields io n t fs r' }"

definition EEPROM_V3_0 :: u32 where "EEPROM_V3_0 = 0x332E30"
definition EEPROM_V2_0 :: u32 where "EEPROM_V2_0 = 0x322E30"

definition eeprom_table_of :: "u32 \<Rightarrow> eeprom_table option" where
  "eeprom_table_of v = (if v = EEPROM_V3_0 then Some Ver_3_0_Offset_Size
                        else if v = EEPROM_V2_0 then Some Ver_2_0_Offset_Size else None)"

definition Num_MAC_IDS_read :: "'b i2c_ops \<Rightarrow> nat \<Rightarrow> eeprom_table \<Rightarrow> 'b board \<Rightarrow> 'b board option" where
  "Num_MAC_IDS_read io n t bd =
     (if fst (t eEeprom_Board_Tot_Mac_Id) \<noteq> EEPROM_V2_0_BOARD_TOT_MAC_ID_OFFSET
      then map_option snd (update_field io n t Num_MAC_IDS_at eEeprom_Board_Tot_Mac_Id bd)
      else do { info \<leftarrow> wr (bd_info bd) Num_MAC_IDS_at (of_nat (snd (t eEeprom_Board_Tot_Mac_Id)));
                Some (bd\<lparr>bd_info := info\<rparr>) })"

text \<open>The fields behind the addresses, in the order of the code; every one stores its status over the
  one before.\<close>

definition later_fields :: "(nat \<times> eEEPROM_Offsets_t) list" where
  "later_fields =
    [(board_act_pas_at, eEeprom_Board_Act_Pas), (board_config_mode_at, eEeprom_Board_config_Mode),
     (board_mfg_date_at, eEeprom_Mfg_Date), (board_part_num_at, eEeprom_Part_Num), (board_uuid_at, eEeprom_Uuid),
     (board_pcie_info_at, eEeprom_Pcie_Info), (board_max_power_mode_at, eEeprom_Max_Power_Mode),
     (Memory_size_at, eEeprom_mem_Size), (OEM_ID_at, eEeprom_Oemid_Size)]"

definition read_fields :: "'b i2c_ops \<Rightarrow> nat \<Rightarrow> eeprom_table \<Rightarrow> 'b board \<Rightarrow> (int \<times> 'b board) option" where
  "read_fields io n t bd = do {
     (st, bd1) \<leftarrow> update_field io n t product_name_at eEeprom_Product_Name bd;
     if st \<noteq> XST_SUCCESS then Some (XST_FAILURE, bd1)
     else do {
       (st2, bd2) \<leftarrow> update_fields io n t [(board_rev_at, eEeprom_Board_Rev), (board_serial_at, eEeprom_Board_Serial)] (st, bd1);
       bd3 \<leftarrow> Num_MAC_IDS_read io n t bd2;
       bd4 \<leftarrow> read_macs io n t bd3;
       (st5, bd5) \<leftarrow> update_fields io n t later_fields (st2, bd4);
       if fst (t eEeprom_Capability_Word) \<noteq> EEPROM_V2_0_CAPABILITY_OFFSET
       then update_field io n t capability_at eEeprom_Capability_Word bd5
       else Some (st5, bd5) } }"

text \<open>The outcome of the checksum is not used.\<close>

definition Versal_EEPROM_ReadBoardInfo :: "'b i2c_ops \<Rightarrow> 'b board \<Rightarrow> (int \<times> 'b board) option" where
  "Versal_EEPROM_ReadBoardInfo io bd = do {
     (ok, b) \<leftarrow> Verify_Checksum io (bd_bus bd);
     (st, bd1) \<leftarrow> Update_BoardInfo_Data io 1 eeprom_version_at 0x0000 3 (bd\<lparr>bd_bus := b\<rparr>);
     if st \<noteq> XST_SUCCESS then Some (XST_FAILURE, bd1)
     else do {
       v \<leftarrow> rd_bytes (bd_info bd1) eeprom_version_at 3;
       (case eeprom_table_of (push_bit 16 (ucast (v ! 0)) OR push_bit 8 (ucast (v ! 1)) OR ucast (v ! 2)) of
          None \<Rightarrow> Some (XST_FAILURE, bd1)
        | Some t \<Rightarrow> read_fields io 1 t bd1) } }"

definition VMC_Get_BoardInfo :: "'b board \<Rightarrow> bytes option" where
  "VMC_Get_BoardInfo bd = copy_n (bd_info bd) SIZEOF_BOARD_INFO"

text \<open>The status of the print function: the version is one of the two known ones.\<close>

definition Versal_Print_BoardInfo :: "'b board \<Rightarrow> int" where
  "Versal_Print_BoardInfo bd =
     (let v = take 3 (drop eeprom_version_at (bd_info bd))
      in if v = chars ''3.0'' \<or> v = chars ''2.0'' then XST_SUCCESS else XST_FAILURE)"

text \<open>The log level.\<close>

abbreviation (input) VMC_LOG_LEVEL_NONE :: u8 where "VMC_LOG_LEVEL_NONE \<equiv> 6"

definition VMC_SetLogLevel :: "u8 \<Rightarrow> u8 \<Rightarrow> u8" where
  "VMC_SetLogLevel level logging_level = (if level \<le> VMC_LOG_LEVEL_NONE then level else logging_level)"

end
