(* ===== verification/Vmc_Board_Props.thy ===== *)
theory Vmc_Board_Props
  imports Vmc_Board
begin

unbundle bit_operations_syntax

text \<open>What \<open>Versal_EEPROM_ReadBoardInfo\<close> makes of the content of the EEPROM.  The EEPROM on its bus
  is the predicate \<open>serves_eeprom\<close>, its documented behaviour: it is addressed with the high byte
  first and delivers its bytes from there.\<close>

section \<open>The EEPROM\<close>

definition serves_eeprom :: "'b i2c_ops \<Rightarrow> bytes \<Rightarrow> ('b \<Rightarrow> bool) \<Rightarrow> bool" where
  "serves_eeprom io content idle \<longleftrightarrow>
     (\<forall>b hi lo k. idle b \<and> 256 * unat hi + unat lo + k \<le> length content \<longrightarrow>
        (\<exists>b'. i2c_send_rs_recv io LPD_I2C_0 SLAVE_ADDRESS_M24C128 [hi, lo] k b =
                Some ((XST_SUCCESS, take k (drop (256 * unat hi + unat lo) content)), b') \<and> idle b'))"

lemma stored_same: "length ys = length xs \<Longrightarrow> stored ys xs = ys"
  by (simp add: stored_def)

lemma M24C128_ReadByte_serves:
  assumes io: "serves_eeprom io content idle" and b: "idle b" and a: "a < 256" "a < length content"
  shows "\<exists>b'. M24C128_ReadByte io LPD_I2C_0 SLAVE_ADDRESS_M24C128 (of_nat (256 * a)) v b =
                Some ((XST_SUCCESS, content ! a), b') \<and> idle b'"
proof -
  have "unat (of_nat (256 * a) :: u16) = 256 * a" using a by (subst unat_of_nat) simp
  moreover have "of_nat (256 * a) = (0 :: u8)" by (subst unat_eq_0 [symmetric], subst unat_of_nat) simp
  ultimately have off: "le_bytes 2 (unat (of_nat (256 * a) :: u16)) = [0, of_nat a]"
    by (simp add: numeral_2_eq_2 del: of_nat_mult)
  have n: "unat (of_nat a :: u8) = a" using a by (simp add: unat_of_nat)
  obtain b' where s: "i2c_send_rs_recv io LPD_I2C_0 SLAVE_ADDRESS_M24C128 [0, of_nat a] 1 b =
      Some ((XST_SUCCESS, take 1 (drop a content)), b')" and b': "idle b'"
    using io b a n unfolding serves_eeprom_def by (metis One_nat_def Suc_leI add.commute add_0 mult_0_right plus_1_eq_Suc unsigned_0)
  have "take 1 (drop a content) = [content ! a]" using a by (simp add: take_Suc_conv_app_nth)
  with s b' show ?thesis unfolding M24C128_ReadByte_def reg_read_def off by (auto simp: stored_same)
qed

section \<open>One field\<close>

definition spliced :: "bytes \<Rightarrow> nat \<Rightarrow> bytes \<Rightarrow> bytes" where
  "spliced xs p ys = take p xs @ ys @ drop (p + length ys) xs"

lemma length_spliced [simp]: "p + length ys \<le> length xs \<Longrightarrow> length (spliced xs p ys) = length xs"
  by (simp add: spliced_def)

lemma nth_spliced:
  "p + length ys \<le> length xs \<Longrightarrow> j < length xs \<Longrightarrow>
   spliced xs p ys ! j = (if p \<le> j \<and> j < p + length ys then ys ! (j - p) else xs ! j)"
  by (auto simp: spliced_def nth_append)

lemma read_eeprom_serves:
  assumes io: "serves_eeprom io content idle"
  shows "idle (bd_bus bd) \<Longrightarrow> a + k \<le> 256 \<Longrightarrow> a + k \<le> length content \<Longrightarrow> p + k \<le> length (bd_info bd) \<Longrightarrow>
    st = XST_SUCCESS \<Longrightarrow> off = of_nat (256 * a) \<Longrightarrow>
    \<exists>b'. read_eeprom io LPD_I2C_0 f k p off st bd =
      Some (XST_SUCCESS, bd\<lparr>bd_info := spliced (bd_info bd) p (map f (take k (drop a content))), bd_bus := b'\<rparr>) \<and> idle b'"
proof (induction k arbitrary: p a off bd st)
  case 0
  then show ?case by (intro exI [of _ "bd_bus bd"]) (simp add: spliced_def)
next
  case (Suc k)
  obtain b' where r: "M24C128_ReadByte io LPD_I2C_0 SLAVE_ADDRESS_M24C128 (of_nat (256 * a)) (bd_info bd ! p) (bd_bus bd) =
      Some ((XST_SUCCESS, content ! a), b')" and b': "idle b'"
    using M24C128_ReadByte_serves [OF io Suc.prems(1), of a "bd_info bd ! p"] Suc.prems by fastforce
  let ?bd = "bd\<lparr>bd_info := (bd_info bd)[p := f (content ! a)], bd_bus := b'\<rparr>"
  have "\<exists>b''. read_eeprom io LPD_I2C_0 f k (p + 1) (off + 0x0100) XST_SUCCESS ?bd =
      Some (XST_SUCCESS, ?bd\<lparr>bd_info := spliced (bd_info ?bd) (p + 1) (map f (take k (drop (a + 1) content))), bd_bus := b''\<rparr>) \<and> idle b''"
    by (rule Suc.IH) (use Suc.prems b' in simp_all)
  moreover have "spliced ((bd_info bd)[p := f (content ! a)]) (p + 1) (map f (take k (drop (a + 1) content))) =
      spliced (bd_info bd) p (map f (take (Suc k) (drop a content)))"
  proof -
    have "take (Suc k) (drop a content) = content ! a # take k (drop (a + 1) content)"
      using Suc.prems by (metis Cons_nth_drop_Suc Suc_eq_plus1 add_Suc_right less_add_Suc1 order_less_le_trans take_Suc_Cons)
    moreover have "take (p + 1) ((bd_info bd)[p := x]) = take p (bd_info bd) @ [x]" for x
      using Suc.prems by (simp add: take_Suc_conv_app_nth)
    ultimately show ?thesis using Suc.prems by (simp add: spliced_def)
  qed
  ultimately show ?case using Suc.prems r by simp
qed

definition field_of :: "bytes \<Rightarrow> nat \<Rightarrow> nat \<Rightarrow> bytes" where
  "field_of content a k = map blank (take k (drop a content)) @ [0]"

lemma Update_serves:
  assumes io: "serves_eeprom io content idle" and b: "idle (bd_bus bd)"
    and k: "a + k \<le> 256" "a + k \<le> length content" "p + k < length (bd_info bd)"
  shows "\<exists>b'. Update_BoardInfo_Data io LPD_I2C_0 p (of_nat (256 * a)) k bd =
      Some (XST_SUCCESS, bd\<lparr>bd_info := spliced (bd_info bd) p (field_of content a k), bd_bus := b'\<rparr>) \<and> idle b'"
proof -
  let ?f = "map blank (take k (drop a content))"
  have len: "length ?f = k" using k by simp
  have "(spliced (bd_info bd) p ?f)[p + k := 0] = spliced (bd_info bd) p (field_of content a k)"
    using k len Cons_nth_drop_Suc [of "p + k" "bd_info bd", symmetric]
    by (simp add: spliced_def field_of_def list_update_append)
  moreover have "p + k < length (spliced (bd_info bd) p ?f)" using k len by simp
  moreover obtain b' where "read_eeprom io LPD_I2C_0 blank k p (of_nat (256 * a)) XST_SUCCESS bd =
      Some (XST_SUCCESS, bd\<lparr>bd_info := spliced (bd_info bd) p ?f, bd_bus := b'\<rparr>)" and "idle b'"
    using read_eeprom_serves [OF io b k(1,2), of p XST_SUCCESS "of_nat (256 * a)" blank] k by auto
  ultimately show ?thesis by (intro exI [of _ b']) (simp add: Update_BoardInfo_Data_def)
qed

section \<open>The addresses\<close>

definition be_nat :: "bytes \<Rightarrow> nat" where "be_nat xs = le_nat (rev xs)"

lemma be_nat_Nil [simp]: "be_nat [] = 0"
  by (simp add: be_nat_def)

lemma be_nat_snoc [simp]: "be_nat (xs @ [x]) = unat x + 256 * be_nat xs"
  by (simp add: be_nat_def)

lemma be_nat_less: "be_nat xs < 256 ^ length xs"
  using le_nat_less [of "rev xs"] by (simp add: be_nat_def)

lemma inc_mac_length [simp]: "length (inc_mac i m) = length m"
  by (induction i arbitrary: m) (auto simp: Let_def)

lemma inc_mac_prefix:
  "i \<le> length m \<Longrightarrow> drop i (inc_mac i m) = drop i m \<and>
   be_nat (take i (inc_mac i m)) = (be_nat (take i m) + 1) mod 256 ^ i"
proof (induction i arbitrary: m)
  case (Suc i)
  have i: "i < length m" using Suc.prems by simp
  have tk: "take (Suc i) xs = take i xs @ [xs ! i]" if "length xs = length m" for xs :: bytes
    using i that by (simp add: take_Suc_conv_app_nth)
  have inc: "unat (ucast (m ! i) + 1 :: u16) = unat (m ! i) + 1"
    using unat_byte_less [of "m ! i"] by (subst unat_word_ariths) simp
  show ?case
  proof (cases "255 < (ucast (m ! i) + 1 :: u16)")
    case True
    then have x: "unat (m ! i) = 255" using inc unat_byte_less [of "m ! i"] by (simp add: word_less_nat_alt)
    note IH = Suc.IH [of "m[i := 0]"]
    have d: "drop i (inc_mac i (m[i := 0])) = 0 # drop (Suc i) m"
      using IH i by (simp add: Cons_nth_drop_Suc [symmetric])
    have last: "inc_mac i (m[i := 0]) ! i = 0"
      using arg_cong [OF d, where f = "\<lambda>xs. xs ! 0"] i by simp
    have "drop (Suc i) (inc_mac i (m[i := 0])) = drop (Suc i) m"
      using arg_cong [OF d, where f = tl] by (simp add: drop_Suc drop_tl [symmetric] tl_drop)
    moreover have "(256 * (be_nat (take i m) + 1)) mod (256 * 256 ^ i) = 256 * ((be_nat (take i m) + 1) mod 256 ^ i)"
      by (rule mult_mod_right [symmetric])
    ultimately show ?thesis using True IH i x last by (simp add: tk algebra_simps)
  next
    case False
    then have x: "unat (m ! i) < 255" using inc by (simp add: word_less_nat_alt)
    have v: "unat (ucast (ucast (m ! i) + 1 :: u16) :: u8) = unat (m ! i) + 1"
      using inc x by (simp add: unsigned_ucast_eq take_bit_nat_eq_self)
    have "unat (m ! i) + 1 + 256 * be_nat (take i m) < 256 * 256 ^ i"
      using x be_nat_less [of "take i m"] i by simp
    then show ?thesis using False i v by (simp add: tk)
  qed
qed simp

lemma inc_mac_number: "be_nat (inc_mac (length m) m) = (be_nat m + 1) mod 256 ^ length m"
  using inc_mac_prefix [of "length m" m] by simp

fun mac_rows :: "nat \<Rightarrow> bytes \<Rightarrow> bytes" where
  "mac_rows 0 mac = []"
| "mac_rows (Suc k) mac = inc_mac (length mac) mac @ [0] @ mac_rows k (inc_mac (length mac) mac)"

lemma length_mac_rows [simp]: "length (mac_rows k mac) = k * (length mac + 1)"
  by (induction k arbitrary: mac) auto

lemma spliced_twice:
  "p + length ys + length zs \<le> length xs \<Longrightarrow>
   spliced (spliced xs p ys) (p + length ys) zs = spliced xs p (ys @ zs)"
  by (simp add: spliced_def ac_simps)

lemma mac_loop_rows:
  "length mac = 6 \<Longrightarrow> board_mac_at + 7 * (j + k) \<le> length info \<Longrightarrow>
   mac_loop k j mac info = Some (spliced info (board_mac_at + 7 * j) (mac_rows k mac))"
proof (induction k arbitrary: j mac info)
  case (Suc k)
  let ?m = "inc_mac (length mac) mac" and ?p = "board_mac_at + 7 * j"
  have w: "wr_bytes info ?p (?m @ [0]) = Some (spliced info ?p (?m @ [0]))"
    using Suc.prems by (simp add: wr_bytes_def spliced_def)
  have "mac_loop k (j + 1) ?m (spliced info ?p (?m @ [0])) =
      Some (spliced (spliced info ?p (?m @ [0])) (board_mac_at + 7 * (j + 1)) (mac_rows k ?m))"
    by (rule Suc.IH) (use Suc.prems in \<open>simp_all add: algebra_simps\<close>)
  also have "spliced (spliced info ?p (?m @ [0])) (board_mac_at + 7 * (j + 1)) (mac_rows k ?m) =
      spliced info ?p (mac_rows (Suc k) mac)"
    using spliced_twice [of ?p "?m @ [0]" "mac_rows k ?m" info] Suc.prems by (simp add: algebra_simps)
  finally show ?case by (simp only: mac_loop.simps Let_def w bind.bind_lunit)
qed (simp add: spliced_def)

lemma mac_rows_nth:
  "length mac = 6 \<Longrightarrow> i < k \<Longrightarrow>
   be_nat (take 6 (drop (7 * i) (mac_rows k mac))) = (be_nat mac + i + 1) mod 256 ^ 6"
proof (induction k arbitrary: i mac)
  case (Suc k)
  show ?case
  proof (cases i)
    case 0
    then show ?thesis using Suc.prems inc_mac_number [of mac] by simp
  next
    case (Suc i')
    then show ?thesis
      using Suc.IH [of "inc_mac (length mac) mac" i'] Suc.prems inc_mac_number [of mac]
        mod_add_left_eq [of "Suc (be_nat mac)" "256 ^ 6" "Suc i'"]
      by simp
  qed
qed simp

section \<open>The whole struct\<close>

definition part :: "bytes \<Rightarrow> nat \<Rightarrow> nat \<Rightarrow> bytes" where
  "part xs p n = take n (drop p xs)"

lemma part_spliced_same: "p + length ys \<le> length xs \<Longrightarrow> n = length ys \<Longrightarrow> part (spliced xs p ys) p n = ys"
  by (simp add: part_def spliced_def)

lemma part_spliced_within:
  assumes "q + length ys \<le> length xs" "q \<le> p" "p + n \<le> q + length ys"
  shows "part (spliced xs q ys) p n = part ys (p - q) n"
  by (rule nth_equalityI) (use assms in \<open>simp_all add: part_def nth_spliced\<close>)

lemma part_spliced_other:
  assumes "q + length ys \<le> length xs" "p + n \<le> length xs" "p + n \<le> q \<or> q + length ys \<le> p"
  shows "part (spliced xs q ys) p n = part xs p n"
  by (rule nth_equalityI) (use assms in \<open>auto simp: part_def nth_spliced\<close>)

text \<open>Where an offset of a table is in the EEPROM, and what is read from there.\<close>

definition eeprom_at :: "eeprom_table \<Rightarrow> eEEPROM_Offsets_t \<Rightarrow> nat" where
  "eeprom_at t e = unat (fst (t e)) div 256"

definition content_of :: "bytes \<Rightarrow> eeprom_table \<Rightarrow> eEEPROM_Offsets_t \<Rightarrow> bytes" where
  "content_of content t e = field_of content (eeprom_at t e) (snd (t e))"

definition fits :: "eeprom_table \<Rightarrow> nat \<times> eEEPROM_Offsets_t \<Rightarrow> bool" where
  "fits t = (\<lambda>(p, e). fst (t e) = of_nat (256 * eeprom_at t e) \<and> eeprom_at t e + snd (t e) \<le> 128 \<and>
     p + snd (t e) < SIZEOF_BOARD_INFO)"

definition put_field :: "bytes \<Rightarrow> eeprom_table \<Rightarrow> nat \<times> eEEPROM_Offsets_t \<Rightarrow> bytes \<Rightarrow> bytes" where
  "put_field content t f xs = spliced xs (fst f) (content_of content t (snd f))"

lemma length_content_of:
  "fits t (p, e) \<Longrightarrow> 128 \<le> length content \<Longrightarrow> length (content_of content t e) = snd (t e) + 1"
  by (auto simp: fits_def content_of_def field_of_def min_def)

lemma length_put_field:
  "fits t f \<Longrightarrow> 128 \<le> length content \<Longrightarrow> length xs = SIZEOF_BOARD_INFO \<Longrightarrow>
   length (put_field content t f xs) = SIZEOF_BOARD_INFO"
  using length_content_of [of t "fst f" "snd f" content] by (auto simp: put_field_def fits_def split: prod.splits)

lemma update_field_serves:
  assumes io: "serves_eeprom io content idle" and b: "idle (bd_bus bd)" and c: "128 \<le> length content"
    and f: "fits t (p, e)" and l: "length (bd_info bd) = SIZEOF_BOARD_INFO"
  shows "\<exists>b'. update_field io LPD_I2C_0 t p e bd =
      Some (XST_SUCCESS, bd\<lparr>bd_info := put_field content t (p, e) (bd_info bd), bd_bus := b'\<rparr>) \<and> idle b'"
  using Update_serves [OF io b, of "eeprom_at t e" "snd (t e)" p] c f l
  by (auto simp: update_field_def fits_def put_field_def content_of_def simp del: of_nat_mult)

lemma update_fields_serves:
  assumes io: "serves_eeprom io content idle" and c: "128 \<le> length content"
  shows "idle (bd_bus bd) \<Longrightarrow> length (bd_info bd) = SIZEOF_BOARD_INFO \<Longrightarrow> \<forall>f \<in> set fs. fits t f \<Longrightarrow>
    \<exists>b'. update_fields io LPD_I2C_0 t fs (XST_SUCCESS, bd) =
      Some (XST_SUCCESS, bd\<lparr>bd_info := fold (put_field content t) fs (bd_info bd), bd_bus := b'\<rparr>) \<and> idle b'"
proof (induction fs arbitrary: bd)
  case Nil
  then show ?case by (intro exI [of _ "bd_bus bd"]) simp
next
  case (Cons f fs)
  obtain p e where f: "f = (p, e)" by fastforce
  obtain b' where u: "update_field io LPD_I2C_0 t p e bd =
      Some (XST_SUCCESS, bd\<lparr>bd_info := put_field content t f (bd_info bd), bd_bus := b'\<rparr>)" and "idle b'"
    using update_field_serves [OF io Cons.prems(1) c, of t p e] Cons.prems f by auto
  then show ?case
    using Cons.IH [of "bd\<lparr>bd_info := put_field content t f (bd_info bd), bd_bus := b'\<rparr>"] Cons.prems f
    by (auto simp: length_put_field c)
qed

definition all_rows :: "nat \<Rightarrow> bytes \<Rightarrow> bytes" where
  "all_rows num mac = mac @ [0] @ mac_rows (num - 1) mac"

lemma all_rows_nth:
  assumes "length mac = 6" "i < num"
  shows "be_nat (part (all_rows num mac) (7 * i) 6) = (be_nat mac + i) mod 256 ^ 6"
proof (cases i)
  case 0
  then show ?thesis using assms be_nat_less [of mac] by (simp add: part_def all_rows_def)
next
  case (Suc i')
  then show ?thesis using assms mac_rows_nth [of mac i' "num - 1"] by (simp add: part_def all_rows_def)
qed

lemma read_macs_serves:
  assumes io: "serves_eeprom io content idle" and b: "idle (bd_bus bd)" and c: "128 \<le> length content"
    and l: "length (bd_info bd) = SIZEOF_BOARD_INFO"
    and num: "bd_info bd ! Num_MAC_IDS_at = n" "1 \<le> unat n" "unat n \<le> 4"
  shows "\<exists>b'. read_macs io LPD_I2C_0 Ver_3_0_Offset_Size bd =
      Some (bd\<lparr>bd_info := spliced (bd_info bd) board_mac_at (all_rows (unat n) (part content 0x37 6)), bd_bus := b'\<rparr>) \<and> idle b'"
proof -
  let ?mac = "part content 0x37 6" and ?xs = "bd_info bd"
  have len: "length ?mac = 6" using c by (simp add: part_def)
  obtain b' where r: "read_eeprom io LPD_I2C_0 id 6 board_mac_at 0x3700 0 bd =
      Some (XST_SUCCESS, bd\<lparr>bd_info := spliced ?xs board_mac_at ?mac, bd_bus := b'\<rparr>)" and "idle b'"
    using read_eeprom_serves [OF io b, where a = "0x37" and k = 6 and p = "board_mac_at" and st = 0 and off = "0x3700" and f = id] c l
    by (auto simp: SIZEOF_BOARD_INFO_def part_def)
  moreover have "(spliced ?xs board_mac_at ?mac)[board_mac_at + 6 := 0] = spliced ?xs board_mac_at (?mac @ [0])"
    using l len Cons_nth_drop_Suc [of "board_mac_at + 6" ?xs, symmetric]
    by (simp add: spliced_def list_update_append SIZEOF_BOARD_INFO_def)
  moreover have "rd_bytes (spliced ?xs board_mac_at (?mac @ [0])) board_mac_at 6 = Some ?mac"
    using l len part_spliced_within [of board_mac_at "?mac @ [0]" ?xs board_mac_at 6]
    by (simp add: rd_bytes_def SIZEOF_BOARD_INFO_def part_def)
  moreover have "spliced ?xs board_mac_at (?mac @ [0]) ! Num_MAC_IDS_at = n"
    using l len num by (simp add: nth_spliced SIZEOF_BOARD_INFO_def)
  moreover have "mac_loop (unat n - 1) 1 ?mac (spliced ?xs board_mac_at (?mac @ [0])) =
      Some (spliced ?xs board_mac_at (all_rows (unat n) ?mac))"
    using mac_loop_rows [OF len, of 1 "unat n - 1" "spliced ?xs board_mac_at (?mac @ [0])"]
      spliced_twice [of board_mac_at "?mac @ [0]" "mac_rows (unat n - 1) ?mac" ?xs] l len num
    by (simp add: SIZEOF_BOARD_INFO_def all_rows_def)
  ultimately show ?thesis using l len
    by (intro exI [of _ b']) (simp add: read_macs_def SIZEOF_BOARD_INFO_def)
qed

section \<open>The board information\<close>

definition plain_fields :: "(nat \<times> eEEPROM_Offsets_t) list" where
  "plain_fields =
     [(product_name_at, eEeprom_Product_Name), (board_rev_at, eEeprom_Board_Rev), (board_serial_at, eEeprom_Board_Serial)]
     @ later_fields @ [(capability_at, eEeprom_Capability_Word)]"

abbreviation V3 :: eeprom_table where "V3 \<equiv> Ver_3_0_Offset_Size"

lemma eeprom_at_V3 [simp]:
  "eeprom_at V3 eEeprom_Product_Name = 0x08" "eeprom_at V3 eEeprom_Board_Rev = 0x20"
  "eeprom_at V3 eEeprom_Board_Serial = 0x28" "eeprom_at V3 eEeprom_Board_Tot_Mac_Id = 0x36"
  "eeprom_at V3 eEeprom_Board_Act_Pas = 0x3D" "eeprom_at V3 eEeprom_Board_config_Mode = 0x3E"
  "eeprom_at V3 eEeprom_Mfg_Date = 0x3F" "eeprom_at V3 eEeprom_Part_Num = 0x42" "eeprom_at V3 eEeprom_Uuid = 0x5A"
  "eeprom_at V3 eEeprom_Pcie_Info = 0x6A" "eeprom_at V3 eEeprom_Max_Power_Mode = 0x72"
  "eeprom_at V3 eEeprom_mem_Size = 0x73" "eeprom_at V3 eEeprom_Oemid_Size = 0x77"
  "eeprom_at V3 eEeprom_Capability_Word = 0x7B"
  by (simp_all add: eeprom_at_def)

lemma fits_plain_fields: "\<forall>f \<in> set plain_fields. fits V3 f"
  by (simp add: plain_fields_def later_fields_def fits_def SIZEOF_BOARD_INFO_def)

lemma fits_num: "fits V3 (Num_MAC_IDS_at, eEeprom_Board_Tot_Mac_Id)"
  by (simp add: fits_def SIZEOF_BOARD_INFO_def)

definition first_fields :: "(nat \<times> eEEPROM_Offsets_t) list" where
  "first_fields = [(board_rev_at, eEeprom_Board_Rev), (board_serial_at, eEeprom_Board_Serial)]"

text \<open>The struct after all of it.\<close>

definition board_info_of :: "bytes \<Rightarrow> bytes \<Rightarrow> bytes" where
  "board_info_of content xs =
     (let put = put_field content V3;
          x1 = spliced xs eeprom_version_at (field_of content 0 3);
          x2 = fold put first_fields (put (product_name_at, eEeprom_Product_Name) x1);
          x3 = put (Num_MAC_IDS_at, eEeprom_Board_Tot_Mac_Id) x2;
          x4 = spliced x3 board_mac_at (all_rows (unat (content ! 0x36)) (part content 0x37 6))
      in put (capability_at, eEeprom_Capability_Word) (fold put later_fields x4))"

lemma Verify_Checksum_serves:
  assumes io: "serves_eeprom io content idle" and b: "idle b" and c: "128 \<le> length content"
  shows "\<exists>ok b'. Verify_Checksum io b = Some (ok, b') \<and> idle b'"
proof -
  have "le_bytes EEPROM_ADDRESS_SIZE (unat (0 :: u16)) = [0, 0]" by (simp add: numeral_2_eq_2)
  moreover obtain b' where "i2c_send_rs_recv io LPD_I2C_0 SLAVE_ADDRESS_M24C128 [0, 0] 128 b =
      Some ((XST_SUCCESS, take 128 (drop 0 content)), b')" and "idle b'"
    using io b c unfolding serves_eeprom_def by (metis add_0 mult_0_right unsigned_0)
  ultimately show ?thesis by (simp add: Verify_Checksum_def M24C128_ReadMultiBytes_def reg_read_def)
qed

lemma length_fold_put_field:
  "\<forall>f \<in> set fs. fits t f \<Longrightarrow> 128 \<le> length content \<Longrightarrow> length xs = SIZEOF_BOARD_INFO \<Longrightarrow>
   length (fold (put_field content t) fs xs) = SIZEOF_BOARD_INFO"
  by (induction fs arbitrary: xs) (simp_all add: length_put_field)

lemma part_version:
  assumes "128 \<le> length content" "take 3 content = chars ''3.0''" "length xs = SIZEOF_BOARD_INFO"
  shows "rd_bytes (spliced xs eeprom_version_at (field_of content 0 3)) eeprom_version_at 3 = Some [0x33, 0x2E, 0x30]"
proof -
  have "field_of content 0 3 = [0x33, 0x2E, 0x30, 0]"
    using assms by (simp add: field_of_def chars_def blank_def)
  then show ?thesis using assms by (simp add: rd_bytes_def spliced_def SIZEOF_BOARD_INFO_def)
qed

lemma ReadBoardInfo_serves:
  assumes io: "serves_eeprom io content idle" and b: "idle (bd_bus bd)" and c: "128 \<le> length content"
    and l: "length (bd_info bd) = SIZEOF_BOARD_INFO" and ver: "take 3 content = chars ''3.0''"
    and num: "1 \<le> unat (content ! 0x36)" "unat (content ! 0x36) \<le> 4"
  shows "\<exists>b'. Versal_EEPROM_ReadBoardInfo io bd =
      Some (XST_SUCCESS, bd\<lparr>bd_info := board_info_of content (bd_info bd), bd_bus := b'\<rparr>) \<and> idle b'"
proof -
  let ?put = "put_field content V3" and ?xs = "bd_info bd"
  let ?x1 = "spliced ?xs eeprom_version_at (field_of content 0 3)"
  let ?x1' = "?put (product_name_at, eEeprom_Product_Name) ?x1"
  let ?x2 = "fold ?put first_fields ?x1'"
  let ?x3 = "?put (Num_MAC_IDS_at, eEeprom_Board_Tot_Mac_Id) ?x2"
  let ?x4 = "spliced ?x3 board_mac_at (all_rows (unat (content ! 0x36)) (part content 0x37 6))"
  let ?x5 = "fold ?put later_fields ?x4"
  have fit: "fits V3 f" if "f \<in> set plain_fields" for f using fits_plain_fields that by blast
  have fit1: "\<forall>f \<in> set first_fields. fits V3 f" and fit2: "\<forall>f \<in> set later_fields. fits V3 f"
    and fp: "fits V3 (product_name_at, eEeprom_Product_Name)" and fc: "fits V3 (capability_at, eEeprom_Capability_Word)"
    by (auto intro: fit simp: plain_fields_def first_fields_def)
  have "length (field_of content 0 3) = 4" using c by (simp add: field_of_def)
  then have l1: "length ?x1 = SIZEOF_BOARD_INFO" using l by (simp add: SIZEOF_BOARD_INFO_def)
  have l2: "length ?x2 = SIZEOF_BOARD_INFO"
    by (rule length_fold_put_field [OF fit1 c length_put_field [OF fp c l1]])
  have l3: "length ?x3 = SIZEOF_BOARD_INFO" by (rule length_put_field [OF fits_num c l2])
  have "length (all_rows (unat (content ! 0x36)) (part content 0x37 6)) = 7 * unat (content ! 0x36)"
    using c num by (cases "unat (content ! 0x36)") (simp_all add: all_rows_def part_def)
  then have l4: "length ?x4 = SIZEOF_BOARD_INFO" using l3 num by (simp add: SIZEOF_BOARD_INFO_def)
  have l5: "length ?x5 = SIZEOF_BOARD_INFO" by (rule length_fold_put_field [OF fit2 c l4])
  have n3: "?x3 ! Num_MAC_IDS_at = content ! 0x36"
  proof -
    have "length (content_of content V3 eEeprom_Board_Tot_Mac_Id) = 2"
      using length_content_of [OF fits_num c] by simp
    moreover have "content_of content V3 eEeprom_Board_Tot_Mac_Id ! 0 = content ! 0x36"
      using c num by (auto simp: content_of_def field_of_def blank_def nth_append)
    ultimately show ?thesis using l2 by (simp add: put_field_def nth_spliced SIZEOF_BOARD_INFO_def)
  qed
  obtain ok b0 where s0: "Verify_Checksum io (bd_bus bd) = Some (ok, b0)" "idle b0"
    using Verify_Checksum_serves [OF io b c] by blast
  obtain b1 where s1: "Update_BoardInfo_Data io 1 eeprom_version_at 0x0000 3 (bd\<lparr>bd_bus := b0\<rparr>) =
      Some (XST_SUCCESS, bd\<lparr>bd_info := ?x1, bd_bus := b1\<rparr>)" "idle b1"
    using Update_serves [OF io, of "bd\<lparr>bd_bus := b0\<rparr>" 0 3 0] s0(2) c l by (auto simp: SIZEOF_BOARD_INFO_def)
  obtain b2 where s2: "update_field io 1 V3 product_name_at eEeprom_Product_Name (bd\<lparr>bd_info := ?x1, bd_bus := b1\<rparr>) =
      Some (XST_SUCCESS, bd\<lparr>bd_info := ?x1', bd_bus := b2\<rparr>)" "idle b2"
    using update_field_serves [OF io _ c fp, of "bd\<lparr>bd_info := ?x1, bd_bus := b1\<rparr>"] s1(2) l1 by auto
  obtain b3 where s3: "update_fields io 1 V3 first_fields (XST_SUCCESS, bd\<lparr>bd_info := ?x1', bd_bus := b2\<rparr>) =
      Some (XST_SUCCESS, bd\<lparr>bd_info := ?x2, bd_bus := b3\<rparr>)" "idle b3"
    using update_fields_serves [OF io c, of "bd\<lparr>bd_info := ?x1', bd_bus := b2\<rparr>" first_fields V3] s2(2) fit1
      length_put_field [OF fp c l1] by auto
  obtain b4 where s4: "update_field io 1 V3 Num_MAC_IDS_at eEeprom_Board_Tot_Mac_Id (bd\<lparr>bd_info := ?x2, bd_bus := b3\<rparr>) =
      Some (XST_SUCCESS, bd\<lparr>bd_info := ?x3, bd_bus := b4\<rparr>)" "idle b4"
    using update_field_serves [OF io _ c fits_num, of "bd\<lparr>bd_info := ?x2, bd_bus := b3\<rparr>"] s3(2) l2 by auto
  obtain b5 where s5: "read_macs io 1 V3 (bd\<lparr>bd_info := ?x3, bd_bus := b4\<rparr>) =
      Some (bd\<lparr>bd_info := ?x4, bd_bus := b5\<rparr>)" "idle b5"
    using read_macs_serves [OF io _ c, of "bd\<lparr>bd_info := ?x3, bd_bus := b4\<rparr>"] s4(2) l3 n3 num by auto
  obtain b6 where s6: "update_fields io 1 V3 later_fields (XST_SUCCESS, bd\<lparr>bd_info := ?x4, bd_bus := b5\<rparr>) =
      Some (XST_SUCCESS, bd\<lparr>bd_info := ?x5, bd_bus := b6\<rparr>)" "idle b6"
    using update_fields_serves [OF io c, of "bd\<lparr>bd_info := ?x4, bd_bus := b5\<rparr>" later_fields V3] s5(2) fit2 l4 by auto
  obtain b7 where s7: "update_field io 1 V3 capability_at eEeprom_Capability_Word (bd\<lparr>bd_info := ?x5, bd_bus := b6\<rparr>) =
      Some (XST_SUCCESS, bd\<lparr>bd_info := ?put (capability_at, eEeprom_Capability_Word) ?x5, bd_bus := b7\<rparr>)" "idle b7"
    using update_field_serves [OF io _ c fc, of "bd\<lparr>bd_info := ?x5, bd_bus := b6\<rparr>"] s6(2) l5 by auto
  have "read_fields io 1 V3 (bd\<lparr>bd_info := ?x1, bd_bus := b1\<rparr>) =
      Some (XST_SUCCESS, bd\<lparr>bd_info := board_info_of content ?xs, bd_bus := b7\<rparr>)"
    using s2(1) s3(1) s4(1) s5(1) s6(1) s7(1)
    by (simp add: read_fields_def Num_MAC_IDS_read_def first_fields_def [symmetric] board_info_of_def Let_def)
  moreover have "eeprom_table_of (push_bit 16 (ucast (0x33 :: u8)) OR push_bit 8 (ucast (0x2E :: u8)) OR ucast (0x30 :: u8)) =
      Some V3"
    by (simp add: eeprom_table_of_def EEPROM_V3_0_def)
  ultimately show ?thesis using s0(1) s1(1) s7(2) part_version [OF c ver l]
    by (intro exI [of _ b7]) (simp add: Versal_EEPROM_ReadBoardInfo_def)
qed

lemma length_content_of_V3 [simp]:
  "128 \<le> length content \<Longrightarrow> e \<noteq> eEeprom_Board_Mac \<Longrightarrow> length (content_of content V3 e) = Suc (snd (V3 e))"
  by (cases e) (auto simp: content_of_def field_of_def)

lemma length_all_rows:
  "128 \<le> length content \<Longrightarrow> 1 \<le> n \<Longrightarrow> length (all_rows n (part content 0x37 6)) = 7 * n"
  by (cases n) (simp_all add: all_rows_def part_def)

text \<open>The fields are in order and apart from each other, so one that is stored later keeps the others.\<close>

definition before :: "nat \<times> eEEPROM_Offsets_t \<Rightarrow> nat \<times> eEEPROM_Offsets_t \<Rightarrow> bool" where
  "before f g \<longleftrightarrow> fst f + snd (V3 (snd f)) < fst g"

definition proper :: "nat \<times> eEEPROM_Offsets_t \<Rightarrow> bool" where
  "proper f \<longleftrightarrow> fits V3 f \<and> snd f \<noteq> eEeprom_Board_Mac"

lemma part_put_other:
  assumes "128 \<le> length content" "proper f" "length xs = SIZEOF_BOARD_INFO" "p + n \<le> SIZEOF_BOARD_INFO"
    and "p + n \<le> fst f \<or> fst f + snd (V3 (snd f)) < p"
  shows "part (put_field content V3 f xs) p n = part xs p n"
proof -
  have "length (content_of content V3 (snd f)) = Suc (snd (V3 (snd f)))"
    using assms by (simp add: proper_def)
  then show ?thesis unfolding put_field_def
    by (intro part_spliced_other) (use assms in \<open>auto simp: proper_def fits_def split: prod.splits\<close>)
qed

lemma part_put_same:
  assumes "128 \<le> length content" "proper f" "length xs = SIZEOF_BOARD_INFO"
  shows "part (put_field content V3 f xs) (fst f) (snd (V3 (snd f)) + 1) = content_of content V3 (snd f)"
proof -
  have "length (content_of content V3 (snd f)) = Suc (snd (V3 (snd f)))"
    using assms by (simp add: proper_def)
  then show ?thesis unfolding put_field_def
    by (intro part_spliced_same) (use assms in \<open>auto simp: proper_def fits_def split: prod.splits\<close>)
qed

lemma part_fold_other:
  assumes c: "128 \<le> length content"
  shows "length xs = SIZEOF_BOARD_INFO \<Longrightarrow> p + n \<le> SIZEOF_BOARD_INFO \<Longrightarrow>
    \<forall>f \<in> set fs. proper f \<and> (p + n \<le> fst f \<or> fst f + snd (V3 (snd f)) < p) \<Longrightarrow>
    part (fold (put_field content V3) fs xs) p n = part xs p n"
  by (induction fs arbitrary: xs) (simp_all add: part_put_other c length_put_field proper_def)

lemma part_fold_same:
  assumes c: "128 \<le> length content"
  shows "length xs = SIZEOF_BOARD_INFO \<Longrightarrow> \<forall>f \<in> set fs. proper f \<Longrightarrow> sorted_wrt before fs \<Longrightarrow> g \<in> set fs \<Longrightarrow>
    part (fold (put_field content V3) fs xs) (fst g) (snd (V3 (snd g)) + 1) = content_of content V3 (snd g)"
proof (induction fs arbitrary: xs)
  case (Cons f fs)
  have l: "length (put_field content V3 f xs) = SIZEOF_BOARD_INFO"
    using Cons.prems c by (simp add: length_put_field proper_def)
  show ?case
  proof (cases "g = f")
    case True
    have "fst f + (snd (V3 (snd f)) + 1) \<le> SIZEOF_BOARD_INFO"
      using Cons.prems(2) by (auto simp: proper_def fits_def split: prod.splits)
    then have "part (fold (put_field content V3) fs (put_field content V3 f xs)) (fst f) (snd (V3 (snd f)) + 1) =
        part (put_field content V3 f xs) (fst f) (snd (V3 (snd f)) + 1)"
      using Cons.prems l by (intro part_fold_other [OF c]) (auto simp: before_def)
    then show ?thesis using Cons.prems True part_put_same [OF c, of f xs] by simp
  next
    case False
    then show ?thesis using Cons.IH [OF l] Cons.prems by simp
  qed
qed simp

definition early_fields :: "(nat \<times> eEEPROM_Offsets_t) list" where
  "early_fields = (product_name_at, eEeprom_Product_Name) # first_fields @ [(Num_MAC_IDS_at, eEeprom_Board_Tot_Mac_Id)]"

definition late_fields :: "(nat \<times> eEEPROM_Offsets_t) list" where
  "late_fields = later_fields @ [(capability_at, eEeprom_Capability_Word)]"

lemma early_fields_proper: "\<forall>f \<in> set early_fields. proper f" "sorted_wrt before early_fields"
  by (simp_all add: early_fields_def first_fields_def proper_def fits_def before_def SIZEOF_BOARD_INFO_def)

lemma late_fields_proper: "\<forall>f \<in> set late_fields. proper f \<and> 82 \<le> fst f" "sorted_wrt before late_fields"
  by (simp_all add: late_fields_def later_fields_def proper_def fits_def before_def SIZEOF_BOARD_INFO_def)

lemma plain_fields_split: "set plain_fields \<subseteq> {f \<in> set early_fields. fst f + snd (V3 (snd f)) < 53} \<union> set late_fields"
  by (simp add: plain_fields_def early_fields_def first_fields_def late_fields_def later_fields_def)

lemma board_info_parts:
  assumes c: "128 \<le> length content" and l: "length xs = SIZEOF_BOARD_INFO"
    and num: "1 \<le> unat (content ! 0x36)" "unat (content ! 0x36) \<le> 4"
  shows "f \<in> set plain_fields \<Longrightarrow> part (board_info_of content xs) (fst f) (snd (V3 (snd f)) + 1) = content_of content V3 (snd f)"
    and "part (board_info_of content xs) board_mac_at (7 * unat (content ! 0x36)) =
      all_rows (unat (content ! 0x36)) (part content 0x37 6)"
    and "length (board_info_of content xs) = SIZEOF_BOARD_INFO"
proof -
  let ?n = "unat (content ! 0x36)" and ?put = "put_field content V3"
  let ?rows = "all_rows ?n (part content 0x37 6)"
  let ?x1 = "spliced xs eeprom_version_at (field_of content 0 3)"
  let ?x3 = "fold ?put early_fields ?x1" let ?x4 = "spliced ?x3 board_mac_at ?rows"
  have info: "board_info_of content xs = fold ?put late_fields ?x4"
    by (simp add: board_info_of_def early_fields_def late_fields_def Let_def)
  have "length (field_of content 0 3) = 4" using c by (simp add: field_of_def)
  then have l1: "length ?x1 = SIZEOF_BOARD_INFO" using l by (simp add: SIZEOF_BOARD_INFO_def)
  have l3: "length ?x3 = SIZEOF_BOARD_INFO"
    by (rule length_fold_put_field) (use early_fields_proper c l1 in \<open>auto simp: proper_def\<close>)
  have lr: "length ?rows = 7 * ?n" by (rule length_all_rows [OF c num(1)])
  then have l4: "length ?x4 = SIZEOF_BOARD_INFO" using l3 num by (simp add: SIZEOF_BOARD_INFO_def)
  show "length (board_info_of content xs) = SIZEOF_BOARD_INFO" unfolding info
    by (rule length_fold_put_field) (use late_fields_proper c l4 in \<open>auto simp: proper_def\<close>)
  have low: "part (board_info_of content xs) p k = part ?x4 p k" if "p + k \<le> 82" for p k
    unfolding info by (rule part_fold_other [OF c l4]) (use that late_fields_proper in \<open>auto simp: SIZEOF_BOARD_INFO_def\<close>)
  show "part (board_info_of content xs) board_mac_at (7 * ?n) = ?rows"
    using low [of board_mac_at "7 * ?n"] lr l3 num by (simp add: part_spliced_same SIZEOF_BOARD_INFO_def)
  assume f: "f \<in> set plain_fields"
  show "part (board_info_of content xs) (fst f) (snd (V3 (snd f)) + 1) = content_of content V3 (snd f)"
  proof (cases "f \<in> set late_fields")
    case True
    then show ?thesis unfolding info using late_fields_proper by (intro part_fold_same [OF c l4]) auto
  next
    case False
    then have e: "f \<in> set early_fields" "fst f + snd (V3 (snd f)) < 53" using plain_fields_split f by auto
    have "part ?x4 (fst f) (snd (V3 (snd f)) + 1) = part ?x3 (fst f) (snd (V3 (snd f)) + 1)"
      by (rule part_spliced_other) (use e l3 lr num in \<open>simp_all add: SIZEOF_BOARD_INFO_def\<close>)
    also have "\<dots> = content_of content V3 (snd f)"
      using early_fields_proper e(1) by (intro part_fold_same [OF c l1]) auto
    finally show ?thesis using low [of "fst f" "snd (V3 (snd f)) + 1"] e(2) by simp
  qed
qed


text \<open>A bus with one EEPROM, whose state is the address it was last given.\<close>

definition eeprom_bus :: "bytes \<Rightarrow> nat i2c_ops" where
  "eeprom_bus content = \<lparr>ii_init = (\<lambda>n b. b), ii_sclk = (\<lambda>n r b. (0, b)), ii_rep_start = (\<lambda>n v b. b),
     ii_send = (\<lambda>n a xs b. (XST_SUCCESS, 256 * unat (xs ! 0) + unat (xs ! 1))),
     ii_recv = (\<lambda>n a k b. ((XST_SUCCESS, drop b content), b)), ii_busy = (\<lambda>n b. (False, b))\<rparr>"

lemma eeprom_bus_serves: "serves_eeprom (eeprom_bus content) content (\<lambda>_. True)"
  by (simp add: serves_eeprom_def i2c_send_rs_recv_def i2c_recv_def eeprom_bus_def wait_idle.simps)

definition sample_eeprom :: bytes where
  "sample_eeprom = chars ''3.0'' @ replicate 5 0xFF @ chars ''ALVEO V80'' @ replicate 15 0xFF @ replicate 22 0x41
     @ [2, 0x00, 0x0A, 0x35, 0xFF, 0xFF, 0xFF] @ replicate 67 0xFF"


text \<open>The struct has room for four addresses, but the number in the EEPROM is not checked: with 17 the
  last store is behind the end of \<open>board_info\<close>.\<close>

lemma too_many_addresses:
  assumes "length info = SIZEOF_BOARD_INFO" "length mac = 6" "16 \<le> k"
  shows "mac_loop k 1 mac info = None"
proof -
  have "board_mac_at + 7 * j \<le> SIZEOF_BOARD_INFO \<Longrightarrow> SIZEOF_BOARD_INFO < board_mac_at + 7 * (j + n) \<Longrightarrow>
      length xs = SIZEOF_BOARD_INFO \<Longrightarrow> length m = 6 \<Longrightarrow> mac_loop n j m xs = None" for n j m and xs :: bytes
  proof (induction n arbitrary: j m xs)
    case (Suc n)
    show ?case
    proof (cases "board_mac_at + 7 * j + 7 \<le> SIZEOF_BOARD_INFO")
      case True
      then show ?thesis using Suc.prems Suc.IH [of "j + 1"]
        by (auto simp: SIZEOF_BOARD_INFO_def wr_bytes_def Let_def split: bind_splits)
    next
      case False
      then show ?thesis using Suc.prems by (simp add: wr_bytes_def Let_def)
    qed
  qed (simp add: SIZEOF_BOARD_INFO_def)
  from this [of 1 k] assms show ?thesis by (simp add: SIZEOF_BOARD_INFO_def)
qed

end
