(* ===== verification/Vmc_Platform.thy ===== *)
theory Vmc_Platform
  imports Vmc_Sensors Vmc_Board
begin

unbundle bit_operations_syntax

text \<open>What the platforms of \<open>vmc/platforms\<close> share.  The readings of \<open>sensor_glvr\<close> that only the
  platforms use, the counters of their power monitors, the board information and the I2C buses are
  the record \<open>plat\<close>; it is the world of the sensor task in \<open>Vmc_Sensors\<close>.  Only one platform is
  active, so the static counters of the monitors of all platforms share their fields.  The monitors
  of the platforms follow a few patterns, which are defined once here.\<close>

section \<open>State and environment\<close>

record ('b, 'f) plat =
  pl_board_temp :: "u16 list"
  pl_local_temp :: 'f
  pl_remote_temp :: 'f
  pl_VccHbmTemp :: 'f
  pl_1V2VccoDimmTemp :: 'f
  pl_1V2GtxaVttTemp :: 'f
  pl_qsfp_temp :: "'f list"
  pl_fanRpm :: u16
  pl_total_power :: 'f
  pl_count_12vpex :: u8
  pl_count_3v3pex :: u8
  pl_count_2x4_2x3 :: u8
  pl_count_2x4 :: u8
  pl_info :: bytes
  pl_bus :: 'b

type_synonym ('b, 'f) pglvr = "(('b, 'f) plat, 'f) glvr"

record ('b, 'f, 'd) plat_env =
  pe_sensors :: "(('b, 'f) plat, 'f) sensors_env"
  pe_fpu :: "('f, 'd) fpu"
  pe_i2c :: "'b i2c_ops"
  pe_pins :: "'b pins"

abbreviation (input) e12V_PEX :: nat where "e12V_PEX \<equiv> 0"
abbreviation (input) e3V3_PEX :: nat where "e3V3_PEX \<equiv> 1"
abbreviation (input) e3V3_AUX :: nat where "e3V3_AUX \<equiv> 2"
abbreviation (input) eVCCINT :: nat where "eVCCINT \<equiv> 3"
abbreviation (input) e12V_AUX0 :: nat where "e12V_AUX0 \<equiv> 4"
abbreviation (input) e12V_AUX1 :: nat where "e12V_AUX1 \<equiv> 5"
abbreviation (input) e1V5_VCC_AUX :: nat where "e1V5_VCC_AUX \<equiv> 6"
abbreviation (input) e3V3_QSFP :: nat where "e3V3_QSFP \<equiv> 7"
abbreviation (input) eVCC_HBM :: nat where "eVCC_HBM \<equiv> 8"
abbreviation (input) e1V2_VCCO_DIMM :: nat where "e1V2_VCCO_DIMM \<equiv> 9"
abbreviation (input) e1V2_GTXAVTT :: nat where "e1V2_GTXAVTT \<equiv> 10"
abbreviation (input) eElectrical_Sensor_Max :: nat where "eElectrical_Sensor_Max \<equiv> 11"
abbreviation (input) BOARD_TEMPERATURE_SENSOR_NUM :: nat where "BOARD_TEMPERATURE_SENSOR_NUM \<equiv> 2"
abbreviation (input) MAX_COUNT_TO_WAIT_1SEC :: u8 where "MAX_COUNT_TO_WAIT_1SEC \<equiv> 10"
abbreviation (input) POWER_MODE_300W :: u8 where "POWER_MODE_300W \<equiv> 3"

definition on_plat :: "(('b, 'f) plat \<Rightarrow> ('b, 'f) plat) \<Rightarrow> ('b, 'f) pglvr \<Rightarrow> ('b, 'f) pglvr" where
  "on_plat f g = g\<lparr>gw := f (gw g)\<rparr>"

definition on_bus :: "('b \<Rightarrow> ('a \<times> 'b) option) \<Rightarrow> ('b, 'f) pglvr \<Rightarrow> ('a \<times> ('b, 'f) pglvr) option" where
  "on_bus f g = do { (r, b) \<leftarrow> f (pl_bus (gw g)); Some (r, on_plat (\<lambda>p. p\<lparr>pl_bus := b\<rparr>) g) }"

definition set_voltage :: "nat \<Rightarrow> 'f \<Rightarrow> ('b, 'f) pglvr \<Rightarrow> ('b, 'f) pglvr" where
  "set_voltage i v g = g\<lparr>g_readings := (g_readings g)\<lparr>pr_voltage := (pr_voltage (g_readings g))[i := v]\<rparr>\<rparr>"

definition set_current :: "nat \<Rightarrow> 'f \<Rightarrow> ('b, 'f) pglvr \<Rightarrow> ('b, 'f) pglvr" where
  "set_current i v g = g\<lparr>g_readings := (g_readings g)\<lparr>pr_current := (pr_current (g_readings g))[i := v]\<rparr>\<rparr>"

abbreviation voltage :: "('b, 'f) pglvr \<Rightarrow> nat \<Rightarrow> 'f" where "voltage g i \<equiv> pr_voltage (g_readings g) ! i"
abbreviation current :: "('b, 'f) pglvr \<Rightarrow> nat \<Rightarrow> 'f" where "current g i \<equiv> pr_current (g_readings g) ! i"

abbreviation flt :: "('b, 'f, 'd) plat_env \<Rightarrow> 'f float_ops" where "flt e \<equiv> fp_f (pe_fpu e)"
abbreviation dbl :: "('b, 'f, 'd) plat_env \<Rightarrow> 'd float_ops" where "dbl e \<equiv> fp_d (pe_fpu e)"

section \<open>Answers of the monitors\<close>

text \<open>The conversion of a \<open>float\<close> to an unsigned type cuts off the fraction.  C leaves it undefined when
  the type cannot hold the number; here it wraps.\<close>

definition to_u16 :: "('b, 'f, 'd) plat_env \<Rightarrow> 'f \<Rightarrow> u16" where
  "to_u16 e x = word_of_int (fo_trunc (flt e) x)"

definition to_u32 :: "('b, 'f, 'd) plat_env \<Rightarrow> 'f \<Rightarrow> u32" where
  "to_u32 e x = word_of_int (fo_trunc (flt e) x)"

definition times1000 :: "('b, 'f, 'd) plat_env \<Rightarrow> 'f \<Rightarrow> 'f" where
  "times1000 e x = fo_mul (flt e) x (fo_int (flt e) 1000)"

definition answer_bytes :: "bytes \<Rightarrow> snsr_read \<Rightarrow> snsr_read" where
  "answer_bytes bs sn =
     (put_value bs sn)\<lparr>sn_size := of_nat (length bs), sn_status := Vmc_Snsr_State_Normal\<rparr>"

definition answer_failed :: "snsr_read \<Rightarrow> snsr_read" where
  "answer_failed sn = sn\<lparr>sn_status := Vmc_Snsr_State_Comms_failure\<rparr>"

abbreviation answer16 :: "u16 \<Rightarrow> snsr_read \<Rightarrow> snsr_read" where "answer16 v \<equiv> answer_bytes (le_bytes 2 (unat v))"
abbreviation answer32 :: "u32 \<Rightarrow> snsr_read \<Rightarrow> snsr_read" where "answer32 v \<equiv> answer_bytes (le_bytes 4 (unat v))"

text \<open>A value of 0 is taken for a failed measurement.\<close>

definition nonzero16 :: "u16 \<Rightarrow> snsr_read \<Rightarrow> snsr_read" where
  "nonzero16 v sn = (if v \<noteq> 0 then answer16 v sn else answer_failed sn)"

definition nonzero32 :: "u32 \<Rightarrow> snsr_read \<Rightarrow> snsr_read" where
  "nonzero32 v sn = (if v \<noteq> 0 then answer32 v sn else answer_failed sn)"

definition read_chip_temp ::
    "('b \<Rightarrow> ((int \<times> u16 option) \<times> 'b) option) \<Rightarrow> (('b, 'f) plat, 'f) monitor_fun" where
  "read_chip_temp f sn g = do {
     ((st, v), g') \<leftarrow> on_bus f g;
     Some ((st, if st = XST_SUCCESS then answer16 (case v of None \<Rightarrow> 0 | Some t \<Rightarrow> t) sn else answer_failed sn), g') }"

definition signed_max :: "u16 \<Rightarrow> u16 \<Rightarrow> u16" where
  "signed_max a b = (if sint b < sint a then a else b)"

section \<open>Measuring\<close>

text \<open>Some monitors store 0 when the chip cannot be read, others keep the reading they have.\<close>

definition measure_or_zero ::
    "('b, 'f, 'd) plat_env \<Rightarrow> ('b \<Rightarrow> ((int \<times> 'f option) \<times> 'b) option) \<Rightarrow> ('f \<Rightarrow> ('b, 'f) pglvr \<Rightarrow> ('b, 'f) pglvr)
      \<Rightarrow> ('b, 'f) pglvr \<Rightarrow> ('b, 'f) pglvr option" where
  "measure_or_zero e f store g = do {
     ((st, v), g') \<leftarrow> on_bus f g; Some (store (case v of None \<Rightarrow> fo_int (flt e) 0 | Some x \<Rightarrow> x) g') }"

definition measure ::
    "('b \<Rightarrow> ((int \<times> 'a option) \<times> 'b) option) \<Rightarrow> ('a \<Rightarrow> ('b, 'f) pglvr \<Rightarrow> ('b, 'f) pglvr)
      \<Rightarrow> ('b, 'f) pglvr \<Rightarrow> ('b, 'f) pglvr option" where
  "measure f store g = do {
     ((st, v), g') \<leftarrow> on_bus f g; Some (case v of None \<Rightarrow> g' | Some x \<Rightarrow> store x g') }"

fun in_turn :: "(('b, 'f) pglvr \<Rightarrow> ('b, 'f) pglvr option) list \<Rightarrow> ('b, 'f) pglvr \<Rightarrow> ('b, 'f) pglvr option" where
  "in_turn [] g = Some g"
| "in_turn (f # fs) g = do { g' \<leftarrow> f g; in_turn fs g' }"

section \<open>Power\<close>

definition is_zero :: "'x float_ops \<Rightarrow> 'x \<Rightarrow> bool" where
  "is_zero fo x \<longleftrightarrow> fo_le fo x (fo_int fo 0) \<and> fo_le fo (fo_int fo 0) x"

definition milli :: "('b, 'f, 'd) plat_env \<Rightarrow> 'f \<Rightarrow> 'd" where
  "milli e x = fo_div (dbl e) (fp_widen (pe_fpu e) x) (fo_int (dbl e) 1000)"

definition watts :: "('b, 'f, 'd) plat_env \<Rightarrow> 'f \<Rightarrow> 'f \<Rightarrow> 'f" where
  "watts e i v = fp_narrow (pe_fpu e) (fo_mul (dbl e) (milli e i) (milli e v))"

definition at_least :: "('b, 'f, 'd) plat_env \<Rightarrow> 'd \<Rightarrow> 'f \<Rightarrow> bool" where
  "at_least e limit x \<longleftrightarrow> fo_le (dbl e) limit (fp_widen (pe_fpu e) x)"

definition less_than :: "('b, 'f, 'd) plat_env \<Rightarrow> 'd \<Rightarrow> 'f \<Rightarrow> bool" where
  "less_than e limit x \<longleftrightarrow> fo_less (dbl e) (fp_widen (pe_fpu e) x) limit"

text \<open>The clocks are shut down in the pass in which the counter has reached its maximum.\<close>

definition power_watch ::
    "('b, 'f, 'd) plat_env \<Rightarrow> bool \<Rightarrow> bool \<Rightarrow> u8 \<Rightarrow> ('b, 'f) pglvr \<Rightarrow> u8 \<times> ('b, 'f) pglvr" where
  "power_watch e over below c g =
     (if over
      then let (c1, g1) = (if c = MAX_COUNT_TO_WAIT_1SEC then (0, ucs_clock_shutdown (pe_sensors e) g) else (c, g))
           in (c1 + 1, g1)
      else (if c \<noteq> 0 \<and> below then 0 else c, g))"

text \<open>The power monitor of the V70 and the V80: 69 W on the 12 V rail, 10.4 W on the 3.3 V rail.\<close>

definition pex_power_monitor :: "('b, 'f, 'd) plat_env \<Rightarrow> ('b, 'f) pglvr \<Rightarrow> ('b, 'f) pglvr" where
  "pex_power_monitor e g =
     (let F = flt e;
          p12 = watts e (current g e12V_PEX) (voltage g e12V_PEX);
          p3 = watts e (current g e3V3_PEX) (voltage g e3V3_PEX);
          total = (if is_zero F p12 \<or> is_zero F p3 then fo_int F 0 else fo_add F p12 p3);
          g1 = on_plat (\<lambda>p. p\<lparr>pl_total_power := total\<rparr>) g;
          lim12 = fo_int (dbl e) 69; lim3 = quotient (dbl e) 104 10;
          (c12, g2) = power_watch e (at_least e lim12 p12) (less_than e lim12 p12) (pl_count_12vpex (gw g1)) g1;
          g3 = on_plat (\<lambda>p. p\<lparr>pl_count_12vpex := c12\<rparr>) g2;
          (c3, g4) = power_watch e (at_least e lim3 p3) (less_than e lim3 p3) (pl_count_3v3pex (gw g3)) g3
      in on_plat (\<lambda>p. p\<lparr>pl_count_3v3pex := c3\<rparr>) g4)"

section \<open>Tables\<close>

type_synonym ('b, 'f) name_table = "(string \<times> u8 option \<times> (('b, 'f) plat, 'f) monitor_fun) list"

text \<open>An index outside the table reads behind it.\<close>

definition name_entry :: "('b, 'f) name_table \<Rightarrow> ('b, 'f) pglvr name_fun" where
  "name_entry t i =
     (case rd t i of None \<Rightarrow> None | Some (n, k, f) \<Rightarrow> Some (Some (chars n, k, Some (monitor_of f))))"

definition update_record_count :: "(u8 \<times> u8) list \<Rightarrow> sdr_header list \<Rightarrow> sdr_header list" where
  "update_record_count t hs =
     map (\<lambda>(h, (ty, n)). if repository_type h = ty then h\<lparr>no_of_records := n\<rparr> else h) (zip hs t)
     @ drop (length t) hs"

text \<open>What the start of a platform stores in the function pointers of the other modules.\<close>

record ('b, 'f) pointers =
  pp_msg_ids :: "u8 list option"
  pp_total_req_size :: nat
  pp_fetch_boardinfo :: "bytes \<Rightarrow> bytes \<Rightarrow> (bytes \<times> int) option"
  pp_Monitor_Sensors :: "('b, 'f) pglvr \<Rightarrow> ('b, 'f) pglvr option"
  pp_supported_sdr_info :: "nat list"
  pp_update_record_count :: "sdr_header list \<Rightarrow> sdr_header list"

text \<open>Parts of \<open>board_info\<close> are sent to the satellite controller one after the other.\<close>

fun put_parts :: "bytes \<Rightarrow> (nat \<times> nat) list \<Rightarrow> bytes \<Rightarrow> nat \<Rightarrow> (bytes \<times> nat) option" where
  "put_parts info [] buf n = Some (buf, n)"
| "put_parts info ((at, k) # ps) buf n = do {
     xs \<leftarrow> rd_bytes info at k; ys \<leftarrow> copy_n xs k;
     buf' \<leftarrow> wr_bytes buf n ys; put_parts info ps buf' (n + k) }"

definition payload_size :: "nat \<Rightarrow> int" where
  "payload_size n = (if n \<le> MAX_VMC_SC_UART_BUF_SIZE then int n else - 1)"

definition init_throttling ::
    "('b, 'f, 'd) plat_env \<Rightarrow> 'f throttling_profile \<Rightarrow> ('b, 'f) pglvr \<Rightarrow> ('b, 'f) pglvr option" where
  "init_throttling e p g = do {
     t \<leftarrow> ClockThrottling_Initialize (flt e) p (clk_scaling_enable (g_clk_params g) \<noteq> 0) (g_throttling g);
     Some (g\<lparr>g_throttling := t\<rparr>) }"

definition init_clk_params :: "u8 \<Rightarrow> u16 \<Rightarrow> u8 \<Rightarrow> u16 \<Rightarrow> clk_params \<Rightarrow> clk_params" where
  "init_clk_params sd_temp sd_pwr th_temp th_pwr c =
     c\<lparr>is_clk_scaling_supported := 1, clk_scaling_mode := 2, clk_scaling_enable := 0,
       shutdown_limit_temp := sd_temp, shutdown_limit_pwr := sd_pwr,
       throttle_limit_temp := th_temp, throttle_limit_pwr := th_pwr\<rparr>"

end
