(* ===== verification/Vmc_V70.thy ===== *)
theory Vmc_V70
  imports Vmc_Platform
begin

text \<open>Model of \<open>vmc/platforms/v70.c\<close>: the sensors of the V70 board, its power monitor, the board
  information for the satellite controller and the start of the platform.  The limits are those of
  the regular build (not \<open>INCREASE_LIMITS_FOR_TEST\<close>).\<close>

abbreviation (input) SLAVE_ADDRESS_LM75_0_V70 :: u8 where "SLAVE_ADDRESS_LM75_0_V70 \<equiv> 0x48"
abbreviation (input) SLAVE_ADDRESS_LM75_1_V70 :: u8 where "SLAVE_ADDRESS_LM75_1_V70 \<equiv> 0x4A"
abbreviation (input) SLAVE_ADDRESS_INA3221 :: u8 where "SLAVE_ADDRESS_INA3221 \<equiv> 0x40"
abbreviation (input) SLAVE_ADDRESS_ISL68221 :: u8 where "SLAVE_ADDRESS_ISL68221 \<equiv> 0x60"

section \<open>Tables\<close>

definition v70_asdmHeader_info :: "(u8 \<times> u8) list" where
  "v70_asdmHeader_info = [(BoardInfoSDR, 11), (TemperatureSDR, 3), (VoltageSDR, 3), (CurrentSDR, 3), (PowerSDR, 1)]"

text \<open>Positions in the table of all sensors.\<close>

definition V70_Supported_Sensors :: "nat list" where
  "V70_Supported_Sensors = [0, 1, 2, 3, 4, 5, 6, 8, 9, 10, 11, 12, 13, 14, 17, 18, 19]"

definition V70_Get_Supported_Sdr_Info :: "nat list" where
  "V70_Get_Supported_Sdr_Info = V70_Supported_Sensors"

definition V70_Asdm_Update_Record_Count :: "sdr_header list \<Rightarrow> sdr_header list" where
  "V70_Asdm_Update_Record_Count = update_record_count v70_asdmHeader_info"

definition V70_VMC_SC_Comms_Msg :: "u8 list" where
  "V70_VMC_SC_Comms_Msg = [SC_COMMS_TX_I2C_SNSR]"

section \<open>Monitors\<close>

definition V70_Temperature_Read_Inlet :: "('b, 'f, 'd) plat_env \<Rightarrow> (('b, 'f) plat, 'f) monitor_fun" where
  "V70_Temperature_Read_Inlet e = read_chip_temp (LM75_ReadTemperature (pe_i2c e) LPD_I2C_0 SLAVE_ADDRESS_LM75_0_V70)"

definition V70_Temperature_Read_Outlet :: "('b, 'f, 'd) plat_env \<Rightarrow> (('b, 'f) plat, 'f) monitor_fun" where
  "V70_Temperature_Read_Outlet e = read_chip_temp (LM75_ReadTemperature (pe_i2c e) LPD_I2C_0 SLAVE_ADDRESS_LM75_1_V70)"

definition V70_Temperature_Read_Board :: "(('b, 'f) plat, 'f) monitor_fun" where
  "V70_Temperature_Read_Board sn g =
     (let t = pl_board_temp (gw g) in Some ((XST_SUCCESS, answer16 (signed_max (t ! 0) (t ! 1)) sn), g))"

definition V70_Temperature_Monitor :: "('b, 'f, 'd) plat_env \<Rightarrow> ('b, 'f) pglvr \<Rightarrow> ('b, 'f) pglvr option" where
  "V70_Temperature_Monitor e = in_turn
     [measure (LM75_ReadTemperature (pe_i2c e) LPD_I2C_0 SLAVE_ADDRESS_LM75_0_V70)
        (\<lambda>t. on_plat (\<lambda>p. p\<lparr>pl_board_temp := (pl_board_temp p)[0 := t]\<rparr>)),
      measure (LM75_ReadTemperature (pe_i2c e) LPD_I2C_0 SLAVE_ADDRESS_LM75_1_V70)
        (\<lambda>t. on_plat (\<lambda>p. p\<lparr>pl_board_temp := (pl_board_temp p)[1 := t]\<rparr>)),
      measure (ucISL68221ReadTemperature0 (pe_fpu e) (pe_i2c e) LPD_I2C_0 SLAVE_ADDRESS_ISL68221)
        (\<lambda>t g. g\<lparr>g_readings := (g_readings g)\<lparr>pr_vccint_temp := t\<rparr>\<rparr>)]"

definition V70_VMC_Fetch_BoardInfo :: "bytes \<Rightarrow> bytes \<Rightarrow> (bytes \<times> int) option" where
  "V70_VMC_Fetch_BoardInfo info buf = do {
     (buf', n) \<leftarrow> put_parts info
        [(product_name_at, 25), (board_rev_at, 9), (board_serial_at, 15), (eeprom_version_at, 4), (board_mac_at, 28),
         (board_act_pas_at, 2), (board_config_mode_at, 2), (board_mfg_date_at, 4), (board_part_num_at, 25),
         (board_uuid_at, 17), (board_pcie_info_at, 9), (board_max_power_mode_at, 2), (Memory_size_at, 5),
         (OEM_ID_at, 5), (DIMM_size_at, 5), (Num_MAC_IDS_at, 1), (capability_at, 3)] buf 0;
     Some (buf', payload_size n) }"

definition V70_Voltage_Monitor_12V_PEX :: "('b, 'f, 'd) plat_env \<Rightarrow> ('b, 'f) pglvr \<Rightarrow> ('b, 'f) pglvr option" where
  "V70_Voltage_Monitor_12V_PEX e = measure_or_zero e
     (INA3221_ReadVoltage (pe_fpu e) (pe_i2c e) LPD_I2C_0 SLAVE_ADDRESS_INA3221 0) (set_voltage e12V_PEX)"

definition V70_Current_Monitor_12V_PEX :: "('b, 'f, 'd) plat_env \<Rightarrow> ('b, 'f) pglvr \<Rightarrow> ('b, 'f) pglvr option" where
  "V70_Current_Monitor_12V_PEX e = measure_or_zero e
     (INA3221_ReadCurrent (pe_fpu e) (pe_i2c e) LPD_I2C_0 SLAVE_ADDRESS_INA3221 0) (set_current e12V_PEX)"

definition V70_Voltage_Monitor_3v3_PEX :: "('b, 'f, 'd) plat_env \<Rightarrow> ('b, 'f) pglvr \<Rightarrow> ('b, 'f) pglvr option" where
  "V70_Voltage_Monitor_3v3_PEX e = measure_or_zero e
     (INA3221_ReadVoltage (pe_fpu e) (pe_i2c e) LPD_I2C_0 SLAVE_ADDRESS_INA3221 1) (set_voltage e3V3_PEX)"

definition V70_Current_Monitor_3v3_PEX :: "('b, 'f, 'd) plat_env \<Rightarrow> ('b, 'f) pglvr \<Rightarrow> ('b, 'f) pglvr option" where
  "V70_Current_Monitor_3v3_PEX e = measure_or_zero e
     (INA3221_ReadCurrent (pe_fpu e) (pe_i2c e) LPD_I2C_0 SLAVE_ADDRESS_INA3221 1) (set_current e3V3_PEX)"

definition V70_Voltage_Monitor_3v3_AUX :: "('b, 'f, 'd) plat_env \<Rightarrow> ('b, 'f) pglvr \<Rightarrow> ('b, 'f) pglvr option" where
  "V70_Voltage_Monitor_3v3_AUX e = measure_or_zero e
     (INA3221_ReadVoltage (pe_fpu e) (pe_i2c e) LPD_I2C_0 SLAVE_ADDRESS_INA3221 2) (set_voltage e3V3_AUX)"

definition V70_Current_Monitor_Vccint :: "('b, 'f, 'd) plat_env \<Rightarrow> ('b, 'f) pglvr \<Rightarrow> ('b, 'f) pglvr option" where
  "V70_Current_Monitor_Vccint e = measure_or_zero e
     (ucISL68221ReadCurrent0 (pe_fpu e) (pe_i2c e) LPD_I2C_0 SLAVE_ADDRESS_ISL68221) (set_current eVCCINT)"

definition V70_Power_Monitor :: "('b, 'f, 'd) plat_env \<Rightarrow> ('b, 'f) pglvr \<Rightarrow> ('b, 'f) pglvr" where
  "V70_Power_Monitor = pex_power_monitor"

definition V70_Asdm_Read_Power :: "('b, 'f, 'd) plat_env \<Rightarrow> (('b, 'f) plat, 'f) monitor_fun" where
  "V70_Asdm_Read_Power e sn g = Some ((XST_SUCCESS, nonzero16 (to_u16 e (pl_total_power (gw g))) sn), g)"

definition V70_Asdm_Read_Voltage_12v :: "('b, 'f, 'd) plat_env \<Rightarrow> (('b, 'f) plat, 'f) monitor_fun" where
  "V70_Asdm_Read_Voltage_12v e sn g = Some ((XST_SUCCESS, nonzero16 (to_u16 e (voltage g e12V_PEX)) sn), g)"

definition V70_Asdm_Read_Voltage_3v3 :: "('b, 'f, 'd) plat_env \<Rightarrow> (('b, 'f) plat, 'f) monitor_fun" where
  "V70_Asdm_Read_Voltage_3v3 e sn g = Some ((XST_SUCCESS, nonzero16 (to_u16 e (voltage g e3V3_PEX)) sn), g)"

definition V70_Asdm_Read_Current_12v :: "('b, 'f, 'd) plat_env \<Rightarrow> (('b, 'f) plat, 'f) monitor_fun" where
  "V70_Asdm_Read_Current_12v e sn g = Some ((XST_SUCCESS, nonzero16 (to_u16 e (current g e12V_PEX)) sn), g)"

definition V70_Asdm_Read_Current_3v3 :: "('b, 'f, 'd) plat_env \<Rightarrow> (('b, 'f) plat, 'f) monitor_fun" where
  "V70_Asdm_Read_Current_3v3 e sn g = Some ((XST_SUCCESS, nonzero16 (to_u16 e (current g e3V3_PEX)) sn), g)"

definition V70_Asdm_Read_Current_Vccint :: "('b, 'f, 'd) plat_env \<Rightarrow> (('b, 'f) plat, 'f) monitor_fun" where
  "V70_Asdm_Read_Current_Vccint e sn g =
     Some ((XST_SUCCESS, nonzero32 (to_u32 e (times1000 e (current g eVCCINT))) sn), g)"

abbreviation (input) V70_TEMP_VCCINT_CRITICAL_THRESHOLD :: u16 where "V70_TEMP_VCCINT_CRITICAL_THRESHOLD \<equiv> 110"

definition V70_Asdm_Read_Temp_Vccint :: "('b, 'f, 'd) plat_env \<Rightarrow> (('b, 'f) plat, 'f) monitor_fun" where
  "V70_Asdm_Read_Temp_Vccint e sn g =
     (let t = to_u16 e (pr_vccint_temp (g_readings g))
      in Some ((XST_SUCCESS, answer16 t sn),
               if V70_TEMP_VCCINT_CRITICAL_THRESHOLD \<le> t then ucs_clock_shutdown (pe_sensors e) g else g))"

definition V70_Get_Current_Names :: "('b, 'f, 'd) plat_env \<Rightarrow> ('b, 'f) pglvr name_fun" where
  "V70_Get_Current_Names e = name_entry
     [(''12v_pex'', None, V70_Asdm_Read_Current_12v e), (''3v3_pex'', None, V70_Asdm_Read_Current_3v3 e),
      (''vccint'', None, V70_Asdm_Read_Current_Vccint e)]"

definition V70_Get_Voltage_Names :: "('b, 'f, 'd) plat_env \<Rightarrow> ('b, 'f) pglvr name_fun" where
  "V70_Get_Voltage_Names e = name_entry
     [(''12v_pex'', None, V70_Asdm_Read_Voltage_12v e), (''3v3_pex'', None, V70_Asdm_Read_Voltage_3v3 e),
      (''vccint'', None, \<lambda>sn g. Some (VCCINT_Read_ACAP_Device_Sysmon (pe_sensors e) sn g))]"

definition V70_Monitor_Sensors :: "('b, 'f, 'd) plat_env \<Rightarrow> ('b, 'f) pglvr \<Rightarrow> ('b, 'f) pglvr option" where
  "V70_Monitor_Sensors e = in_turn
     [V70_Temperature_Monitor e, V70_Voltage_Monitor_12V_PEX e, V70_Voltage_Monitor_3v3_PEX e,
      V70_Voltage_Monitor_3v3_AUX e, V70_Current_Monitor_12V_PEX e, V70_Current_Monitor_3v3_PEX e,
      V70_Current_Monitor_Vccint e, \<lambda>g. Some (V70_Power_Monitor e g)]"

section \<open>Start\<close>

text \<open>The power limits 79.4 W and 75.9 W are stored in whole watts.\<close>

definition v70_clk_scaling_params_init :: "clk_params \<Rightarrow> clk_params" where
  "v70_clk_scaling_params_init = init_clk_params 100 79 97 75"

definition Build_clock_throttling_profile_V70 :: "('b, 'f, 'd) plat_env \<Rightarrow> 'f throttling_profile" where
  "Build_clock_throttling_profile_V70 e = (let F = flt e in
     \<lparr>tp_NumberOfSensors = 2, tp_VoltageSensorID = [0, 1, 0, 0, 0], tp_CurrentSensorID = [0, 1, 0, 0, 0],
      tp_NominalVoltage = [12000, 3300, 0, 0, 0], tp_throttlingThresholdCurrent = [5500, 3000, 0, 0, 0],
      tp_IdlePower = fo_int F 14250000, tp_bVCCIntThermalThrottling = True,
      tp_FPGATempThrottlingLimit = 97, tp_VccIntTempThrottlingLimit = 105,
      tp_PowerThrottlingLimit = 75, tp_TempThrottlingLimit = 97,
      tp_TempGainKpFPGA = fo_int F 3000000, tp_TempGainKi = fo_int F 10000, tp_TempGainKpVCCInt = fo_int F 10000000,
      tp_TempGainKaw = fp_narrow (pe_fpu e) (quotient (dbl e) 24 10000),
      tp_IntegrataionSumInitial = fo_int F 73000000\<rparr>)"

definition V70_Init ::
    "('b, 'f, 'd) plat_env \<Rightarrow> ('b, 'f) pglvr \<Rightarrow> (int \<times> ('b, 'f) pointers \<times> ('b, 'f) pglvr) option" where
  "V70_Init e g = do {
     g' \<leftarrow> init_throttling e (Build_clock_throttling_profile_V70 e)
             (g\<lparr>g_clk_params := v70_clk_scaling_params_init (g_clk_params g)\<rparr>);
     Some (XST_SUCCESS,
       \<lparr>pp_msg_ids = Some V70_VMC_SC_Comms_Msg, pp_total_req_size = length V70_VMC_SC_Comms_Msg,
        pp_fetch_boardinfo = V70_VMC_Fetch_BoardInfo, pp_Monitor_Sensors = V70_Monitor_Sensors e,
        pp_supported_sdr_info = V70_Get_Supported_Sdr_Info,
        pp_update_record_count = V70_Asdm_Update_Record_Count\<rparr>, g') }"

end
