(* ===== verification/Vmc_V80.thy ===== *)
theory Vmc_V80
  imports Vmc_Platform
begin

text \<open>Model of \<open>vmc/platforms/v80.c\<close>: the sensors of the V80 board, its power monitor, the board
  information for the satellite controller and the start of the platform.  The limits are those of
  the regular build (not \<open>INCREASE_LIMITS_FOR_TEST\<close>); the tests for null pointers are left out.\<close>

abbreviation (input) SLAVE_ADDRESS_LM75_0_V80 :: u8 where "SLAVE_ADDRESS_LM75_0_V80 \<equiv> 0x48"
abbreviation (input) SLAVE_ADDRESS_INA3221_0 :: u8 where "SLAVE_ADDRESS_INA3221_0 \<equiv> 0x40"
abbreviation (input) SLAVE_ADDRESS_INA3221_1 :: u8 where "SLAVE_ADDRESS_INA3221_1 \<equiv> 0x41"
abbreviation (input) SLAVE_ADDRESS_ISL68221_0 :: u8 where "SLAVE_ADDRESS_ISL68221_0 \<equiv> 0x60"
abbreviation (input) SLAVE_ADDRESS_ISL68221_1 :: u8 where "SLAVE_ADDRESS_ISL68221_1 \<equiv> 0x61"

section \<open>Tables\<close>

definition xV80ASDMHeaderInfo :: "(u8 \<times> u8) list" where
  "xV80ASDMHeaderInfo = [(BoardInfoSDR, 11), (TemperatureSDR, 9), (VoltageSDR, 10), (CurrentSDR, 10), (PowerSDR, 1)]"

text \<open>Positions in the table of all sensors.\<close>

definition ulV80SupportedSensors :: "nat list" where
  "ulV80SupportedSensors = [0, 1, 2, 3, 4, 5, 6, 8, 9, 10, 11, 12, 14, 15, 16, 17, 18, 19]"

definition vV80GetSupportedSdrInfo :: "nat list" where
  "vV80GetSupportedSdrInfo = ulV80SupportedSensors"

definition vV80AsdmUpdateRecordCount :: "sdr_header list \<Rightarrow> sdr_header list" where
  "vV80AsdmUpdateRecordCount = update_record_count xV80ASDMHeaderInfo"

section \<open>Temperatures\<close>

definition scV80AsdmTemperatureReadInlet :: "('b, 'f, 'd) plat_env \<Rightarrow> (('b, 'f) plat, 'f) monitor_fun" where
  "scV80AsdmTemperatureReadInlet e =
     read_chip_temp (LM75_ReadTemperature (pe_i2c e) LPD_I2C_0 SLAVE_ADDRESS_LM75_0_V80)"

definition scV80AsdmTemperatureReadOutlet :: "('b, 'f, 'd) plat_env \<Rightarrow> (('b, 'f) plat, 'f) monitor_fun" where
  "scV80AsdmTemperatureReadOutlet e =
     read_chip_temp (ucCAT34TS02ReadTemperature (pe_i2c e) LPD_I2C_0 CAT34TS02_SLAVE_ADDRESS_TEMPERATURE)"

definition scV80AsdmTemperatureReadBoard :: "(('b, 'f) plat, 'f) monitor_fun" where
  "scV80AsdmTemperatureReadBoard sn g =
     (let t = pl_board_temp (gw g) in Some ((XST_SUCCESS, answer16 (signed_max (t ! 0) (t ! 1)) sn), g))"

text \<open>A temperature of the voltage regulators, as a number of 16 bits.\<close>

definition regulator_temp ::
    "('b, 'f, 'd) plat_env \<Rightarrow> ('b \<Rightarrow> ((int \<times> 'f option) \<times> 'b) option) \<Rightarrow> 'b \<Rightarrow> ((int \<times> u16 option) \<times> 'b) option" where
  "regulator_temp e f b = do { ((st, v), b') \<leftarrow> f b; Some ((st, map_option (to_u16 e) v), b') }"

definition scV80TemperatureReadVCCHBM :: "('b, 'f, 'd) plat_env \<Rightarrow> (('b, 'f) plat, 'f) monitor_fun" where
  "scV80TemperatureReadVCCHBM e = read_chip_temp (regulator_temp e
     (ucISL68221ReadTemperature0 (pe_fpu e) (pe_i2c e) LPD_I2C_0 SLAVE_ADDRESS_ISL68221_1))"

definition scV80TemperatureReadVCCODIMM :: "('b, 'f, 'd) plat_env \<Rightarrow> (('b, 'f) plat, 'f) monitor_fun" where
  "scV80TemperatureReadVCCODIMM e = read_chip_temp (regulator_temp e
     (ucISL68221ReadTemperature1 (pe_fpu e) (pe_i2c e) LPD_I2C_0 SLAVE_ADDRESS_ISL68221_1))"

definition scV80TemperatureReadGTXAVTT :: "('b, 'f, 'd) plat_env \<Rightarrow> (('b, 'f) plat, 'f) monitor_fun" where
  "scV80TemperatureReadGTXAVTT e = read_chip_temp (regulator_temp e
     (ucISL68221ReadTemperature2 (pe_fpu e) (pe_i2c e) LPD_I2C_0 SLAVE_ADDRESS_ISL68221_1))"

definition vV80TemperatureMonitor :: "('b, 'f, 'd) plat_env \<Rightarrow> ('b, 'f) pglvr \<Rightarrow> ('b, 'f) pglvr option" where
  "vV80TemperatureMonitor e = (let fp = pe_fpu e; io = pe_i2c e in in_turn
     [measure (LM75_ReadTemperature io LPD_I2C_0 SLAVE_ADDRESS_LM75_0_V80)
        (\<lambda>t. on_plat (\<lambda>p. p\<lparr>pl_board_temp := (pl_board_temp p)[0 := t]\<rparr>)),
      measure (ucCAT34TS02ReadTemperature io LPD_I2C_0 CAT34TS02_SLAVE_ADDRESS_TEMPERATURE)
        (\<lambda>t. on_plat (\<lambda>p. p\<lparr>pl_board_temp := (pl_board_temp p)[1 := t]\<rparr>)),
      measure (ucISL68221ReadTemperature0 fp io LPD_I2C_0 SLAVE_ADDRESS_ISL68221_0)
        (\<lambda>t g. g\<lparr>g_readings := (g_readings g)\<lparr>pr_vccint_temp := t\<rparr>\<rparr>),
      measure (ucISL68221ReadTemperature0 fp io LPD_I2C_0 SLAVE_ADDRESS_ISL68221_1)
        (\<lambda>t. on_plat (\<lambda>p. p\<lparr>pl_VccHbmTemp := t\<rparr>)),
      measure (ucISL68221ReadTemperature1 fp io LPD_I2C_0 SLAVE_ADDRESS_ISL68221_1)
        (\<lambda>t. on_plat (\<lambda>p. p\<lparr>pl_1V2VccoDimmTemp := t\<rparr>)),
      measure (ucISL68221ReadTemperature2 fp io LPD_I2C_0 SLAVE_ADDRESS_ISL68221_1)
        (\<lambda>t. on_plat (\<lambda>p. p\<lparr>pl_1V2GtxaVttTemp := t\<rparr>))])"

text \<open>Also a module that cannot be read is compared with the limit, with the temperature 0.\<close>

definition qsfp_answer :: "('b, 'f, 'd) plat_env \<Rightarrow> int \<Rightarrow> 'f \<Rightarrow> snsr_read \<Rightarrow> snsr_read" where
  "qsfp_answer e st t sn =
     (if st = XST_SUCCESS
      then answer16 (if fo_less (flt e) (fo_int (flt e) 0) t then to_u16 e t else 0) sn
      else if st = XST_FAILURE then answer_failed sn
      else sn\<lparr>sn_status := Vmc_Snsr_State_Unavailable\<rparr>)"

definition scV80AsdmTemperatureReadQSFP :: "('b, 'f, 'd) plat_env \<Rightarrow> (('b, 'f) plat, 'f) monitor_fun" where
  "scV80AsdmTemperatureReadQSFP e sn g = do {
     ((st, v), g1) \<leftarrow> on_bus (ucQSFPI2CMuxReadTemperature (pe_fpu e) (pe_i2c e) (unat (sn_instance sn))) g;
     let t = (case v of None \<Rightarrow> fo_int (flt e) 0 | Some x \<Rightarrow> x);
     Some ((st, qsfp_answer e st t sn),
           if at_least e (fo_int (dbl e) 85) t then ucs_clock_shutdown (pe_sensors e) g1 else g1) }"

definition vV80QSFPMonitor :: "('b, 'f, 'd) plat_env \<Rightarrow> ('b, 'f) pglvr \<Rightarrow> ('b, 'f) pglvr option" where
  "vV80QSFPMonitor e = in_turn (map
     (\<lambda>i. measure (ucQSFPI2CMuxReadTemperature (pe_fpu e) (pe_i2c e) i)
            (\<lambda>t. on_plat (\<lambda>p. p\<lparr>pl_qsfp_temp := (pl_qsfp_temp p)[i := t]\<rparr>))) [0..<4])"

definition slV80VMCFetchBoardInfo :: "bytes \<Rightarrow> bytes \<Rightarrow> (bytes \<times> int) option" where
  "slV80VMCFetchBoardInfo info buf = do {
     (buf', n) \<leftarrow> put_parts info [(0, SIZEOF_BOARD_INFO)] buf 0; Some (buf', payload_size n) }"

section \<open>Voltages and currents\<close>

definition vV80VoltageMonitor12VPEX :: "('b, 'f, 'd) plat_env \<Rightarrow> ('b, 'f) pglvr \<Rightarrow> ('b, 'f) pglvr option" where
  "vV80VoltageMonitor12VPEX e = measure
     (INA3221_ReadVoltage (pe_fpu e) (pe_i2c e) LPD_I2C_0 SLAVE_ADDRESS_INA3221_0 0) (set_voltage e12V_PEX)"

definition vV80CurrentMonitor12VPEX :: "('b, 'f, 'd) plat_env \<Rightarrow> ('b, 'f) pglvr \<Rightarrow> ('b, 'f) pglvr option" where
  "vV80CurrentMonitor12VPEX e = measure
     (INA3221_ReadCurrent (pe_fpu e) (pe_i2c e) LPD_I2C_0 SLAVE_ADDRESS_INA3221_0 0) (set_current e12V_PEX)"

definition vV80VoltageMonitor3v3PEX :: "('b, 'f, 'd) plat_env \<Rightarrow> ('b, 'f) pglvr \<Rightarrow> ('b, 'f) pglvr option" where
  "vV80VoltageMonitor3v3PEX e = measure
     (INA3221_ReadVoltage (pe_fpu e) (pe_i2c e) LPD_I2C_0 SLAVE_ADDRESS_INA3221_0 1) (set_voltage e3V3_PEX)"

definition vV80CurrentMonitor3v3PEX :: "('b, 'f, 'd) plat_env \<Rightarrow> ('b, 'f) pglvr \<Rightarrow> ('b, 'f) pglvr option" where
  "vV80CurrentMonitor3v3PEX e = measure
     (INA3221_ReadCurrent (pe_fpu e) (pe_i2c e) LPD_I2C_0 SLAVE_ADDRESS_INA3221_0 1) (set_current e3V3_PEX)"

definition vV80VoltageMonitor1V5VCCAUX :: "('b, 'f, 'd) plat_env \<Rightarrow> ('b, 'f) pglvr \<Rightarrow> ('b, 'f) pglvr option" where
  "vV80VoltageMonitor1V5VCCAUX e = measure
     (INA3221_ReadVoltage (pe_fpu e) (pe_i2c e) LPD_I2C_0 SLAVE_ADDRESS_INA3221_0 2) (set_voltage e1V5_VCC_AUX)"

definition vV80CurrentMonitor1V5VCCAUX :: "('b, 'f, 'd) plat_env \<Rightarrow> ('b, 'f) pglvr \<Rightarrow> ('b, 'f) pglvr option" where
  "vV80CurrentMonitor1V5VCCAUX e = measure
     (INA3221_ReadCurrent (pe_fpu e) (pe_i2c e) LPD_I2C_0 SLAVE_ADDRESS_INA3221_0 2) (set_current e1V5_VCC_AUX)"

definition vV80VoltageMonitor3V3QSFP :: "('b, 'f, 'd) plat_env \<Rightarrow> ('b, 'f) pglvr \<Rightarrow> ('b, 'f) pglvr option" where
  "vV80VoltageMonitor3V3QSFP e = measure
     (INA3221_ReadVoltage (pe_fpu e) (pe_i2c e) LPD_I2C_0 SLAVE_ADDRESS_INA3221_1 0) (set_voltage e3V3_QSFP)"

definition vV80CurrentMonitor3V3QSFP :: "('b, 'f, 'd) plat_env \<Rightarrow> ('b, 'f) pglvr \<Rightarrow> ('b, 'f) pglvr option" where
  "vV80CurrentMonitor3V3QSFP e = measure
     (INA3221_ReadCurrent (pe_fpu e) (pe_i2c e) LPD_I2C_0 SLAVE_ADDRESS_INA3221_1 0) (set_current e3V3_QSFP)"

definition vV80VoltageMonitor12VAUX0 :: "('b, 'f, 'd) plat_env \<Rightarrow> ('b, 'f) pglvr \<Rightarrow> ('b, 'f) pglvr option" where
  "vV80VoltageMonitor12VAUX0 e = measure
     (INA3221_ReadVoltage (pe_fpu e) (pe_i2c e) LPD_I2C_0 SLAVE_ADDRESS_INA3221_1 1) (set_voltage e12V_AUX0)"

definition vV80CurrentMonitor12VAUX0 :: "('b, 'f, 'd) plat_env \<Rightarrow> ('b, 'f) pglvr \<Rightarrow> ('b, 'f) pglvr option" where
  "vV80CurrentMonitor12VAUX0 e = measure
     (INA3221_ReadCurrent (pe_fpu e) (pe_i2c e) LPD_I2C_0 SLAVE_ADDRESS_INA3221_1 1) (set_current e12V_AUX0)"

definition vV80VoltageMonitor12VAUX1 :: "('b, 'f, 'd) plat_env \<Rightarrow> ('b, 'f) pglvr \<Rightarrow> ('b, 'f) pglvr option" where
  "vV80VoltageMonitor12VAUX1 e = measure
     (INA3221_ReadVoltage (pe_fpu e) (pe_i2c e) LPD_I2C_0 SLAVE_ADDRESS_INA3221_1 2) (set_voltage e12V_AUX1)"

definition vV80CurrentMonitor12VAUX1 :: "('b, 'f, 'd) plat_env \<Rightarrow> ('b, 'f) pglvr \<Rightarrow> ('b, 'f) pglvr option" where
  "vV80CurrentMonitor12VAUX1 e = measure
     (INA3221_ReadCurrent (pe_fpu e) (pe_i2c e) LPD_I2C_0 SLAVE_ADDRESS_INA3221_1 2) (set_current e12V_AUX1)"

definition vV80VoltageMonitorVccHBM :: "('b, 'f, 'd) plat_env \<Rightarrow> ('b, 'f) pglvr \<Rightarrow> ('b, 'f) pglvr option" where
  "vV80VoltageMonitorVccHBM e = measure
     (ucISL68221ReadVoltage0 (pe_fpu e) (pe_i2c e) LPD_I2C_0 SLAVE_ADDRESS_ISL68221_1) (set_voltage eVCC_HBM)"

definition vV80CurrentMonitorVccHBM :: "('b, 'f, 'd) plat_env \<Rightarrow> ('b, 'f) pglvr \<Rightarrow> ('b, 'f) pglvr option" where
  "vV80CurrentMonitorVccHBM e = measure
     (ucISL68221ReadCurrent0 (pe_fpu e) (pe_i2c e) LPD_I2C_0 SLAVE_ADDRESS_ISL68221_1) (set_current eVCC_HBM)"

definition vV80VoltageMonitor1V2VccoDimm :: "('b, 'f, 'd) plat_env \<Rightarrow> ('b, 'f) pglvr \<Rightarrow> ('b, 'f) pglvr option" where
  "vV80VoltageMonitor1V2VccoDimm e = measure
     (ucISL68221ReadVoltage1 (pe_fpu e) (pe_i2c e) LPD_I2C_0 SLAVE_ADDRESS_ISL68221_1) (set_voltage e1V2_VCCO_DIMM)"

definition vV80CurrentMonitor1V2VccoDimm :: "('b, 'f, 'd) plat_env \<Rightarrow> ('b, 'f) pglvr \<Rightarrow> ('b, 'f) pglvr option" where
  "vV80CurrentMonitor1V2VccoDimm e = measure
     (ucISL68221ReadCurrent1 (pe_fpu e) (pe_i2c e) LPD_I2C_0 SLAVE_ADDRESS_ISL68221_1) (set_current e1V2_VCCO_DIMM)"

definition vV80VoltageMonitor1V2GTXAVTT :: "('b, 'f, 'd) plat_env \<Rightarrow> ('b, 'f) pglvr \<Rightarrow> ('b, 'f) pglvr option" where
  "vV80VoltageMonitor1V2GTXAVTT e = measure
     (ucISL68221ReadVoltage2 (pe_fpu e) (pe_i2c e) LPD_I2C_0 SLAVE_ADDRESS_ISL68221_1) (set_voltage e1V2_GTXAVTT)"

definition vV80CurrentMonitor1V2GTXAVTT :: "('b, 'f, 'd) plat_env \<Rightarrow> ('b, 'f) pglvr \<Rightarrow> ('b, 'f) pglvr option" where
  "vV80CurrentMonitor1V2GTXAVTT e = measure
     (ucISL68221ReadCurrent2 (pe_fpu e) (pe_i2c e) LPD_I2C_0 SLAVE_ADDRESS_ISL68221_1) (set_current e1V2_GTXAVTT)"

definition vV80VoltageMonitorVccint :: "('b, 'f, 'd) plat_env \<Rightarrow> ('b, 'f) pglvr \<Rightarrow> ('b, 'f) pglvr option" where
  "vV80VoltageMonitorVccint e = measure
     (ucISL68221ReadVoltage0 (pe_fpu e) (pe_i2c e) LPD_I2C_0 SLAVE_ADDRESS_ISL68221_0) (set_voltage eVCCINT)"

definition vV80CurrentMonitorVccint :: "('b, 'f, 'd) plat_env \<Rightarrow> ('b, 'f) pglvr \<Rightarrow> ('b, 'f) pglvr option" where
  "vV80CurrentMonitorVccint e = measure
     (ucISL68221ReadCurrent0 (pe_fpu e) (pe_i2c e) LPD_I2C_0 SLAVE_ADDRESS_ISL68221_0) (set_current eVCCINT)"

definition vV80PowerMonitor :: "('b, 'f, 'd) plat_env \<Rightarrow> ('b, 'f) pglvr \<Rightarrow> ('b, 'f) pglvr" where
  "vV80PowerMonitor = pex_power_monitor"

section \<open>What the repositories show\<close>

definition scV80AsdmReadPower :: "('b, 'f, 'd) plat_env \<Rightarrow> (('b, 'f) plat, 'f) monitor_fun" where
  "scV80AsdmReadPower e sn g = Some ((XST_SUCCESS, nonzero16 (to_u16 e (pl_total_power (gw g))) sn), g)"

definition scV80AsdmReadVoltage12v :: "('b, 'f, 'd) plat_env \<Rightarrow> (('b, 'f) plat, 'f) monitor_fun" where
  "scV80AsdmReadVoltage12v e sn g = Some ((XST_SUCCESS, nonzero16 (to_u16 e (voltage g e12V_PEX)) sn), g)"

definition scV80AsdmReadVoltage3v3 :: "('b, 'f, 'd) plat_env \<Rightarrow> (('b, 'f) plat, 'f) monitor_fun" where
  "scV80AsdmReadVoltage3v3 e sn g = Some ((XST_SUCCESS, nonzero16 (to_u16 e (voltage g e3V3_PEX)) sn), g)"

definition scV80AsdmReadVoltageVccint :: "('b, 'f, 'd) plat_env \<Rightarrow> (('b, 'f) plat, 'f) monitor_fun" where
  "scV80AsdmReadVoltageVccint e sn g = Some ((XST_SUCCESS, nonzero16 (to_u16 e (voltage g eVCCINT)) sn), g)"

definition scV80AsdmReadVoltage12VAUX0 :: "('b, 'f, 'd) plat_env \<Rightarrow> (('b, 'f) plat, 'f) monitor_fun" where
  "scV80AsdmReadVoltage12VAUX0 e sn g = Some ((XST_SUCCESS, nonzero16 (to_u16 e (voltage g e12V_AUX0)) sn), g)"

definition scV80AsdmReadVoltage12VAUX1 :: "('b, 'f, 'd) plat_env \<Rightarrow> (('b, 'f) plat, 'f) monitor_fun" where
  "scV80AsdmReadVoltage12VAUX1 e sn g = Some ((XST_SUCCESS, nonzero16 (to_u16 e (voltage g e12V_AUX1)) sn), g)"

definition scV80AsdmReadVoltage1V5VCCAUX :: "('b, 'f, 'd) plat_env \<Rightarrow> (('b, 'f) plat, 'f) monitor_fun" where
  "scV80AsdmReadVoltage1V5VCCAUX e sn g = Some ((XST_SUCCESS, nonzero16 (to_u16 e (voltage g e1V5_VCC_AUX)) sn), g)"

definition scV80AsdmReadVoltage3V3QSFP :: "('b, 'f, 'd) plat_env \<Rightarrow> (('b, 'f) plat, 'f) monitor_fun" where
  "scV80AsdmReadVoltage3V3QSFP e sn g = Some ((XST_SUCCESS, nonzero16 (to_u16 e (voltage g e3V3_QSFP)) sn), g)"

definition scV80AsdmReadVoltageVccHBM :: "('b, 'f, 'd) plat_env \<Rightarrow> (('b, 'f) plat, 'f) monitor_fun" where
  "scV80AsdmReadVoltageVccHBM e sn g = Some ((XST_SUCCESS, nonzero16 (to_u16 e (voltage g eVCC_HBM)) sn), g)"

definition scV80AsdmReadVoltage1V2VccoDimm :: "('b, 'f, 'd) plat_env \<Rightarrow> (('b, 'f) plat, 'f) monitor_fun" where
  "scV80AsdmReadVoltage1V2VccoDimm e sn g = Some ((XST_SUCCESS, nonzero16 (to_u16 e (voltage g e1V2_VCCO_DIMM)) sn), g)"

definition scV80AsdmReadVoltage1V2GTXAVT :: "('b, 'f, 'd) plat_env \<Rightarrow> (('b, 'f) plat, 'f) monitor_fun" where
  "scV80AsdmReadVoltage1V2GTXAVT e sn g = Some ((XST_SUCCESS, nonzero16 (to_u16 e (voltage g e1V2_GTXAVTT)) sn), g)"

text \<open>The current of VCCINT is turned into milliamperes of 16 bits, those of the other regulators into
  32 bits.\<close>

definition scV80AsdmReadCurrent12v :: "('b, 'f, 'd) plat_env \<Rightarrow> (('b, 'f) plat, 'f) monitor_fun" where
  "scV80AsdmReadCurrent12v e sn g = Some ((XST_SUCCESS, nonzero16 (to_u16 e (current g e12V_PEX)) sn), g)"

definition scV80AsdmReadCurrent3v3 :: "('b, 'f, 'd) plat_env \<Rightarrow> (('b, 'f) plat, 'f) monitor_fun" where
  "scV80AsdmReadCurrent3v3 e sn g = Some ((XST_SUCCESS, nonzero16 (to_u16 e (current g e3V3_PEX)) sn), g)"

definition scV80AsdmReadCurrentVccint :: "('b, 'f, 'd) plat_env \<Rightarrow> (('b, 'f) plat, 'f) monitor_fun" where
  "scV80AsdmReadCurrentVccint e sn g = Some ((XST_SUCCESS, nonzero16 (to_u16 e (times1000 e (current g eVCCINT))) sn), g)"

definition scV80AsdmReadCurrent12VAUX0 :: "('b, 'f, 'd) plat_env \<Rightarrow> (('b, 'f) plat, 'f) monitor_fun" where
  "scV80AsdmReadCurrent12VAUX0 e sn g = Some ((XST_SUCCESS, nonzero32 (to_u32 e (current g e12V_AUX0)) sn), g)"

definition scV80AsdmReadCurrent12VAUX1 :: "('b, 'f, 'd) plat_env \<Rightarrow> (('b, 'f) plat, 'f) monitor_fun" where
  "scV80AsdmReadCurrent12VAUX1 e sn g = Some ((XST_SUCCESS, nonzero32 (to_u32 e (current g e12V_AUX1)) sn), g)"

definition scV80AsdmReadCurrent1V5VCCAUX :: "('b, 'f, 'd) plat_env \<Rightarrow> (('b, 'f) plat, 'f) monitor_fun" where
  "scV80AsdmReadCurrent1V5VCCAUX e sn g = Some ((XST_SUCCESS, nonzero32 (to_u32 e (current g e1V5_VCC_AUX)) sn), g)"

definition scV80AsdmReadCurrent3V3QSFP :: "('b, 'f, 'd) plat_env \<Rightarrow> (('b, 'f) plat, 'f) monitor_fun" where
  "scV80AsdmReadCurrent3V3QSFP e sn g = Some ((XST_SUCCESS, nonzero32 (to_u32 e (current g e3V3_QSFP)) sn), g)"

definition scV80AsdmReadCurrentVccHBM :: "('b, 'f, 'd) plat_env \<Rightarrow> (('b, 'f) plat, 'f) monitor_fun" where
  "scV80AsdmReadCurrentVccHBM e sn g = Some ((XST_SUCCESS, nonzero32 (to_u32 e (times1000 e (current g eVCC_HBM))) sn), g)"

definition scV80AsdmReadCurrent1V2VccoDimm :: "('b, 'f, 'd) plat_env \<Rightarrow> (('b, 'f) plat, 'f) monitor_fun" where
  "scV80AsdmReadCurrent1V2VccoDimm e sn g = Some ((XST_SUCCESS, nonzero32 (to_u32 e (times1000 e (current g e1V2_VCCO_DIMM))) sn), g)"

definition scV80AsdmReadCurrent1V2GTXAVT :: "('b, 'f, 'd) plat_env \<Rightarrow> (('b, 'f) plat, 'f) monitor_fun" where
  "scV80AsdmReadCurrent1V2GTXAVT e sn g = Some ((XST_SUCCESS, nonzero32 (to_u32 e (times1000 e (current g e1V2_GTXAVTT))) sn), g)"

abbreviation (input) V80_TEMP_VCCINT_CRITICAL_THRESHOLD :: u16 where "V80_TEMP_VCCINT_CRITICAL_THRESHOLD \<equiv> 110"

definition scV80AsdmTemperatureReadVccint :: "('b, 'f, 'd) plat_env \<Rightarrow> (('b, 'f) plat, 'f) monitor_fun" where
  "scV80AsdmTemperatureReadVccint e sn g =
     (let t = to_u16 e (pr_vccint_temp (g_readings g))
      in Some ((XST_SUCCESS, answer16 t sn),
               if V80_TEMP_VCCINT_CRITICAL_THRESHOLD \<le> t then ucs_clock_shutdown (pe_sensors e) g else g))"

definition scV80AsdmTemperatureReadVccHbm :: "('b, 'f, 'd) plat_env \<Rightarrow> (('b, 'f) plat, 'f) monitor_fun" where
  "scV80AsdmTemperatureReadVccHbm e sn g = Some ((XST_SUCCESS, answer16 (to_u16 e (pl_VccHbmTemp (gw g))) sn), g)"

definition scV80AsdmTemperatureRead1V2VccoDimm :: "('b, 'f, 'd) plat_env \<Rightarrow> (('b, 'f) plat, 'f) monitor_fun" where
  "scV80AsdmTemperatureRead1V2VccoDimm e sn g =
     Some ((XST_SUCCESS, answer16 (to_u16 e (pl_1V2VccoDimmTemp (gw g))) sn), g)"

definition scV80AsdmTemperatureRead1V2GTXAVTT :: "('b, 'f, 'd) plat_env \<Rightarrow> (('b, 'f) plat, 'f) monitor_fun" where
  "scV80AsdmTemperatureRead1V2GTXAVTT e sn g =
     Some ((XST_SUCCESS, answer16 (to_u16 e (pl_1V2GtxaVttTemp (gw g))) sn), g)"

text \<open>Only the names of the QSFP cages are guarded against an index outside the table.\<close>

definition scV80AsdmGetQSFPName :: "('b, 'f, 'd) plat_env \<Rightarrow> ('b, 'f) pglvr name_fun" where
  "scV80AsdmGetQSFPName e i =
     (let f = scV80AsdmTemperatureReadQSFP e;
          t = [(''cage_temp_0'', Some 0, f), (''cage_temp_1'', Some 1, f), (''cage_temp_2'', Some 2, f), (''cage_temp_3'', Some 3, f)]
      in if length t \<le> i then Some None else name_entry t i)"

definition scV80AsdmGetTemperatureNames :: "('b, 'f, 'd) plat_env \<Rightarrow> ('b, 'f) pglvr name_fun" where
  "scV80AsdmGetTemperatureNames e = name_entry
     [(''VCCHBM'', None, scV80AsdmTemperatureReadVccHbm e),
      (''1V2VCCODIMM'', None, scV80AsdmTemperatureRead1V2VccoDimm e),
      (''1V2GTXAVTT'', None, scV80AsdmTemperatureRead1V2GTXAVTT e)]"

definition scV80AsdmGetCurrentNames :: "('b, 'f, 'd) plat_env \<Rightarrow> ('b, 'f) pglvr name_fun" where
  "scV80AsdmGetCurrentNames e = name_entry
     [(''12v_pex'', None, scV80AsdmReadCurrent12v e),
      (''3v3_pex'', None, scV80AsdmReadCurrent3v3 e),
      (''vccint'', None, scV80AsdmReadCurrentVccint e),
      (''1V5_VCC_AUX'', None, scV80AsdmReadCurrent1V5VCCAUX e),
      (''3V3QSFP'', None, scV80AsdmReadCurrent3V3QSFP e),
      (''12VAUX0'', None, scV80AsdmReadCurrent12VAUX0 e),
      (''12VAUX1'', None, scV80AsdmReadCurrent12VAUX1 e),
      (''VCC_HBM'', None, scV80AsdmReadCurrentVccHBM e),
      (''1V2_VCCO_DIMM'', None, scV80AsdmReadCurrent1V2VccoDimm e),
      (''1V2_GTXAVTT'', None, scV80AsdmReadCurrent1V2GTXAVT e)]"

definition scV80AsdmGetVoltageNames :: "('b, 'f, 'd) plat_env \<Rightarrow> ('b, 'f) pglvr name_fun" where
  "scV80AsdmGetVoltageNames e = name_entry
     [(''12v_pex'', None, scV80AsdmReadVoltage12v e),
      (''3v3_pex'', None, scV80AsdmReadVoltage3v3 e),
      (''vccint'', None, scV80AsdmReadVoltageVccint e),
      (''1V5_VCC_AUX'', None, scV80AsdmReadVoltage1V5VCCAUX e),
      (''3V3QSFP'', None, scV80AsdmReadVoltage3V3QSFP e),
      (''12VAUX0'', None, scV80AsdmReadVoltage12VAUX0 e),
      (''12VAUX1'', None, scV80AsdmReadVoltage12VAUX1 e),
      (''VCC_HBM'', None, scV80AsdmReadVoltageVccHBM e),
      (''1V2_VCCO_DIMM'', None, scV80AsdmReadVoltage1V2VccoDimm e),
      (''1V2_GTXAVTT'', None, scV80AsdmReadVoltage1V2GTXAVT e)]"

definition vV80MonitorSensors :: "('b, 'f, 'd) plat_env \<Rightarrow> ('b, 'f) pglvr \<Rightarrow> ('b, 'f) pglvr option" where
  "vV80MonitorSensors e = in_turn
     [vV80TemperatureMonitor e, vV80QSFPMonitor e,
      vV80VoltageMonitor12VPEX e, vV80VoltageMonitor3v3PEX e,
      vV80VoltageMonitorVccint e, vV80VoltageMonitor1V5VCCAUX e,
      vV80VoltageMonitor3V3QSFP e, vV80VoltageMonitor12VAUX0 e,
      vV80VoltageMonitor12VAUX1 e, vV80VoltageMonitorVccHBM e,
      vV80VoltageMonitor1V2VccoDimm e, vV80VoltageMonitor1V2GTXAVTT e,
      vV80CurrentMonitor12VPEX e, vV80CurrentMonitor3v3PEX e,
      vV80CurrentMonitorVccint e, vV80CurrentMonitor1V5VCCAUX e,
      vV80CurrentMonitor3V3QSFP e, vV80CurrentMonitor12VAUX0 e,
      vV80CurrentMonitor12VAUX1 e, vV80CurrentMonitorVccHBM e,
      vV80CurrentMonitor1V2VccoDimm e, vV80CurrentMonitor1V2GTXAVTT e,
      \<lambda>g. Some (vV80PowerMonitor e g)]"

section \<open>Start\<close>

text \<open>The power limits 79.4 W and 75.9 W are stored in whole watts.\<close>

definition vV80ClkScalingParamsInit :: "clk_params \<Rightarrow> clk_params" where
  "vV80ClkScalingParamsInit = init_clk_params 100 79 97 75"

definition vV80BuildClockThrottlingProfile :: "('b, 'f, 'd) plat_env \<Rightarrow> 'f throttling_profile" where
  "vV80BuildClockThrottlingProfile e = (let F = flt e in
     \<lparr>tp_NumberOfSensors = 2, tp_VoltageSensorID = [0, 1, 0, 0, 0], tp_CurrentSensorID = [0, 1, 0, 0, 0],
      tp_NominalVoltage = [12000, 3300, 0, 0, 0], tp_throttlingThresholdCurrent = [5500, 3000, 0, 0, 0],
      tp_IdlePower = fo_int F 14250000, tp_bVCCIntThermalThrottling = True,
      tp_FPGATempThrottlingLimit = 97, tp_VccIntTempThrottlingLimit = 105,
      tp_PowerThrottlingLimit = 75, tp_TempThrottlingLimit = 97,
      tp_TempGainKpFPGA = fo_int F 3000000, tp_TempGainKi = fo_int F 10000, tp_TempGainKpVCCInt = fo_int F 10000000,
      tp_TempGainKaw = fp_narrow (pe_fpu e) (quotient (dbl e) 24 10000),
      tp_IntegrataionSumInitial = fo_int F 73000000\<rparr>)"

text \<open>Whether the memory module could be enabled is not looked at.\<close>

definition ucV80Init ::
    "('b, 'f, 'd) plat_env \<Rightarrow> ('b, 'f) pglvr \<Rightarrow> (int \<times> ('b, 'f) pointers \<times> ('b, 'f) pglvr) option" where
  "ucV80Init e g = do {
     (st, g1) \<leftarrow> on_bus (ucEnableDDRDIMM (pe_i2c e)) g;
     g2 \<leftarrow> init_throttling e (vV80BuildClockThrottlingProfile e)
             (g1\<lparr>g_clk_params := vV80ClkScalingParamsInit (g_clk_params g1)\<rparr>);
     Some (XST_SUCCESS,
       \<lparr>pp_msg_ids = None, pp_total_req_size = 0, pp_fetch_boardinfo = slV80VMCFetchBoardInfo,
        pp_Monitor_Sensors = vV80MonitorSensors e, pp_supported_sdr_info = vV80GetSupportedSdrInfo,
        pp_update_record_count = vV80AsdmUpdateRecordCount\<rparr>, g2) }"

end
