(* ===== verification/Vmc_Vck5000.thy ===== *)
theory Vmc_Vck5000
  imports Vmc_Platform
begin

text \<open>Model of \<open>vmc/platforms/vck5000.c\<close>: the sensors of the VCK5000 board, most of which the satellite
  controller reads, its power monitor, the board information for the satellite controller and the
  start of the platform.  The limits are those of the regular build.  The name functions are only
  called with addresses of variables; their tests for null pointers are left out.\<close>

abbreviation (input) SLAVE_ADDRESS_SE98A_0 :: u8 where "SLAVE_ADDRESS_SE98A_0 \<equiv> 0x18"
abbreviation (input) SLAVE_ADDRESS_SE98A_1 :: u8 where "SLAVE_ADDRESS_SE98A_1 \<equiv> 0x19"
abbreviation (input) SLAVE_ADDRESS_MAX6639 :: u8 where "SLAVE_ADDRESS_MAX6639 \<equiv> 0x2E"

abbreviation (input) eSC_PEX_12V :: nat where "eSC_PEX_12V \<equiv> 0"
abbreviation (input) eSC_PEX_3V3 :: nat where "eSC_PEX_3V3 \<equiv> 1"
abbreviation (input) eSC_AUX_3V3 :: nat where "eSC_AUX_3V3 \<equiv> 2"
abbreviation (input) eSC_AUX_12V :: nat where "eSC_AUX_12V \<equiv> 3"
abbreviation (input) eSC_AUX1_12V :: nat where "eSC_AUX1_12V \<equiv> 4"
abbreviation (input) eSC_PEX_12V_I_IN :: nat where "eSC_PEX_12V_I_IN \<equiv> 6"
abbreviation (input) eSC_V12_IN_AUX0_I :: nat where "eSC_V12_IN_AUX0_I \<equiv> 7"
abbreviation (input) eSC_V12_IN_AUX1_I :: nat where "eSC_V12_IN_AUX1_I \<equiv> 8"

abbreviation (input) eSC_CAGE_TEMP0 :: u8 where "eSC_CAGE_TEMP0 \<equiv> 4"
abbreviation (input) eSC_CAGE_TEMP1 :: u8 where "eSC_CAGE_TEMP1 \<equiv> 5"

section \<open>Tables\<close>

definition vck5000_asdmHeader_info :: "(u8 \<times> u8) list" where
  "vck5000_asdmHeader_info =
     [(BoardInfoSDR, 12), (TemperatureSDR, 5), (VoltageSDR, 5 + 1), (CurrentSDR, 4), (PowerSDR, 1)]"

text \<open>Positions in the table of all sensors.\<close>

definition vck5000_Supported_Sensors :: "nat list" where
  "vck5000_Supported_Sensors = [0, 1, 2, 3, 4, 5, 6, 7, 8, 9, 10, 11, 12, 13, 14, 16, 17, 18, 19]"

definition Vck5000_Get_Supported_Sdr_Info :: "nat list" where
  "Vck5000_Get_Supported_Sdr_Info = vck5000_Supported_Sensors"

definition Vck5000_Asdm_Update_Record_Count :: "sdr_header list \<Rightarrow> sdr_header list" where
  "Vck5000_Asdm_Update_Record_Count = update_record_count vck5000_asdmHeader_info"

definition VCK5000_VMC_SC_Comms_Msg :: "u8 list" where
  "VCK5000_VMC_SC_Comms_Msg =
     [SC_COMMS_RX_VOLT_SNSR, SC_COMMS_RX_POWER_SNSR, SC_COMMS_RX_TEMP_SNSR, SC_COMMS_TX_I2C_SNSR]"

section \<open>Temperatures\<close>

definition Vck5000_Temperature_Read_Inlet :: "('b, 'f, 'd) plat_env \<Rightarrow> (('b, 'f) plat, 'f) monitor_fun" where
  "Vck5000_Temperature_Read_Inlet e =
     read_chip_temp (SE98A_ReadTemperature (pe_fpu e) (pe_i2c e) LPD_I2C_0 SLAVE_ADDRESS_SE98A_0)"

definition Vck5000_Temperature_Read_Outlet :: "('b, 'f, 'd) plat_env \<Rightarrow> (('b, 'f) plat, 'f) monitor_fun" where
  "Vck5000_Temperature_Read_Outlet e =
     read_chip_temp (SE98A_ReadTemperature (pe_fpu e) (pe_i2c e) LPD_I2C_0 SLAVE_ADDRESS_SE98A_1)"

definition Vck5000_Temperature_Read_Board :: "(('b, 'f) plat, 'f) monitor_fun" where
  "Vck5000_Temperature_Read_Board sn g =
     (let t = pl_board_temp (gw g) ! 0
      in Some ((if t \<noteq> 0 then (XST_FAILURE, answer16 t sn) else (XST_FAILURE, answer_failed sn)), g))"

text \<open>Also a module that cannot be read is compared with the limit, with the temperature 0.\<close>

definition Vck5000_Temperature_Read_QSFP :: "('b, 'f, 'd) plat_env \<Rightarrow> (('b, 'f) plat, 'f) monitor_fun" where
  "Vck5000_Temperature_Read_QSFP e sn g = do {
     ((st, v), g1) \<leftarrow> on_bus (ucQSFPReadTemperature (pe_fpu e) (pe_pins e) (pe_i2c e) (unat (sn_instance sn))) g;
     let t = (case v of None \<Rightarrow> fo_int (flt e) 0 | Some x \<Rightarrow> x);
     let sn' = (if st = XST_SUCCESS
                then answer16 (if fo_less (flt e) (fo_int (flt e) 0) t then to_u16 e t else 0) sn
                else if st = XST_FAILURE then answer_failed sn
                else sn\<lparr>sn_status := Vmc_Snsr_State_Unavailable\<rparr>);
     Some ((st, sn'), if at_least e (fo_int (dbl e) 85) t then ucs_clock_shutdown (pe_sensors e) g1 else g1) }"

definition Vck5000_Temperature_Read_Vccint :: "('b, 'f, 'd) plat_env \<Rightarrow> (('b, 'f) plat, 'f) monitor_fun" where
  "Vck5000_Temperature_Read_Vccint e sn g = do {
     ((st, sn'), g') \<leftarrow> PMBUS_SC_Sensor_Read (pe_sensors e) sn g; Some ((XST_SUCCESS, sn'), g') }"

section \<open>Fans\<close>

text \<open>A tachometer count of 0, which is also what a failed read leaves, is a division by zero.\<close>

definition MAX6639_FAN_TACHO_TO_RPM :: "u8 \<Rightarrow> u16 option" where
  "MAX6639_FAN_TACHO_TO_RPM x = (if x = 0 then None else Some (word_of_int (8000 * 60 div uint x)))"

definition read_fans :: "('b, 'f, 'd) plat_env \<Rightarrow> ('b, 'f) pglvr \<Rightarrow> ((int \<times> u16) \<times> ('b, 'f) pglvr) option" where
  "read_fans e g = do {
     ((st1, t1), g1) \<leftarrow> on_bus (max6639_ReadFanTach (pe_i2c e) LPD_I2C_0 SLAVE_ADDRESS_MAX6639 1 0) g;
     r1 \<leftarrow> MAX6639_FAN_TACHO_TO_RPM t1;
     ((st2, t2), g2) \<leftarrow> on_bus (max6639_ReadFanTach (pe_i2c e) LPD_I2C_0 SLAVE_ADDRESS_MAX6639 2 0) g1;
     r2 \<leftarrow> MAX6639_FAN_TACHO_TO_RPM t2;
     Some ((st2, word_of_int ((uint r1 + uint r2) div 2)), g2) }"

definition Vck5000_Fan_RPM_Read :: "('b, 'f, 'd) plat_env \<Rightarrow> (('b, 'f) plat, 'f) monitor_fun" where
  "Vck5000_Fan_RPM_Read e sn g = do {
     ((st, rpm), g') \<leftarrow> read_fans e g;
     Some ((st, if st = XST_SUCCESS then answer16 rpm sn else answer_failed sn), g') }"

definition se98a_monitor :: "('b, 'f, 'd) plat_env \<Rightarrow> ('b, 'f) pglvr \<Rightarrow> ('b, 'f) pglvr option" where
  "se98a_monitor e = in_turn (map
     (\<lambda>i. measure (SE98A_ReadTemperature (pe_fpu e) (pe_i2c e) LPD_I2C_0 (SLAVE_ADDRESS_SE98A_0 + of_nat i))
            (\<lambda>t. on_plat (\<lambda>p. p\<lparr>pl_board_temp := (pl_board_temp p)[i := t]\<rparr>))) [0..<BOARD_TEMPERATURE_SENSOR_NUM])"

definition max6639_monitor :: "('b, 'f, 'd) plat_env \<Rightarrow> ('b, 'f) pglvr \<Rightarrow> ('b, 'f) pglvr option" where
  "max6639_monitor e g = do {
     ((st, t), g1) \<leftarrow> on_bus (max6639_ReadFPGATemperature (pe_fpu e) (pe_i2c e) LPD_I2C_0 SLAVE_ADDRESS_MAX6639) g;
     (case t of
        None \<Rightarrow> Some g1
      | Some x \<Rightarrow> do {
          let g2 = on_plat (\<lambda>p. p\<lparr>pl_remote_temp := x\<rparr>) g1;
          ((st', t'), g3) \<leftarrow> on_bus (max6639_ReadDDRTemperature (pe_fpu e) (pe_i2c e) LPD_I2C_0 SLAVE_ADDRESS_MAX6639) g2;
          (case t' of
             None \<Rightarrow> Some g3
           | Some y \<Rightarrow> do {
               let g4 = on_plat (\<lambda>p. p\<lparr>pl_local_temp := y\<rparr>) g3;
               ((st'', rpm), g5) \<leftarrow> read_fans e g4;
               Some (on_plat (\<lambda>p. p\<lparr>pl_fanRpm := rpm\<rparr>) g5) }) }) }"

definition qsfp_monitor :: "('b, 'f, 'd) plat_env \<Rightarrow> ('b, 'f) pglvr \<Rightarrow> ('b, 'f) pglvr option" where
  "qsfp_monitor e = in_turn (map
     (\<lambda>i. measure (ucQSFPReadTemperature (pe_fpu e) (pe_pins e) (pe_i2c e) i)
            (\<lambda>t. on_plat (\<lambda>p. p\<lparr>pl_qsfp_temp := (pl_qsfp_temp p)[i := t]\<rparr>))) [0..<4])"

section \<open>The satellite controller\<close>

definition Vck5000_Vmc_Sc_Comms :: "('w, 'e) sc_env_scheme \<Rightarrow> 'w vmc_sc \<Rightarrow> 'w vmc_sc option" where
  "Vck5000_Vmc_Sc_Comms e s =
     (if \<not> getSensorRespLen s then VMC_SC_COMMS_Tx_Rx e VMC_GET_RESP_SIZE_REQ s else Some s)"

text \<open>The sizes are those of version 2.0; \<open>DIMM_size\<close> is sent as a second copy of \<open>Memory_size\<close>.\<close>

definition Vck5000_VMC_Fetch_BoardInfo :: "bytes \<Rightarrow> bytes \<Rightarrow> (bytes \<times> int) option" where
  "Vck5000_VMC_Fetch_BoardInfo info0 buf = do {
     mem_size \<leftarrow> rd_bytes info0 Memory_size_at 5;
     info \<leftarrow> wr_bytes info0 DIMM_size_at mem_size;
     (buf', n) \<leftarrow> put_parts info
        [(product_name_at, 17), (board_rev_at, 9), (board_serial_at, 15), (eeprom_version_at, 4), (board_mac_at, 28),
         (board_act_pas_at, 2), (board_config_mode_at, 2), (board_mfg_date_at, 4), (board_part_num_at, 10),
         (board_uuid_at, 17), (board_pcie_info_at, 9), (board_max_power_mode_at, 2), (Memory_size_at, 5),
         (OEM_ID_at, 5), (DIMM_size_at, 5)] buf 0;
     Some (buf', payload_size n) }"

section \<open>Power\<close>

definition Vck5000_Temperature_Monitor :: "('b, 'f, 'd) plat_env \<Rightarrow> ('b, 'f) pglvr \<Rightarrow> ('b, 'f) pglvr option" where
  "Vck5000_Temperature_Monitor e =
     measure (max6639_ReadDDRTemperature (pe_fpu e) (pe_i2c e) LPD_I2C_0 SLAVE_ADDRESS_MAX6639)
       (\<lambda>t. on_plat (\<lambda>p. p\<lparr>pl_board_temp := (pl_board_temp p)
              [0 := if fo_less (flt e) (fo_int (flt e) 0) t then to_u16 e t else 0]\<rparr>))"

text \<open>The power is rounded to the next watt.\<close>

definition Vck5000_Asdm_Read_Power :: "('b, 'f, 'd) plat_env \<Rightarrow> (('b, 'f) plat, 'f) monitor_fun" where
  "Vck5000_Asdm_Read_Power e sn g =
     (let p = pl_total_power (gw g);
          w = (word_of_int (fo_trunc (dbl e) (fo_add (dbl e) (fp_widen (pe_fpu e) p) (quotient (dbl e) 1 2))) :: u16)
      in Some ((XST_SUCCESS, if is_zero (flt e) p then answer_failed sn else answer16 w sn), g))"

definition sc_watts :: "('b, 'f, 'd) plat_env \<Rightarrow> u16 \<Rightarrow> u16 \<Rightarrow> 'f" where
  "sc_watts e v i =
     (let D = dbl e; k = fo_int D 1000
      in fp_narrow (pe_fpu e) (fo_div D (fo_mul D (fo_div D (fo_word D v) k) (fo_word D i)) k))"

text \<open>The three powers and the power mode; without the lock everything is 0.\<close>

definition read_powers :: "('b, 'f, 'd) plat_env \<Rightarrow> ('b, 'f) pglvr \<Rightarrow> (u8 \<times> 'f \<times> 'f \<times> 'f) \<times> ('b, 'f) pglvr" where
  "read_powers e g =
     (let se = pe_sensors e; F = flt e; zero = fo_int F 0; (ok, w) = ne_sc_lock se (gw g);
          v = (\<lambda>i. sensor_values (g_sc_data g) ! i)
      in if ok
         then let pex = sc_watts e (v eSC_PEX_12V) (v eSC_PEX_12V_I_IN);
                  aux0 = sc_watts e (v eSC_AUX_12V) (v eSC_V12_IN_AUX0_I);
                  aux1 = sc_watts e (v eSC_AUX1_12V) (v eSC_V12_IN_AUX1_I);
                  w' = w\<lparr>pl_total_power := fo_add F (fo_add F pex aux0) aux1\<rparr>
              in ((powerMode (g_sc_data g), pex, aux0, aux1), g\<lparr>gw := ne_sc_unlock se w'\<rparr>)
         else ((0, zero, zero, zero), g\<lparr>gw := w\<rparr>))"

definition Vck5000_Power_Monitor :: "('b, 'f, 'd) plat_env \<Rightarrow> ('b, 'f) pglvr \<Rightarrow> ('b, 'f) pglvr" where
  "Vck5000_Power_Monitor e g =
     (let D = dbl e; ((mode, pex, aux0, aux1), g1) = read_powers e g;
          l12 = fo_int D 69; l24 = fo_int D 153; l23 = fo_int D 78;
          (c, g2) = power_watch e (at_least e l12 pex) (less_than e l12 pex) (pl_count_12vpex (gw g1)) g1;
          g3 = on_plat (\<lambda>p. p\<lparr>pl_count_12vpex := c\<rparr>) g2
      in if mode = POWER_MODE_300W
         then let (c', g4) = power_watch e (at_least e l24 aux0 \<or> at_least e l23 aux1)
                               (less_than e l24 aux0 \<and> less_than e l23 aux1) (pl_count_2x4_2x3 (gw g3)) g3
              in on_plat (\<lambda>p. p\<lparr>pl_count_2x4_2x3 := c'\<rparr>) g4
         else let (c', g4) = power_watch e (at_least e l24 aux0) (less_than e l24 aux0) (pl_count_2x4 (gw g3)) g3
              in on_plat (\<lambda>p. p\<lparr>pl_count_2x4 := c'\<rparr>) g4)"

text \<open>The readings of the satellite controller are taken over without its lock.\<close>

definition take_sc_readings :: "('b, 'f, 'd) plat_env \<Rightarrow> ('b, 'f) pglvr \<Rightarrow> ('b, 'f) pglvr" where
  "take_sc_readings e g =
     (let v = (\<lambda>i. fo_word (flt e) (sensor_values (g_sc_data g) ! i));
          g1 = set_voltage e12V_PEX (v eSC_PEX_12V) g;
          g2 = set_voltage e12V_AUX0 (v eSC_AUX_12V) g1;
          g3 = set_voltage e12V_AUX1 (v eSC_AUX1_12V) g2;
          g4 = set_current e12V_PEX (v eSC_PEX_12V_I_IN) g3;
          g5 = set_current e12V_AUX0 (v eSC_V12_IN_AUX0_I) g4;
          g6 = set_current e12V_AUX1 (v eSC_V12_IN_AUX1_I) g5
      in g6\<lparr>g_readings := (g_readings g6)\<lparr>pr_vccint_temp := v eSC_VCCINT_TEMP\<rparr>\<rparr>)"

definition VCK5000_Monitor_Sensors :: "('b, 'f, 'd) plat_env \<Rightarrow> ('b, 'f) pglvr \<Rightarrow> ('b, 'f) pglvr option" where
  "VCK5000_Monitor_Sensors e g =
     in_turn [Vck5000_Temperature_Monitor e, \<lambda>g. Some (Vck5000_Power_Monitor e g)] (take_sc_readings e g)"

section \<open>Names\<close>

definition Vck5000_Get_Current_Names :: "('b, 'f, 'd) plat_env \<Rightarrow> ('b, 'f) pglvr name_fun" where
  "Vck5000_Get_Current_Names e = (let f = PMBUS_SC_Sensor_Read (pe_sensors e) in name_entry
     [(''12v_pex'', Some (of_nat eSC_PEX_12V_I_IN), f), (''12v_aux_0'', Some (of_nat eSC_V12_IN_AUX0_I), f),
      (''12v_aux_1'', Some (of_nat eSC_V12_IN_AUX1_I), f)])"

definition Vck5000_Get_Voltage_Names :: "('b, 'f, 'd) plat_env \<Rightarrow> ('b, 'f) pglvr name_fun" where
  "Vck5000_Get_Voltage_Names e = (let f = PMBUS_SC_Sensor_Read (pe_sensors e) in name_entry
     [(''12v_pex'', Some (of_nat eSC_PEX_12V), f), (''3v3_pex'', Some (of_nat eSC_PEX_3V3), f),
      (''3v3_aux'', Some (of_nat eSC_AUX_3V3), f), (''12v_aux_0'', Some (of_nat eSC_AUX_12V), f),
      (''12v_aux_1'', Some (of_nat eSC_AUX1_12V), f)])"

text \<open>The monitor of a cage is \<open>Temperature_Read_QSFP\<close>, which calls the platform through a pointer.\<close>

definition Vck5000_Get_QSFP_Name :: "(('b, 'f) plat, 'f) platform_functions \<Rightarrow> ('b, 'f) pglvr name_fun" where
  "Vck5000_Get_QSFP_Name pf = (let f = Temperature_Read_QSFP pf in name_entry
     [(''cage_temp_0'', Some eSC_CAGE_TEMP0, f), (''cage_temp_1'', Some eSC_CAGE_TEMP1, f)])"

section \<open>Start\<close>

definition Build_clock_throttling_profile_VCK5000 :: "('b, 'f, 'd) plat_env \<Rightarrow> 'f throttling_profile" where
  "Build_clock_throttling_profile_VCK5000 e = (let F = flt e in
     \<lparr>tp_NumberOfSensors = 3, tp_VoltageSensorID = [0, 4, 5, 0, 0], tp_CurrentSensorID = [0, 4, 5, 0, 0],
      tp_NominalVoltage = [12000, 12000, 12000, 0, 0], tp_throttlingThresholdCurrent = [5500, 12500, 6250, 0, 0],
      tp_IdlePower = fo_int F 21000000, tp_bVCCIntThermalThrottling = True,
      tp_FPGATempThrottlingLimit = 95, tp_VccIntTempThrottlingLimit = 105,
      tp_PowerThrottlingLimit = 66 + 75 + 150, tp_TempThrottlingLimit = 95,
      tp_TempGainKpFPGA = fo_int F 3000000, tp_TempGainKi = fo_int F 2500, tp_TempGainKpVCCInt = fo_int F 15000000,
      tp_TempGainKaw = fp_narrow (pe_fpu e) (quotient (dbl e) 55 100000),
      tp_IntegrataionSumInitial = fo_int F 115000000\<rparr>)"

definition vck5000_clk_scaling_params_init :: "'f throttling \<Rightarrow> clk_params \<Rightarrow> clk_params" where
  "vck5000_clk_scaling_params_init t =
     init_clk_params 100 (69 + 78 + 153) (ucast (FPGATempThrottlingLimit t)) (PowerThrottlingLimit t)"

text \<open>The start waits until the fan controller is programmed.\<close>

partial_function (option) init_fans :: "'b i2c_ops \<Rightarrow> 'b \<Rightarrow> 'b option" where
  "init_fans io b =
     (case max6639_init io 1 SLAVE_ADDRESS_MAX6639 b of
        None \<Rightarrow> None
      | Some (st, b') \<Rightarrow> if st \<noteq> 0 then init_fans io b' else Some b')"

definition Vck5000_Init ::
    "('b, 'f, 'd) plat_env \<Rightarrow> ('b, 'f) pglvr \<Rightarrow> (int \<times> ('b, 'f) pointers \<times> ('b, 'f) pglvr) option" where
  "Vck5000_Init e g = do {
     (u, g1) \<leftarrow> on_bus (\<lambda>b. map_option (Pair ()) (init_fans (pe_i2c e) b)) g;
     g2 \<leftarrow> init_throttling e (Build_clock_throttling_profile_VCK5000 e) g1;
     let g3 = g2\<lparr>g_clk_params := vck5000_clk_scaling_params_init (g_throttling g2) (g_clk_params g2)\<rparr>;
     Some (XST_SUCCESS,
       \<lparr>pp_msg_ids = Some VCK5000_VMC_SC_Comms_Msg, pp_total_req_size = length VCK5000_VMC_SC_Comms_Msg,
        pp_fetch_boardinfo = Vck5000_VMC_Fetch_BoardInfo, pp_Monitor_Sensors = VCK5000_Monitor_Sensors e,
        pp_supported_sdr_info = Vck5000_Get_Supported_Sdr_Info,
        pp_update_record_count = Vck5000_Asdm_Update_Record_Count\<rparr>, g3) }"

end
