(* ===== verification/Vmc_Main.thy ===== *)
theory Vmc_Main
  imports Vmc_V70 Vmc_V80 Vmc_Vck5000
begin

text \<open>Model of \<open>vmc/vmc_main.c\<close>: the choice of the platform by the product name, the tables of its
  functions, and the start of the VMC.  The creation of locks is FreeRTOS and always succeeds (it is
  asserted); the UART is \<open>Cl_Uart\<close>, of which the start needs the status only.\<close>

section \<open>The platforms\<close>

definition platform_names :: "(ePlatformType \<times> bytes) list" where
  "platform_names =
     [(eVCK5000, chars ''V350''), (eVCK5000, chars ''VCK5000''), (eV70, chars ''V70''), (eV80, chars ''V80'')]"

datatype eSensor_Functions =
    eTemperature_Sensor_Inlet | eTemperature_Sensor_Outlet | eTemperature_Sensor_Board | eTemperature_Sensor_QSFP
  | eTemperature_Sensors | eVccint_Temp | eVoltage_Sensors | eCurrent_Sensors | eQSFP_Sensors | ePower_Sensor

type_synonym ('b, 'f) handler_entry =
  "ePlatformType \<times> eSensor_Functions \<times> (('b, 'f) plat, 'f) monitor_fun option \<times> ('b, 'f) pglvr name_fun option"

definition platform_sensor_handlers ::
    "('b, 'f, 'd) plat_env \<Rightarrow> (('b, 'f) plat, 'f) platform_functions \<Rightarrow> ('b, 'f) handler_entry list" where
  "platform_sensor_handlers e pf =
    [(eVCK5000, eTemperature_Sensor_Inlet, Some (Vck5000_Temperature_Read_Inlet e), None),
     (eVCK5000, eTemperature_Sensor_Outlet, Some (Vck5000_Temperature_Read_Outlet e), None),
     (eVCK5000, eTemperature_Sensor_Board, Some Vck5000_Temperature_Read_Board, None),
     (eVCK5000, eTemperature_Sensor_QSFP, Some (Vck5000_Temperature_Read_QSFP e), None),
     (eVCK5000, eVccint_Temp, Some (Vck5000_Temperature_Read_Vccint e), None),
     (eVCK5000, eVoltage_Sensors, None, Some (Vck5000_Get_Voltage_Names e)),
     (eVCK5000, eCurrent_Sensors, None, Some (Vck5000_Get_Current_Names e)),
     (eVCK5000, eQSFP_Sensors, None, Some (Vck5000_Get_QSFP_Name pf)),
     (eVCK5000, ePower_Sensor, Some (Vck5000_Asdm_Read_Power e), None),
     (eV70, eTemperature_Sensor_Inlet, Some (V70_Temperature_Read_Inlet e), None),
     (eV70, eTemperature_Sensor_Outlet, Some (V70_Temperature_Read_Outlet e), None),
     (eV70, eTemperature_Sensor_Board, Some V70_Temperature_Read_Board, None),
     (eV70, eVccint_Temp, Some (V70_Asdm_Read_Temp_Vccint e), None),
     (eV70, eVoltage_Sensors, None, Some (V70_Get_Voltage_Names e)),
     (eV70, eCurrent_Sensors, None, Some (V70_Get_Current_Names e)),
     (eV70, ePower_Sensor, Some (V70_Asdm_Read_Power e), None),
     (eV80, eTemperature_Sensor_Inlet, Some (scV80AsdmTemperatureReadInlet e), None),
     (eV80, eTemperature_Sensor_Outlet, Some (scV80AsdmTemperatureReadOutlet e), None),
     (eV80, eTemperature_Sensor_Board, Some scV80AsdmTemperatureReadBoard, None),
     (eV80, eTemperature_Sensors, None, Some (scV80AsdmGetTemperatureNames e)),
     (eV80, eVccint_Temp, Some (scV80AsdmTemperatureReadVccint e), None),
     (eV80, eVoltage_Sensors, None, Some (scV80AsdmGetVoltageNames e)),
     (eV80, eCurrent_Sensors, None, Some (scV80AsdmGetCurrentNames e)),
     (eV80, eQSFP_Sensors, None, Some (scV80AsdmGetQSFPName e)),
     (eV80, ePower_Sensor, Some (scV80AsdmReadPower e), None)]"

definition Vmc_Find_Sensor_Handler ::
    "('b, 'f, 'd) plat_env \<Rightarrow> (('b, 'f) plat, 'f) platform_functions \<Rightarrow> ePlatformType \<Rightarrow> eSensor_Functions
       \<Rightarrow> (('b, 'f) plat, 'f) monitor_fun option" where
  "Vmc_Find_Sensor_Handler e pf p t =
     (case filter (\<lambda>(q, u, m, n). p = q \<and> t = u) (platform_sensor_handlers e pf) of
        [] \<Rightarrow> None | (q, u, m, n) # hs \<Rightarrow> m)"

definition Vmc_Find_Sensor_Name_Handler ::
    "('b, 'f, 'd) plat_env \<Rightarrow> (('b, 'f) plat, 'f) platform_functions \<Rightarrow> ePlatformType \<Rightarrow> eSensor_Functions
       \<Rightarrow> ('b, 'f) pglvr name_fun option" where
  "Vmc_Find_Sensor_Name_Handler e pf p t =
     (case filter (\<lambda>(q, u, m, n). p = q \<and> t = u) (platform_sensor_handlers e pf) of
        [] \<Rightarrow> None | (q, u, m, n) # hs \<Rightarrow> n)"

type_synonym ('b, 'f) init_fun = "('b, 'f) pglvr \<Rightarrow> (int \<times> ('b, 'f) pointers \<times> ('b, 'f) pglvr) option"

text \<open>The entries \<open>ePlatform_Init\<close> of the table of platform functions; of \<open>eSc_Comms\<close> only the VCK5000 has
  a function.\<close>

fun platform_init_of :: "('b, 'f, 'd) plat_env \<Rightarrow> ePlatformType \<Rightarrow> ('b, 'f) init_fun option" where
  "platform_init_of e eVCK5000 = Some (Vck5000_Init e)"
| "platform_init_of e eV70 = Some (V70_Init e)"
| "platform_init_of e eV80 = Some (ucV80Init e)"
| "platform_init_of e eMax_Platforms = None"

fun platform_sc_comms_of :: "('w, 'e) sc_env_scheme \<Rightarrow> ePlatformType \<Rightarrow> ('w vmc_sc \<Rightarrow> 'w vmc_sc option) option" where
  "platform_sc_comms_of e eVCK5000 = Some (Vck5000_Vmc_Sc_Comms e)"
| "platform_sc_comms_of e _ = None"

section \<open>The choice\<close>

text \<open>\<open>strstr\<close> on the characters before the terminator.\<close>

fun strstr :: "bytes \<Rightarrow> bytes \<Rightarrow> bool" where
  "strstr [] pat = (pat = [])"
| "strstr (x # xs) pat = (take (length pat) (x # xs) = pat \<or> strstr xs pat)"

definition c_chars :: "bytes \<Rightarrow> bytes" where
  "c_chars bs = takeWhile (\<lambda>c. c \<noteq> 0) bs"

definition find_platform :: "bytes \<Rightarrow> ePlatformType option" where
  "find_platform name =
     (case filter (\<lambda>(p, n). strstr (c_chars name) n) platform_names of [] \<Rightarrow> None | (p, n) # ps \<Rightarrow> Some p)"

text \<open>The pointer of the QSFP cages is not among the pointers that are set.\<close>

definition sensor_pointers ::
    "('b, 'f, 'd) plat_env \<Rightarrow> ePlatformType \<Rightarrow> (('b, 'f) plat, 'f) platform_functions
      \<Rightarrow> (('b, 'f) plat, 'f) platform_functions" where
  "sensor_pointers e p pf =
     (let m = Vmc_Find_Sensor_Handler e pf p; n = Vmc_Find_Sensor_Name_Handler e pf p in
      pf\<lparr>Temperature_Read_Inlet_Ptr := m eTemperature_Sensor_Inlet,
         Temperature_Read_Outlet_Ptr := m eTemperature_Sensor_Outlet,
         Temperature_Read_Board_Ptr := m eTemperature_Sensor_Board,
         Temperature_Read_Ptr := n eTemperature_Sensors,
         Voltage_Read_Ptr := n eVoltage_Sensors,
         Current_Read_Ptr := n eCurrent_Sensors,
         QSFP_Read_Ptr := n eQSFP_Sensors,
         Temperature_Read_VCCINT_Ptr := m eVccint_Temp,
         Power_Read_Ptr := m ePower_Sensor\<rparr>)"

record ('b, 'f) vmc_main =
  vmc_is_ready :: bool
  current_platform :: ePlatformType
  platform_init_ptr :: "('b, 'f) init_fun option"
  vm_functions :: "(('b, 'f) plat, 'f) platform_functions"
  vm_pointers :: "('b, 'f) pointers option"
  vm_sensors :: "(('b, 'f) plat, 'f) sensors"

abbreviation vm_glvr :: "('b, 'f) vmc_main \<Rightarrow> ('b, 'f) pglvr" where "vm_glvr s \<equiv> aw (sn_asdm (vm_sensors s))"

definition put_glvr :: "('b, 'f) pglvr \<Rightarrow> ('b, 'f) vmc_main \<Rightarrow> ('b, 'f) vmc_main" where
  "put_glvr g s = s\<lparr>vm_sensors := (vm_sensors s)\<lparr>sn_asdm := (sn_asdm (vm_sensors s))\<lparr>aw := g\<rparr>\<rparr>\<rparr>"

definition Vmc_ConfigurePlatform :: "('b, 'f, 'd) plat_env \<Rightarrow> bytes \<Rightarrow> ('b, 'f) vmc_main \<Rightarrow> int \<times> ('b, 'f) vmc_main" where
  "Vmc_ConfigurePlatform e name s =
     (case find_platform name of
        None \<Rightarrow> (XST_FAILURE, s)
      | Some p \<Rightarrow> (XST_SUCCESS, s\<lparr>current_platform := p, platform_init_ptr := platform_init_of e p,
                      vm_functions := sensor_pointers e p (vm_functions s)\<rparr>))"

definition Vmc_Get_PlatformType :: "('b, 'f) vmc_main \<Rightarrow> ePlatformType" where
  "Vmc_Get_PlatformType s = current_platform s"

section \<open>The start\<close>

text \<open>A null pointer to the start of the platform is called nevertheless.\<close>

definition Init_Platform :: "('b, 'f) vmc_main \<Rightarrow> (int \<times> ('b, 'f) vmc_main) option" where
  "Init_Platform s = do {
     f \<leftarrow> platform_init_ptr s;
     (st, ptrs, g) \<leftarrow> f (vm_glvr s);
     Some (st, (put_glvr g s)\<lparr>vm_pointers := Some ptrs\<rparr>) }"

definition read_board :: "('b, 'f, 'd) plat_env \<Rightarrow> ('b, 'f) vmc_main \<Rightarrow> (int \<times> ('b, 'f) vmc_main) option" where
  "read_board e s = do {
     let p = gw (vm_glvr s);
     (st, bd) \<leftarrow> Versal_EEPROM_ReadBoardInfo (pe_i2c e)
                    \<lparr>bd_info = pl_info p, bd_bus = snd (cl_I2CInit (pe_i2c e) (pl_bus p))\<rparr>;
     Some (st, put_glvr (on_plat (\<lambda>p. p\<lparr>pl_info := bd_info bd, pl_bus := bd_bus bd\<rparr>) (vm_glvr s)) s) }"

text \<open>The fields of the board information that the repositories show.\<close>

definition board_info_fields :: "bytes \<Rightarrow> board_info" where
  "board_info_fields info =
     (let f = (\<lambda>p k. take k (drop p info)) in
      \<lparr>bi_product_name = f product_name_at 25, bi_board_serial = f board_serial_at 15,
       bi_board_part_num = f board_part_num_at 25, bi_board_rev = f board_rev_at 9,
       bi_board_mfg_date = f board_mfg_date_at 4, bi_board_uuid = f board_uuid_at 17,
       bi_board_mac = map (\<lambda>i. f (board_mac_at + 7 * i) 7) [0..<4],
       bi_board_act_pas = f board_act_pas_at 2, bi_OEM_ID = f OEM_ID_at 5\<rparr>)"

definition main_asdm_env :: "('b, 'f, 'd) plat_env \<Rightarrow> ('b, 'f) vmc_main \<Rightarrow> ('b, 'f) pglvr asdm_env" where
  "main_asdm_env e s =
     (let se = (pe_sensors e)\<lparr>ne_platform := current_platform s\<rparr>
      in (ne_asdm se)\<lparr>ae_sources := platform_sources se (vm_functions s),
           ae_supported := map_option pp_supported_sdr_info (vm_pointers s),
           ae_record_count := map_option pp_update_record_count (vm_pointers s),
           ae_sc_version := (\<lambda>g. scVersion (g_sc_data g)),
           ae_board_info := (\<lambda>g. board_info_fields (pl_info (gw g)))\<rparr>)"

definition start_asdm :: "('b, 'f, 'd) plat_env \<Rightarrow> ('b, 'f) vmc_main \<Rightarrow> (int \<times> ('b, 'f) vmc_main) option" where
  "start_asdm e s = do {
     (st, a) \<leftarrow> Init_Asdm (main_asdm_env e s) (sn_asdm (vm_sensors s));
     let s' = s\<lparr>vm_sensors := (vm_sensors s)\<lparr>sn_asdm := a\<rparr>\<rparr>;
     Some (if st \<noteq> 0 then (- EINVAL, s') else (0, s'\<lparr>vmc_is_ready := True\<rparr>)) }"

definition cl_vmc_init ::
    "('b, 'f, 'd) plat_env \<Rightarrow> (ePlatformType \<Rightarrow> ('b, 'f) plat \<Rightarrow> int \<times> ('b, 'f) plat) \<Rightarrow> ('b, 'f) vmc_main
      \<Rightarrow> (int \<times> ('b, 'f) vmc_main) option" where
  "cl_vmc_init e uart_enable s = do {
     (st, s1) \<leftarrow> read_board e s;
     if st = XST_FAILURE then Some (- EINVAL, s1\<lparr>vmc_is_ready := False\<rparr>)
     else do {
       let (st2, s2) = Vmc_ConfigurePlatform e (drop product_name_at (pl_info (gw (vm_glvr s1)))) s1;
       if st2 = XST_FAILURE then Some (- EINVAL, s2\<lparr>vmc_is_ready := False\<rparr>)
       else do {
         (st3, s3) \<leftarrow> Init_Platform s2;
         if st3 \<noteq> XST_SUCCESS then Some (- EINVAL, s3)
         else do {
           let (st4, p) = uart_enable (current_platform s3) (gw (vm_glvr s3));
           let s4 = put_glvr ((vm_glvr s3)\<lparr>gw := p\<rparr>) s3;
           if st4 \<noteq> XST_SUCCESS then Some (- EINVAL, s4) else start_asdm e s4 } } } }"

definition cl_vmc_is_ready :: "('b, 'f) vmc_main \<Rightarrow> bool" where
  "cl_vmc_is_ready s \<longleftrightarrow> cl_vmc_sysmon_is_ready (vm_glvr s) \<noteq> 0 \<and> vmc_is_ready s"

end
