(* ===== verification/Spec2Isabelle.thy ===== *)
theory Spec2Isabelle
  imports Cl_Xgq_Receive Cl_Dispatch Cl_Xgq_Client Ospi_Props Rmgmt_Fpt_Props Rmgmt_Xfer_Props Rmgmt_Fdt Rmgmt_Report_Props Vmc_Sensors_Props Vmc_Update_Sc_Props Vmc_Board_Props Vmc_Main
begin

text \<open>A model of the Versal Management Runtime firmware (VMR, \<open>vmr/src\<close>).\<close>

end
